(* ===== verification/Prelude.thy ===== *)
theory Prelude
  imports Main "HOL-Library.AList" "HOL-Library.List_Lexorder"
    "HOL-Library.Product_Lexorder" "HOL-Library.Char_ord" "HOL-Library.Sublist"
begin

text \<open>
  Shared vocabulary of the development.

  \<^item> Python exceptions are values: a fallible operation returns \<open>'e + 'a\<close>, with
    \<open>Inl\<close> the raised exception. \<open>rbind\<close>, \<open>require\<close>, \<open>foldM\<close> and \<open>mapM\<close> are the
    statement sequencing, the guarded \<open>raise\<close>, the \<open>for\<close> loop over mutable locals
    and the list comprehension whose body may raise.
  \<^item> A Python \<open>dict\<close> keeps its insertion order, and the code iterates over
    \<open>values()\<close>, so a dictionary is an association list with distinct keys;
    \<open>AList.update\<close> is \<open>d[k] = v\<close> (in place for a present key, at the end otherwise)
    and \<open>map_of\<close> is \<open>d.get(k)\<close>.
  \<^item> \<open>sorted(xs, key=f)\<close> is the library's stable \<open>sort_key\<close>; strings compare by
    code point and tuples lexicographically, which are the orders of the imported
    \<open>Char_ord\<close>, \<open>List_Lexorder\<close> and \<open>Product_Lexorder\<close>.
  \<^item> \<open>range(0, len(xs), k)\<close> slicing is \<open>py_chunks\<close>.
  \<^item> The locale \<open>result_fold\<close> is the contract shared by every event loop of the
    program: a step that may raise and that keeps an invariant.
\<close>

section \<open>Fallible computations\<close>

named_theorems result_simps \<open>inversion rules for computations that returned\<close>

type_synonym ('k, 'v) dict = "('k \<times> 'v) list"

fun rbind :: "'e + 'a \<Rightarrow> ('a \<Rightarrow> 'e + 'b) \<Rightarrow> 'e + 'b" where
  "rbind (Inl e) f = Inl e"
| "rbind (Inr x) f = f x"

definition require :: "bool \<Rightarrow> 'e \<Rightarrow> 'e + unit" where
  "require b e = (if b then Inr () else Inl e)"

definition of_option :: "'e \<Rightarrow> 'a option \<Rightarrow> 'e + 'a" where
  "of_option e m = (case m of None \<Rightarrow> Inl e | Some x \<Rightarrow> Inr x)"

definition lift_error :: "('e \<Rightarrow> 'f) \<Rightarrow> 'e + 'a \<Rightarrow> 'f + 'a" where
  "lift_error g m = (case m of Inl e \<Rightarrow> Inl (g e) | Inr x \<Rightarrow> Inr x)"

fun foldM :: "('s \<Rightarrow> 'a \<Rightarrow> 'e + 's) \<Rightarrow> 's \<Rightarrow> 'a list \<Rightarrow> 'e + 's" where
  "foldM f s [] = Inr s"
| "foldM f s (x # xs) = rbind (f s x) (\<lambda>s'. foldM f s' xs)"

fun mapM :: "('a \<Rightarrow> 'e + 'b) \<Rightarrow> 'a list \<Rightarrow> 'e + 'b list" where
  "mapM f [] = Inr []"
| "mapM f (x # xs) = rbind (f x) (\<lambda>y. rbind (mapM f xs) (\<lambda>ys. Inr (y # ys)))"

text \<open>\<open>any(...)\<close> and \<open>all(...)\<close> over a generator whose body may raise: both stop early.\<close>

fun anyM :: "('a \<Rightarrow> 'e + bool) \<Rightarrow> 'a list \<Rightarrow> 'e + bool" where
  "anyM f [] = Inr False"
| "anyM f (x # xs) = rbind (f x) (\<lambda>b. if b then Inr True else anyM f xs)"

fun allM :: "('a \<Rightarrow> 'e + bool) \<Rightarrow> 'a list \<Rightarrow> 'e + bool" where
  "allM f [] = Inr True"
| "allM f (x # xs) = rbind (f x) (\<lambda>b. if b then allM f xs else Inr False)"

lemma rbind_Inr_iff [result_simps]:
  "rbind m f = Inr y \<longleftrightarrow> (\<exists>x. m = Inr x \<and> f x = Inr y)"
  by (cases m) auto

lemma rbind_Inl_iff:
  "rbind m f = Inl e \<longleftrightarrow> m = Inl e \<or> (\<exists>x. m = Inr x \<and> f x = Inl e)"
  by (cases m) auto

lemma rbind_assoc: "rbind (rbind m f) g = rbind m (\<lambda>x. rbind (f x) g)"
  by (cases m) auto

lemma require_simps [simp]: "require True e = Inr ()" "require False e = Inl e"
  by (simp_all add: require_def)

lemma require_Inr_iff [result_simps]: "require b e = Inr u \<longleftrightarrow> b"
  by (simp add: require_def)

lemma require_Inl_iff: "require b e = Inl e' \<longleftrightarrow> \<not> b \<and> e' = e"
  by (auto simp: require_def)

lemma of_option_simps [simp]: "of_option e None = Inl e" "of_option e (Some x) = Inr x"
  by (simp_all add: of_option_def)

lemma of_option_Inr_iff [result_simps]: "of_option e m = Inr x \<longleftrightarrow> m = Some x"
  by (auto simp: of_option_def split: option.splits)

lemma lift_error_simps [simp]: "lift_error g (Inl e) = Inl (g e)" "lift_error g (Inr x) = Inr x"
  by (simp_all add: lift_error_def)

lemma lift_error_Inr_iff [result_simps]: "lift_error g m = Inr x \<longleftrightarrow> m = Inr x"
  by (cases m) auto

lemma foldM_append: "foldM f s (xs @ ys) = rbind (foldM f s xs) (\<lambda>s'. foldM f s' ys)"
  by (induction xs arbitrary: s) (auto simp: rbind_assoc)

lemma foldM_snoc_Inr [result_simps]:
  "foldM f s (xs @ [x]) = Inr s' \<longleftrightarrow> (\<exists>t. foldM f s xs = Inr t \<and> f t x = Inr s')"
  by (simp add: foldM_append rbind_Inr_iff)

lemma mapM_Inr_iff: "mapM f xs = Inr ys \<longleftrightarrow> list_all2 (\<lambda>x y. f x = Inr y) xs ys"
  by (induction xs arbitrary: ys) (auto simp: rbind_Inr_iff list_all2_Cons1)

lemma mapM_length: "mapM f xs = Inr ys \<Longrightarrow> length ys = length xs"
  by (simp add: mapM_Inr_iff list_all2_lengthD)

lemma mapM_memD:
  assumes "mapM f xs = Inr ys" and "y \<in> set ys"
  shows "\<exists>x \<in> set xs. f x = Inr y"
  using assms by (fastforce simp: mapM_Inr_iff list_all2_conv_all_nth in_set_conv_nth)

lemma mapM_memI:
  assumes "mapM f xs = Inr ys" and "x \<in> set xs"
  shows "\<exists>y \<in> set ys. f x = Inr y"
  using assms by (fastforce simp: mapM_Inr_iff list_all2_conv_all_nth in_set_conv_nth)

lemma mapM_eq_map: "mapM f xs = Inr ys \<Longrightarrow> ys = map (\<lambda>x. projr (f x)) xs"
  by (induction xs arbitrary: ys) (auto simp: rbind_Inr_iff)

lemma anyM_total:
  assumes "\<And>x. x \<in> set xs \<Longrightarrow> f x = Inr (g x)"
  shows "anyM f xs = Inr (\<exists>x \<in> set xs. g x)"
  using assms by (induction xs) auto

lemma allM_total:
  assumes "\<And>x. x \<in> set xs \<Longrightarrow> f x = Inr (g x)"
  shows "allM f xs = Inr (\<forall>x \<in> set xs. g x)"
  using assms by (induction xs) auto

lemma mapM_total:
  assumes "\<And>x. x \<in> set xs \<Longrightarrow> f x = Inr (g x)"
  shows "mapM f xs = Inr (map g xs)"
  using assms by (induction xs) auto

lemma foldM_no_error:
  assumes "\<And>s x. x \<in> set xs \<Longrightarrow> f s x \<noteq> Inl e"
  shows "foldM f s xs \<noteq> Inl e"
  using assms by (induction xs arbitrary: s) (auto simp: rbind_Inl_iff)

lemma rbind_no_error: "m \<noteq> Inl e \<Longrightarrow> (\<And>x. m = Inr x \<Longrightarrow> f x \<noteq> Inl e) \<Longrightarrow> rbind m f \<noteq> Inl e"
  by (cases m) auto

lemma mapM_no_error: "(\<And>x. x \<in> set xs \<Longrightarrow> f x \<noteq> Inl e) \<Longrightarrow> mapM f xs \<noteq> Inl e"
  by (induction xs) (auto simp: rbind_Inl_iff)

lemma list_all2_mem: "list_all2 P xs ys \<Longrightarrow> x \<in> set xs \<Longrightarrow> \<exists>y \<in> set ys. P x y"
  by (induction rule: list_all2_induct) auto

lemma le_rtranclp: "(\<le>)\<^sup>*\<^sup>* a b \<Longrightarrow> a \<le> (b :: 'a::order)"
  by (induction rule: rtranclp_induct) auto

section \<open>Loops that keep an invariant\<close>

text \<open>
  The contract of an event loop: the body may raise, and where it returns it keeps the
  loop's invariant. Each loop of the program interprets this locale on its own step.
\<close>

locale result_fold =
  fixes step :: "'s \<Rightarrow> 'a \<Rightarrow> 'e + 's" and inv :: "'s \<Rightarrow> bool"
  assumes step_inv: "inv s \<Longrightarrow> step s x = Inr t \<Longrightarrow> inv t"
begin

lemma run_inv: "inv s \<Longrightarrow> foldM step s xs = Inr t \<Longrightarrow> inv t"
  by (induction xs arbitrary: s) (auto simp: rbind_Inr_iff intro: step_inv)

lemma run_split:
  assumes "inv s" and "foldM step s (xs @ ys) = Inr t"
  obtains u where "foldM step s xs = Inr u" and "inv u" and "foldM step u ys = Inr t"
  using assms run_inv by (auto simp: foldM_append rbind_Inr_iff)

lemma run_take:
  assumes "inv s" and "foldM step s xs = Inr t"
  shows "\<exists>u. foldM step s (take n xs) = Inr u \<and> inv u"
  using assms run_split [of s "take n xs" "drop n xs" t] by auto

end

text \<open>A loop whose steps move an observed component along a transition relation.\<close>

locale result_trace = result_fold step inv
  for step :: "'s \<Rightarrow> 'a \<Rightarrow> 'e + 's" and inv :: "'s \<Rightarrow> bool" +
  fixes obs :: "'s \<Rightarrow> 'o" and move :: "'o \<Rightarrow> 'o \<Rightarrow> bool"
  assumes step_move: "inv s \<Longrightarrow> step s x = Inr t \<Longrightarrow> move\<^sup>*\<^sup>* (obs s) (obs t)"
begin

lemma run_move: "inv s \<Longrightarrow> foldM step s xs = Inr t \<Longrightarrow> move\<^sup>*\<^sup>* (obs s) (obs t)"
proof (induction xs arbitrary: s)
  case Nil
  then show ?case by simp
next
  case (Cons x xs)
  then obtain u where u: "step s x = Inr u" "foldM step u xs = Inr t"
    by (auto simp: rbind_Inr_iff)
  with Cons.prems(1) have "move\<^sup>*\<^sup>* (obs s) (obs u)" and "inv u"
    using step_move step_inv by blast+
  with Cons.IH [OF \<open>inv u\<close> u(2)] show ?case by (meson rtranclp_trans)
qed

end

section \<open>Dictionaries\<close>

abbreviation dict_keys :: "('k, 'v) dict \<Rightarrow> 'k list" where
  "dict_keys d \<equiv> map fst d"

abbreviation dict_values :: "('k, 'v) dict \<Rightarrow> 'v list" where
  "dict_values d \<equiv> map snd d"

abbreviation dict_ok :: "('k, 'v) dict \<Rightarrow> bool" where
  "dict_ok d \<equiv> distinct (map fst d)"

lemma map_of_update [simp]: "map_of (AList.update k v d) = (map_of d)(k \<mapsto> v)"
  by (rule update_conv')

lemma dict_ok_update [simp]: "dict_ok d \<Longrightarrow> dict_ok (AList.update k v d)"
  by (rule distinct_update)

lemma keys_update: "fst ` set (AList.update k v d) = insert k (fst ` set d)"
  by (metis dom_map_of_conv_image_fst map_of_update dom_fun_upd option.simps(3))

lemma keys_update_present:
  "k \<in> fst ` set d \<Longrightarrow> map fst (AList.update k v d) = map fst d"
  by (induction d) auto

lemma keys_update_absent:
  "k \<notin> fst ` set d \<Longrightarrow> AList.update k v d = d @ [(k, v)]"
  by (induction d) auto

lemma dict_values_iff: "dict_ok d \<Longrightarrow> v \<in> set (dict_values d) \<longleftrightarrow> (\<exists>k. map_of d k = Some v)"
  by (auto intro: rev_image_eqI)

lemma dict_values_update:
  "set (dict_values (AList.update k v d)) \<subseteq> insert v (set (dict_values d))"
  by (induction d) auto

lemma map_of_map_values: "map_of (map (\<lambda>(k, v). (k, f k v)) d) k = map_option (f k) (map_of d k)"
  by (induction d) auto

text \<open>The dict comprehension \<open>{k: v for k, v in pairs}\<close>: a repeated key keeps its place.\<close>

definition mk_dict :: "('k \<times> 'v) list \<Rightarrow> ('k, 'v) dict" where
  "mk_dict ps = foldl (\<lambda>d (k, v). AList.update k v d) [] ps"

lemma foldl_update_distinct:
  "distinct (map fst ps) \<Longrightarrow> fst ` set ps \<inter> fst ` set d = {} \<Longrightarrow>
   foldl (\<lambda>d (k, v). AList.update k v d) d ps = d @ ps"
  by (induction ps arbitrary: d) (auto simp: keys_update_absent)

lemma mk_dict_distinct: "distinct (map fst ps) \<Longrightarrow> mk_dict ps = ps"
  by (simp add: mk_dict_def foldl_update_distinct)

subsection \<open>Dictionaries built and rebuilt value by value\<close>

definition on_values :: "('a \<Rightarrow> 'b) \<Rightarrow> ('k, 'a) dict \<Rightarrow> ('k, 'b) dict" where
  "on_values f d = map (\<lambda>(k, v). (k, f v)) d"

lemma on_values_keys [simp]: "dict_keys (on_values f d) = dict_keys d"
  by (simp add: on_values_def case_prod_unfold comp_def)

lemma on_values_get: "map_of (on_values f d) k = map_option f (map_of d k)"
  unfolding on_values_def by (rule map_of_map_values)

lemma on_values_update:
  "map_of d k = Some v \<Longrightarrow> f v' = f v \<Longrightarrow> on_values f (AList.update k v' d) = on_values f d"
  by (induction d) (auto simp: on_values_def)

lemma on_values_eq_get:
  assumes "on_values f d = on_values f d'" and "map_of d k = Some v"
  shows "\<exists>v'. map_of d' k = Some v' \<and> f v' = f v"
proof -
  have "map_option f (map_of d' k) = Some (f v)"
    using assms on_values_get [of f d k] on_values_get [of f d' k] by simp
  then show ?thesis by auto
qed

lemma sum_update_present:
  fixes f :: "'v \<Rightarrow> int"
  assumes "map_of d k = Some v"
  shows "sum_list (map f (dict_values (AList.update k v' d))) =
    sum_list (map f (dict_values d)) - f v + f v'"
  using assms by (induction d) (auto split: if_splits)

definition values_all :: "('v \<Rightarrow> bool) \<Rightarrow> ('k, 'v) dict \<Rightarrow> bool" where
  "values_all P d \<longleftrightarrow> (\<forall>v \<in> set (dict_values d). P v)"

lemma values_all_update: "values_all P d \<Longrightarrow> P v \<Longrightarrow> values_all P (AList.update k v d)"
  using dict_values_update [of k v d] unfolding values_all_def by blast

lemma values_all_get: "values_all P d \<Longrightarrow> map_of d k = Some v \<Longrightarrow> P v"
  unfolding values_all_def by (force dest: map_of_SomeD)

lemma mk_dict_Nil [simp]: "mk_dict [] = []"
  by (simp add: mk_dict_def)

lemma keys_mk_dict: "fst ` set (mk_dict ps) = fst ` set ps"
proof (induction ps rule: rev_induct)
  case (snoc p ps)
  have "mk_dict (ps @ [p]) = AList.update (fst p) (snd p) (mk_dict ps)"
    by (simp add: mk_dict_def case_prod_unfold)
  with snoc show ?case by (simp add: keys_update)
qed simp

lemma values_mk_dict: "set (dict_values (mk_dict ps)) \<subseteq> snd ` set ps"
proof (induction ps rule: rev_induct)
  case (snoc p ps)
  have "mk_dict (ps @ [p]) = AList.update (fst p) (snd p) (mk_dict ps)"
    by (simp add: mk_dict_def case_prod_unfold)
  with snoc dict_values_update [of "fst p" "snd p" "mk_dict ps"] show ?case
    by (auto simp del: set_map)
qed simp

lemma mapM_keyed:
  assumes "mapM (\<lambda>(k, v). rbind (f k v) (\<lambda>v'. Inr (k, v'))) d = Inr d'"
  shows "dict_keys d' = dict_keys d" and "(k, v') \<in> set d' \<Longrightarrow> \<exists>v. (k, v) \<in> set d \<and> f k v = Inr v'"
proof -
  have "list_all2 (\<lambda>x y. (\<lambda>(k, v). rbind (f k v) (\<lambda>v'. Inr (k, v'))) x = Inr y) d d'"
    using assms by (simp add: mapM_Inr_iff)
  then have "list_all2 (\<lambda>x y. fst x = fst y \<and> f (fst x) (snd x) = Inr (snd y)) d d'"
    by (rule list_all2_mono) (auto simp: result_simps)
  then show "dict_keys d' = dict_keys d"
    and "(k, v') \<in> set d' \<Longrightarrow> \<exists>v. (k, v) \<in> set d \<and> f k v = Inr v'"
    by (induction rule: list_all2_induct) auto
qed

lemma mapM_keyed_get:
  assumes "mapM (\<lambda>(k, v). rbind (f k v) (\<lambda>v'. Inr (k, v'))) d = Inr d'"
  shows "map_of d k = Some v \<Longrightarrow> \<exists>v'. map_of d' k = Some v' \<and> f k v = Inr v'"
    and "map_of d' k = Some v' \<Longrightarrow> \<exists>v. map_of d k = Some v \<and> f k v = Inr v'"
proof -
  have "list_all2 (\<lambda>x y. (\<lambda>(k, v). rbind (f k v) (\<lambda>v'. Inr (k, v'))) x = Inr y) d d'"
    using assms by (simp add: mapM_Inr_iff)
  then have l: "list_all2 (\<lambda>x y. fst x = fst y \<and> f (fst x) (snd x) = Inr (snd y)) d d'"
    by (rule list_all2_mono) (auto simp: result_simps)
  from l show "map_of d k = Some v \<Longrightarrow> \<exists>v'. map_of d' k = Some v' \<and> f k v = Inr v'"
    by (induction rule: list_all2_induct) (auto split: if_splits)
  from l show "map_of d' k = Some v' \<Longrightarrow> \<exists>v. map_of d k = Some v \<and> f k v = Inr v'"
    by (induction rule: list_all2_induct) (auto split: if_splits)
qed

lemma dict_ok_mk_dict: "dict_ok (mk_dict ps)"
proof (induction ps rule: rev_induct)
  case (snoc p ps)
  have "mk_dict (ps @ [p]) = AList.update (fst p) (snd p) (mk_dict ps)"
    by (simp add: mk_dict_def case_prod_unfold)
  with snoc show ?case by simp
qed simp

section \<open>Slices of a list\<close>

text \<open>
  The comprehension \<open>[xs[o : o + k] for o in range(0, len(xs), k)]\<close>. A zero step makes
  \<open>range\<close> raise, a negative step makes it empty.
\<close>

fun chunks :: "nat \<Rightarrow> 'a list \<Rightarrow> 'a list list" where
  "chunks k xs = (if k = 0 \<or> xs = [] then [] else take k xs # chunks k (drop k xs))"

declare chunks.simps [simp del]

definition py_chunks :: "'e \<Rightarrow> int \<Rightarrow> 'a list \<Rightarrow> 'e + 'a list list" where
  "py_chunks e k xs = (if k = 0 then Inl e else if k < 0 then Inr [] else Inr (chunks (nat k) xs))"

lemma chunks_Nil [simp]: "chunks k [] = []" "chunks 0 xs = []"
  by (simp_all add: chunks.simps [of k] chunks.simps [of 0])

lemma concat_chunks: "0 < k \<Longrightarrow> concat (chunks k xs) = xs"
proof (induction k xs rule: chunks.induct)
  case (1 k xs)
  then show ?case by (cases "xs = []") (auto simp: chunks.simps [of k xs])
qed

lemma chunks_bounds: "c \<in> set (chunks k xs) \<Longrightarrow> c \<noteq> [] \<and> length c \<le> k"
proof (induction k xs rule: chunks.induct)
  case (1 k xs)
  then show ?case by (auto simp: chunks.simps [of k xs] split: if_splits)
qed

lemma set_chunks_subset: "c \<in> set (chunks k xs) \<Longrightarrow> set c \<subseteq> set xs"
proof (induction k xs rule: chunks.induct)
  case (1 k xs)
  then show ?case
    by (auto simp: chunks.simps [of k xs] dest: in_set_takeD in_set_dropD split: if_splits)
qed

lemma chunks_map: "chunks k (map f xs) = map (map f) (chunks k xs)"
proof (induction k xs rule: chunks.induct)
  case (1 k xs)
  show ?case
  proof (cases "k = 0 \<or> xs = []")
    case False
    with 1 have "chunks k (map f (drop k xs)) = map (map f) (chunks k (drop k xs))" by blast
    with False show ?thesis
      by (simp add: chunks.simps [of k xs] chunks.simps [of k "map f xs"] take_map drop_map)
  qed auto
qed

lemma length_chunks: "0 < k \<Longrightarrow> length (chunks k xs) = (length xs + k - 1) div k"
proof (induction k xs rule: chunks.induct)
  case (1 k xs)
  show ?case
  proof (cases "xs = []")
    case True
    with 1 show ?thesis by simp
  next
    case False
    have "length (chunks k xs) = Suc (length (chunks k (drop k xs)))"
      using 1 False by (simp add: chunks.simps [of k xs])
    also have "\<dots> = Suc ((length xs - k + k - 1) div k)"
      using 1 False by simp
    also have "\<dots> = Suc ((length xs - 1) div k)"
      using False by (cases "k \<le> length xs") (auto simp: not_le less_imp_diff_less)
    also have "\<dots> = (length xs - 1 + k) div k"
      using \<open>0 < k\<close> by (simp add: div_add_self2)
    also have "length xs - 1 + k = length xs + k - 1"
      using False by (cases xs) auto
    finally show ?thesis .
  qed
qed

lemma py_chunks_Inr_iff [result_simps]:
  "py_chunks e k xs = Inr cs \<longleftrightarrow> k \<noteq> 0 \<and> cs = (if k < 0 then [] else chunks (nat k) xs)"
  by (auto simp: py_chunks_def)

section \<open>Strings\<close>

text \<open>\<open>m or d\<close> for an optional string: an empty one counts as missing.\<close>

definition or_else :: "string option \<Rightarrow> string \<Rightarrow> string" where
  "or_else m d = (case m of None \<Rightarrow> d | Some s \<Rightarrow> if s = [] then d else s)"

definition str_join :: "string \<Rightarrow> string list \<Rightarrow> string" where
  "str_join sep xs = (case xs of [] \<Rightarrow> [] | y # ys \<Rightarrow> y @ concat (map (\<lambda>z. sep @ z) ys))"

definition starts_with :: "string \<Rightarrow> string \<Rightarrow> bool" where
  "starts_with s p \<longleftrightarrow> take (length p) s = p"

definition ends_with :: "string \<Rightarrow> string \<Rightarrow> bool" where
  "ends_with s p \<longleftrightarrow> length p \<le> length s \<and> drop (length s - length p) s = p"

definition remove_prefix :: "string \<Rightarrow> string \<Rightarrow> string" where
  "remove_prefix s p = (if starts_with s p then drop (length p) s else s)"

definition remove_suffix :: "string \<Rightarrow> string \<Rightarrow> string" where
  "remove_suffix s p = (if ends_with s p then take (length s - length p) s else s)"

definition digit_char :: "nat \<Rightarrow> char" where
  "digit_char n = char_of (48 + n)"

fun show_nat :: "nat \<Rightarrow> string" where
  "show_nat n = (if n < 10 then [digit_char n] else show_nat (n div 10) @ [digit_char (n mod 10)])"

declare show_nat.simps [simp del]

definition show_int :: "int \<Rightarrow> string" where
  "show_int i = (if i < 0 then CHR ''-'' # show_nat (nat (- i)) else show_nat (nat i))"

lemma starts_with_append [simp]: "starts_with (p @ s) p"
  by (simp add: starts_with_def)

lemma remove_prefix_append [simp]: "remove_prefix (p @ s) p = s"
  by (simp add: remove_prefix_def)

lemma digit_char_inj: "m < 10 \<Longrightarrow> n < 10 \<Longrightarrow> digit_char m = digit_char n \<Longrightarrow> m = n"
proof -
  assume less: "m < 10" "n < 10" and "digit_char m = digit_char n"
  then have "of_char (digit_char m) = (of_char (digit_char n) :: nat)" by simp
  with less show "m = n" by (simp add: digit_char_def)
qed

section \<open>Stable sorting\<close>

lemma sort_key_set [simp]: "set (sort_key f xs) = set xs"
  by simp

lemma sort_key_Nil_iff [simp]: "sort_key f xs = [] \<longleftrightarrow> xs = []"
  by (metis set_empty set_sort)

lemma foldl_max_in: "foldl max (g :: 'a::linorder) gs \<in> set (g # gs)"
proof (induction gs arbitrary: g)
  case (Cons a gs)
  from Cons [of "max g a"] show ?case by (auto simp: max_def split: if_splits)
qed simp

text \<open>A list that is sorted by a key injective on it is determined by its set.\<close>

lemma sorted_key_unique:
  fixes f :: "'a \<Rightarrow> 'b::linorder"
  assumes "sorted (map f xs)" "distinct xs" "sorted (map f ys)" "distinct ys"
    and eq: "set xs = set ys" and inj: "inj_on f (set xs)"
  shows "xs = ys"
proof -
  have "distinct (map f xs)" "distinct (map f ys)"
    using assms by (auto simp: distinct_map)
  moreover have "set (map f xs) = set (map f ys)"
    using eq by simp
  ultimately have "map f xs = map f ys"
    using assms by (metis sorted_distinct_set_unique)
  then show ?thesis
    using inj eq by (metis map_inj_on set_map sup.idem)
qed

end
