(* ===== verification/Canonical_Json.thy ===== *)
theory Canonical_Json
  imports Prelude "HOL-Library.Word"
begin

text \<open>
  Content addressing. Identities of runs, shards, trials, actions and plans are prefixes of
  the hexadecimal SHA-256 digest of a canonical JSON text,
  \<open>json.dumps(value, sort_keys=True, separators=(",", ":"), ensure_ascii=True)\<close>.
  This theory models the JSON values, that serialiser (of Python's standard library) and
  the digest helpers \<open>_digest\<close>, \<open>_short_id\<close> and \<open>_short_digest\<close> of \<open>campaigns.py\<close> and
  \<open>reconciler.py\<close>.

  The hash function is an argument \<open>h\<close> of every definition that hashes, so that each
  theorem holds for SHA-256 and needs no property of it beyond the ones it states.
  Strings are lists of \<open>char\<close>, that is code points below 256.
\<close>

datatype json =
    JNull
  | JBool bool
  | JInt int
  | JStr string
  | JArr "json list"
  | JObj "(string \<times> json) list"

type_synonym byte = "8 word"
type_synonym hash = "string \<Rightarrow> byte list"

section \<open>The serialiser\<close>

definition hex_digit :: "nat \<Rightarrow> char" where
  "hex_digit n = (if n < 10 then char_of (48 + n) else char_of (87 + n))"

definition hex_byte :: "nat \<Rightarrow> string" where
  "hex_byte n = [hex_digit (n div 16), hex_digit (n mod 16)]"

definition escape_char :: "char \<Rightarrow> string" where
  "escape_char c =
     (let n = (of_char c :: nat) in
      if n = 34 then [CHR 0x5C, CHR 0x22]
      else if n = 92 then [CHR 0x5C, CHR 0x5C]
      else if n = 10 then [CHR 0x5C, CHR ''n'']
      else if n = 13 then [CHR 0x5C, CHR ''r'']
      else if n = 9 then [CHR 0x5C, CHR ''t'']
      else if n = 12 then [CHR 0x5C, CHR ''f'']
      else if n = 8 then [CHR 0x5C, CHR ''b'']
      else if n < 32 \<or> 126 < n then [CHR 0x5C, CHR ''u'', CHR ''0'', CHR ''0''] @ hex_byte n
      else [c])"

definition dumps_string :: "string \<Rightarrow> string" where
  "dumps_string s = CHR 0x22 # concat (map escape_char s) @ [CHR 0x22]"

fun dumps :: "json \<Rightarrow> string" where
  "dumps JNull = ''null''"
| "dumps (JBool b) = (if b then ''true'' else ''false'')"
| "dumps (JInt i) = show_int i"
| "dumps (JStr s) = dumps_string s"
| "dumps (JArr xs) = ''['' @ str_join '','' (map dumps xs) @ '']''"
| "dumps (JObj kvs) =
     ''{'' @ str_join '',''
       (map (\<lambda>(k, t). dumps_string k @ '':'' @ t)
         (sort_key fst (map (\<lambda>(k, v). (k, dumps v)) kvs))) @ ''}''"

text \<open>
  The same text with \<open>ensure_ascii=False\<close>, encoded as UTF-8: characters from code point 127
  on are not escaped. \<open>dumps_with\<close> is the serialiser over its string encoder.
\<close>

definition utf8 :: "char \<Rightarrow> string" where
  "utf8 c = (let n = (of_char c :: nat) in
     if n < 128 then [c] else [char_of (192 + n div 64), char_of (128 + n mod 64)])"

definition dumps_string_unicode :: "string \<Rightarrow> string" where
  "dumps_string_unicode s =
     CHR 0x22 # concat (map (\<lambda>c. if (of_char c :: nat) < 127 then escape_char c else utf8 c) s) @
       [CHR 0x22]"

fun dumps_with :: "(string \<Rightarrow> string) \<Rightarrow> json \<Rightarrow> string" where
  "dumps_with q JNull = ''null''"
| "dumps_with q (JBool b) = (if b then ''true'' else ''false'')"
| "dumps_with q (JInt i) = show_int i"
| "dumps_with q (JStr s) = q s"
| "dumps_with q (JArr xs) = ''['' @ str_join '','' (map (dumps_with q) xs) @ '']''"
| "dumps_with q (JObj kvs) =
     ''{'' @ str_join '',''
       (map (\<lambda>(k, t). q k @ '':'' @ t)
         (sort_key fst (map (\<lambda>(k, v). (k, dumps_with q v)) kvs))) @ ''}''"

definition dumps_unicode :: "json \<Rightarrow> string" where
  "dumps_unicode = dumps_with dumps_string_unicode"

lemma dumps_with_ascii: "dumps_with dumps_string v = dumps v"
proof (induction v)
  case (JArr xs)
  then have "map (dumps_with dumps_string) xs = map dumps xs" by simp
  then show ?case by (simp only: dumps_with.simps dumps.simps)
next
  case (JObj kvs)
  then have "map (\<lambda>(k, v). (k, dumps_with dumps_string v)) kvs = map (\<lambda>(k, v). (k, dumps v)) kvs"
    by (auto intro: snds.intros)
  then show ?case by (simp only: dumps_with.simps dumps.simps)
qed simp_all

section \<open>Digests\<close>

definition hexdigest :: "hash \<Rightarrow> string \<Rightarrow> string" where
  "hexdigest h s = concat (map (\<lambda>b. hex_byte (unat b)) (h s))"

definition digest :: "hash \<Rightarrow> json \<Rightarrow> string" where
  "digest h v = ''sha256:'' @ hexdigest h (dumps v)"

definition short_id :: "hash \<Rightarrow> string \<Rightarrow> json \<Rightarrow> string" where
  "short_id h p v = p @ ''-'' @ take 24 (remove_prefix (digest h v) ''sha256:'')"

definition short_digest :: "hash \<Rightarrow> json \<Rightarrow> string" where
  "short_digest h v = take 24 (hexdigest h (dumps v))"

definition json_strs :: "string list \<Rightarrow> json" where
  "json_strs xs = JArr (map JStr xs)"

definition json_opt_int :: "int option \<Rightarrow> json" where
  "json_opt_int m = (case m of None \<Rightarrow> JNull | Some i \<Rightarrow> JInt i)"

definition json_opt_str :: "string option \<Rightarrow> json" where
  "json_opt_str m = (case m of None \<Rightarrow> JNull | Some s \<Rightarrow> JStr s)"

lemma short_id_eq: "short_id h p v = p @ ''-'' @ short_digest h v"
  unfolding short_id_def digest_def remove_prefix_append short_digest_def ..

lemma json_opt_int_inj [simp]: "json_opt_int a = json_opt_int b \<longleftrightarrow> a = b"
  by (auto simp: json_opt_int_def split: option.splits)

lemma json_opt_str_inj [simp]: "json_opt_str a = json_opt_str b \<longleftrightarrow> a = b"
  by (auto simp: json_opt_str_def split: option.splits)

end
