(* ===== verification/Hub_Repository.thy ===== *)
theory Hub_Repository
  imports Canonical_Json
begin

text \<open>
  The coordination repository as the program sees it.

  Three stores (\<open>coordination.py\<close>, \<open>control.py\<close>, \<open>controller_status.py\<close>) keep their
  records as files of one dataset repository on the Hub and change them by optimistic
  commits: read the head of \<open>main\<close>, look at files of exactly that revision, and commit with
  the head as parent; a commit that lost a race is answered with status 409 or 412 and the
  whole attempt is repeated, at most eight times.

  The Hub client is a service, so it is an argument: a record \<open>hub\<close> of the calls the stores
  make, over an arbitrary type \<open>'w\<close> of worlds. What the stores rely on is the hypothesis
  \<open>hub_contract\<close>: \<open>main\<close> is a growing, non-empty list of commits with distinct identities; during any
  call other processes may add commits, each one a step of the relation \<open>others\<close>; a read at
  a revision is answered from that revision; a commit is added exactly on top of its parent
  and its identity is returned;
  an answer 409 or 412 means that nothing was committed.

  \<open>commit_loop\<close> is the loop that every store operation repeats, and the locale
  \<open>atomic_operation\<close> is its contract: if one attempt computes, from the files of one revision,
  what a specification says of the tree of that revision, then the whole operation behaves
  as one atomic step (\<open>atomic_run\<close>), whatever the other processes do.

  The content of a file is kept as what \<open>json.loads\<close> reads from it (\<open>Json_file\<close>), or as text
  that is not JSON. Objects are compared as Python compares dictionaries, without the order
  of the keys (\<open>json_same\<close>).
\<close>

section \<open>Programs over a world\<close>

type_synonym ('w, 'e, 'a) io = "'w \<Rightarrow> ('e + 'a) \<times> 'w"

definition io_return :: "'a \<Rightarrow> ('w, 'e, 'a) io" where
  "io_return x w = (Inr x, w)"

definition io_raise :: "'e \<Rightarrow> ('w, 'e, 'a) io" where
  "io_raise e w = (Inl e, w)"

definition io_bind :: "('w, 'e, 'a) io \<Rightarrow> ('a \<Rightarrow> ('w, 'e, 'b) io) \<Rightarrow> ('w, 'e, 'b) io" where
  "io_bind m f w = (case m w of (Inl e, w') \<Rightarrow> (Inl e, w') | (Inr x, w') \<Rightarrow> f x w')"

definition io_result :: "'e + 'a \<Rightarrow> ('w, 'e, 'a) io" where
  "io_result r w = (r, w)"

fun io_mapM :: "('a \<Rightarrow> ('w, 'e, 'b) io) \<Rightarrow> 'a list \<Rightarrow> ('w, 'e, 'b list) io" where
  "io_mapM f [] = io_return []"
| "io_mapM f (x # xs) = io_bind (f x) (\<lambda>y. io_bind (io_mapM f xs) (\<lambda>ys. io_return (y # ys)))"

section \<open>Files, commits and the client\<close>

datatype hub_file = Json_file json | Text_file string

type_synonym tree = "(string, hub_file) dict"
type_synonym commit = "string \<times> tree"

datatype commit_op = Add_file string hub_file | Delete_file string

fun apply_op :: "tree \<Rightarrow> commit_op \<Rightarrow> tree" where
  "apply_op t (Add_file p f) = AList.update p f t"
| "apply_op t (Delete_file p) = AList.delete p t"

definition apply_ops :: "commit_op list \<Rightarrow> tree \<Rightarrow> tree" where
  "apply_ops ops t = foldl apply_op t ops"

text \<open>A path names an entry when it is a file or a directory with a file below it.\<close>

definition entry_exists :: "tree \<Rightarrow> string \<Rightarrow> bool" where
  "entry_exists t p \<longleftrightarrow> list_ex (\<lambda>q. q = p \<or> starts_with q (p @ ''/'')) (dict_keys t)"

text \<open>
  Failures of the client: \<open>HfHubHTTPError\<close> with its status (an \<open>OSError\<close>), its subclass
  \<open>EntryNotFoundError\<close>, another \<open>OSError\<close>, or any other exception.
\<close>

datatype hub_error = Http_status int | Entry_not_found | Os_failure | Other_failure

definition is_parent_conflict :: "hub_error \<Rightarrow> bool" where
  "is_parent_conflict e \<longleftrightarrow> e = Http_status 409 \<or> e = Http_status 412"

definition is_os_error :: "hub_error \<Rightarrow> bool" where
  "is_os_error e \<longleftrightarrow> e \<noteq> Other_failure"

text \<open>\<open>api_download\<close> also reads the downloaded file; \<open>None\<close> when that read fails.\<close>

record 'w hub =
  api_repo_info :: "('w, hub_error, string option) io"
  api_paths_info :: "string \<Rightarrow> string \<Rightarrow> ('w, hub_error, bool) io"
  api_download :: "string \<Rightarrow> string \<Rightarrow> ('w, hub_error, hub_file option) io"
  api_list_files :: "string \<Rightarrow> ('w, hub_error, string list) io"
  api_list_tree :: "string \<Rightarrow> string \<Rightarrow> ('w, hub_error, string list) io"
  api_create_commit :: "commit_op list \<Rightarrow> string \<Rightarrow> ('w, hub_error, string option) io"

text \<open>The exceptions of a store: its own, or one of the client that passes through.\<close>

datatype 'e failure = Raised 'e | Hub_failed hub_error

definition call :: "('w, hub_error, 'a) io \<Rightarrow> ('w, 'e failure, 'a) io" where
  "call m w = (case m w of (Inl e, w') \<Rightarrow> (Inl (Hub_failed e), w') | (Inr x, w') \<Rightarrow> (Inr x, w'))"

section \<open>Comparing JSON values\<close>

text \<open>Python's \<open>==\<close>: dictionaries without order, \<open>True == 1\<close> and \<open>False == 0\<close>.\<close>

fun json_norm :: "json \<Rightarrow> json" where
  "json_norm (JBool b) = JInt (if b then 1 else 0)"
| "json_norm (JArr xs) = JArr (map json_norm xs)"
| "json_norm (JObj kvs) = JObj (sort_key fst (map (\<lambda>(k, v). (k, json_norm v)) kvs))"
| "json_norm v = v"

definition json_same :: "json \<Rightarrow> json \<Rightarrow> bool" where
  "json_same a b \<longleftrightarrow> json_norm a = json_norm b"

lemma json_same_refl [simp]: "json_same a a"
  by (simp add: json_same_def)

lemma json_same_sym: "json_same a b \<Longrightarrow> json_same b a"
  by (simp add: json_same_def)

lemma json_same_trans: "json_same a b \<Longrightarrow> json_same b c \<Longrightarrow> json_same a c"
  by (simp add: json_same_def)

section \<open>The optimistic commit loop\<close>

text \<open>
  One attempt looks at the head revision and either has its answer (\<open>Done\<close>) or wants to
  commit operations and then answer (\<open>Commit\<close>).
\<close>

datatype 'a verdict = Done 'a | Commit "commit_op list" 'a

definition max_commit_attempts :: nat where
  "max_commit_attempts = 8"

definition repo_head :: "'w hub \<Rightarrow> 'e \<Rightarrow> ('w, 'e failure, string) io" where
  "repo_head hub no_identity =
     io_bind (call (api_repo_info hub)) (\<lambda>sha.
       case sha of
         None \<Rightarrow> io_raise (Raised no_identity)
       | Some s \<Rightarrow> if s = [] then io_raise (Raised no_identity) else io_return s)"

definition exists_at :: "'w hub \<Rightarrow> string \<Rightarrow> string \<Rightarrow> ('w, 'e failure, bool) io" where
  "exists_at hub path revision = call (api_paths_info hub path revision)"

text \<open>\<open>for x in xs\<close>: \<open>xs\<close> has one element per attempt, with what is read per attempt.\<close>

fun commit_loop ::
  "'w hub \<Rightarrow> 'e \<Rightarrow> 'e \<Rightarrow> ('x \<Rightarrow> string \<Rightarrow> ('w, 'e failure, 'a verdict) io) \<Rightarrow> 'x list \<Rightarrow>
   ('w, 'e failure, 'a) io" where
  "commit_loop hub no_identity contended attempt [] = io_raise (Raised contended)"
| "commit_loop hub no_identity contended attempt (x # xs) =
     io_bind (repo_head hub no_identity) (\<lambda>h.
     io_bind (attempt x h) (\<lambda>v.
       case v of
         Done a \<Rightarrow> io_return a
       | Commit ops a \<Rightarrow> (\<lambda>w.
           case api_create_commit hub ops h w of
             (Inr _, w') \<Rightarrow> (Inr a, w')
           | (Inl e, w') \<Rightarrow>
               if is_parent_conflict e
               then commit_loop hub no_identity contended attempt xs w'
               else (Inl (Hub_failed e), w'))))"

abbreviation eight_attempts :: "unit list" where
  "eight_attempts \<equiv> replicate max_commit_attempts ()"

section \<open>What the Hub promises\<close>

abbreviation head_tree :: "commit list \<Rightarrow> tree" where
  "head_tree h \<equiv> snd (last h)"

inductive grows :: "(tree \<Rightarrow> tree \<Rightarrow> bool) \<Rightarrow> commit list \<Rightarrow> commit list \<Rightarrow> bool"
  for others where
  grows_refl: "grows others h h"
| grows_step: "grows others h h' \<Longrightarrow> h' \<noteq> [] \<Longrightarrow> others (head_tree h') t \<Longrightarrow>
    grows others h (h' @ [(sha, t)])"

text \<open>A commit of our own, between commits of others.\<close>

definition commits ::
  "(tree \<Rightarrow> tree \<Rightarrow> bool) \<Rightarrow> commit_op list \<Rightarrow> string \<Rightarrow> string \<Rightarrow> commit list \<Rightarrow> commit list \<Rightarrow> bool" where
  "commits others ops parent oid h h' \<longleftrightarrow>
     (\<exists>m. grows others h m \<and> m \<noteq> [] \<and> fst (last m) = parent \<and>
          grows others (m @ [(oid, apply_ops ops (head_tree m))]) h')"

definition reads_only ::
  "(tree \<Rightarrow> tree \<Rightarrow> bool) \<Rightarrow> ('w \<Rightarrow> commit list) \<Rightarrow> ('w, 'e, 'a) io \<Rightarrow> bool" where
  "reads_only others history m \<longleftrightarrow>
     (\<forall>w r w'. m w = (r, w') \<longrightarrow> grows others (history w) (history w'))"

definition reads_at ::
  "('w \<Rightarrow> commit list) \<Rightarrow> (string \<Rightarrow> ('w, hub_error, 'a) io) \<Rightarrow> (tree \<Rightarrow> hub_error + 'a \<Rightarrow> bool) \<Rightarrow> bool" where
  "reads_at history m answer \<longleftrightarrow>
     (\<forall>w r w' rv t. m rv w = (r, w') \<longrightarrow> (rv, t) \<in> set (history w) \<longrightarrow> answer t r)"

definition file_answer :: "string \<Rightarrow> tree \<Rightarrow> hub_error + hub_file option \<Rightarrow> bool" where
  "file_answer p t r \<longleftrightarrow> (\<forall>f. r = Inr (Some f) \<longrightarrow> map_of t p = Some f)"

definition exists_answer :: "string \<Rightarrow> tree \<Rightarrow> hub_error + bool \<Rightarrow> bool" where
  "exists_answer p t r \<longleftrightarrow> (\<forall>b. r = Inr b \<longrightarrow> b = entry_exists t p)"

definition files_answer :: "tree \<Rightarrow> hub_error + string list \<Rightarrow> bool" where
  "files_answer t r \<longleftrightarrow> (\<forall>ps. r = Inr ps \<longrightarrow> set ps = set (dict_keys t))"

text \<open>The entries below a directory: its files, and directories on the way to them.\<close>

definition tree_answer :: "string \<Rightarrow> tree \<Rightarrow> hub_error + string list \<Rightarrow> bool" where
  "tree_answer d t r \<longleftrightarrow>
     (\<forall>ps. r = Inr ps \<longrightarrow>
        distinct ps \<and> (\<forall>p. p \<in> set ps \<longleftrightarrow> entry_exists t p \<and> starts_with p (d @ ''/''))) \<and>
     (r = Inl Entry_not_found \<longrightarrow> \<not> entry_exists t d)"

definition head_answer :: "('w \<Rightarrow> commit list) \<Rightarrow> ('w, hub_error, string option) io \<Rightarrow> bool" where
  "head_answer history m \<longleftrightarrow>
     (\<forall>w s w'. m w = (Inr (Some s), w') \<longrightarrow> history w' \<noteq> [] \<and> fst (last (history w')) = s)"

definition commit_answer ::
  "(tree \<Rightarrow> tree \<Rightarrow> bool) \<Rightarrow> ('w \<Rightarrow> commit list) \<Rightarrow> 'w hub \<Rightarrow> bool" where
  "commit_answer others history hub \<longleftrightarrow>
     (\<forall>ops parent w r w'. api_create_commit hub ops parent w = (r, w') \<longrightarrow>
        (case r of
           Inr oid \<Rightarrow> (\<exists>s. commits others ops parent s (history w) (history w') \<and>
                          oid = Some s)
         | Inl e \<Rightarrow> grows others (history w) (history w') \<or>
             \<not> is_parent_conflict e \<and> (\<exists>s. commits others ops parent s (history w) (history w'))))"

definition hub_contract ::
  "'w hub \<Rightarrow> (tree \<Rightarrow> tree \<Rightarrow> bool) \<Rightarrow> ('w \<Rightarrow> commit list) \<Rightarrow> bool" where
  "hub_contract hub others history \<longleftrightarrow>
     (\<forall>w. history w \<noteq> [] \<and> distinct (map fst (history w))) \<and>
     reads_only others history (api_repo_info hub) \<and> head_answer history (api_repo_info hub) \<and>
     (\<forall>p rv. reads_only others history (api_paths_info hub p rv)) \<and>
     (\<forall>p. reads_at history (api_paths_info hub p) (exists_answer p)) \<and>
     (\<forall>p rv. reads_only others history (api_download hub p rv)) \<and>
     (\<forall>p. reads_at history (api_download hub p) (file_answer p)) \<and>
     (\<forall>rv. reads_only others history (api_list_files hub rv)) \<and>
     reads_at history (api_list_files hub) files_answer \<and>
     (\<forall>d rv. reads_only others history (api_list_tree hub d rv)) \<and>
     (\<forall>d. reads_at history (api_list_tree hub d) (tree_answer d)) \<and>
     commit_answer others history hub"

section \<open>The atomic specification\<close>

text \<open>
  What an operation with the specification \<open>spec\<close> of one attempt promises: it takes effect at
  one moment between its call and its return. \<open>spec x t\<close> is the verdict of the attempt \<open>x\<close> on
  the tree \<open>t\<close>; \<open>excuses\<close> are exceptions that say nothing about the tree.
\<close>

inductive atomic_run ::
  "(tree \<Rightarrow> tree \<Rightarrow> bool) \<Rightarrow> ('x \<Rightarrow> tree \<Rightarrow> 'e + 'a verdict) \<Rightarrow> 'x set \<Rightarrow> 'e set \<Rightarrow>
   commit list \<Rightarrow> 'e failure + 'a \<Rightarrow> commit list \<Rightarrow> bool"
  for others spec xs excuses h where
  answered: "grows others h m \<Longrightarrow> m \<noteq> [] \<Longrightarrow> x \<in> xs \<Longrightarrow> spec x (head_tree m) = Inr (Done a) \<Longrightarrow>
    grows others m h' \<Longrightarrow> atomic_run others spec xs excuses h (Inr a) h'"
| committed: "grows others h m \<Longrightarrow> m \<noteq> [] \<Longrightarrow> x \<in> xs \<Longrightarrow>
    spec x (head_tree m) = Inr (Commit ops a) \<Longrightarrow>
    grows others (m @ [(oid, apply_ops ops (head_tree m))]) h' \<Longrightarrow>
    atomic_run others spec xs excuses h (Inr a) h'"
| refused: "grows others h m \<Longrightarrow> m \<noteq> [] \<Longrightarrow> x \<in> xs \<Longrightarrow> spec x (head_tree m) = Inl e \<Longrightarrow>
    grows others m h' \<Longrightarrow> atomic_run others spec xs excuses h (Inl (Raised e)) h'"
| gave_up: "grows others h h' \<Longrightarrow> e \<in> excuses \<Longrightarrow>
    atomic_run others spec xs excuses h (Inl (Raised e)) h'"
| unreachable: "grows others h h' \<Longrightarrow> atomic_run others spec xs excuses h (Inl (Hub_failed e)) h'"
| answer_lost: "grows others h m \<Longrightarrow> m \<noteq> [] \<Longrightarrow> x \<in> xs \<Longrightarrow>
    spec x (head_tree m) = Inr (Commit ops a) \<Longrightarrow> \<not> is_parent_conflict e \<Longrightarrow>
    grows others (m @ [(oid, apply_ops ops (head_tree m))]) h' \<Longrightarrow>
    atomic_run others spec xs excuses h (Inl (Hub_failed e)) h'"

section \<open>Histories\<close>

lemma grows_trans: "grows others h m \<Longrightarrow> grows others m h' \<Longrightarrow> grows others h h'"
  by (rotate_tac, induction rule: grows.induct) (auto intro: grows.intros)

lemma grows_prefix: "grows others h h' \<Longrightarrow> prefix h h'"
  by (induction rule: grows.induct) (auto simp: prefix_def)

lemma grows_subset: "grows others h h' \<Longrightarrow> set h \<subseteq> set h'"
  by (auto dest: grows_prefix set_mono_prefix)

lemma grows_nonempty: "grows others h h' \<Longrightarrow> h \<noteq> [] \<Longrightarrow> h' \<noteq> []"
  by (auto dest: grows_prefix)

text \<open>What every commit of the others keeps holds at the new head.\<close>

lemma grows_invariant:
  assumes "grows others h h'" and "h \<noteq> []" and "P (head_tree h)"
    and "\<And>t t'. others t t' \<Longrightarrow> P t \<Longrightarrow> P t'"
  shows "P (head_tree h')"
  using assms by (induction rule: grows.induct) auto

lemma grows_relation:
  assumes "grows others h h'" and "h \<noteq> []" and "\<And>t t'. others t t' \<Longrightarrow> R t t'"
    and "\<And>t. R t t" and "\<And>a b c. R a b \<Longrightarrow> R b c \<Longrightarrow> R a c"
  shows "R (head_tree h) (head_tree h')"
  using assms(1,2)
proof (induction rule: grows.induct)
  case grows_refl
  show ?case by (rule assms(4))
next
  case (grows_step h h' t sha)
  then have "R (head_tree h) (head_tree h')" and "R (head_tree h') t" by (auto intro: assms(3))
  then show ?case using assms(5) by simp
qed

lemma distinct_head:
  assumes "distinct (map fst h')" and "(sha, t) \<in> set h'" and "prefix m h'" and "m \<noteq> []"
    and "fst (last m) = sha"
  shows "head_tree m = t"
proof -
  have "last m \<in> set h'" using assms(3,4) by (metis last_in_set set_mono_prefix subsetD)
  with assms show ?thesis
    by (metis eq_key_imp_eq_value prod.collapse)
qed

section \<open>Reading at a revision\<close>

text \<open>
  \<open>yields\<close>: run on a world whose history has the revision \<open>rv\<close> with the tree \<open>t\<close>, the
  program changes nothing itself and answers \<open>s\<close>, unless the client fails or the program
  raises one of the exceptions in \<open>excuses\<close>.
\<close>

definition yields ::
  "'e set \<Rightarrow> (tree \<Rightarrow> tree \<Rightarrow> bool) \<Rightarrow> ('w \<Rightarrow> commit list) \<Rightarrow> string \<Rightarrow> tree \<Rightarrow>
   ('w, 'e failure, 'a) io \<Rightarrow> 'e + 'a \<Rightarrow> bool" where
  "yields excuses others history rv t m s \<longleftrightarrow>
     (\<forall>w r w'. m w = (r, w') \<longrightarrow> (rv, t) \<in> set (history w) \<longrightarrow>
        grows others (history w) (history w') \<and>
        (r = lift_error Raised s \<or> (\<exists>e. r = Inl (Hub_failed e)) \<or> (\<exists>e \<in> excuses. r = Inl (Raised e))))"

named_theorems yields_intros \<open>the rules that compute what a program reads\<close>

lemma yields_return [yields_intros]: "yields excuses others history rv t (io_return x) (Inr x)"
  by (simp add: yields_def io_return_def grows_refl)

lemma yields_raise [yields_intros]:
  "yields excuses others history rv t (io_raise (Raised e)) (Inl e)"
  by (simp add: yields_def io_raise_def grows_refl)

lemma yields_excuse:
  "e \<in> excuses \<Longrightarrow> yields excuses others history rv t (io_raise (Raised e)) s"
  by (auto simp: yields_def io_raise_def grows_refl)

lemma yields_hub_failed:
  "yields excuses others history rv t (io_raise (Hub_failed e)) s"
  by (auto simp: yields_def io_raise_def grows_refl)

lemma yields_bind [yields_intros]:
  assumes m: "yields excuses others history rv t m s"
    and f: "\<And>x. s = Inr x \<Longrightarrow> yields excuses others history rv t (f x) (g x)"
  shows "yields excuses others history rv t (io_bind m f) (rbind s g)"
  unfolding yields_def
proof (intro allI impI)
  fix w r w' assume run: "io_bind m f w = (r, w')" and rv: "(rv, t) \<in> set (history w)"
  obtain r1 w1 where m1: "m w = (r1, w1)" by fastforce
  with m rv have g1: "grows others (history w) (history w1)"
    and a1: "r1 = lift_error Raised s \<or> (\<exists>e. r1 = Inl (Hub_failed e)) \<or> (\<exists>e \<in> excuses. r1 = Inl (Raised e))"
    by (auto simp: yields_def)
  show "grows others (history w) (history w') \<and> (r = lift_error Raised (rbind s g) \<or>
      (\<exists>e. r = Inl (Hub_failed e)) \<or> (\<exists>e \<in> excuses. r = Inl (Raised e)))"
  proof (cases r1)
    case (Inl e)
    with m1 run g1 a1 show ?thesis by (cases s) (auto simp: io_bind_def)
  next
    case (Inr x)
    with a1 have s: "s = Inr x" by (cases s) auto
    from Inr m1 run have "f x w1 = (r, w')" by (simp add: io_bind_def)
    moreover have "(rv, t) \<in> set (history w1)" using rv grows_subset [OF g1] by auto
    ultimately show ?thesis using f [OF s] g1 s unfolding yields_def by (auto intro: grows_trans)
  qed
qed

lemma yields_result [yields_intros]:
  "yields excuses others history rv t (io_result (lift_error Raised s)) s"
  by (simp add: yields_def io_result_def grows_refl)

lemma yields_mapM [yields_intros]:
  assumes "\<And>x. x \<in> set xs \<Longrightarrow> yields excuses others history rv t (f x) (g x)"
  shows "yields excuses others history rv t (io_mapM f xs) (mapM g xs)"
  using assms by (induction xs) (auto intro!: yields_intros)

text \<open>Two readings of the same answer.\<close>

lemma yields_cong:
  "yields excuses others history rv t m s \<Longrightarrow> s = s' \<Longrightarrow> yields excuses others history rv t m s'"
  by simp

lemma yields_if [yields_intros]:
  "(b \<Longrightarrow> yields excuses others history rv t m s) \<Longrightarrow>
   (\<not> b \<Longrightarrow> yields excuses others history rv t m' s') \<Longrightarrow>
   yields excuses others history rv t (if b then m else m') (if b then s else s')"
  by simp

lemma yields_exists [yields_intros]:
  assumes "hub_contract hub others history"
  shows "yields excuses others history rv t (exists_at hub p rv) (Inr (entry_exists t p))"
proof -
  have "reads_only others history (api_paths_info hub p rv)"
    and "reads_at history (api_paths_info hub p) (exists_answer p)"
    using assms by (simp_all add: hub_contract_def)
  then show ?thesis
    unfolding yields_def exists_at_def call_def reads_only_def reads_at_def exists_answer_def
    by (force split: sum.splits prod.splits)
qed

text \<open>The same rules for a known answer \<open>s\<close>, applied backwards along the statements.\<close>

lemma yields_seq:
  assumes "yields excuses others history rv t m s1"
    and "\<And>x. s1 = Inr x \<Longrightarrow> yields excuses others history rv t (f x) s"
    and "\<And>e. s1 = Inl e \<Longrightarrow> s = Inl e"
  shows "yields excuses others history rv t (io_bind m f) s"
proof (cases s1)
  case (Inl e)
  with assms(3) have "rbind s1 (\<lambda>_. s) = s" by simp
  with yields_bind [OF assms(1), of f "\<lambda>_. s"] assms(2) show ?thesis by auto
next
  case (Inr x)
  with yields_bind [OF assms(1), of f "\<lambda>_. s"] assms(2) show ?thesis by auto
qed

lemma yields_seq_exists:
  assumes "hub_contract hub others history"
    and "yields excuses others history rv t (k (entry_exists t p)) s"
  shows "yields excuses others history rv t (io_bind (exists_at hub p rv) k) s"
  using yields_exists [OF assms(1)] by (rule yields_seq) (use assms(2) in auto)

lemma yields_return_eq: "s = Inr x \<Longrightarrow> yields excuses others history rv t (io_return x) s"
  by (simp add: yields_return)

lemma yields_raise_eq:
  "s = Inl e \<or> e \<in> excuses \<Longrightarrow> yields excuses others history rv t (io_raise (Raised e)) s"
  by (auto simp: yields_raise yields_excuse)

lemma yields_result_eq:
  "s = s' \<Longrightarrow> yields excuses others history rv t (io_result (lift_error Raised s)) s'"
  by (simp add: yields_result)

lemma yields_if_eq:
  "(b \<Longrightarrow> yields excuses others history rv t m s) \<Longrightarrow>
   (\<not> b \<Longrightarrow> yields excuses others history rv t m' s) \<Longrightarrow>
   yields excuses others history rv t (if b then m else m') s"
  by simp

lemmas yields_steps = yields_seq_exists yields_return_eq yields_raise_eq yields_result_eq yields_if_eq

text \<open>
  Downloading: an answered file is the file of the revision, so its continuation decides; a
  failed read of the local copy is left to the continuation's excuse.
\<close>

lemma yields_call:
  assumes only: "reads_only others history (m rv)" and at: "reads_at history m answer"
    and k: "\<And>x. answer t (Inr x) \<Longrightarrow> yields excuses others history rv t (k x) s"
  shows "yields excuses others history rv t (io_bind (call (m rv)) k) s"
  unfolding yields_def
proof (intro allI impI)
  fix w r w' assume run: "io_bind (call (m rv)) k w = (r, w')" and rv: "(rv, t) \<in> set (history w)"
  obtain r1 w1 where d: "m rv w = (r1, w1)" by fastforce
  from only d have g: "grows others (history w) (history w1)" unfolding reads_only_def by blast
  from at d rv have a: "answer t r1" unfolding reads_at_def by blast
  from rv have rv1: "(rv, t) \<in> set (history w1)" using grows_subset [OF g] by auto
  show "grows others (history w) (history w') \<and> (r = lift_error Raised s \<or>
      (\<exists>e. r = Inl (Hub_failed e)) \<or> (\<exists>e \<in> excuses. r = Inl (Raised e)))"
  proof (cases r1)
    case (Inl e)
    with run d g show ?thesis by (auto simp: io_bind_def call_def)
  next
    case (Inr x)
    with run d have "k x w1 = (r, w')" by (simp add: io_bind_def call_def)
    with Inr a k [of x] rv1 g show ?thesis unfolding yields_def by (blast intro: grows_trans)
  qed
qed

lemma yields_download:
  assumes c: "hub_contract hub others history"
    and some: "\<And>f. map_of t p = Some f \<Longrightarrow> yields excuses others history rv t (k (Some f)) s"
    and none: "yields excuses others history rv t (k None) s"
  shows "yields excuses others history rv t (io_bind (call (api_download hub p rv)) k) s"
proof (rule yields_call [where answer = "file_answer p"])
  show "reads_only others history (api_download hub p rv)"
    and "reads_at history (api_download hub p) (file_answer p)"
    using c by (simp_all add: hub_contract_def)
  show "yields excuses others history rv t (k x) s" if "file_answer p t (Inr x)" for x
    using that some none by (cases x) (auto simp: file_answer_def)
qed

lemma yields_list_files:
  assumes c: "hub_contract hub others history"
    and k: "\<And>files. set files = set (dict_keys t) \<Longrightarrow> yields excuses others history rv t (k files) s"
  shows "yields excuses others history rv t (io_bind (call (api_list_files hub rv)) k) s"
  by (rule yields_call [where answer = files_answer])
    (use c k in \<open>simp_all add: hub_contract_def files_answer_def\<close>)

section \<open>Reading the head\<close>

lemma repo_head_at:
  assumes c: "hub_contract hub others history" and i: "repo_head hub no_identity w = (Inr h, w1)"
  obtains t where "grows others (history w) (history w1)" and "last (history w1) = (h, t)"
    and "history w1 \<noteq> []" and "(h, t) \<in> set (history w1)"
proof -
  from i have i': "api_repo_info hub w = (Inr (Some h), w1)"
    by (auto simp: repo_head_def io_bind_def call_def io_return_def io_raise_def
        split: prod.splits sum.splits option.splits if_splits)
  with c have "grows others (history w) (history w1)" by (auto simp: hub_contract_def reads_only_def)
  moreover obtain t where t: "last (history w1) = (h, t)" and "history w1 \<noteq> []"
    using c i' unfolding hub_contract_def head_answer_def by (metis prod.collapse)
  ultimately show ?thesis using that by (metis last_in_set)
qed

lemma repo_head_fails:
  assumes c: "hub_contract hub others history" and i: "repo_head hub no_identity w = (Inl e, w1)"
  shows "grows others (history w) (history w1)" and "(\<exists>f. e = Hub_failed f) \<or> e = Raised no_identity"
  using i c by (auto simp: repo_head_def io_bind_def call_def io_return_def io_raise_def
      hub_contract_def reads_only_def split: prod.splits sum.splits option.splits if_splits)

section \<open>The contract of a store operation\<close>

locale atomic_operation =
  fixes attempt :: "'w hub \<Rightarrow> 'x \<Rightarrow> string \<Rightarrow> ('w, 'e failure, 'a verdict) io"
    and spec :: "'x \<Rightarrow> tree \<Rightarrow> 'e + 'a verdict"
    and unread :: "'e set"
  assumes attempt_yields: "hub_contract hub others (history :: 'w \<Rightarrow> commit list) \<Longrightarrow>
    yields unread others history rv t (attempt hub x rv) (spec x t)"
begin

lemma atomic_run_later:
  assumes "grows others h m" and "atomic_run others spec xs excuses m r h'" and "xs \<subseteq> ys"
  shows "atomic_run others spec ys excuses h r h'"
  using assms(2,1,3) by (cases rule: atomic_run.cases)
    (blast intro: atomic_run.intros grows_trans)+

lemma commit_point:
  assumes c: "hub_contract hub others history" and s: "spec x t = Inr (Commit ops a)"
    and k: "commits others ops rv oid h (history w')"
    and h: "grows others h0 h" and t: "(rv, t) \<in> set h"
  obtains m where "grows others h0 m" and "m \<noteq> []" and "spec x (head_tree m) = Inr (Commit ops a)"
    and "grows others (m @ [(oid, apply_ops ops (head_tree m))]) (history w')"
proof -
  from k obtain m where m: "grows others h m" "m \<noteq> []" "fst (last m) = rv"
    and g: "grows others (m @ [(oid, apply_ops ops (head_tree m))]) (history w')"
    by (auto simp: commits_def)
  from g have "prefix m (history w')" by (auto dest: grows_prefix append_prefixD)
  moreover have "(rv, t) \<in> set (history w')"
    using t grows_subset [OF m(1)] grows_subset [OF g] by auto
  moreover have "distinct (map fst (history w'))" using c by (simp add: hub_contract_def)
  ultimately have "head_tree m = t" using m(2,3) by (intro distinct_head) auto
  with s m g h show ?thesis by (intro that [of m]) (auto intro: grows_trans)
qed

text \<open>The commit of an attempt that wants one.\<close>

lemma commit_phase:
  assumes c: "hub_contract hub others history" and s: "spec x t = Inr (Commit ops a)"
    and k: "api_create_commit hub ops rv w = (r, w')"
    and h: "grows others h0 (history w)" and t: "(rv, t) \<in> set (history w)"
  shows "if \<exists>e. r = Inl e \<and> is_parent_conflict e then grows others h0 (history w')
    else atomic_run others spec {x} excuses h0
      (case r of Inr _ \<Rightarrow> Inr a | Inl e \<Rightarrow> Inl (Hub_failed e)) (history w')"
proof -
  have ans: "case r of Inr oid \<Rightarrow> (\<exists>s. commits others ops rv s (history w) (history w'))
      | Inl e \<Rightarrow> grows others (history w) (history w') \<or>
          \<not> is_parent_conflict e \<and> (\<exists>s. commits others ops rv s (history w) (history w'))"
    using c k unfolding hub_contract_def commit_answer_def by (fastforce split: sum.splits)
  show ?thesis
  proof (cases "\<exists>oid. commits others ops rv oid (history w) (history w') \<and>
      (\<forall>e. r = Inl e \<longrightarrow> \<not> is_parent_conflict e)")
    case True
    then obtain oid m where "grows others h0 m" "m \<noteq> []" "spec x (head_tree m) = Inr (Commit ops a)"
      "grows others (m @ [(oid, apply_ops ops (head_tree m))]) (history w')"
      using commit_point [OF c s _ h t] by blast
    with True show ?thesis
      by (cases r) (auto intro: atomic_run.committed atomic_run.answer_lost)
  next
    case False
    with ans obtain e where e: "r = Inl e" and "grows others (history w) (history w')"
      by (auto split: sum.splits)
    with h have "grows others h0 (history w')" by (auto intro: grows_trans)
    with e show ?thesis by (auto intro: atomic_run.unreachable)
  qed
qed

text \<open>The reads of an attempt.\<close>

lemma attempt_phase:
  assumes c: "hub_contract hub others history" and i: "repo_head hub no_identity w = (Inr h, w1)"
    and a: "attempt hub x h w1 = (r, w2)"
  obtains t where "grows others (history w) (history w2)" and "(h, t) \<in> set (history w2)"
    and "\<And>e. r = Inl e \<Longrightarrow>
      atomic_run others spec {x} unread (history w) (Inl e) (history w2)"
    and "\<And>b. r = Inr (Done b) \<Longrightarrow>
      atomic_run others spec {x} unread (history w) (Inr b) (history w2)"
    and "\<And>v. r = Inr v \<Longrightarrow> spec x t = Inr v"
proof -
  obtain t where g1: "grows others (history w) (history w1)" and t: "last (history w1) = (h, t)"
    and ne: "history w1 \<noteq> []" and ht: "(h, t) \<in> set (history w1)"
    by (rule repo_head_at [OF c i])
  from attempt_yields [OF c, of h t x] a ht have g2: "grows others (history w1) (history w2)"
    and r: "r = lift_error Raised (spec x t) \<or> (\<exists>e. r = Inl (Hub_failed e)) \<or>
      (\<exists>e \<in> unread. r = Inl (Raised e))"
    unfolding yields_def by blast+
  show ?thesis
  proof (rule that)
    show g: "grows others (history w) (history w2)" using g1 g2 by (rule grows_trans)
    show "(h, t) \<in> set (history w2)" using ht grows_subset [OF g2] by auto
    show "r = Inl e \<Longrightarrow> atomic_run others spec {x} unread (history w) (Inl e) (history w2)" for e
      using r g g1 g2 t ne by (cases "spec x t") (auto intro: atomic_run.intros)
    show "r = Inr v \<Longrightarrow> spec x t = Inr v" for v using r by (cases "spec x t") auto
    then show "r = Inr (Done b) \<Longrightarrow>
        atomic_run others spec {x} unread (history w) (Inr b) (history w2)" for b
      using g1 g2 t ne by (auto intro: atomic_run.answered [where m = "history w1"])
  qed
qed

lemma atomic_run_mono:
  assumes "atomic_run others spec xs excuses h r h'" and "xs \<subseteq> ys" and "excuses \<subseteq> excuses'"
  shows "atomic_run others spec ys excuses' h r h'"
  using assms by (cases rule: atomic_run.cases) (auto intro: atomic_run.intros)

text \<open>Every run of the loop is a run of the atomic specification.\<close>

lemma loop_step:
  assumes c: "hub_contract hub others history"
    and run: "commit_loop hub no_identity contended (attempt hub) (x # xs) w = (r, w')"
  obtains "atomic_run others spec {x} ({no_identity} \<union> unread) (history w) r (history w')"
  | w1 where "grows others (history w) (history w1)"
      and "commit_loop hub no_identity contended (attempt hub) xs w1 = (r, w')"
proof -
  obtain r1 w1 where i: "repo_head hub no_identity w = (r1, w1)" by fastforce
  show ?thesis
  proof (cases r1)
    case (Inl e)
    have "grows others (history w) (history w1)" "(\<exists>f. e = Hub_failed f) \<or> e = Raised no_identity"
      using repo_head_fails [OF c i [unfolded Inl]] by simp_all
    moreover have "r = Inl e" "w' = w1" using Inl i run by (simp_all add: io_bind_def)
    ultimately show ?thesis by (intro that(1)) (auto intro: atomic_run.intros)
  next
    case (Inr h)
    obtain r2 w2 where a: "attempt hub x h w1 = (r2, w2)" by fastforce
    obtain t where g: "grows others (history w) (history w2)" and ht: "(h, t) \<in> set (history w2)"
      and fail: "\<And>e. r2 = Inl e \<Longrightarrow> atomic_run others spec {x} unread (history w) (Inl e) (history w2)"
      and ok: "\<And>b. r2 = Inr (Done b) \<Longrightarrow> atomic_run others spec {x} unread (history w) (Inr b) (history w2)"
      and s: "\<And>v. r2 = Inr v \<Longrightarrow> spec x t = Inr v"
      using attempt_phase [OF c i [unfolded Inr] a] by blast
    have rest: "r2 = Inl e \<Longrightarrow> r = Inl e \<and> w' = w2" "r2 = Inr (Done b) \<Longrightarrow> r = Inr b \<and> w' = w2" for e b
      using run i Inr a by (simp_all add: io_bind_def io_return_def)
    show ?thesis
    proof (cases "\<exists>ops b. r2 = Inr (Commit ops b)")
      case True
      then obtain ops b where b: "r2 = Inr (Commit ops b)" by blast
      obtain r3 w3 where k: "api_create_commit hub ops h w2 = (r3, w3)" by fastforce
      have "(case r3 of Inr _ \<Rightarrow> (Inr b, w3) | Inl e \<Rightarrow>
          if is_parent_conflict e then commit_loop hub no_identity contended (attempt hub) xs w3
          else (Inl (Hub_failed e), w3)) = (r, w')"
        using run i Inr a b k by (simp add: io_bind_def split: sum.splits)
      moreover note commit_phase [OF c s [OF b] k g ht, of "{no_identity} \<union> unread"]
      ultimately show ?thesis using that
        by (cases r3) (auto split: if_splits)
    next
      case False
      then consider e where "r2 = Inl e" | b where "r2 = Inr (Done b)"
        by (metis sum.exhaust verdict.exhaust)
      then show ?thesis using fail ok rest
        by cases (auto intro!: that(1) elim: atomic_run_mono)
    qed
  qed
qed

lemma loop_refines_atomic:
  assumes c: "hub_contract hub others history"
    and run: "commit_loop hub no_identity contended (attempt hub) xs w = (r, w')"
  shows "atomic_run others spec (set xs) ({no_identity, contended} \<union> unread)
    (history w) r (history w')"
  using run
proof (induction xs arbitrary: w)
  case Nil
  then show ?case by (auto simp: io_raise_def intro: atomic_run.gave_up grows_refl)
next
  case (Cons x xs)
  show ?case
  proof (rule loop_step [OF c Cons.prems])
    assume "atomic_run others spec {x} ({no_identity} \<union> unread) (history w) r (history w')"
    then show ?thesis by (rule atomic_run_mono) auto
  next
    fix w1 assume "grows others (history w) (history w1)"
      and "commit_loop hub no_identity contended (attempt hub) xs w1 = (r, w')"
    then show ?thesis using atomic_run_later [OF _ Cons.IH] by (metis set_subset_Cons)
  qed
qed

end

section \<open>Consequences of an atomic run\<close>

text \<open>
  A relation that the commits of the others respect, and that every commit of the operation
  respects, relates the heads before and after.
\<close>

lemma atomic_run_relation:
  assumes run: "atomic_run others spec xs excuses h r h'" and ne: "h \<noteq> []"
    and others: "\<And>t t'. others t t' \<Longrightarrow> R t t'"
    and own: "\<And>x t ops a. x \<in> xs \<Longrightarrow> spec x t = Inr (Commit ops a) \<Longrightarrow> R t (apply_ops ops t)"
    and refl: "\<And>t. R t t" and trans: "\<And>a b c. R a b \<Longrightarrow> R b c \<Longrightarrow> R a c"
  shows "R (head_tree h) (head_tree h')"
proof -
  have g: "R (head_tree a) (head_tree b)" if "grows others a b" "a \<noteq> []" for a b
    by (rule grows_relation [of others a b R, OF that]) (fact others refl trans)+
  have c: "R (head_tree h) (head_tree h')"
    if "grows others h m" "m \<noteq> []" "x \<in> xs" "spec x (head_tree m) = Inr (Commit ops a)"
      "grows others (m @ [(oid, apply_ops ops (head_tree m))]) h'" for m x ops a oid
    using g [OF that(1) ne] own [OF that(3,4)] g [OF that(5)] by (auto intro: trans)
  from run show ?thesis
    by (cases rule: atomic_run.cases) (use ne in \<open>auto intro: g c grows_trans\<close>)
qed

text \<open>An operation that must not commit on any tree that satisfies \<open>P\<close> does not.\<close>

lemma atomic_run_no_commit:
  assumes run: "atomic_run others spec xs excuses h r h'" and ne: "h \<noteq> []" and P: "P (head_tree h)"
    and others: "\<And>t t'. others t t' \<Longrightarrow> P t \<Longrightarrow> P t'"
    and own: "\<And>x t ops a. x \<in> xs \<Longrightarrow> P t \<Longrightarrow> spec x t \<noteq> Inr (Commit ops a)"
  shows "grows others h h'" and "r = Inr a \<Longrightarrow> \<exists>x \<in> xs. \<exists>t. P t \<and> spec x t = Inr (Done a)"
    and "r = Inl (Raised e) \<Longrightarrow> e \<in> excuses \<or> (\<exists>x \<in> xs. \<exists>t. P t \<and> spec x t = Inl e)"
proof -
  have m: "P (head_tree m)" if "grows others h m" for m
    using grows_invariant [of others h m P] that ne P others by blast
  show "grows others h h'"
    using run by (cases rule: atomic_run.cases) (use m own in \<open>auto intro: grows_trans\<close>)
  show "r = Inr a \<Longrightarrow> \<exists>x \<in> xs. \<exists>t. P t \<and> spec x t = Inr (Done a)"
    using run by (cases rule: atomic_run.cases) (use m own in auto)
  show "r = Inl (Raised e) \<Longrightarrow> e \<in> excuses \<or> (\<exists>x \<in> xs. \<exists>t. P t \<and> spec x t = Inl e)"
    using run by (cases rule: atomic_run.cases) (use m in auto)
qed

text \<open>
  A run that returned \<open>a\<close> leaves \<open>Q\<close> behind, when every commit that answers \<open>a\<close> establishes
  \<open>Q\<close>, every direct answer \<open>a\<close> finds it, and the others keep it.
\<close>

lemma atomic_run_establishes:
  assumes run: "atomic_run others spec xs excuses h (Inr a) h'"
    and others: "\<And>t t'. others t t' \<Longrightarrow> Q t \<Longrightarrow> Q t'"
    and direct: "\<And>x t. x \<in> xs \<Longrightarrow> spec x t = Inr (Done a) \<Longrightarrow> Q t"
    and own: "\<And>x t ops. x \<in> xs \<Longrightarrow> spec x t = Inr (Commit ops a) \<Longrightarrow> Q (apply_ops ops t)"
  shows "Q (head_tree h')"
  using run
proof (cases rule: atomic_run.cases)
  case (answered m x)
  with grows_invariant [of others m h' Q] others direct show ?thesis by blast
next
  case (committed m x ops oid)
  have "Q (head_tree (m @ [(oid, apply_ops ops (head_tree m))]))" using own committed by simp
  with grows_invariant [of others "m @ [(oid, apply_ops ops (head_tree m))]" h' Q] committed others
  show ?thesis by blast
qed

section \<open>Files a commit keeps\<close>

definition keeps :: "string set \<Rightarrow> tree \<Rightarrow> tree \<Rightarrow> bool" where
  "keeps E t t' \<longleftrightarrow> (\<forall>p f. p \<notin> E \<longrightarrow> map_of t p = Some f \<longrightarrow> map_of t' p = Some f)"

lemma keeps_refl [simp]: "keeps E t t"
  by (simp add: keeps_def)

lemma keeps_trans: "keeps E a b \<Longrightarrow> keeps E b c \<Longrightarrow> keeps E a c"
  by (simp add: keeps_def)

lemma keeps_mono: "keeps E a b \<Longrightarrow> E \<subseteq> E' \<Longrightarrow> keeps E' a b"
  by (auto simp: keeps_def)

lemma keeps_file: "keeps E t t' \<Longrightarrow> p \<notin> E \<Longrightarrow> map_of t p = Some f \<Longrightarrow> map_of t' p = Some f"
  by (simp add: keeps_def)

lemma no_entry_no_file: "\<not> entry_exists t p \<Longrightarrow> map_of t p = None"
  by (auto simp: entry_exists_def list_ex_iff map_of_eq_None_iff)

lemma file_is_entry: "map_of t p = Some f \<Longrightarrow> entry_exists t p"
  using no_entry_no_file by fastforce

text \<open>Operations that only add files, and the paths they write.\<close>

fun op_path :: "commit_op \<Rightarrow> string" where
  "op_path (Add_file p f) = p"
| "op_path (Delete_file p) = p"

lemma apply_ops_Nil [simp]: "apply_ops [] t = t"
  by (simp add: apply_ops_def)

lemma apply_ops_Cons [simp]: "apply_ops (x # ops) t = apply_ops ops (apply_op t x)"
  by (simp add: apply_ops_def)

lemma apply_ops_other: "p \<notin> op_path ` set ops \<Longrightarrow> map_of (apply_ops ops t) p = map_of t p"
proof (induction ops arbitrary: t)
  case (Cons x ops)
  then show ?case by (cases x) (auto simp: delete_conv')
qed simp

lemma apply_ops_keeps:
  assumes "\<And>x. x \<in> set ops \<Longrightarrow> op_path x \<in> E \<or> map_of t (op_path x) = None"
  shows "keeps E t (apply_ops ops t)"
  unfolding keeps_def
proof (intro allI impI)
  fix p f assume "p \<notin> E" and p: "map_of t p = Some f"
  with assms have "p \<notin> op_path ` set ops" by force
  then show "map_of (apply_ops ops t) p = Some f" using p by (simp add: apply_ops_other)
qed

end
