(* ===== verification/Campaign_Lock.thy ===== *)
theory Campaign_Lock
  imports Canonical_Json
begin

text \<open>
  The immutable campaign lock of \<open>src/src/harbor_hf/campaigns.py\<close> (with
  \<open>CampaignControllerSpec\<close> of \<open>models.py\<close> and \<open>BenchmarkSourceLock\<close> of
  \<open>benchmark_source.py\<close>): its records, the model validators, and the operations that read
  a lock: partial wave cost, planned provider wave durations, the locked concurrency and
  duration of an action, and the validation and selection of the shards of a wave action.

  A pydantic field constraint or model validator is a boolean predicate \<open>..._ok\<close>; a model
  that violates it cannot be constructed, so the operations assume it where they need it.
  Integers are Python's unbounded integers. Timestamps are microseconds since the epoch in
  UTC. A \<open>Decimal\<close> is its exact coefficient and number of decimal places.
\<close>

section \<open>Records\<close>

datatype decimal = Decimal (dec_coeff: int) (dec_places: nat)

record controller_spec =
  cc_planning_trial_seconds :: int
  cc_headroom_factor :: decimal
  cc_wave_reserve_seconds :: int
  cc_controller_reserve_seconds :: int
  cc_heartbeat_seconds :: int
  cc_stale_after_seconds :: int
  cc_max_attempts :: int

definition decimal_at_least_one :: "decimal \<Rightarrow> bool" where
  "decimal_at_least_one d \<longleftrightarrow> 10 ^ dec_places d \<le> dec_coeff d"

definition controller_spec_ok :: "controller_spec \<Rightarrow> bool" where
  "controller_spec_ok c \<longleftrightarrow>
     1 \<le> cc_planning_trial_seconds c \<and> decimal_at_least_one (cc_headroom_factor c) \<and>
     1 \<le> cc_wave_reserve_seconds c \<and> 600 \<le> cc_controller_reserve_seconds c \<and>
     30 \<le> cc_heartbeat_seconds c \<and> cc_heartbeat_seconds c \<le> 300 \<and>
     90 \<le> cc_stale_after_seconds c \<and>
     1 \<le> cc_max_attempts c \<and> cc_max_attempts c \<le> 10 \<and>
     \<not> cc_stale_after_seconds c < 3 * cc_heartbeat_seconds c"

record recovery_policy =
  rp_max_active_waves :: int
  rp_max_physical_executions_per_trial :: int
  rp_retry_base_seconds :: int
  rp_retry_max_seconds :: int
  rp_cancellation_grace_seconds :: int
  rp_spend_cap_microusd :: "int option"

definition default_recovery_policy :: recovery_policy where
  "default_recovery_policy =
     \<lparr>rp_max_active_waves = 64, rp_max_physical_executions_per_trial = 3,
      rp_retry_base_seconds = 30, rp_retry_max_seconds = 1800,
      rp_cancellation_grace_seconds = 0, rp_spend_cap_microusd = None\<rparr>"

definition opt_ge :: "int \<Rightarrow> int option \<Rightarrow> bool" where
  "opt_ge b m \<longleftrightarrow> (case m of None \<Rightarrow> True | Some i \<Rightarrow> b \<le> i)"

definition recovery_policy_ok :: "recovery_policy \<Rightarrow> bool" where
  "recovery_policy_ok p \<longleftrightarrow>
     1 \<le> rp_max_active_waves p \<and> 1 \<le> rp_max_physical_executions_per_trial p \<and>
     1 \<le> rp_retry_base_seconds p \<and> 1 \<le> rp_retry_max_seconds p \<and>
     0 \<le> rp_cancellation_grace_seconds p \<and> opt_ge 0 (rp_spend_cap_microusd p) \<and>
     \<not> rp_retry_max_seconds p < rp_retry_base_seconds p"

record run_admission =
  ra_cell_digest :: string
  ra_deployment_digest :: string
  ra_model :: string
  ra_deployment :: string
  ra_agent :: string
  ra_provider :: "string option"
  ra_max_concurrent_requests :: "int option"
  ra_spend_cap_microusd :: "int option"
  ra_estimated_wave_cost_microusd :: "int option"

definition run_admission_ok :: "('m) run_admission_scheme \<Rightarrow> bool" where
  "run_admission_ok r \<longleftrightarrow>
     opt_ge 1 (ra_max_concurrent_requests r) \<and> opt_ge 0 (ra_spend_cap_microusd r) \<and>
     opt_ge 0 (ra_estimated_wave_cost_microusd r)"

record trial_lock =
  tl_trial_id :: string
  tl_trial_digest :: string
  tl_task_name :: string
  tl_task_digest :: string
  tl_logical_attempt :: int

record shard_lock =
  sl_shard_id :: string
  sl_shard_digest :: string
  sl_trials :: "trial_lock list"

record run_lock = run_admission +
  rl_run_id :: string
  rl_shards :: "shard_lock list"

record locked_initial_wave =
  liw_wave_index :: int
  liw_deployment_digest :: string
  liw_shard_ids :: "string list"
  liw_trial_count :: int
  liw_effective_concurrency :: int
  liw_planned_duration_seconds :: int

definition locked_initial_wave_ok :: "locked_initial_wave \<Rightarrow> bool" where
  "locked_initial_wave_ok w \<longleftrightarrow>
     1 \<le> liw_wave_index w \<and> liw_shard_ids w \<noteq> [] \<and> 1 \<le> liw_trial_count w \<and>
     1 \<le> liw_effective_concurrency w \<and> 1 \<le> liw_planned_duration_seconds w"

datatype publication_role = Role_final | Role_component | Role_diagnostic
datatype component_kind = Component_base | Component_correction

datatype benchmark_source_lock =
    Git_source (src_repository: string) (src_revision: string) (src_path: string)
  | Bundle_source (src_content_digest: string) (src_manifest_sha256: string)
  | Package_source (src_reference: string)

record campaign_lock =
  cl_campaign_id :: string
  cl_created_at :: int
  cl_experiment :: string
  cl_evaluation_id :: string
  cl_publication_role :: publication_role
  cl_component_kind :: "component_kind option"
  cl_manifest_digest :: string
  cl_source_lock :: benchmark_source_lock
  cl_plan_digest :: string
  cl_artifact_prefix :: string
  cl_max_shards_per_wave :: int
  cl_recovery_policy :: recovery_policy
  cl_controller_policy :: "controller_spec option"
  cl_planned_campaign_duration_seconds :: "int option"
  cl_initial_waves :: "locked_initial_wave list"
  cl_runs :: "run_lock list"

definition wave_indexes_contiguous :: "int list \<Rightarrow> bool" where
  "wave_indexes_contiguous ws \<longleftrightarrow> ws = map int [1..<length ws + 1]"

definition controller_fields_complete ::
  "controller_spec option \<Rightarrow> int option \<Rightarrow> 'w list \<Rightarrow> bool" where
  "controller_fields_complete policy duration waves \<longleftrightarrow>
     \<not> ((policy = None) \<noteq> (duration = None) \<or> (policy = None) \<noteq> (waves = []))"

definition campaign_lock_ok :: "campaign_lock \<Rightarrow> bool" where
  "campaign_lock_ok l \<longleftrightarrow>
     ((cl_publication_role l = Role_component) = (cl_component_kind l \<noteq> None)) \<and>
     controller_fields_complete (cl_controller_policy l)
       (cl_planned_campaign_duration_seconds l) (cl_initial_waves l) \<and>
     wave_indexes_contiguous (map liw_wave_index (cl_initial_waves l)) \<and>
     opt_ge 1 (cl_planned_campaign_duration_seconds l) \<and>
     recovery_policy_ok (cl_recovery_policy l) \<and>
     (case cl_controller_policy l of None \<Rightarrow> True | Some c \<Rightarrow> controller_spec_ok c) \<and>
     list_all locked_initial_wave_ok (cl_initial_waves l) \<and>
     list_all run_admission_ok (cl_runs l)"

section \<open>Contents of a lock\<close>

definition lock_shards :: "campaign_lock \<Rightarrow> shard_lock list" where
  "lock_shards l = concat (map rl_shards (cl_runs l))"

definition lock_shard_ids :: "campaign_lock \<Rightarrow> string list" where
  "lock_shard_ids l = map sl_shard_id (lock_shards l)"

definition lock_trials :: "campaign_lock \<Rightarrow> trial_lock list" where
  "lock_trials l = concat (map sl_trials (lock_shards l))"

definition lock_trial_ids :: "campaign_lock \<Rightarrow> string list" where
  "lock_trial_ids l = map tl_trial_id (lock_trials l)"

text \<open>
  Identities of a lock are content digests, so no two runs, shards or trials of a lock
  share one unless the hash collides.
\<close>

definition lock_ids_distinct :: "campaign_lock \<Rightarrow> bool" where
  "lock_ids_distinct l \<longleftrightarrow>
     distinct (map rl_run_id (cl_runs l)) \<and> distinct (lock_shard_ids l) \<and>
     distinct (lock_trial_ids l)"

section \<open>Costs and durations\<close>

datatype campaign_error =
    Range_step_zero
  | Partial_wave_empty
  | Planned_wave_empty
  | No_locked_concurrency
  | No_controller_policy
  | No_matching_initial_wave
  | Action_not_for_campaign
  | Action_without_shards
  | Action_shards_not_unique
  | Action_exceeds_shard_bound
  | Action_trials_not_unique
  | Retry_without_trials
  | Submit_with_trials
  | Action_identity_mismatch
  | Action_mixes_deployments
  | Action_unknown_shard
  | Wave_key_malformed

definition py_max :: "int list \<Rightarrow> int" where
  "py_max xs = foldr max xs 0"

definition wave_capacities :: "campaign_lock \<Rightarrow> string \<Rightarrow> campaign_error + int list" where
  "wave_capacities l d =
     (let sizes = sort_key fst
        (map (\<lambda>s. (sl_shard_id s, int (length (sl_trials s))))
          (concat (map rl_shards (filter (\<lambda>r. ra_deployment_digest r = d) (cl_runs l)))))
      in rbind (py_chunks Range_step_zero (cl_max_shards_per_wave l) sizes)
           (\<lambda>cs. Inr (map (\<lambda>c. sum_list (map snd c)) cs)))"

definition estimated_partial_wave_cost ::
  "campaign_lock \<Rightarrow> string \<Rightarrow> int option \<Rightarrow> int \<Rightarrow> campaign_error + int option" where
  "estimated_partial_wave_cost l d est n =
     (case est of
        None \<Rightarrow> Inr None
      | Some e \<Rightarrow>
          rbind (wave_capacities l d) (\<lambda>caps.
            let capacity = py_max caps in
            if capacity \<le> 0 \<or> n \<le> 0 then Inl Partial_wave_empty
            else Inr (Some (max 1 ((e * n + capacity - 1) div capacity)))))"

definition ceil_mul :: "int \<Rightarrow> decimal \<Rightarrow> int" where
  "ceil_mul n d = - ((- (n * dec_coeff d)) div 10 ^ dec_places d)"

definition planned_provider_wave_seconds ::
  "controller_spec \<Rightarrow> int \<Rightarrow> int \<Rightarrow> campaign_error + int" where
  "planned_provider_wave_seconds c n k =
     (if n < 1 \<or> k < 1 then Inl Planned_wave_empty
      else let batches = (n + k - 1) div k in
        Inr (ceil_mul (batches * cc_planning_trial_seconds c) (cc_headroom_factor c)
             + cc_wave_reserve_seconds c))"

definition locked_provider_action_concurrency ::
  "campaign_lock \<Rightarrow> string \<Rightarrow> campaign_error + int" where
  "locked_provider_action_concurrency l d =
     (case remdups (map liw_effective_concurrency
            (filter (\<lambda>w. liw_deployment_digest w = d) (cl_initial_waves l))) of
        [k] \<Rightarrow> Inr k
      | _ \<Rightarrow> Inl No_locked_concurrency)"

datatype billable_kind = Submit_wave | Retry_shard

definition locked_provider_action_seconds ::
  "campaign_lock \<Rightarrow> billable_kind \<Rightarrow> string \<Rightarrow> string list \<Rightarrow> int \<Rightarrow> campaign_error + int" where
  "locked_provider_action_seconds l kind d shard_ids n =
     (case cl_controller_policy l of
        None \<Rightarrow> Inl No_controller_policy
      | Some c \<Rightarrow>
          if kind = Submit_wave then
            (case filter (\<lambda>w. liw_deployment_digest w = d \<and> set (liw_shard_ids w) = set shard_ids)
                    (cl_initial_waves l) of
               [w] \<Rightarrow> Inr (liw_planned_duration_seconds w)
             | _ \<Rightarrow> Inl No_matching_initial_wave)
          else rbind (locked_provider_action_concurrency l d)
                 (planned_provider_wave_seconds c n))"

section \<open>Facts about costs and durations\<close>

lemma py_max_ge: "x \<in> set xs \<Longrightarrow> x \<le> py_max xs"
  by (induction xs) (auto simp: py_max_def)

lemma py_max_nonneg: "0 \<le> py_max xs"
  by (induction xs) (auto simp: py_max_def)

lemma ceil_div_bounds:
  fixes a b :: int
  assumes "0 < b"
  shows "a \<le> b * ((a + b - 1) div b)" and "b * ((a + b - 1) div b) < a + b"
proof -
  have mod: "0 \<le> (a + b - 1) mod b" "(a + b - 1) mod b < b"
    using assms by auto
  have "b * ((a + b - 1) div b) = a + b - 1 - (a + b - 1) mod b"
    by (simp add: minus_mod_eq_mult_div)
  with mod show "a \<le> b * ((a + b - 1) div b)" "b * ((a + b - 1) div b) < a + b"
    by linarith+
qed

lemma ceil_div_least:
  fixes a b c :: int
  assumes "0 < b" and "a \<le> b * c"
  shows "(a + b - 1) div b \<le> c"
proof -
  have "b * ((a + b - 1) div b) < b * (c + 1)"
    using ceil_div_bounds(2) [of b a] assms by (simp add: distrib_left)
  with assms(1) show ?thesis by simp
qed

lemma ceil_mul_ge: "n * dec_coeff d \<le> ceil_mul n d * 10 ^ dec_places d"
proof -
  have "(- (n * dec_coeff d)) div 10 ^ dec_places d * 10 ^ dec_places d \<le> - (n * dec_coeff d)"
    using pos_mod_sign [of "10 ^ dec_places d :: int" "- (n * dec_coeff d)", OF zero_less_power]
      div_mult_mod_eq [of "- (n * dec_coeff d)" "10 ^ dec_places d"] by linarith
  then show ?thesis by (simp add: ceil_mul_def)
qed

lemma ceil_mul_at_least:
  assumes "decimal_at_least_one d" and "0 \<le> n"
  shows "n \<le> ceil_mul n d"
proof -
  have "n * 10 ^ dec_places d \<le> n * dec_coeff d"
    using assms by (simp add: decimal_at_least_one_def mult_left_mono)
  also have "\<dots> \<le> ceil_mul n d * 10 ^ dec_places d"
    by (rule ceil_mul_ge)
  finally show ?thesis by simp
qed

lemma partial_wave_cost_cases:
  assumes "estimated_partial_wave_cost l d (Some e) n = Inr (Some c)"
  obtains caps where "wave_capacities l d = Inr caps" and "0 < py_max caps" and "0 < n"
    and "c = max 1 ((e * n + py_max caps - 1) div py_max caps)"
  using assms
  by (auto simp: estimated_partial_wave_cost_def Let_def result_simps split: if_splits)

end
