(* ===== verification/Text_Patterns.thy ===== *)
theory Text_Patterns
  imports Prelude
begin

text \<open>
  The string predicates of the program: the character classes and full-match patterns of
  its identifiers, \<open>str.strip\<close>, and \<open>fnmatch\<close> of Python's standard library, which
  \<open>task_matches_selector\<close> of \<open>src/src/harbor_hf/task_selection.py\<close> applies to task
  selectors. Strings are code points below 256.
\<close>

section \<open>Character classes and identifiers\<close>

definition is_digit :: "char \<Rightarrow> bool" where
  "is_digit c \<longleftrightarrow> (let n = (of_char c :: nat) in 48 \<le> n \<and> n \<le> 57)"

definition is_lower :: "char \<Rightarrow> bool" where
  "is_lower c \<longleftrightarrow> (let n = (of_char c :: nat) in 97 \<le> n \<and> n \<le> 122)"

definition is_upper :: "char \<Rightarrow> bool" where
  "is_upper c \<longleftrightarrow> (let n = (of_char c :: nat) in 65 \<le> n \<and> n \<le> 90)"

definition alnum :: "char \<Rightarrow> bool" where
  "alnum c \<longleftrightarrow> (let n = (of_char c :: nat) in
     48 \<le> n \<and> n \<le> 57 \<or> 65 \<le> n \<and> n \<le> 90 \<or> 97 \<le> n \<and> n \<le> 122)"

definition id_char :: "char \<Rightarrow> bool" where
  "id_char c \<longleftrightarrow> alnum c \<or> c = CHR ''.'' \<or> c = CHR ''_'' \<or> c = CHR ''-''"

definition is_lower_hex :: "char \<Rightarrow> bool" where
  "is_lower_hex c \<longleftrightarrow> c \<in> set ''0123456789abcdef''"

text \<open>\<open>[0-9a-f]{n}\<close> as a full match.\<close>

definition hex_string :: "nat \<Rightarrow> string \<Rightarrow> bool" where
  "hex_string n s \<longleftrightarrow> length s = n \<and> list_all is_lower_hex s"

text \<open>\<open>^[A-Za-z0-9][A-Za-z0-9._-]{0,n}$\<close> as a full match.\<close>

definition safe_name :: "nat \<Rightarrow> string \<Rightarrow> bool" where
  "safe_name n s = (case s of [] \<Rightarrow> False | c # cs \<Rightarrow> alnum c \<and> list_all id_char cs \<and> length cs \<le> n)"

text \<open>\<open>^[a-z0-9][a-z0-9-]{0,62}$\<close>.\<close>

definition profile_name :: "string \<Rightarrow> bool" where
  "profile_name s =
     (case s of [] \<Rightarrow> False
      | c # cs \<Rightarrow> (is_digit c \<or> is_lower c) \<and>
          list_all (\<lambda>x. is_digit x \<or> is_lower x \<or> x = CHR ''-'') cs \<and> length cs \<le> 62)"

text \<open>\<open>^[A-Za-z0-9][A-Za-z0-9._-]*$\<close> as a full match.\<close>

definition package_part :: "string \<Rightarrow> bool" where
  "package_part s = (case s of [] \<Rightarrow> False | c # cs \<Rightarrow> alnum c \<and> list_all id_char cs)"

text \<open>White space (\<open>\s\<close> and \<open>str.strip\<close>) among the characters below code point 256.\<close>

definition py_space :: "char \<Rightarrow> bool" where
  "py_space c \<longleftrightarrow> (let n = (of_char c :: nat) in
     9 \<le> n \<and> n \<le> 13 \<or> 28 \<le> n \<and> n \<le> 32 \<or> n = 133 \<or> n = 160)"

definition py_strip :: "string \<Rightarrow> string" where
  "py_strip s = rev (dropWhile py_space (rev (dropWhile py_space s)))"

text \<open>\<open>sha256:[0-9a-f]{64}\<close> as a full match.\<close>

definition sha256_digest :: "string \<Rightarrow> bool" where
  "sha256_digest s \<longleftrightarrow> starts_with s ''sha256:'' \<and> hex_string 64 (drop 7 s)"

text \<open>\<open>.+@sha256:[0-9a-f]{64}\<close> as a full match; the dot matches no line feed.\<close>

definition pinned_image :: "string \<Rightarrow> bool" where
  "pinned_image s \<longleftrightarrow>
     (let n = length s - 72; prefix = take n s; suffix = drop n s in
      72 < length s \<and> hd suffix = CHR ''@'' \<and> sha256_digest (tl suffix) \<and>
      CHR 0x0A \<notin> set prefix)"

text \<open>\<open>(g1.g2. ... .gk)\<close> with digit groups: \<open>[0-9]+(?:\.[0-9]+)*\<close> as a full match.\<close>

fun split_on :: "char \<Rightarrow> string \<Rightarrow> string list" where
  "split_on d [] = [[]]"
| "split_on d (c # cs) =
     (if c = d then [] # split_on d cs
      else case split_on d cs of [] \<Rightarrow> [[c]] | g # gs \<Rightarrow> (c # g) # gs)"

definition dotted_number :: "string \<Rightarrow> bool" where
  "dotted_number s \<longleftrightarrow> list_all (\<lambda>g. g \<noteq> [] \<and> list_all is_digit g) (split_on CHR ''.'' s)"

text \<open>
  \<open>v?[0-9]+(?:\.[0-9]+)*(?:[-+][0-9A-Za-z.-]+)?\<close> as a full match: the first \<open>-\<close> or \<open>+\<close>
  starts the suffix, since neither occurs in the number.
\<close>

definition version_sign :: "char \<Rightarrow> bool" where
  "version_sign c \<longleftrightarrow> c = CHR ''-'' \<or> c = CHR ''+''"

definition package_version :: "string \<Rightarrow> bool" where
  "package_version s \<longleftrightarrow>
     (let t = (case s of c # cs \<Rightarrow> if c = CHR ''v'' then cs else s | [] \<Rightarrow> []);
          number = takeWhile (\<lambda>c. \<not> version_sign c) t;
          suffix = dropWhile (\<lambda>c. \<not> version_sign c) t
      in dotted_number number \<and>
         (suffix = [] \<or>
          tl suffix \<noteq> [] \<and>
          list_all (\<lambda>c. alnum c \<or> c = CHR ''.'' \<or> c = CHR ''-'') (tl suffix)))"

section \<open>Shell patterns\<close>

text \<open>
  \<open>fnmatch\<close> translates a pattern to a regular expression. A bracket expression is cut at
  its range hyphens into chunks (\<open>range_chunks\<close>), empty ranges are removed from the right
  (\<open>merge_ranges\<close>), and what is left is a character class, negated when it starts with
  \<open>!\<close>. A bracket that is never closed is a literal.
\<close>

datatype glob_item =
    Any_string
  | Any_char
  | Literal char
  | Char_class bool "string list"

definition find_from :: "nat \<Rightarrow> char \<Rightarrow> string \<Rightarrow> nat option" where
  "find_from k c s =
     (let n = length (takeWhile (\<lambda>x. x \<noteq> c) (drop k s)) in
      if k + n < length s then Some (k + n) else None)"

lemma find_from_less: "find_from k c s = Some p \<Longrightarrow> p < length s"
  by (auto simp: find_from_def Let_def split: if_splits)

function range_chunks :: "nat \<Rightarrow> string \<Rightarrow> string list" where
  "range_chunks k s =
     (case find_from k CHR ''-'' s of
        None \<Rightarrow> [s]
      | Some p \<Rightarrow> take p s # range_chunks 2 (drop (Suc p) s))"
  by auto
termination
  by (relation "measure (\<lambda>(k, s). length s)") (auto dest: find_from_less)

declare range_chunks.simps [simp del]

definition close_chunks :: "string list \<Rightarrow> string list" where
  "close_chunks cs =
     (if last cs = [] then butlast (butlast cs) @ [last (butlast cs) @ ''-''] else cs)"

fun merge_ranges :: "string list \<Rightarrow> string list" where
  "merge_ranges [] = []"
| "merge_ranges (c # cs) =
     (case merge_ranges cs of
        [] \<Rightarrow> [c]
      | d # ds \<Rightarrow> if hd d < last c then (butlast c @ tl d) # ds else c # d # ds)"

definition bracket_chunks :: "string \<Rightarrow> string list" where
  "bracket_chunks body =
     (if CHR ''-'' \<in> set body
      then merge_ranges (close_chunks (range_chunks (if hd body = CHR ''!'' then 2 else 1) body))
      else [body])"

definition bracket_item :: "string \<Rightarrow> glob_item" where
  "bracket_item body =
     (case bracket_chunks body of
        (CHR ''!'' # c) # cs \<Rightarrow> Char_class False (c # cs)
      | cs \<Rightarrow> Char_class True cs)"

definition bracket_start :: "string \<Rightarrow> nat" where
  "bracket_start s =
     (let skip = (if take 1 s = ''!'' then 1 else 0) in
      if take 1 (drop skip s) = '']'' then skip + 1 else skip)"

definition bracket_split :: "string \<Rightarrow> (string \<times> string) option" where
  "bracket_split s =
     (let rest = dropWhile (\<lambda>c. c \<noteq> CHR '']'') (drop (bracket_start s) s) in
      if rest = [] then None else Some (take (length s - length rest) s, tl rest))"

lemma bracket_split_less: "bracket_split s = Some (body, rest) \<Longrightarrow> length rest < length s"
proof -
  let ?rest = "dropWhile (\<lambda>c. c \<noteq> CHR '']'') (drop (bracket_start s) s)"
  assume "bracket_split s = Some (body, rest)"
  then have "rest = tl ?rest" "?rest \<noteq> []"
    by (auto simp: bracket_split_def Let_def split: if_splits)
  moreover have "length ?rest \<le> length s"
    using length_dropWhile_le [of "\<lambda>c. c \<noteq> CHR '']''" "drop (bracket_start s) s"] by simp
  ultimately show ?thesis by (cases ?rest) auto
qed

function glob_parse :: "string \<Rightarrow> glob_item list" where
  "glob_parse [] = []"
| "glob_parse (c # cs) =
     (if c = CHR ''*'' then Any_string # glob_parse cs
      else if c = CHR ''?'' then Any_char # glob_parse cs
      else if c = CHR ''['' then
        (case bracket_split cs of
           None \<Rightarrow> Literal c # glob_parse cs
         | Some (body, rest) \<Rightarrow> bracket_item body # glob_parse rest)
      else Literal c # glob_parse cs)"
  by pat_completeness auto
termination
  by (relation "measure length") (auto dest: bracket_split_less)

text \<open>A chunk that became empty leaves a hyphen at the start of the class: a literal one.\<close>

fun in_class :: "string list \<Rightarrow> char \<Rightarrow> bool" where
  "in_class [] c = False"
| "in_class [x] c = (c \<in> set x)"
| "in_class (x # y # xs) c =
     (c \<in> set x \<or> (if x = [] then c = CHR ''-'' else last x \<le> c \<and> c \<le> hd y) \<or> in_class (y # xs) c)"

fun item_matches :: "glob_item \<Rightarrow> char \<Rightarrow> bool" where
  "item_matches (Literal x) c = (c = x)"
| "item_matches (Char_class positive cs) c = (in_class cs c = positive)"
| "item_matches Any_char c = True"
| "item_matches Any_string c = False"

fun glob_match :: "glob_item list \<Rightarrow> string \<Rightarrow> bool" where
  "glob_match [] s = (s = [])"
| "glob_match (Any_string # ps) [] = glob_match ps []"
| "glob_match (Any_string # ps) (c # cs) = (glob_match ps (c # cs) \<or> glob_match (Any_string # ps) cs)"
| "glob_match (p # ps) [] = False"
| "glob_match (p # ps) (c # cs) = (item_matches p c \<and> glob_match ps cs)"

definition fnmatch :: "string \<Rightarrow> string \<Rightarrow> bool" where
  "fnmatch name pat = glob_match (glob_parse pat) name"

definition task_matches_selector :: "string \<Rightarrow> string \<Rightarrow> string list \<Rightarrow> bool" where
  "task_matches_selector task selector available =
     (if selector \<in> set available then task = selector else fnmatch task selector)"

definition is_task_pattern :: "string \<Rightarrow> bool" where
  "is_task_pattern task \<longleftrightarrow> (\<exists>c \<in> set task. c \<in> set ''*?['')"

section \<open>Facts about shell patterns\<close>

lemma glob_match_any: "glob_match [Any_string] s"
  by (induction s) auto

lemma glob_match_any_iff:
  "glob_match (Any_string # ps) s \<longleftrightarrow> (\<exists>a b. s = a @ b \<and> glob_match ps b)"
proof (induction s)
  case (Cons c s)
  then show ?case
    by (auto simp: append_eq_Cons_conv Cons_eq_append_conv)
qed simp

lemma glob_match_literals: "glob_match (map Literal xs @ ps) s \<longleftrightarrow> (\<exists>b. s = xs @ b \<and> glob_match ps b)"
proof (induction xs arbitrary: s)
  case (Cons x xs)
  then show ?case by (cases s) auto
qed simp

lemma glob_parse_literal: "\<not> is_task_pattern s \<Longrightarrow> glob_parse s = map Literal s"
  by (induction s) (auto simp: is_task_pattern_def)

text \<open>A name without wild cards selects exactly itself, whatever tasks are available.\<close>

lemma selector_literal:
  assumes "\<not> is_task_pattern selector"
  shows "task_matches_selector task selector available \<longleftrightarrow> task = selector"
  using assms glob_match_literals [of selector "[]" task]
  by (auto simp: task_matches_selector_def fnmatch_def glob_parse_literal)

end
