(* ===== verification/Control_Events.thy ===== *)
theory Control_Events
  imports Campaign_Lock Text_Patterns
begin

text \<open>
  The event log of \<open>src/src/harbor_hf/control.py\<close>: event kinds and payloads with their
  validator, the canonical order of a set of event records (\<open>ordered_events\<close>), and the
  campaign projection (\<open>project_campaign\<close>) with its status machine, its bookkeeping of
  manual interventions and its action reservations.

  An event kind \<open>"run.failed-infrastructure"\<close> is the value \<open>Run_event L_failed_infrastructure\<close>:
  the prefix tests and \<open>removeprefix\<close>/\<open>replace\<close> conversions of the code are the case
  distinctions of the model, and \<open>event_kind_name\<close> of \<open>Campaign_Store\<close> gives the wire text back.
\<close>

section \<open>Kinds, payloads, events\<close>

datatype subject_type = ST_campaign | ST_run | ST_shard | ST_trial | ST_execution | ST_wave

datatype producer = PR_cli | PR_reconciler | PR_wave_controller | PR_watchdog | PR_publisher

datatype retry_category =
    RC_lost | RC_transient | RC_quota | RC_rate_limit | RC_ambiguous | RC_agent
  | RC_benchmark | RC_configuration | RC_authentication | RC_cleanup | RC_evidence

datatype campaign_kind =
    CK_submitted | CK_cancel_requested | CK_shard_retry_requested | CK_draining
  | CK_manual_required | CK_manual_resolved
  | CK_completed | CK_partial | CK_failed | CK_cancelled

datatype lifecycle =
    L_queued | L_active | L_verifying | L_publishing
  | L_complete | L_invalid | L_failed_infrastructure | L_cancelled

datatype trial_kind = TK_complete | TK_invalid | TK_failed_infrastructure | TK_cancelled

datatype execution_kind = EK_started | EK_completed | EK_failed | EK_cancelled

datatype wave_status =
    WS_acquiring | WS_provisioning | WS_ready | WS_active
  | WS_draining | WS_cleaning | WS_closed | WS_cleanup_failed

datatype action_status = AS_reserved | AS_succeeded | AS_failed | AS_ambiguous

datatype event_kind =
    Campaign_event campaign_kind
  | Run_event lifecycle
  | Shard_event lifecycle
  | Trial_event trial_kind
  | Execution_event execution_kind
  | Wave_event wave_status
  | Spend_recorded
  | Action_event action_status

datatype action_kind =
    AK_cancel_execution | AK_cancel_wave | AK_drain_wave | AK_cleanup_wave
  | AK_exhaust_trials | AK_manual_intervention | AK_publish_summary | AK_publish_results
  | AK_retry_shard | AK_submit_wave

record shard_retry_payload =
  srp_shard_id :: string
  srp_reason :: string
  srp_trial_generations :: "(string, int) dict"

record terminal_payload =
  tp_summary_path :: "string option"
  tp_summary_sha256 :: "string option"
  tp_message :: "string option"

record lifecycle_payload =
  lp_parent_id :: "string option"
  lp_message :: "string option"

record resolution_payload =
  mrp_wave_ids :: "string list"
  mrp_message :: "string option"

record wave_payload =
  wp_deployment_digest :: string
  wp_provider :: string
  wp_shard_ids :: "string list"
  wp_estimated_cost_microusd :: int

record started_payload =
  esp_trial_id :: string
  esp_shard_id :: string
  esp_physical_attempt :: int
  esp_wave_id :: "string option"
  esp_estimated_cost_microusd :: int

record outcome_payload =
  eop_trial_id :: string
  eop_physical_attempt :: int
  eop_category :: "retry_category option"
  eop_spend_microusd :: int
  eop_retry_after_seconds :: "int option"
  eop_message :: "string option"

record spend_payload =
  sp_amount_microusd :: int
  sp_source_execution_id :: "string option"

record reserved_payload =
  arp_action_id :: string
  arp_action_key :: string
  arp_action_kind :: action_kind
  arp_target_ids :: "string list"

record action_outcome_payload =
  aop_action_id :: string
  aop_message :: "string option"
  aop_remote_id :: "string option"

datatype event_payload =
    Submitted_payload (sub_plan_digest: string)
  | Cancellation_payload (can_reason: string)
  | Shard_retry_payload shard_retry_payload
  | Terminal_payload terminal_payload
  | Lifecycle_payload lifecycle_payload
  | Resolution_payload resolution_payload
  | Wave_payload wave_payload
  | Started_payload started_payload
  | Outcome_payload outcome_payload
  | Spend_payload spend_payload
  | Reserved_payload reserved_payload
  | Action_outcome_payload action_outcome_payload

record event =
  ev_event_id :: string
  ev_subject_type :: subject_type
  ev_subject_id :: string
  ev_kind :: event_kind
  ev_observed_at :: int
  ev_producer :: producer
  ev_payload :: event_payload

subsection \<open>The payload validator\<close>

fun campaign_payload_matches :: "campaign_kind \<Rightarrow> event_payload \<Rightarrow> bool" where
  "campaign_payload_matches CK_submitted p = is_Submitted_payload p"
| "campaign_payload_matches CK_cancel_requested p = is_Cancellation_payload p"
| "campaign_payload_matches CK_shard_retry_requested p = is_Shard_retry_payload p"
| "campaign_payload_matches CK_manual_resolved p = is_Resolution_payload p"
| "campaign_payload_matches CK_draining p = is_Lifecycle_payload p"
| "campaign_payload_matches CK_manual_required p = is_Lifecycle_payload p"
| "campaign_payload_matches _ p = is_Terminal_payload p"

text \<open>\<open>_payload_type\<close> composed with the \<open>isinstance\<close> test of \<open>payload_matches_kind\<close>.\<close>

fun payload_type_matches :: "event_kind \<Rightarrow> event_payload \<Rightarrow> bool" where
  "payload_type_matches (Campaign_event k) p = campaign_payload_matches k p"
| "payload_type_matches (Execution_event EK_started) p = is_Started_payload p"
| "payload_type_matches (Execution_event _) p = is_Outcome_payload p"
| "payload_type_matches (Wave_event _) p = is_Wave_payload p"
| "payload_type_matches Spend_recorded p = is_Spend_payload p"
| "payload_type_matches (Action_event AS_reserved) p = is_Reserved_payload p"
| "payload_type_matches (Action_event _) p = is_Action_outcome_payload p"
| "payload_type_matches _ p = is_Lifecycle_payload p"

fun subject_type_matches :: "event_kind \<Rightarrow> subject_type \<Rightarrow> bool" where
  "subject_type_matches (Campaign_event _) t = (t = ST_campaign)"
| "subject_type_matches (Run_event _) t = (t = ST_run)"
| "subject_type_matches (Shard_event _) t = (t = ST_shard)"
| "subject_type_matches (Trial_event _) t = (t = ST_trial)"
| "subject_type_matches (Execution_event _) t = (t = ST_execution)"
| "subject_type_matches (Wave_event _) t = (t = ST_wave)"
| "subject_type_matches (Action_event _) t = (t = ST_campaign)"
| "subject_type_matches Spend_recorded t = True"

text \<open>The numeric field constraints of the payload classes.\<close>

fun payload_fields_ok :: "event_payload \<Rightarrow> bool" where
  "payload_fields_ok (Cancellation_payload r) = (r \<noteq> [])"
| "payload_fields_ok (Shard_retry_payload p) = (srp_shard_id p \<noteq> [] \<and> srp_reason p \<noteq> [])"
| "payload_fields_ok (Resolution_payload p) = (mrp_wave_ids p \<noteq> [])"
| "payload_fields_ok (Wave_payload p) = (wp_provider p \<noteq> [] \<and> 0 \<le> wp_estimated_cost_microusd p)"
| "payload_fields_ok (Started_payload p) =
     (1 \<le> esp_physical_attempt p \<and> 0 \<le> esp_estimated_cost_microusd p)"
| "payload_fields_ok (Outcome_payload p) =
     (1 \<le> eop_physical_attempt p \<and> 0 \<le> eop_spend_microusd p \<and> opt_ge 0 (eop_retry_after_seconds p))"
| "payload_fields_ok (Spend_payload p) = (0 \<le> sp_amount_microusd p)"
| "payload_fields_ok _ = True"

definition event_id_ok :: "string \<Rightarrow> bool" where
  "event_id_ok s \<longleftrightarrow> length s = 36 \<and> starts_with s ''evt-'' \<and> list_all is_lower_hex (drop 4 s)"

definition event_ok :: "event \<Rightarrow> bool" where
  "event_ok e \<longleftrightarrow>
     event_id_ok (ev_event_id e) \<and>
     payload_type_matches (ev_kind e) (ev_payload e) \<and>
     subject_type_matches (ev_kind e) (ev_subject_type e) \<and>
     ev_subject_id e \<noteq> [] \<and> payload_fields_ok (ev_payload e)"

section \<open>Errors\<close>

text \<open>
  One constructor per \<open>raise\<close> of the projection. \<open>Payload_type_error\<close> is Python's
  \<open>AttributeError\<close> when a \<open>cast\<close> payload is not of the class the code reads.
\<close>

datatype control_error =
    No_submission_event
  | Submission_mismatch
  | Events_after_terminal
  | Wrong_subject
  | Multiple_submissions
  | Resolution_not_required
  | Action_reserved_twice
  | Outcome_without_reservation
  | Multiple_action_outcomes
  | Ambiguous_identity_changed
  | Event_id_conflict
  | Payload_type_error

fun as_lifecycle :: "event_payload \<Rightarrow> control_error + lifecycle_payload" where
  "as_lifecycle (Lifecycle_payload p) = Inr p"
| "as_lifecycle _ = Inl Payload_type_error"

fun as_resolution :: "event_payload \<Rightarrow> control_error + resolution_payload" where
  "as_resolution (Resolution_payload p) = Inr p"
| "as_resolution _ = Inl Payload_type_error"

fun as_reserved :: "event_payload \<Rightarrow> control_error + reserved_payload" where
  "as_reserved (Reserved_payload p) = Inr p"
| "as_reserved _ = Inl Payload_type_error"

fun as_action_outcome :: "event_payload \<Rightarrow> control_error + action_outcome_payload" where
  "as_action_outcome (Action_outcome_payload p) = Inr p"
| "as_action_outcome _ = Inl Payload_type_error"

section \<open>The canonical order of event records\<close>

definition insert_event :: "(string, event) dict \<Rightarrow> event \<Rightarrow> control_error + (string, event) dict" where
  "insert_event unique e =
     (case map_of unique (ev_event_id e) of
        Some previous \<Rightarrow>
          if previous \<noteq> e then Inl Event_id_conflict
          else Inr (AList.update (ev_event_id e) e unique)
      | None \<Rightarrow> Inr (AList.update (ev_event_id e) e unique))"

definition event_key :: "event \<Rightarrow> int \<times> string" where
  "event_key e = (ev_observed_at e, ev_event_id e)"

definition ordered_events :: "event list \<Rightarrow> control_error + event list" where
  "ordered_events es =
     rbind (foldM insert_event [] es) (\<lambda>unique. Inr (sort_key event_key (dict_values unique)))"

section \<open>The campaign projection\<close>

datatype campaign_status =
    CS_queued | CS_active | CS_cancel_requested | CS_draining | CS_manual_intervention
  | CS_completed | CS_partial | CS_failed | CS_cancelled

definition campaign_terminal :: "campaign_status \<Rightarrow> bool" where
  "campaign_terminal s \<longleftrightarrow> s \<in> {CS_completed, CS_partial, CS_failed, CS_cancelled}"

record action_projection =
  ap_action_id :: string
  ap_action_key :: string
  ap_action_kind :: action_kind
  ap_target_ids :: "string list"
  ap_status :: action_status
  ap_remote_id :: "string option"
  ap_message :: "string option"

record campaign_projection =
  cp_campaign_id :: string
  cp_plan_digest :: string
  cp_status :: campaign_status
  cp_event_count :: int
  cp_last_observed_at :: int
  cp_actions :: "(string, action_projection) dict"

subsection \<open>Action reservations\<close>

definition apply_action_event ::
  "event \<Rightarrow> (string, action_projection) dict \<Rightarrow> control_error + (string, action_projection) dict" where
  "apply_action_event e actions =
     (if ev_kind e = Action_event AS_reserved then
        rbind (as_reserved (ev_payload e)) (\<lambda>p.
          if arp_action_id p \<in> set (dict_keys actions) then Inl Action_reserved_twice
          else Inr (AList.update (arp_action_id p)
            \<lparr>ap_action_id = arp_action_id p, ap_action_key = arp_action_key p,
             ap_action_kind = arp_action_kind p, ap_target_ids = arp_target_ids p,
             ap_status = AS_reserved, ap_remote_id = None, ap_message = None\<rparr> actions))
      else
        rbind (as_action_outcome (ev_payload e)) (\<lambda>p.
          case map_of actions (aop_action_id p) of
            None \<Rightarrow> Inl Outcome_without_reservation
          | Some a \<Rightarrow>
              if ap_status a \<notin> {AS_reserved, AS_ambiguous} then Inl Multiple_action_outcomes
              else (case ev_kind e of
                Action_event outcome \<Rightarrow>
                  if ap_status a = AS_ambiguous \<and> outcome = AS_ambiguous then
                    (if ap_remote_id a \<noteq> None \<and> aop_remote_id p \<noteq> None \<and>
                        ap_remote_id a \<noteq> aop_remote_id p
                     then Inl Ambiguous_identity_changed
                     else Inr (AList.update (aop_action_id p)
                       (a\<lparr>ap_message := aop_message p,
                          ap_remote_id := (if aop_remote_id p \<noteq> None then aop_remote_id p
                                           else ap_remote_id a)\<rparr>) actions))
                  else Inr (AList.update (aop_action_id p)
                    (a\<lparr>ap_status := outcome, ap_message := aop_message p,
                       ap_remote_id := aop_remote_id p\<rparr>) actions)
              | _ \<Rightarrow> Inl Payload_type_error)))"

subsection \<open>The status machine\<close>

definition apply_operator_request :: "campaign_kind \<Rightarrow> campaign_status \<Rightarrow> campaign_status" where
  "apply_operator_request k status =
     (if k = CK_shard_retry_requested then (if status = CS_queued then CS_active else status)
      else if status \<in> {CS_draining, CS_manual_intervention} then status
      else CS_cancel_requested)"

definition resolve_manual_intervention ::
  "campaign_status \<Rightarrow> campaign_status option \<Rightarrow> control_error + campaign_status" where
  "resolve_manual_intervention status previous =
     (if status \<noteq> CS_manual_intervention then Inl Resolution_not_required
      else case previous of
        Some p \<Rightarrow> Inr (if p \<in> {CS_cancel_requested, CS_draining} then p else CS_active)
      | None \<Rightarrow> Inr CS_active)"

definition apply_manual_lifecycle_event ::
  "campaign_kind \<Rightarrow> campaign_status \<Rightarrow> campaign_status option \<Rightarrow> bool \<Rightarrow> control_error + campaign_status" where
  "apply_manual_lifecycle_event k status previous remaining =
     (if k = CK_draining then
        Inr (if status = CS_manual_intervention then CS_manual_intervention else CS_draining)
      else if k = CK_manual_required then Inr CS_manual_intervention
      else if remaining then Inr CS_manual_intervention
      else resolve_manual_intervention status previous)"

text \<open>The final statuses, \<open>kind.removeprefix("campaign.")\<close>.\<close>

fun terminal_kind_status :: "campaign_kind \<Rightarrow> campaign_status" where
  "terminal_kind_status CK_completed = CS_completed"
| "terminal_kind_status CK_partial = CS_partial"
| "terminal_kind_status CK_failed = CS_failed"
| "terminal_kind_status _ = CS_cancelled"

definition apply_event ::
  "campaign_lock \<Rightarrow> event \<Rightarrow> campaign_status \<Rightarrow> (string, action_projection) dict \<Rightarrow>
   campaign_status option \<Rightarrow> bool \<Rightarrow>
   control_error + (campaign_status \<times> (string, action_projection) dict)" where
  "apply_event lock e status actions previous remaining =
     (if ev_subject_type e \<noteq> ST_campaign \<or> ev_subject_id e \<noteq> cl_campaign_id lock
      then Inl Wrong_subject
      else case ev_kind e of
        Campaign_event k \<Rightarrow>
          if k = CK_submitted then Inl Multiple_submissions
          else if k \<in> {CK_cancel_requested, CK_shard_retry_requested} then
            Inr (apply_operator_request k status, actions)
          else if k \<in> {CK_draining, CK_manual_required, CK_manual_resolved} then
            rbind (apply_manual_lifecycle_event k status previous remaining)
              (\<lambda>s. Inr (s, actions))
          else Inr (terminal_kind_status k, actions)
      | _ \<Rightarrow>
          rbind (apply_action_event e actions)
            (\<lambda>acts. Inr (if status = CS_queued then CS_active else status, acts)))"

subsection \<open>Manual interventions\<close>

definition update_manual_requirements ::
  "event \<Rightarrow> string list \<Rightarrow> control_error + string list" where
  "update_manual_requirements e reqs =
     (if ev_kind e = Campaign_event CK_manual_required then
        rbind (as_lifecycle (ev_payload e)) (\<lambda>p.
          Inr (List.insert (or_else (lp_parent_id p) (ev_event_id e)) reqs))
      else if ev_kind e = Campaign_event CK_manual_resolved then
        rbind (as_resolution (ev_payload e)) (\<lambda>p.
          Inr (filter (\<lambda>r. r \<notin> set (mrp_wave_ids p)) reqs))
      else Inr reqs)"

definition manual_intervention_fully_resolved :: "event \<Rightarrow> string list \<Rightarrow> bool" where
  "manual_intervention_fully_resolved e reqs \<longleftrightarrow>
     ev_kind e = Campaign_event CK_manual_resolved \<and> reqs = []"

definition manual_return_status ::
  "event_kind \<Rightarrow> campaign_status \<Rightarrow> campaign_status option \<Rightarrow> campaign_status option" where
  "manual_return_status k status previous =
     (if k = Campaign_event CK_manual_required \<and> status \<noteq> CS_manual_intervention then Some status
      else if k = Campaign_event CK_cancel_requested \<and> status = CS_manual_intervention \<and>
              previous \<noteq> Some CS_draining then Some CS_cancel_requested
      else if k = Campaign_event CK_draining \<and> status = CS_manual_intervention then Some CS_draining
      else previous)"

subsection \<open>The loop\<close>

record projection_state =
  ps_status :: campaign_status
  ps_previous :: "campaign_status option"
  ps_requirements :: "string list"
  ps_actions :: "(string, action_projection) dict"

definition initial_projection_state :: projection_state where
  "initial_projection_state =
     \<lparr>ps_status = CS_queued, ps_previous = None, ps_requirements = [], ps_actions = []\<rparr>"

definition project_step ::
  "campaign_lock \<Rightarrow> projection_state \<Rightarrow> event \<Rightarrow> control_error + projection_state" where
  "project_step lock s e =
     (if campaign_terminal (ps_status s) then Inl Events_after_terminal
      else if ev_subject_type e \<noteq> ST_campaign then Inr s
      else
        let previous = manual_return_status (ev_kind e) (ps_status s) (ps_previous s) in
        rbind (update_manual_requirements e (ps_requirements s)) (\<lambda>reqs.
        rbind (apply_event lock e (ps_status s) (ps_actions s) previous (reqs \<noteq> [])) (\<lambda>(status, actions).
          Inr \<lparr>ps_status = status,
               ps_previous = (if manual_intervention_fully_resolved e reqs then None else previous),
               ps_requirements = reqs, ps_actions = actions\<rparr>)))"

definition submission_matches :: "campaign_lock \<Rightarrow> event \<Rightarrow> bool" where
  "submission_matches lock e \<longleftrightarrow>
     ev_kind e = Campaign_event CK_submitted \<and> ev_subject_type e = ST_campaign \<and>
     ev_subject_id e = cl_campaign_id lock \<and>
     ev_payload e = Submitted_payload (cl_plan_digest lock)"

definition project_campaign :: "campaign_lock \<Rightarrow> event list \<Rightarrow> control_error + campaign_projection" where
  "project_campaign lock es =
     rbind (ordered_events es) (\<lambda>ordered.
       case ordered of
         [] \<Rightarrow> Inl No_submission_event
       | first # rest \<Rightarrow>
           if \<not> submission_matches lock first then Inl Submission_mismatch
           else rbind (foldM (project_step lock) initial_projection_state rest) (\<lambda>s.
             Inr \<lparr>cp_campaign_id = cl_campaign_id lock, cp_plan_digest = cl_plan_digest lock,
                  cp_status = ps_status s, cp_event_count = int (length ordered),
                  cp_last_observed_at = ev_observed_at (last ordered),
                  cp_actions = ps_actions s\<rparr>))"

end
