(* ===== verification/Recovery.thy ===== *)
theory Recovery
  imports Control_Events
begin

text \<open>
  The recovery projection of \<open>src/src/harbor_hf/recovery.py\<close>: from a campaign lock and its
  event log to the state of every run, shard, trial, physical execution and wave, the spend,
  the counts and the terminal decision. The definitions follow the file's functions in their
  order; \<open>project_recovery\<close> composes them.
\<close>

section \<open>Statuses and projections\<close>

text \<open>
  \<open>RunStatus\<close>, \<open>ShardStatus\<close> and \<open>TrialStatus\<close> are subsets of one set of literals, and the
  code tests all three against the same sets of terminal statuses.
\<close>

datatype node_status =
    NS_planned | NS_queued | NS_active | NS_verifying | NS_publishing | NS_retry_wait
  | NS_complete | NS_invalid | NS_failed_infrastructure | NS_cancelled

definition run_status_ok :: "node_status \<Rightarrow> bool" where
  "run_status_ok s \<longleftrightarrow> s \<noteq> NS_retry_wait"

definition trial_status_ok :: "node_status \<Rightarrow> bool" where
  "trial_status_ok s \<longleftrightarrow> s \<notin> {NS_queued, NS_verifying, NS_publishing}"

datatype task_outcome =
    TO_scored | TO_agent_failed | TO_benchmark_failed | TO_infrastructure_exhausted

datatype execution_status = ES_active | ES_completed | ES_failed | ES_cancelled

datatype terminal_status = TS_completed | TS_partial | TS_failed | TS_cancelled

definition retryable :: "retry_category \<Rightarrow> bool" where
  "retryable c \<longleftrightarrow>
     c \<in> {RC_lost, RC_transient, RC_quota, RC_rate_limit, RC_ambiguous, RC_evidence}"

definition node_terminal :: "node_status \<Rightarrow> bool" where
  "node_terminal s \<longleftrightarrow>
     s \<in> {NS_complete, NS_invalid, NS_failed_infrastructure, NS_cancelled}"

definition scored_terminal :: "node_status \<Rightarrow> bool" where
  "scored_terminal s \<longleftrightarrow> s \<in> {NS_complete, NS_invalid, NS_failed_infrastructure}"

record execution_projection =
  xp_execution_id :: string
  xp_trial_id :: string
  xp_shard_id :: string
  xp_wave_id :: "string option"
  xp_physical_attempt :: int
  xp_status :: execution_status
  xp_category :: "retry_category option"
  xp_observed_at :: int
  xp_retry_after_seconds :: "int option"
  xp_estimated_cost_microusd :: int
  xp_spend_microusd :: int
  xp_message :: "string option"

record trial_projection =
  tr_trial_id :: string
  tr_shard_id :: string
  tr_logical_attempt :: int
  tr_status :: node_status
  tr_executions :: "(string, execution_projection) dict"
  tr_retry_not_before :: "int option"
  tr_outcome :: "task_outcome option"

record shard_projection =
  sh_shard_id :: string
  sh_run_id :: string
  sh_status :: node_status
  sh_trial_ids :: "string list"
  sh_observed_status :: "node_status option"

record run_projection =
  ru_run_id :: string
  ru_deployment_digest :: string
  ru_status :: node_status
  ru_shard_ids :: "string list"
  ru_observed_status :: "node_status option"

record wave_projection =
  wv_wave_id :: string
  wv_deployment_digest :: string
  wv_provider :: string
  wv_shard_ids :: "string list"
  wv_estimated_cost_microusd :: int
  wv_status :: wave_status

record projection_counts =
  pc_planned :: int
  pc_active :: int
  pc_retrying :: int
  pc_complete :: int
  pc_invalid :: int
  pc_failed :: int
  pc_cancelled :: int
  pc_physical_retries :: int

record terminal_decision =
  td_status :: terminal_status
  td_marker :: string
  td_summary_path :: string
  td_marker_path :: string
  td_reason :: string
  td_counts :: projection_counts

record recovery_projection =
  rv_campaign :: campaign_projection
  rv_runs :: "(string, run_projection) dict"
  rv_shards :: "(string, shard_projection) dict"
  rv_trials :: "(string, trial_projection) dict"
  rv_executions :: "(string, execution_projection) dict"
  rv_waves :: "(string, wave_projection) dict"
  rv_spend_microusd :: int
  rv_counts :: projection_counts
  rv_cancel_requested_at :: "int option"
  rv_terminal_decision :: "terminal_decision option"

datatype recovery_error =
    Control_failure control_error
  | Unknown_run string
  | Unknown_shard string
  | Unknown_trial string
  | Execution_unknown_trial
  | Execution_started_twice string
  | Duplicate_physical_attempt
  | Outcome_without_start string
  | Multiple_outcomes string
  | Outcome_identity_mismatch
  | Completed_with_category
  | Failed_without_category
  | Wave_unknown_shards "string list"
  | Wave_identity_changed
  | Invalid_wave_transition wave_status wave_status
  | Resolution_without_failed_cleanup
  | Attempts_not_contiguous
  | Completed_trial_reexecuted
  | Terminal_before_children
  | Completed_with_incomplete_children
  | Retry_unknown_shard
  | Retry_generations_mismatch
  | Retry_generation_exceeds_state
  | Retry_category_terminal
  | Missing_key
  | Bad_payload
  | Not_recorded_partial
  | Partial_cleanup_incomplete
  | Trial_not_sealable string
  | Trial_without_failed_execution string
  | Sealed_run_without_score
  | Cleanup_not_verified
  | Manual_intervention_not_required
  | Manual_requirement_not_recorded
  | Manual_without_recoverable_cleanup
  | Resolution_identity_conflicts
  | Terminal_campaign_retry
  | Cancelling_campaign_retry
  | Retry_request_unknown_shard string
  | Shard_not_retryable
  | Retry_identity_conflicts

fun as_wave :: "event_payload \<Rightarrow> recovery_error + wave_payload" where
  "as_wave (Wave_payload p) = Inr p"
| "as_wave _ = Inl Bad_payload"

fun as_started :: "event_payload \<Rightarrow> recovery_error + started_payload" where
  "as_started (Started_payload p) = Inr p"
| "as_started _ = Inl Bad_payload"

fun as_outcome :: "event_payload \<Rightarrow> recovery_error + outcome_payload" where
  "as_outcome (Outcome_payload p) = Inr p"
| "as_outcome _ = Inl Bad_payload"

fun as_spend :: "event_payload \<Rightarrow> recovery_error + spend_payload" where
  "as_spend (Spend_payload p) = Inr p"
| "as_spend _ = Inl Bad_payload"

fun as_shard_retry :: "event_payload \<Rightarrow> recovery_error + shard_retry_payload" where
  "as_shard_retry (Shard_retry_payload p) = Inr p"
| "as_shard_retry _ = Inl Bad_payload"

section \<open>Retry delays\<close>

fun category_name :: "retry_category \<Rightarrow> string" where
  "category_name RC_lost = ''lost''"
| "category_name RC_transient = ''transient''"
| "category_name RC_quota = ''quota''"
| "category_name RC_rate_limit = ''rate-limit''"
| "category_name RC_ambiguous = ''ambiguous''"
| "category_name RC_agent = ''agent''"
| "category_name RC_benchmark = ''benchmark''"
| "category_name RC_configuration = ''configuration''"
| "category_name RC_authentication = ''authentication''"
| "category_name RC_cleanup = ''cleanup''"
| "category_name RC_evidence = ''evidence''"

definition microseconds :: "int \<Rightarrow> int" where
  "microseconds seconds = 1000000 * seconds"

text \<open>The jitter percentage taken from the first digest byte; SHA-256 digests are not empty.\<close>

definition jitter_percent :: "byte list \<Rightarrow> int" where
  "jitter_percent d = 75 + (uint (hd d) * 50) div 255"

definition retry_delay_seconds ::
  "hash \<Rightarrow> campaign_lock \<Rightarrow> retry_category \<Rightarrow> int \<Rightarrow> string \<Rightarrow> int option \<Rightarrow> recovery_error + int" where
  "retry_delay_seconds h lock category attempt execution_id retry_after =
     (if \<not> retryable category then Inl Retry_category_terminal
      else
        let policy = cl_recovery_policy lock;
            exponent = min (attempt - 1) 30;
            multiplier = (if category \<in> {RC_quota, RC_rate_limit} then 2 else 1);
            raw = rp_retry_base_seconds policy * 2 ^ nat exponent * multiplier;
            d = h (execution_id @ '':'' @ category_name category @ '':'' @ show_int attempt);
            jittered = raw * jitter_percent d div 100;
            requested = (case retry_after of None \<Rightarrow> 0 | Some r \<Rightarrow> r)
        in Inr (min (rp_retry_max_seconds policy) (max 1 (max jittered requested))))"

definition retry_is_ready :: "trial_projection \<Rightarrow> int \<Rightarrow> bool" where
  "retry_is_ready t now \<longleftrightarrow>
     tr_status t = NS_retry_wait \<and>
     (case tr_retry_not_before t of None \<Rightarrow> False | Some r \<Rightarrow> r \<le> now)"

section \<open>Initial projections\<close>

definition initial_run :: "run_lock \<Rightarrow> run_projection" where
  "initial_run r =
     \<lparr>ru_run_id = rl_run_id r, ru_deployment_digest = ra_deployment_digest r,
      ru_status = NS_planned, ru_shard_ids = map sl_shard_id (rl_shards r),
      ru_observed_status = None\<rparr>"

definition initial_shard :: "string \<Rightarrow> shard_lock \<Rightarrow> shard_projection" where
  "initial_shard run_id s =
     \<lparr>sh_shard_id = sl_shard_id s, sh_run_id = run_id, sh_status = NS_planned,
      sh_trial_ids = map tl_trial_id (sl_trials s), sh_observed_status = None\<rparr>"

definition initial_trial :: "string \<Rightarrow> trial_lock \<Rightarrow> trial_projection" where
  "initial_trial shard_id t =
     \<lparr>tr_trial_id = tl_trial_id t, tr_shard_id = shard_id,
      tr_logical_attempt = tl_logical_attempt t, tr_status = NS_planned, tr_executions = [],
      tr_retry_not_before = None, tr_outcome = None\<rparr>"

record recovery_state =
  rs_runs :: "(string, run_projection) dict"
  rs_shards :: "(string, shard_projection) dict"
  rs_trials :: "(string, trial_projection) dict"
  rs_executions :: "(string, execution_projection) dict"
  rs_waves :: "(string, wave_projection) dict"
  rs_spend :: int

definition initial_projections :: "campaign_lock \<Rightarrow> recovery_state" where
  "initial_projections lock =
     \<lparr>rs_runs = mk_dict (map (\<lambda>r. (rl_run_id r, initial_run r)) (cl_runs lock)),
      rs_shards = mk_dict (concat (map (\<lambda>r. map (\<lambda>s. (sl_shard_id s, initial_shard (rl_run_id r) s))
        (rl_shards r)) (cl_runs lock))),
      rs_trials = mk_dict (concat (map (\<lambda>s. map (\<lambda>t. (tl_trial_id t, initial_trial (sl_shard_id s) t))
        (sl_trials s)) (lock_shards lock))),
      rs_executions = [], rs_waves = [], rs_spend = 0\<rparr>"

section \<open>Applying one event\<close>

fun lifecycle_status :: "lifecycle \<Rightarrow> node_status" where
  "lifecycle_status L_queued = NS_queued"
| "lifecycle_status L_active = NS_active"
| "lifecycle_status L_verifying = NS_verifying"
| "lifecycle_status L_publishing = NS_publishing"
| "lifecycle_status L_complete = NS_complete"
| "lifecycle_status L_invalid = NS_invalid"
| "lifecycle_status L_failed_infrastructure = NS_failed_infrastructure"
| "lifecycle_status L_cancelled = NS_cancelled"

fun trial_kind_status :: "trial_kind \<Rightarrow> node_status" where
  "trial_kind_status TK_complete = NS_complete"
| "trial_kind_status TK_invalid = NS_invalid"
| "trial_kind_status TK_failed_infrastructure = NS_failed_infrastructure"
| "trial_kind_status TK_cancelled = NS_cancelled"

definition record_run_status ::
  "string \<Rightarrow> lifecycle \<Rightarrow> recovery_state \<Rightarrow> recovery_error + recovery_state" where
  "record_run_status subject l s =
     (case map_of (rs_runs s) subject of
        None \<Rightarrow> Inl (Unknown_run subject)
      | Some r \<Rightarrow> Inr (s\<lparr>rs_runs := AList.update subject
          (r\<lparr>ru_observed_status := Some (lifecycle_status l)\<rparr>) (rs_runs s)\<rparr>))"

definition record_shard_status ::
  "string \<Rightarrow> lifecycle \<Rightarrow> recovery_state \<Rightarrow> recovery_error + recovery_state" where
  "record_shard_status subject l s =
     (case map_of (rs_shards s) subject of
        None \<Rightarrow> Inl (Unknown_shard subject)
      | Some x \<Rightarrow> Inr (s\<lparr>rs_shards := AList.update subject
          (x\<lparr>sh_observed_status := Some (lifecycle_status l)\<rparr>) (rs_shards s)\<rparr>))"

definition record_trial_status ::
  "string \<Rightarrow> trial_kind \<Rightarrow> recovery_state \<Rightarrow> recovery_error + recovery_state" where
  "record_trial_status subject k s =
     (case map_of (rs_trials s) subject of
        None \<Rightarrow> Inl (Unknown_trial subject)
      | Some t \<Rightarrow> Inr (s\<lparr>rs_trials := AList.update subject
          (t\<lparr>tr_status := trial_kind_status k\<rparr>) (rs_trials s)\<rparr>))"

definition start_execution :: "event \<Rightarrow> recovery_state \<Rightarrow> recovery_error + recovery_state" where
  "start_execution e s =
     rbind (as_started (ev_payload e)) (\<lambda>p.
       case map_of (rs_trials s) (esp_trial_id p) of
         None \<Rightarrow> Inl Execution_unknown_trial
       | Some t \<Rightarrow>
           if tr_shard_id t \<noteq> esp_shard_id p then Inl Execution_unknown_trial
           else if ev_subject_id e \<in> set (dict_keys (rs_executions s)) then
             Inl (Execution_started_twice (ev_subject_id e))
           else if esp_physical_attempt p \<in> set (map xp_physical_attempt
               (filter (\<lambda>x. xp_trial_id x = esp_trial_id p) (dict_values (rs_executions s)))) then
             Inl Duplicate_physical_attempt
           else Inr (s\<lparr>rs_executions := AList.update (ev_subject_id e)
             \<lparr>xp_execution_id = ev_subject_id e, xp_trial_id = esp_trial_id p,
              xp_shard_id = esp_shard_id p, xp_wave_id = esp_wave_id p,
              xp_physical_attempt = esp_physical_attempt p, xp_status = ES_active,
              xp_category = None, xp_observed_at = ev_observed_at e,
              xp_retry_after_seconds = None,
              xp_estimated_cost_microusd = esp_estimated_cost_microusd p,
              xp_spend_microusd = 0, xp_message = None\<rparr> (rs_executions s)\<rparr>))"

definition lost_sentinel_message :: "string \<Rightarrow> bool" where
  "lost_sentinel_message m \<longleftrightarrow>
     starts_with m ''HF Job '' \<and> ends_with m '' without terminal execution evidence''"

definition is_reconciler_lost_sentinel :: "event \<Rightarrow> recovery_error + bool" where
  "is_reconciler_lost_sentinel e =
     (if ev_producer e \<noteq> PR_reconciler \<or> ev_kind e \<noteq> Execution_event EK_failed then Inr False
      else rbind (as_outcome (ev_payload e)) (\<lambda>p.
        Inr (eop_category p = Some RC_lost \<and>
          (case eop_message p of None \<Rightarrow> False | Some m \<Rightarrow> lost_sentinel_message m))))"

fun execution_kind_status :: "execution_kind \<Rightarrow> execution_status" where
  "execution_kind_status EK_completed = ES_completed"
| "execution_kind_status EK_failed = ES_failed"
| "execution_kind_status EK_cancelled = ES_cancelled"
| "execution_kind_status EK_started = ES_active"

definition finish_execution ::
  "event \<Rightarrow> execution_kind \<Rightarrow> recovery_state \<Rightarrow> recovery_error + recovery_state" where
  "finish_execution e k s =
     (case map_of (rs_executions s) (ev_subject_id e) of
        None \<Rightarrow> Inl (Outcome_without_start (ev_subject_id e))
      | Some x \<Rightarrow>
          if xp_status x \<noteq> ES_active then
            rbind (is_reconciler_lost_sentinel e) (\<lambda>sentinel.
              if sentinel then Inr s else Inl (Multiple_outcomes (ev_subject_id e)))
          else rbind (as_outcome (ev_payload e)) (\<lambda>p.
            if eop_trial_id p \<noteq> xp_trial_id x \<or> eop_physical_attempt p \<noteq> xp_physical_attempt x
            then Inl Outcome_identity_mismatch
            else if k = EK_completed \<and> eop_category p \<noteq> None then Inl Completed_with_category
            else if k = EK_failed \<and> eop_category p = None then Inl Failed_without_category
            else Inr (s\<lparr>rs_executions := AList.update (ev_subject_id e)
                (x\<lparr>xp_status := execution_kind_status k, xp_category := eop_category p,
                   xp_observed_at := ev_observed_at e,
                   xp_retry_after_seconds := eop_retry_after_seconds p,
                   xp_spend_microusd := eop_spend_microusd p,
                   xp_message := eop_message p\<rparr>) (rs_executions s),
              rs_spend := rs_spend s + eop_spend_microusd p\<rparr>)))"

fun allowed_wave_transitions :: "wave_status \<Rightarrow> wave_status set" where
  "allowed_wave_transitions WS_acquiring =
     {WS_provisioning, WS_draining, WS_cleaning, WS_cleanup_failed}"
| "allowed_wave_transitions WS_provisioning =
     {WS_ready, WS_draining, WS_cleaning, WS_cleanup_failed}"
| "allowed_wave_transitions WS_ready = {WS_active, WS_draining, WS_cleaning, WS_cleanup_failed}"
| "allowed_wave_transitions WS_active = {WS_draining, WS_cleaning, WS_cleanup_failed}"
| "allowed_wave_transitions WS_draining = {WS_cleaning, WS_closed, WS_cleanup_failed}"
| "allowed_wave_transitions WS_cleaning = {WS_closed, WS_cleanup_failed}"
| "allowed_wave_transitions WS_cleanup_failed = {WS_cleaning, WS_closed}"
| "allowed_wave_transitions WS_closed = {}"

definition validate_wave_transition :: "wave_status \<Rightarrow> wave_status \<Rightarrow> recovery_error + unit" where
  "validate_wave_transition previous current =
     require (\<not> (current \<noteq> previous \<and> current \<notin> allowed_wave_transitions previous))
       (Invalid_wave_transition previous current)"

definition stale_reconciler_transition :: "producer \<Rightarrow> wave_status \<Rightarrow> wave_status \<Rightarrow> bool" where
  "stale_reconciler_transition producer previous current \<longleftrightarrow>
     producer = PR_reconciler \<and>
     (previous = WS_closed \<and> current \<in> {WS_draining, WS_cleaning} \<or>
      previous = WS_cleanup_failed \<and> current = WS_draining)"

definition wave_of_payload :: "string \<Rightarrow> wave_status \<Rightarrow> wave_payload \<Rightarrow> wave_projection" where
  "wave_of_payload subject status p =
     \<lparr>wv_wave_id = subject, wv_deployment_digest = wp_deployment_digest p,
      wv_provider = wp_provider p, wv_shard_ids = wp_shard_ids p,
      wv_estimated_cost_microusd = wp_estimated_cost_microusd p, wv_status = status\<rparr>"

definition record_wave_status ::
  "event \<Rightarrow> wave_status \<Rightarrow> recovery_state \<Rightarrow> recovery_error + recovery_state" where
  "record_wave_status e status s =
     rbind (as_wave (ev_payload e)) (\<lambda>p.
       let unknown = filter (\<lambda>i. i \<notin> set (dict_keys (rs_shards s))) (wp_shard_ids p);
           new = s\<lparr>rs_waves := AList.update (ev_subject_id e)
             (wave_of_payload (ev_subject_id e) status p) (rs_waves s)\<rparr>
       in if unknown \<noteq> [] then Inl (Wave_unknown_shards (sort (remdups unknown)))
          else case map_of (rs_waves s) (ev_subject_id e) of
            None \<Rightarrow> Inr new
          | Some w \<Rightarrow>
              if (wv_deployment_digest w, wv_provider w, wv_shard_ids w, wv_estimated_cost_microusd w)
                 \<noteq> (wp_deployment_digest p, wp_provider p, wp_shard_ids p, wp_estimated_cost_microusd p)
              then Inl Wave_identity_changed
              else if stale_reconciler_transition (ev_producer e) (wv_status w) status then Inr s
              else rbind (validate_wave_transition (wv_status w) status) (\<lambda>_. Inr new))"

definition resolve_wave ::
  "(string, wave_projection) dict \<Rightarrow> string \<Rightarrow> recovery_error + (string, wave_projection) dict" where
  "resolve_wave waves wave_id =
     (case map_of waves wave_id of
        None \<Rightarrow> Inl Resolution_without_failed_cleanup
      | Some w \<Rightarrow>
          if wv_status w \<notin> {WS_cleanup_failed, WS_closed} then Inl Resolution_without_failed_cleanup
          else if wv_status w = WS_cleanup_failed then
            Inr (AList.update (wv_wave_id w) (w\<lparr>wv_status := WS_closed\<rparr>) waves)
          else Inr waves)"

definition apply_campaign_recovery_event ::
  "event \<Rightarrow> (string, wave_projection) dict \<Rightarrow> recovery_error + (string, wave_projection) dict" where
  "apply_campaign_recovery_event e waves =
     (if ev_kind e \<noteq> Campaign_event CK_manual_resolved then Inr waves
      else rbind (lift_error (\<lambda>_. Bad_payload) (as_resolution (ev_payload e))) (\<lambda>p.
        foldM resolve_wave waves (mrp_wave_ids p)))"

definition apply_recovery_event :: "recovery_state \<Rightarrow> event \<Rightarrow> recovery_error + recovery_state" where
  "apply_recovery_event s e =
     (case ev_kind e of
        Run_event l \<Rightarrow> record_run_status (ev_subject_id e) l s
      | Shard_event l \<Rightarrow> record_shard_status (ev_subject_id e) l s
      | Trial_event k \<Rightarrow> record_trial_status (ev_subject_id e) k s
      | Execution_event k \<Rightarrow>
          if k = EK_started then start_execution e s else finish_execution e k s
      | Wave_event w \<Rightarrow> record_wave_status e w s
      | Spend_recorded \<Rightarrow> rbind (as_spend (ev_payload e)) (\<lambda>p.
          Inr (s\<lparr>rs_spend := rs_spend s + sp_amount_microusd p\<rparr>))
      | _ \<Rightarrow> Inr s)"

definition recovery_step :: "recovery_state \<Rightarrow> event \<Rightarrow> recovery_error + recovery_state" where
  "recovery_step s e =
     rbind (apply_campaign_recovery_event e (rs_waves s)) (\<lambda>waves.
       apply_recovery_event (s\<lparr>rs_waves := waves\<rparr>) e)"

section \<open>Deriving trials\<close>

definition derive_task_outcome ::
  "node_status \<Rightarrow> execution_projection list \<Rightarrow> task_outcome option" where
  "derive_task_outcome status executions =
     (if status = NS_complete then Some TO_scored
      else if status \<notin> {NS_invalid, NS_failed_infrastructure} \<or> executions = [] then None
      else
        let latest = last executions in
        if xp_status latest \<noteq> ES_failed then None
        else if xp_category latest = Some RC_agent then Some TO_agent_failed
        else if xp_category latest = Some RC_benchmark then Some TO_benchmark_failed
        else Some TO_infrastructure_exhausted)"

definition failed_trial_state ::
  "hash \<Rightarrow> campaign_lock \<Rightarrow> execution_projection \<Rightarrow> int \<Rightarrow>
   recovery_error + (node_status \<times> int option)" where
  "failed_trial_state h lock x count =
     (case xp_category x of
        None \<Rightarrow> Inr (NS_failed_infrastructure, None)
      | Some category \<Rightarrow>
          if category \<in> {RC_agent, RC_benchmark} then Inr (NS_invalid, None)
          else if \<not> retryable category then Inr (NS_failed_infrastructure, None)
          else if rp_max_physical_executions_per_trial (cl_recovery_policy lock) \<le> count then
            Inr (if category \<in> {RC_agent, RC_benchmark} then NS_invalid else NS_failed_infrastructure,
                 None)
          else rbind (retry_delay_seconds h lock category (xp_physical_attempt x)
                 (xp_execution_id x) (xp_retry_after_seconds x)) (\<lambda>delay.
            Inr (NS_retry_wait, Some (xp_observed_at x + microseconds delay))))"

definition derive_trial ::
  "hash \<Rightarrow> campaign_lock \<Rightarrow> trial_projection \<Rightarrow> execution_projection list \<Rightarrow>
   recovery_error + trial_projection" where
  "derive_trial h lock t executions =
     (let ordered = sort_key xp_physical_attempt executions;
          completed = filter (\<lambda>i. xp_status (ordered ! i) = ES_completed) [0..<length ordered];
          execution_map = mk_dict (map (\<lambda>x. (xp_execution_id x, x)) ordered)
      in
      if map xp_physical_attempt ordered \<noteq> map int [1..<length ordered + 1] then
        Inl Attempts_not_contiguous
      else if completed \<noteq> [] \<and> last completed \<noteq> length ordered - 1 then
        Inl Completed_trial_reexecuted
      else if node_terminal (tr_status t) then
        Inr (t\<lparr>tr_executions := execution_map,
               tr_outcome := derive_task_outcome (tr_status t) ordered\<rparr>)
      else if ordered = [] then Inr t
      else if \<exists>x \<in> set ordered. xp_status x = ES_completed then
        Inr (t\<lparr>tr_status := NS_complete, tr_executions := execution_map,
               tr_outcome := Some TO_scored\<rparr>)
      else
        let latest = last ordered in
        rbind
          (if xp_status latest = ES_active then Inr (NS_active, None)
           else if xp_status latest = ES_cancelled then Inr (NS_cancelled, None)
           else failed_trial_state h lock latest (int (length ordered)))
          (\<lambda>(status, retry_at).
            Inr (t\<lparr>tr_status := status, tr_executions := execution_map,
                   tr_retry_not_before := retry_at,
                   tr_outcome := derive_task_outcome status ordered\<rparr>)))"

definition derive_trials ::
  "hash \<Rightarrow> campaign_lock \<Rightarrow> (string, trial_projection) dict \<Rightarrow> (string, execution_projection) dict \<Rightarrow>
   recovery_error + (string, trial_projection) dict" where
  "derive_trials h lock trials executions =
     rbind (require (\<forall>x \<in> set (dict_values executions). xp_trial_id x \<in> set (dict_keys trials)) Missing_key)
       (\<lambda>_. mapM (\<lambda>(trial_id, t).
          rbind (derive_trial h lock t
              (filter (\<lambda>x. xp_trial_id x = trial_id) (dict_values executions)))
            (\<lambda>t'. Inr (trial_id, t'))) trials)"

section \<open>Retry requests\<close>

definition shard_trial_ids :: "campaign_lock \<Rightarrow> string \<Rightarrow> string list option" where
  "shard_trial_ids lock shard_id =
     map_of (mk_dict (map (\<lambda>s. (sl_shard_id s, map tl_trial_id (sl_trials s))) (lock_shards lock))) shard_id"

definition validated_retry_generations ::
  "campaign_lock \<Rightarrow> shard_retry_payload \<Rightarrow> (string, trial_projection) dict \<Rightarrow>
   recovery_error + (string, int) dict" where
  "validated_retry_generations lock p trials =
     (case shard_trial_ids lock (srp_shard_id p) of
        None \<Rightarrow> Inl Retry_unknown_shard
      | Some allowed \<Rightarrow>
          foldM (\<lambda>acc (trial_id, generation).
            if trial_id \<notin> set allowed \<or> generation < 1 then Inl Retry_generations_mismatch
            else case map_of trials trial_id of
              None \<Rightarrow> Inl Missing_key
            | Some t \<Rightarrow>
                if int (length (tr_executions t)) < generation then Inl Retry_generations_mismatch
                else Inr acc) (srp_trial_generations p) (srp_trial_generations p))"

record legacy_state =
  ls_state :: recovery_state
  ls_execution_ids :: "(string, string list) dict"
  ls_generations :: "(string, (string, int) dict) dict"

definition legacy_event_generations ::
  "hash \<Rightarrow> campaign_lock \<Rightarrow> legacy_state \<Rightarrow> event \<Rightarrow> recovery_error + (string, int) dict" where
  "legacy_event_generations h lock s e =
     rbind (as_shard_retry (ev_payload e)) (\<lambda>p.
       case map_of (rs_shards (ls_state s)) (srp_shard_id p) of
         None \<Rightarrow> Inl Retry_unknown_shard
       | Some shard \<Rightarrow>
           foldM (\<lambda>gens trial_id.
             rbind (of_option Missing_key (map_of (rs_trials (ls_state s)) trial_id)) (\<lambda>t.
             rbind (of_option Missing_key (map_of (ls_execution_ids s) trial_id)) (\<lambda>ids.
             rbind (mapM (\<lambda>i. of_option Missing_key (map_of (rs_executions (ls_state s)) i)) ids) (\<lambda>xs.
             rbind (derive_trial h lock t xs) (\<lambda>current.
               Inr (if tr_status current = NS_retry_wait
                    then AList.update trial_id (int (length (tr_executions current))) gens
                    else gens)))))) [] (sh_trial_ids shard))"

definition legacy_step ::
  "hash \<Rightarrow> campaign_lock \<Rightarrow> legacy_state \<Rightarrow> event \<Rightarrow> recovery_error + legacy_state" where
  "legacy_step h lock s e =
     rbind (if ev_kind e = Campaign_event CK_shard_retry_requested
            then rbind (legacy_event_generations h lock s e) (\<lambda>gens.
              Inr (AList.update (ev_event_id e) gens (ls_generations s)))
            else Inr (ls_generations s)) (\<lambda>generations.
     rbind (recovery_step (ls_state s) e) (\<lambda>state.
     rbind (if ev_kind e = Execution_event EK_started
            then rbind (as_started (ev_payload e)) (\<lambda>p.
              rbind (of_option Missing_key (map_of (ls_execution_ids s) (esp_trial_id p))) (\<lambda>ids.
                Inr (AList.update (esp_trial_id p) (ids @ [ev_subject_id e]) (ls_execution_ids s))))
            else Inr (ls_execution_ids s)) (\<lambda>ids.
       Inr \<lparr>ls_state = state, ls_execution_ids = ids, ls_generations = generations\<rparr>)))"

definition legacy_retry_generations ::
  "hash \<Rightarrow> campaign_lock \<Rightarrow> event list \<Rightarrow> recovery_error + (string, (string, int) dict) dict" where
  "legacy_retry_generations h lock events =
     (let s = initial_projections lock in
      rbind (foldM (legacy_step h lock)
          \<lparr>ls_state = s, ls_execution_ids = map (\<lambda>(k, _). (k, [])) (rs_trials s),
           ls_generations = []\<rparr> events)
        (\<lambda>r. Inr (ls_generations r)))"

definition needs_legacy_generations :: "event list \<Rightarrow> recovery_error + bool" where
  "needs_legacy_generations ordered =
     foldM (\<lambda>found e.
       if found \<or> ev_kind e \<noteq> Campaign_event CK_shard_retry_requested then Inr found
       else rbind (as_shard_retry (ev_payload e)) (\<lambda>p. Inr (srp_trial_generations p = [])))
       False ordered"

type_synonym requests = "(string \<times> int, int) dict"

definition record_requests :: "int \<Rightarrow> requests \<Rightarrow> (string, int) dict \<Rightarrow> requests" where
  "record_requests observed_at requested generations =
     foldl (\<lambda>r key. AList.update key
       (max (case map_of r key of None \<Rightarrow> observed_at | Some at \<Rightarrow> at) observed_at) r)
       requested generations"

definition collect_requests ::
  "campaign_lock \<Rightarrow> (string, (string, int) dict) dict \<Rightarrow> (string, trial_projection) dict \<Rightarrow>
   requests \<Rightarrow> event \<Rightarrow> recovery_error + requests" where
  "collect_requests lock legacy trials requested e =
     (if ev_kind e \<noteq> Campaign_event CK_shard_retry_requested then Inr requested
      else rbind (as_shard_retry (ev_payload e)) (\<lambda>p.
        rbind (if srp_trial_generations p \<noteq> [] then validated_retry_generations lock p trials
               else of_option Missing_key (map_of legacy (ev_event_id e))) (\<lambda>generations.
          Inr (record_requests (ev_observed_at e) requested generations))))"

definition requested_generations :: "string \<Rightarrow> requests \<Rightarrow> int list" where
  "requested_generations trial_id requested =
     map (snd \<circ> fst) (filter (\<lambda>((t, _), _). t = trial_id) requested)"

definition recover_trial ::
  "hash \<Rightarrow> campaign_lock \<Rightarrow> requests \<Rightarrow> string \<times> trial_projection \<Rightarrow>
   recovery_error + (string \<times> trial_projection)" where
  "recover_trial h lock requested kv =
     (case kv of (trial_id, t) \<Rightarrow>
       (case requested_generations trial_id requested of
          [] \<Rightarrow> Inr (trial_id, t)
        | g # gs \<Rightarrow>
            let generation = foldl max g gs;
                current_generation = int (length (tr_executions t));
                cleared = t\<lparr>tr_status := NS_planned, tr_retry_not_before := None, tr_outcome := None\<rparr>
            in if current_generation < generation then Inl Retry_generation_exceeds_state
               else rbind (derive_trial h lock cleared (dict_values (tr_executions t))) (\<lambda>derived.
                 Inr (trial_id,
                   if generation = current_generation \<and> tr_status derived = NS_retry_wait
                   then derived\<lparr>tr_retry_not_before := map_of requested (trial_id, generation)\<rparr>
                   else derived))))"

definition apply_retry_requests ::
  "hash \<Rightarrow> campaign_lock \<Rightarrow> event list \<Rightarrow> (string, trial_projection) dict \<Rightarrow>
   recovery_error + (string, trial_projection) dict" where
  "apply_retry_requests h lock events trials =
     rbind (lift_error Control_failure (ordered_events events)) (\<lambda>ordered.
     rbind (needs_legacy_generations ordered) (\<lambda>needed.
     rbind (if needed then legacy_retry_generations h lock ordered else Inr []) (\<lambda>legacy.
     rbind (foldM (collect_requests lock legacy trials) [] ordered) (\<lambda>requested.
       mapM (recover_trial h lock requested) trials))))"

section \<open>Deriving shards and runs\<close>

definition scored_terminal_status :: "node_status list \<Rightarrow> node_status option" where
  "scored_terminal_status statuses =
     (if \<not> list_all scored_terminal statuses then None
      else if NS_complete \<in> set statuses then Some NS_complete
      else if NS_failed_infrastructure \<in> set statuses then Some NS_failed_infrastructure
      else Some NS_invalid)"

definition validate_observed_terminal ::
  "node_status option \<Rightarrow> node_status list \<Rightarrow> recovery_error + unit" where
  "validate_observed_terminal observed children =
     (case observed of
        None \<Rightarrow> Inr ()
      | Some s \<Rightarrow>
          if \<not> node_terminal s then Inr ()
          else if \<not> list_all node_terminal children then Inl Terminal_before_children
          else if s = NS_complete \<and>
              (\<not> list_all scored_terminal children \<or> NS_complete \<notin> set children)
          then Inl Completed_with_incomplete_children
          else Inr ())"

definition aggregate_shard ::
  "shard_projection \<Rightarrow> (string, trial_projection) dict \<Rightarrow> recovery_error + node_status" where
  "aggregate_shard shard trials =
     rbind (mapM (\<lambda>i. of_option Missing_key (map_of trials i)) (sh_trial_ids shard)) (\<lambda>ts.
       let statuses = map tr_status ts in
       rbind (validate_observed_terminal (sh_observed_status shard) statuses) (\<lambda>_.
         case scored_terminal_status statuses of
           Some scored \<Rightarrow> Inr scored
         | None \<Rightarrow>
             if list_all node_terminal statuses then Inr NS_cancelled
             else if NS_active \<in> set statuses then Inr NS_active
             else if NS_retry_wait \<in> set statuses then Inr NS_retry_wait
             else Inr (case sh_observed_status shard of None \<Rightarrow> NS_planned | Some s \<Rightarrow> s)))"

definition derive_shards ::
  "(string, shard_projection) dict \<Rightarrow> (string, trial_projection) dict \<Rightarrow>
   recovery_error + (string, shard_projection) dict" where
  "derive_shards shards trials =
     mapM (\<lambda>(k, shard). rbind (aggregate_shard shard trials) (\<lambda>st.
       Inr (k, shard\<lparr>sh_status := st\<rparr>))) shards"

definition aggregate_run ::
  "run_projection \<Rightarrow> (string, shard_projection) dict \<Rightarrow> recovery_error + node_status" where
  "aggregate_run run shards =
     rbind (mapM (\<lambda>i. of_option Missing_key (map_of shards i)) (ru_shard_ids run)) (\<lambda>ss.
       let statuses = map sh_status ss in
       rbind (validate_observed_terminal (ru_observed_status run) statuses) (\<lambda>_.
         case scored_terminal_status statuses of
           Some scored \<Rightarrow> Inr scored
         | None \<Rightarrow>
             if list_all node_terminal statuses then Inr NS_cancelled
             else if NS_active \<in> set statuses \<or> NS_retry_wait \<in> set statuses then Inr NS_active
             else Inr (case ru_observed_status run of None \<Rightarrow> NS_planned | Some s \<Rightarrow> s)))"

definition derive_runs ::
  "(string, run_projection) dict \<Rightarrow> (string, shard_projection) dict \<Rightarrow>
   recovery_error + (string, run_projection) dict" where
  "derive_runs runs shards =
     mapM (\<lambda>(k, run). rbind (aggregate_run run shards) (\<lambda>st.
       Inr (k, run\<lparr>ru_status := st\<rparr>))) runs"

section \<open>Counts and the terminal decision\<close>

definition count_status :: "node_status \<Rightarrow> trial_projection list \<Rightarrow> int" where
  "count_status st ts = int (length (filter (\<lambda>t. tr_status t = st) ts))"

definition projection_counts_of :: "(string, trial_projection) dict \<Rightarrow> projection_counts" where
  "projection_counts_of trials =
     (let ts = dict_values trials;
          executions = sum_list (map (\<lambda>t. int (length (tr_executions t))) ts)
      in \<lparr>pc_planned = count_status NS_planned ts, pc_active = count_status NS_active ts,
          pc_retrying = count_status NS_retry_wait ts, pc_complete = count_status NS_complete ts,
          pc_invalid = count_status NS_invalid ts,
          pc_failed = count_status NS_failed_infrastructure ts,
          pc_cancelled = count_status NS_cancelled ts,
          pc_physical_retries =
            max 0 (executions - int (length (filter (\<lambda>t. tr_executions t \<noteq> []) ts)))\<rparr>)"

definition terminal_counts :: "campaign_projection \<Rightarrow> projection_counts \<Rightarrow> projection_counts" where
  "terminal_counts campaign counts =
     (if cp_status campaign \<notin> {CS_cancel_requested, CS_draining, CS_cancelled, CS_partial} then counts
      else counts\<lparr>pc_planned := 0, pc_retrying := 0,
             pc_cancelled := pc_cancelled counts + pc_planned counts + pc_retrying counts\<rparr>)"

definition wave_id_of_key :: "string \<Rightarrow> string" where
  "wave_id_of_key key = ''wave-'' @ key"

definition billable :: "action_kind \<Rightarrow> bool" where
  "billable k \<longleftrightarrow> k \<in> {AK_submit_wave, AK_retry_shard}"

definition cleanup_is_complete ::
  "campaign_projection \<Rightarrow> (string, wave_projection) dict \<Rightarrow> bool" where
  "cleanup_is_complete campaign waves \<longleftrightarrow>
     \<not> (\<exists>a \<in> set (dict_values (cp_actions campaign)).
        billable (ap_action_kind a) \<and> ap_status a \<noteq> AS_failed \<and>
        (case map_of waves (wave_id_of_key (ap_action_key a)) of
           None \<Rightarrow> True | Some w \<Rightarrow> wv_status w \<noteq> WS_closed)) \<and>
     list_all (\<lambda>w. wv_status w = WS_closed) (dict_values waves)"

fun decision_marker :: "terminal_status \<Rightarrow> string" where
  "decision_marker TS_completed = ''_SUCCESS''"
| "decision_marker TS_partial = ''_PARTIAL''"
| "decision_marker TS_failed = ''_FAILED''"
| "decision_marker TS_cancelled = ''_CANCELLED''"

definition decision ::
  "campaign_lock \<Rightarrow> terminal_status \<Rightarrow> projection_counts \<Rightarrow> string \<Rightarrow> terminal_decision" where
  "decision lock status counts reason =
     \<lparr>td_status = status, td_marker = decision_marker status,
      td_summary_path = cl_artifact_prefix lock @ ''/campaign-summary.json'',
      td_marker_path = cl_artifact_prefix lock @ ''/'' @ decision_marker status,
      td_reason = reason, td_counts = counts\<rparr>"

fun recorded_status :: "campaign_status \<Rightarrow> terminal_status option" where
  "recorded_status CS_completed = Some TS_completed"
| "recorded_status CS_partial = Some TS_partial"
| "recorded_status CS_failed = Some TS_failed"
| "recorded_status CS_cancelled = Some TS_cancelled"
| "recorded_status _ = None"

definition terminal_decision_of ::
  "campaign_lock \<Rightarrow> campaign_projection \<Rightarrow> (string, run_projection) dict \<Rightarrow>
   (string, trial_projection) dict \<Rightarrow> (string, wave_projection) dict \<Rightarrow> projection_counts \<Rightarrow>
   terminal_decision option" where
  "terminal_decision_of lock campaign runs trials waves counts =
     (case recorded_status (cp_status campaign) of
        Some status \<Rightarrow> Some (decision lock status (terminal_counts campaign counts) ''recorded'')
      | None \<Rightarrow>
          if \<not> cleanup_is_complete campaign waves then None
          else
            let decision_counts = terminal_counts campaign counts;
                cancelling = cp_status campaign \<in> {CS_cancel_requested, CS_draining};
                run_statuses = map ru_status (dict_values runs)
            in
            if \<not> list_all (\<lambda>t. node_terminal (tr_status t) \<or>
                  (cancelling \<and> tr_status t \<in> {NS_planned, NS_retry_wait})) (dict_values trials)
            then None
            else if run_statuses \<noteq> [] \<and> list_all (\<lambda>st. st = NS_complete) run_statuses then
              Some (decision lock TS_completed decision_counts
                ''all logical trials reached a scored terminal outcome'')
            else if cancelling \<and> pc_complete decision_counts \<noteq> 0 then
              Some (decision lock TS_partial decision_counts
                ''cancellation preserved some scored trial outcomes'')
            else if NS_complete \<in> set run_statuses then
              Some (decision lock TS_partial decision_counts ''some runs reached a scored outcome'')
            else if cancelling \<or> pc_cancelled decision_counts \<noteq> 0 then
              Some (decision lock TS_cancelled decision_counts ''cancellation drained and cleaned'')
            else Some (decision lock TS_failed decision_counts ''no valid logical trial completed''))"

section \<open>The projection\<close>

definition cancel_requested_at :: "event list \<Rightarrow> int option" where
  "cancel_requested_at ordered =
     map_option ev_observed_at
       (List.find (\<lambda>e. ev_kind e = Campaign_event CK_cancel_requested) ordered)"

definition project_recovery ::
  "hash \<Rightarrow> campaign_lock \<Rightarrow> event list \<Rightarrow> recovery_error + recovery_projection" where
  "project_recovery h lock events =
     rbind (lift_error Control_failure (project_campaign lock events)) (\<lambda>campaign0.
     rbind (lift_error Control_failure (ordered_events events)) (\<lambda>ordered.
     rbind (foldM recovery_step (initial_projections lock) ordered) (\<lambda>s.
     let campaign1 =
       (if \<not> campaign_terminal (cp_status campaign0) \<and>
           (\<exists>w \<in> set (dict_values (rs_waves s)). wv_status w = WS_cleanup_failed)
        then campaign0\<lparr>cp_status := CS_manual_intervention\<rparr> else campaign0)
     in
     rbind (derive_trials h lock (rs_trials s) (rs_executions s)) (\<lambda>trials0.
     rbind (apply_retry_requests h lock events trials0) (\<lambda>trials.
     rbind (derive_shards (rs_shards s) trials) (\<lambda>shards.
     rbind (derive_runs (rs_runs s) shards) (\<lambda>runs.
     let counts = projection_counts_of trials;
         campaign =
           (if cp_status campaign1 = CS_queued \<and> (rs_executions s \<noteq> [] \<or> rs_waves s \<noteq> [])
            then campaign1\<lparr>cp_status := CS_active\<rparr> else campaign1)
     in Inr \<lparr>rv_campaign = campaign, rv_runs = runs, rv_shards = shards, rv_trials = trials,
             rv_executions = rs_executions s, rv_waves = rs_waves s,
             rv_spend_microusd = rs_spend s, rv_counts = counts,
             rv_cancel_requested_at = cancel_requested_at ordered,
             rv_terminal_decision =
               terminal_decision_of lock campaign runs trials (rs_waves s) counts\<rparr>)))))))"

section \<open>Sealing a partial campaign\<close>

definition latest_execution :: "execution_projection list \<Rightarrow> execution_projection option" where
  "latest_execution xs =
     (case xs of [] \<Rightarrow> None
      | y # ys \<Rightarrow> Some (foldl (\<lambda>best x. if xp_physical_attempt best < xp_physical_attempt x then x else best) y ys))"

definition seal_retry_wait_trial :: "trial_projection \<Rightarrow> recovery_error + trial_projection" where
  "seal_retry_wait_trial t =
     (if tr_status t \<noteq> NS_retry_wait then Inl (Trial_not_sealable (tr_trial_id t))
      else case latest_execution (dict_values (tr_executions t)) of
        None \<Rightarrow> Inl (Trial_not_sealable (tr_trial_id t))
      | Some latest \<Rightarrow>
          if xp_status latest \<noteq> ES_failed \<or> xp_category latest = None
          then Inl (Trial_without_failed_execution (tr_trial_id t))
          else Inr (t\<lparr>tr_status :=
                (if xp_category latest \<in> {Some RC_agent, Some RC_benchmark} then NS_invalid
                 else NS_failed_infrastructure),
              tr_retry_not_before := None,
              tr_outcome := Some
                (if xp_category latest = Some RC_agent then TO_agent_failed
                 else if xp_category latest = Some RC_benchmark then TO_benchmark_failed
                 else TO_infrastructure_exhausted)\<rparr>))"

definition seal_partial_projection ::
  "recovery_projection \<Rightarrow> recovery_error + recovery_projection" where
  "seal_partial_projection p =
     (case rv_terminal_decision p of
        None \<Rightarrow> Inl Not_recorded_partial
      | Some d \<Rightarrow>
          if cp_status (rv_campaign p) \<noteq> CS_partial then Inl Not_recorded_partial
          else if td_status d \<noteq> TS_partial then Inl Not_recorded_partial
          else if \<exists>w \<in> set (dict_values (rv_waves p)). wv_status w \<noteq> WS_closed
          then Inl Partial_cleanup_incomplete
          else
            rbind (mapM (\<lambda>(k, t).
              if scored_terminal (tr_status t) then Inr (k, t)
              else rbind (seal_retry_wait_trial t) (\<lambda>t'. Inr (k, t'))) (rv_trials p)) (\<lambda>trials.
            rbind (derive_shards (rv_shards p) trials) (\<lambda>shards.
            rbind (derive_runs (rv_runs p) shards) (\<lambda>runs.
              if \<exists>r \<in> set (dict_values runs). ru_status r \<noteq> NS_complete
              then Inl Sealed_run_without_score
              else Inr (p\<lparr>rv_runs := runs, rv_shards := shards, rv_trials := trials,
                          rv_counts := projection_counts_of trials\<rparr>)))))"

section \<open>Operator requests\<close>

text \<open>
  \<open>new_event\<close> with the clock reading and the identifier it draws. The digest-based
  identifiers of the requests are 32 hexadecimal characters of a SHA-256 digest.
\<close>

definition new_event ::
  "subject_type \<Rightarrow> string \<Rightarrow> event_kind \<Rightarrow> producer \<Rightarrow> event_payload \<Rightarrow> int \<Rightarrow> string \<Rightarrow> event" where
  "new_event subject_type subject_id kind producer payload now identifier =
     \<lparr>ev_event_id = ''evt-'' @ identifier, ev_subject_type = subject_type,
      ev_subject_id = subject_id, ev_kind = kind, ev_observed_at = now,
      ev_producer = producer, ev_payload = payload\<rparr>"

definition cancellation_identifier :: "hash \<Rightarrow> campaign_lock \<Rightarrow> string" where
  "cancellation_identifier h lock = take 32 (hexdigest h (cl_campaign_id lock @ '':cancel''))"

definition durable_cancellation_event ::
  "hash \<Rightarrow> campaign_lock \<Rightarrow> event list \<Rightarrow> string \<Rightarrow> int \<Rightarrow> recovery_error + (event \<times> bool)" where
  "durable_cancellation_event h lock events reason now =
     rbind (lift_error Control_failure (ordered_events events)) (\<lambda>ordered.
       case List.find (\<lambda>e. ev_kind e = Campaign_event CK_cancel_requested) ordered of
         Some e \<Rightarrow> Inr (e, False)
       | None \<Rightarrow> Inr (new_event ST_campaign (cl_campaign_id lock) (Campaign_event CK_cancel_requested)
           PR_cli (Cancellation_payload reason) now (cancellation_identifier h lock), True))"

definition adopt_event ::
  "event list \<Rightarrow> event_kind \<Rightarrow> recovery_error \<Rightarrow> event \<Rightarrow> recovery_error + (event \<times> bool)" where
  "adopt_event ordered kind conflict fresh =
     (case List.find (\<lambda>e. ev_event_id e = ev_event_id fresh) ordered of
        Some e \<Rightarrow> if ev_kind e \<noteq> kind then Inl conflict else Inr (e, False)
      | None \<Rightarrow> Inr (fresh, True))"

definition durable_shard_retry_event ::
  "hash \<Rightarrow> campaign_lock \<Rightarrow> event list \<Rightarrow> string \<Rightarrow> string \<Rightarrow> int \<Rightarrow>
   recovery_error + (event \<times> bool)" where
  "durable_shard_retry_event h lock events shard_id reason now =
     rbind (project_recovery h lock events) (\<lambda>p.
       if campaign_terminal (cp_status (rv_campaign p)) then Inl Terminal_campaign_retry
       else if cp_status (rv_campaign p) \<in> {CS_cancel_requested, CS_draining} then
         Inl Cancelling_campaign_retry
       else case map_of (rv_shards p) shard_id of
         None \<Rightarrow> Inl (Retry_request_unknown_shard shard_id)
       | Some shard \<Rightarrow>
           rbind (mapM (\<lambda>i. of_option Missing_key (map_of (rv_trials p) i)) (sh_trial_ids shard)) (\<lambda>ts.
             let eligible = filter (\<lambda>t. tr_status t \<in> {NS_retry_wait, NS_failed_infrastructure}) ts;
                 generations = map (\<lambda>t. (tr_trial_id t, int (length (tr_executions t)))) eligible;
                 generation = str_join '','' (map (\<lambda>(i, g). i @ '':'' @ show_int g) generations);
                 identifier = take 32 (hexdigest h
                   (cl_campaign_id lock @ '':'' @ shard_id @ '':'' @ generation));
                 kind = Campaign_event CK_shard_retry_requested
             in if eligible = [] then Inl Shard_not_retryable
                else rbind (lift_error Control_failure (ordered_events events)) (\<lambda>ordered.
                  adopt_event ordered kind Retry_identity_conflicts
                    (new_event ST_campaign (cl_campaign_id lock) kind PR_cli
                      (Shard_retry_payload \<lparr>srp_shard_id = shard_id, srp_reason = reason,
                         srp_trial_generations = mk_dict generations\<rparr>) now identifier))))"

definition manual_recovery_requirements ::
  "event list \<Rightarrow> recovery_error + (event list \<times> string list)" where
  "manual_recovery_requirements ordered =
     (let resolved = concat (map (\<lambda>e. case ev_payload e of
            Resolution_payload p \<Rightarrow> mrp_wave_ids p | _ \<Rightarrow> [])
          (filter (\<lambda>e. ev_kind e = Campaign_event CK_manual_resolved) ordered));
          parent = (\<lambda>e. case ev_payload e of Lifecycle_payload p \<Rightarrow> lp_parent_id p | _ \<Rightarrow> None);
          required = filter (\<lambda>e. ev_kind e = Campaign_event CK_manual_required \<and>
            (case parent e of None \<Rightarrow> True | Some i \<Rightarrow> i \<notin> set resolved)) ordered;
          wave_ids = sort (remdups (concat (map (\<lambda>e. case parent e of None \<Rightarrow> [] | Some i \<Rightarrow> [i]) required)))
      in if required = [] then Inl Manual_requirement_not_recorded
         else if wave_ids = [] then Inl Manual_without_recoverable_cleanup
         else Inr (required, wave_ids))"

definition validate_manual_recovery_waves ::
  "recovery_projection \<Rightarrow> string list \<Rightarrow> recovery_error + unit" where
  "validate_manual_recovery_waves p wave_ids =
     require (list_all (\<lambda>i. case map_of (rv_waves p) i of
         None \<Rightarrow> False | Some w \<Rightarrow> wv_status w \<in> {WS_cleanup_failed, WS_closed}) wave_ids)
       Manual_without_recoverable_cleanup"

definition durable_manual_intervention_resolution_event ::
  "hash \<Rightarrow> campaign_lock \<Rightarrow> event list \<Rightarrow> string \<Rightarrow> bool \<Rightarrow> int \<Rightarrow> recovery_error + (event \<times> bool)" where
  "durable_manual_intervention_resolution_event h lock events reason cleanup_verified now =
     (if \<not> cleanup_verified then Inl Cleanup_not_verified
      else
      rbind (lift_error Control_failure (ordered_events events)) (\<lambda>ordered.
      rbind (project_recovery h lock events) (\<lambda>p.
      let kind = Campaign_event CK_manual_resolved in
      if cp_status (rv_campaign p) \<noteq> CS_manual_intervention then
        (case List.find (\<lambda>e. ev_kind e = kind) (rev ordered) of
           Some e \<Rightarrow> Inr (e, False)
         | None \<Rightarrow> Inl Manual_intervention_not_required)
      else
        rbind (manual_recovery_requirements ordered) (\<lambda>(required, required_wave_ids).
        let wave_ids = sort (remdups (required_wave_ids @ map wv_wave_id
              (filter (\<lambda>w. wv_status w = WS_cleanup_failed) (dict_values (rv_waves p)))));
            identity = cl_campaign_id lock @ '':'' @ str_join '','' (map ev_event_id required)
              @ '':'' @ str_join '','' wave_ids;
            identifier = take 32 (hexdigest h (identity @ '':resolved''))
        in case List.find (\<lambda>e. ev_event_id e = ''evt-'' @ identifier) ordered of
             Some e \<Rightarrow> if ev_kind e \<noteq> kind then Inl Resolution_identity_conflicts else Inr (e, False)
           | None \<Rightarrow>
               rbind (validate_manual_recovery_waves p wave_ids) (\<lambda>_.
                 Inr (new_event ST_campaign (cl_campaign_id lock) kind PR_cli
                   (Resolution_payload \<lparr>mrp_wave_ids = wave_ids, mrp_message = Some reason\<rparr>)
                   (max now (foldl max (ev_observed_at (hd ordered)) (map ev_observed_at ordered) + 1))
                   identifier, True))))))"

end
