(* ===== verification/Reconciler.thy ===== *)
theory Reconciler
  imports Recovery
begin

text \<open>
  The planner of \<open>src/src/harbor_hf/reconciler.py\<close>: from a recovery projection and the
  admission limits and usage of the installation to an ordered list of actions and the
  billable work that is blocked. Candidates are produced by cleanup, retry, new-wave and
  summary rules, sorted by priority, and admitted one by one against the budgets.
\<close>

section \<open>Records\<close>

record deployment_admission =
  da_provider :: "string option"
  da_estimated_wave_cost_microusd :: "int option"

record admission_limits =
  al_action_limit :: int
  al_global_active_waves :: int
  al_deployment_active_waves :: int
  al_provider_active_waves :: int
  al_campaign_active_waves :: int

definition unbounded :: int where
  "unbounded = 2 ^ 31 - 1"

definition default_limits :: admission_limits where
  "default_limits =
     \<lparr>al_action_limit = 64, al_global_active_waves = unbounded, al_deployment_active_waves = 1,
      al_provider_active_waves = unbounded, al_campaign_active_waves = unbounded\<rparr>"

record admission_usage =
  au_global_active_waves :: int
  au_deployment_active_waves :: "(string, int) dict"
  au_provider_active_waves :: "(string, int) dict"
  au_campaign_active_waves :: "(string, int) dict"
  au_campaign_spend_microusd :: "(string, int) dict"

definition default_usage :: admission_usage where
  "default_usage =
     \<lparr>au_global_active_waves = 0, au_deployment_active_waves = [], au_provider_active_waves = [],
      au_campaign_active_waves = [], au_campaign_spend_microusd = []\<rparr>"

record reconcile_context =
  rc_limits :: admission_limits
  rc_usage :: admission_usage
  rc_deployments :: "(string, deployment_admission) dict"

record candidate =
  ca_kind :: action_kind
  ca_deployment_digest :: string
  ca_provider :: string
  ca_wave_id :: "string option"
  ca_shard_ids :: "string list"
  ca_trial_ids :: "string list"
  ca_target_ids :: "string list"
  ca_estimated_cost_microusd :: "int option"
  ca_spend_cap_microusd :: "int option"

definition blank_candidate :: "action_kind \<Rightarrow> candidate" where
  "blank_candidate k =
     \<lparr>ca_kind = k, ca_deployment_digest = [], ca_provider = [], ca_wave_id = None,
      ca_shard_ids = [], ca_trial_ids = [], ca_target_ids = [],
      ca_estimated_cost_microusd = None, ca_spend_cap_microusd = None\<rparr>"

record reconcile_action = candidate +
  ac_action_id :: string
  ac_action_key :: string
  ac_campaign_id :: string

datatype block_reason =
    BR_global_budget | BR_deployment_budget | BR_provider_budget | BR_campaign_budget
  | BR_spend_cap | BR_spend_estimate_missing | BR_backoff

record blocked_action =
  ba_kind :: action_kind
  ba_deployment_digest :: string
  ba_shard_ids :: "string list"
  ba_reason :: block_reason

record reconcile_plan =
  pl_campaign_id :: string
  pl_status :: campaign_status
  pl_action_count :: int
  pl_actions :: "reconcile_action list"
  pl_blocked :: "blocked_action list"
  pl_terminal_decision :: "terminal_decision option"

datatype reconcile_error =
    Recovery_failure recovery_error
  | Campaign_failure campaign_error
  | No_admission_provider
  | Unknown_deployment_target
  | Inconsistent_admission_fields
  | Shards_not_one_deployment
  | Missing_projection

section \<open>Mutable usage\<close>

definition get0 :: "('k, int) dict \<Rightarrow> 'k \<Rightarrow> int" where
  "get0 d k = (case map_of d k of None \<Rightarrow> 0 | Some n \<Rightarrow> n)"

definition add_to :: "'k \<Rightarrow> int \<Rightarrow> ('k, int) dict \<Rightarrow> ('k, int) dict" where
  "add_to k n d = AList.update k (get0 d k + n) d"

record mutable_usage =
  mu_global_waves :: int
  mu_deployments :: "(string, int) dict"
  mu_providers :: "(string, int) dict"
  mu_campaigns :: "(string, int) dict"
  mu_spend :: "(string, int) dict"

definition open_waves :: "recovery_projection \<Rightarrow> wave_projection list" where
  "open_waves p = filter (\<lambda>w. wv_status w \<noteq> WS_closed) (dict_values (rv_waves p))"

definition initial_usage :: "reconcile_context \<Rightarrow> recovery_projection \<Rightarrow> mutable_usage" where
  "initial_usage ctx p =
     (let usage = rc_usage ctx; campaign_id = cp_campaign_id (rv_campaign p) in
      \<lparr>mu_global_waves = au_global_active_waves usage + int (length (open_waves p)),
       mu_deployments = foldl (\<lambda>d w. add_to (wv_deployment_digest w) 1 d)
         (au_deployment_active_waves usage) (open_waves p),
       mu_providers = foldl (\<lambda>d w. add_to (wv_provider w) 1 d)
         (au_provider_active_waves usage) (open_waves p),
       mu_campaigns = foldl (\<lambda>d w. add_to campaign_id 1 d)
         (au_campaign_active_waves usage) (open_waves p),
       mu_spend = add_to campaign_id
         (rv_spend_microusd p +
          sum_list (map wv_estimated_cost_microusd (dict_values (rv_waves p))))
         (au_campaign_spend_microusd usage)\<rparr>)"

definition or_zero :: "int option \<Rightarrow> int" where
  "or_zero m = (case m of None \<Rightarrow> 0 | Some n \<Rightarrow> n)"

definition admit_usage :: "candidate \<Rightarrow> string \<Rightarrow> mutable_usage \<Rightarrow> mutable_usage" where
  "admit_usage c campaign_id u =
     u\<lparr>mu_global_waves := mu_global_waves u + 1,
       mu_deployments := add_to (ca_deployment_digest c) 1 (mu_deployments u),
       mu_providers := add_to (ca_provider c) 1 (mu_providers u),
       mu_campaigns := add_to campaign_id 1 (mu_campaigns u),
       mu_spend := add_to campaign_id (or_zero (ca_estimated_cost_microusd c)) (mu_spend u)\<rparr>"

section \<open>Lock lookups\<close>

definition run_identity :: "run_lock \<Rightarrow> string option \<times> int option \<times> int option \<times> int option" where
  "run_identity r =
     (ra_provider r, ra_max_concurrent_requests r, ra_spend_cap_microusd r,
      ra_estimated_wave_cost_microusd r)"

definition find_run_admission :: "campaign_lock \<Rightarrow> string \<Rightarrow> reconcile_error + run_lock" where
  "find_run_admission lock d =
     (case filter (\<lambda>r. ra_deployment_digest r = d) (cl_runs lock) of
        [] \<Rightarrow> Inl Unknown_deployment_target
      | first # rest \<Rightarrow>
          if \<exists>r \<in> set rest. run_identity r \<noteq> run_identity first then Inl Inconsistent_admission_fields
          else Inr first)"

definition deployment_for_shards :: "campaign_lock \<Rightarrow> string list \<Rightarrow> reconcile_error + string" where
  "deployment_for_shards lock shard_ids =
     (case remdups (map ra_deployment_digest
            (filter (\<lambda>r. \<exists>s \<in> set (rl_shards r). sl_shard_id s \<in> set shard_ids) (cl_runs lock))) of
        [d] \<Rightarrow> Inr d
      | _ \<Rightarrow> Inl Shards_not_one_deployment)"

definition or_provider :: "string option \<Rightarrow> string option \<Rightarrow> string" where
  "or_provider a b = or_else a (or_else b ''hf-inference-endpoints'')"

definition deployment_admission_of ::
  "campaign_lock \<Rightarrow> reconcile_context \<Rightarrow> string \<Rightarrow> reconcile_error + deployment_admission" where
  "deployment_admission_of lock ctx d =
     rbind (find_run_admission lock d) (\<lambda>locked.
       case map_of (rc_deployments ctx) d of
         None \<Rightarrow> Inr \<lparr>da_provider = Some (or_provider (ra_provider locked) None),
                     da_estimated_wave_cost_microusd = ra_estimated_wave_cost_microusd locked\<rparr>
       | Some observed \<Rightarrow> Inr \<lparr>da_provider = Some (or_provider (da_provider observed) (ra_provider locked)),
             da_estimated_wave_cost_microusd =
               (if da_estimated_wave_cost_microusd observed \<noteq> None
                then da_estimated_wave_cost_microusd observed
                else ra_estimated_wave_cost_microusd locked)\<rparr>)"

definition admission_provider :: "deployment_admission \<Rightarrow> reconcile_error + string" where
  "admission_provider a = of_option No_admission_provider (da_provider a)"

definition action_shard_ids :: "campaign_lock \<Rightarrow> action_kind \<Rightarrow> string list \<Rightarrow> string list" where
  "action_shard_ids lock kind target_ids =
     (if kind = AK_submit_wave then target_ids
      else if kind \<noteq> AK_retry_shard then []
      else sort (map sl_shard_id
        (filter (\<lambda>s. \<exists>t \<in> set (sl_trials s). tl_trial_id t \<in> set target_ids) (lock_shards lock))))"

section \<open>Reading the projection\<close>

definition action_is_spent :: "recovery_projection \<Rightarrow> action_projection \<Rightarrow> bool" where
  "action_is_spent p a \<longleftrightarrow>
     ap_status a = AS_failed \<or>
     (case map_of (rv_waves p) (wave_id_of_key (ap_action_key a)) of
        None \<Rightarrow> False | Some w \<Rightarrow> wv_status w = WS_closed)"

definition projected_actions :: "recovery_projection \<Rightarrow> action_projection list" where
  "projected_actions p = dict_values (cp_actions (rv_campaign p))"

definition shard_has_execution_evidence ::
  "recovery_projection \<Rightarrow> string \<Rightarrow> reconcile_error + bool" where
  "shard_has_execution_evidence p shard_id =
     rbind (of_option Missing_projection (map_of (rv_shards p) shard_id)) (\<lambda>shard.
       anyM (\<lambda>i. rbind (of_option Missing_projection (map_of (rv_trials p) i)) (\<lambda>t.
         Inr (tr_executions t \<noteq> [] \<or> tr_status t \<noteq> NS_planned))) (sh_trial_ids shard))"

definition trial_was_skipped_in_closed_wave ::
  "recovery_projection \<Rightarrow> string \<Rightarrow> reconcile_error + bool" where
  "trial_was_skipped_in_closed_wave p shard_id =
     rbind (shard_has_execution_evidence p shard_id) (\<lambda>evidence.
       Inr (evidence \<and> (\<exists>w \<in> set (dict_values (rv_waves p)).
         wv_status w = WS_closed \<and> shard_id \<in> set (wv_shard_ids w))))"

datatype retry_queue = Queue_ready | Queue_waiting

definition retry_queue_of ::
  "recovery_projection \<Rightarrow> trial_projection \<Rightarrow> int \<Rightarrow> reconcile_error + retry_queue option" where
  "retry_queue_of p t now =
     rbind (if tr_status t = NS_planned then trial_was_skipped_in_closed_wave p (tr_shard_id t)
            else Inr False) (\<lambda>skipped.
       if skipped then Inr (Some Queue_ready)
       else if tr_status t \<noteq> NS_retry_wait then Inr None
       else Inr (Some (if retry_is_ready t now then Queue_ready else Queue_waiting)))"

definition assigned_shards ::
  "campaign_lock \<Rightarrow> recovery_projection \<Rightarrow> reconcile_error + string list" where
  "assigned_shards lock p =
     rbind (mapM (\<lambda>w. if wv_status w \<noteq> WS_closed then Inr (wv_shard_ids w)
        else rbind (mapM (\<lambda>i. rbind (shard_has_execution_evidence p i) (\<lambda>b. Inr (i, b)))
               (wv_shard_ids w)) (\<lambda>marks. Inr (map fst (filter snd marks))))
        (dict_values (rv_waves p))) (\<lambda>by_wave.
       Inr (concat by_wave @ map xp_shard_id (dict_values (rv_executions p)) @
         concat (map (\<lambda>a. action_shard_ids lock (ap_action_kind a) (ap_target_ids a))
           (filter (\<lambda>a. billable (ap_action_kind a) \<and> \<not> action_is_spent p a)
             (projected_actions p)))))"

section \<open>Cleanup candidates\<close>

definition cancelling_status :: "campaign_status \<Rightarrow> bool" where
  "cancelling_status s \<longleftrightarrow> s \<in> {CS_cancel_requested, CS_draining, CS_manual_intervention}"

definition cancellation_grace_elapsed ::
  "campaign_lock \<Rightarrow> recovery_projection \<Rightarrow> int \<Rightarrow> bool" where
  "cancellation_grace_elapsed lock p now =
     (case rv_cancel_requested_at p of
        None \<Rightarrow> False
      | Some at \<Rightarrow>
          at + microseconds (rp_cancellation_grace_seconds (cl_recovery_policy lock)) \<le> now)"

definition execution_cancellations :: "recovery_projection \<Rightarrow> candidate list" where
  "execution_cancellations p =
     map (\<lambda>x. (blank_candidate AK_cancel_execution)\<lparr>ca_wave_id := xp_wave_id x,
            ca_shard_ids := [xp_shard_id x], ca_trial_ids := [xp_trial_id x],
            ca_target_ids := [xp_execution_id x]\<rparr>)
       (filter (\<lambda>x. xp_status x = ES_active) (dict_values (rv_executions p)))"

definition wave_candidate :: "wave_projection \<Rightarrow> action_kind \<Rightarrow> candidate" where
  "wave_candidate w k =
     (blank_candidate k)\<lparr>ca_deployment_digest := wv_deployment_digest w,
       ca_provider := wv_provider w, ca_wave_id := Some (wv_wave_id w),
       ca_shard_ids := wv_shard_ids w, ca_target_ids := [wv_wave_id w]\<rparr>"

definition cancellation_wave_actions ::
  "wave_projection \<Rightarrow> recovery_projection \<Rightarrow> bool \<Rightarrow> candidate list" where
  "cancellation_wave_actions w p force_cancel =
     (if force_cancel then [wave_candidate w AK_cancel_wave, wave_candidate w AK_cleanup_wave]
      else if \<exists>x \<in> set (dict_values (rv_executions p)).
          xp_wave_id x = Some (wv_wave_id w) \<and> xp_status x = ES_active
      then [wave_candidate w AK_drain_wave]
      else if wv_status w \<in> {WS_draining, WS_cleaning} then [wave_candidate w AK_cleanup_wave]
      else [wave_candidate w AK_drain_wave])"

definition wave_cleanup ::
  "wave_projection \<Rightarrow> recovery_projection \<Rightarrow> bool \<Rightarrow> bool \<Rightarrow> reconcile_error + candidate list" where
  "wave_cleanup w p cancelling force_cancel =
     (if wv_status w = WS_closed then Inr []
      else if wv_status w = WS_cleanup_failed then Inr [wave_candidate w AK_manual_intervention]
      else if cancelling then Inr (cancellation_wave_actions w p force_cancel)
      else
        rbind (allM (\<lambda>i. rbind (of_option Missing_projection (map_of (rv_shards p) i)) (\<lambda>s.
            Inr (node_terminal (sh_status s)))) (wv_shard_ids w)) (\<lambda>terminal.
          Inr (if terminal \<and> wv_status w \<notin> {WS_draining, WS_cleaning}
               then [wave_candidate w AK_drain_wave]
               else if wv_status w \<in> {WS_draining, WS_cleaning} then [wave_candidate w AK_cleanup_wave]
               else [])))"

definition unobserved_wave_cancellations ::
  "campaign_lock \<Rightarrow> recovery_projection \<Rightarrow> string list \<Rightarrow> bool \<Rightarrow> reconcile_error + candidate list" where
  "unobserved_wave_cancellations lock p known force_cancel =
     rbind (mapM (\<lambda>a.
       let wave_id = wave_id_of_key (ap_action_key a);
           shard_ids = action_shard_ids lock (ap_action_kind a) (ap_target_ids a)
       in rbind (deployment_for_shards lock shard_ids) (\<lambda>d.
         Inr (map (\<lambda>k. (blank_candidate k)\<lparr>ca_deployment_digest := d, ca_wave_id := Some wave_id,
                ca_shard_ids := shard_ids, ca_target_ids := [ap_action_id a]\<rparr>)
           (if force_cancel then [AK_cancel_wave, AK_cleanup_wave] else [AK_drain_wave]))))
       (filter (\<lambda>a. \<not> (\<not> billable (ap_action_kind a) \<or> ap_status a = AS_failed) \<and>
          wave_id_of_key (ap_action_key a) \<notin> set known) (projected_actions p)))
     (\<lambda>cs. Inr (concat cs))"

definition cleanup_candidates ::
  "campaign_lock \<Rightarrow> recovery_projection \<Rightarrow> int \<Rightarrow> reconcile_error + candidate list" where
  "cleanup_candidates lock p now =
     (let cancelling = cancelling_status (cp_status (rv_campaign p));
          force_cancel = cancellation_grace_elapsed lock p now;
          executions = (if cancelling \<and> force_cancel then execution_cancellations p else [])
      in rbind (mapM (\<lambda>w. wave_cleanup w p cancelling force_cancel) (dict_values (rv_waves p))) (\<lambda>waves.
         rbind (if cancelling then unobserved_wave_cancellations lock p
                  (map wv_wave_id (dict_values (rv_waves p))) force_cancel
                else Inr []) (\<lambda>unobserved.
           Inr (executions @ concat waves @ unobserved))))"

section \<open>Retry and new-wave candidates\<close>

definition append_to :: "'k \<Rightarrow> 'v \<Rightarrow> ('k, 'v list) dict \<Rightarrow> ('k, 'v list) dict" where
  "append_to k v d = AList.update k ((case map_of d k of None \<Rightarrow> [] | Some vs \<Rightarrow> vs) @ [v]) d"

definition get_list :: "('k, 'v list) dict \<Rightarrow> 'k \<Rightarrow> 'v list" where
  "get_list d k = (case map_of d k of None \<Rightarrow> [] | Some vs \<Rightarrow> vs)"

definition reserved_trial_ids :: "recovery_projection \<Rightarrow> string list" where
  "reserved_trial_ids p =
     concat (map ap_target_ids (filter (\<lambda>a. ap_action_kind a = AK_retry_shard \<and>
       \<not> action_is_spent p a) (projected_actions p)))"

type_synonym queues = "(string, string list) dict \<times> (string, string list) dict"

definition queue_trial ::
  "recovery_projection \<Rightarrow> int \<Rightarrow> queues \<Rightarrow> trial_projection \<Rightarrow> reconcile_error + queues" where
  "queue_trial p now qs t =
     rbind (retry_queue_of p t now) (\<lambda>q.
       if tr_trial_id t \<in> set (reserved_trial_ids p) then Inr qs
       else case q of
         None \<Rightarrow> Inr qs
       | Some Queue_ready \<Rightarrow> Inr (append_to (tr_shard_id t) (tr_trial_id t) (fst qs), snd qs)
       | Some Queue_waiting \<Rightarrow> Inr (fst qs, append_to (tr_shard_id t) (tr_trial_id t) (snd qs)))"

definition group_by_deployment ::
  "campaign_lock \<Rightarrow> string list \<Rightarrow> reconcile_error + (string, string list) dict" where
  "group_by_deployment lock shard_ids =
     foldM (\<lambda>groups i. rbind (deployment_for_shards lock [i]) (\<lambda>d. Inr (append_to d i groups)))
       [] shard_ids"

definition retry_candidate ::
  "campaign_lock \<Rightarrow> string \<Rightarrow> deployment_admission \<Rightarrow> (string, string list) dict \<Rightarrow> string list \<Rightarrow>
   reconcile_error + candidate" where
  "retry_candidate lock d admission ready chunk =
     (let trial_ids = sort (concat (map (get_list ready) chunk)) in
      rbind (admission_provider admission) (\<lambda>provider.
      rbind (lift_error Campaign_failure (estimated_partial_wave_cost lock d
          (da_estimated_wave_cost_microusd admission) (int (length trial_ids)))) (\<lambda>cost.
      rbind (find_run_admission lock d) (\<lambda>locked.
        Inr \<lparr>ca_kind = AK_retry_shard, ca_deployment_digest = d, ca_provider = provider,
             ca_wave_id = None, ca_shard_ids = chunk, ca_trial_ids = trial_ids,
             ca_target_ids = trial_ids, ca_estimated_cost_microusd = cost,
             ca_spend_cap_microusd = ra_spend_cap_microusd locked\<rparr>))))"

definition retry_candidates ::
  "campaign_lock \<Rightarrow> recovery_projection \<Rightarrow> reconcile_context \<Rightarrow> int \<Rightarrow>
   reconcile_error + (candidate list \<times> blocked_action list)" where
  "retry_candidates lock p ctx now =
     rbind (foldM (queue_trial p now) ([], []) (dict_values (rv_trials p))) (\<lambda>(ready, waiting).
     rbind (group_by_deployment lock (sort (dict_keys ready))) (\<lambda>groups.
     rbind (mapM (\<lambda>d.
         rbind (deployment_admission_of lock ctx d) (\<lambda>admission.
         rbind (py_chunks (Campaign_failure Range_step_zero) (cl_max_shards_per_wave lock)
             (get_list groups d)) (\<lambda>cs.
           mapM (retry_candidate lock d admission ready) cs)))
         (sort (dict_keys groups))) (\<lambda>candidates.
     rbind (mapM (\<lambda>i. rbind (deployment_for_shards lock [i]) (\<lambda>d.
           Inr \<lparr>ba_kind = AK_retry_shard, ba_deployment_digest = d, ba_shard_ids = [i],
                ba_reason = BR_backoff\<rparr>)) (sort (dict_keys waiting))) (\<lambda>blocked.
       Inr (concat candidates, blocked)))))"

definition new_wave_candidate ::
  "campaign_lock \<Rightarrow> string \<Rightarrow> deployment_admission \<Rightarrow> string list \<Rightarrow> reconcile_error + candidate" where
  "new_wave_candidate lock d admission chunk =
     rbind (admission_provider admission) (\<lambda>provider.
     rbind (find_run_admission lock d) (\<lambda>locked.
       Inr \<lparr>ca_kind = AK_submit_wave, ca_deployment_digest = d, ca_provider = provider,
            ca_wave_id = None, ca_shard_ids = chunk, ca_trial_ids = [], ca_target_ids = chunk,
            ca_estimated_cost_microusd = da_estimated_wave_cost_microusd admission,
            ca_spend_cap_microusd = ra_spend_cap_microusd locked\<rparr>))"

definition sorted_lock_shards :: "campaign_lock \<Rightarrow> (string \<times> string) list" where
  "sorted_lock_shards lock =
     concat (map (\<lambda>r. map (\<lambda>s. (ra_deployment_digest r, sl_shard_id s))
       (sort_key sl_shard_id (rl_shards r))) (sort_key rl_run_id (cl_runs lock)))"

definition unassigned_groups ::
  "campaign_lock \<Rightarrow> recovery_projection \<Rightarrow> string list \<Rightarrow>
   reconcile_error + (string, string list) dict" where
  "unassigned_groups lock p assigned =
     foldM (\<lambda>groups (d, i).
       rbind (of_option Missing_projection (map_of (rv_shards p) i)) (\<lambda>shard.
         Inr (if i \<notin> set assigned \<and> sh_status shard \<in> {NS_planned, NS_queued}
              then append_to d i groups else groups))) [] (sorted_lock_shards lock)"

definition new_wave_candidates ::
  "campaign_lock \<Rightarrow> recovery_projection \<Rightarrow> reconcile_context \<Rightarrow> reconcile_error + candidate list" where
  "new_wave_candidates lock p ctx =
     rbind (assigned_shards lock p) (\<lambda>assigned.
     rbind (unassigned_groups lock p assigned) (\<lambda>groups.
     rbind (mapM (\<lambda>d.
         rbind (deployment_admission_of lock ctx d) (\<lambda>admission.
         rbind (py_chunks (Campaign_failure Range_step_zero) (cl_max_shards_per_wave lock)
             (get_list groups d)) (\<lambda>cs.
           mapM (new_wave_candidate lock d admission) cs)))
         (sort (dict_keys groups))) (\<lambda>candidates.
       Inr (concat candidates))))"

section \<open>All candidates, by priority\<close>

fun action_priority :: "action_kind \<Rightarrow> nat" where
  "action_priority AK_cancel_execution = 0"
| "action_priority AK_cancel_wave = 1"
| "action_priority AK_drain_wave = 2"
| "action_priority AK_cleanup_wave = 3"
| "action_priority AK_exhaust_trials = 4"
| "action_priority AK_manual_intervention = 5"
| "action_priority AK_publish_summary = 6"
| "action_priority AK_publish_results = 7"
| "action_priority AK_retry_shard = 8"
| "action_priority AK_submit_wave = 9"

definition candidate_key :: "candidate \<Rightarrow> nat \<times> string \<times> string \<times> string" where
  "candidate_key c =
     (action_priority (ca_kind c), ca_deployment_digest c,
      (case ca_wave_id c of None \<Rightarrow> [] | Some w \<Rightarrow> w), str_join '','' (ca_target_ids c))"

definition candidates_of ::
  "campaign_lock \<Rightarrow> recovery_projection \<Rightarrow> reconcile_context \<Rightarrow> int \<Rightarrow>
   reconcile_error + (candidate list \<times> blocked_action list)" where
  "candidates_of lock p ctx now =
     rbind (cleanup_candidates lock p now) (\<lambda>cleanup.
     rbind (if cancelling_status (cp_status (rv_campaign p)) then Inr ([], [])
            else rbind (retry_candidates lock p ctx now) (\<lambda>(retry, blocked).
              rbind (new_wave_candidates lock p ctx) (\<lambda>waves. Inr (retry @ waves, blocked))))
       (\<lambda>(work, blocked).
       let summary = (case rv_terminal_decision p of
           None \<Rightarrow> []
         | Some d \<Rightarrow> [(blank_candidate AK_publish_summary)\<lparr>ca_target_ids := [td_summary_path d]\<rparr>])
       in Inr (sort_key candidate_key (cleanup @ work @ summary), blocked)))"

section \<open>Budgets\<close>

definition spend_caps :: "campaign_lock \<Rightarrow> candidate \<Rightarrow> int list" where
  "spend_caps lock c =
     concat (map (\<lambda>m. case m of None \<Rightarrow> [] | Some cap \<Rightarrow> [cap])
       [rp_spend_cap_microusd (cl_recovery_policy lock), ca_spend_cap_microusd c])"

definition durable_spend :: "recovery_projection \<Rightarrow> int" where
  "durable_spend p =
     rv_spend_microusd p + sum_list (map wv_estimated_cost_microusd (dict_values (rv_waves p)))"

definition durable_spend_cap_blocks_retry ::
  "campaign_lock \<Rightarrow> recovery_projection \<Rightarrow> candidate \<Rightarrow> reconcile_error + bool" where
  "durable_spend_cap_blocks_retry lock p c =
     rbind (find_run_admission lock (ca_deployment_digest c)) (\<lambda>locked.
       case ra_estimated_wave_cost_microusd locked of
         None \<Rightarrow> Inr False
       | Some estimate \<Rightarrow> Inr (spend_caps lock c \<noteq> [] \<and>
           durable_spend p + estimate > Min (set (spend_caps lock c))))"

definition budget_reason ::
  "campaign_lock \<Rightarrow> candidate \<Rightarrow> reconcile_context \<Rightarrow> mutable_usage \<Rightarrow> block_reason option" where
  "budget_reason lock c ctx u =
     (let limits = rc_limits ctx;
          campaign_limit = min (al_campaign_active_waves limits)
            (rp_max_active_waves (cl_recovery_policy lock));
          caps = spend_caps lock c;
          projected = get0 (mu_spend u) (cl_campaign_id lock) + or_zero (ca_estimated_cost_microusd c)
      in
      if mu_global_waves u \<ge> al_global_active_waves limits then Some BR_global_budget
      else if get0 (mu_deployments u) (ca_deployment_digest c) \<ge> al_deployment_active_waves limits
      then Some BR_deployment_budget
      else if get0 (mu_providers u) (ca_provider c) \<ge> al_provider_active_waves limits
      then Some BR_provider_budget
      else if get0 (mu_campaigns u) (cl_campaign_id lock) \<ge> campaign_limit
      then Some BR_campaign_budget
      else if caps \<noteq> [] \<and> ca_estimated_cost_microusd c = None then Some BR_spend_estimate_missing
      else if caps \<noteq> [] \<and> projected > Min (set caps) then Some BR_spend_cap
      else None)"

section \<open>Action identities\<close>

fun action_kind_name :: "action_kind \<Rightarrow> string" where
  "action_kind_name AK_submit_wave = ''submit-wave''"
| "action_kind_name AK_cancel_execution = ''cancel-execution''"
| "action_kind_name AK_drain_wave = ''drain-wave''"
| "action_kind_name AK_cancel_wave = ''cancel-wave''"
| "action_kind_name AK_cleanup_wave = ''cleanup-wave''"
| "action_kind_name AK_exhaust_trials = ''exhaust-trials''"
| "action_kind_name AK_retry_shard = ''retry-shard''"
| "action_kind_name AK_publish_summary = ''publish-summary''"
| "action_kind_name AK_publish_results = ''publish-results''"
| "action_kind_name AK_manual_intervention = ''manual-intervention''"

definition json_strings :: "string list \<Rightarrow> json" where
  "json_strings xs = JArr (map JStr xs)"

definition candidate_fields :: "candidate \<Rightarrow> (string \<times> json) list" where
  "candidate_fields c =
     [(''kind'', JStr (action_kind_name (ca_kind c))),
      (''deployment_digest'', JStr (ca_deployment_digest c)),
      (''provider'', JStr (ca_provider c)),
      (''wave_id'', json_opt_str (ca_wave_id c)),
      (''shard_ids'', json_strings (ca_shard_ids c)),
      (''trial_ids'', json_strings (ca_trial_ids c)),
      (''target_ids'', json_strings (ca_target_ids c)),
      (''estimated_cost_microusd'', json_opt_int (ca_estimated_cost_microusd c))] @
     (case ca_spend_cap_microusd c of
        None \<Rightarrow> [] | Some cap \<Rightarrow> [(''spend_cap_microusd'', JInt cap)])"

definition action_retries :: "recovery_projection \<Rightarrow> candidate \<Rightarrow> nat" where
  "action_retries p c =
     length (filter (\<lambda>a. ap_action_kind a = ca_kind c \<and> ap_target_ids a = ca_target_ids c \<and>
       action_is_spent p a) (projected_actions p))"

definition action_key_of ::
  "hash \<Rightarrow> campaign_lock \<Rightarrow> recovery_projection \<Rightarrow> candidate \<Rightarrow> string" where
  "action_key_of h lock p c =
     short_digest h (JObj (candidate_fields c @
       [(''campaign_id'', JStr (cl_campaign_id lock)),
        (''action_retry'', JInt (int (action_retries p c)))]))"

definition outstanding_key :: "recovery_projection \<Rightarrow> string \<Rightarrow> bool" where
  "outstanding_key p key \<longleftrightarrow>
     (\<exists>a \<in> set (projected_actions p). ap_action_key a = key \<and> \<not> action_is_spent p a)"

definition materialize ::
  "hash \<Rightarrow> campaign_lock \<Rightarrow> recovery_projection \<Rightarrow> candidate \<Rightarrow> reconcile_action option" where
  "materialize h lock p c =
     (let key = action_key_of h lock p c in
      if outstanding_key p key then None
      else Some \<lparr>ca_kind = ca_kind c, ca_deployment_digest = ca_deployment_digest c,
        ca_provider = ca_provider c,
        ca_wave_id = (case ca_wave_id c of
            Some (x # xs) \<Rightarrow> Some (x # xs)
          | _ \<Rightarrow> if billable (ca_kind c) then Some (wave_id_of_key key) else None),
        ca_shard_ids = ca_shard_ids c, ca_trial_ids = ca_trial_ids c,
        ca_target_ids = ca_target_ids c,
        ca_estimated_cost_microusd = ca_estimated_cost_microusd c,
        ca_spend_cap_microusd = ca_spend_cap_microusd c,
        ac_action_id = ''act-'' @ key, ac_action_key = key,
        ac_campaign_id = cl_campaign_id lock\<rparr>)"

section \<open>Admission\<close>

definition denied_billable_action ::
  "hash \<Rightarrow> campaign_lock \<Rightarrow> recovery_projection \<Rightarrow> candidate \<Rightarrow> block_reason \<Rightarrow> bool \<Rightarrow>
   reconcile_action option \<times> blocked_action list" where
  "denied_billable_action h lock p c reason exhaust_retry =
     (if ca_kind c = AK_retry_shard \<and> reason = BR_spend_cap \<and> exhaust_retry
      then (materialize h lock p ((blank_candidate AK_exhaust_trials)
              \<lparr>ca_deployment_digest := ca_deployment_digest c, ca_shard_ids := ca_shard_ids c,
                ca_trial_ids := ca_trial_ids c, ca_target_ids := ca_trial_ids c\<rparr>), [])
      else (None, [\<lparr>ba_kind = ca_kind c, ba_deployment_digest = ca_deployment_digest c,
                    ba_shard_ids = ca_shard_ids c, ba_reason = reason\<rparr>]))"

record admit_state =
  as_usage :: mutable_usage
  as_actions :: "reconcile_action list"
  as_blocked :: "blocked_action list"

text \<open>One admission decision: the action to append (if any) and the state before appending.\<close>

definition admit_decide ::
  "hash \<Rightarrow> campaign_lock \<Rightarrow> recovery_projection \<Rightarrow> reconcile_context \<Rightarrow> admit_state \<Rightarrow> candidate \<Rightarrow>
   reconcile_error + (reconcile_action option \<times> admit_state)" where
  "admit_decide h lock p ctx s c =
     (case materialize h lock p c of
        None \<Rightarrow> Inr (None, s)
      | Some action \<Rightarrow>
          if billable (ca_kind c) then
            (case budget_reason lock c ctx (as_usage s) of
               None \<Rightarrow> Inr (Some action,
                 s\<lparr>as_usage := admit_usage c (cl_campaign_id lock) (as_usage s)\<rparr>)
             | Some reason \<Rightarrow>
                 rbind (durable_spend_cap_blocks_retry lock p c) (\<lambda>exhaust_retry.
                   let (replacement, denied) =
                     denied_billable_action h lock p c reason exhaust_retry
                   in Inr (replacement, s\<lparr>as_blocked := as_blocked s @ denied\<rparr>)))
          else Inr (Some action, s))"

fun admit_loop ::
  "hash \<Rightarrow> campaign_lock \<Rightarrow> recovery_projection \<Rightarrow> reconcile_context \<Rightarrow> admit_state \<Rightarrow> candidate list \<Rightarrow>
   reconcile_error + admit_state" where
  "admit_loop h lock p ctx s [] = Inr s"
| "admit_loop h lock p ctx s (c # cs) =
     rbind (admit_decide h lock p ctx s c) (\<lambda>(decision, t).
       case decision of
         None \<Rightarrow> admit_loop h lock p ctx t cs
       | Some action \<Rightarrow>
           if int (length (as_actions t)) \<ge> al_action_limit (rc_limits ctx) then Inr t
           else admit_loop h lock p ctx (t\<lparr>as_actions := as_actions t @ [action]\<rparr>) cs)"

definition admit ::
  "hash \<Rightarrow> campaign_lock \<Rightarrow> recovery_projection \<Rightarrow> candidate list \<Rightarrow> reconcile_context \<Rightarrow>
   blocked_action list \<Rightarrow> reconcile_error + (reconcile_action list \<times> blocked_action list)" where
  "admit h lock p cs ctx preblocked =
     rbind (admit_loop h lock p ctx
       \<lparr>as_usage = initial_usage ctx p, as_actions = [], as_blocked = preblocked\<rparr> cs) (\<lambda>s.
       Inr (as_actions s, as_blocked s))"

definition plan_of ::
  "campaign_lock \<Rightarrow> recovery_projection \<Rightarrow> reconcile_action list \<Rightarrow> blocked_action list \<Rightarrow>
   terminal_decision option \<Rightarrow> reconcile_plan" where
  "plan_of lock p actions blocked terminal =
     \<lparr>pl_campaign_id = cl_campaign_id lock, pl_status = cp_status (rv_campaign p),
      pl_action_count = int (length actions), pl_actions = actions, pl_blocked = blocked,
      pl_terminal_decision = terminal\<rparr>"

definition plan_projection ::
  "hash \<Rightarrow> campaign_lock \<Rightarrow> recovery_projection \<Rightarrow> reconcile_context \<Rightarrow> int \<Rightarrow>
   reconcile_error + reconcile_plan" where
  "plan_projection h lock p ctx requested_now =
     (let now = max requested_now (cp_last_observed_at (rv_campaign p)) in
      if cp_status (rv_campaign p) \<in> {CS_completed, CS_partial, CS_failed, CS_cancelled}
      then Inr (plan_of lock p [] [] (rv_terminal_decision p))
      else rbind (candidates_of lock p ctx now) (\<lambda>(cs, preblocked).
        rbind (admit h lock p cs ctx preblocked) (\<lambda>(actions, blocked).
          Inr (plan_of lock p actions blocked (rv_terminal_decision p)))))"

definition plan_reconciliation ::
  "hash \<Rightarrow> campaign_lock \<Rightarrow> event list \<Rightarrow> reconcile_context \<Rightarrow> int \<Rightarrow>
   reconcile_error + (recovery_projection \<times> reconcile_plan)" where
  "plan_reconciliation h lock events ctx requested_now =
     rbind (lift_error Recovery_failure (project_recovery h lock events)) (\<lambda>p.
     rbind (plan_projection h lock p ctx requested_now) (\<lambda>plan. Inr (p, plan)))"

end
