(* ===== verification/Campaign_Store.thy ===== *)
theory Campaign_Store
  imports Hub_Repository Reconciler
begin

text \<open>
  The durable campaign store of \<open>src/src/harbor_hf/control.py\<close>: the wire form of an event
  record, the paths of the records of a campaign, and \<open>HubCampaignStore\<close> with all its
  operations over the Hub client of \<open>Hub_Repository\<close>.

  \<open>model_dump\<close> of an event is \<open>event_json\<close>; the text of a timestamp, the dump of a lock and
  the two \<open>model_validate\<close> parsers are functions of the pydantic library and are the fields
  of the argument \<open>models\<close>.
\<close>

section \<open>Wire form of an event\<close>

fun subject_type_name :: "subject_type \<Rightarrow> string" where
  "subject_type_name ST_campaign = ''campaign''"
| "subject_type_name ST_run = ''run''"
| "subject_type_name ST_shard = ''shard''"
| "subject_type_name ST_trial = ''trial''"
| "subject_type_name ST_execution = ''execution''"
| "subject_type_name ST_wave = ''wave''"

fun producer_name :: "producer \<Rightarrow> string" where
  "producer_name PR_cli = ''cli''"
| "producer_name PR_reconciler = ''reconciler''"
| "producer_name PR_wave_controller = ''wave-controller''"
| "producer_name PR_watchdog = ''watchdog''"
| "producer_name PR_publisher = ''publisher''"

fun campaign_kind_name :: "campaign_kind \<Rightarrow> string" where
  "campaign_kind_name CK_submitted = ''submitted''"
| "campaign_kind_name CK_cancel_requested = ''cancel-requested''"
| "campaign_kind_name CK_shard_retry_requested = ''shard-retry-requested''"
| "campaign_kind_name CK_draining = ''draining''"
| "campaign_kind_name CK_manual_required = ''manual-intervention-required''"
| "campaign_kind_name CK_manual_resolved = ''manual-intervention-resolved''"
| "campaign_kind_name CK_completed = ''completed''"
| "campaign_kind_name CK_partial = ''partial''"
| "campaign_kind_name CK_failed = ''failed''"
| "campaign_kind_name CK_cancelled = ''cancelled''"

fun lifecycle_name :: "lifecycle \<Rightarrow> string" where
  "lifecycle_name L_queued = ''queued''"
| "lifecycle_name L_active = ''active''"
| "lifecycle_name L_verifying = ''verifying''"
| "lifecycle_name L_publishing = ''publishing''"
| "lifecycle_name L_complete = ''complete''"
| "lifecycle_name L_invalid = ''invalid''"
| "lifecycle_name L_failed_infrastructure = ''failed-infrastructure''"
| "lifecycle_name L_cancelled = ''cancelled''"

fun trial_kind_name :: "trial_kind \<Rightarrow> string" where
  "trial_kind_name TK_complete = ''complete''"
| "trial_kind_name TK_invalid = ''invalid''"
| "trial_kind_name TK_failed_infrastructure = ''failed-infrastructure''"
| "trial_kind_name TK_cancelled = ''cancelled''"

fun execution_kind_name :: "execution_kind \<Rightarrow> string" where
  "execution_kind_name EK_started = ''started''"
| "execution_kind_name EK_completed = ''completed''"
| "execution_kind_name EK_failed = ''failed''"
| "execution_kind_name EK_cancelled = ''cancelled''"

fun wave_status_name :: "wave_status \<Rightarrow> string" where
  "wave_status_name WS_acquiring = ''acquiring''"
| "wave_status_name WS_provisioning = ''provisioning''"
| "wave_status_name WS_ready = ''ready''"
| "wave_status_name WS_active = ''active''"
| "wave_status_name WS_draining = ''draining''"
| "wave_status_name WS_cleaning = ''cleaning''"
| "wave_status_name WS_closed = ''closed''"
| "wave_status_name WS_cleanup_failed = ''cleanup-failed''"

fun action_status_name :: "action_status \<Rightarrow> string" where
  "action_status_name AS_reserved = ''reserved''"
| "action_status_name AS_succeeded = ''succeeded''"
| "action_status_name AS_failed = ''failed''"
| "action_status_name AS_ambiguous = ''ambiguous''"

fun event_kind_name :: "event_kind \<Rightarrow> string" where
  "event_kind_name (Campaign_event k) = ''campaign.'' @ campaign_kind_name k"
| "event_kind_name (Run_event l) = ''run.'' @ lifecycle_name l"
| "event_kind_name (Shard_event l) = ''shard.'' @ lifecycle_name l"
| "event_kind_name (Trial_event k) = ''trial.'' @ trial_kind_name k"
| "event_kind_name (Execution_event k) = ''execution.'' @ execution_kind_name k"
| "event_kind_name (Wave_event s) = ''wave.'' @ wave_status_name s"
| "event_kind_name Spend_recorded = ''spend.recorded''"
| "event_kind_name (Action_event s) = ''action.'' @ action_status_name s"

fun payload_json :: "event_payload \<Rightarrow> json" where
  "payload_json (Submitted_payload d) = JObj [(''plan_digest'', JStr d)]"
| "payload_json (Cancellation_payload r) = JObj [(''reason'', JStr r)]"
| "payload_json (Shard_retry_payload p) =
     JObj [(''shard_id'', JStr (srp_shard_id p)), (''reason'', JStr (srp_reason p)),
           (''trial_generations'', JObj (map (\<lambda>(k, n). (k, JInt n)) (srp_trial_generations p)))]"
| "payload_json (Terminal_payload p) =
     JObj [(''summary_path'', json_opt_str (tp_summary_path p)),
           (''summary_sha256'', json_opt_str (tp_summary_sha256 p)),
           (''message'', json_opt_str (tp_message p))]"
| "payload_json (Lifecycle_payload p) =
     JObj [(''parent_id'', json_opt_str (lp_parent_id p)), (''message'', json_opt_str (lp_message p))]"
| "payload_json (Resolution_payload p) =
     JObj [(''wave_ids'', json_strs (mrp_wave_ids p)), (''message'', json_opt_str (mrp_message p))]"
| "payload_json (Wave_payload p) =
     JObj [(''deployment_digest'', JStr (wp_deployment_digest p)), (''provider'', JStr (wp_provider p)),
           (''shard_ids'', json_strs (wp_shard_ids p)),
           (''estimated_cost_microusd'', JInt (wp_estimated_cost_microusd p))]"
| "payload_json (Started_payload p) =
     JObj [(''trial_id'', JStr (esp_trial_id p)), (''shard_id'', JStr (esp_shard_id p)),
           (''physical_attempt'', JInt (esp_physical_attempt p)),
           (''wave_id'', json_opt_str (esp_wave_id p)),
           (''estimated_cost_microusd'', JInt (esp_estimated_cost_microusd p))]"
| "payload_json (Outcome_payload p) =
     JObj [(''trial_id'', JStr (eop_trial_id p)), (''physical_attempt'', JInt (eop_physical_attempt p)),
           (''category'', json_opt_str (map_option category_name (eop_category p))),
           (''spend_microusd'', JInt (eop_spend_microusd p)),
           (''retry_after_seconds'', json_opt_int (eop_retry_after_seconds p)),
           (''message'', json_opt_str (eop_message p))]"
| "payload_json (Spend_payload p) =
     JObj [(''amount_microusd'', JInt (sp_amount_microusd p)),
           (''source_execution_id'', json_opt_str (sp_source_execution_id p))]"
| "payload_json (Reserved_payload p) =
     JObj [(''action_id'', JStr (arp_action_id p)), (''action_key'', JStr (arp_action_key p)),
           (''action_kind'', JStr (action_kind_name (arp_action_kind p))),
           (''target_ids'', json_strs (arp_target_ids p))]"
| "payload_json (Action_outcome_payload p) =
     JObj [(''action_id'', JStr (aop_action_id p)), (''message'', json_opt_str (aop_message p)),
           (''remote_id'', json_opt_str (aop_remote_id p))]"

record models =
  iso_text :: "int \<Rightarrow> string"
  lock_json :: "campaign_lock \<Rightarrow> json"
  parse_lock :: "json \<Rightarrow> campaign_lock option"
  parse_event :: "json \<Rightarrow> event option"

definition event_fields :: "models \<Rightarrow> event \<Rightarrow> (string, json) dict" where
  "event_fields ms e =
     [(''schema_version'', JStr ''harbor-hf/event/v1alpha1''),
      (''event_id'', JStr (ev_event_id e)),
      (''subject_type'', JStr (subject_type_name (ev_subject_type e))),
      (''subject_id'', JStr (ev_subject_id e)),
      (''kind'', JStr (event_kind_name (ev_kind e))),
      (''observed_at'', JStr (iso_text ms (ev_observed_at e))),
      (''producer'', JStr (producer_name (ev_producer e))),
      (''payload'', payload_json (ev_payload e))]"

definition event_json :: "models \<Rightarrow> event \<Rightarrow> json" where
  "event_json ms e = JObj (event_fields ms e)"

section \<open>The same request\<close>

definition reconciler_durable_event_kinds :: "string list" where
  "reconciler_durable_event_kinds =
     [''campaign.draining'', ''campaign.manual-intervention-required'',
      ''campaign.manual-intervention-resolved'', ''execution.failed'', ''execution.cancelled'',
      ''trial.invalid'', ''trial.failed-infrastructure'', ''wave.draining'', ''wave.cleaning'',
      ''wave.closed'']"

definition dict_pop :: "string \<Rightarrow> (string, json) dict \<Rightarrow> (string, json) dict" where
  "dict_pop k d = filter (\<lambda>(k', v). k' \<noteq> k) d"

definition is_durable_kind :: "json option \<Rightarrow> bool" where
  "is_durable_kind v =
     (case v of Some (JStr k) \<Rightarrow> k \<in> set reconciler_durable_event_kinds | _ \<Rightarrow> False)"

fun same_request :: "json \<Rightarrow> (string, json) dict \<Rightarrow> bool" where
  "same_request (JObj observed) expected =
     (if json_same (JObj observed) (JObj expected) then True
      else if map_of expected ''producer'' \<noteq> Some (JStr ''reconciler'') \<or>
              \<not> is_durable_kind (map_of expected ''kind'') then False
      else json_same (JObj (dict_pop ''observed_at'' observed)) (JObj (dict_pop ''observed_at'' expected)))"
| "same_request _ expected = False"

definition same_event_request :: "models \<Rightarrow> event \<Rightarrow> event \<Rightarrow> bool" where
  "same_event_request ms observed expected =
     same_request (event_json ms observed) (event_fields ms expected)"

section \<open>Identities and paths\<close>

definition campaign_id_ok :: "string \<Rightarrow> bool" where
  "campaign_id_ok s = safe_name 99 s"

definition campaign_request_path :: "string \<Rightarrow> string" where
  "campaign_request_path c = ''campaigns/'' @ c @ ''/request.yaml''"

definition campaign_cancellation_path :: "string \<Rightarrow> string" where
  "campaign_cancellation_path c = ''campaigns/'' @ c @ ''/cancellation.json''"

definition campaign_lock_path :: "string \<Rightarrow> string" where
  "campaign_lock_path c = ''campaigns/'' @ c @ ''/campaign.lock.json''"

definition campaign_reservation_path :: "hash \<Rightarrow> string \<Rightarrow> string" where
  "campaign_reservation_path h c = ''campaign-reservations/'' @ hexdigest h c @ ''.json''"

definition event_path :: "string \<Rightarrow> string \<Rightarrow> string" where
  "event_path c event_id = ''campaigns/'' @ c @ ''/events/'' @ event_id @ ''.json''"

definition action_reservation_path :: "string \<Rightarrow> string \<Rightarrow> string" where
  "action_reservation_path c action_id = ''campaigns/'' @ c @ ''/reservations/'' @ action_id @ ''.json''"

section \<open>Errors\<close>

datatype store_error =
    Creation_needs_submission
  | Campaign_exists
  | Event_exists
  | Event_conflicts
  | Cancellation_needs_marker
  | Cancellation_incomplete
  | Cancellation_marker_conflicts
  | Cancellation_won
  | Reservation_needs_event
  | Reservation_conflicts
  | Reservation_not_object
  | Scope_invalid
  | Scope_subject_mismatch
  | No_events_given
  | Needs_dedicated_operation
  | Duplicate_identities
  | Guarded_needs_terminal_trial
  | Cleanup_state_changed
  | Record_unreadable
  | Record_invalid
  | Store_contended
  | Store_no_identity
  | Log_error control_error

section \<open>Reading\<close>

abbreviation store_head :: "'w hub \<Rightarrow> ('w, store_error failure, string) io" where
  "store_head hub \<equiv> repo_head hub Store_no_identity"

definition read_bytes :: "'w hub \<Rightarrow> string \<Rightarrow> string \<Rightarrow> ('w, store_error failure, hub_file) io" where
  "read_bytes hub path revision w =
     (case api_download hub path revision w of
        (Inl e, w') \<Rightarrow> (Inl (if is_os_error e then Raised Record_unreadable else Hub_failed e), w')
      | (Inr None, w') \<Rightarrow> (Inl (Raised Record_unreadable), w')
      | (Inr (Some f), w') \<Rightarrow> (Inr f, w'))"

fun json_of_file :: "hub_file \<Rightarrow> store_error + json" where
  "json_of_file (Json_file v) = Inr v"
| "json_of_file (Text_file _) = Inl Record_unreadable"

definition read_json :: "'w hub \<Rightarrow> string \<Rightarrow> string \<Rightarrow> ('w, store_error failure, json) io" where
  "read_json hub path revision =
     io_bind (read_bytes hub path revision) (\<lambda>f. io_result (lift_error Raised (json_of_file f)))"

definition rstrip_slash :: "string \<Rightarrow> string" where
  "rstrip_slash s = rev (dropWhile (\<lambda>c. c = CHR ''/'') (rev s))"

definition paths_under :: "'w hub \<Rightarrow> string \<Rightarrow> string \<Rightarrow> ('w, store_error failure, string list) io" where
  "paths_under hub pre revision w =
     (case api_list_tree hub (rstrip_slash pre) revision w of
        (Inl e, w') \<Rightarrow> (if e = Entry_not_found then Inr [] else Inl (Hub_failed e), w')
      | (Inr entries, w') \<Rightarrow> (Inr (sort (filter (\<lambda>p. starts_with p pre) entries)), w'))"

definition load_event_file ::
  "models \<Rightarrow> 'w hub \<Rightarrow> string \<Rightarrow> string \<Rightarrow> ('w, store_error failure, event) io" where
  "load_event_file ms hub revision path =
     io_bind (read_json hub path revision) (\<lambda>v.
       io_result (lift_error Raised (of_option Record_invalid (parse_event ms v))))"

definition load_events_at ::
  "models \<Rightarrow> 'w hub \<Rightarrow> string \<Rightarrow> string \<Rightarrow> ('w, store_error failure, event list) io" where
  "load_events_at ms hub c revision =
     io_bind (paths_under hub (''campaigns/'' @ c @ ''/events/'') revision) (\<lambda>paths.
       io_mapM (load_event_file ms hub revision) (filter (\<lambda>p. ends_with p ''.json'') paths))"

record snapshot =
  sn_lock :: campaign_lock
  sn_events :: "event list"
  sn_request :: hub_file
  sn_control_commit :: string

definition load_snapshot ::
  "models \<Rightarrow> 'w hub \<Rightarrow> string \<Rightarrow> ('w, store_error failure, snapshot) io" where
  "load_snapshot ms hub c =
     io_bind (store_head hub) (\<lambda>head.
     io_bind (read_json hub (campaign_lock_path c) head) (\<lambda>v.
     io_bind (io_result (lift_error Raised (of_option Record_invalid (parse_lock ms v)))) (\<lambda>lock.
     io_bind (load_events_at ms hub c head) (\<lambda>events.
     io_bind (read_bytes hub (campaign_request_path c) head) (\<lambda>request.
       io_return \<lparr>sn_lock = lock, sn_events = events, sn_request = request,
                  sn_control_commit = head\<rparr>)))))"

definition load_campaign ::
  "models \<Rightarrow> 'w hub \<Rightarrow> string \<Rightarrow> ('w, store_error failure, campaign_lock \<times> event list) io" where
  "load_campaign ms hub c =
     io_bind (load_snapshot ms hub c) (\<lambda>s. io_return (sn_lock s, sn_events s))"

definition load_request :: "'w hub \<Rightarrow> string \<Rightarrow> ('w, store_error failure, hub_file) io" where
  "load_request hub c =
     io_bind (store_head hub) (\<lambda>head. read_bytes hub (campaign_request_path c) head)"

definition campaign_of_lock_path :: "string \<Rightarrow> string" where
  "campaign_of_lock_path path = remove_suffix (remove_prefix path ''campaigns/'') ''/campaign.lock.json''"

definition list_campaigns :: "'w hub \<Rightarrow> ('w, store_error failure, string list) io" where
  "list_campaigns hub =
     io_bind (store_head hub) (\<lambda>head.
     io_bind (call (api_list_files hub head)) (\<lambda>files.
       io_return (sort (remdups (map campaign_of_lock_path
         (filter (\<lambda>p. starts_with p ''campaigns/'' \<and> ends_with p ''/campaign.lock.json'' \<and>
                       campaign_id_ok (campaign_of_lock_path p)) files))))))"

fun reservation_of_json :: "json \<Rightarrow> store_error + (string, json) dict" where
  "reservation_of_json (JObj kvs) = Inr kvs"
| "reservation_of_json _ = Inl Reservation_not_object"

definition load_action_reservations ::
  "'w hub \<Rightarrow> string \<Rightarrow> ('w, store_error failure, (string, json) dict list) io" where
  "load_action_reservations hub c =
     io_bind (store_head hub) (\<lambda>head.
     io_bind (paths_under hub (''campaigns/'' @ c @ ''/reservations/'') head) (\<lambda>paths.
       io_mapM (\<lambda>path. io_bind (read_json hub path head) (\<lambda>v.
           io_result (lift_error Raised (reservation_of_json v))))
         (filter (\<lambda>p. ends_with p ''.json'') paths)))"

section \<open>Creating what is absent\<close>

definition create_absent_attempt ::
  "string \<Rightarrow> commit_op list \<Rightarrow> store_error \<Rightarrow> 'w hub \<Rightarrow> unit \<Rightarrow> string \<Rightarrow>
   ('w, store_error failure, unit verdict) io" where
  "create_absent_attempt path ops conflict hub u head =
     io_bind (exists_at hub path head) (\<lambda>present.
       if present then io_raise (Raised conflict) else io_return (Commit ops ()))"

definition create_absent ::
  "'w hub \<Rightarrow> string \<Rightarrow> commit_op list \<Rightarrow> store_error \<Rightarrow> ('w, store_error failure, unit) io" where
  "create_absent hub path ops conflict =
     commit_loop hub Store_no_identity Store_contended (create_absent_attempt path ops conflict hub)
       eight_attempts"

definition creation_ops ::
  "hash \<Rightarrow> models \<Rightarrow> campaign_lock \<Rightarrow> hub_file \<Rightarrow> event \<Rightarrow> commit_op list" where
  "creation_ops h ms lock request e =
     (let c = cl_campaign_id lock in
      [Add_file (campaign_request_path c) request,
       Add_file (campaign_lock_path c) (Json_file (lock_json ms lock)),
       Add_file (event_path c (ev_event_id e)) (Json_file (event_json ms e)),
       Add_file (campaign_reservation_path h c)
         (Json_file (JObj [(''campaign_id'', JStr c), (''plan_digest'', JStr (cl_plan_digest lock))]))])"

definition create_campaign ::
  "hash \<Rightarrow> models \<Rightarrow> 'w hub \<Rightarrow> campaign_lock \<Rightarrow> hub_file \<Rightarrow> event \<Rightarrow> ('w, store_error failure, unit) io" where
  "create_campaign h ms hub lock request e =
     (if ev_kind e \<noteq> Campaign_event CK_submitted \<or> ev_subject_id e \<noteq> cl_campaign_id lock
      then io_raise (Raised Creation_needs_submission)
      else create_absent hub (campaign_lock_path (cl_campaign_id lock))
             (creation_ops h ms lock request e) Campaign_exists)"

definition validate_event_scope :: "string \<Rightarrow> event \<Rightarrow> store_error + unit" where
  "validate_event_scope c e =
     (if \<not> campaign_id_ok c then Inl Scope_invalid
      else if ev_subject_type e = ST_campaign \<and> ev_subject_id e \<noteq> c then Inl Scope_subject_mismatch
      else Inr ())"

definition append_event ::
  "models \<Rightarrow> 'w hub \<Rightarrow> string \<Rightarrow> event \<Rightarrow> ('w, store_error failure, unit) io" where
  "append_event ms hub c e =
     io_bind (io_result (lift_error Raised (validate_event_scope c e))) (\<lambda>_.
       if ev_kind e = Campaign_event CK_cancel_requested
       then io_raise (Raised Cancellation_needs_marker)
       else create_absent hub (event_path c (ev_event_id e))
              [Add_file (event_path c (ev_event_id e)) (Json_file (event_json ms e))] Event_exists)"

section \<open>Ensuring one event\<close>

text \<open>What every variant does first: an event that exists must be the same request.\<close>

definition adopt_or ::
  "models \<Rightarrow> 'w hub \<Rightarrow> string \<Rightarrow> event \<Rightarrow> string \<Rightarrow> ('w, store_error failure, bool verdict) io \<Rightarrow>
   ('w, store_error failure, bool verdict) io" where
  "adopt_or ms hub path e head otherwise =
     io_bind (exists_at hub path head) (\<lambda>present.
       if present then
         io_bind (read_json hub path head) (\<lambda>observed.
           if \<not> same_request observed (event_fields ms e) then io_raise (Raised Event_conflicts)
           else io_return (Done False))
       else otherwise)"

definition ensure_plain_attempt ::
  "models \<Rightarrow> string \<Rightarrow> event \<Rightarrow> 'w hub \<Rightarrow> unit \<Rightarrow> string \<Rightarrow> ('w, store_error failure, bool verdict) io" where
  "ensure_plain_attempt ms c e hub u head =
     (let path = event_path c (ev_event_id e) in
      adopt_or ms hub path e head
        (io_return (Commit [Add_file path (Json_file (event_json ms e))] True)))"

text \<open>Waves whose last state is a failed cleanup that no operator has resolved.\<close>

definition cleanup_failed_step ::
  "(string, wave_status) dict \<Rightarrow> event \<Rightarrow> control_error + (string, wave_status) dict" where
  "cleanup_failed_step states e =
     (case ev_kind e of
        Wave_event s \<Rightarrow> Inr (AList.update (ev_subject_id e) s states)
      | Campaign_event CK_manual_resolved \<Rightarrow>
          rbind (as_resolution (ev_payload e)) (\<lambda>p.
            Inr (foldl (\<lambda>d w. if map_of d w = Some WS_cleanup_failed then AList.update w WS_closed d else d)
              states (mrp_wave_ids p)))
      | _ \<Rightarrow> Inr states)"

definition cleanup_failed_wave_ids :: "event list \<Rightarrow> control_error + string list" where
  "cleanup_failed_wave_ids events =
     rbind (ordered_events events) (\<lambda>ordered.
     rbind (foldM cleanup_failed_step [] ordered) (\<lambda>states.
       Inr (map fst (filter (\<lambda>(w, s). s = WS_cleanup_failed) states))))"

definition validate_manual_resolution_basis :: "event \<Rightarrow> event list \<Rightarrow> store_error + unit" where
  "validate_manual_resolution_basis e events =
     rbind (lift_error Log_error (as_resolution (ev_payload e))) (\<lambda>p.
     rbind (lift_error Log_error (cleanup_failed_wave_ids events)) (\<lambda>failed.
       require (list_all (\<lambda>w. w \<in> set (mrp_wave_ids p)) failed) Cleanup_state_changed))"

definition ensure_resolution_attempt ::
  "models \<Rightarrow> string \<Rightarrow> event \<Rightarrow> 'w hub \<Rightarrow> unit \<Rightarrow> string \<Rightarrow> ('w, store_error failure, bool verdict) io" where
  "ensure_resolution_attempt ms c e hub u head =
     (let path = event_path c (ev_event_id e) in
      adopt_or ms hub path e head
        (io_bind (load_events_at ms hub c head) (\<lambda>events.
         io_bind (io_result (lift_error Raised (validate_manual_resolution_basis e events))) (\<lambda>_.
           io_return (Commit [Add_file path (Json_file (event_json ms e))] True)))))"

definition cancellation_marker :: "string \<Rightarrow> event \<Rightarrow> json" where
  "cancellation_marker c e = JObj [(''campaign_id'', JStr c), (''event_id'', JStr (ev_event_id e))]"

definition ensure_cancellation_attempt ::
  "models \<Rightarrow> string \<Rightarrow> event \<Rightarrow> 'w hub \<Rightarrow> unit \<Rightarrow> string \<Rightarrow> ('w, store_error failure, bool verdict) io" where
  "ensure_cancellation_attempt ms c e hub u head =
     (let path = event_path c (ev_event_id e); marker_path = campaign_cancellation_path c in
      io_bind (exists_at hub path head) (\<lambda>event_exists.
      io_bind (exists_at hub marker_path head) (\<lambda>marker_exists.
        if event_exists \<noteq> marker_exists then io_raise (Raised Cancellation_incomplete)
        else if event_exists then
          io_bind (read_json hub path head) (\<lambda>observed.
          io_bind (read_json hub marker_path head) (\<lambda>observed_marker.
            if \<not> same_request observed (event_fields ms e) then io_raise (Raised Event_conflicts)
            else if \<not> json_same observed_marker (cancellation_marker c e)
            then io_raise (Raised Cancellation_marker_conflicts)
            else io_return (Done False)))
        else io_return (Commit
          [Add_file path (Json_file (event_json ms e)),
           Add_file marker_path (Json_file (cancellation_marker c e))] True))))"

definition ensure_event ::
  "models \<Rightarrow> 'w hub \<Rightarrow> string \<Rightarrow> event \<Rightarrow> ('w, store_error failure, bool) io" where
  "ensure_event ms hub c e =
     io_bind (io_result (lift_error Raised (validate_event_scope c e))) (\<lambda>_.
       commit_loop hub Store_no_identity Store_contended
         (if ev_kind e = Campaign_event CK_cancel_requested then ensure_cancellation_attempt ms c e hub
          else if ev_kind e = Campaign_event CK_manual_resolved then ensure_resolution_attempt ms c e hub
          else ensure_plain_attempt ms c e hub)
         eight_attempts)"

section \<open>Batches of events\<close>

definition event_dict_of ::
  "string \<Rightarrow> event list \<Rightarrow> store_error + (string, event) dict" where
  "event_dict_of c events =
     (let d = mk_dict (map (\<lambda>e. (event_path c (ev_event_id e), e)) events) in
      if length d \<noteq> length events then Inl Duplicate_identities else Inr d)"

definition event_payloads :: "string \<Rightarrow> event list \<Rightarrow> store_error + (string, event) dict" where
  "event_payloads c events =
     (if events = [] then Inl No_events_given
      else rbind (mapM (\<lambda>e. rbind (validate_event_scope c e) (\<lambda>_.
             require (ev_kind e \<notin> {Campaign_event CK_cancel_requested, Campaign_event CK_manual_resolved})
               Needs_dedicated_operation)) events) (\<lambda>_.
           event_dict_of c events))"

definition guarded_event_payloads ::
  "string \<Rightarrow> event list \<Rightarrow> store_error + (string, event) dict" where
  "guarded_event_payloads c events =
     (if events = [] then Inl No_events_given
      else rbind (mapM (\<lambda>e. rbind (validate_event_scope c e) (\<lambda>_.
             require (ev_subject_type e = ST_trial \<and>
               ev_kind e \<in> {Trial_event TK_invalid, Trial_event TK_failed_infrastructure})
               Guarded_needs_terminal_trial)) events) (\<lambda>_.
           event_dict_of c events))"

text \<open>The events that the revision lacks; one that it has must be the same request.\<close>

fun missing_by ::
  "models \<Rightarrow> (string \<Rightarrow> ('w, store_error failure, bool) io) \<Rightarrow> 'w hub \<Rightarrow> string \<Rightarrow> (string, event) dict \<Rightarrow>
   ('w, store_error failure, (string, event) dict) io" where
  "missing_by ms present hub head [] = io_return []"
| "missing_by ms present hub head ((path, e) # rest) =
     io_bind (present path) (\<lambda>b.
       if \<not> b then
         io_bind (missing_by ms present hub head rest) (\<lambda>m. io_return ((path, e) # m))
       else io_bind (read_json hub path head) (\<lambda>observed.
         if \<not> same_request observed (event_fields ms e) then io_raise (Raised Event_conflicts)
         else missing_by ms present hub head rest))"

definition missing_events ::
  "models \<Rightarrow> 'w hub \<Rightarrow> (string, event) dict \<Rightarrow> string \<Rightarrow>
   ('w, store_error failure, (string, event) dict) io" where
  "missing_events ms hub expected head = missing_by ms (\<lambda>p. exists_at hub p head) hub head expected"

definition missing_events_from_listing ::
  "models \<Rightarrow> 'w hub \<Rightarrow> (string, event) dict \<Rightarrow> string \<Rightarrow>
   ('w, store_error failure, (string, event) dict) io" where
  "missing_events_from_listing ms hub expected head =
     io_bind (call (api_list_files hub head)) (\<lambda>files.
       missing_by ms (\<lambda>p. io_return (p \<in> set files)) hub head expected)"

definition add_events :: "models \<Rightarrow> (string, event) dict \<Rightarrow> commit_op list" where
  "add_events ms d = map (\<lambda>(path, e). Add_file path (Json_file (event_json ms e))) d"

definition guarded_attempt ::
  "models \<Rightarrow> string \<Rightarrow> (string, event) dict \<Rightarrow> 'w hub \<Rightarrow> unit \<Rightarrow> string \<Rightarrow>
   ('w, store_error failure, bool verdict) io" where
  "guarded_attempt ms c expected hub u head =
     io_bind (missing_events ms hub expected head) (\<lambda>missing.
       if missing = [] then io_return (Done False)
       else io_bind (exists_at hub (campaign_cancellation_path c) head) (\<lambda>cancelled.
         if cancelled then io_raise (Raised Cancellation_won)
         else io_return (Commit (add_events ms missing) True)))"

definition ensure_events_unless_cancelled ::
  "models \<Rightarrow> 'w hub \<Rightarrow> string \<Rightarrow> event list \<Rightarrow> ('w, store_error failure, bool) io" where
  "ensure_events_unless_cancelled ms hub c events =
     io_bind (io_result (lift_error Raised (guarded_event_payloads c events))) (\<lambda>expected.
       commit_loop hub Store_no_identity Store_contended (guarded_attempt ms c expected hub)
         eight_attempts)"

definition max_event_batch_operations :: nat where
  "max_event_batch_operations = 50"

text \<open>
  The batches of one attempt. Each commit has the previous one as parent. The exception of
  the inner loop comes with the value of \<open>changed\<close> at that point.
\<close>

fun commit_batches ::
  "models \<Rightarrow> 'w hub \<Rightarrow> (string, event) dict list \<Rightarrow> string \<Rightarrow> bool \<Rightarrow>
   ('w, store_error failure \<times> bool, bool) io" where
  "commit_batches ms hub [] head changed w = (Inr changed, w)"
| "commit_batches ms hub (batch # rest) head changed w =
     (case api_create_commit hub (add_events ms batch) head w of
        (Inl e, w') \<Rightarrow> (Inl (Hub_failed e, changed), w')
      | (Inr (Some oid), w') \<Rightarrow> commit_batches ms hub rest oid True w'
      | (Inr None, w') \<Rightarrow>
          (case store_head hub w' of
             (Inl e, w'') \<Rightarrow> (Inl (e, changed), w'')
           | (Inr head', w'') \<Rightarrow> commit_batches ms hub rest head' True w''))"

fun ensure_events_loop ::
  "models \<Rightarrow> 'w hub \<Rightarrow> (string, event) dict \<Rightarrow> nat \<Rightarrow> bool \<Rightarrow> ('w, store_error failure, bool) io" where
  "ensure_events_loop ms hub expected 0 changed = io_raise (Raised Store_contended)"
| "ensure_events_loop ms hub expected (Suc n) changed =
     io_bind (store_head hub) (\<lambda>head.
     io_bind (missing_events_from_listing ms hub expected head) (\<lambda>missing.
       if missing = [] then io_return changed
       else (\<lambda>w.
         case commit_batches ms hub (chunks max_event_batch_operations missing) head changed w of
           (Inr b, w') \<Rightarrow> (Inr b, w')
         | (Inl (Hub_failed e, changed'), w') \<Rightarrow>
             if is_parent_conflict e then ensure_events_loop ms hub expected n changed' w'
             else (Inl (Hub_failed e), w')
         | (Inl (Raised e, _), w') \<Rightarrow> (Inl (Raised e), w'))))"

definition ensure_events ::
  "models \<Rightarrow> 'w hub \<Rightarrow> string \<Rightarrow> event list \<Rightarrow> ('w, store_error failure, bool) io" where
  "ensure_events ms hub c events =
     io_bind (io_result (lift_error Raised (event_payloads c events))) (\<lambda>expected.
       ensure_events_loop ms hub expected max_commit_attempts False)"

section \<open>Reserving an action\<close>

definition reserve_attempt_of ::
  "models \<Rightarrow> string \<Rightarrow> (string, json) dict \<Rightarrow> event \<Rightarrow> string \<Rightarrow> 'w hub \<Rightarrow> unit \<Rightarrow> string \<Rightarrow>
   ('w, store_error failure, bool verdict) io" where
  "reserve_attempt_of ms c action e action_id hub u head =
     (let path = action_reservation_path c action_id in
      io_bind (exists_at hub path head) (\<lambda>present.
        if present then
          io_bind (read_json hub path head) (\<lambda>observed.
            if \<not> json_same observed (JObj action) then io_raise (Raised Reservation_conflicts)
            else io_return (Done False))
        else io_return (Commit
          [Add_file path (Json_file (JObj action)),
           Add_file (event_path c (ev_event_id e)) (Json_file (event_json ms e))] True)))"

definition reserve_action ::
  "models \<Rightarrow> 'w hub \<Rightarrow> string \<Rightarrow> (string, json) dict \<Rightarrow> event \<Rightarrow> ('w, store_error failure, bool) io" where
  "reserve_action ms hub c action e =
     (if ev_kind e \<noteq> Action_event AS_reserved \<or> ev_subject_id e \<noteq> c
      then io_raise (Raised Reservation_needs_event)
      else io_bind (io_result (lift_error (\<lambda>x. Raised (Log_error x)) (as_reserved (ev_payload e)))) (\<lambda>p.
        commit_loop hub Store_no_identity Store_contended
          (reserve_attempt_of ms c action e (arp_action_id p) hub) eight_attempts))"

end
