(* ===== verification/Campaign_Store_Atomic.thy ===== *)
theory Campaign_Store_Atomic
  imports Campaign_Store
begin

text \<open>
  The campaign store is atomic. For each operation the specification of one attempt
  (\<open>..._spec\<close>) says what it decides of the tree of the head; the interpretations of
  \<open>atomic_operation\<close> show that an attempt of the code decides exactly that, so every
  operation is one atomic step (\<open>..._atomic\<close>), however the commits of other processes are
  interleaved. \<open>load_snapshot\<close> is answered from a single revision.
\<close>

section \<open>What a tree holds\<close>

definition json_at :: "tree \<Rightarrow> string \<Rightarrow> store_error + json" where
  "json_at t p = (case map_of t p of None \<Rightarrow> Inl Record_unreadable | Some f \<Rightarrow> json_of_file f)"

text \<open>All entries of a tree: its files and the directories above them.\<close>

definition parents :: "string \<Rightarrow> string list" where
  "parents p = map (\<lambda>i. take i p) (filter (\<lambda>i. p ! i = CHR ''/'') [0..<length p])"

definition entries :: "tree \<Rightarrow> string list" where
  "entries t = remdups (concat (map (\<lambda>p. p # parents p) (dict_keys t)))"

definition paths_at :: "tree \<Rightarrow> string \<Rightarrow> string list" where
  "paths_at t pre = sort (filter (\<lambda>p. starts_with p pre) (entries t))"

definition events_at :: "models \<Rightarrow> tree \<Rightarrow> string \<Rightarrow> store_error + event list" where
  "events_at ms t c =
     mapM (\<lambda>p. rbind (json_at t p) (\<lambda>v. of_option Record_invalid (parse_event ms v)))
       (filter (\<lambda>p. ends_with p ''.json'') (paths_at t (''campaigns/'' @ c @ ''/events/'')))"

fun missing_at ::
  "models \<Rightarrow> tree \<Rightarrow> (string \<Rightarrow> bool) \<Rightarrow> (string, event) dict \<Rightarrow> store_error + (string, event) dict" where
  "missing_at ms t present [] = Inr []"
| "missing_at ms t present ((p, e) # rest) =
     (if \<not> present p then rbind (missing_at ms t present rest) (\<lambda>m. Inr ((p, e) # m))
      else rbind (json_at t p) (\<lambda>observed.
        if same_request observed (event_fields ms e) then missing_at ms t present rest
        else Inl Event_conflicts))"

section \<open>Specifications\<close>

definition create_absent_spec ::
  "string \<Rightarrow> commit_op list \<Rightarrow> store_error \<Rightarrow> unit \<Rightarrow> tree \<Rightarrow> store_error + unit verdict" where
  "create_absent_spec path ops conflict u t =
     (if entry_exists t path then Inl conflict else Inr (Commit ops ()))"

definition adopt_spec ::
  "models \<Rightarrow> string \<Rightarrow> event \<Rightarrow> tree \<Rightarrow> store_error + bool verdict \<Rightarrow> store_error + bool verdict" where
  "adopt_spec ms path e t otherwise =
     (if entry_exists t path then
        rbind (json_at t path) (\<lambda>observed.
          if same_request observed (event_fields ms e) then Inr (Done False) else Inl Event_conflicts)
      else otherwise)"

abbreviation add_event :: "models \<Rightarrow> string \<Rightarrow> event \<Rightarrow> commit_op" where
  "add_event ms c e \<equiv> Add_file (event_path c (ev_event_id e)) (Json_file (event_json ms e))"

definition plain_spec :: "models \<Rightarrow> string \<Rightarrow> event \<Rightarrow> unit \<Rightarrow> tree \<Rightarrow> store_error + bool verdict" where
  "plain_spec ms c e u t =
     adopt_spec ms (event_path c (ev_event_id e)) e t (Inr (Commit [add_event ms c e] True))"

definition resolution_spec :: "models \<Rightarrow> string \<Rightarrow> event \<Rightarrow> unit \<Rightarrow> tree \<Rightarrow> store_error + bool verdict" where
  "resolution_spec ms c e u t =
     adopt_spec ms (event_path c (ev_event_id e)) e t
       (rbind (events_at ms t c) (\<lambda>events.
        rbind (validate_manual_resolution_basis e events) (\<lambda>_.
          Inr (Commit [add_event ms c e] True))))"

definition cancellation_spec :: "models \<Rightarrow> string \<Rightarrow> event \<Rightarrow> unit \<Rightarrow> tree \<Rightarrow> store_error + bool verdict" where
  "cancellation_spec ms c e u t =
     (let path = event_path c (ev_event_id e); marker_path = campaign_cancellation_path c in
      if entry_exists t path \<noteq> entry_exists t marker_path then Inl Cancellation_incomplete
      else if entry_exists t path then
        rbind (json_at t path) (\<lambda>observed. rbind (json_at t marker_path) (\<lambda>marker.
          if \<not> same_request observed (event_fields ms e) then Inl Event_conflicts
          else if \<not> json_same marker (cancellation_marker c e) then Inl Cancellation_marker_conflicts
          else Inr (Done False)))
      else Inr (Commit [add_event ms c e, Add_file marker_path (Json_file (cancellation_marker c e))] True))"

definition ensure_spec :: "models \<Rightarrow> string \<Rightarrow> event \<Rightarrow> unit \<Rightarrow> tree \<Rightarrow> store_error + bool verdict" where
  "ensure_spec ms c e =
     (if ev_kind e = Campaign_event CK_cancel_requested then cancellation_spec ms c e
      else if ev_kind e = Campaign_event CK_manual_resolved then resolution_spec ms c e
      else plain_spec ms c e)"

definition guarded_spec ::
  "models \<Rightarrow> string \<Rightarrow> (string, event) dict \<Rightarrow> unit \<Rightarrow> tree \<Rightarrow> store_error + bool verdict" where
  "guarded_spec ms c expected u t =
     rbind (missing_at ms t (entry_exists t) expected) (\<lambda>missing.
       if missing = [] then Inr (Done False)
       else if entry_exists t (campaign_cancellation_path c) then Inl Cancellation_won
       else Inr (Commit (add_events ms missing) True))"

definition reserve_spec ::
  "models \<Rightarrow> string \<Rightarrow> (string, json) dict \<Rightarrow> event \<Rightarrow> string \<Rightarrow> unit \<Rightarrow> tree \<Rightarrow> store_error + bool verdict" where
  "reserve_spec ms c action e action_id u t =
     (let path = action_reservation_path c action_id in
      if entry_exists t path then
        rbind (json_at t path) (\<lambda>observed.
          if json_same observed (JObj action) then Inr (Done False) else Inl Reservation_conflicts)
      else Inr (Commit [Add_file path (Json_file (JObj action)), add_event ms c e] True))"

section \<open>Reading at a revision\<close>

lemma starts_with_iff: "starts_with s p \<longleftrightarrow> (\<exists>q. s = p @ q)"
  by (auto simp: starts_with_def) (metis append_take_drop_id)

lemma parents_iff: "d \<in> set (parents p) \<longleftrightarrow> starts_with p (d @ ''/'')"
proof -
  have "d \<in> set (parents p) \<longleftrightarrow> (\<exists>i < length p. p ! i = CHR ''/'' \<and> d = take i p)"
    by (auto simp: parents_def)
  also have "\<dots> \<longleftrightarrow> (\<exists>q. p = (d @ ''/'') @ q)"
  proof
    assume "\<exists>i < length p. p ! i = CHR ''/'' \<and> d = take i p"
    then show "\<exists>q. p = (d @ ''/'') @ q" by (metis append.assoc append_Cons append_Nil id_take_nth_drop)
  next
    assume "\<exists>q. p = (d @ ''/'') @ q"
    then obtain q where "p = (d @ ''/'') @ q" by blast
    then show "\<exists>i < length p. p ! i = CHR ''/'' \<and> d = take i p"
      by (intro exI [of _ "length d"]) (auto simp: nth_append)
  qed
  finally show ?thesis by (simp add: starts_with_iff)
qed

lemma entries_iff: "p \<in> set (entries t) \<longleftrightarrow> entry_exists t p"
  by (auto simp: entries_def entry_exists_def list_ex_iff parents_iff)

lemma yields_read_bytes:
  assumes c: "hub_contract hub others history"
    and some: "\<And>f. map_of t p = Some f \<Longrightarrow> yields {Record_unreadable} others history rv t (k f) s"
  shows "yields {Record_unreadable} others history rv t (io_bind (read_bytes hub p rv) k) s"
  unfolding yields_def
proof (intro allI impI)
  fix w r w' assume run: "io_bind (read_bytes hub p rv) k w = (r, w')" and rv: "(rv, t) \<in> set (history w)"
  obtain r1 w1 where d: "api_download hub p rv w = (r1, w1)" by fastforce
  from c d have g: "grows others (history w) (history w1)"
    unfolding hub_contract_def reads_only_def by blast
  have "reads_at history (api_download hub p) (file_answer p)" using c by (simp add: hub_contract_def)
  with d rv have a: "file_answer p t r1" unfolding reads_at_def by blast
  from rv have rv1: "(rv, t) \<in> set (history w1)" using grows_subset [OF g] by auto
  show "grows others (history w) (history w') \<and> (r = lift_error Raised s \<or>
      (\<exists>e. r = Inl (Hub_failed e)) \<or> (\<exists>e \<in> {Record_unreadable}. r = Inl (Raised e)))"
  proof (cases "\<exists>f. r1 = Inr (Some f)")
    case True
    then obtain f where f: "r1 = Inr (Some f)" by blast
    with run d have "k f w1 = (r, w')" by (simp add: io_bind_def read_bytes_def)
    moreover have "yields {Record_unreadable} others history rv t (k f) s"
      using f a some by (simp add: file_answer_def)
    ultimately show ?thesis using rv1 g unfolding yields_def by (blast intro: grows_trans)
  next
    case False
    with run d g show ?thesis
      by (cases r1) (auto simp: io_bind_def read_bytes_def split: option.splits if_splits)
  qed
qed

lemma yields_read_json:
  assumes c: "hub_contract hub others history"
  shows "yields {Record_unreadable} others history rv t (read_json hub p rv) (json_at t p)"
  unfolding read_json_def by (rule yields_read_bytes [OF c]) (simp add: json_at_def yields_result)

lemma rstrip_slash_append [simp]: "rstrip_slash (s @ ''/'') = rstrip_slash s"
  by (simp add: rstrip_slash_def)

lemma rstrip_slash_id: "s \<noteq> [] \<Longrightarrow> last s \<noteq> CHR ''/'' \<Longrightarrow> rstrip_slash s = s"
  by (cases s rule: rev_cases) (auto simp: rstrip_slash_def)

text \<open>The listing of a directory is the sorted list of the entries below it.\<close>

lemma yields_paths_under:
  assumes c: "hub_contract hub others history" and d: "pre = d @ ''/''" "rstrip_slash pre = d"
  shows "yields E others history rv t (paths_under hub pre rv) (Inr (paths_at t pre))"
  unfolding yields_def
proof (intro allI impI)
  fix w r w' assume run: "paths_under hub pre rv w = (r, w')" and rv: "(rv, t) \<in> set (history w)"
  obtain r1 w1 where l: "api_list_tree hub d rv w = (r1, w1)" by fastforce
  from c l have g: "grows others (history w) (history w1)"
    unfolding hub_contract_def reads_only_def by blast
  have "reads_at history (api_list_tree hub d) (tree_answer d)" using c by (simp add: hub_contract_def)
  with l rv have a: "tree_answer d t r1" unfolding reads_at_def by blast
  have set_paths: "set (filter (\<lambda>p. starts_with p pre) (entries t)) =
      {p. entry_exists t p \<and> starts_with p (d @ ''/'')}"
    by (auto simp: entries_iff d(1))
  have "sort (filter (\<lambda>p. starts_with p pre) ps) = paths_at t pre" if "r1 = Inr ps" for ps
  proof -
    from a that have ps: "distinct ps" "set ps = {p. entry_exists t p \<and> starts_with p (d @ ''/'')}"
      by (auto simp: tree_answer_def)
    then have "set (filter (\<lambda>p. starts_with p pre) ps) = set (filter (\<lambda>p. starts_with p pre) (entries t))"
      unfolding set_paths by (auto simp: d(1))
    with ps(1) show ?thesis
      unfolding paths_at_def by (intro sorted_distinct_set_unique) (simp_all add: entries_def)
  qed
  moreover have "r1 = Inl Entry_not_found \<Longrightarrow> paths_at t pre = []"
  proof -
    assume "r1 = Inl Entry_not_found"
    with a have n: "\<not> entry_exists t d" by (simp add: tree_answer_def)
    have "\<not> entry_exists t p" if "starts_with p (d @ ''/'')" for p
    proof
      assume "entry_exists t p"
      then obtain q where "q \<in> set (dict_keys t)" "q = p \<or> starts_with q (p @ ''/'')"
        by (auto simp: entry_exists_def list_ex_iff)
      with that have "starts_with q (d @ ''/'')" by (auto simp: starts_with_iff)
      with n \<open>q \<in> set (dict_keys t)\<close> show False by (auto simp: entry_exists_def list_ex_iff)
    qed
    with set_paths show ?thesis by (auto simp: paths_at_def filter_empty_conv entries_iff d(1))
  qed
  ultimately show "grows others (history w) (history w') \<and>
      (r = lift_error Raised (Inr (paths_at t pre)) \<or>
       (\<exists>e. r = Inl (Hub_failed e)) \<or> (\<exists>e \<in> E. r = Inl (Raised e)))"
    using run l g d(2) by (auto simp: paths_under_def split: sum.splits if_splits)
qed

lemma yields_events_at:
  assumes c: "hub_contract hub others history"
  shows "yields {Record_unreadable} others history rv t (load_events_at ms hub c rv) (events_at ms t c)"
proof -
  have d: "rstrip_slash (''campaigns/'' @ c @ ''/events/'') = ''campaigns/'' @ c @ ''/events''"
    using rstrip_slash_id [of "''campaigns/'' @ c @ ''/events''"] rstrip_slash_append [of "''campaigns/'' @ c @ ''/events''"]
    by simp
  have "yields {Record_unreadable} others history rv t (paths_under hub (''campaigns/'' @ c @ ''/events/'') rv)
      (Inr (paths_at t (''campaigns/'' @ c @ ''/events/'')))"
    by (rule yields_paths_under [OF assms _ d]) simp
  then show ?thesis
    unfolding load_events_at_def events_at_def load_event_file_def
    by (rule yields_seq) (auto intro!: yields_mapM yields_bind yields_read_json [OF assms] yields_result)
qed

lemma yields_missing_by:
  assumes c: "hub_contract hub others history"
    and p: "\<And>p. yields {Record_unreadable} others history rv t (present p) (Inr (P p))"
  shows "yields {Record_unreadable} others history rv t (missing_by ms present hub rv d)
    (missing_at ms t P d)"
proof (induction d)
  case Nil
  then show ?case by (simp add: yields_return)
next
  case (Cons x d)
  obtain q e where x: "x = (q, e)" by fastforce
  show ?case unfolding x missing_by.simps
    by (rule yields_seq [OF p])
      (auto intro!: yields_bind [OF Cons.IH] yields_return yields_seq [OF yields_read_json [OF c]]
        yields_steps Cons.IH)
qed

section \<open>The operations are atomic\<close>

interpretation absent_op: atomic_operation
  "create_absent_attempt path ops conflict" "create_absent_spec path ops conflict" "{Record_unreadable}"
  for path ops conflict
proof
  fix hub :: "'w hub" and others history rv t u
  assume c: "hub_contract hub others history"
  show "yields {Record_unreadable} others history rv t
      (create_absent_attempt path ops conflict hub u rv) (create_absent_spec path ops conflict u t)"
    unfolding create_absent_attempt_def
    by (rule yields_seq_exists [OF c]) (auto simp: create_absent_spec_def intro!: yields_steps)
qed

lemma yields_adopt:
  assumes c: "hub_contract hub others history"
    and otherwise: "yields {Record_unreadable} others history rv t m s"
  shows "yields {Record_unreadable} others history rv t (adopt_or ms hub path e rv m)
    (adopt_spec ms path e t s)"
  unfolding adopt_or_def adopt_spec_def
  by (rule yields_seq_exists [OF c])
    (auto intro!: yields_seq [OF yields_read_json [OF c]] yields_steps otherwise)

interpretation plain_op: atomic_operation
  "ensure_plain_attempt ms c e" "plain_spec ms c e" "{Record_unreadable}" for ms c e
proof
  fix hub :: "'w hub" and others history rv t u
  assume "hub_contract hub others history"
  then show "yields {Record_unreadable} others history rv t
      (ensure_plain_attempt ms c e hub u rv) (plain_spec ms c e u t)"
    unfolding ensure_plain_attempt_def plain_spec_def Let_def
    by (intro yields_adopt yields_return)
qed

interpretation resolution_op: atomic_operation
  "ensure_resolution_attempt ms c e" "resolution_spec ms c e" "{Record_unreadable}" for ms c e
proof
  fix hub :: "'w hub" and others history rv t u
  assume "hub_contract hub others history"
  then show "yields {Record_unreadable} others history rv t
      (ensure_resolution_attempt ms c e hub u rv) (resolution_spec ms c e u t)"
    unfolding ensure_resolution_attempt_def resolution_spec_def Let_def
    by (intro yields_adopt yields_bind yields_events_at yields_result yields_return)
qed

interpretation cancellation_op: atomic_operation
  "ensure_cancellation_attempt ms c e" "cancellation_spec ms c e" "{Record_unreadable}" for ms c e
proof
  fix hub :: "'w hub" and others history rv t u
  assume c: "hub_contract hub others history"
  show "yields {Record_unreadable} others history rv t
      (ensure_cancellation_attempt ms c e hub u rv) (cancellation_spec ms c e u t)"
    unfolding ensure_cancellation_attempt_def cancellation_spec_def Let_def
    by (rule yields_seq_exists [OF c], rule yields_seq_exists [OF c])
      (auto intro!: yields_seq [OF yields_read_json [OF c]] yields_steps)
qed

interpretation guarded_op: atomic_operation
  "guarded_attempt ms c expected" "guarded_spec ms c expected" "{Record_unreadable}" for ms c expected
proof
  fix hub :: "'w hub" and others history rv t u
  assume c: "hub_contract hub others history"
  have "yields {Record_unreadable} others history rv t (missing_events ms hub expected rv)
      (missing_at ms t (entry_exists t) expected)"
    unfolding missing_events_def by (intro yields_missing_by yields_exists c)
  then show "yields {Record_unreadable} others history rv t
      (guarded_attempt ms c expected hub u rv) (guarded_spec ms c expected u t)"
    unfolding guarded_attempt_def
    by (rule yields_seq) (auto simp: guarded_spec_def intro!: yields_steps yields_seq_exists [OF c])
qed

interpretation reserve_op: atomic_operation
  "reserve_attempt_of ms c action e action_id" "reserve_spec ms c action e action_id" "{Record_unreadable}"
  for ms c action e action_id
proof
  fix hub :: "'w hub" and others history rv t u
  assume c: "hub_contract hub others history"
  show "yields {Record_unreadable} others history rv t
      (reserve_attempt_of ms c action e action_id hub u rv) (reserve_spec ms c action e action_id u t)"
    unfolding reserve_attempt_of_def reserve_spec_def Let_def
    by (rule yields_seq_exists [OF c])
      (auto intro!: yields_seq [OF yields_read_json [OF c]] yields_steps)
qed

text \<open>
  The exceptions of an operation that say nothing about the tree, besides those it raises
  for its arguments before the first call.
\<close>

definition store_excuses :: "store_error set" where
  "store_excuses = {Record_unreadable, Store_no_identity, Store_contended}"

lemma create_absent_atomic:
  assumes "hub_contract hub others history" and "create_absent hub path ops conflict w = (r, w')"
  shows "atomic_run others (create_absent_spec path ops conflict) {()} store_excuses
    (history w) r (history w')"
  using absent_op.loop_refines_atomic [OF assms(1) assms(2) [unfolded create_absent_def]]
  by (simp add: store_excuses_def max_commit_attempts_def insert_commute)

lemma ensure_event_atomic:
  assumes c: "hub_contract hub others history" and run: "ensure_event ms hub c e w = (r, w')"
    and scope: "validate_event_scope c e = Inr ()"
  shows "atomic_run others (ensure_spec ms c e) {()} store_excuses (history w) r (history w')"
proof -
  note ops = cancellation_op.loop_refines_atomic [OF c] resolution_op.loop_refines_atomic [OF c]
    plain_op.loop_refines_atomic [OF c]
  have ex: "{Store_no_identity, Store_contended} \<union> {Record_unreadable} = store_excuses"
    by (auto simp: store_excuses_def)
  have xs: "set eight_attempts = {()}" by (simp add: max_commit_attempts_def)
  from run scope show ?thesis
    using ops [where xs = eight_attempts and no_identity = Store_no_identity and
        contended = Store_contended, unfolded ex xs]
    by (auto simp: ensure_event_def ensure_spec_def io_bind_def io_result_def split: if_splits)
qed

lemma ensure_event_refused:
  "validate_event_scope c e = Inl x \<Longrightarrow> ensure_event ms hub c e w = (Inl (Raised x), w)"
  by (simp add: ensure_event_def io_bind_def io_result_def)

lemma guarded_atomic:
  assumes c: "hub_contract hub others history"
    and run: "ensure_events_unless_cancelled ms hub c events w = (r, w')"
    and ok: "guarded_event_payloads c events = Inr expected"
  shows "atomic_run others (guarded_spec ms c expected) {()} store_excuses (history w) r (history w')"
  using guarded_op.loop_refines_atomic [OF c, of Store_no_identity Store_contended ms c expected eight_attempts w r w'] run ok
  by (simp add: ensure_events_unless_cancelled_def io_bind_def io_result_def store_excuses_def
      max_commit_attempts_def)

lemma reserve_atomic:
  assumes c: "hub_contract hub others history" and run: "reserve_action ms hub c action e w = (r, w')"
    and ok: "ev_kind e = Action_event AS_reserved" "ev_subject_id e = c" "ev_payload e = Reserved_payload p"
  shows "atomic_run others (reserve_spec ms c action e (arp_action_id p)) {()} store_excuses
    (history w) r (history w')"
  using reserve_op.loop_refines_atomic [OF c, of Store_no_identity Store_contended ms c action e "arp_action_id p" eight_attempts w r w'] run ok
  by (simp add: reserve_action_def io_bind_def io_result_def store_excuses_def
      max_commit_attempts_def)

section \<open>Snapshots\<close>

text \<open>A snapshot is read from one revision of the history.\<close>

lemma load_snapshot_at:
  assumes c: "hub_contract hub others history" and run: "load_snapshot ms hub c w = (Inr s, w')"
  obtains m t where "grows others (history w) m" and "m \<noteq> []" and "last m = (sn_control_commit s, t)"
    and "grows others m (history w')" and "rbind (json_at t (campaign_lock_path c))
      (\<lambda>v. of_option Record_invalid (parse_lock ms v)) = Inr (sn_lock s)"
    and "events_at ms t c = Inr (sn_events s)"
    and "map_of t (campaign_request_path c) = Some (sn_request s)"
proof -
  obtain r1 w1 where i: "store_head hub w = (r1, w1)" by fastforce
  with run obtain h where h: "r1 = Inr h" by (cases r1) (auto simp: load_snapshot_def io_bind_def)
  obtain t where g1: "grows others (history w) (history w1)" and t: "last (history w1) = (h, t)"
    and ne: "history w1 \<noteq> []" and ht: "(h, t) \<in> set (history w1)"
    using repo_head_at [OF c i [unfolded h]] by blast
  let ?rest = "\<lambda>f. rbind (json_at t (campaign_lock_path c)) (\<lambda>v.
    rbind (of_option Record_invalid (parse_lock ms v)) (\<lambda>lock. rbind (events_at ms t c) (\<lambda>events.
    Inr \<lparr>sn_lock = lock, sn_events = events, sn_request = f, sn_control_commit = h\<rparr>)))"
  let ?s = "case map_of t (campaign_request_path c) of Some f \<Rightarrow> ?rest f
    | None \<Rightarrow> (case ?rest (Text_file []) of Inl e \<Rightarrow> Inl e | Inr _ \<Rightarrow> Inl Record_unreadable)"
  define body where "body = io_bind (read_json hub (campaign_lock_path c) h) (\<lambda>v.
     io_bind (io_result (lift_error Raised (of_option Record_invalid (parse_lock ms v)))) (\<lambda>lock.
     io_bind (load_events_at ms hub c h) (\<lambda>events.
     io_bind (read_bytes hub (campaign_request_path c) h) (\<lambda>request.
       io_return \<lparr>sn_lock = lock, sn_events = events, sn_request = request,
                  sn_control_commit = h\<rparr>))))"
  have "yields {Record_unreadable} others history h t body ?s"
    unfolding body_def
    by (rule yields_seq [OF yields_read_json [OF c]], rule yields_seq [OF yields_result],
        rule yields_seq [OF yields_events_at [OF c]], rule yields_read_bytes [OF c])
      (auto intro!: yields_return_eq split: option.splits)
  moreover have "body w1 = (Inr s, w')"
    using run i h by (simp add: load_snapshot_def body_def io_bind_def)
  ultimately have g2: "grows others (history w1) (history w')" and s: "?s = Inr s"
    using ht unfolding yields_def by (auto simp: lift_error_def split: sum.splits)
  from s show ?thesis
    by (intro that [of "history w1" t])
      (use g1 g2 t ne in \<open>auto simp: rbind_Inr_iff split: option.splits sum.splits\<close>)
qed

end
