(* ===== verification/Controller_Store.thy ===== *)
theory Controller_Store
  imports Campaign_Store
begin

text \<open>
  The controller records of \<open>src/src/harbor_hf/controller_status.py\<close>: the claim with which one
  physical Job owns the controller of a campaign, its published status, launch claims and
  receipts, provider capacity claims, attempt reservations and recovery decisions, and
  \<open>HubControllerStateStore\<close> with all its operations.

  A record class is a record type with its validators (\<open>..._ok\<close>); \<open>model_dump\<close> and
  \<open>model_validate\<close> of a class are the fields of a \<open>model\<close> argument. Timestamps are
  microseconds in UTC, so the validators that ask for UTC hold by representation; a float
  is kept as its decimal text, since the store only transports it. Every operation reads one
  record at the head and decides; the decision is a function of its own (\<open>..._decision\<close>).
\<close>

section \<open>Records\<close>

definition safe_id :: "string \<Rightarrow> bool" where
  "safe_id s = safe_name 127 s"

record controller_claim =
  kc_campaign_id :: string
  kc_job_id :: string
  kc_plan_digest :: string
  kc_attempt :: int
  kc_acquired_at :: int
  kc_heartbeat_at :: int
  kc_expires_at :: int

definition controller_claim_ok :: "controller_claim \<Rightarrow> bool" where
  "controller_claim_ok c \<longleftrightarrow>
     safe_id (kc_campaign_id c) \<and> safe_id (kc_job_id c) \<and> 1 \<le> kc_attempt c \<and>
     kc_acquired_at c \<le> kc_heartbeat_at c \<and> kc_heartbeat_at c < kc_expires_at c"

record capacity_evidence =
  ce_completed_trial_count :: int
  ce_elapsed_seconds :: int
  ce_observed_effective_concurrency :: int
  ce_p50_trial_seconds :: string
  ce_p95_trial_seconds :: string
  ce_maximum_trial_seconds :: string
  ce_remaining_trials :: int
  ce_projected_remaining_seconds :: int
  ce_available_seconds :: int
  ce_assumptions_valid :: bool

definition capacity_evidence_ok :: "(string \<Rightarrow> bool) \<Rightarrow> capacity_evidence \<Rightarrow> bool" where
  "capacity_evidence_ok nonnegative e \<longleftrightarrow>
     1 \<le> ce_completed_trial_count e \<and> 0 \<le> ce_elapsed_seconds e \<and>
     1 \<le> ce_observed_effective_concurrency e \<and> nonnegative (ce_p50_trial_seconds e) \<and>
     nonnegative (ce_p95_trial_seconds e) \<and> nonnegative (ce_maximum_trial_seconds e) \<and>
     0 \<le> ce_remaining_trials e \<and> 0 \<le> ce_projected_remaining_seconds e \<and>
     0 \<le> ce_available_seconds e"

record controller_counts =
  kn_logical_trials :: int
  kn_terminal_trials :: int
  kn_active_trials :: int
  kn_physical_executions :: int

definition controller_counts_ok :: "controller_counts \<Rightarrow> bool" where
  "controller_counts_ok n \<longleftrightarrow>
     0 \<le> kn_logical_trials n \<and> 0 \<le> kn_terminal_trials n \<and> 0 \<le> kn_active_trials n \<and>
     0 \<le> kn_physical_executions n \<and>
     \<not> kn_terminal_trials n + kn_active_trials n > kn_logical_trials n"

datatype controller_state =
    KS_starting | KS_running | KS_waiting_retry | KS_finalizing | KS_completed
  | KS_paused_capacity | KS_paused_policy | KS_failed_infrastructure | KS_failed_deterministic

record controller_status =
  ks_campaign_id :: string
  ks_plan_digest :: string
  ks_job_id :: string
  ks_attempt :: int
  ks_state :: controller_state
  ks_heartbeat_at :: int
  ks_lease_expires_at :: int
  ks_physical_deadline :: int
  ks_remaining_seconds :: int
  ks_projection :: controller_counts
  ks_current_action :: "string option"
  ks_current_wave :: "string option"
  ks_spend_reserved_microusd :: int
  ks_block_reason :: "string option"
  ks_event_revision :: "string option"
  ks_evidence_revision :: "string option"
  ks_capacity :: "capacity_evidence option"

definition opt_nonempty :: "string option \<Rightarrow> bool" where
  "opt_nonempty m \<longleftrightarrow> m \<noteq> Some []"

definition controller_status_ok :: "controller_status \<Rightarrow> bool" where
  "controller_status_ok s \<longleftrightarrow>
     safe_id (ks_campaign_id s) \<and> safe_id (ks_job_id s) \<and> 1 \<le> ks_attempt s \<and>
     0 \<le> ks_remaining_seconds s \<and> controller_counts_ok (ks_projection s) \<and>
     opt_nonempty (ks_current_action s) \<and> opt_nonempty (ks_current_wave s) \<and>
     0 \<le> ks_spend_reserved_microusd s \<and> opt_nonempty (ks_block_reason s) \<and>
     opt_nonempty (ks_event_revision s) \<and> opt_nonempty (ks_evidence_revision s) \<and>
     \<not> ks_heartbeat_at s \<ge> ks_lease_expires_at s"

record capacity_claim =
  pc_provider :: string
  pc_campaign_id :: string
  pc_plan_digest :: string
  pc_job_id :: string
  pc_attempt :: int
  pc_action_id :: string
  pc_acquired_at :: int

definition capacity_claim_ok :: "capacity_claim \<Rightarrow> bool" where
  "capacity_claim_ok c \<longleftrightarrow>
     pc_provider c \<noteq> [] \<and> safe_id (pc_campaign_id c) \<and> safe_id (pc_job_id c) \<and>
     1 \<le> pc_attempt c \<and> pc_action_id c \<noteq> []"

record launch_claim =
  lc_campaign_id :: string
  lc_plan_digest :: string
  lc_attempt :: int
  lc_launcher_id :: string
  lc_acquired_at :: int
  lc_expires_at :: int

definition launch_claim_ok :: "launch_claim \<Rightarrow> bool" where
  "launch_claim_ok c \<longleftrightarrow>
     safe_id (lc_campaign_id c) \<and> safe_id (lc_launcher_id c) \<and> 1 \<le> lc_attempt c \<and>
     \<not> lc_acquired_at c \<ge> lc_expires_at c"

record launch_receipt =
  lr_campaign_id :: string
  lr_plan_digest :: string
  lr_input_digest :: string
  lr_attempt :: int
  lr_job_id :: string

definition launch_receipt_ok :: "launch_receipt \<Rightarrow> bool" where
  "launch_receipt_ok r \<longleftrightarrow>
     safe_id (lr_campaign_id r) \<and> 1 \<le> lr_attempt r \<and>
     length (lr_job_id r) = 24 \<and> list_all is_lower_hex (lr_job_id r)"

record started_receipt =
  sr_campaign_id :: string
  sr_plan_digest :: string
  sr_input_digest :: string
  sr_worker_revision :: string
  sr_job_id :: string
  sr_attempt :: int
  sr_started_at :: int

definition started_receipt_ok :: "started_receipt \<Rightarrow> bool" where
  "started_receipt_ok r \<longleftrightarrow> 1 \<le> sr_attempt r"

record ended_receipt =
  er_campaign_id :: string
  er_plan_digest :: string
  er_job_id :: string
  er_attempt :: int
  er_state :: controller_state
  er_ended_at :: int
  er_message :: "string option"

definition ended_receipt_ok :: "ended_receipt \<Rightarrow> bool" where
  "ended_receipt_ok r \<longleftrightarrow> 1 \<le> er_attempt r \<and> opt_nonempty (er_message r)"

record attempt_reservation =
  at_campaign_id :: string
  at_plan_digest :: string
  at_input_digest :: string
  at_input_uri :: string
  at_output_uri :: string
  at_worker_revision :: string
  at_attempt :: int
  at_reserved_at :: int

definition bucket_uri_ok :: "string \<Rightarrow> bool" where
  "bucket_uri_ok s \<longleftrightarrow> starts_with s ''hf://buckets/'' \<and> remove_prefix s ''hf://buckets/'' \<noteq> [] \<and>
     list_all (\<lambda>c. \<not> py_space c) (remove_prefix s ''hf://buckets/'')"

definition attempt_reservation_ok :: "attempt_reservation \<Rightarrow> bool" where
  "attempt_reservation_ok r \<longleftrightarrow>
     bucket_uri_ok (at_input_uri r) \<and> bucket_uri_ok (at_output_uri r) \<and>
     length (at_worker_revision r) = 40 \<and> list_all is_lower_hex (at_worker_revision r) \<and>
     1 \<le> at_attempt r"

datatype recovery_category = RD_lost | RD_transient | RD_quota | RD_rate_limit | RD_ambiguous

record recovery_decision =
  rd_campaign_id :: string
  rd_plan_digest :: string
  rd_prior_job_id :: string
  rd_prior_attempt :: int
  rd_replacement_attempt :: int
  rd_checkpoint_revision :: string
  rd_category :: recovery_category
  rd_decided_at :: int

definition recovery_decision_ok :: "recovery_decision \<Rightarrow> bool" where
  "recovery_decision_ok d \<longleftrightarrow>
     1 \<le> rd_prior_attempt d \<and> 2 \<le> rd_replacement_attempt d \<and>
     rd_replacement_attempt d = rd_prior_attempt d + 1"

section \<open>Errors\<close>

text \<open>\<open>Status_contended\<close> stands for each message that says the repository remained contended.\<close>

datatype status_error =
    Owned_by_another_job
  | Attempt_not_sequential
  | Status_contended
  | Heartbeat_identity_invalid
  | Ownership_unverified
  | Status_moved_backwards
  | Launch_in_progress
  | Capacity_occupied
  | Capacity_not_recoverable
  | No_predecessor
  | Immutable_conflict
  | Changed_concurrently
  | Status_no_identity
  | Status_unreadable
  | Status_not_object
  | Status_invalid
  | Unsafe_identity
  | Attempt_not_positive
  | Recovery_attempt_too_small
  | Provider_not_canonical

section \<open>Paths\<close>

definition require_safe_id :: "string \<Rightarrow> status_error + unit" where
  "require_safe_id s = require (safe_id s) Unsafe_identity"

definition controller_claim_path :: "string \<Rightarrow> status_error + string" where
  "controller_claim_path c =
     rbind (require_safe_id c) (\<lambda>_. Inr (''claims/campaign-controllers/'' @ c @ ''.json''))"

definition controller_status_path :: "string \<Rightarrow> status_error + string" where
  "controller_status_path c =
     rbind (require_safe_id c) (\<lambda>_. Inr (''campaigns/'' @ c @ ''/controller-status.json''))"

definition controller_launch_claim_path :: "string \<Rightarrow> int \<Rightarrow> status_error + string" where
  "controller_launch_claim_path c n =
     rbind (require_safe_id c) (\<lambda>_. rbind (require (\<not> n < 1) Attempt_not_positive) (\<lambda>_.
       Inr (''claims/controller-launches/'' @ c @ ''/'' @ show_int n @ ''.json'')))"

definition controller_launch_receipt_path :: "string \<Rightarrow> int \<Rightarrow> status_error + string" where
  "controller_launch_receipt_path c n =
     rbind (require_safe_id c) (\<lambda>_. rbind (require (\<not> n < 1) Attempt_not_positive) (\<lambda>_.
       Inr (''campaigns/'' @ c @ ''/controller-launches/'' @ show_int n @ ''.json'')))"

definition provider_capacity_claim_path :: "hash \<Rightarrow> string \<Rightarrow> status_error + string" where
  "provider_capacity_claim_path h provider =
     (if provider = [] \<or> provider \<noteq> py_strip provider then Inl Provider_not_canonical
      else Inr (''claims/provider-capacity/'' @ hexdigest h provider @ ''.json''))"

definition controller_receipt_path :: "string \<Rightarrow> string \<Rightarrow> string \<Rightarrow> status_error + string" where
  "controller_receipt_path c job name =
     rbind (require_safe_id c) (\<lambda>_. rbind (require_safe_id job) (\<lambda>_.
       Inr (''campaigns/'' @ c @ ''/controllers/'' @ job @ name)))"

definition controller_started_path :: "started_receipt \<Rightarrow> status_error + string" where
  "controller_started_path r = controller_receipt_path (sr_campaign_id r) (sr_job_id r) ''/started.json''"

definition controller_ended_path :: "ended_receipt \<Rightarrow> status_error + string" where
  "controller_ended_path r = controller_receipt_path (er_campaign_id r) (er_job_id r) ''/ended.json''"

definition controller_attempt_path :: "string \<Rightarrow> int \<Rightarrow> status_error + string" where
  "controller_attempt_path c n =
     rbind (require_safe_id c) (\<lambda>_. rbind (require (\<not> n < 1) Attempt_not_positive) (\<lambda>_.
       Inr (''campaigns/'' @ c @ ''/controller-attempts/'' @ show_int n @ ''.json'')))"

definition controller_recovery_path :: "string \<Rightarrow> int \<Rightarrow> status_error + string" where
  "controller_recovery_path c n =
     rbind (require_safe_id c) (\<lambda>_. rbind (require (\<not> n < 2) Recovery_attempt_too_small) (\<lambda>_.
       Inr (''campaigns/'' @ c @ ''/controller-recoveries/'' @ show_int n @ ''.json'')))"

section \<open>Reading a record\<close>

record 'm model =
  model_dump :: "'m \<Rightarrow> json"
  model_validate :: "json \<Rightarrow> 'm option"

fun object_of_file :: "hub_file \<Rightarrow> status_error + (string, json) dict" where
  "object_of_file (Json_file (JObj kvs)) = Inr kvs"
| "object_of_file (Json_file _) = Inl Status_not_object"
| "object_of_file (Text_file _) = Inl Status_unreadable"

definition read_json_optional ::
  "'w hub \<Rightarrow> string \<Rightarrow> string \<Rightarrow> ('w, status_error failure, (string, json) dict option) io" where
  "read_json_optional hub path revision =
     io_bind (exists_at hub path revision) (\<lambda>present.
       if \<not> present then io_return None
       else io_bind (call (api_download hub path revision)) (\<lambda>f.
         case f of
           None \<Rightarrow> io_raise (Raised Status_unreadable)
         | Some file \<Rightarrow> io_result (lift_error Raised
             (rbind (object_of_file file) (\<lambda>kvs. Inr (Some kvs))))))"

definition validated :: "'m model \<Rightarrow> (string, json) dict option \<Rightarrow> status_error + 'm option" where
  "validated m v =
     (case v of
        None \<Rightarrow> Inr None
      | Some kvs \<Rightarrow> rbind (of_option Status_invalid (model_validate m (JObj kvs))) (\<lambda>x. Inr (Some x)))"

definition read_optional ::
  "'m model \<Rightarrow> 'w hub \<Rightarrow> string \<Rightarrow> string \<Rightarrow> ('w, status_error failure, 'm option) io" where
  "read_optional m hub path revision =
     io_bind (read_json_optional hub path revision) (\<lambda>v. io_result (lift_error Raised (validated m v)))"

text \<open>The readers: the record at the head.\<close>

definition read_record ::
  "'m model \<Rightarrow> 'w hub \<Rightarrow> status_error + string \<Rightarrow> ('w, status_error failure, 'm option) io" where
  "read_record m hub path =
     io_bind (repo_head hub Status_no_identity) (\<lambda>head.
     io_bind (io_result (lift_error Raised path)) (\<lambda>p. read_optional m hub p head))"

section \<open>Changing a record\<close>

text \<open>
  The loop of every operation: the path, then attempts that read the record at the head and
  decide. \<open>update_record\<close> decides on the validated record, \<open>update_json\<close> on the raw object.
\<close>

definition record_attempt ::
  "'m model \<Rightarrow> string \<Rightarrow> ('m option \<Rightarrow> status_error + unit verdict) \<Rightarrow>
   'w hub \<Rightarrow> unit \<Rightarrow> string \<Rightarrow> ('w, status_error failure, unit verdict) io" where
  "record_attempt m path decide hub u head =
     io_bind (read_optional m hub path head) (\<lambda>observed.
       io_result (lift_error Raised (decide observed)))"

definition json_attempt ::
  "string \<Rightarrow> ((string, json) dict option \<Rightarrow> status_error + unit verdict) \<Rightarrow>
   'w hub \<Rightarrow> unit \<Rightarrow> string \<Rightarrow> ('w, status_error failure, unit verdict) io" where
  "json_attempt path decide hub u head =
     io_bind (read_json_optional hub path head) (\<lambda>observed.
       io_result (lift_error Raised (decide observed)))"

definition update_record ::
  "'m model \<Rightarrow> 'w hub \<Rightarrow> status_error + string \<Rightarrow>
   (string \<Rightarrow> 'm option \<Rightarrow> status_error + unit verdict) \<Rightarrow> ('w, status_error failure, unit) io" where
  "update_record m hub path decide =
     io_bind (io_result (lift_error Raised path)) (\<lambda>p.
       commit_loop hub Status_no_identity Status_contended (record_attempt m p (decide p) hub)
         eight_attempts)"

definition update_json ::
  "'w hub \<Rightarrow> status_error + string \<Rightarrow>
   (string \<Rightarrow> (string, json) dict option \<Rightarrow> status_error + unit verdict) \<Rightarrow>
   ('w, status_error failure, unit) io" where
  "update_json hub path decide =
     io_bind (io_result (lift_error Raised path)) (\<lambda>p.
       commit_loop hub Status_no_identity Status_contended (json_attempt p (decide p) hub)
         eight_attempts)"

definition add_record :: "'m model \<Rightarrow> string \<Rightarrow> 'm \<Rightarrow> commit_op" where
  "add_record m path x = Add_file path (Json_file (model_dump m x))"

subsection \<open>The controller claim\<close>

definition acquire_decision ::
  "controller_claim model \<Rightarrow> controller_claim \<Rightarrow> bool \<Rightarrow> string \<Rightarrow> controller_claim option \<Rightarrow>
   status_error + unit verdict" where
  "acquire_decision m claim prior_job_terminal path observed =
     (let write = Inr (Commit [add_record m path claim] ()) in
      case observed of
        None \<Rightarrow> write
      | Some o1 \<Rightarrow>
          if o1 = claim then Inr (Done ())
          else let expired = kc_expires_at o1 \<le> kc_acquired_at claim in
            if \<not> expired \<or> \<not> prior_job_terminal then Inl Owned_by_another_job
            else if kc_attempt claim \<noteq> kc_attempt o1 + 1 then Inl Attempt_not_sequential
            else write)"

definition acquire_controller ::
  "controller_claim model \<Rightarrow> 'w hub \<Rightarrow> controller_claim \<Rightarrow> bool \<Rightarrow> ('w, status_error failure, unit) io" where
  "acquire_controller m hub claim prior_job_terminal =
     update_record m hub (controller_claim_path (kc_campaign_id claim))
       (acquire_decision m claim prior_job_terminal)"

definition replace_decision ::
  "'m model \<Rightarrow> 'm \<Rightarrow> 'm \<Rightarrow> string \<Rightarrow> (string, json) dict option \<Rightarrow> status_error + unit verdict" where
  "replace_decision m previous replacement path observed =
     (if (case observed of None \<Rightarrow> True | Some kvs \<Rightarrow> \<not> json_same (JObj kvs) (model_dump m previous))
      then Inl Changed_concurrently
      else Inr (Commit [add_record m path replacement] ()))"

definition heartbeat_identity_ok :: "controller_claim \<Rightarrow> controller_claim \<Rightarrow> bool" where
  "heartbeat_identity_ok previous renewed \<longleftrightarrow>
     \<not> ((kc_campaign_id previous, kc_job_id previous, kc_plan_digest previous,
         kc_attempt previous, kc_acquired_at previous) \<noteq>
        (kc_campaign_id renewed, kc_job_id renewed, kc_plan_digest renewed,
         kc_attempt renewed, kc_acquired_at renewed) \<or>
        kc_heartbeat_at renewed \<le> kc_heartbeat_at previous)"

definition heartbeat ::
  "controller_claim model \<Rightarrow> 'w hub \<Rightarrow> controller_claim \<Rightarrow> controller_claim \<Rightarrow>
   ('w, status_error failure, unit) io" where
  "heartbeat m hub previous renewed =
     (if \<not> heartbeat_identity_ok previous renewed then io_raise (Raised Heartbeat_identity_invalid)
      else update_json hub (controller_claim_path (kc_campaign_id previous))
             (replace_decision m previous renewed))"

text \<open>Releasing: an absent record is released, another owner's is not touched.\<close>

definition release_decision :: "'m \<Rightarrow> string \<Rightarrow> 'm option \<Rightarrow> status_error + unit verdict" where
  "release_decision claim path observed =
     (case observed of
        None \<Rightarrow> Inr (Done ())
      | Some o1 \<Rightarrow>
          if o1 \<noteq> claim then Inl Ownership_unverified
          else Inr (Commit [Delete_file path] ()))"

definition release_controller ::
  "controller_claim model \<Rightarrow> 'w hub \<Rightarrow> controller_claim \<Rightarrow> ('w, status_error failure, unit) io" where
  "release_controller m hub claim =
     update_record m hub (controller_claim_path (kc_campaign_id claim)) (release_decision claim)"

definition read_claim ::
  "controller_claim model \<Rightarrow> 'w hub \<Rightarrow> string \<Rightarrow> ('w, status_error failure, controller_claim option) io" where
  "read_claim m hub c = read_record m hub (controller_claim_path c)"

subsection \<open>The published status\<close>

definition read_status ::
  "controller_status model \<Rightarrow> 'w hub \<Rightarrow> string \<Rightarrow> ('w, status_error failure, controller_status option) io" where
  "read_status m hub c = read_record m hub (controller_status_path c)"

definition status_moves_backwards :: "controller_status \<Rightarrow> controller_status \<Rightarrow> bool" where
  "status_moves_backwards observed status \<longleftrightarrow>
     ks_campaign_id observed \<noteq> ks_campaign_id status \<or>
     ks_plan_digest observed \<noteq> ks_plan_digest status \<or>
     ks_attempt status < ks_attempt observed \<or>
     (ks_attempt status = ks_attempt observed \<and> ks_job_id observed \<noteq> ks_job_id status) \<or>
     ks_heartbeat_at status < ks_heartbeat_at observed"

definition status_decision ::
  "controller_status model \<Rightarrow> controller_status \<Rightarrow> string \<Rightarrow> controller_status option \<Rightarrow>
   status_error + unit verdict" where
  "status_decision m status path observed =
     (let write = Inr (Commit [add_record m path status] ()) in
      case observed of
        None \<Rightarrow> write
      | Some o1 \<Rightarrow>
          if o1 = status then Inr (Done ())
          else if status_moves_backwards o1 status then Inl Status_moved_backwards
          else write)"

definition write_status ::
  "controller_status model \<Rightarrow> 'w hub \<Rightarrow> controller_status \<Rightarrow> ('w, status_error failure, unit) io" where
  "write_status m hub status =
     update_record m hub (controller_status_path (ks_campaign_id status)) (status_decision m status)"

subsection \<open>Launch claims and provider capacity\<close>

definition launch_decision ::
  "launch_claim model \<Rightarrow> launch_claim \<Rightarrow> string \<Rightarrow> launch_claim option \<Rightarrow> status_error + unit verdict" where
  "launch_decision m claim path observed =
     (let write = Inr (Commit [add_record m path claim] ()) in
      case observed of
        None \<Rightarrow> write
      | Some o1 \<Rightarrow>
          if o1 = claim then Inr (Done ())
          else if lc_expires_at o1 > lc_acquired_at claim then Inl Launch_in_progress
          else write)"

definition acquire_launch ::
  "launch_claim model \<Rightarrow> 'w hub \<Rightarrow> launch_claim \<Rightarrow> ('w, status_error failure, unit) io" where
  "acquire_launch m hub claim =
     update_record m hub (controller_launch_claim_path (lc_campaign_id claim) (lc_attempt claim))
       (launch_decision m claim)"

definition release_launch ::
  "launch_claim model \<Rightarrow> 'w hub \<Rightarrow> launch_claim \<Rightarrow> ('w, status_error failure, unit) io" where
  "release_launch m hub claim =
     update_record m hub (controller_launch_claim_path (lc_campaign_id claim) (lc_attempt claim))
       (release_decision claim)"

definition read_launch_claim ::
  "launch_claim model \<Rightarrow> 'w hub \<Rightarrow> string \<Rightarrow> int \<Rightarrow> ('w, status_error failure, launch_claim option) io" where
  "read_launch_claim m hub c n = read_record m hub (controller_launch_claim_path c n)"

definition read_launch ::
  "launch_receipt model \<Rightarrow> 'w hub \<Rightarrow> string \<Rightarrow> int \<Rightarrow> ('w, status_error failure, launch_receipt option) io" where
  "read_launch m hub c n = read_record m hub (controller_launch_receipt_path c n)"

definition capacity_decision ::
  "capacity_claim model \<Rightarrow> capacity_claim \<Rightarrow> string \<Rightarrow> capacity_claim option \<Rightarrow>
   status_error + unit verdict" where
  "capacity_decision m claim path observed =
     (case observed of
        None \<Rightarrow> Inr (Commit [add_record m path claim] ())
      | Some o1 \<Rightarrow> if o1 = claim then Inr (Done ()) else Inl Capacity_occupied)"

definition acquire_provider_capacity ::
  "hash \<Rightarrow> capacity_claim model \<Rightarrow> 'w hub \<Rightarrow> capacity_claim \<Rightarrow> ('w, status_error failure, unit) io" where
  "acquire_provider_capacity h m hub claim =
     update_record m hub (provider_capacity_claim_path h (pc_provider claim)) (capacity_decision m claim)"

definition release_provider_capacity ::
  "hash \<Rightarrow> capacity_claim model \<Rightarrow> 'w hub \<Rightarrow> capacity_claim \<Rightarrow> ('w, status_error failure, unit) io" where
  "release_provider_capacity h m hub claim =
     update_record m hub (provider_capacity_claim_path h (pc_provider claim)) (release_decision claim)"

definition recover_decision ::
  "controller_claim \<Rightarrow> bool \<Rightarrow> string \<Rightarrow> capacity_claim option \<Rightarrow> status_error + unit verdict" where
  "recover_decision replacement prior_job_terminal path observed =
     (case observed of
        None \<Rightarrow> Inr (Done ())
      | Some o1 \<Rightarrow>
          if pc_job_id o1 = kc_job_id replacement then Inr (Done ())
          else if pc_campaign_id o1 \<noteq> kc_campaign_id replacement then Inr (Done ())
          else if \<not> prior_job_terminal \<or> pc_attempt o1 \<ge> kc_attempt replacement
          then Inl Capacity_not_recoverable
          else Inr (Commit [Delete_file path] ()))"

definition recover_provider_capacity ::
  "hash \<Rightarrow> capacity_claim model \<Rightarrow> 'w hub \<Rightarrow> string \<Rightarrow> controller_claim \<Rightarrow> bool \<Rightarrow>
   ('w, status_error failure, unit) io" where
  "recover_provider_capacity h m hub provider replacement prior_job_terminal =
     update_record m hub (provider_capacity_claim_path h provider)
       (recover_decision replacement prior_job_terminal)"

definition read_provider_capacity ::
  "hash \<Rightarrow> capacity_claim model \<Rightarrow> 'w hub \<Rightarrow> string \<Rightarrow> ('w, status_error failure, capacity_claim option) io" where
  "read_provider_capacity h m hub provider = read_record m hub (provider_capacity_claim_path h provider)"

subsection \<open>Immutable records\<close>

definition immutable_decision ::
  "'m model \<Rightarrow> 'm \<Rightarrow> string \<Rightarrow> (string, json) dict option \<Rightarrow> status_error + unit verdict" where
  "immutable_decision m x path observed =
     (case observed of
        None \<Rightarrow> Inr (Commit [add_record m path x] ())
      | Some kvs \<Rightarrow>
          if \<not> json_same (JObj kvs) (model_dump m x) then Inl Immutable_conflict
          else Inr (Done ()))"

definition write_immutable ::
  "'m model \<Rightarrow> 'w hub \<Rightarrow> status_error + string \<Rightarrow> 'm \<Rightarrow> ('w, status_error failure, unit) io" where
  "write_immutable m hub path x = update_json hub path (immutable_decision m x)"

definition write_launch ::
  "launch_receipt model \<Rightarrow> 'w hub \<Rightarrow> launch_receipt \<Rightarrow> ('w, status_error failure, unit) io" where
  "write_launch m hub r =
     write_immutable m hub (controller_launch_receipt_path (lr_campaign_id r) (lr_attempt r)) r"

definition write_started ::
  "started_receipt model \<Rightarrow> 'w hub \<Rightarrow> started_receipt \<Rightarrow> ('w, status_error failure, unit) io" where
  "write_started m hub r = write_immutable m hub (controller_started_path r) r"

definition write_ended ::
  "ended_receipt model \<Rightarrow> 'w hub \<Rightarrow> ended_receipt \<Rightarrow> ('w, status_error failure, unit) io" where
  "write_ended m hub r = write_immutable m hub (controller_ended_path r) r"

definition read_attempt ::
  "attempt_reservation model \<Rightarrow> 'w hub \<Rightarrow> string \<Rightarrow> int \<Rightarrow>
   ('w, status_error failure, attempt_reservation option) io" where
  "read_attempt m hub c n =
     (if n < 1 then io_return None else read_record m hub (controller_attempt_path c n))"

definition reserve_attempt ::
  "attempt_reservation model \<Rightarrow> 'w hub \<Rightarrow> attempt_reservation \<Rightarrow> ('w, status_error failure, unit) io" where
  "reserve_attempt m hub r =
     io_bind (read_attempt m hub (at_campaign_id r) (at_attempt r - 1)) (\<lambda>previous.
       if at_attempt r > 1 \<and> previous = None then io_raise (Raised No_predecessor)
       else write_immutable m hub (controller_attempt_path (at_campaign_id r) (at_attempt r)) r)"

definition write_recovery ::
  "recovery_decision model \<Rightarrow> 'w hub \<Rightarrow> recovery_decision \<Rightarrow> ('w, status_error failure, unit) io" where
  "write_recovery m hub d =
     write_immutable m hub (controller_recovery_path (rd_campaign_id d) (rd_replacement_attempt d)) d"

definition read_recovery ::
  "recovery_decision model \<Rightarrow> 'w hub \<Rightarrow> string \<Rightarrow> int \<Rightarrow>
   ('w, status_error failure, recovery_decision option) io" where
  "read_recovery m hub c n = read_record m hub (controller_recovery_path c n)"

section \<open>The operations are atomic\<close>

definition object_at :: "tree \<Rightarrow> string \<Rightarrow> status_error + (string, json) dict option" where
  "object_at t path =
     (if \<not> entry_exists t path then Inr None
      else case map_of t path of
        None \<Rightarrow> Inl Status_unreadable
      | Some f \<Rightarrow> rbind (object_of_file f) (\<lambda>kvs. Inr (Some kvs)))"

definition record_at :: "'m model \<Rightarrow> tree \<Rightarrow> string \<Rightarrow> status_error + 'm option" where
  "record_at m t path = rbind (object_at t path) (validated m)"

definition record_spec ::
  "'m model \<Rightarrow> string \<Rightarrow> ('m option \<Rightarrow> status_error + unit verdict) \<Rightarrow> unit \<Rightarrow> tree \<Rightarrow>
   status_error + unit verdict" where
  "record_spec m path decide u t = rbind (record_at m t path) decide"

definition json_spec ::
  "string \<Rightarrow> ((string, json) dict option \<Rightarrow> status_error + unit verdict) \<Rightarrow> unit \<Rightarrow> tree \<Rightarrow>
   status_error + unit verdict" where
  "json_spec path decide u t = rbind (object_at t path) decide"

lemma yields_read_json_optional:
  assumes c: "hub_contract hub others history"
  shows "yields {Status_unreadable} others history rv t (read_json_optional hub path rv) (object_at t path)"
  unfolding read_json_optional_def
  by (rule yields_seq_exists [OF c], rule yields_if_eq)
    (auto simp: object_at_def intro!: yields_return_eq yields_raise_eq yields_download [OF c] yields_result_eq)

lemma yields_read_optional:
  assumes c: "hub_contract hub others history"
  shows "yields {Status_unreadable} others history rv t (read_optional m hub path rv) (record_at m t path)"
  unfolding read_optional_def record_at_def
  by (intro yields_bind yields_read_json_optional c yields_result)

interpretation record_op: atomic_operation
  "record_attempt m path decide" "record_spec m path decide" "{Status_unreadable}" for m path decide
proof
  fix hub :: "'w hub" and others history rv t u
  assume c: "hub_contract hub others history"
  show "yields {Status_unreadable} others history rv t
      (record_attempt m path decide hub u rv) (record_spec m path decide u t)"
    unfolding record_attempt_def record_spec_def
    by (intro yields_bind yields_read_optional c yields_result)
qed

interpretation json_op: atomic_operation
  "json_attempt path decide" "json_spec path decide" "{Status_unreadable}" for path decide
proof
  fix hub :: "'w hub" and others history rv t u
  assume c: "hub_contract hub others history"
  show "yields {Status_unreadable} others history rv t
      (json_attempt path decide hub u rv) (json_spec path decide u t)"
    unfolding json_attempt_def json_spec_def
    by (intro yields_bind yields_read_json_optional c yields_result)
qed

definition status_excuses :: "status_error set" where
  "status_excuses = {Status_unreadable, Status_no_identity, Status_contended}"

lemma update_record_atomic:
  assumes c: "hub_contract hub others history"
    and run: "update_record m hub (Inr path) decide w = (r, w')"
  shows "atomic_run others (record_spec m path (decide path)) {()} status_excuses
    (history w) r (history w')"
  using record_op.loop_refines_atomic [OF c, of Status_no_identity Status_contended m path "decide path"
      eight_attempts w r w'] run
  by (simp add: update_record_def io_bind_def io_result_def status_excuses_def max_commit_attempts_def)

lemma update_json_atomic:
  assumes c: "hub_contract hub others history"
    and run: "update_json hub (Inr path) decide w = (r, w')"
  shows "atomic_run others (json_spec path (decide path)) {()} status_excuses
    (history w) r (history w')"
  using json_op.loop_refines_atomic [OF c, of Status_no_identity Status_contended path "decide path"
      eight_attempts w r w'] run
  by (simp add: update_json_def io_bind_def io_result_def status_excuses_def max_commit_attempts_def)

lemma update_record_refused:
  "update_record m hub (Inl e) decide w = (Inl (Raised e), w)"
  by (simp add: update_record_def io_bind_def io_result_def)

lemma update_json_refused:
  "update_json hub (Inl e) decide w = (Inl (Raised e), w)"
  by (simp add: update_json_def io_bind_def io_result_def)

text \<open>The record that an added file holds.\<close>

lemma record_at_add:
  assumes "model_dump m x = JObj kvs" and "model_validate m (model_dump m x) = Some x"
    and "map_of t p = Some (Json_file (model_dump m x))"
  shows "record_at m t p = Inr (Some x)"
  using assms file_is_entry [OF assms(3)] by (simp add: record_at_def object_at_def validated_def)

lemma record_at_cong: "map_of t p = map_of t' p \<Longrightarrow> entry_exists t p = entry_exists t' p \<Longrightarrow>
  record_at m t p = record_at m t' p"
  by (simp add: record_at_def object_at_def)

lemma record_at_file:
  "record_at m t p = Inr (Some x) \<Longrightarrow> \<exists>kvs. map_of t p = Some (Json_file (JObj kvs)) \<and>
    model_validate m (JObj kvs) = Some x"
  by (auto simp: record_at_def object_at_def validated_def result_simps split: if_splits option.splits
      elim!: object_of_file.elims)

lemma record_at_keep:
  assumes "record_at m t p = Inr (Some x)" and "map_of t' p = map_of t p"
  shows "record_at m t' p = Inr (Some x)"
  using record_at_file [OF assms(1)] assms(2) file_is_entry [of t' p]
  by (auto simp: record_at_def object_at_def validated_def)

end
