(* ===== verification/Claim_Store.thy ===== *)
theory Claim_Store
  imports Hub_Repository
begin

text \<open>
  Distributed claims, \<open>src/src/harbor_hf/coordination.py\<close>: the paths of the claims of
  endpoints, runs, actions, bucket evidence and wave workers, and \<open>HubClaimStore\<close> with its
  \<open>acquire\<close> and \<open>release\<close>.

  The text of an expiry is read by \<open>datetime.fromisoformat\<close>, the argument \<open>fromiso\<close>: \<open>None\<close> for a
  text that is not a timestamp, and whether a timestamp has a zone. The injected clock is
  the sequence of its readings, one per attempt.
\<close>

section \<open>Paths\<close>

definition coordination_repository :: "string \<Rightarrow> string" where
  "coordination_repository namespace = namespace @ ''/harbor-hf-coordination''"

definition endpoint_claim_path :: "hash \<Rightarrow> string \<Rightarrow> string \<Rightarrow> string" where
  "endpoint_claim_path h namespace name =
     ''endpoint-leases/'' @ take 32 (hexdigest h (namespace @ ''/'' @ name)) @ ''.json''"

definition bucket_id :: "string \<Rightarrow> string" where
  "bucket_id bucket = remove_prefix (remove_prefix bucket ''hf://buckets/'') ''buckets/''"

definition run_claim_path :: "hash \<Rightarrow> string \<Rightarrow> string \<Rightarrow> string" where
  "run_claim_path h artifact_bucket artifact_prefix =
     ''run-reservations/'' @ hexdigest h (bucket_id artifact_bucket @ ''/'' @ artifact_prefix) @ ''.json''"

definition action_claim_path :: "hash \<Rightarrow> string \<Rightarrow> string \<Rightarrow> string" where
  "action_claim_path h campaign_id action_id =
     ''action-leases/'' @ hexdigest h (campaign_id @ ''/'' @ action_id) @ ''.json''"

definition bucket_evidence_claim_path :: "hash \<Rightarrow> string \<Rightarrow> string \<Rightarrow> string" where
  "bucket_evidence_claim_path h bucket path =
     ''bucket-evidence-leases/'' @ hexdigest h (bucket_id bucket @ ''/'' @ path) @ ''.json''"

definition wave_worker_claim_path :: "hash \<Rightarrow> string \<Rightarrow> string \<Rightarrow> string" where
  "wave_worker_claim_path h campaign_id wave_id =
     ''wave-worker-leases/'' @ hexdigest h (campaign_id @ ''/'' @ wave_id) @ ''.json''"

section \<open>Owners\<close>

datatype claim_error =
    Claim_held
  | Claim_contended
  | Claim_not_owned
  | Claim_no_identity
  | Claim_missing
  | Claim_unreadable
  | Claim_invalid

type_synonym claim_owner = "(string, string) dict"

definition owner_json :: "claim_owner \<Rightarrow> json" where
  "owner_json owner = JObj (map (\<lambda>(k, v). (k, JStr v)) owner)"

definition owner_payload :: "claim_owner \<Rightarrow> hub_file" where
  "owner_payload owner = Json_file (owner_json owner)"

datatype iso_time = Naive_time int | Aware_time int

definition claim_expired :: "(string \<Rightarrow> iso_time option) \<Rightarrow> (string, json) dict \<Rightarrow> int \<Rightarrow> bool" where
  "claim_expired fromiso owner now =
     (case map_of owner ''expires_at'' of
        Some (JStr v) \<Rightarrow>
          (case fromiso v of
             Some (Aware_time expires_at) \<Rightarrow> expires_at \<le> now
           | _ \<Rightarrow> False)
      | _ \<Rightarrow> False)"

text \<open>The decoded owner of a claim file.\<close>

fun owner_of_file :: "hub_file \<Rightarrow> claim_error + (string, json) dict" where
  "owner_of_file (Json_file (JObj kvs)) = Inr kvs"
| "owner_of_file (Json_file _) = Inl Claim_invalid"
| "owner_of_file (Text_file _) = Inl Claim_unreadable"

definition read_owner ::
  "'w hub \<Rightarrow> string \<Rightarrow> string \<Rightarrow> ('w, claim_error failure, (string, json) dict) io" where
  "read_owner hub path revision =
     io_bind (exists_at hub path revision) (\<lambda>present.
       if \<not> present then io_raise (Raised Claim_missing)
       else io_bind (call (api_download hub path revision)) (\<lambda>f.
         case f of
           None \<Rightarrow> io_raise (Raised Claim_unreadable)
         | Some file \<Rightarrow> io_result (lift_error Raised (owner_of_file file))))"

section \<open>Acquiring and releasing\<close>

definition acquire_attempt ::
  "(string \<Rightarrow> iso_time option) \<Rightarrow> string \<Rightarrow> claim_owner \<Rightarrow>
   'w hub \<Rightarrow> int \<Rightarrow> string \<Rightarrow> ('w, claim_error failure, unit verdict) io" where
  "acquire_attempt fromiso path owner hub now head =
     io_bind (exists_at hub path head) (\<lambda>present.
       if present then
         io_bind (read_owner hub path head) (\<lambda>observed.
           if \<not> claim_expired fromiso observed now then io_raise (Raised Claim_held)
           else io_return (Commit [Add_file path (owner_payload owner)] ()))
       else io_return (Commit [Add_file path (owner_payload owner)] ()))"

definition acquire ::
  "'w hub \<Rightarrow> (string \<Rightarrow> iso_time option) \<Rightarrow> (nat \<Rightarrow> int) \<Rightarrow> string \<Rightarrow> claim_owner \<Rightarrow>
   ('w, claim_error failure, unit) io" where
  "acquire hub fromiso clock path owner =
     commit_loop hub Claim_no_identity Claim_contended (acquire_attempt fromiso path owner hub)
       (map clock [0..<max_commit_attempts])"

definition release_attempt ::
  "string \<Rightarrow> claim_owner \<Rightarrow> 'w hub \<Rightarrow> unit \<Rightarrow> string \<Rightarrow> ('w, claim_error failure, unit verdict) io" where
  "release_attempt path owner hub u head =
     io_bind (read_owner hub path head) (\<lambda>observed.
       if \<not> json_same (JObj observed) (owner_json owner) then io_raise (Raised Claim_not_owned)
       else io_return (Commit [Delete_file path] ()))"

definition release ::
  "'w hub \<Rightarrow> string \<Rightarrow> claim_owner \<Rightarrow> ('w, claim_error failure, unit) io" where
  "release hub path owner =
     commit_loop hub Claim_no_identity Claim_contended (release_attempt path owner hub) eight_attempts"

section \<open>The atomic specification\<close>

text \<open>What the two operations decide of a tree.\<close>

definition claim_owner_at :: "tree \<Rightarrow> string \<Rightarrow> claim_error + (string, json) dict" where
  "claim_owner_at t path =
     (if \<not> entry_exists t path then Inl Claim_missing
      else case map_of t path of None \<Rightarrow> Inl Claim_unreadable | Some f \<Rightarrow> owner_of_file f)"

definition acquire_spec ::
  "(string \<Rightarrow> iso_time option) \<Rightarrow> string \<Rightarrow> claim_owner \<Rightarrow> int \<Rightarrow> tree \<Rightarrow> claim_error + unit verdict" where
  "acquire_spec fromiso path owner now t =
     (let taken = Commit [Add_file path (owner_payload owner)] () in
      if \<not> entry_exists t path then Inr taken
      else rbind (claim_owner_at t path) (\<lambda>observed.
        if claim_expired fromiso observed now then Inr taken else Inl Claim_held))"

definition release_spec :: "string \<Rightarrow> claim_owner \<Rightarrow> unit \<Rightarrow> tree \<Rightarrow> claim_error + unit verdict" where
  "release_spec path owner u t =
     rbind (claim_owner_at t path) (\<lambda>observed.
       if json_same (JObj observed) (owner_json owner) then Inr (Commit [Delete_file path] ())
       else Inl Claim_not_owned)"

section \<open>The operations implement it\<close>

lemma yields_read_owner:
  assumes c: "hub_contract hub others history"
  shows "yields {Claim_unreadable} others history rv t (read_owner hub path rv) (claim_owner_at t path)"
  unfolding read_owner_def
  by (rule yields_seq_exists [OF c], rule yields_if_eq)
    (auto simp: claim_owner_at_def intro!: yields_raise_eq yields_download [OF c] yields_result_eq)

interpretation claim_acquire: atomic_operation
  "acquire_attempt fromiso path owner" "acquire_spec fromiso path owner" "{Claim_unreadable}"
  for fromiso path owner
proof
  fix hub :: "'w hub" and others history rv t now
  assume c: "hub_contract hub others history"
  show "yields {Claim_unreadable} others history rv t
      (acquire_attempt fromiso path owner hub now rv) (acquire_spec fromiso path owner now t)"
    unfolding acquire_attempt_def
    by (rule yields_seq_exists [OF c])
      (auto simp: acquire_spec_def intro!: yields_seq [OF yields_read_owner [OF c]] yields_steps)
qed

interpretation claim_release: atomic_operation
  "release_attempt path owner" "release_spec path owner" "{Claim_unreadable}"
  for path owner
proof
  fix hub :: "'w hub" and others history rv t u
  assume c: "hub_contract hub others history"
  show "yields {Claim_unreadable} others history rv t
      (release_attempt path owner hub u rv) (release_spec path owner u t)"
    unfolding release_attempt_def
    by (rule yields_seq [OF yields_read_owner [OF c]])
      (auto simp: release_spec_def intro!: yields_steps)
qed

end
