(* ===== verification/Sample_Hub.thy ===== *)
theory Sample_Hub
  imports Campaign_Store_Atomic Controller_Store Claim_Store
begin

text \<open>
  A repository in memory, for concrete runs of the stores: a world is the list of the trees
  committed so far, on top of an initial empty commit. It satisfies \<open>hub_contract\<close> for every
  relation \<open>others\<close>, and \<open>hub_quiet\<close>, the hypothesis that the service answers and nobody
  else commits.
\<close>

section \<open>A service that answers\<close>

definition hub_quiet :: "'w hub \<Rightarrow> ('w \<Rightarrow> commit list) \<Rightarrow> bool" where
  "hub_quiet hub history \<longleftrightarrow>
     (\<forall>w. \<exists>w'. api_repo_info hub w = (Inr (Some (fst (last (history w)))), w') \<and>
        history w' = history w \<and> fst (last (history w)) \<noteq> []) \<and>
     (\<forall>p w. \<exists>w'. api_paths_info hub p (fst (last (history w))) w =
        (Inr (entry_exists (head_tree (history w)) p), w') \<and> history w' = history w) \<and>
     (\<forall>p f w. map_of (head_tree (history w)) p = Some f \<longrightarrow>
        (\<exists>w'. api_download hub p (fst (last (history w))) w = (Inr (Some f), w') \<and> history w' = history w)) \<and>
     (\<forall>ops w. \<exists>oid sha w'. api_create_commit hub ops (fst (last (history w))) w = (Inr oid, w') \<and>
        history w' = history w @ [(sha, apply_ops ops (head_tree (history w)))])"

section \<open>The repository in memory\<close>

definition mem_sha :: "nat \<Rightarrow> string" where
  "mem_sha i = replicate (i + 1) CHR ''a''"

definition mem_history :: "tree list \<Rightarrow> commit list" where
  "mem_history w = zip (map mem_sha [0..<length w + 1]) ([] # w)"

definition mem_tree :: "string \<Rightarrow> tree list \<Rightarrow> tree option" where
  "mem_tree rv w = map_of (mem_history w) rv"

definition mem_hub :: "tree list hub" where
  "mem_hub =
     \<lparr>api_repo_info = (\<lambda>w. (Inr (Some (mem_sha (length w))), w)),
      api_paths_info = (\<lambda>p rv w. (case mem_tree rv w of None \<Rightarrow> Inl (Http_status 404)
        | Some t \<Rightarrow> Inr (entry_exists t p), w)),
      api_download = (\<lambda>p rv w. (case mem_tree rv w of None \<Rightarrow> Inl (Http_status 404)
        | Some t \<Rightarrow> (case map_of t p of None \<Rightarrow> Inl Entry_not_found | Some f \<Rightarrow> Inr (Some f)), w)),
      api_list_files = (\<lambda>rv w. (case mem_tree rv w of None \<Rightarrow> Inl (Http_status 404)
        | Some t \<Rightarrow> Inr (dict_keys t), w)),
      api_list_tree = (\<lambda>d rv w. (case mem_tree rv w of None \<Rightarrow> Inl (Http_status 404)
        | Some t \<Rightarrow> if entry_exists t d then Inr (filter (\<lambda>p. starts_with p (d @ ''/'')) (entries t))
            else Inl Entry_not_found, w)),
      api_create_commit = (\<lambda>ops parent w.
        if parent = mem_sha (length w)
        then (Inr (Some (mem_sha (length w + 1))), w @ [apply_ops ops (last ([] # w))])
        else (Inl (Http_status 412), w))\<rparr>"

lemma mem_sha_inj [simp]: "mem_sha i = mem_sha j \<longleftrightarrow> i = j"
  by (metis mem_sha_def length_replicate add_right_cancel)

lemma distinct_mem_history: "distinct (map fst (mem_history w))"
proof -
  have "map fst (mem_history w) = map mem_sha [0..<length w + 1]"
    unfolding mem_history_def by (subst map_fst_zip) simp_all
  then show ?thesis by (simp add: distinct_map inj_on_def del: upt_Suc)
qed

lemma mem_history_snoc:
  "mem_history (w @ [t]) = mem_history w @ [(mem_sha (length w + 1), t)]"
proof -
  have "mem_history (w @ [t]) =
      zip (map mem_sha [0..<length w + 1] @ [mem_sha (length w + 1)]) (([] # w) @ [t])"
    by (simp add: mem_history_def)
  also have "\<dots> = mem_history w @ [(mem_sha (length w + 1), t)]"
    unfolding mem_history_def by (subst zip_append) simp_all
  finally show ?thesis .
qed

lemma mem_history_last: "last (mem_history w) = (mem_sha (length w), last ([] # w))"
proof (cases w rule: rev_cases)
  case Nil
  then show ?thesis by (simp add: mem_history_def)
next
  case (snoc v t)
  then show ?thesis by (simp add: mem_history_snoc)
qed

lemma mem_history_ne [simp]: "mem_history w \<noteq> []"
  by (simp add: mem_history_def upt_conv_Cons del: upt_Suc)

lemma mem_tree_iff: "(rv, t) \<in> set (mem_history w) \<longleftrightarrow> mem_tree rv w = Some t"
  unfolding mem_tree_def using distinct_mem_history by (simp add: map_of_eq_Some_iff)

lemma mem_hub_contract: "hub_contract mem_hub others mem_history"
proof -
  have "commit_answer others mem_history mem_hub"
    unfolding commit_answer_def
  proof (intro allI impI)
    fix ops parent w r w' assume "api_create_commit mem_hub ops parent w = (r, w')"
    then consider (ok) "parent = mem_sha (length w)" "r = Inr (Some (mem_sha (length w + 1)))"
        "w' = w @ [apply_ops ops (last ([] # w))]"
      | (conflict) "r = Inl (Http_status 412)" "w' = w"
      by (auto simp: mem_hub_def split: if_splits)
    then show "case r of
        Inr oid \<Rightarrow> (\<exists>s. commits others ops parent s (mem_history w) (mem_history w') \<and> oid = Some s)
      | Inl e \<Rightarrow> grows others (mem_history w) (mem_history w') \<or>
          \<not> is_parent_conflict e \<and> (\<exists>s. commits others ops parent s (mem_history w) (mem_history w'))"
    proof cases
      case ok
      then show ?thesis
        by (auto simp: commits_def mem_history_snoc mem_history_last intro!: exI [of _ "mem_history w"]
            intro: grows_refl)
    qed (simp add: grows_refl)
  qed
  moreover have "tree_answer d t (if entry_exists t d
      then Inr (filter (\<lambda>p. starts_with p (d @ ''/'')) (entries t)) else Inl Entry_not_found)" for d t
    by (simp add: tree_answer_def entries_iff) (simp add: entries_def)
  ultimately show ?thesis
    unfolding hub_contract_def
    by (auto simp: distinct_mem_history reads_only_def reads_at_def head_answer_def exists_answer_def
        file_answer_def files_answer_def mem_tree_iff mem_history_last grows_refl mem_hub_def
        split: option.splits if_splits)
qed

lemma mem_hub_quiet: "hub_quiet mem_hub mem_history"
proof -
  have "mem_tree (mem_sha (length w)) w = Some (last ([] # w))" for w
    using mem_history_last [of w] mem_tree_iff by (metis last_in_set mem_history_ne)
  moreover have "mem_sha n \<noteq> []" for n by (simp add: mem_sha_def)
  ultimately show ?thesis
    unfolding hub_quiet_def mem_history_last
    by (simp add: mem_hub_def) (metis append_Nil mem_history_snoc)
qed

end
