(* ===== verification/Claim_Properties.thy ===== *)
theory Claim_Properties
  imports Sample_Hub
begin

text \<open>
  The properties of the claim store of \<open>coordination.py\<close>, under the hypothesis \<open>hub_contract\<close>
  on the Hub client and whatever the other processes commit in between: claims are atomic
  and exclusive, and on a service that answers, with nobody else committing, they succeed.
\<close>

section \<open>Claims\<close>

definition claim_excuses :: "claim_error set" where
  "claim_excuses = {Claim_unreadable, Claim_no_identity, Claim_contended}"

lemma acquire_atomic:
  assumes c: "hub_contract hub others history" and run: "acquire hub fromiso clock path owner w = (r, w')"
  shows "atomic_run others (acquire_spec fromiso path owner) (set (map clock [0..<max_commit_attempts]))
    claim_excuses (history w) r (history w')"
  using claim_acquire.loop_refines_atomic [OF c run [unfolded acquire_def]]
  by (simp add: claim_excuses_def)

lemma release_atomic:
  assumes c: "hub_contract hub others history" and run: "release hub path owner w = (r, w')"
  shows "atomic_run others (release_spec path owner) {()} claim_excuses (history w) r (history w')"
  using claim_release.loop_refines_atomic [OF c run [unfolded release_def]]
  by (simp add: claim_excuses_def max_commit_attempts_def)

text \<open>What other processes may do while \<open>mine\<close> holds \<open>path\<close>.\<close>

definition foreign_claims ::
  "(string \<Rightarrow> iso_time option) \<Rightarrow> int \<Rightarrow> string \<Rightarrow> claim_owner \<Rightarrow> tree \<Rightarrow> tree \<Rightarrow> bool" where
  "foreign_claims fromiso bound path mine t t' \<longleftrightarrow>
     (\<exists>p owner now ops. now \<le> bound \<and> acquire_spec fromiso p owner now t = Inr (Commit ops ()) \<and>
        t' = apply_ops ops t) \<or>
     (\<exists>p owner ops. (p \<noteq> path \<or> \<not> json_same (owner_json mine) (owner_json owner)) \<and>
        release_spec p owner () t = Inr (Commit ops ()) \<and> t' = apply_ops ops t) \<or>
     map_of t' path = map_of t path"

abbreviation owner_dict :: "claim_owner \<Rightarrow> (string, json) dict" where
  "owner_dict owner \<equiv> map (\<lambda>(k, v). (k, JStr v)) owner"

lemma claim_expired_mono: "claim_expired fromiso owner now \<Longrightarrow> now \<le> later \<Longrightarrow> claim_expired fromiso owner later"
  by (auto simp: claim_expired_def split: option.splits json.splits iso_time.splits)

lemma held_owner:
  "map_of t path = Some (owner_payload mine) \<Longrightarrow> claim_owner_at t path = Inr (owner_dict mine)"
  using file_is_entry [of t path] by (simp add: claim_owner_at_def owner_payload_def owner_json_def)

lemma acquire_held:
  assumes held: "map_of t path = Some (owner_payload mine)"
    and fresh: "\<not> claim_expired fromiso (owner_dict mine) bound" and now: "now \<le> bound"
  shows "acquire_spec fromiso path owner now t = Inl Claim_held"
  using held_owner [OF held] file_is_entry [OF held] claim_expired_mono [OF _ now] fresh
  by (auto simp: acquire_spec_def)

lemma foreign_keeps_claim:
  assumes step: "foreign_claims fromiso bound path mine t t'"
    and fresh: "\<not> claim_expired fromiso (owner_dict mine) bound"
    and held: "map_of t path = Some (owner_payload mine)"
  shows "map_of t' path = Some (owner_payload mine)"
proof -
  have other_path: "map_of (apply_ops ops t) path = map_of t path"
    if "acquire_spec fromiso p owner now t = Inr (Commit ops ()) \<or> release_spec p owner () t = Inr (Commit ops ())"
      "p \<noteq> path" for p owner now ops
    using that by (intro apply_ops_other)
      (auto simp: acquire_spec_def release_spec_def result_simps Let_def split: if_splits)
  from step consider
    (take) p owner now ops where "now \<le> bound" "acquire_spec fromiso p owner now t = Inr (Commit ops ())"
      "t' = apply_ops ops t"
    | (drop) p owner ops where "p \<noteq> path \<or> \<not> json_same (owner_json mine) (owner_json owner)"
      "release_spec p owner () t = Inr (Commit ops ())" "t' = apply_ops ops t"
    | (other) "map_of t' path = map_of t path"
    unfolding foreign_claims_def by blast
  then show ?thesis
  proof cases
    case take
    then have "p \<noteq> path" using acquire_held [OF held fresh] by auto
    with take other_path held show ?thesis by metis
  next
    case drop
    then have "p \<noteq> path" using held_owner [OF held] by (auto simp: release_spec_def owner_json_def)
    with drop other_path held show ?thesis by metis
  next
    case other
    with held show ?thesis by simp
  qed
qed

lemma acquire_spec_commit:
  "acquire_spec fromiso path owner now t = Inr v \<Longrightarrow> v = Commit [Add_file path (owner_payload owner)] ()"
  by (auto simp: acquire_spec_def result_simps Let_def split: if_splits)

text \<open>
  C6. Claims are linearizable. Whatever other processes commit while \<open>acquire\<close> or \<open>release\<close>
  runs, the call behaves as one atomic step at one moment between its call and its return:
  it takes a claim only on a head where nobody holds it or the holder has expired at one of
  the clock readings, deletes a claim only where the file holds exactly the given owner, and
  raises only for what it saw on such a head, or because the repository stayed contended for
  eight attempts, had no identity or could not be read.
\<close>

theorem claim_store_linearizable:
  assumes "hub_contract hub others history"
  shows "(acquire hub fromiso clock path owner w = (r, w') \<longrightarrow>
      atomic_run others (acquire_spec fromiso path owner) (set (map clock [0..<8]))
        {Claim_unreadable, Claim_no_identity, Claim_contended} (history w) r (history w')) \<and>
    (release hub path owner w = (r, w') \<longrightarrow>
      atomic_run others (release_spec path owner) {()}
        {Claim_unreadable, Claim_no_identity, Claim_contended} (history w) r (history w'))"
  using acquire_atomic [OF assms, of fromiso clock path owner w r w']
    release_atomic [OF assms, of path owner w r w']
  by (simp add: claim_excuses_def max_commit_attempts_def)

text \<open>A concrete owner that expires at time 100, and a rival.\<close>

definition sample_owner :: claim_owner where
  "sample_owner = [(''job'', ''j1''), (''expires_at'', ''T100'')]"

definition sample_rival :: claim_owner where
  "sample_rival = [(''job'', ''j2'')]"

definition sample_iso :: "string \<Rightarrow> iso_time option" where
  "sample_iso s = (if s = ''T100'' then Some (Aware_time 100) else None)"

definition sample_clock :: "int \<Rightarrow> nat \<Rightarrow> int" where
  "sample_clock n i = n + int i"

abbreviation held_world :: "tree list" where
  "held_world \<equiv> [[(''claim'', owner_payload sample_owner)]]"

lemma sample_acquire:
  "acquire mem_hub sample_iso (sample_clock 0) ''claim'' sample_owner [] = (Inr (), held_world)"
  by code_simp

lemma sample_release: "release mem_hub ''claim'' sample_owner held_world = (Inr (), held_world @ [[]])"
  by code_simp

lemma sample_rival_early:
  "acquire mem_hub sample_iso (sample_clock 10) ''claim'' sample_rival held_world =
    (Inl (Raised Claim_held), held_world)"
  by code_simp

lemma sample_rival_late:
  "fst (acquire mem_hub sample_iso (sample_clock 100) ''claim'' sample_rival held_world) = Inr ()"
  by code_simp

theorem claim_store_linearizable_witness:
  "atomic_run (\<lambda>t t'. False) (acquire_spec sample_iso ''claim'' sample_owner)
     (set (map (sample_clock 0) [0..<8])) {Claim_unreadable, Claim_no_identity, Claim_contended}
     (mem_history []) (Inr ()) (mem_history held_world) \<and>
   atomic_run (\<lambda>t t'. False) (release_spec ''claim'' sample_owner) {()}
     {Claim_unreadable, Claim_no_identity, Claim_contended}
     (mem_history held_world) (Inr ()) (mem_history (held_world @ [[]]))"
  using claim_store_linearizable [OF mem_hub_contract] sample_acquire sample_release by blast

text \<open>
  C7. Claims are mutually exclusive. Once \<open>acquire\<close> has returned, and while other processes
  only use the store (at clock readings up to \<open>bound\<close>, and not to release this very owner),
  the claim file keeps this owner, and no further \<open>acquire\<close> of the same path succeeds before
  the claim expires.
\<close>

theorem claim_mutual_exclusion:
  assumes c: "hub_contract hub (foreign_claims fromiso bound path mine) history"
    and fresh: "\<not> claim_expired fromiso (owner_dict mine) bound"
    and first: "acquire hub fromiso clock path mine w = (Inr (), w1)"
    and second: "acquire hub fromiso clock' path rival w1 = (r, w2)"
    and times: "list_all (\<lambda>now. now \<le> bound) (map clock' [0..<8])"
  shows "r \<noteq> Inr () \<and> map_of (head_tree (history w1)) path = Some (owner_payload mine) \<and>
    map_of (head_tree (history w2)) path = Some (owner_payload mine)"
proof -
  let ?held = "\<lambda>t. map_of t path = Some (owner_payload mine)"
  note kept = foreign_keeps_claim [OF _ fresh]
  have held1: "?held (head_tree (history w1))"
    using acquire_atomic [OF c first]
    by (rule atomic_run_establishes) (auto dest: acquire_spec_commit kept)
  have no_commit: "acquire_spec fromiso path rival x t \<noteq> Inr v"
    if "x \<in> set (map clock' [0..<max_commit_attempts])" "?held t" for x t v
    using that acquire_held [OF that(2) fresh] times by (auto simp: list_all_iff max_commit_attempts_def)
  have ne: "history w1 \<noteq> []" using c by (simp add: hub_contract_def)
  have g: "grows (foreign_claims fromiso bound path mine) (history w1) (history w2)"
    by (rule atomic_run_no_commit(1) [where P = ?held, OF acquire_atomic [OF c second] ne held1])
      (use kept no_commit in blast)+
  have "r \<noteq> Inr ()"
  proof
    assume "r = Inr ()"
    have "\<exists>x \<in> set (map clock' [0..<max_commit_attempts]). \<exists>t. ?held t \<and>
        acquire_spec fromiso path rival x t = Inr (Done ())"
      by (rule atomic_run_no_commit(2) [where P = ?held, OF acquire_atomic [OF c second] ne held1
            _ _ \<open>r = Inr ()\<close>]) (use kept no_commit in blast)+
    then show False using no_commit by blast
  qed
  moreover have "?held (head_tree (history w2))"
    by (rule grows_invariant [where P = ?held, OF g ne held1]) (use kept in blast)
  ultimately show ?thesis using held1 by simp
qed

theorem claim_mutual_exclusion_witness:
  "map_of (head_tree (mem_history held_world)) ''claim'' = Some (owner_payload sample_owner) \<and>
   acquire mem_hub sample_iso (sample_clock 10) ''claim'' sample_rival held_world \<noteq> (Inr (), held_world)"
proof -
  have "\<not> claim_expired sample_iso (owner_dict sample_owner) 20"
    and "list_all (\<lambda>now. now \<le> 20) (map (sample_clock 10) [0..<8])" by code_simp+
  from claim_mutual_exclusion [OF mem_hub_contract this(1) sample_acquire sample_rival_early this(2)]
  show ?thesis by (simp add: sample_rival_early)
qed

lemma quiet_loop:
  assumes q: "hub_quiet hub history" and xs: "xs = x # ys"
    and attempt: "\<And>w1. history w1 = history w \<Longrightarrow> \<exists>w2. attempt x (fst (last (history w))) w1 =
      (lift_error Raised v, w2) \<and> history w2 = history w"
  shows "\<exists>w'. commit_loop hub no_identity contended attempt xs w =
      (lift_error Raised (rbind v (\<lambda>d. Inr (case d of Done a \<Rightarrow> a | Commit ops a \<Rightarrow> a))), w') \<and>
    head_tree (history w') = (case v of Inr (Commit ops a) \<Rightarrow> apply_ops ops (head_tree (history w))
      | _ \<Rightarrow> head_tree (history w))"
proof -
  obtain w1 where "api_repo_info hub w = (Inr (Some (fst (last (history w)))), w1)"
      "history w1 = history w" "fst (last (history w)) \<noteq> []"
    using q unfolding hub_quiet_def by blast
  then have 1: "repo_head hub no_identity w = (Inr (fst (last (history w))), w1)" "history w1 = history w"
    by (simp_all add: repo_head_def io_bind_def call_def io_return_def)
  obtain w2 where 2: "attempt x (fst (last (history w))) w1 = (lift_error Raised v, w2)" "history w2 = history w"
    using attempt [OF 1(2)] by blast
  have "\<exists>oid sha w3. api_create_commit hub ops (fst (last (history w))) w2 = (Inr oid, w3) \<and>
      history w3 = history w @ [(sha, apply_ops ops (head_tree (history w)))]" for ops
    using q 2(2) unfolding hub_quiet_def by metis
  note commit = this
  show ?thesis
  proof (cases v)
    case (Inl e)
    with 1 2 xs show ?thesis by (auto simp: io_bind_def)
  next
    case (Inr d)
    show ?thesis
    proof (cases d)
      case (Done a)
      with Inr 1 2 xs show ?thesis by (auto simp: io_bind_def io_return_def)
    next
      case (Commit ops a)
      from commit [of ops] obtain oid sha w3
        where "api_create_commit hub ops (fst (last (history w))) w2 = (Inr oid, w3)"
          "history w3 = history w @ [(sha, apply_ops ops (head_tree (history w)))]" by blast
      with Inr Commit 1 2 xs show ?thesis by (auto simp: io_bind_def)
    qed
  qed
qed

lemma quiet_exists:
  assumes "hub_quiet hub history" and "history w1 = history w"
  obtains w2 where "exists_at hub p (fst (last (history w))) w1 = (Inr (entry_exists (head_tree (history w)) p), w2)"
    and "history w2 = history w"
proof -
  obtain w2 where "api_paths_info hub p (fst (last (history w1))) w1 =
      (Inr (entry_exists (head_tree (history w1)) p), w2)" "history w2 = history w1"
    using assms(1) unfolding hub_quiet_def by blast
  with assms(2) that show ?thesis by (simp add: exists_at_def call_def)
qed

lemma quiet_read_owner:
  assumes q: "hub_quiet hub history" and h: "history w1 = history w"
    and is_file: "entry_exists (head_tree (history w)) p \<Longrightarrow> map_of (head_tree (history w)) p = Some f"
  shows "\<exists>w2. read_owner hub p (fst (last (history w))) w1 =
    (lift_error Raised (claim_owner_at (head_tree (history w)) p), w2) \<and> history w2 = history w"
proof -
  obtain w2 where 2: "exists_at hub p (fst (last (history w))) w1 =
      (Inr (entry_exists (head_tree (history w)) p) :: claim_error failure + bool, w2)" "history w2 = history w"
    using quiet_exists [OF q h] by metis
  show ?thesis
  proof (cases "entry_exists (head_tree (history w)) p")
    case True
    with q is_file 2(2) obtain w3 where "api_download hub p (fst (last (history w))) w2 = (Inr (Some f), w3)"
      "history w3 = history w" unfolding hub_quiet_def by metis
    with True 2 is_file show ?thesis
      by (auto simp: read_owner_def io_bind_def call_def io_result_def claim_owner_at_def)
  next
    case False
    with 2 show ?thesis by (auto simp: read_owner_def io_bind_def io_raise_def claim_owner_at_def)
  qed
qed

lemma quiet_acquire:
  assumes q: "hub_quiet hub history"
    and is_file: "entry_exists (head_tree (history w)) p \<Longrightarrow> map_of (head_tree (history w)) p = Some f"
    and run: "acquire hub fromiso clock p owner w = (r, w')"
    and s: "acquire_spec fromiso p owner (clock 0) (head_tree (history w)) = s"
  shows "r = lift_error Raised (rbind s (\<lambda>_. Inr ()))"
    and "head_tree (history w') = (case s of
      Inl e \<Rightarrow> head_tree (history w) | Inr _ \<Rightarrow> apply_ops [Add_file p (owner_payload owner)] (head_tree (history w)))"
proof -
  have attempt: "\<exists>w2. acquire_attempt fromiso p owner hub (clock 0) (fst (last (history w))) w1 =
      (lift_error Raised s, w2) \<and> history w2 = history w" if h: "history w1 = history w" for w1
  proof -
    obtain w2 where 2: "exists_at hub p (fst (last (history w))) w1 =
        (Inr (entry_exists (head_tree (history w)) p) :: claim_error failure + bool, w2)" "history w2 = history w"
      using quiet_exists [OF q h] by metis
    obtain w3 where "read_owner hub p (fst (last (history w))) w2 =
        (lift_error Raised (claim_owner_at (head_tree (history w)) p), w3)" "history w3 = history w"
      using quiet_read_owner [OF q 2(2) is_file] by blast
    with 2 s show ?thesis
      by (cases "claim_owner_at (head_tree (history w)) p")
        (auto simp: acquire_attempt_def acquire_spec_def Let_def io_bind_def io_return_def io_raise_def)
  qed
  have xs: "map clock [0..<max_commit_attempts] = clock 0 # map clock [1..<max_commit_attempts]"
    by (simp add: max_commit_attempts_def upt_conv_Cons)
  from quiet_loop [OF q xs, of w "acquire_attempt fromiso p owner hub" s Claim_no_identity Claim_contended] attempt run
  obtain d: "r = lift_error Raised (rbind s (\<lambda>d. Inr (case d of Done a \<Rightarrow> a | Commit ops a \<Rightarrow> a)))"
    "head_tree (history w') = (case s of Inr (Commit ops a) \<Rightarrow> apply_ops ops (head_tree (history w))
      | _ \<Rightarrow> head_tree (history w))"
    unfolding acquire_def by fastforce
  show "r = lift_error Raised (rbind s (\<lambda>_. Inr ()))" using d(1) by simp
  show "head_tree (history w') = (case s of Inl e \<Rightarrow> head_tree (history w)
      | Inr _ \<Rightarrow> apply_ops [Add_file p (owner_payload owner)] (head_tree (history w)))"
    using d(2) acquire_spec_commit s by (fastforce split: sum.splits)
qed

lemma quiet_release:
  assumes q: "hub_quiet hub history"
    and held: "map_of (head_tree (history w)) p = Some (owner_payload owner)"
    and run: "release hub p owner w = (r, w')"
  shows "r = Inr () \<and> head_tree (history w') = apply_ops [Delete_file p] (head_tree (history w))"
proof -
  have attempt: "\<exists>w2. release_attempt p owner hub () (fst (last (history w))) w1 =
      (lift_error Raised (Inr (Commit [Delete_file p] ())), w2) \<and> history w2 = history w"
    if h: "history w1 = history w" for w1
  proof -
    obtain w2 where "read_owner hub p (fst (last (history w))) w1 = (Inr (owner_dict owner), w2)"
      "history w2 = history w"
      using quiet_read_owner [OF q h, of p] held held_owner [OF held] by fastforce
    then show ?thesis by (simp add: release_attempt_def io_bind_def io_return_def owner_json_def)
  qed
  have xs: "eight_attempts = () # replicate 7 ()" by (simp add: max_commit_attempts_def eval_nat_numeral)
  from quiet_loop [OF q xs, of w "release_attempt p owner hub" "Inr (Commit [Delete_file p] ())"
      Claim_no_identity Claim_contended] attempt run
  show ?thesis unfolding release_def by fastforce
qed

text \<open>
  An uncontended claim succeeds. When the service answers and nobody else commits, a free
  claim is acquired in the first attempt and holds the owner; a second \<open>acquire\<close> that comes
  before the expiry is refused with \<open>ClaimConflict\<close> and changes nothing; the owner's
  \<open>release\<close> succeeds and frees the claim again.
\<close>

theorem uncontended_claim_cycle:
  assumes q: "hub_quiet hub history" and free: "\<not> entry_exists (head_tree (history w)) path"
    and 1: "acquire hub fromiso clock path owner w = (r1, w1)"
    and 2: "acquire hub fromiso clock' path rival w1 = (r2, w2)"
    and fresh: "\<not> claim_expired fromiso (owner_dict owner) (clock' 0)"
    and 3: "release hub path owner w2 = (r3, w3)"
  shows "r1 = Inr () \<and> map_of (head_tree (history w1)) path = Some (owner_payload owner) \<and>
    r2 = Inl (Raised Claim_held) \<and> head_tree (history w2) = head_tree (history w1) \<and>
    r3 = Inr () \<and> map_of (head_tree (history w3)) path = None"
proof -
  have spec1: "acquire_spec fromiso path owner (clock 0) (head_tree (history w)) =
      Inr (Commit [Add_file path (owner_payload owner)] ())"
    using free by (simp add: acquire_spec_def)
  from quiet_acquire [OF q _ 1 spec1] free have r1: "r1 = Inr ()"
    and held: "map_of (head_tree (history w1)) path = Some (owner_payload owner)" by auto
  have spec2: "acquire_spec fromiso path rival (clock' 0) (head_tree (history w1)) = Inl Claim_held"
    by (rule acquire_held [OF held fresh]) simp
  from quiet_acquire [OF q held 2 spec2] have r2: "r2 = Inl (Raised Claim_held)"
    and same: "head_tree (history w2) = head_tree (history w1)" by auto
  from quiet_release [OF q _ 3] held same have "r3 = Inr ()"
    and "head_tree (history w3) = apply_ops [Delete_file path] (head_tree (history w1))" by auto
  with r1 held r2 same show ?thesis by (simp add: delete_conv')
qed

theorem uncontended_claim_cycle_witness:
  "fst (acquire mem_hub sample_iso (sample_clock 0) ''claim'' sample_owner []) = Inr () \<and>
   fst (acquire mem_hub sample_iso (sample_clock 10) ''claim'' sample_rival held_world) =
     Inl (Raised Claim_held) \<and>
   fst (release mem_hub ''claim'' sample_owner held_world) = Inr ()"
proof -
  have "\<not> entry_exists (head_tree (mem_history [])) ''claim''"
    and "\<not> claim_expired sample_iso (owner_dict sample_owner) (sample_clock 10 0)" by code_simp+
  from uncontended_claim_cycle [OF mem_hub_quiet this(1) sample_acquire sample_rival_early this(2) sample_release]
  show ?thesis by (simp add: sample_acquire sample_rival_early sample_release)
qed

end
