(* ===== verification/Sample_Campaign.thy ===== *)
theory Sample_Campaign
  imports Control_Events
begin

text \<open>
  A small concrete campaign: one run with two shards of one trial each, one shard per wave,
  a spend cap, and the events of its life. The witnesses of the properties evaluate the
  model on it. \<open>sample_hash\<close> is a concrete function for the hash argument; no property
  depends on which one it is.
\<close>

definition sample_hash :: hash where
  "sample_hash s = replicate 16 (word_of_nat (length s))"

definition sample_trial :: "string \<Rightarrow> trial_lock" where
  "sample_trial i =
     \<lparr>tl_trial_id = i, tl_trial_digest = ''td'', tl_task_name = ''task'', tl_task_digest = ''kd'',
      tl_logical_attempt = 1\<rparr>"

definition sample_shard :: "string \<Rightarrow> string \<Rightarrow> shard_lock" where
  "sample_shard i t = \<lparr>sl_shard_id = i, sl_shard_digest = ''sd'', sl_trials = [sample_trial t]\<rparr>"

definition sample_run :: run_lock where
  "sample_run =
     \<lparr>ra_cell_digest = ''cell'', ra_deployment_digest = ''dep'', ra_model = ''m'',
      ra_deployment = ''d'', ra_agent = ''a'', ra_provider = None,
      ra_max_concurrent_requests = Some 2, ra_spend_cap_microusd = Some 900,
      ra_estimated_wave_cost_microusd = Some 100, rl_run_id = ''r'',
      rl_shards = [sample_shard ''s1'' ''t1'', sample_shard ''s2'' ''t2'']\<rparr>"

definition sample_policy :: recovery_policy where
  "sample_policy = default_recovery_policy\<lparr>rp_spend_cap_microusd := Some 1000\<rparr>"

definition sample_controller :: controller_spec where
  "sample_controller =
     \<lparr>cc_planning_trial_seconds = 600, cc_headroom_factor = Decimal 15 1,
      cc_wave_reserve_seconds = 300, cc_controller_reserve_seconds = 900,
      cc_heartbeat_seconds = 60, cc_stale_after_seconds = 300, cc_max_attempts = 3\<rparr>"

definition sample_wave :: "int \<Rightarrow> string \<Rightarrow> locked_initial_wave" where
  "sample_wave n i =
     \<lparr>liw_wave_index = n, liw_deployment_digest = ''dep'', liw_shard_ids = [i],
      liw_trial_count = 1, liw_effective_concurrency = 2, liw_planned_duration_seconds = 1200\<rparr>"

definition sample_lock :: campaign_lock where
  "sample_lock =
     \<lparr>cl_campaign_id = ''c'', cl_created_at = 0, cl_experiment = ''e'', cl_evaluation_id = ''v'',
      cl_publication_role = Role_final, cl_component_kind = None, cl_manifest_digest = ''md'',
      cl_source_lock = Package_source ''p'', cl_plan_digest = ''pd'', cl_artifact_prefix = ''art'',
      cl_max_shards_per_wave = 1, cl_recovery_policy = sample_policy,
      cl_controller_policy = Some sample_controller,
      cl_planned_campaign_duration_seconds = Some 2400,
      cl_initial_waves = [sample_wave 1 ''s1'', sample_wave 2 ''s2''], cl_runs = [sample_run]\<rparr>"

section \<open>Events\<close>

definition sample_event ::
  "string \<Rightarrow> int \<Rightarrow> subject_type \<Rightarrow> string \<Rightarrow> event_kind \<Rightarrow> event_payload \<Rightarrow> event" where
  "sample_event i at st subject kind payload =
     \<lparr>ev_event_id = i, ev_subject_type = st, ev_subject_id = subject, ev_kind = kind,
      ev_observed_at = at, ev_producer = PR_wave_controller, ev_payload = payload\<rparr>"

definition sample_submitted :: event where
  "sample_submitted = sample_event ''evt-00000000000000000000000000000001'' 1 ST_campaign ''c''
     (Campaign_event CK_submitted) (Submitted_payload ''pd'')"

definition sample_cancel :: "int \<Rightarrow> event" where
  "sample_cancel at = sample_event ''evt-00000000000000000000000000000002'' at ST_campaign ''c''
     (Campaign_event CK_cancel_requested) (Cancellation_payload ''stop'')"

definition sample_terminal :: "int \<Rightarrow> campaign_kind \<Rightarrow> event" where
  "sample_terminal at k = sample_event ''evt-00000000000000000000000000000003'' at ST_campaign ''c''
     (Campaign_event k)
     (Terminal_payload \<lparr>tp_summary_path = None, tp_summary_sha256 = None, tp_message = None\<rparr>)"

definition sample_reserved :: "int \<Rightarrow> event" where
  "sample_reserved at = sample_event ''evt-00000000000000000000000000000004'' at ST_campaign ''c''
     (Action_event AS_reserved)
     (Reserved_payload \<lparr>arp_action_id = ''act-k'', arp_action_key = ''k'',
        arp_action_kind = AK_submit_wave, arp_target_ids = [''s1'']\<rparr>)"

definition sample_action_done :: "int \<Rightarrow> action_status \<Rightarrow> event" where
  "sample_action_done at st = sample_event ''evt-00000000000000000000000000000005'' at ST_campaign ''c''
     (Action_event st)
     (Action_outcome_payload \<lparr>aop_action_id = ''act-k'', aop_message = None,
        aop_remote_id = Some ''job''\<rparr>)"

definition sample_wave_event :: "string \<Rightarrow> int \<Rightarrow> wave_status \<Rightarrow> event" where
  "sample_wave_event i at st = sample_event (''evt-0000000000000000000000000000001'' @ i) at ST_wave ''wave-k''
     (Wave_event st)
     (Wave_payload \<lparr>wp_deployment_digest = ''dep'', wp_provider = ''hf'', wp_shard_ids = [''s1''],
        wp_estimated_cost_microusd = 100\<rparr>)"

definition sample_start_of :: "string \<Rightarrow> string \<Rightarrow> string \<Rightarrow> int \<Rightarrow> int \<Rightarrow> event" where
  "sample_start_of trial shard i at n =
     sample_event (''evt-0000000000000000000000000000002'' @ i) at ST_execution (''x'' @ i)
     (Execution_event EK_started)
     (Started_payload \<lparr>esp_trial_id = trial, esp_shard_id = shard, esp_physical_attempt = n,
        esp_wave_id = Some ''wave-k'', esp_estimated_cost_microusd = 10\<rparr>)"

definition sample_finish_of ::
  "string \<Rightarrow> string \<Rightarrow> int \<Rightarrow> int \<Rightarrow> execution_kind \<Rightarrow> retry_category option \<Rightarrow> event" where
  "sample_finish_of trial i at n k c =
     sample_event (''evt-0000000000000000000000000000003'' @ i) at ST_execution (''x'' @ i)
     (Execution_event k)
     (Outcome_payload \<lparr>eop_trial_id = trial, eop_physical_attempt = n, eop_category = c,
        eop_spend_microusd = 40, eop_retry_after_seconds = None, eop_message = None\<rparr>)"

section \<open>Logs\<close>

text \<open>The first trial lost its first execution and waits; its wave is open, then drains.\<close>

definition sample_retry_log :: "event list" where
  "sample_retry_log =
     [sample_submitted, sample_reserved 2, sample_wave_event ''0'' 3 WS_acquiring,
      sample_start_of ''t1'' ''s1'' ''1'' 4 1,
      sample_finish_of ''t1'' ''1'' 5 1 EK_failed (Some RC_lost)]"

definition sample_draining_log :: "event list" where
  "sample_draining_log = sample_retry_log @ [sample_wave_event ''1'' 6 WS_draining]"

text \<open>Both trials completed in one closed wave.\<close>

definition sample_done_log :: "event list" where
  "sample_done_log =
     [sample_submitted, sample_start_of ''t1'' ''s1'' ''1'' 4 1, sample_start_of ''t2'' ''s2'' ''2'' 5 1,
      sample_finish_of ''t1'' ''1'' 6 1 EK_completed None,
      sample_finish_of ''t2'' ''2'' 7 1 EK_completed None]"

text \<open>One trial completed, the other waits for a retry, and the campaign ended partial.\<close>

definition sample_partial_log :: "event list" where
  "sample_partial_log =
     [sample_submitted, sample_start_of ''t1'' ''s1'' ''1'' 4 1, sample_start_of ''t2'' ''s2'' ''2'' 5 1,
      sample_finish_of ''t1'' ''1'' 6 1 EK_completed None,
      sample_finish_of ''t2'' ''2'' 7 1 EK_failed (Some RC_lost), sample_terminal 8 CK_partial]"

lemma sample_lock_ok: "campaign_lock_ok sample_lock" "lock_ids_distinct sample_lock"
  by code_simp+

end
