(* ===== verification/Campaign_Store_Properties.thy ===== *)
theory Campaign_Store_Properties
  imports Sample_Hub Sample_Campaign
begin

text \<open>
  The properties of the campaign store, under \<open>hub_contract\<close> and with other processes that
  only add records: records are never overwritten, a cancellation that was accepted stops
  every guarded batch, ensuring an event again changes nothing, and a created campaign is
  loaded back.
\<close>

section \<open>What the specifications write\<close>

lemma missing_at_absent:
  "missing_at ms t present d = Inr m \<Longrightarrow> set m \<subseteq> set d \<and> list_all (\<lambda>(p, e). \<not> present p) m"
  by (induction d arbitrary: m) (auto simp: result_simps split: if_splits, blast+)

lemma missing_at_sublist:
  "missing_at ms t present d = Inr m \<Longrightarrow> distinct (map fst d) \<Longrightarrow> distinct (map fst m)"
proof (induction d arbitrary: m)
  case (Cons x d)
  then show ?case
    using missing_at_absent [of ms t present d]
    by (cases x) (fastforce simp: result_simps split: if_splits)
qed simp

lemma op_path_add_events [simp]: "op_path ` set (add_events ms d) = fst ` set d"
  by (force simp: add_events_def)

lemma add_events_keeps:
  assumes "list_all (\<lambda>(p, e). map_of t p = None) d"
  shows "keeps {} t (apply_ops (add_events ms d) t)"
proof (rule apply_ops_keeps)
  fix x assume "x \<in> set (add_events ms d)"
  then have "op_path x \<in> fst ` set d" using op_path_add_events [of ms d] by blast
  with assms show "op_path x \<in> {} \<or> map_of t (op_path x) = None" by (force simp: list_all_iff)
qed

lemma adopt_spec_commit:
  assumes "adopt_spec ms path e t s = Inr (Commit ops a)"
  shows "\<not> entry_exists t path \<and> s = Inr (Commit ops a)"
  using assms by (auto simp: adopt_spec_def result_simps split: if_splits)

lemma ensure_spec_commit:
  assumes "ensure_spec ms c e u t = Inr (Commit ops a)"
  shows "a = True \<and> \<not> entry_exists t (event_path c (ev_event_id e)) \<and>
    (if ev_kind e = Campaign_event CK_cancel_requested
     then \<not> entry_exists t (campaign_cancellation_path c) \<and>
       ops = [add_event ms c e, Add_file (campaign_cancellation_path c) (Json_file (cancellation_marker c e))]
     else ops = [add_event ms c e])"
  using assms
  by (auto simp: ensure_spec_def plain_spec_def resolution_spec_def cancellation_spec_def Let_def
      result_simps split: if_splits dest!: adopt_spec_commit)

lemma ensure_spec_keeps:
  "ensure_spec ms c e u t = Inr (Commit ops a) \<Longrightarrow> keeps {} t (apply_ops ops t)"
  by (rule apply_ops_keeps) (auto dest!: ensure_spec_commit no_entry_no_file split: if_splits)

lemma guarded_spec_keeps:
  assumes "guarded_spec ms c expected u t = Inr (Commit ops a)"
  shows "keeps {} t (apply_ops ops t)"
proof -
  from assms obtain m where m: "missing_at ms t (entry_exists t) expected = Inr m" "ops = add_events ms m"
    by (auto simp: guarded_spec_def result_simps split: if_splits)
  from missing_at_absent [OF m(1)] have "list_all (\<lambda>(p, e). map_of t p = None) m"
    by (auto simp: list_all_iff dest: no_entry_no_file)
  with m(2) show ?thesis by (simp add: add_events_keeps)
qed

section \<open>The calls of the store\<close>

text \<open>
  All operations that change the repository, and for each the paths that it writes without
  looking whether they exist.
\<close>

datatype store_call =
    Create_campaign campaign_lock hub_file event
  | Append_event string event
  | Ensure_event string event
  | Ensure_events string "event list"
  | Ensure_events_unless_cancelled string "event list"
  | Reserve_action string "(string, json) dict" event

fun call_world :: "hash \<Rightarrow> models \<Rightarrow> 'w hub \<Rightarrow> store_call \<Rightarrow> 'w \<Rightarrow> 'w" where
  "call_world h ms hub (Create_campaign l req e) w = snd (create_campaign h ms hub l req e w)"
| "call_world h ms hub (Append_event c e) w = snd (append_event ms hub c e w)"
| "call_world h ms hub (Ensure_event c e) w = snd (ensure_event ms hub c e w)"
| "call_world h ms hub (Ensure_events c es) w = snd (ensure_events ms hub c es w)"
| "call_world h ms hub (Ensure_events_unless_cancelled c es) w =
     snd (ensure_events_unless_cancelled ms hub c es w)"
| "call_world h ms hub (Reserve_action c a e) w = snd (reserve_action ms hub c a e w)"

fun unchecked_paths :: "hash \<Rightarrow> store_call \<Rightarrow> string set" where
  "unchecked_paths h (Create_campaign l req e) =
     {campaign_request_path (cl_campaign_id l), event_path (cl_campaign_id l) (ev_event_id e),
      campaign_reservation_path h (cl_campaign_id l)}"
| "unchecked_paths h (Reserve_action c a e) = {event_path c (ev_event_id e)}"
| "unchecked_paths h _ = {}"

subsection \<open>Batches\<close>

text \<open>A commit on the revision \<open>head\<close>, with the commits of others around it.\<close>

lemma commits_keeps:
  assumes c: "hub_contract hub others history" and others: "\<And>t t'. others t t' \<Longrightarrow> keeps E t t'"
    and cm: "commits others ops head s (history w) (history w1)"
    and head: "(head, t) \<in> set (history w)" and step: "keeps {} t (apply_ops ops t)"
  shows "keeps E (head_tree (history w)) (head_tree (history w1))"
    and "(s, apply_ops ops t) \<in> set (history w1)"
proof -
  have grow: "keeps E (head_tree a) (head_tree a')" if "grows others a a'" "a \<noteq> []" for a a'
    by (rule grows_relation [OF that]) (auto intro: others keeps_trans)
  from cm obtain m where m: "grows others (history w) m" "m \<noteq> []" "fst (last m) = head"
    and g: "grows others (m @ [(s, apply_ops ops (head_tree m))]) (history w1)"
    by (auto simp: commits_def)
  have "head_tree m = t"
  proof (rule distinct_head)
    show "distinct (map fst (history w1))" using c by (simp add: hub_contract_def)
    show "(head, t) \<in> set (history w1)"
      using head grows_subset [OF m(1)] grows_subset [OF g] by auto
    show "prefix m (history w1)" using g by (auto dest: grows_prefix append_prefixD)
  qed (use m in auto)
  then have "keeps E (head_tree (history w)) t" and "keeps E (apply_ops ops t) (head_tree (history w1))"
    using grow [OF m(1)] grow [OF g] c by (simp_all add: hub_contract_def)
  moreover have "keeps E t (apply_ops ops t)" using step by (rule keeps_mono) simp
  ultimately show "keeps E (head_tree (history w)) (head_tree (history w1))"
    by (meson keeps_trans)
  show "(s, apply_ops ops t) \<in> set (history w1)"
    using grows_subset [OF g] \<open>head_tree m = t\<close> by auto
qed

lemma commit_batches_keeps:
  assumes c: "hub_contract hub others history" and others: "\<And>t t'. others t t' \<Longrightarrow> keeps E t t'"
    and run: "commit_batches ms hub bs head changed w = (r, w')"
    and head: "(head, t) \<in> set (history w)"
    and absent: "list_all (\<lambda>(p, e). map_of t p = None) (concat bs)"
    and distinct: "distinct (map fst (concat bs))"
  shows "keeps E (head_tree (history w)) (head_tree (history w'))"
  using run head absent distinct
proof (induction bs arbitrary: head changed w t)
  case Nil
  then show ?case by simp
next
  case (Cons b bs)
  obtain r1 w1 where k: "api_create_commit hub (add_events ms b) head w = (r1, w1)" by fastforce
  have step: "keeps {} t (apply_ops (add_events ms b) t)"
    using Cons.prems(3) by (intro add_events_keeps) simp
  have own: "keeps E (head_tree (history w)) (head_tree (history w1))"
    "(s, apply_ops (add_events ms b) t) \<in> set (history w1)"
    if "commits others (add_events ms b) head s (history w) (history w1)" for s
    using commits_keeps [OF c _ that Cons.prems(2) step, of E] others by blast+
  have grow: "keeps E (head_tree (history w)) (head_tree (history w1))"
    if "grows others (history w) (history w1)"
    by (rule grows_relation [OF that]) (use c in \<open>auto simp: hub_contract_def intro: others keeps_trans\<close>)
  from c k have ans: "case r1 of
      Inr oid \<Rightarrow> (\<exists>s. commits others (add_events ms b) head s (history w) (history w1) \<and> oid = Some s)
    | Inl e \<Rightarrow> grows others (history w) (history w1) \<or>
        \<not> is_parent_conflict e \<and> (\<exists>s. commits others (add_events ms b) head s (history w) (history w1))"
    unfolding hub_contract_def commit_answer_def by blast
  show ?case
  proof (cases r1)
    case (Inl e)
    with Cons.prems(1) k have "w' = w1" by simp
    moreover from Inl ans have "grows others (history w) (history w1) \<or>
      (\<exists>s. commits others (add_events ms b) head s (history w) (history w1))" by auto
    ultimately show ?thesis using own(1) grow by blast
  next
    case (Inr oid)
    with ans obtain s where s: "commits others (add_events ms b) head s (history w) (history w1)" "oid = Some s"
      by auto
    have "list_all (\<lambda>(p, e). map_of (apply_ops (add_events ms b) t) p = None) (concat bs)"
      unfolding list_all_iff
    proof (clarify)
      fix p e assume pe: "(p, e) \<in> set (concat bs)"
      then have "p \<in> fst ` set (concat bs)" by force
      then have "p \<notin> op_path ` set (add_events ms b)" using Cons.prems(4) by auto
      with pe Cons.prems(3) show "map_of (apply_ops (add_events ms b) t) p = None"
        by (force simp: apply_ops_other list_all_iff)
    qed
    moreover have "commit_batches ms hub bs s True w1 = (r, w')" using Cons.prems(1) k Inr s(2) by simp
    ultimately have "keeps E (head_tree (history w1)) (head_tree (history w'))"
      using Cons.IH own(2) [OF s(1)] Cons.prems(4) by auto
    then show ?thesis using own(1) [OF s(1)] by (rule keeps_trans [rotated])
  qed
qed

lemma yields_missing_listed:
  assumes c: "hub_contract hub others history"
  shows "yields {Record_unreadable} others history rv t (missing_events_from_listing ms hub d rv)
    (missing_at ms t (\<lambda>p. p \<in> set (dict_keys t)) d)"
  unfolding missing_events_from_listing_def
proof (rule yields_list_files [OF c])
  fix files assume "set files = set (dict_keys t)"
  then show "yields {Record_unreadable} others history rv t
      (missing_by ms (\<lambda>p. io_return (p \<in> set files)) hub rv d)
      (missing_at ms t (\<lambda>p. p \<in> set (dict_keys t)) d)"
    by (intro yields_missing_by [OF c]) (simp add: yields_return)
qed

lemma ensure_events_loop_keeps:
  assumes c: "hub_contract hub others history" and others: "\<And>t t'. others t t' \<Longrightarrow> keeps E t t'"
    and run: "ensure_events_loop ms hub expected n changed w = (r, w')"
    and distinct: "distinct (map fst expected)"
  shows "keeps E (head_tree (history w)) (head_tree (history w'))"
  using run
proof (induction n arbitrary: changed w)
  case 0
  then show ?case by (simp add: io_raise_def)
next
  case (Suc n)
  have grow: "keeps E (head_tree (history v)) (head_tree (history v'))"
    if "grows others (history v) (history v')" for v v'
    by (rule grows_relation [OF that]) (use c in \<open>auto simp: hub_contract_def intro: others keeps_trans\<close>)
  obtain r1 w1 where i: "store_head hub w = (r1, w1)" by fastforce
  show ?case
  proof (cases r1)
    case (Inl e)
    with Suc.prems i have "w' = w1" by (simp add: io_bind_def)
    with repo_head_fails(1) [OF c i [unfolded Inl]] grow show ?thesis by blast
  next
    case (Inr h)
    obtain t where g1: "grows others (history w) (history w1)" and ht: "(h, t) \<in> set (history w1)"
      using repo_head_at [OF c i [unfolded Inr]] by blast
    obtain r2 w2 where l: "missing_events_from_listing ms hub expected h w1 = (r2, w2)" by fastforce
    have g2: "grows others (history w1) (history w2)"
      and m: "\<And>d. r2 = Inr d \<Longrightarrow> missing_at ms t (\<lambda>p. p \<in> set (dict_keys t)) expected = Inr d"
      using yields_missing_listed [OF c, of h t ms expected] l ht
      unfolding yields_def by (auto simp: lift_error_def split: sum.splits)
    have k12: "keeps E (head_tree (history w)) (head_tree (history w2))"
      using grow grows_trans [OF g1 g2] by blast
    show ?thesis
    proof (cases "\<exists>d. r2 = Inr d \<and> d \<noteq> []")
      case False
      with Suc.prems i Inr l have "w' = w2" by (auto simp: io_bind_def io_return_def split: sum.splits)
      with k12 show ?thesis by simp
    next
      case True
      then obtain d where d: "r2 = Inr d" "d \<noteq> []" by blast
      obtain r3 w3 where b: "commit_batches ms hub (chunks max_event_batch_operations d) h changed w2 = (r3, w3)"
        by fastforce
      have all: "concat (chunks max_event_batch_operations d) = d"
        by (rule concat_chunks) (simp add: max_event_batch_operations_def)
      have "(h, t) \<in> set (history w2)" using ht grows_subset [OF g2] by auto
      moreover have "list_all (\<lambda>(p, e). map_of t p = None) d"
        using missing_at_absent [OF m [OF d(1)]] by (auto simp: list_all_iff map_of_eq_None_iff)
      ultimately have k3: "keeps E (head_tree (history w2)) (head_tree (history w3))"
        using commit_batches_keeps [OF c _ b, of E t] others missing_at_sublist [OF m [OF d(1)] distinct]
        by (simp add: all)
      have "w' = w3 \<or> (\<exists>ch. ensure_events_loop ms hub expected n ch w3 = (r, w'))"
        using Suc.prems i Inr l d b
        by (auto simp: io_bind_def split: sum.splits prod.splits failure.splits if_splits)
      then have "keeps E (head_tree (history w3)) (head_tree (history w'))" using Suc.IH by auto
      with k12 k3 show ?thesis by (meson keeps_trans)
    qed
  qed
qed

lemma event_dict_distinct: "event_dict_of c events = Inr d \<Longrightarrow> distinct (map fst d)"
  by (auto simp: event_dict_of_def Let_def dict_ok_mk_dict split: if_splits)

lemma event_payloads_distinct: "event_payloads c events = Inr d \<Longrightarrow> distinct (map fst d)"
  by (auto simp: event_payloads_def result_simps event_dict_distinct split: if_splits)

subsection \<open>One call\<close>

lemma atomic_keeps:
  assumes "hub_contract hub others history" and "\<And>t t'. others t t' \<Longrightarrow> keeps E t t'"
    and "atomic_run others spec xs excuses (history w) r (history w')"
    and "\<And>x t ops a. spec x t = Inr (Commit ops a) \<Longrightarrow> keeps E' t (apply_ops ops t)"
  shows "keeps (E \<union> E') (head_tree (history w)) (head_tree (history w'))"
  using assms(3)
proof (rule atomic_run_relation [where R = "keeps (E \<union> E')"])
  show "history w \<noteq> []" using assms(1) by (simp add: hub_contract_def)
  show "keeps (E \<union> E') t t'" if "others t t'" for t t' using assms(2) [OF that] by (rule keeps_mono) simp
  show "keeps (E \<union> E') t (apply_ops ops t)" if "spec x t = Inr (Commit ops a)" for x t ops a
    using assms(4) [OF that] by (rule keeps_mono) simp
qed (auto intro: keeps_trans)

lemma create_absent_keeps:
  "create_absent_spec path ops conflict u t = Inr (Commit ops' a) \<Longrightarrow>
   keeps (op_path ` set ops - {path}) t (apply_ops ops' t)"
  by (auto simp: create_absent_spec_def dest: no_entry_no_file intro!: apply_ops_keeps split: if_splits)

lemma reserve_spec_keeps:
  "reserve_spec ms c action e i u t = Inr (Commit ops a) \<Longrightarrow>
   keeps {event_path c (ev_event_id e)} t (apply_ops ops t)"
  by (rule apply_ops_keeps)
    (auto simp: reserve_spec_def Let_def result_simps no_entry_no_file split: if_splits)

lemma create_campaign_keeps:
  assumes c: "hub_contract hub others history" and others: "\<And>t t'. others t t' \<Longrightarrow> keeps E t t'"
  shows "keeps (E \<union> unchecked_paths h (Create_campaign l req e)) (head_tree (history w))
    (head_tree (history (call_world h ms hub (Create_campaign l req e) w)))"
proof -
  let ?E = "unchecked_paths h (Create_campaign l req e)"
  let ?make = "create_absent hub (campaign_lock_path (cl_campaign_id l)) (creation_ops h ms l req e) Campaign_exists w"
  have "op_path ` set (creation_ops h ms l req e) - {campaign_lock_path (cl_campaign_id l)} \<subseteq> ?E"
    by (auto simp: creation_ops_def Let_def)
  then have "?make = (r, w') \<Longrightarrow> keeps (E \<union> ?E) (head_tree (history w)) (head_tree (history w'))" for r w'
    by (intro atomic_keeps [OF c others create_absent_atomic [OF c]])
      (auto dest!: create_absent_keeps elim: keeps_mono)
  then show ?thesis
    by (cases ?make) (auto simp: create_campaign_def io_raise_def)
qed

lemma append_event_keeps:
  assumes c: "hub_contract hub others history" and others: "\<And>t t'. others t t' \<Longrightarrow> keeps E t t'"
  shows "keeps (E \<union> unchecked_paths h (Append_event k e)) (head_tree (history w))
    (head_tree (history (call_world h ms hub (Append_event k e) w)))"
proof -
  let ?make = "create_absent hub (event_path k (ev_event_id e))
    [Add_file (event_path k (ev_event_id e)) (Json_file (event_json ms e))] Event_exists w"
  have "?make = (r, w') \<Longrightarrow> keeps (E \<union> {}) (head_tree (history w)) (head_tree (history w'))" for r w'
    by (rule atomic_keeps [OF c others create_absent_atomic [OF c]]) (auto dest!: create_absent_keeps)
  then show ?thesis
    by (cases ?make; cases "validate_event_scope k e")
      (auto simp: append_event_def io_bind_def io_result_def io_raise_def)
qed

lemma ensure_event_keeps:
  assumes c: "hub_contract hub others history" and others: "\<And>t t'. others t t' \<Longrightarrow> keeps E t t'"
  shows "keeps (E \<union> unchecked_paths h (Ensure_event k e)) (head_tree (history w))
    (head_tree (history (call_world h ms hub (Ensure_event k e) w)))"
proof -
  obtain r w' where run: "ensure_event ms hub k e w = (r, w')" by fastforce
  show ?thesis
  proof (cases "validate_event_scope k e")
    case (Inr u)
    have "keeps (E \<union> {}) (head_tree (history w)) (head_tree (history w'))"
      using ensure_event_atomic [OF c run] Inr
      by (intro atomic_keeps [OF c others]) (auto intro: ensure_spec_keeps)
    then show ?thesis by (simp add: run)
  qed (use run in \<open>simp add: ensure_event_refused\<close>)
qed

lemma ensure_events_keeps:
  assumes c: "hub_contract hub others history" and others: "\<And>t t'. others t t' \<Longrightarrow> keeps E t t'"
  shows "keeps (E \<union> unchecked_paths h (Ensure_events k es)) (head_tree (history w))
    (head_tree (history (call_world h ms hub (Ensure_events k es) w)))"
proof (cases "event_payloads k es")
  case (Inr d)
  obtain r w' where run: "ensure_events_loop ms hub d max_commit_attempts False w = (r, w')" by fastforce
  have "keeps E (head_tree (history w)) (head_tree (history w'))"
    by (rule ensure_events_loop_keeps [OF c others run event_payloads_distinct [OF Inr]])
  with Inr run show ?thesis by (simp add: ensure_events_def io_bind_def io_result_def)
qed (simp add: ensure_events_def io_bind_def io_result_def)

lemma guarded_events_keeps:
  assumes c: "hub_contract hub others history" and others: "\<And>t t'. others t t' \<Longrightarrow> keeps E t t'"
  shows "keeps (E \<union> unchecked_paths h (Ensure_events_unless_cancelled k es)) (head_tree (history w))
    (head_tree (history (call_world h ms hub (Ensure_events_unless_cancelled k es) w)))"
proof -
  obtain r w' where run: "ensure_events_unless_cancelled ms hub k es w = (r, w')" by fastforce
  show ?thesis
  proof (cases "guarded_event_payloads k es")
    case (Inr d)
    have "keeps (E \<union> {}) (head_tree (history w)) (head_tree (history w'))"
      by (rule atomic_keeps [OF c others guarded_atomic [OF c run Inr]]) (auto intro: guarded_spec_keeps)
    then show ?thesis by (simp add: run)
  qed (use run in \<open>simp add: ensure_events_unless_cancelled_def io_bind_def io_result_def\<close>)
qed

lemma reserve_action_keeps:
  assumes c: "hub_contract hub others history" and others: "\<And>t t'. others t t' \<Longrightarrow> keeps E t t'"
  shows "keeps (E \<union> unchecked_paths h (Reserve_action k a e)) (head_tree (history w))
    (head_tree (history (call_world h ms hub (Reserve_action k a e) w)))"
proof -
  obtain r w' where run: "reserve_action ms hub k a e w = (r, w')" by fastforce
  show ?thesis
  proof (cases "ev_kind e = Action_event AS_reserved \<and> ev_subject_id e = k \<and> (\<exists>p. ev_payload e = Reserved_payload p)")
    case True
    then obtain p where p: "ev_kind e = Action_event AS_reserved" "ev_subject_id e = k"
      "ev_payload e = Reserved_payload p" by blast
    have "keeps (E \<union> {event_path k (ev_event_id e)}) (head_tree (history w)) (head_tree (history w'))"
      by (rule atomic_keeps [OF c others reserve_atomic [OF c run p]]) (auto intro: reserve_spec_keeps)
    then show ?thesis by (simp add: run)
  next
    case False
    then have "w' = w"
      using run by (cases "ev_payload e") (auto simp: reserve_action_def io_bind_def io_result_def io_raise_def
          split: if_splits)
    then show ?thesis by (simp add: run)
  qed
qed

text \<open>
  C8. Records of a campaign are immutable. Whatever operation of the store runs, with
  whatever outcome and however its attempts interleave with other processes that keep
  existing files (outside \<open>E\<close>), every file present before is still there, unchanged,
  afterwards. Only two operations write a path they did not check: creating a campaign
  (which checks its lock file) writes its request, its submission event and its reservation
  record, and reserving an action (which checks the reservation file) writes its event.
\<close>

theorem control_records_immutable:
  assumes c: "hub_contract hub others history" and others: "\<And>t t'. others t t' \<Longrightarrow> keeps E t t'"
  shows "keeps (E \<union> unchecked_paths h sc) (head_tree (history w))
    (head_tree (history (call_world h ms hub sc w)))"
  by (cases sc)
    (simp_all only: create_campaign_keeps [OF c others] append_event_keeps [OF c others]
      ensure_event_keeps [OF c others] ensure_events_keeps [OF c others]
      guarded_events_keeps [OF c others] reserve_action_keeps [OF c others])

text \<open>A concrete setting: the repository in memory and one fixed parsed lock and event.\<close>

definition sample_cancel_event :: event where
  "sample_cancel_event =
     \<lparr>ev_event_id = ''evt-00000000000000000000000000000abc'', ev_subject_type = ST_campaign,
      ev_subject_id = ''c'', ev_kind = Campaign_event CK_cancel_requested, ev_observed_at = 5,
      ev_producer = PR_cli, ev_payload = Cancellation_payload ''stop''\<rparr>"

definition sample_invalid_event :: event where
  "sample_invalid_event =
     \<lparr>ev_event_id = ''evt-00000000000000000000000000000def'', ev_subject_type = ST_trial,
      ev_subject_id = ''t1'', ev_kind = Trial_event TK_invalid, ev_observed_at = 6,
      ev_producer = PR_reconciler, ev_payload = Lifecycle_payload \<lparr>lp_parent_id = None, lp_message = None\<rparr>\<rparr>"

definition sample_models :: "event \<Rightarrow> models" where
  "sample_models e =
     \<lparr>iso_text = show_int, lock_json = (\<lambda>l. JObj [(''campaign_id'', JStr (cl_campaign_id l))]),
      parse_lock = (\<lambda>v. Some sample_lock), parse_event = (\<lambda>v. Some e)\<rparr>"

abbreviation cancelled_world :: "tree list" where
  "cancelled_world \<equiv> snd (ensure_event (sample_models sample_cancel_event) mem_hub ''c'' sample_cancel_event [])"

theorem control_records_immutable_witness:
  "map_of (head_tree (mem_history (call_world sample_hash (sample_models sample_cancel_event) mem_hub
     (Ensure_event ''c'' sample_cancel_event) [[(''note'', Text_file ''x'')]]))) ''note'' = Some (Text_file ''x'')"
proof -
  have "keeps ({} \<union> unchecked_paths sample_hash (Ensure_event ''c'' sample_cancel_event))
      (head_tree (mem_history [[(''note'', Text_file ''x'')]]))
      (head_tree (mem_history (call_world sample_hash (sample_models sample_cancel_event) mem_hub
        (Ensure_event ''c'' sample_cancel_event) [[(''note'', Text_file ''x'')]])))"
    by (rule control_records_immutable [OF mem_hub_contract [of "\<lambda>t t'. False"]]) simp
  then show ?thesis by (rule keeps_file) (simp_all add: mem_history_last)
qed

section \<open>Cancellation\<close>

lemma ensure_event_scope:
  "ensure_event ms hub c e w = (Inr b, w1) \<Longrightarrow> validate_event_scope c e = Inr ()"
  by (cases "validate_event_scope c e") (auto simp: ensure_event_def io_bind_def io_result_def)

lemma cancellation_established:
  assumes "ensure_spec ms c e x t = Inr v" and "ev_kind e = Campaign_event CK_cancel_requested"
  shows "v = Done False \<and> (\<exists>f. map_of t (campaign_cancellation_path c) = Some f) \<or>
    (\<exists>ops. v = Commit ops True \<and> (\<exists>f. map_of (apply_ops ops t) (campaign_cancellation_path c) = Some f))"
  using assms
  by (auto simp: ensure_spec_def cancellation_spec_def Let_def json_at_def result_simps
      split: if_splits option.splits)

lemma guarded_spec_marked:
  assumes "map_of t (campaign_cancellation_path c) = Some f"
  shows "guarded_spec ms c expected x t \<noteq> Inr (Commit ops a)"
  using file_is_entry [OF assms] by (auto simp: guarded_spec_def result_simps split: if_splits)

lemma guarded_spec_done: "guarded_spec ms c expected x t = Inr (Done a) \<Longrightarrow> a = False"
  by (auto simp: guarded_spec_def result_simps split: if_splits)

text \<open>
  C9. A cancellation that was accepted wins. After \<open>ensure_event\<close> has returned for a
  cancellation request (whether it committed the request or adopted an earlier one), no
  later guarded batch of terminal trial events commits anything: the call returns \<open>False\<close>,
  because all its events were there already, or raises, and the history only grows by
  commits of others. This holds for every interleaving with processes that keep records.
\<close>

theorem cancellation_wins:
  assumes c: "hub_contract hub others history" and others: "\<And>t t'. others t t' \<Longrightarrow> keeps {} t t'"
    and kind: "ev_kind e = Campaign_event CK_cancel_requested"
    and first: "ensure_event ms hub c e w = (Inr b, w1)"
    and second: "ensure_events_unless_cancelled ms hub c events w1 = (r, w2)"
  shows "grows others (history w1) (history w2) \<and> r \<noteq> Inr True"
proof (cases "guarded_event_payloads c events")
  case (Inl x)
  with second show ?thesis
    by (auto simp: ensure_events_unless_cancelled_def io_bind_def io_result_def intro: grows_refl)
next
  case (Inr expected)
  let ?marked = "\<lambda>t. \<exists>f. map_of t (campaign_cancellation_path c) = Some f"
  have keep: "others t t' \<Longrightarrow> ?marked t \<Longrightarrow> ?marked t'" for t t'
    using others keeps_file by blast
  note scope = ensure_event_scope [OF first]
  have marked: "?marked (head_tree (history w1))"
    using ensure_event_atomic [OF c first scope]
    by (rule atomic_run_establishes) (use keep in blast, (use cancellation_established [OF _ kind] in blast)+)
  have ne: "history w1 \<noteq> []" using c by (simp add: hub_contract_def)
  note run = guarded_atomic [OF c second Inr]
  have "grows others (history w1) (history w2)"
    by (rule atomic_run_no_commit(1) [where P = ?marked, OF run ne marked])
      (use keep guarded_spec_marked in blast)+
  moreover have "r \<noteq> Inr True"
  proof
    assume r: "r = Inr True"
    have "\<exists>x \<in> {()}. \<exists>t. ?marked t \<and> guarded_spec ms c expected x t = Inr (Done True)"
      by (rule atomic_run_no_commit(2) [where P = ?marked, OF run ne marked _ _ r])
        (use keep guarded_spec_marked in blast)+
    then show False using guarded_spec_done by blast
  qed
  ultimately show ?thesis by simp
qed

lemma sample_cancel_run:
  "ensure_event (sample_models sample_cancel_event) mem_hub ''c'' sample_cancel_event [] =
     (Inr True, cancelled_world)"
  by code_simp

lemma sample_guarded_run:
  "fst (ensure_events_unless_cancelled (sample_models sample_cancel_event) mem_hub ''c''
     [sample_invalid_event] cancelled_world) = Inl (Raised Cancellation_won) \<and>
   fst (ensure_events_unless_cancelled (sample_models sample_cancel_event) mem_hub ''c''
     [sample_invalid_event] []) = Inr True"
  by code_simp

theorem cancellation_wins_witness:
  "fst (ensure_events_unless_cancelled (sample_models sample_cancel_event) mem_hub ''c''
     [sample_invalid_event] cancelled_world) \<noteq> Inr True"
proof -
  have k: "ev_kind sample_cancel_event = Campaign_event CK_cancel_requested"
    by (simp add: sample_cancel_event_def)
  show ?thesis
    using cancellation_wins [OF mem_hub_contract [of "\<lambda>t t'. False"] _ k sample_cancel_run, of _
        "fst (ensure_events_unless_cancelled (sample_models sample_cancel_event) mem_hub ''c''
          [sample_invalid_event] cancelled_world)"
        "snd (ensure_events_unless_cancelled (sample_models sample_cancel_event) mem_hub ''c''
          [sample_invalid_event] cancelled_world)"]
    by simp
qed

section \<open>Ensuring again\<close>

lemma event_path_not_marker [simp]: "event_path c i \<noteq> campaign_cancellation_path c"
  by (simp add: event_path_def campaign_cancellation_path_def)

lemma same_request_refl [simp]: "same_request (event_json ms e) (event_fields ms e)"
  by (simp add: event_json_def)

text \<open>An event that a tree holds as the same request (with its marker, for a cancellation).\<close>

lemma settled_iff:
  "ensure_spec ms c e u t = Inr (Done a) \<longleftrightarrow> a = False \<and>
     (\<exists>v. map_of t (event_path c (ev_event_id e)) = Some (Json_file v) \<and> same_request v (event_fields ms e)) \<and>
     (ev_kind e = Campaign_event CK_cancel_requested \<longrightarrow>
       (\<exists>v. map_of t (campaign_cancellation_path c) = Some (Json_file v) \<and> json_same v (cancellation_marker c e)))"
proof -
  have json: "json_at t p = Inr v \<longleftrightarrow> map_of t p = Some (Json_file v)" for p v
    by (auto simp: json_at_def split: option.splits elim!: json_of_file.elims)
  show ?thesis
    using file_is_entry [of t "event_path c (ev_event_id e)"] file_is_entry [of t "campaign_cancellation_path c"]
    by (auto simp: ensure_spec_def plain_spec_def resolution_spec_def cancellation_spec_def adopt_spec_def
        Let_def result_simps json split: if_splits)
qed

lemma ensure_settles:
  assumes "ensure_spec ms c e u t = Inr (Commit ops a)"
  shows "ensure_spec ms c e u (apply_ops ops t) = Inr (Done False)"
  using ensure_spec_commit [OF assms] by (auto simp: settled_iff split: if_splits)

text \<open>
  Ensuring an event is idempotent. After \<open>ensure_event\<close> has returned, calling it again
  with the same event never commits: it returns \<open>False\<close>, or fails for a reason that has
  nothing to do with the event (contention, an unreadable record, a failing service),
  however other processes that keep records interleave. This covers ordinary events,
  cancellations with their marker and manual resolutions.
\<close>

theorem ensure_event_idempotent:
  assumes c: "hub_contract hub others history" and others: "\<And>t t'. others t t' \<Longrightarrow> keeps {} t t'"
    and first: "ensure_event ms hub c e w = (Inr b, w1)"
    and second: "ensure_event ms hub c e w1 = (r, w2)"
  shows "grows others (history w1) (history w2) \<and>
    (r = Inr False \<or> (\<exists>x \<in> {Record_unreadable, Store_no_identity, Store_contended}. r = Inl (Raised x)) \<or>
     (\<exists>x. r = Inl (Hub_failed x)))"
proof -
  let ?settled = "\<lambda>t. ensure_spec ms c e () t = Inr (Done False)"
  have keep: "others t t' \<Longrightarrow> ?settled t \<Longrightarrow> ?settled t'" for t t'
    using others [of t t'] unfolding settled_iff by (blast dest: keeps_file)
  note scope = ensure_event_scope [OF first]
  have settled: "?settled (head_tree (history w1))"
    using ensure_event_atomic [OF c first scope]
    by (rule atomic_run_establishes) (use keep in blast, use settled_iff in fastforce, use ensure_settles in fastforce)
  have ne: "history w1 \<noteq> []" using c by (simp add: hub_contract_def)
  have no_commit: "ensure_spec ms c e x t \<noteq> Inr (Commit ops a)" if "?settled t" for x t ops a
    using that by (cases x) simp
  note run = atomic_run_no_commit [where P = ?settled, OF ensure_event_atomic [OF c second scope] ne settled]
  have g: "grows others (history w1) (history w2)"
    by (rule run(1)) (use keep no_commit in blast)+
  moreover have "a = False" if "r = Inr a" for a
  proof -
    have "\<exists>x \<in> {()}. \<exists>t. ?settled t \<and> ensure_spec ms c e x t = Inr (Done a)"
      by (rule run(2) [OF _ _ that]) (use keep no_commit in blast)+
    then show ?thesis by auto
  qed
  moreover have "x \<in> store_excuses" if "r = Inl (Raised x)" for x
  proof -
    have "x \<in> store_excuses \<or> (\<exists>y \<in> {()}. \<exists>t. ?settled t \<and> ensure_spec ms c e y t = Inl x)"
      by (rule run(3) [OF _ _ that]) (use keep no_commit in blast)+
    then show ?thesis by auto
  qed
  ultimately show ?thesis
    by (cases r; cases "projl r") (auto simp: store_excuses_def)
qed

theorem ensure_event_idempotent_witness:
  "fst (ensure_event (sample_models sample_cancel_event) mem_hub ''c'' sample_cancel_event cancelled_world) = Inr False \<and>
   grows (\<lambda>t t'. False) (mem_history cancelled_world)
     (mem_history (snd (ensure_event (sample_models sample_cancel_event) mem_hub ''c''
       sample_cancel_event cancelled_world)))"
proof -
  have r: "fst (ensure_event (sample_models sample_cancel_event) mem_hub ''c'' sample_cancel_event cancelled_world) = Inr False"
    by code_simp
  then obtain w2 where "ensure_event (sample_models sample_cancel_event) mem_hub ''c'' sample_cancel_event cancelled_world =
      (Inr False, w2)" by (metis prod.collapse)
  with ensure_event_idempotent [OF mem_hub_contract [of "\<lambda>t t'. False"] _ sample_cancel_run this] r
  show ?thesis by simp
qed

section \<open>Creating and loading\<close>

lemma creation_files:
  fixes h ms lock req e t
  defines "t' \<equiv> apply_ops (creation_ops h ms lock req e) t" and "c \<equiv> cl_campaign_id lock"
  shows "map_of t' (campaign_request_path c) = Some req"
    and "map_of t' (campaign_lock_path c) = Some (Json_file (lock_json ms lock))"
    and "map_of t' (event_path c (ev_event_id e)) = Some (Json_file (event_json ms e))"
  unfolding t'_def c_def creation_ops_def Let_def
  by (simp_all add: campaign_request_path_def campaign_lock_path_def event_path_def campaign_reservation_path_def)

lemma ends_with_append [simp]: "ends_with (s @ x) x"
  by (simp add: ends_with_def)

lemma event_path_listed:
  assumes "map_of t (event_path c i) = Some f"
  shows "event_path c i \<in> set (filter (\<lambda>p. ends_with p ''.json'') (paths_at t (''campaigns/'' @ c @ ''/events/'')))"
proof -
  have "event_path c i = (''campaigns/'' @ c @ ''/events/'') @ i @ ''.json''" by (simp add: event_path_def)
  then have "starts_with (event_path c i) (''campaigns/'' @ c @ ''/events/'')"
    by (metis starts_with_append)
  moreover have "event_path c i = (''campaigns/'' @ c @ ''/events/'' @ i) @ ''.json''" by (simp add: event_path_def)
  then have "ends_with (event_path c i) ''.json''" by (metis ends_with_append)
  ultimately show ?thesis using file_is_entry [OF assms] by (simp add: paths_at_def entries_iff)
qed

text \<open>
  C10. A created campaign is loaded back. When \<open>create_campaign\<close> has returned, a later
  \<open>load_snapshot\<close> of that campaign that returns gives the lock, the request bytes and,
  among the events, the submission event that were stored, whatever other processes that
  keep records have added; \<open>model_validate\<close> is only assumed to invert \<open>model_dump\<close> on this
  lock and this event.
\<close>

theorem created_campaign_loads_back:
  assumes c: "hub_contract hub others history" and others: "\<And>t t'. others t t' \<Longrightarrow> keeps {} t t'"
    and lock: "parse_lock ms (lock_json ms lock) = Some lock"
    and event: "parse_event ms (event_json ms e) = Some e"
    and first: "create_campaign h ms hub lock req e w = (Inr (), w1)"
    and second: "load_snapshot ms hub (cl_campaign_id lock) w1 = (Inr s, w2)"
  shows "sn_lock s = lock \<and> sn_request s = req \<and> e \<in> set (sn_events s)"
proof -
  let ?c = "cl_campaign_id lock"
  let ?stored = "\<lambda>t. map_of t (campaign_request_path ?c) = Some req \<and>
    map_of t (campaign_lock_path ?c) = Some (Json_file (lock_json ms lock)) \<and>
    map_of t (event_path ?c (ev_event_id e)) = Some (Json_file (event_json ms e))"
  have keep: "others t t' \<Longrightarrow> ?stored t \<Longrightarrow> ?stored t'" for t t'
    using others [of t t'] by (simp add: keeps_def)
  have run: "create_absent hub (campaign_lock_path ?c) (creation_ops h ms lock req e) Campaign_exists w = (Inr (), w1)"
    using first by (auto simp: create_campaign_def io_raise_def split: if_splits)
  have stored1: "?stored (head_tree (history w1))"
    using create_absent_atomic [OF c run]
    by (rule atomic_run_establishes)
      (use keep creation_files in \<open>auto simp: create_absent_spec_def split: if_splits\<close>)
  obtain m t where m: "grows others (history w1) m" "last m = (sn_control_commit s, t)"
    and l: "rbind (json_at t (campaign_lock_path ?c)) (\<lambda>v. of_option Record_invalid (parse_lock ms v)) = Inr (sn_lock s)"
    and ev: "events_at ms t ?c = Inr (sn_events s)"
    and rq: "map_of t (campaign_request_path ?c) = Some (sn_request s)"
    by (rule load_snapshot_at [OF c second])
  have "?stored (head_tree m)"
    by (rule grows_invariant [where P = ?stored, OF m(1) _ stored1])
      (use c keep in \<open>auto simp: hub_contract_def\<close>)
  then have stored: "?stored t" using m(2) by simp
  then have path: "event_path ?c (ev_event_id e) \<in>
      set (filter (\<lambda>p. ends_with p ''.json'') (paths_at t (''campaigns/'' @ ?c @ ''/events/'')))"
    by (blast intro: event_path_listed)
  have "e \<in> set (sn_events s)"
    using mapM_memI [OF ev [unfolded events_at_def] path] stored event by (auto simp: json_at_def)
  with stored l rq lock show ?thesis by (simp add: json_at_def)
qed

abbreviation created_world :: "tree list" where
  "created_world \<equiv> snd (create_campaign sample_hash (sample_models sample_submitted) mem_hub sample_lock
     (Text_file ''req'') sample_submitted [])"

lemma sample_creation:
  "create_campaign sample_hash (sample_models sample_submitted) mem_hub sample_lock (Text_file ''req'')
     sample_submitted [] = (Inr (), created_world)"
  by code_simp

lemma sample_loading:
  "isl (fst (load_snapshot (sample_models sample_submitted) mem_hub ''c'' created_world)) = False"
  by code_simp

theorem created_campaign_loads_back_witness:
  "\<exists>s. fst (load_snapshot (sample_models sample_submitted) mem_hub ''c'' created_world) = Inr s \<and>
     sn_lock s = sample_lock \<and> sn_request s = Text_file ''req'' \<and> sample_submitted \<in> set (sn_events s)"
proof -
  obtain s w2 where run: "load_snapshot (sample_models sample_submitted) mem_hub ''c'' created_world = (Inr s, w2)"
    using sample_loading by (metis prod.collapse sum.collapse(2))
  have c: "cl_campaign_id sample_lock = ''c''" by (simp add: sample_lock_def)
  have "sn_lock s = sample_lock \<and> sn_request s = Text_file ''req'' \<and> sample_submitted \<in> set (sn_events s)"
    by (rule created_campaign_loads_back [OF mem_hub_contract [of "\<lambda>t t'. False"] _ _ _ sample_creation
          run [folded c]]) (simp_all add: sample_models_def)
  with run show ?thesis by simp
qed

end
