(* ===== verification/Controller_Store_Properties.thy ===== *)
theory Controller_Store_Properties
  imports Sample_Hub
begin

text \<open>
  The properties of the controller records: one physical Job owns the controller of a
  campaign, a published status never moves backwards, immutable records are written once,
  and attempt reservations have no gaps. All hold under \<open>hub_contract\<close>, for every
  interleaving with processes that use the store in the same way.
\<close>

section \<open>Models that read back what they dump\<close>

definition dumps_back :: "'m model \<Rightarrow> 'm \<Rightarrow> bool" where
  "dumps_back m x \<longleftrightarrow>
     (\<exists>kvs. model_dump m x = JObj kvs) \<and>
     (\<forall>v. json_same v (model_dump m x) \<longrightarrow> model_validate m v = Some x)"

lemma dumps_back_add:
  assumes "dumps_back m x" and "map_of t p = Some (Json_file (model_dump m x))"
  shows "record_at m t p = Inr (Some x)"
  using assms unfolding dumps_back_def by (metis json_same_refl record_at_add)

section \<open>Ownership\<close>

text \<open>
  What other Jobs may do to the claim file of the campaign while \<open>mine\<close> holds it: acquire at
  a time before \<open>mine\<close> expires, release or renew a claim of their own.
\<close>

definition foreign_controllers ::
  "controller_claim model \<Rightarrow> string \<Rightarrow> controller_claim \<Rightarrow> tree \<Rightarrow> tree \<Rightarrow> bool" where
  "foreign_controllers m path mine t t' \<longleftrightarrow>
     (\<exists>claim terminal ops. kc_acquired_at claim < kc_expires_at mine \<and>
        record_spec m path (acquire_decision m claim terminal path) () t = Inr (Commit ops ()) \<and>
        t' = apply_ops ops t) \<or>
     (\<exists>claim ops. claim \<noteq> mine \<and>
        record_spec m path (release_decision claim path) () t = Inr (Commit ops ()) \<and> t' = apply_ops ops t) \<or>
     (\<exists>previous renewed ops. previous \<noteq> mine \<and> dumps_back m previous \<and>
        json_spec path (replace_decision m previous renewed path) () t = Inr (Commit ops ()) \<and>
        t' = apply_ops ops t) \<or>
     map_of t' path = map_of t path"

abbreviation owned :: "controller_claim model \<Rightarrow> string \<Rightarrow> controller_claim \<Rightarrow> tree \<Rightarrow> bool" where
  "owned m path mine t \<equiv> record_at m t path = Inr (Some mine)"

lemma acquire_owned:
  assumes "owned m path mine t" and "claim \<noteq> mine" and "kc_acquired_at claim < kc_expires_at mine"
  shows "record_spec m path (acquire_decision m claim terminal path) u t = Inl Owned_by_another_job"
  using assms by (auto simp: record_spec_def acquire_decision_def Let_def)

lemma foreign_keeps_owner:
  assumes step: "foreign_controllers m path mine t t'" and held: "owned m path mine t"
  shows "owned m path mine t'"
proof -
  from record_at_file [OF held] obtain kvs where kvs: "map_of t path = Some (Json_file (JObj kvs))"
    "model_validate m (JObj kvs) = Some mine" by blast
  have "object_at t path = Inr (Some kvs)"
    using file_is_entry [OF kvs(1)] kvs(1) by (simp add: object_at_def)
  moreover have "\<not> json_same (JObj kvs) (model_dump m x)" if "x \<noteq> mine" "dumps_back m x" for x
    using that kvs(2) by (auto simp: dumps_back_def)
  ultimately have "record_spec m path (acquire_decision m claim terminal path) () t \<noteq> Inr (Commit ops ())"
    "claim' \<noteq> mine \<Longrightarrow> record_spec m path (release_decision claim' path) () t \<noteq> Inr (Commit ops ())"
    "previous \<noteq> mine \<Longrightarrow> dumps_back m previous \<Longrightarrow>
      json_spec path (replace_decision m previous renewed path) () t \<noteq> Inr (Commit ops ())"
    if "kc_acquired_at claim < kc_expires_at mine" for claim terminal ops claim' previous renewed
    using that held
    by (auto simp: record_spec_def json_spec_def acquire_decision_def release_decision_def
        replace_decision_def Let_def split: if_splits)
  moreover obtain claim0 :: controller_claim where "kc_acquired_at claim0 < kc_expires_at mine"
  proof
    show "kc_acquired_at (mine\<lparr>kc_acquired_at := kc_expires_at mine - 1\<rparr>) < kc_expires_at mine" by simp
  qed
  ultimately have "map_of t' path = map_of t path"
    using step unfolding foreign_controllers_def by blast
  then show ?thesis by (rule record_at_keep [OF held])
qed

lemma acquire_decision_establishes:
  assumes "record_spec m path (acquire_decision m mine terminal path) u t = Inr v" and "dumps_back m mine"
  shows "v = Done () \<and> owned m path mine t \<or> (\<exists>ops. v = Commit ops () \<and> owned m path mine (apply_ops ops t))"
proof -
  from assms(1) obtain observed where "record_at m t path = Inr observed"
    "acquire_decision m mine terminal path observed = Inr v"
    by (auto simp: record_spec_def result_simps)
  moreover have "owned m path mine (apply_ops [add_record m path mine] t)"
    by (rule dumps_back_add [OF assms(2)]) (simp add: add_record_def)
  ultimately show ?thesis
    by (cases observed) (auto simp: acquire_decision_def Let_def split: if_splits)
qed

text \<open>
  C11. One Job owns the controller. After \<open>acquire\<close> has returned for a claim, and until the
  claim's expiry, no other Job acquires the controller of the same campaign: its call does
  not return normally, and the claim file keeps the first claim, however the calls
  interleave with Jobs that acquire, renew or release claims of their own.
\<close>

theorem controller_mutual_exclusion:
  assumes c: "hub_contract hub (foreign_controllers m path mine) history" and m: "dumps_back m mine"
    and path: "controller_claim_path (kc_campaign_id mine) = Inr path"
    and first: "acquire_controller m hub mine terminal w = (Inr (), w1)"
    and rival: "rival \<noteq> mine" "kc_campaign_id rival = kc_campaign_id mine"
      "kc_acquired_at rival < kc_expires_at mine"
    and second: "acquire_controller m hub rival terminal' w1 = (r, w2)"
  shows "r \<noteq> Inr () \<and> owned m path mine (head_tree (history w1)) \<and> owned m path mine (head_tree (history w2))"
proof -
  note keep = foreign_keeps_owner
  have run1: "update_record m hub (Inr path) (acquire_decision m mine terminal) w = (Inr (), w1)"
    and run2: "update_record m hub (Inr path) (acquire_decision m rival terminal') w1 = (r, w2)"
    using first second path rival(2) by (simp_all add: acquire_controller_def)
  have held1: "owned m path mine (head_tree (history w1))"
    using update_record_atomic [OF c run1]
    by (rule atomic_run_establishes)
      (use keep acquire_decision_establishes [OF _ m] in \<open>blast+\<close>)
  have refuse: "record_spec m path (acquire_decision m rival terminal' path) x t = Inl Owned_by_another_job"
    if "owned m path mine t" for x t using acquire_owned [OF that rival(1,3)] .
  have ne: "history w1 \<noteq> []" using c by (simp add: hub_contract_def)
  note run = atomic_run_no_commit [where P = "owned m path mine", OF update_record_atomic [OF c run2] ne held1]
  have g: "grows (foreign_controllers m path mine) (history w1) (history w2)"
    by (rule run(1)) (use keep refuse in \<open>auto\<close>)
  have "r \<noteq> Inr ()"
  proof
    assume r: "r = Inr ()"
    have "\<exists>x \<in> {()}. \<exists>t. owned m path mine t \<and>
        record_spec m path (acquire_decision m rival terminal' path) x t = Inr (Done ())"
      by (rule run(2) [OF _ _ r]) (use keep refuse in \<open>auto\<close>)
    then show False using refuse by auto
  qed
  moreover have "owned m path mine (head_tree (history w2))"
    by (rule grows_invariant [where P = "owned m path mine", OF g ne held1]) (rule keep)
  ultimately show ?thesis using held1 by simp
qed

text \<open>A concrete model: records are told apart by one text; the known records read back.\<close>

definition sample_model :: "('m \<Rightarrow> string) \<Rightarrow> 'm list \<Rightarrow> 'm model" where
  "sample_model key known =
     (let dump = (\<lambda>x. JObj [(''id'', JStr (key x))]) in
      \<lparr>model_dump = dump, model_validate = (\<lambda>v. List.find (\<lambda>x. json_same v (dump x)) known)\<rparr>)"

lemma sample_model_dumps_back: "dumps_back (sample_model key (x # known)) x"
  by (simp add: dumps_back_def sample_model_def Let_def)

definition sample_claim :: "string \<Rightarrow> int \<Rightarrow> int \<Rightarrow> controller_claim" where
  "sample_claim job n now =
     \<lparr>kc_campaign_id = ''c'', kc_job_id = job, kc_plan_digest = ''d'', kc_attempt = n,
      kc_acquired_at = now, kc_heartbeat_at = now, kc_expires_at = now + 100\<rparr>"

definition sample_claim_model :: "controller_claim model" where
  "sample_claim_model = sample_model kc_job_id [sample_claim ''j1'' 1 0, sample_claim ''j2'' 2 50]"

abbreviation claimed_world :: "tree list" where
  "claimed_world \<equiv> snd (acquire_controller sample_claim_model mem_hub (sample_claim ''j1'' 1 0) False [])"

lemma sample_controller_acquired:
  "acquire_controller sample_claim_model mem_hub (sample_claim ''j1'' 1 0) False [] = (Inr (), claimed_world)"
  by code_simp

theorem controller_mutual_exclusion_witness:
  "fst (acquire_controller sample_claim_model mem_hub (sample_claim ''j2'' 2 50) True claimed_world) \<noteq> Inr () \<and>
   owned sample_claim_model ''claims/campaign-controllers/c.json'' (sample_claim ''j1'' 1 0)
     (head_tree (mem_history claimed_world))"
proof -
  let ?mine = "sample_claim ''j1'' 1 0" and ?rival = "sample_claim ''j2'' 2 50"
  have "dumps_back sample_claim_model ?mine"
    unfolding sample_claim_model_def by (rule sample_model_dumps_back)
  moreover have "controller_claim_path (kc_campaign_id ?mine) = Inr ''claims/campaign-controllers/c.json''"
    and "?rival \<noteq> ?mine" and "kc_campaign_id ?rival = kc_campaign_id ?mine"
    and "kc_acquired_at ?rival < kc_expires_at ?mine" by code_simp+
  ultimately show ?thesis
    using controller_mutual_exclusion [OF mem_hub_contract _ _ sample_controller_acquired _ _ _ prod.collapse [symmetric]]
    by blast
qed

section \<open>The published status\<close>

definition status_forward :: "controller_status model \<Rightarrow> string \<Rightarrow> tree \<Rightarrow> tree \<Rightarrow> bool" where
  "status_forward m path t t' \<longleftrightarrow>
     (\<forall>s. record_at m t path = Inr (Some s) \<longrightarrow>
        (\<exists>s'. record_at m t' path = Inr (Some s') \<and> \<not> status_moves_backwards s s'))"

lemma moves_backwards_refl [simp]: "\<not> status_moves_backwards s s"
  by (simp add: status_moves_backwards_def)

lemma moves_forward_trans:
  "\<not> status_moves_backwards a b \<Longrightarrow> \<not> status_moves_backwards b c \<Longrightarrow> \<not> status_moves_backwards a c"
  by (auto simp: status_moves_backwards_def)

lemma status_forward_refl [simp]: "status_forward m path t t"
  by (simp add: status_forward_def)

lemma status_forward_trans:
  "status_forward m path a b \<Longrightarrow> status_forward m path b c \<Longrightarrow> status_forward m path a c"
  unfolding status_forward_def by (meson moves_forward_trans)

text \<open>
  C12. A published status never moves backwards. Whatever its outcome and however it
  interleaves with other writers that respect the same rule, \<open>write_status\<close> leaves a status
  of the same campaign and plan, with an attempt and a heartbeat that are not smaller, and
  with the same Job if the attempt is the same.
\<close>

theorem controller_status_monotone:
  assumes c: "hub_contract hub others history"
    and others: "\<And>t t'. others t t' \<Longrightarrow> status_forward m path t t'"
    and m: "dumps_back m status" and path: "controller_status_path (ks_campaign_id status) = Inr path"
    and run: "write_status m hub status w = (r, w')"
    and before: "record_at m (head_tree (history w)) path = Inr (Some s)"
  shows "\<exists>s'. record_at m (head_tree (history w')) path = Inr (Some s') \<and>
    ks_campaign_id s' = ks_campaign_id s \<and> ks_plan_digest s' = ks_plan_digest s \<and>
    ks_attempt s \<le> ks_attempt s' \<and> ks_heartbeat_at s \<le> ks_heartbeat_at s' \<and>
    (ks_attempt s' = ks_attempt s \<longrightarrow> ks_job_id s' = ks_job_id s)"
proof -
  have own: "status_forward m path t (apply_ops ops t)"
    if "record_spec m path (status_decision m status path) x t = Inr (Commit ops a)" for x t ops a
    unfolding status_forward_def
  proof (intro allI impI)
    fix s0 assume "record_at m t path = Inr (Some s0)"
    with that have ops: "ops = [add_record m path status]" and fw: "\<not> status_moves_backwards s0 status"
      by (auto simp: record_spec_def status_decision_def Let_def split: if_splits)
    have "record_at m (apply_ops ops t) path = Inr (Some status)"
      by (rule dumps_back_add [OF m]) (simp add: ops add_record_def)
    with fw show "\<exists>s'. record_at m (apply_ops ops t) path = Inr (Some s') \<and> \<not> status_moves_backwards s0 s'"
      by blast
  qed
  have "update_record m hub (Inr path) (status_decision m status) w = (r, w')"
    using run path by (simp add: write_status_def)
  from update_record_atomic [OF c this]
  have "status_forward m path (head_tree (history w)) (head_tree (history w'))"
    by (rule atomic_run_relation)
      (use c others own status_forward_trans in \<open>auto simp: hub_contract_def\<close>)
  with before show ?thesis unfolding status_forward_def status_moves_backwards_def by fastforce
qed

definition sample_status :: "string \<Rightarrow> int \<Rightarrow> int \<Rightarrow> controller_status" where
  "sample_status job n now =
     \<lparr>ks_campaign_id = ''c'', ks_plan_digest = ''d'', ks_job_id = job, ks_attempt = n,
      ks_state = KS_running, ks_heartbeat_at = now, ks_lease_expires_at = now + 100,
      ks_physical_deadline = 1000, ks_remaining_seconds = 10,
      ks_projection = \<lparr>kn_logical_trials = 2, kn_terminal_trials = 1, kn_active_trials = 1,
        kn_physical_executions = 2\<rparr>,
      ks_current_action = None, ks_current_wave = None, ks_spend_reserved_microusd = 0,
      ks_block_reason = None, ks_event_revision = None, ks_evidence_revision = None, ks_capacity = None\<rparr>"

definition sample_status_model :: "controller_status model" where
  "sample_status_model =
     sample_model ks_job_id [sample_status ''j2'' 2 60, sample_status ''j1'' 1 50]"

abbreviation status_world :: "tree list" where
  "status_world \<equiv> snd (write_status sample_status_model mem_hub (sample_status ''j1'' 1 50) [])"

theorem controller_status_monotone_witness:
  "\<exists>s'. record_at sample_status_model (head_tree (mem_history (snd (write_status sample_status_model mem_hub
     (sample_status ''j2'' 2 60) status_world)))) ''campaigns/c/controller-status.json'' = Inr (Some s') \<and>
     1 \<le> ks_attempt s' \<and> 50 \<le> ks_heartbeat_at s'"
proof -
  have m: "dumps_back sample_status_model (sample_status ''j2'' 2 60)"
    unfolding sample_status_model_def by (rule sample_model_dumps_back)
  have p: "controller_status_path (ks_campaign_id (sample_status ''j2'' 2 60)) =
      Inr ''campaigns/c/controller-status.json''" by code_simp
  have b: "record_at sample_status_model (head_tree (mem_history status_world))
      ''campaigns/c/controller-status.json'' = Inr (Some (sample_status ''j1'' 1 50))" by code_simp
  show ?thesis
    using controller_status_monotone [OF mem_hub_contract [of "\<lambda>t t'. False"] _ m p prod.collapse [symmetric] b]
    by (auto simp: sample_status_def)
qed

section \<open>Immutable records\<close>

lemma immutable_spec_keeps:
  "json_spec path (immutable_decision m x path) u t = Inr (Commit ops a) \<Longrightarrow> keeps {} t (apply_ops ops t)"
  by (rule apply_ops_keeps)
    (auto simp: json_spec_def object_at_def immutable_decision_def add_record_def result_simps no_entry_no_file
      split: if_splits option.splits)

definition recorded :: "'m model \<Rightarrow> string \<Rightarrow> 'm \<Rightarrow> tree \<Rightarrow> bool" where
  "recorded m path x t \<longleftrightarrow>
     (\<exists>kvs. map_of t path = Some (Json_file (JObj kvs)) \<and> json_same (JObj kvs) (model_dump m x))"

lemma immutable_spec_records:
  assumes "json_spec path (immutable_decision m x path) u t = Inr v" and "dumps_back m x"
  shows "v = Done () \<and> recorded m path x t \<or> (\<exists>ops. v = Commit ops () \<and> recorded m path x (apply_ops ops t))"
proof -
  from assms(2) obtain kvs where "model_dump m x = JObj kvs" by (auto simp: dumps_back_def)
  with assms(1) show ?thesis
    by (fastforce simp: json_spec_def object_at_def immutable_decision_def add_record_def recorded_def result_simps
      split: if_splits option.splits elim!: object_of_file.elims)
qed

lemma immutable_spec_again:
  assumes "recorded m path x t" and "\<not> json_same (model_dump m x) (model_dump m y)"
  shows "json_spec path (immutable_decision m y path) u t = Inl Immutable_conflict"
proof -
  from assms(1) obtain kvs where k: "map_of t path = Some (Json_file (JObj kvs))"
    "json_same (JObj kvs) (model_dump m x)" by (auto simp: recorded_def)
  with assms(2) have "\<not> json_same (JObj kvs) (model_dump m y)"
    by (meson json_same_sym json_same_trans)
  with k(1) file_is_entry [OF k(1)] show ?thesis
    by (simp add: json_spec_def object_at_def immutable_decision_def)
qed

text \<open>
  An immutable controller record is written once. After \<open>_write_immutable\<close> has returned
  (for a launch receipt, a start or end receipt, an attempt reservation or a recovery
  decision), the record stays in the repository, and a later write of a different record to
  the same path changes no file at all and does not return normally.
\<close>

theorem immutable_record_written_once:
  assumes c: "hub_contract hub others history" and others: "\<And>t t'. others t t' \<Longrightarrow> keeps {} t t'"
    and m: "dumps_back m x" and first: "write_immutable m hub (Inr path) x w = (Inr (), w1)"
    and different: "\<not> json_same (model_dump m x) (model_dump m y)"
    and second: "write_immutable m hub (Inr path) y w1 = (r, w2)"
  shows "recorded m path x (head_tree (history w1)) \<and> recorded m path x (head_tree (history w2)) \<and>
    grows others (history w1) (history w2) \<and> r \<noteq> Inr ()"
proof -
  let ?rec = "recorded m path x"
  have keep: "others t t' \<Longrightarrow> ?rec t \<Longrightarrow> ?rec t'" for t t'
    using others [of t t'] by (auto simp: recorded_def dest: keeps_file)
  have rec1: "?rec (head_tree (history w1))"
    using update_json_atomic [OF c first [unfolded write_immutable_def]]
    by (rule atomic_run_establishes) (use keep immutable_spec_records [OF _ m] in blast)+
  have ne: "history w1 \<noteq> []" using c by (simp add: hub_contract_def)
  note run = atomic_run_no_commit [where P = ?rec,
      OF update_json_atomic [OF c second [unfolded write_immutable_def]] ne rec1]
  have g: "grows others (history w1) (history w2)"
    by (rule run(1)) (use keep immutable_spec_again [OF _ different] in auto)
  have "r \<noteq> Inr ()"
  proof
    assume r: "r = Inr ()"
    have "\<exists>u \<in> {()}. \<exists>t. ?rec t \<and> json_spec path (immutable_decision m y path) u t = Inr (Done ())"
      by (rule run(2) [OF _ _ r]) (use keep immutable_spec_again [OF _ different] in auto)
    then show False using immutable_spec_again [OF _ different] by auto
  qed
  moreover have "?rec (head_tree (history w2))"
    by (rule grows_invariant [where P = ?rec, OF g ne rec1]) (rule keep)
  ultimately show ?thesis using rec1 g by simp
qed

definition sample_receipt :: "string \<Rightarrow> launch_receipt" where
  "sample_receipt job =
     \<lparr>lr_campaign_id = ''c'', lr_plan_digest = ''d'', lr_input_digest = ''i'', lr_attempt = 1, lr_job_id = job\<rparr>"

abbreviation receipt_model :: "launch_receipt model" where
  "receipt_model \<equiv> sample_model lr_job_id [sample_receipt ''j1'']"

abbreviation receipt_world :: "tree list" where
  "receipt_world \<equiv> snd (write_immutable receipt_model mem_hub (Inr ''receipt'') (sample_receipt ''j1'') [])"

theorem immutable_record_written_once_witness:
  "recorded receipt_model ''receipt'' (sample_receipt ''j1'') (head_tree (mem_history receipt_world)) \<and>
   fst (write_immutable receipt_model mem_hub (Inr ''receipt'') (sample_receipt ''j2'') receipt_world) \<noteq> Inr ()"
proof -
  have first: "write_immutable receipt_model mem_hub (Inr ''receipt'') (sample_receipt ''j1'') [] =
      (Inr (), receipt_world)" by code_simp
  have different: "\<not> json_same (model_dump receipt_model (sample_receipt ''j1''))
      (model_dump receipt_model (sample_receipt ''j2''))" by code_simp
  show ?thesis
    using immutable_record_written_once [OF mem_hub_contract [of "\<lambda>t t'. False"] _ sample_model_dumps_back
        first different prod.collapse [symmetric]] by simp
qed

section \<open>Attempt reservations\<close>

lemma show_nat_length: "length (show_nat n) = 1 \<longleftrightarrow> n < 10"
proof -
  have "show_nat m \<noteq> []" for m by (subst show_nat.simps) simp
  then show ?thesis by (subst show_nat.simps) simp
qed

lemma show_nat_inj: "show_nat m = show_nat n \<Longrightarrow> m = n"
proof (induction m arbitrary: n rule: less_induct)
  case (less m)
  show ?case
  proof (cases "m < 10")
    case True
    with less.prems have "n < 10" using show_nat_length by metis
    with True less.prems show ?thesis
      using digit_char_inj by (simp add: show_nat.simps [of m] show_nat.simps [of n])
  next
    case False
    with less.prems have n: "\<not> n < 10" using show_nat_length by metis
    with False less.prems have "show_nat (m div 10) = show_nat (n div 10)"
      and "digit_char (m mod 10) = digit_char (n mod 10)"
      by (simp_all add: show_nat.simps [of m] show_nat.simps [of n])
    then have "m div 10 = n div 10" and "m mod 10 = n mod 10"
      using less.IH [of "m div 10"] False digit_char_inj by auto
    then show ?thesis by (metis div_mult_mod_eq)
  qed
qed

lemma attempt_path_inj:
  assumes "controller_attempt_path c i = Inr p" and "controller_attempt_path c j = Inr p"
  shows "i = j"
  using assms show_nat_inj [of "nat i" "nat j"]
  by (auto simp: controller_attempt_path_def show_int_def result_simps split: if_splits)

definition attempts_contiguous :: "string \<Rightarrow> tree \<Rightarrow> bool" where
  "attempts_contiguous c t \<longleftrightarrow>
     (\<forall>n p q. 1 < n \<longrightarrow> controller_attempt_path c n = Inr p \<longrightarrow> controller_attempt_path c (n - 1) = Inr q \<longrightarrow>
        map_of t p \<noteq> None \<longrightarrow> map_of t q \<noteq> None)"

lemma read_record_grows:
  assumes c: "hub_contract hub others history" and run: "read_record m hub path w = (r, w1)"
  shows "grows others (history w) (history w1)"
    and "r = Inr (Some x) \<Longrightarrow> path = Inr q \<Longrightarrow> \<exists>h. grows others (history w) h \<and> h \<noteq> [] \<and>
      record_at m (head_tree h) q = Inr (Some x) \<and> grows others h (history w1)"
proof -
  obtain r0 w0 where i: "repo_head hub Status_no_identity w = (r0, w0)" by fastforce
  have "grows others (history w) (history w1) \<and> (\<forall>x q. r = Inr (Some x) \<longrightarrow> path = Inr q \<longrightarrow>
      (\<exists>h. grows others (history w) h \<and> h \<noteq> [] \<and>
        record_at m (head_tree h) q = Inr (Some x) \<and> grows others h (history w1)))"
  proof (cases r0)
    case (Inl e)
    with run i have "w1 = w0" "r = Inl e" by (simp_all add: read_record_def io_bind_def)
    with repo_head_fails(1) [OF c i [unfolded Inl]] show ?thesis by simp
  next
    case (Inr h)
    obtain t where g: "grows others (history w) (history w0)" and t: "last (history w0) = (h, t)"
      and ne: "history w0 \<noteq> []" and ht: "(h, t) \<in> set (history w0)"
      by (rule repo_head_at [OF c i [unfolded Inr]])
    show ?thesis
    proof (cases path)
      case (Inl e)
      with run i Inr have "w1 = w0" by (simp add: read_record_def io_bind_def io_result_def)
      with g Inl show ?thesis by simp
    next
      case (Inr q)
      have "read_optional m hub q h w0 = (r, w1)"
        using run i \<open>r0 = Inr h\<close> Inr by (simp add: read_record_def io_bind_def io_result_def)
      with yields_read_optional [OF c, of h t m q] ht have g2: "grows others (history w0) (history w1)"
        and a: "r = lift_error Raised (record_at m t q) \<or> (\<exists>e. r = Inl (Hub_failed e)) \<or>
          (\<exists>e \<in> {Status_unreadable}. r = Inl (Raised e))"
        unfolding yields_def by blast+
      from a have "record_at m t q = Inr (Some x)" if "r = Inr (Some x)" for x
        using that by (cases "record_at m t q") auto
      with g g2 t ne Inr show ?thesis by (auto intro: grows_trans intro!: exI [of _ "history w0"])
    qed
  qed
  then show "grows others (history w) (history w1)"
    and "r = Inr (Some x) \<Longrightarrow> path = Inr q \<Longrightarrow> \<exists>h. grows others (history w) h \<and> h \<noteq> [] \<and>
      record_at m (head_tree h) q = Inr (Some x) \<and> grows others h (history w1)" by auto
qed

text \<open>The predecessor that \<open>reserve_attempt\<close> has read is still there afterwards.\<close>

lemma read_attempt_present:
  assumes c: "hub_contract hub others history" and keep: "\<And>t t'. others t t' \<Longrightarrow> keeps {} t t'"
    and run: "read_attempt m hub k n w = (r, w1)"
  shows "grows others (history w) (history w1)"
    and "r = Inr (Some y) \<Longrightarrow> controller_attempt_path k n = Inr q \<Longrightarrow> map_of (head_tree (history w1)) q \<noteq> None"
proof -
  show "grows others (history w) (history w1)"
    using run read_record_grows(1) [OF c] by (auto simp: read_attempt_def io_return_def grows_refl split: if_splits)
  assume r: "r = Inr (Some y)" and q: "controller_attempt_path k n = Inr q"
  with run have "read_record m hub (Inr q) w = (Inr (Some y), w1)"
    by (auto simp: read_attempt_def io_return_def split: if_splits)
  from read_record_grows(2) [OF c this] obtain h where h: "h \<noteq> []" "record_at m (head_tree h) q = Inr (Some y)"
    "grows others h (history w1)" by blast
  from record_at_file [OF h(2)] have here: "map_of (head_tree h) q \<noteq> None" by auto
  show "map_of (head_tree (history w1)) q \<noteq> None"
    by (rule grows_invariant [where P = "\<lambda>t. map_of t q \<noteq> None", OF h(3,1) here])
      (use keep in \<open>fastforce dest: keeps_file\<close>)
qed

text \<open>Adding the file of an attempt whose predecessor is there leaves no gap.\<close>

lemma attempts_contiguous_add:
  assumes "attempts_contiguous c t" and "controller_attempt_path c n = Inr p"
    and "n = 1 \<or> (\<exists>q. controller_attempt_path c (n - 1) = Inr q \<and> map_of t q \<noteq> None)"
  shows "attempts_contiguous c (apply_ops [Add_file p f] t)"
  unfolding attempts_contiguous_def
proof (intro allI impI)
  fix k p' q assume k: "1 < k" and p': "controller_attempt_path c k = Inr p'"
    and q: "controller_attempt_path c (k - 1) = Inr q" and here: "map_of (apply_ops [Add_file p f] t) p' \<noteq> None"
  have "map_of t q \<noteq> None"
  proof (cases "p' = p")
    case True
    with attempt_path_inj [of c k p n] p' assms(2) have "k = n" by simp
    with k q assms(3) show ?thesis by auto
  next
    case False
    with here have "map_of t p' \<noteq> None" by simp
    with assms(1) k p' q show ?thesis unfolding attempts_contiguous_def by blast
  qed
  then show "map_of (apply_ops [Add_file p f] t) q \<noteq> None" by simp
qed

definition ready_for_attempt :: "string \<Rightarrow> int \<Rightarrow> tree \<Rightarrow> bool" where
  "ready_for_attempt k n t \<longleftrightarrow> attempts_contiguous k t \<and>
     (n \<le> 1 \<or> (\<exists>q. controller_attempt_path k (n - 1) = Inr q \<and> map_of t q \<noteq> None))"

lemma ready_for_attempt_step:
  assumes s: "json_spec p (immutable_decision m x p) u t = Inr (Commit ops a)"
    and p: "controller_attempt_path k n = Inr p" and ready: "ready_for_attempt k n t"
  shows "ready_for_attempt k n (apply_ops ops t)"
proof -
  from s have ops: "ops = [add_record m p x]"
    by (auto simp: json_spec_def immutable_decision_def result_simps split: option.splits if_splits)
  have "1 \<le> n" using p by (auto simp: controller_attempt_path_def result_simps)
  then have "attempts_contiguous k (apply_ops ops t)"
    unfolding ops add_record_def
    by (intro attempts_contiguous_add [OF _ p]) (use ready in \<open>auto simp: ready_for_attempt_def\<close>)
  with ready show ?thesis unfolding ready_for_attempt_def ops add_record_def by auto
qed

text \<open>
  C13. Attempt reservations have no gaps. If the reserved attempts of a campaign are
  contiguous, they still are after \<open>reserve_attempt\<close>, whatever it returns: although it looks
  for the predecessor at one head and commits on a later one, no interleaving with processes
  that keep records and leave no gaps themselves makes it reserve an attempt whose
  predecessor is missing.
\<close>

theorem attempt_reservations_contiguous:
  assumes c: "hub_contract hub others history"
    and keep: "\<And>t t'. others t t' \<Longrightarrow> keeps {} t t'"
    and gaps: "\<And>t t'. others t t' \<Longrightarrow> attempts_contiguous k t \<Longrightarrow> attempts_contiguous k t'"
    and before: "attempts_contiguous k (head_tree (history w))"
    and k: "at_campaign_id x = k" and run: "reserve_attempt m hub x w = (r, w')"
  shows "attempts_contiguous k (head_tree (history w'))"
proof -
  have ne: "history v \<noteq> []" for v using c by (simp add: hub_contract_def)
  let ?n = "at_attempt x"
  obtain r1 w1 where read: "read_attempt m hub k (?n - 1) w = (r1, w1)" by fastforce
  note present = read_attempt_present [OF c _ read]
  have g1: "grows others (history w) (history w1)" by (rule present(1)) (rule keep)
  have cont1: "attempts_contiguous k (head_tree (history w1))"
    by (rule grows_invariant [where P = "attempts_contiguous k", OF g1 ne before]) (rule gaps)
  show ?thesis
  proof (cases "\<exists>p v. r1 = Inr v \<and> \<not> (?n > 1 \<and> v = None) \<and> controller_attempt_path k ?n = Inr p")
    case False
    then have "w' = w1"
      using run read k by (cases "controller_attempt_path k ?n")
        (auto simp: reserve_attempt_def io_bind_def io_raise_def write_immutable_def update_json_refused
          split: sum.splits if_splits)
    with cont1 show ?thesis by simp
  next
    case True
    then obtain p v where v: "r1 = Inr v" "\<not> (?n > 1 \<and> v = None)" and p: "controller_attempt_path k ?n = Inr p" by blast
    have upd: "update_json hub (Inr p) (immutable_decision m x) w1 = (r, w')"
      using run read k v p by (auto simp: reserve_attempt_def io_bind_def write_immutable_def split: if_splits)
    have ready: "ready_for_attempt k ?n (head_tree (history w1))"
    proof (cases "?n \<le> 1")
      case False
      with v obtain y where y: "r1 = Inr (Some y)" by auto
      obtain q where q: "controller_attempt_path k (?n - 1) = Inr q"
        using p False by (auto simp: controller_attempt_path_def result_simps)
      have "map_of (head_tree (history w1)) q \<noteq> None" by (rule present(2) [OF _ y q]) (rule keep)
      with q cont1 show ?thesis by (auto simp: ready_for_attempt_def)
    qed (use cont1 in \<open>simp add: ready_for_attempt_def\<close>)
    have others_ready: "others t t' \<Longrightarrow> ready_for_attempt k ?n t \<Longrightarrow> ready_for_attempt k ?n t'" for t t'
      using gaps [of t t'] keep [of t t'] by (auto simp: ready_for_attempt_def keeps_def)
    have "ready_for_attempt k ?n (head_tree (history w1)) \<longrightarrow> ready_for_attempt k ?n (head_tree (history w'))"
      using update_json_atomic [OF c upd]
    proof (rule atomic_run_relation [where R = "\<lambda>t t'. ready_for_attempt k ?n t \<longrightarrow> ready_for_attempt k ?n t'"])
      show "ready_for_attempt k ?n t \<longrightarrow> ready_for_attempt k ?n (apply_ops ops t)"
        if "json_spec p (immutable_decision m x p) u t = Inr (Commit ops a)" for u t ops a
        using ready_for_attempt_step [OF that p] by blast
    qed (use ne others_ready in auto)
    with ready show ?thesis by (simp add: ready_for_attempt_def)
  qed
qed

definition sample_reservation :: "int \<Rightarrow> attempt_reservation" where
  "sample_reservation n =
     \<lparr>at_campaign_id = ''c'', at_plan_digest = ''d'', at_input_digest = ''i'', at_input_uri = ''u'',
      at_output_uri = ''o'', at_worker_revision = ''w'', at_attempt = n, at_reserved_at = n\<rparr>"

abbreviation reservation_model :: "attempt_reservation model" where
  "reservation_model \<equiv> sample_model (\<lambda>r. show_int (at_attempt r)) [sample_reservation 1, sample_reservation 2]"

abbreviation reserved_world :: "tree list" where
  "reserved_world \<equiv> snd (reserve_attempt reservation_model mem_hub (sample_reservation 1) [])"

theorem attempt_reservations_contiguous_witness:
  "attempts_contiguous ''c'' (head_tree (mem_history reserved_world)) \<and>
   fst (reserve_attempt reservation_model mem_hub (sample_reservation 3) reserved_world) = Inl (Raised No_predecessor)"
proof -
  have "attempts_contiguous ''c'' (head_tree (mem_history []))"
    by (simp add: attempts_contiguous_def mem_history_last)
  then have "attempts_contiguous ''c'' (head_tree (mem_history reserved_world))"
    using attempt_reservations_contiguous [OF mem_hub_contract [of "\<lambda>t t'. False"] _ _ _ _ prod.collapse [symmetric],
        of "''c''" "[]" "sample_reservation 1"] by (simp add: sample_reservation_def)
  moreover have "fst (reserve_attempt reservation_model mem_hub (sample_reservation 3) reserved_world) =
      Inl (Raised No_predecessor)" by code_simp
  ultimately show ?thesis by simp
qed

end
