(* ===== verification/Experiment_Spec.thy ===== *)
theory Experiment_Spec
  imports Campaign_Lock Text_Patterns
begin

text \<open>
  The experiment manifest of \<open>src/src/harbor_hf/models.py\<close> (\<open>ExperimentSpec\<close> and the
  models inside it, with \<open>ProviderTarget\<close> of \<open>provider_models.py\<close>) and the planner of
  \<open>src/src/harbor_hf/planner.py\<close>: which cells of the model, deployment and agent matrix run,
  and the digest that identifies a manifest.

  A record holds the fields the program reads. The remaining fields of a profile matter only
  for digests: \<open>..._fields\<close> is what pydantic's \<open>model_dump(mode="json", exclude_none=True)\<close>
  returns for them, as a JSON object. A function \<open>dump_...\<close> is \<open>model_dump\<close> of the whole
  model; its first argument is \<open>exclude_none\<close> where the program uses both modes.
\<close>

section \<open>Profiles\<close>

record model_profile =
  mp_id :: string
  mp_repo :: string
  mp_revision :: string
  mp_weights :: json

record endpoint_ref =
  er_namespace :: string
  er_name :: string
  er_served_model_name :: string

record engine_spec =
  en_name :: string
  en_image :: string
  en_command :: "string list"
  en_arguments :: "string list"
  en_environment :: "(string, string) dict"
  en_secret_names :: "string list"

record endpoint_profile =
  ep_id :: string
  ep_hardware :: string
  ep_accelerator_count :: int
  ep_region :: string
  ep_engine :: engine_spec
  ep_endpoint :: "endpoint_ref option"
  ep_parameters :: "(string, json) dict"

record provider_limits =
  pvl_max_concurrent_requests :: int
  pvl_max_spend_usd :: "decimal option"
  pvl_estimated_wave_cost_usd :: "decimal option"

definition decimal_le :: "decimal \<Rightarrow> decimal \<Rightarrow> bool" where
  "decimal_le a b \<longleftrightarrow> dec_coeff a * 10 ^ dec_places b \<le> dec_coeff b * 10 ^ dec_places a"

definition provider_limits_ok :: "provider_limits \<Rightarrow> bool" where
  "provider_limits_ok l \<longleftrightarrow>
     1 \<le> pvl_max_concurrent_requests l \<and>
     (case pvl_max_spend_usd l of None \<Rightarrow> True | Some d \<Rightarrow> 0 < dec_coeff d) \<and>
     (case pvl_estimated_wave_cost_usd l of None \<Rightarrow> True | Some d \<Rightarrow> 0 < dec_coeff d) \<and>
     ((pvl_max_spend_usd l = None) = (pvl_estimated_wave_cost_usd l = None)) \<and>
     (case (pvl_max_spend_usd l, pvl_estimated_wave_cost_usd l) of
        (Some cap, Some estimate) \<Rightarrow> decimal_le estimate cap | _ \<Rightarrow> True)"

datatype provider_api = Api_chat_completions | Api_responses

record provider_target =
  pt_id :: string
  pt_service :: string
  pt_api :: provider_api
  pt_model :: string
  pt_limits :: provider_limits
  pt_fields :: "(string \<times> json) list"

datatype deployment_target =
    Endpoint_target endpoint_profile
  | Provider_target provider_target

datatype revision_kind = Rev_package | Rev_git | Rev_harbor_source

record agent_profile =
  ag_id :: string
  ag_name :: string
  ag_import_path :: "string option"
  ag_revision :: string
  ag_revision_kind :: revision_kind
  ag_parameter_keys :: "string list"
  ag_fields :: "(string \<times> json) list"

fun target_id :: "deployment_target \<Rightarrow> string" where
  "target_id (Endpoint_target p) = ep_id p"
| "target_id (Provider_target p) = pt_id p"

fun is_provider :: "deployment_target \<Rightarrow> bool" where
  "is_provider (Provider_target _) = True"
| "is_provider (Endpoint_target _) = False"

section \<open>The manifest\<close>

record matrix_rule =
  mr_models :: "string list"
  mr_deployments :: "string list"
  mr_agents :: "string list"

record matrix_spec =
  mx_models :: "model_profile list"
  mx_deployments :: "deployment_target list"
  mx_agents :: "agent_profile list"
  mx_include :: "matrix_rule list"
  mx_exclude :: "matrix_rule list"

definition matrix_rule_ok :: "matrix_rule \<Rightarrow> bool" where
  "matrix_rule_ok r \<longleftrightarrow>
     (mr_models r \<noteq> [] \<or> mr_deployments r \<noteq> [] \<or> mr_agents r \<noteq> []) \<and>
     distinct (mr_models r) \<and> distinct (mr_deployments r) \<and> distinct (mr_agents r)"

definition matrix_spec_ok :: "matrix_spec \<Rightarrow> bool" where
  "matrix_spec_ok m \<longleftrightarrow>
     mx_models m \<noteq> [] \<and> mx_deployments m \<noteq> [] \<and> mx_agents m \<noteq> [] \<and>
     distinct (map mp_id (mx_models m)) \<and> distinct (map target_id (mx_deployments m)) \<and>
     distinct (map ag_id (mx_agents m)) \<and>
     list_all (\<lambda>r. matrix_rule_ok r \<and> set (mr_models r) \<subseteq> set (map mp_id (mx_models m)) \<and>
         set (mr_deployments r) \<subseteq> set (map target_id (mx_deployments m)) \<and>
         set (mr_agents r) \<subseteq> set (map ag_id (mx_agents m)))
       (mx_include m @ mx_exclude m)"

datatype benchmark_source =
    Source_git string string string
  | Source_directory string
  | Source_bundle string string

record judge_spec =
  jd_task_names :: "string list"
  jd_exclude_task_names :: "string list"
  jd_fields :: "(string \<times> json) list"

record benchmark_spec =
  bm_dataset :: string
  bm_dataset_digest :: "string option"
  bm_source :: "benchmark_source option"
  bm_judge :: "judge_spec option"
  bm_task_names :: "string list"
  bm_task_digests :: "(string, string) dict"

record serving_binding =
  sb_concurrency :: int
  sb_model_sha256 :: string
  sb_deployment_sha256 :: string
  sb_agent_sha256 :: string
  sb_benchmark_sha256 :: string
  sb_harbor_runtime_sha256 :: string
  sb_server_context_tokens :: int
  sb_max_output_tokens :: int
  sb_reasoning_required :: bool
  sb_sample_task_count :: int
  sb_sample_task_names :: "string list"
  sb_sample_tasks_sha256 :: string
  sb_fields :: "(string \<times> json) list"

record execution_spec =
  ex_attempts :: int
  ex_concurrent_trials :: int
  ex_max_trials_per_shard :: int
  ex_max_shards_per_wave :: int
  ex_timeout_seconds :: int
  ex_agent_setup_timeout_multiplier :: "json option"
  ex_server_context_tokens :: "int option"
  ex_max_output_tokens :: "int option"
  ex_reasoning_required :: bool
  ex_serving_profile :: "serving_binding option"
  ex_controller :: "controller_spec option"

definition execution_spec_ok :: "execution_spec \<Rightarrow> bool" where
  "execution_spec_ok e \<longleftrightarrow>
     1 \<le> ex_attempts e \<and> 1 \<le> ex_concurrent_trials e \<and> 1 \<le> ex_max_trials_per_shard e \<and>
     1 \<le> ex_max_shards_per_wave e \<and> 1 \<le> ex_timeout_seconds e \<and>
     opt_ge 1 (ex_server_context_tokens e) \<and> opt_ge 1 (ex_max_output_tokens e) \<and>
     (case ex_serving_profile e of None \<Rightarrow> True | Some b \<Rightarrow> 1 \<le> sb_concurrency b) \<and>
     (case ex_controller e of None \<Rightarrow> True | Some c \<Rightarrow> controller_spec_ok c)"

datatype visibility = Visibility_private | Visibility_public

record publishing_spec =
  pb_dataset :: string
  pb_dataset_visibility :: visibility
  pb_index_dataset :: "string option"
  pb_index_dataset_visibility :: "visibility option"
  pb_evaluation_id :: string
  pb_role :: publication_role
  pb_component_kind :: "component_kind option"

definition publishing_spec_ok :: "publishing_spec \<Rightarrow> bool" where
  "publishing_spec_ok p \<longleftrightarrow>
     pb_index_dataset p \<noteq> Some (pb_dataset p) \<and>
     ((pb_index_dataset p = None) = (pb_index_dataset_visibility p = None)) \<and>
     ((pb_role p = Role_component) = (pb_component_kind p \<noteq> None))"

record artifact_spec =
  af_bucket :: string
  af_trial_evidence :: "json option"

record source_pin =
  sp_repository :: string
  sp_revision :: string

record remote_spec =
  rj_namespace :: string
  rj_image :: string
  rj_flavor :: string
  rj_timeout_seconds :: int
  rw_worker :: source_pin
  rh_source :: source_pin
  rh_sandbox_flavor :: string
  rh_sandbox_idle_timeout_seconds :: int

record experiment_spec =
  es_name :: string
  es_labels :: "(string, string) dict"
  es_benchmark :: benchmark_spec
  es_matrix :: matrix_spec
  es_execution :: execution_spec
  es_artifacts :: artifact_spec
  es_publishing :: publishing_spec
  es_remote :: "remote_spec option"

fun target_ok :: "deployment_target \<Rightarrow> bool" where
  "target_ok (Provider_target p) = provider_limits_ok (pt_limits p)"
| "target_ok (Endpoint_target _) = True"

definition manifest_ok :: "experiment_spec \<Rightarrow> bool" where
  "manifest_ok s \<longleftrightarrow>
     matrix_spec_ok (es_matrix s) \<and> list_all target_ok (mx_deployments (es_matrix s)) \<and>
     execution_spec_ok (es_execution s) \<and> publishing_spec_ok (es_publishing s)"

section \<open>Dumps\<close>

definition opt_field :: "bool \<Rightarrow> string \<Rightarrow> json option \<Rightarrow> (string \<times> json) list" where
  "opt_field exclude_none k m =
     (case m of None \<Rightarrow> if exclude_none then [] else [(k, JNull)] | Some v \<Rightarrow> [(k, v)])"

definition json_str_dict :: "(string, string) dict \<Rightarrow> json" where
  "json_str_dict d = JObj (map (\<lambda>(k, v). (k, JStr v)) d)"

definition model_dump_fields :: "model_profile \<Rightarrow> (string \<times> json) list" where
  "model_dump_fields m =
     [(''id'', JStr (mp_id m)), (''repo'', JStr (mp_repo m)), (''revision'', JStr (mp_revision m)),
      (''weights'', mp_weights m)]"

definition endpoint_ref_json :: "endpoint_ref \<Rightarrow> json" where
  "endpoint_ref_json e =
     JObj [(''namespace'', JStr (er_namespace e)), (''name'', JStr (er_name e)),
       (''served_model_name'', JStr (er_served_model_name e))]"

definition engine_json :: "engine_spec \<Rightarrow> json" where
  "engine_json e =
     JObj [(''name'', JStr (en_name e)), (''image'', JStr (en_image e)),
       (''command'', json_strs (en_command e)), (''arguments'', json_strs (en_arguments e)),
       (''environment'', json_str_dict (en_environment e)),
       (''secret_names'', json_strs (en_secret_names e))]"

fun target_dump_fields :: "deployment_target \<Rightarrow> (string \<times> json) list" where
  "target_dump_fields (Endpoint_target p) =
     [(''id'', JStr (ep_id p)), (''provider'', JStr ''hf-inference-endpoints''),
      (''hardware'', JStr (ep_hardware p)), (''accelerator_count'', JInt (ep_accelerator_count p)),
      (''region'', JStr (ep_region p)), (''engine'', engine_json (ep_engine p))] @
     opt_field True ''endpoint'' (map_option endpoint_ref_json (ep_endpoint p)) @
     [(''parameters'', JObj (ep_parameters p))]"
| "target_dump_fields (Provider_target p) = (''id'', JStr (pt_id p)) # pt_fields p"

definition agent_dump_fields :: "agent_profile \<Rightarrow> (string \<times> json) list" where
  "agent_dump_fields a = (''id'', JStr (ag_id a)) # ag_fields a"

definition without_keys :: "string list \<Rightarrow> (string \<times> json) list \<Rightarrow> (string \<times> json) list" where
  "without_keys ks kvs = filter (\<lambda>(k, v). k \<notin> set ks) kvs"

fun benchmark_source_json :: "benchmark_source \<Rightarrow> json" where
  "benchmark_source_json (Source_git repository revision path) =
     JObj [(''type'', JStr ''git''), (''repository'', JStr repository),
       (''revision'', JStr revision), (''path'', JStr path)]"
| "benchmark_source_json (Source_directory path) =
     JObj [(''type'', JStr ''directory''), (''path'', JStr path)]"
| "benchmark_source_json (Source_bundle content manifest) =
     JObj [(''type'', JStr ''bundle''), (''content_digest'', JStr content),
       (''manifest_sha256'', JStr manifest)]"

definition judge_json :: "judge_spec \<Rightarrow> json" where
  "judge_json j =
     JObj (jd_fields j @ [(''task_names'', JArr (map JStr (jd_task_names j))),
       (''exclude_task_names'', JArr (map JStr (jd_exclude_task_names j)))])"

definition benchmark_json :: "benchmark_spec \<Rightarrow> json" where
  "benchmark_json b =
     JObj ((''dataset'', JStr (bm_dataset b)) #
       opt_field True ''dataset_digest'' (map_option JStr (bm_dataset_digest b)) @
       opt_field True ''source'' (map_option benchmark_source_json (bm_source b)) @
       opt_field True ''judge'' (map_option judge_json (bm_judge b)) @
       [(''task_names'', JArr (map JStr (bm_task_names b))),
        (''task_digests'', json_str_dict (bm_task_digests b))])"

definition matrix_rule_json :: "matrix_rule \<Rightarrow> json" where
  "matrix_rule_json r =
     JObj [(''models'', JArr (map JStr (mr_models r))),
       (''deployments'', JArr (map JStr (mr_deployments r))),
       (''agents'', JArr (map JStr (mr_agents r)))]"

definition matrix_fields :: "matrix_spec \<Rightarrow> (string \<times> json) list" where
  "matrix_fields m =
     [(''models'', JArr (map (\<lambda>p. JObj (model_dump_fields p)) (mx_models m))),
      (''deployments'', JArr (map (\<lambda>p. JObj (target_dump_fields p)) (mx_deployments m))),
      (''agents'', JArr (map (\<lambda>p. JObj (agent_dump_fields p)) (mx_agents m))),
      (''include'', JArr (map matrix_rule_json (mx_include m))),
      (''exclude'', JArr (map matrix_rule_json (mx_exclude m)))]"

text \<open>\<open>str\<close> of a decimal that is at least one.\<close>

definition decimal_str :: "decimal \<Rightarrow> string" where
  "decimal_str d =
     (let p = dec_places d; s = show_nat (nat (dec_coeff d)) in
      if p = 0 then s else take (length s - p) s @ ''.'' @ drop (length s - p) s)"

definition controller_json :: "controller_spec \<Rightarrow> json" where
  "controller_json c =
     JObj [(''planning_trial_seconds'', JInt (cc_planning_trial_seconds c)),
       (''headroom_factor'', JStr (decimal_str (cc_headroom_factor c))),
       (''wave_reserve_seconds'', JInt (cc_wave_reserve_seconds c)),
       (''controller_reserve_seconds'', JInt (cc_controller_reserve_seconds c)),
       (''heartbeat_seconds'', JInt (cc_heartbeat_seconds c)),
       (''stale_after_seconds'', JInt (cc_stale_after_seconds c)),
       (''max_attempts'', JInt (cc_max_attempts c))]"

definition serving_binding_json :: "serving_binding \<Rightarrow> json" where
  "serving_binding_json b =
     JObj (sb_fields b @ [(''concurrency'', JInt (sb_concurrency b)),
       (''model_sha256'', JStr (sb_model_sha256 b)),
       (''deployment_sha256'', JStr (sb_deployment_sha256 b)),
       (''agent_sha256'', JStr (sb_agent_sha256 b)),
       (''benchmark_sha256'', JStr (sb_benchmark_sha256 b)),
       (''harbor_runtime_sha256'', JStr (sb_harbor_runtime_sha256 b)),
       (''server_context_tokens'', JInt (sb_server_context_tokens b)),
       (''max_output_tokens'', JInt (sb_max_output_tokens b)),
       (''reasoning_required'', JBool (sb_reasoning_required b)),
       (''sample_task_count'', JInt (sb_sample_task_count b)),
       (''sample_task_names'', JArr (map JStr (sb_sample_task_names b))),
       (''sample_tasks_sha256'', JStr (sb_sample_tasks_sha256 b))])"

definition execution_fields :: "execution_spec \<Rightarrow> (string \<times> json) list" where
  "execution_fields e =
     [(''attempts'', JInt (ex_attempts e)), (''concurrent_trials'', JInt (ex_concurrent_trials e)),
      (''max_trials_per_shard'', JInt (ex_max_trials_per_shard e)),
      (''max_shards_per_wave'', JInt (ex_max_shards_per_wave e)),
      (''timeout_seconds'', JInt (ex_timeout_seconds e))] @
     opt_field True ''agent_setup_timeout_multiplier'' (ex_agent_setup_timeout_multiplier e) @
     opt_field True ''server_context_tokens'' (map_option JInt (ex_server_context_tokens e)) @
     opt_field True ''max_output_tokens'' (map_option JInt (ex_max_output_tokens e)) @
     (if ex_reasoning_required e then [(''reasoning_required'', JBool True)] else []) @
     opt_field True ''serving_profile'' (map_option serving_binding_json (ex_serving_profile e)) @
     opt_field True ''controller'' (map_option controller_json (ex_controller e))"

fun visibility_name :: "visibility \<Rightarrow> string" where
  "visibility_name Visibility_private = ''private''"
| "visibility_name Visibility_public = ''public''"

fun role_name :: "publication_role \<Rightarrow> string" where
  "role_name Role_final = ''final''"
| "role_name Role_component = ''component''"
| "role_name Role_diagnostic = ''diagnostic''"

fun component_name :: "component_kind \<Rightarrow> string" where
  "component_name Component_base = ''base''"
| "component_name Component_correction = ''correction''"

definition publishing_json :: "bool \<Rightarrow> publishing_spec \<Rightarrow> json" where
  "publishing_json exclude_none p =
     JObj ([(''dataset'', JStr (pb_dataset p)),
        (''dataset_visibility'', JStr (visibility_name (pb_dataset_visibility p)))] @
       opt_field exclude_none ''index_dataset'' (map_option JStr (pb_index_dataset p)) @
       opt_field exclude_none ''index_dataset_visibility''
         (map_option (JStr \<circ> visibility_name) (pb_index_dataset_visibility p)) @
       [(''evaluation_id'', JStr (pb_evaluation_id p)), (''role'', JStr (role_name (pb_role p)))] @
       opt_field exclude_none ''component_kind''
         (map_option (JStr \<circ> component_name) (pb_component_kind p)))"

definition artifacts_json :: "artifact_spec \<Rightarrow> json" where
  "artifacts_json a =
     JObj ((''bucket'', JStr (af_bucket a)) # opt_field True ''trial_evidence'' (af_trial_evidence a))"

definition source_pin_json :: "source_pin \<Rightarrow> json" where
  "source_pin_json s =
     JObj [(''repository'', JStr (sp_repository s)), (''revision'', JStr (sp_revision s))]"

definition harbor_json :: "remote_spec \<Rightarrow> json" where
  "harbor_json r =
     JObj [(''source'', source_pin_json (rh_source r)), (''environment'', JStr ''hf-sandbox''),
       (''sandbox_flavor'', JStr (rh_sandbox_flavor r)),
       (''sandbox_idle_timeout_seconds'', JInt (rh_sandbox_idle_timeout_seconds r))]"

definition remote_json :: "remote_spec \<Rightarrow> json" where
  "remote_json r =
     JObj [(''job'', JObj [(''namespace'', JStr (rj_namespace r)), (''image'', JStr (rj_image r)),
              (''flavor'', JStr (rj_flavor r)), (''timeout_seconds'', JInt (rj_timeout_seconds r)),
              (''token_secret_name'', JStr ''HF_TOKEN'')]),
       (''worker'', source_pin_json (rw_worker r)), (''harbor'', harbor_json r)]"

definition metadata_json :: "experiment_spec \<Rightarrow> json" where
  "metadata_json s =
     JObj [(''name'', JStr (es_name s)), (''labels'', json_str_dict (es_labels s))]"

section \<open>The digest of a manifest\<close>

text \<open>
  \<open>experiment_digest\<close> leaves out empty matrix rules and execution fields that hold their
  default, so that manifests written before those fields existed keep their digest.
\<close>

definition default_execution_fields :: "(string \<times> json) list" where
  "default_execution_fields =
     [(''max_trials_per_shard'', JInt 64), (''max_shards_per_wave'', JInt 8),
      (''server_context_tokens'', JNull), (''max_output_tokens'', JNull),
      (''reasoning_required'', JBool False)]"

definition remove_default_execution_fields :: "(string \<times> json) list \<Rightarrow> (string \<times> json) list" where
  "remove_default_execution_fields kvs =
     filter (\<lambda>(k, v). map_of default_execution_fields k \<noteq> Some v) kvs"

definition digest_matrix_fields :: "matrix_spec \<Rightarrow> (string \<times> json) list" where
  "digest_matrix_fields m =
     filter (\<lambda>(k, v). \<not> (k \<in> {''include'', ''exclude''} \<and> v = JArr [])) (matrix_fields m)"

definition experiment_payload :: "experiment_spec \<Rightarrow> json" where
  "experiment_payload s =
     JObj ([(''api_version'', JStr ''harbor-hf/v1alpha1''), (''kind'', JStr ''Experiment''),
        (''metadata'', metadata_json s), (''benchmark'', benchmark_json (es_benchmark s)),
        (''matrix'', JObj (digest_matrix_fields (es_matrix s))),
        (''execution'', JObj (remove_default_execution_fields (execution_fields (es_execution s)))),
        (''artifacts'', artifacts_json (es_artifacts s)),
        (''publishing'', publishing_json True (es_publishing s))] @
       opt_field True ''remote'' (map_option remote_json (es_remote s)))"

definition experiment_digest :: "hash \<Rightarrow> experiment_spec \<Rightarrow> string" where
  "experiment_digest h s = digest h (experiment_payload s)"

section \<open>Matrix cells\<close>

record run_cell =
  cell_model :: string
  cell_deployment :: string
  cell_agent :: string

definition rule_matches :: "matrix_rule \<Rightarrow> run_cell \<Rightarrow> bool" where
  "rule_matches r c \<longleftrightarrow>
     (mr_models r = [] \<or> cell_model c \<in> set (mr_models r)) \<and>
     (mr_deployments r = [] \<or> cell_deployment c \<in> set (mr_deployments r)) \<and>
     (mr_agents r = [] \<or> cell_agent c \<in> set (mr_agents r))"

datatype spec_error =
    Matrix_excludes_every_cell
  | Binding_without_remote
  | Binding_concurrency_mismatch
  | Binding_needs_one_cell
  | Missing_profile
  | Binding_field_mismatch string
  | Binding_reasoning_mismatch
  | Binding_sample_count_mismatch
  | Binding_sample_not_unique
  | Binding_sample_unknown_task
  | Binding_sample_digest_mismatch
  | Execution_token_limit_missing string
  | Binding_token_limit_mismatch string
  | Evidence_policy_missing
  | Dataset_digest_not_full
  | Dataset_not_a_package
  | Dataset_address_not_full
  | Dataset_digest_conflict
  | Dataset_not_pinned
  | Task_digests_missing
  | Task_digests_not_exact
  | Judge_without_task_digests
  | Judge_selector_matches_nothing
  | Judge_exclusion_matches_nothing
  | Judge_exclusion_outside
  | Model_revision_mutable
  | Serving_image_mutable
  | Agent_revision_mutable
  | Job_timeout_without_headroom
  | Sandbox_timeout_exceeds_job
  | Task_names_not_unique
  | Sourced_dataset_with_reference
  | Directory_with_digest
  | Source_digest_mismatch
  | Package_resolved_to_other_type
  | Package_reference_changed
  | Source_lock_changed_request
  | Directory_without_bundle
  | Directory_unresolved

definition matrix_cells :: "matrix_spec \<Rightarrow> run_cell list" where
  "matrix_cells m =
     [\<lparr>cell_model = mp_id x, cell_deployment = target_id y, cell_agent = ag_id z\<rparr>.
        x \<leftarrow> sort_key mp_id (mx_models m),
        y \<leftarrow> sort_key target_id (mx_deployments m),
        z \<leftarrow> sort_key ag_id (mx_agents m)]"

definition resolved_cells :: "matrix_spec \<Rightarrow> spec_error + run_cell list" where
  "resolved_cells m =
     (let included = filter (\<lambda>c. mx_include m = [] \<or> (\<exists>r \<in> set (mx_include m). rule_matches r c))
            (matrix_cells m);
          cells = filter (\<lambda>c. \<not> (\<exists>r \<in> set (mx_exclude m). rule_matches r c)) included
      in if cells = [] then Inl Matrix_excludes_every_cell else Inr cells)"

record experiment_plan =
  xn_experiment :: string
  xn_spec_digest :: string
  xn_run_count :: int
  xn_logical_trial_count :: "int option"
  xn_cells :: "run_cell list"

definition selected_tasks :: "benchmark_spec \<Rightarrow> string list" where
  "selected_tasks b =
     filter (\<lambda>t. \<exists>s \<in> set (bm_task_names b).
         task_matches_selector t s (dict_keys (bm_task_digests b)))
       (dict_keys (bm_task_digests b))"

definition build_plan :: "hash \<Rightarrow> experiment_spec \<Rightarrow> spec_error + experiment_plan" where
  "build_plan h s =
     rbind (resolved_cells (es_matrix s)) (\<lambda>cells.
       let b = es_benchmark s;
           matched = int (length (selected_tasks b));
           task_count =
             (if matched \<noteq> 0 then Some matched
              else if \<exists>t \<in> set (bm_task_names b). is_task_pattern t then None
              else Some (int (length (bm_task_names b))))
       in Inr \<lparr>xn_experiment = es_name s, xn_spec_digest = experiment_digest h s,
            xn_run_count = int (length cells),
            xn_logical_trial_count =
              map_option (\<lambda>n. int (length cells) * n * ex_attempts (es_execution s)) task_count,
            xn_cells = cells\<rparr>)"

section \<open>Facts about cells\<close>

lemma set_matrix_cells:
  "c \<in> set (matrix_cells m) \<longleftrightarrow>
     cell_model c \<in> mp_id ` set (mx_models m) \<and>
     cell_deployment c \<in> target_id ` set (mx_deployments m) \<and>
     cell_agent c \<in> ag_id ` set (mx_agents m)"
  by (cases c) (auto simp: matrix_cells_def)

lemma resolved_cells_iff:
  assumes "resolved_cells m = Inr cells"
  shows "c \<in> set cells \<longleftrightarrow> c \<in> set (matrix_cells m) \<and>
     (mx_include m = [] \<or> (\<exists>r \<in> set (mx_include m). rule_matches r c)) \<and>
     \<not> (\<exists>r \<in> set (mx_exclude m). rule_matches r c)"
  using assms by (auto simp: resolved_cells_def Let_def split: if_splits)

lemma resolved_cells_nonempty: "resolved_cells m = Inr cells \<Longrightarrow> cells \<noteq> []"
  by (auto simp: resolved_cells_def Let_def split: if_splits)

lemma distinct_product:
  assumes "distinct xs" "distinct ys" "distinct zs"
  shows "distinct [(x, y, z). x \<leftarrow> xs, y \<leftarrow> ys, z \<leftarrow> zs]"
proof -
  have "[(x, y, z). x \<leftarrow> xs, y \<leftarrow> ys, z \<leftarrow> zs] = List.product xs (List.product ys zs)"
    by (simp add: product_concat_map map_concat comp_def)
  with assms show ?thesis by (simp add: distinct_product)
qed

end
