(* ===== verification/Experiment_Validation.thy ===== *)
theory Experiment_Validation
  imports Experiment_Spec
begin

text \<open>
  Validation of an experiment manifest and resolution of its benchmark source: the model
  validators of \<open>BenchmarkSpec\<close> and \<open>ExperimentSpec\<close> (\<open>models.py\<close>), the registry of provider
  agents (\<open>provider_agents.py\<close>), the source lock (\<open>benchmark_source.py\<close>), and the identities
  and endpoint bindings of deployments (\<open>endpoints.py\<close>).

  \<open>validate_experiment\<close> is what \<open>ExperimentSpec.model_validate\<close> checks of a manifest whose
  parts are valid; \<open>validate_benchmark\<close> also fills in the digest of the benchmark.
\<close>

section \<open>Datasets\<close>

text \<open>\<open>str.rpartition("@")\<close>.\<close>

definition split_dataset_reference :: "string \<Rightarrow> string \<times> string option" where
  "split_dataset_reference s =
     (let tail = rev (takeWhile (\<lambda>c. c \<noteq> CHR ''@'') (rev s)) in
      if CHR ''@'' \<in> set s then (take (length s - length tail - 1) s, Some tail) else (s, None))"

definition harbor_package_name :: "string \<Rightarrow> bool" where
  "harbor_package_name s = (case split_on CHR ''/'' s of
     [a, b] \<Rightarrow> package_part a \<and> package_part b | _ \<Rightarrow> False)"

definition pinned_harbor_dataset_reference :: "string \<Rightarrow> string option \<Rightarrow> spec_error + string" where
  "pinned_harbor_dataset_reference dataset dataset_digest =
     (if (case dataset_digest of Some d \<Rightarrow> \<not> sha256_digest d | None \<Rightarrow> False)
      then Inl Dataset_digest_not_full
      else let (name, reference) = split_dataset_reference dataset in
        if \<not> harbor_package_name name \<or> sublist ''..'' name then Inl Dataset_not_a_package
        else case reference of
            Some r \<Rightarrow>
              if starts_with r ''sha256:'' then
                if \<not> sha256_digest r then Inl Dataset_address_not_full
                else if dataset_digest \<noteq> None \<and> dataset_digest \<noteq> Some r then Inl Dataset_digest_conflict
                else Inr dataset
              else (case dataset_digest of
                  None \<Rightarrow> Inl Dataset_not_pinned | Some d \<Rightarrow> Inr (name @ ''@'' @ d))
          | None \<Rightarrow> (case dataset_digest of
                None \<Rightarrow> Inl Dataset_not_pinned | Some d \<Rightarrow> Inr (name @ ''@'' @ d)))"

fun benchmark_source_digest :: "hash \<Rightarrow> benchmark_source \<Rightarrow> string option" where
  "benchmark_source_digest h (Source_bundle content manifest) = Some content"
| "benchmark_source_digest h (Source_directory path) = None"
| "benchmark_source_digest h (Source_git repository revision path) =
     Some (digest h (benchmark_source_json (Source_git repository revision path)))"

definition resolve_benchmark_source_digest ::
  "hash \<Rightarrow> benchmark_source \<Rightarrow> benchmark_spec \<Rightarrow> spec_error + benchmark_spec" where
  "resolve_benchmark_source_digest h source b =
     (if CHR ''@'' \<in> set (bm_dataset b) then Inl Sourced_dataset_with_reference
      else case benchmark_source_digest h source of
          None \<Rightarrow> if bm_dataset_digest b \<noteq> None then Inl Directory_with_digest else Inr b
        | Some d \<Rightarrow>
            if bm_dataset_digest b \<noteq> None \<and> bm_dataset_digest b \<noteq> Some d then Inl Source_digest_mismatch
            else Inr (b\<lparr>bm_dataset_digest := Some d\<rparr>))"

definition validate_benchmark :: "hash \<Rightarrow> benchmark_spec \<Rightarrow> spec_error + benchmark_spec" where
  "validate_benchmark h b =
     (if \<not> distinct (bm_task_names b) then Inl Task_names_not_unique
      else case bm_source b of
          Some source \<Rightarrow> resolve_benchmark_source_digest h source b
        | None \<Rightarrow>
            (case snd (split_dataset_reference (bm_dataset b)) of
               Some r \<Rightarrow>
                 if starts_with r ''sha256:'' then
                   if \<not> sha256_digest r then Inl Dataset_address_not_full
                   else if bm_dataset_digest b \<noteq> None \<and> bm_dataset_digest b \<noteq> Some r
                   then Inl Dataset_digest_conflict
                   else Inr (b\<lparr>bm_dataset_digest := Some r\<rparr>)
                 else Inr b
             | None \<Rightarrow> Inr b))"

section \<open>Tasks\<close>

text \<open>
  Both checks of a task selection (\<open>_resolved_tasks\<close> of \<open>campaigns.py\<close> and
  \<open>_validate_task_pins\<close>): every selector matches a task and every task is selected.
\<close>

definition selection_exact :: "benchmark_spec \<Rightarrow> bool" where
  "selection_exact b \<longleftrightarrow>
     (let tasks = dict_keys (bm_task_digests b) in
      list_all (\<lambda>s. list_ex (\<lambda>t. task_matches_selector t s tasks) tasks) (bm_task_names b) \<and>
      list_all (\<lambda>t. list_ex (\<lambda>s. task_matches_selector t s tasks) (bm_task_names b)) tasks)"

definition validate_task_pins :: "benchmark_spec \<Rightarrow> spec_error + unit" where
  "validate_task_pins b =
     (if bm_task_digests b = [] then Inl Task_digests_missing
      else require (selection_exact b) Task_digests_not_exact)"

definition judge_include :: "string list \<Rightarrow> string list \<Rightarrow> string \<Rightarrow> spec_error + string list" where
  "judge_include selected included selector =
     (let matched = filter (\<lambda>t. task_matches_selector t selector selected) selected in
      if matched = [] then Inl Judge_selector_matches_nothing else Inr (List.union included matched))"

definition judge_exclude :: "string list \<Rightarrow> string list \<Rightarrow> string \<Rightarrow> spec_error + string list" where
  "judge_exclude selected included selector =
     (let matched = filter (\<lambda>t. task_matches_selector t selector selected) selected in
      if matched = [] then Inl Judge_exclusion_matches_nothing
      else if \<not> set matched \<subseteq> set included then Inl Judge_exclusion_outside
      else Inr (filter (\<lambda>t. t \<notin> set matched) included))"

definition resolved_judge_required_tasks :: "benchmark_spec \<Rightarrow> spec_error + string list" where
  "resolved_judge_required_tasks b =
     (case bm_judge b of
        None \<Rightarrow> Inr []
      | Some judge \<Rightarrow>
          let selected = sort (dict_keys (bm_task_digests b)) in
          if selected = [] then Inl Judge_without_task_digests
          else rbind (foldM (judge_include selected) [] (jd_task_names judge)) (\<lambda>included.
            rbind (foldM (judge_exclude selected) included (jd_exclude_task_names judge)) (\<lambda>rest.
              Inr (sort rest))))"

section \<open>Remote manifests\<close>

definition immutable_agent_revision :: "agent_profile \<Rightarrow> bool" where
  "immutable_agent_revision a =
     (if ag_revision_kind a \<in> {Rev_git, Rev_harbor_source} then hex_string 40 (ag_revision a)
      else package_version (ag_revision a))"

fun serving_image_pinned :: "deployment_target \<Rightarrow> bool" where
  "serving_image_pinned (Endpoint_target p) = pinned_image (en_image (ep_engine p))"
| "serving_image_pinned (Provider_target _) = True"

definition validate_remote_input_pins :: "experiment_spec \<Rightarrow> spec_error + unit" where
  "validate_remote_input_pins s =
     (let b = es_benchmark s; m = es_matrix s in
      rbind (require (af_trial_evidence (es_artifacts s) \<noteq> None) Evidence_policy_missing) (\<lambda>_.
      rbind (if bm_source b = None
             then rbind (pinned_harbor_dataset_reference (bm_dataset b) (bm_dataset_digest b))
               (\<lambda>_. Inr ())
             else Inr ()) (\<lambda>_.
      rbind (validate_task_pins b) (\<lambda>_.
      rbind (resolved_judge_required_tasks b) (\<lambda>_.
      rbind (require (list_all (\<lambda>p. hex_string 40 (mp_revision p)) (mx_models m))
               Model_revision_mutable) (\<lambda>_.
      rbind (require (list_all serving_image_pinned (mx_deployments m)) Serving_image_mutable) (\<lambda>_.
        require (list_all immutable_agent_revision (mx_agents m)) Agent_revision_mutable)))))))"

section \<open>Serving profile bindings\<close>

definition profile_deployment_digest :: "hash \<Rightarrow> deployment_target \<Rightarrow> string" where
  "profile_deployment_digest h t = digest h (JObj (without_keys [''endpoint''] (target_dump_fields t)))"

definition validate_binding_sample ::
  "hash \<Rightarrow> experiment_spec \<Rightarrow> serving_binding \<Rightarrow> spec_error + unit" where
  "validate_binding_sample h s binding =
     (let sampled = sb_sample_task_names binding; digests = bm_task_digests (es_benchmark s) in
      if int (length sampled) \<noteq> sb_sample_task_count binding then Inl Binding_sample_count_mismatch
      else if \<not> distinct sampled then Inl Binding_sample_not_unique
      else if \<not> set sampled \<subseteq> set (dict_keys digests) then Inl Binding_sample_unknown_task
      else require (sb_sample_tasks_sha256 binding =
            digest h (JObj (map (\<lambda>t. (t, JStr (the (map_of digests t)))) sampled)))
          Binding_sample_digest_mismatch)"

definition validate_binding_identity ::
  "hash \<Rightarrow> experiment_spec \<Rightarrow> remote_spec \<Rightarrow> serving_binding \<Rightarrow> model_profile \<Rightarrow> deployment_target \<Rightarrow>
   agent_profile \<Rightarrow> spec_error + unit" where
  "validate_binding_identity h s remote binding model deployment agent =
     rbind (mapM (\<lambda>(field, locked, expected). require (locked = expected) (Binding_field_mismatch field))
       [(''model_sha256'', sb_model_sha256 binding, digest h (JObj (model_dump_fields model))),
        (''deployment_sha256'', sb_deployment_sha256 binding, profile_deployment_digest h deployment),
        (''agent_sha256'', sb_agent_sha256 binding, digest h (JObj (agent_dump_fields agent))),
        (''benchmark_sha256'', sb_benchmark_sha256 binding, digest h (benchmark_json (es_benchmark s))),
        (''harbor_runtime_sha256'', sb_harbor_runtime_sha256 binding, digest h (harbor_json remote))])
     (\<lambda>_. rbind (require (sb_reasoning_required binding = ex_reasoning_required (es_execution s))
         Binding_reasoning_mismatch)
     (\<lambda>_. validate_binding_sample h s binding))"

definition validate_token_limit :: "string \<Rightarrow> int option \<Rightarrow> int \<Rightarrow> spec_error + unit" where
  "validate_token_limit key value locked =
     (case value of
        None \<Rightarrow> Inl (Execution_token_limit_missing key)
      | Some v \<Rightarrow>
          if v < 1 then Inl (Execution_token_limit_missing key)
          else require (locked = v) (Binding_token_limit_mismatch key))"

definition validate_serving_profile_binding :: "hash \<Rightarrow> experiment_spec \<Rightarrow> spec_error + unit" where
  "validate_serving_profile_binding h s =
     (case ex_serving_profile (es_execution s) of
        None \<Rightarrow> Inr ()
      | Some binding \<Rightarrow>
          rbind (of_option Binding_without_remote (es_remote s)) (\<lambda>remote.
          rbind (require (ex_concurrent_trials (es_execution s) = sb_concurrency binding)
                   Binding_concurrency_mismatch) (\<lambda>_.
          rbind (resolved_cells (es_matrix s)) (\<lambda>cells.
          rbind (case cells of [c] \<Rightarrow> Inr c | _ \<Rightarrow> Inl Binding_needs_one_cell) (\<lambda>cell.
          rbind (of_option Missing_profile
                   (List.find (\<lambda>p. mp_id p = cell_model cell) (mx_models (es_matrix s)))) (\<lambda>model.
          rbind (of_option Missing_profile
                   (List.find (\<lambda>p. target_id p = cell_deployment cell) (mx_deployments (es_matrix s))))
            (\<lambda>deployment.
          rbind (of_option Missing_profile
                   (List.find (\<lambda>p. ag_id p = cell_agent cell) (mx_agents (es_matrix s)))) (\<lambda>agent.
          rbind (validate_binding_identity h s remote binding model deployment agent) (\<lambda>_.
          rbind (validate_token_limit ''server_context_tokens''
                   (ex_server_context_tokens (es_execution s)) (sb_server_context_tokens binding)) (\<lambda>_.
            validate_token_limit ''max_output_tokens''
              (ex_max_output_tokens (es_execution s)) (sb_max_output_tokens binding)))))))))))"

definition controller_headroom_seconds :: int where
  "controller_headroom_seconds = 4800"

definition validate_experiment :: "hash \<Rightarrow> experiment_spec \<Rightarrow> spec_error + unit" where
  "validate_experiment h s =
     rbind (validate_serving_profile_binding h s) (\<lambda>_.
       case es_remote s of
         None \<Rightarrow> Inr ()
       | Some remote \<Rightarrow>
           rbind (validate_remote_input_pins s) (\<lambda>_.
           rbind (require (ex_timeout_seconds (es_execution s) + controller_headroom_seconds
                    \<le> rj_timeout_seconds remote) Job_timeout_without_headroom) (\<lambda>_.
             require (rh_sandbox_idle_timeout_seconds remote \<le> rj_timeout_seconds remote)
               Sandbox_timeout_exceeds_job)))"

section \<open>The source lock\<close>

fun locked_source :: "benchmark_source \<Rightarrow> spec_error + benchmark_source_lock" where
  "locked_source (Source_git repository revision path) = Inr (Git_source repository revision path)"
| "locked_source (Source_bundle content manifest) = Inr (Bundle_source content manifest)"
| "locked_source (Source_directory path) = Inl Directory_unresolved"

definition source_lock_from_spec :: "experiment_spec \<Rightarrow> spec_error + benchmark_source_lock" where
  "source_lock_from_spec s =
     (let b = es_benchmark s in
      case bm_source b of
        None \<Rightarrow> rbind (pinned_harbor_dataset_reference (bm_dataset b) (bm_dataset_digest b))
          (\<lambda>reference. Inr (Package_source reference))
      | Some source \<Rightarrow> locked_source source)"

definition validate_source_resolution ::
  "experiment_spec \<Rightarrow> benchmark_source_lock \<Rightarrow> spec_error + unit" where
  "validate_source_resolution s resolved =
     (let b = es_benchmark s in
      case bm_source b of
        None \<Rightarrow>
          (case resolved of
             Package_source reference \<Rightarrow>
               rbind (pinned_harbor_dataset_reference (bm_dataset b) (bm_dataset_digest b)) (\<lambda>expected.
                 require (reference = expected) Package_reference_changed)
           | _ \<Rightarrow> Inl Package_resolved_to_other_type)
      | Some (Source_directory path) \<Rightarrow>
          (case resolved of Bundle_source _ _ \<Rightarrow> Inr () | _ \<Rightarrow> Inl Directory_without_bundle)
      | Some source \<Rightarrow> require (locked_source source = Inr resolved) Source_lock_changed_request)"

definition resolved_experiment ::
  "hash \<Rightarrow> experiment_spec \<Rightarrow> benchmark_source_lock \<Rightarrow> spec_error + experiment_spec" where
  "resolved_experiment h s lock =
     rbind (validate_source_resolution s lock) (\<lambda>_.
       case (bm_source (es_benchmark s), lock) of
         (Some (Source_directory path), Bundle_source content manifest) \<Rightarrow>
           rbind (validate_benchmark h ((es_benchmark s)\<lparr>bm_source := Some (Source_bundle content manifest),
                    bm_dataset_digest := Some content\<rparr>)) (\<lambda>b.
           let s' = s\<lparr>es_benchmark := b\<rparr> in
           rbind (validate_experiment h s') (\<lambda>_. Inr s'))
       | _ \<Rightarrow> Inr s)"

fun source_lock_json :: "benchmark_source_lock \<Rightarrow> json" where
  "source_lock_json lock =
     JObj [(''schema_version'', JStr ''harbor-hf/benchmark-source-lock/v1alpha1''),
       (''source'', case lock of
           Git_source repository revision path \<Rightarrow>
             benchmark_source_json (Source_git repository revision path)
         | Bundle_source content manifest \<Rightarrow> benchmark_source_json (Source_bundle content manifest)
         | Package_source reference \<Rightarrow>
             JObj [(''type'', JStr ''package''), (''reference'', JStr reference)])]"

definition source_lock_bytes :: "benchmark_source_lock \<Rightarrow> string" where
  "source_lock_bytes lock = dumps_unicode (source_lock_json lock) @ [CHR 0x0A]"

definition source_lock_digest :: "hash \<Rightarrow> benchmark_source_lock \<Rightarrow> string" where
  "source_lock_digest h lock = ''sha256:'' @ hexdigest h (source_lock_bytes lock)"

section \<open>Provider agents\<close>

record provider_agent_definition =
  pd_import_path :: string
  pd_api :: provider_api
  pd_required_parameters :: "string list"
  pd_allowed_parameters :: "string list"
  pd_revision_kind :: revision_kind

definition openclaw_parameters :: "string list" where
  "openclaw_parameters =
     [''failover_retries'', ''openclaw_agent_id'', ''openclaw_config'', ''openclaw_node_version'',
      ''session_to_trajectory'', ''thinking'', ''timeout'']"

definition codex_parameters :: "string list" where
  "codex_parameters =
     [''codex_plugin_version'', ''codex_request_timeout_ms'', ''model_context_window'',
      ''model_max_tokens'']"

definition provider_agents :: "(string, provider_agent_definition) dict" where
  "provider_agents =
     [(''hermes'', \<lparr>pd_import_path = ''harbor_hf_agents.hermes.agent:HermesAgent'',
         pd_api = Api_chat_completions, pd_required_parameters = [], pd_allowed_parameters = [],
         pd_revision_kind = Rev_git\<rparr>),
      (''openclaw'', \<lparr>pd_import_path = ''harbor_hf_agents.openclaw.agent:OpenClawAgent'',
         pd_api = Api_chat_completions, pd_required_parameters = [''openclaw_config''],
         pd_allowed_parameters = openclaw_parameters, pd_revision_kind = Rev_package\<rparr>),
      (''openclaw-codex'', \<lparr>pd_import_path = ''harbor_hf_agents.openclaw_codex.agent:OpenClawCodexAgent'',
         pd_api = Api_responses,
         pd_required_parameters = codex_parameters @ [''openclaw_node_version''],
         pd_allowed_parameters = openclaw_parameters @ codex_parameters,
         pd_revision_kind = Rev_package\<rparr>),
      (''pi'', \<lparr>pd_import_path = ''harbor_hf_agents.pi.agent:PiAgent'',
         pd_api = Api_chat_completions, pd_required_parameters = [''models_json''],
         pd_allowed_parameters = [''models_json'', ''thinking''], pd_revision_kind = Rev_package\<rparr>)]"

datatype cell_error =
    Agent_not_for_providers
  | Agent_import_path
  | Agent_api
  | Agent_revision_kind
  | Agent_parameters_missing
  | Agent_parameters_unexpected
  | Target_model_mismatch

definition validate_provider_agent ::
  "agent_profile \<Rightarrow> provider_target \<Rightarrow> cell_error + provider_agent_definition" where
  "validate_provider_agent agent target =
     rbind (of_option Agent_not_for_providers (map_of provider_agents (ag_name agent))) (\<lambda>d.
       if ag_import_path agent \<noteq> Some (pd_import_path d) then Inl Agent_import_path
       else if pt_api target \<noteq> pd_api d then Inl Agent_api
       else if ag_revision_kind agent \<noteq> pd_revision_kind d then Inl Agent_revision_kind
       else if \<not> set (pd_required_parameters d) \<subseteq> set (ag_parameter_keys agent)
       then Inl Agent_parameters_missing
       else if \<not> set (ag_parameter_keys agent) \<subseteq> set (pd_allowed_parameters d)
       then Inl Agent_parameters_unexpected
       else Inr d)"

definition validate_provider_cell ::
  "model_profile \<Rightarrow> provider_target \<Rightarrow> agent_profile \<Rightarrow> cell_error + unit" where
  "validate_provider_cell model deployment agent =
     (if pt_model deployment \<noteq> mp_repo model then Inl Target_model_mismatch
      else rbind (validate_provider_agent agent deployment) (\<lambda>_. Inr ()))"

section \<open>Identities of deployments\<close>

definition deployment_digest :: "hash \<Rightarrow> model_profile \<Rightarrow> deployment_target \<Rightarrow> string" where
  "deployment_digest h model deployment =
     digest h (JObj [(''model'', JObj (without_keys [''id''] (model_dump_fields model))),
       (''deployment'', JObj (without_keys [''id'', ''endpoint''] (target_dump_fields deployment)))])"

definition served_model_name :: "endpoint_profile \<Rightarrow> model_profile \<Rightarrow> string" where
  "served_model_name deployment model =
     (let arguments = en_arguments (ep_engine deployment);
          named = (\<lambda>option.
            case dropWhile (\<lambda>a. a \<noteq> option) arguments of
              _ # name # _ \<Rightarrow> if name = [] then None else Some name
            | _ \<Rightarrow> None)
      in case List.map_filter named [''--served-model-name'', ''--alias'', ''-a'', ''--model''] of
           name # _ \<Rightarrow> name
         | [] \<Rightarrow> mp_repo model)"

record managed_identity =
  mi_namespace :: string
  mi_name :: string
  mi_campaign_id :: string
  mi_deployment_digest :: string
  mi_tags :: "string list"

definition managed_identity_values ::
  "hash \<Rightarrow> string \<Rightarrow> string \<Rightarrow> string \<Rightarrow> string \<times> string list" where
  "managed_identity_values h namespace campaign_id d =
     (let identity_hash = remove_prefix (digest h (JObj [(''namespace'', JStr namespace),
            (''campaign_id'', JStr campaign_id), (''deployment_digest'', JStr d)])) ''sha256:''
      in (''harbor-hf-'' @ take 40 identity_hash,
          sort [''harbor-hf-managed'',
            ''harbor-hf-campaign-'' @ take 24 (hexdigest h campaign_id),
            ''harbor-hf-deployment-'' @ take 24 (remove_prefix d ''sha256:'')]))"

definition managed_identity_ok :: "hash \<Rightarrow> managed_identity \<Rightarrow> bool" where
  "managed_identity_ok h i \<longleftrightarrow>
     mi_namespace i \<noteq> [] \<and> profile_name (mi_name i) \<and> safe_name 99 (mi_campaign_id i) \<and>
     sha256_digest (mi_deployment_digest i) \<and>
     (mi_name i, mi_tags i) =
       managed_identity_values h (mi_namespace i) (mi_campaign_id i) (mi_deployment_digest i)"

datatype endpoint_spec_error =
    Managed_identity_invalid
  | Provider_binds_no_endpoint
  | Endpoint_settings_invalid
  | Region_without_vendor
  | Endpoint_configuration_invalid
  | Managed_tags_missing

definition managed_endpoint_identity ::
  "hash \<Rightarrow> string \<Rightarrow> string \<Rightarrow> string \<Rightarrow> endpoint_spec_error + managed_identity" where
  "managed_endpoint_identity h namespace campaign_id d =
     (let (name, tags) = managed_identity_values h namespace campaign_id d;
          i = \<lparr>mi_namespace = namespace, mi_name = name, mi_campaign_id = campaign_id,
               mi_deployment_digest = d, mi_tags = sort tags\<rparr>
      in if managed_identity_ok h i then Inr i else Inl Managed_identity_invalid)"

text \<open>\<open>None\<close> when the named deployment is an inference provider.\<close>

fun bind_target :: "string \<Rightarrow> endpoint_ref \<Rightarrow> deployment_target \<Rightarrow> deployment_target option" where
  "bind_target i e (Endpoint_target p) =
     Some (Endpoint_target (if ep_id p = i then p\<lparr>ep_endpoint := Some e\<rparr> else p))"
| "bind_target i e (Provider_target p) = (if pt_id p = i then None else Some (Provider_target p))"

definition bind_endpoint ::
  "experiment_spec \<Rightarrow> string \<Rightarrow> endpoint_ref \<Rightarrow> endpoint_spec_error + experiment_spec" where
  "bind_endpoint s deployment_id endpoint =
     rbind (mapM (\<lambda>p. of_option Provider_binds_no_endpoint (bind_target deployment_id endpoint p))
              (mx_deployments (es_matrix s))) (\<lambda>deployments.
       Inr (s\<lparr>es_matrix := (es_matrix s)\<lparr>mx_deployments := deployments\<rparr>\<rparr>))"

end
