(* ===== verification/Polling.thy ===== *)
theory Polling
  imports Hub_Repository Complex_Main
begin

text \<open>
  Programs that wait. A loop that polls a service until something happens or a deadline
  passes ends only because time passes, so a program that contains one is a partial
  function: its value is \<open>None\<close> when it does not return. A clock is an argument; the
  hypothesis \<open>clock_contract\<close> says what the standard library promises of
  \<open>time.monotonic\<close> and \<open>time.sleep\<close>: readings never go backwards, and a sleep lasts at least as
  long as asked for. Readings are rational numbers; the rounding of floating point sums is
  not modelled.
\<close>

section \<open>Partial programs over a world\<close>

type_synonym ('w, 'e, 'a) prog = "'w \<Rightarrow> (('e + 'a) \<times> 'w) option"

definition prog_io :: "('w, 'e, 'a) io \<Rightarrow> ('w, 'e, 'a) prog" where
  "prog_io m w = Some (m w)"

definition prog_bind :: "('w, 'e, 'a) prog \<Rightarrow> ('a \<Rightarrow> ('w, 'e, 'b) prog) \<Rightarrow> ('w, 'e, 'b) prog" where
  "prog_bind m f w =
     (case m w of None \<Rightarrow> None | Some (Inl e, w') \<Rightarrow> Some (Inl e, w') | Some (Inr x, w') \<Rightarrow> f x w')"

text \<open>\<open>try: m except e: handler e\<close>; a handler raises again what it does not catch.\<close>

definition prog_catch :: "('w, 'e, 'a) prog \<Rightarrow> ('e \<Rightarrow> ('w, 'e, 'a) prog) \<Rightarrow> ('w, 'e, 'a) prog" where
  "prog_catch m handler w =
     (case m w of None \<Rightarrow> None | Some (Inl e, w') \<Rightarrow> handler e w' | Some (Inr x, w') \<Rightarrow> Some (Inr x, w'))"

abbreviation prog_return :: "'a \<Rightarrow> ('w, 'e, 'a) prog" where
  "prog_return x \<equiv> prog_io (io_return x)"

abbreviation prog_raise :: "'e \<Rightarrow> ('w, 'e, 'a) prog" where
  "prog_raise e \<equiv> prog_io (io_raise e)"

definition returns :: "('w, 'e, 'a) prog \<Rightarrow> bool" where
  "returns m \<longleftrightarrow> (\<forall>w. m w \<noteq> None)"

named_theorems returns_intros

lemma returns_io [returns_intros, simp]: "returns (prog_io m)"
  by (simp add: returns_def prog_io_def)

lemma returns_bind [returns_intros]: "returns m \<Longrightarrow> (\<And>x. returns (f x)) \<Longrightarrow> returns (prog_bind m f)"
  by (auto simp: returns_def prog_bind_def split: option.split sum.split prod.split)

lemma returns_catch [returns_intros]: "returns m \<Longrightarrow> (\<And>e. returns (f e)) \<Longrightarrow> returns (prog_catch m f)"
  by (auto simp: returns_def prog_catch_def split: option.split sum.split prod.split)

lemma returns_if [returns_intros]: "returns m \<Longrightarrow> returns n \<Longrightarrow> returns (if b then m else n)"
  by simp

lemma prog_bind_Some_iff:
  "prog_bind m f w = Some (r, w') \<longleftrightarrow>
     (\<exists>e. m w = Some (Inl e, w') \<and> r = Inl e) \<or> (\<exists>x v. m w = Some (Inr x, v) \<and> f x v = Some (r, w'))"
  by (auto simp: prog_bind_def split: option.split sum.split)

lemma prog_catch_Some_iff:
  "prog_catch m f w = Some (r, w') \<longleftrightarrow>
     (\<exists>x. m w = Some (Inr x, w') \<and> r = Inr x) \<or> (\<exists>e v. m w = Some (Inl e, v) \<and> f e v = Some (r, w'))"
  by (auto simp: prog_catch_def split: option.split sum.split)

lemma prog_io_Some_iff: "prog_io m w = Some q \<longleftrightarrow> m w = q"
  by (simp add: prog_io_def)

lemmas prog_simps = prog_bind_Some_iff prog_catch_Some_iff prog_io_Some_iff io_return_def io_raise_def

section \<open>Waiting before a deadline\<close>

record 'w clock =
  ck_monotonic :: "'w \<Rightarrow> rat \<times> 'w"
  ck_sleep :: "rat \<Rightarrow> 'w \<Rightarrow> 'w"

definition validated_deadline :: "'e \<Rightarrow> ('w, 'm) clock_scheme \<Rightarrow> rat \<Rightarrow> rat \<Rightarrow> ('w, 'e, rat) io" where
  "validated_deadline invalid clock timeout_seconds poll_seconds w =
     (if timeout_seconds \<le> 0 \<or> poll_seconds \<le> 0 then (Inl invalid, w)
      else let (t, w') = ck_monotonic clock w in (Inr (t + timeout_seconds), w'))"

definition sleep_before_deadline :: "('w, 'm) clock_scheme \<Rightarrow> rat \<Rightarrow> rat \<Rightarrow> 'w \<Rightarrow> bool \<times> 'w" where
  "sleep_before_deadline clock deadline poll_seconds w =
     (let (t, w1) = ck_monotonic clock w; remaining = deadline - t in
      if remaining \<le> 0 then (False, w1)
      else (True, ck_sleep clock (min poll_seconds remaining) w1))"

text \<open>
  \<open>while True\<close>: one \<open>look\<close> raises, returns (\<open>Some\<close>) or finds that there is more to wait for.
\<close>

partial_function (option) poll_loop ::
  "('w, 'e, 'a option) io \<Rightarrow> 'e \<Rightarrow> ('w, 'm) clock_scheme \<Rightarrow> rat \<Rightarrow> rat \<Rightarrow> ('w, 'e, 'a) prog" where
  "poll_loop look timed_out clock deadline poll_seconds w =
     (case look w of
        (Inl e, w1) \<Rightarrow> Some (Inl e, w1)
      | (Inr (Some x), w1) \<Rightarrow> Some (Inr x, w1)
      | (Inr None, w1) \<Rightarrow>
          (case sleep_before_deadline clock deadline poll_seconds w1 of
             (again, w2) \<Rightarrow>
               if again then poll_loop look timed_out clock deadline poll_seconds w2
               else Some (Inl timed_out, w2)))"

declare poll_loop.simps [code]

definition poll_until ::
  "('w, 'e, 'a option) io \<Rightarrow> 'e \<Rightarrow> 'e \<Rightarrow> ('w, 'm) clock_scheme \<Rightarrow> rat \<Rightarrow> rat \<Rightarrow> ('w, 'e, 'a) prog" where
  "poll_until look timed_out invalid clock timeout_seconds poll_seconds =
     prog_bind (prog_io (validated_deadline invalid clock timeout_seconds poll_seconds)) (\<lambda>deadline.
       poll_loop look timed_out clock deadline poll_seconds)"

section \<open>Waiting ends\<close>

definition clock_contract :: "('w, 'm) clock_scheme \<Rightarrow> ('w \<Rightarrow> rat) \<Rightarrow> bool" where
  "clock_contract clock now \<longleftrightarrow>
     (\<forall>w. now w \<le> fst (ck_monotonic clock w) \<and>
        fst (ck_monotonic clock w) \<le> now (snd (ck_monotonic clock w))) \<and>
     (\<forall>d w. now w + d \<le> now (ck_sleep clock d w))"

definition passes_time :: "('w \<Rightarrow> rat) \<Rightarrow> ('w, 'e, 'a) io \<Rightarrow> bool" where
  "passes_time now m \<longleftrightarrow> (\<forall>w. now w \<le> now (snd (m w)))"

lemma sleep_before_deadline_progress:
  assumes "clock_contract clock now" and "0 < poll"
    and "sleep_before_deadline clock deadline poll w = (True, w')"
  shows "now w < deadline" and "now w + poll \<le> now w' \<or> deadline \<le> now w'"
proof -
  obtain t w1 where t: "ck_monotonic clock w = (t, w1)" by fastforce
  have "t < deadline" and w': "w' = ck_sleep clock (min poll (deadline - t)) w1"
    using assms(3) t by (auto simp: sleep_before_deadline_def Let_def split: if_splits)
  moreover have "now w \<le> t" "t \<le> now w1" "now w1 + min poll (deadline - t) \<le> now w'"
    using assms(1) t unfolding clock_contract_def w' by (metis fst_conv, metis fst_conv snd_conv, metis)
  ultimately show "now w < deadline" "now w + poll \<le> now w' \<or> deadline \<le> now w'"
    by (auto simp: min_def split: if_splits)
qed

lemma poll_loop_bounded:
  assumes clock: "clock_contract clock now" "0 < poll" "passes_time now look"
    and "deadline - now w \<le> of_nat n * poll"
  shows "poll_loop look timed_out clock deadline poll w \<noteq> None"
  using assms(4)
proof (induction n arbitrary: w)
  case 0
  obtain r w1 where look: "look w = (r, w1)" by fastforce
  have "deadline \<le> now w1" using clock(3) look 0 unfolding passes_time_def by (fastforce intro: order_trans)
  then have "\<not> fst (sleep_before_deadline clock deadline poll w1)"
    using sleep_before_deadline_progress(1) [OF clock(1,2), of deadline w1]
    by (cases "sleep_before_deadline clock deadline poll w1") auto
  then show ?case
    by (subst poll_loop.simps) (auto simp: look split: sum.split option.split prod.split bool.split)
next
  case (Suc n)
  obtain r w1 where look: "look w = (r, w1)" by fastforce
  then have w1: "now w \<le> now w1" using clock(3) unfolding passes_time_def by (metis snd_conv)
  have next_round: "poll_loop look timed_out clock deadline poll w2 \<noteq> None"
    if "sleep_before_deadline clock deadline poll w1 = (True, w2)" for w2
  proof (rule Suc.IH)
    from sleep_before_deadline_progress(2) [OF clock(1,2) that] w1 Suc.prems clock(2)
    show "deadline - now w2 \<le> of_nat n * poll"
      by (auto simp: distrib_right intro: order_trans [of _ 0])
  qed
  then show ?case
    by (subst poll_loop.simps) (auto simp: look split: sum.split option.split prod.split bool.split)
qed

lemma poll_until_returns:
  assumes "clock_contract clock now" and "passes_time now look"
  shows "returns (poll_until look timed_out invalid clock timeout poll)"
proof -
  have "poll_loop look timed_out clock deadline poll w \<noteq> None" if "0 < poll" for deadline w
  proof -
    obtain n where "(deadline - now w) / poll < of_nat n" using reals_Archimedean2 by blast
    then have "deadline - now w \<le> of_nat n * poll" using that by (simp add: field_simps)
    with assms that show ?thesis by (intro poll_loop_bounded)
  qed
  then show ?thesis
    by (auto simp: returns_def poll_until_def prog_bind_def prog_io_def validated_deadline_def Let_def
        split: option.split sum.split prod.split if_splits)
qed

section \<open>What a wait leaves behind\<close>

text \<open>
  A preorder that one look and the clock keep holds between the worlds before and after a
  wait; a wait that returns a value ends with the look that found it.
\<close>

definition stays :: "('w \<Rightarrow> 'w \<Rightarrow> bool) \<Rightarrow> ('w \<Rightarrow> 'a \<times> 'w) \<Rightarrow> bool" where
  "stays R m \<longleftrightarrow> (\<forall>w. R w (snd (m w)))"

definition clock_stays :: "('w \<Rightarrow> 'w \<Rightarrow> bool) \<Rightarrow> ('w, 'm) clock_scheme \<Rightarrow> bool" where
  "clock_stays R clock \<longleftrightarrow> stays R (ck_monotonic clock) \<and> (\<forall>d w. R w (ck_sleep clock d w))"

lemma staysD: "stays R m \<Longrightarrow> m w = (x, w') \<Longrightarrow> R w w'"
  by (metis stays_def snd_conv)

lemma clock_stays_sleep:
  assumes "clock_stays R clock" and "transp R"
  shows "stays R (sleep_before_deadline clock deadline poll)"
  using assms
  by (auto simp: stays_def clock_stays_def sleep_before_deadline_def Let_def case_prod_unfold dest: transpD)

lemma poll_loop_result:
  assumes "poll_loop look timed_out clock deadline poll w = Some y"
    and "stays R look" and "stays R (sleep_before_deadline clock deadline poll)" and "reflp R" and "transp R"
  shows "R w (snd y) \<and> (\<forall>x. fst y = Inr x \<longrightarrow> (\<exists>v. R w v \<and> look v = (Inr (Some x), snd y))) \<and>
    (\<forall>e. fst y = Inl e \<longrightarrow> e = timed_out \<or> (\<exists>v. look v = (Inl e, snd y)))"
  using assms
proof (induction rule: poll_loop.raw_induct [rotated, consumes 1, case_names 1])
  case (1 loop look timed_out clock deadline poll w y)
  obtain r w1 where look: "look w = (r, w1)" by fastforce
  obtain b w2 where sleep: "sleep_before_deadline clock deadline poll w1 = (b, w2)" by fastforce
  note w1 = staysD [OF "1.prems"(1) look]
  note w2 = transpD [OF "1.prems"(4) w1 staysD [OF "1.prems"(2) sleep]]
  consider (raised) e where "r = Inl e" "y = (Inl e, w1)"
    | (found) x where "r = Inr (Some x)" "y = (Inr x, w1)"
    | (late) "r = Inr None" "\<not> b" "y = (Inl timed_out, w2)"
    | (again) "r = Inr None" b "loop look timed_out clock deadline poll w2 = Some y"
    using 1(2) look sleep by (auto split: sum.splits option.splits if_splits)
  then show ?case
  proof cases
    case again
    from 1(1) [OF again(3) "1.prems"] w2 show ?thesis by (blast intro: transpD [OF "1.prems"(4)])
  qed (use look w1 w2 reflpD [OF "1.prems"(3), of w] in auto)
qed

lemma poll_until_result:
  assumes "poll_until look timed_out invalid clock timeout poll w = Some (r, w')"
    and R: "stays R look" "clock_stays R clock" "reflp R" "transp R"
  shows "R w w'" and "r = Inr x \<Longrightarrow> \<exists>v. R w v \<and> look v = (Inr (Some x), w')"
    and "r = Inl e \<Longrightarrow> e = timed_out \<or> e = invalid \<or> (\<exists>v. look v = (Inl e, w'))"
proof -
  have "R w w' \<and> (\<forall>x. r = Inr x \<longrightarrow> (\<exists>v. R w v \<and> look v = (Inr (Some x), w'))) \<and>
      (\<forall>e. r = Inl e \<longrightarrow> e = timed_out \<or> e = invalid \<or> (\<exists>v. look v = (Inl e, w')))"
  proof (cases "timeout \<le> 0 \<or> poll \<le> 0")
    case True
    then show ?thesis
      using assms(1) reflpD [OF R(3)] by (auto simp: poll_until_def prog_simps validated_deadline_def)
  next
    case False
    obtain t u where t: "ck_monotonic clock w = (t, u)" by fastforce
    with False assms(1) have "poll_loop look timed_out clock (t + timeout) poll u = Some (r, w')"
      by (auto simp: poll_until_def prog_simps validated_deadline_def Let_def)
    from poll_loop_result [OF this R(1) clock_stays_sleep [OF R(2,4)] R(3,4)]
    have "R u w'" and "\<forall>x. r = Inr x \<longrightarrow> (\<exists>v. R u v \<and> look v = (Inr (Some x), w'))"
      and "\<forall>e. r = Inl e \<longrightarrow> e = timed_out \<or> (\<exists>v. look v = (Inl e, w'))" by auto
    moreover have "R w u" using R(2) t by (auto simp: clock_stays_def intro: staysD)
    ultimately show ?thesis by (blast intro: transpD [OF R(4)])
  qed
  then show "R w w'" "r = Inr x \<Longrightarrow> \<exists>v. R w v \<and> look v = (Inr (Some x), w')"
    "r = Inl e \<Longrightarrow> e = timed_out \<or> e = invalid \<or> (\<exists>v. look v = (Inl e, w'))" by auto
qed

end
