(* ===== verification/Endpoint_Config.thy ===== *)
theory Endpoint_Config
  imports Experiment_Validation Polling
begin

text \<open>
  Inference endpoints (\<open>src/src/harbor_hf/endpoints.py\<close>): the configuration a campaign wants
  (\<open>build_desired_endpoint\<close>), what a provider reports, and the comparison of the two.

  Configurations are compared by their JSON dumps, field by field with dotted paths
  (\<open>compare_values\<close>). Numbers in JSON are integers here, so a fractional scaling threshold
  cannot be written. The validation of the \<open>parameters\<close> of a deployment profile as
  \<open>EndpointSettings\<close> is pydantic's: an argument \<open>parse_settings\<close>.
\<close>

section \<open>Configurations\<close>

datatype scaling_metric = Metric_pending_requests | Metric_hardware_usage

record endpoint_scaling =
  sc_min_replicas :: int
  sc_max_replicas :: int
  sc_scale_to_zero_timeout :: "int option"
  sc_metric :: "scaling_metric option"
  sc_threshold :: "int option"

definition endpoint_scaling_ok :: "endpoint_scaling \<Rightarrow> bool" where
  "endpoint_scaling_ok s \<longleftrightarrow>
     0 \<le> sc_min_replicas s \<and> 1 \<le> sc_max_replicas s \<and> opt_ge 0 (sc_scale_to_zero_timeout s) \<and>
     opt_ge 1 (sc_threshold s) \<and> sc_min_replicas s \<le> sc_max_replicas s \<and>
     (sc_metric s = None) = (sc_threshold s = None)"

record endpoint_compute =
  cm_accelerator :: string
  cm_instance_size :: string
  cm_instance_type :: string
  cm_scaling :: endpoint_scaling

record endpoint_provider =
  pv_vendor :: string
  pv_region :: string
  pv_account_id :: "string option"

record endpoint_image =
  im_url :: string
  im_health_route :: string
  im_port :: "int option"

record endpoint_model =
  em_repository :: string
  em_revision :: string
  em_framework :: string
  em_task :: string
  em_image :: endpoint_image
  em_command :: "string list"
  em_arguments :: "string list"
  em_environment :: "(string, string) dict"
  em_secret_names :: "string list"

record endpoint_route =
  rt_domain :: "string option"
  rt_path :: "string option"

datatype access_type = Access_public | Access_authenticated | Access_private

record endpoint_configuration =
  ec_model :: endpoint_model
  ec_compute :: endpoint_compute
  ec_provider :: endpoint_provider
  ec_access_type :: access_type
  ec_route :: endpoint_route
  ec_cache_http_responses :: bool
  ec_tags :: "string list"

text \<open>\<open>^/[^?#]*$\<close> as a full match.\<close>

definition url_path :: "string \<Rightarrow> bool" where
  "url_path s \<longleftrightarrow> starts_with s ''/'' \<and> CHR ''?'' \<notin> set s \<and> CHR ''#'' \<notin> set s"

definition opt_str_ok :: "(string \<Rightarrow> bool) \<Rightarrow> string option \<Rightarrow> bool" where
  "opt_str_ok P m \<longleftrightarrow> (case m of None \<Rightarrow> True | Some s \<Rightarrow> P s)"

abbreviation nonempty :: "string \<Rightarrow> bool" where
  "nonempty s \<equiv> s \<noteq> []"

definition names_unique :: "string list \<Rightarrow> bool" where
  "names_unique xs \<longleftrightarrow> list_all nonempty xs \<and> distinct xs"

definition endpoint_image_ok :: "endpoint_image \<Rightarrow> bool" where
  "endpoint_image_ok i \<longleftrightarrow>
     nonempty (im_url i) \<and> url_path (im_health_route i) \<and>
     (case im_port i of None \<Rightarrow> True | Some p \<Rightarrow> 1 \<le> p \<and> p \<le> 65535)"

definition endpoint_model_ok :: "endpoint_model \<Rightarrow> bool" where
  "endpoint_model_ok m \<longleftrightarrow>
     nonempty (em_repository m) \<and> hex_string 40 (em_revision m) \<and> nonempty (em_framework m) \<and>
     nonempty (em_task m) \<and> endpoint_image_ok (em_image m) \<and> names_unique (em_secret_names m)"

definition endpoint_compute_ok :: "endpoint_compute \<Rightarrow> bool" where
  "endpoint_compute_ok c \<longleftrightarrow>
     nonempty (cm_accelerator c) \<and> nonempty (cm_instance_size c) \<and> nonempty (cm_instance_type c) \<and>
     endpoint_scaling_ok (cm_scaling c)"

definition endpoint_provider_ok :: "endpoint_provider \<Rightarrow> bool" where
  "endpoint_provider_ok p \<longleftrightarrow>
     nonempty (pv_vendor p) \<and> nonempty (pv_region p) \<and> opt_str_ok nonempty (pv_account_id p)"

definition endpoint_configuration_ok :: "endpoint_configuration \<Rightarrow> bool" where
  "endpoint_configuration_ok c \<longleftrightarrow>
     endpoint_model_ok (ec_model c) \<and> endpoint_compute_ok (ec_compute c) \<and>
     endpoint_provider_ok (ec_provider c) \<and> opt_str_ok nonempty (rt_domain (ec_route c)) \<and>
     opt_str_ok url_path (rt_path (ec_route c)) \<and> names_unique (ec_tags c)"

text \<open>The validators of the two name lists also sort them.\<close>

definition canonical_configuration ::
  "endpoint_configuration \<Rightarrow> endpoint_configuration option" where
  "canonical_configuration c =
     (if endpoint_configuration_ok c
      then Some (c\<lparr>ec_model := (ec_model c)\<lparr>em_secret_names := sort (em_secret_names (ec_model c))\<rparr>,
             ec_tags := sort (ec_tags c)\<rparr>)
      else None)"

record desired_endpoint =
  de_identity :: managed_identity
  de_configuration :: endpoint_configuration

record endpoint_status =
  st_state :: string
  st_ready_replicas :: int
  st_target_replicas :: int
  st_url :: "string option"

definition endpoint_status_ok :: "endpoint_status \<Rightarrow> bool" where
  "endpoint_status_ok s \<longleftrightarrow>
     nonempty (st_state s) \<and> 0 \<le> st_ready_replicas s \<and> 0 \<le> st_target_replicas s \<and>
     opt_str_ok nonempty (st_url s)"

record endpoint_snapshot =
  sn_namespace :: string
  sn_name :: string
  sn_configuration :: endpoint_configuration
  sn_status :: endpoint_status

section \<open>Desired endpoints\<close>

record endpoint_settings =
  se_accelerator :: string
  se_instance_type :: "string option"
  se_min_replicas :: int
  se_max_replicas :: int
  se_scale_to_zero_timeout :: "int option"
  se_scaling_metric :: "scaling_metric option"
  se_scaling_threshold :: "int option"
  se_framework :: string
  se_task :: string
  se_health_route :: string
  se_port :: "int option"
  se_endpoint_type :: access_type
  se_account_id :: "string option"
  se_domain :: "string option"
  se_path :: "string option"
  se_cache_http_responses :: bool
  se_tags :: "string list"

definition settings_scaling :: "endpoint_settings \<Rightarrow> endpoint_scaling" where
  "settings_scaling s =
     \<lparr>sc_min_replicas = se_min_replicas s, sc_max_replicas = se_max_replicas s,
      sc_scale_to_zero_timeout = se_scale_to_zero_timeout s, sc_metric = se_scaling_metric s,
      sc_threshold = se_scaling_threshold s\<rparr>"

text \<open>\<open>str.partition\<close> at the first hyphen: the parts before and after it.\<close>

definition partition_hyphen :: "string \<Rightarrow> string \<times> string option" where
  "partition_hyphen s =
     (let vendor = takeWhile (\<lambda>c. c \<noteq> CHR ''-'') s in
      (vendor, case dropWhile (\<lambda>c. c \<noteq> CHR ''-'') s of [] \<Rightarrow> None | _ # region \<Rightarrow> Some region))"

definition desired_configuration ::
  "model_profile \<Rightarrow> endpoint_profile \<Rightarrow> endpoint_settings \<Rightarrow> string \<Rightarrow> string \<Rightarrow> string list \<Rightarrow>
   endpoint_configuration" where
  "desired_configuration model deployment s vendor region managed_tags =
     \<lparr>ec_model =
        \<lparr>em_repository = mp_repo model, em_revision = mp_revision model, em_framework = se_framework s,
         em_task = se_task s,
         em_image = \<lparr>im_url = en_image (ep_engine deployment), im_health_route = se_health_route s,
           im_port = se_port s\<rparr>,
         em_command = en_command (ep_engine deployment),
         em_arguments = en_arguments (ep_engine deployment),
         em_environment = en_environment (ep_engine deployment),
         em_secret_names = en_secret_names (ep_engine deployment)\<rparr>,
      ec_compute =
        \<lparr>cm_accelerator = se_accelerator s,
         cm_instance_size = ''x'' @ show_int (ep_accelerator_count deployment),
         cm_instance_type = (case se_instance_type s of Some t \<Rightarrow> t
           | None \<Rightarrow> ''nvidia-'' @ ep_hardware deployment),
         cm_scaling = settings_scaling s\<rparr>,
      ec_provider = \<lparr>pv_vendor = vendor, pv_region = region, pv_account_id = se_account_id s\<rparr>,
      ec_access_type = se_endpoint_type s,
      ec_route = \<lparr>rt_domain = se_domain s, rt_path = se_path s\<rparr>,
      ec_cache_http_responses = se_cache_http_responses s,
      ec_tags = sort (se_tags s @ managed_tags)\<rparr>"

definition build_desired_endpoint ::
  "((string, json) dict \<Rightarrow> endpoint_settings option) \<Rightarrow> hash \<Rightarrow> string \<Rightarrow> string \<Rightarrow> model_profile \<Rightarrow>
   endpoint_profile \<Rightarrow> endpoint_spec_error + desired_endpoint" where
  "build_desired_endpoint parse_settings h namespace campaign_id model deployment =
     (let d = deployment_digest h model (Endpoint_target deployment) in
      rbind (managed_endpoint_identity h namespace campaign_id d) (\<lambda>identity.
      rbind (of_option Endpoint_settings_invalid (parse_settings (ep_parameters deployment))) (\<lambda>s.
      rbind (require (endpoint_scaling_ok (settings_scaling s)) Endpoint_settings_invalid) (\<lambda>_.
      let (vendor, region) = partition_hyphen (ep_region deployment) in
      rbind (case region of
               Some r \<Rightarrow> if r = [] then Inl Region_without_vendor else Inr r
             | None \<Rightarrow> Inl Region_without_vendor) (\<lambda>region.
      rbind (of_option Endpoint_configuration_invalid (canonical_configuration
               (desired_configuration model deployment s vendor region (mi_tags identity)))) (\<lambda>c.
        if \<not> set (mi_tags identity) \<subseteq> set (ec_tags c) then Inl Managed_tags_missing
        else Inr \<lparr>de_identity = identity, de_configuration = c\<rparr>))))))"

definition endpoint_ref_for ::
  "desired_endpoint \<Rightarrow> endpoint_profile \<Rightarrow> model_profile \<Rightarrow> endpoint_ref" where
  "endpoint_ref_for desired deployment model =
     \<lparr>er_namespace = mi_namespace (de_identity desired), er_name = mi_name (de_identity desired),
      er_served_model_name = served_model_name deployment model\<rparr>"

section \<open>Comparing configurations\<close>

fun metric_name :: "scaling_metric \<Rightarrow> string" where
  "metric_name Metric_pending_requests = ''pendingRequests''"
| "metric_name Metric_hardware_usage = ''hardwareUsage''"

fun access_name :: "access_type \<Rightarrow> string" where
  "access_name Access_public = ''public''"
| "access_name Access_authenticated = ''authenticated''"
| "access_name Access_private = ''private''"

definition scaling_json :: "endpoint_scaling \<Rightarrow> json" where
  "scaling_json s =
     JObj [(''min_replicas'', JInt (sc_min_replicas s)), (''max_replicas'', JInt (sc_max_replicas s)),
       (''scale_to_zero_timeout'', json_opt_int (sc_scale_to_zero_timeout s)),
       (''metric'', json_opt_str (map_option metric_name (sc_metric s))),
       (''threshold'', json_opt_int (sc_threshold s))]"

definition compute_json :: "endpoint_compute \<Rightarrow> json" where
  "compute_json c =
     JObj [(''accelerator'', JStr (cm_accelerator c)), (''instance_size'', JStr (cm_instance_size c)),
       (''instance_type'', JStr (cm_instance_type c)), (''scaling'', scaling_json (cm_scaling c))]"

definition provider_json :: "endpoint_provider \<Rightarrow> json" where
  "provider_json p =
     JObj [(''vendor'', JStr (pv_vendor p)), (''region'', JStr (pv_region p)),
       (''account_id'', json_opt_str (pv_account_id p))]"

definition image_json :: "endpoint_image \<Rightarrow> json" where
  "image_json i =
     JObj [(''url'', JStr (im_url i)), (''health_route'', JStr (im_health_route i)),
       (''port'', json_opt_int (im_port i))]"

definition endpoint_model_json :: "endpoint_model \<Rightarrow> json" where
  "endpoint_model_json m =
     JObj [(''repository'', JStr (em_repository m)), (''revision'', JStr (em_revision m)),
       (''framework'', JStr (em_framework m)), (''task'', JStr (em_task m)),
       (''image'', image_json (em_image m)), (''command'', json_strs (em_command m)),
       (''arguments'', json_strs (em_arguments m)),
       (''environment'', json_str_dict (em_environment m)),
       (''secret_names'', json_strs (em_secret_names m))]"

definition route_json :: "endpoint_route \<Rightarrow> json" where
  "route_json r =
     JObj [(''domain'', json_opt_str (rt_domain r)), (''path'', json_opt_str (rt_path r))]"

definition configuration_json :: "endpoint_configuration \<Rightarrow> json" where
  "configuration_json c =
     JObj [(''model'', endpoint_model_json (ec_model c)), (''compute'', compute_json (ec_compute c)),
       (''provider'', provider_json (ec_provider c)), (''access_type'', JStr (access_name (ec_access_type c))),
       (''route'', route_json (ec_route c)), (''cache_http_responses'', JBool (ec_cache_http_responses c)),
       (''tags'', json_strs (ec_tags c))]"

definition get_or_null :: "(string \<times> json) list \<Rightarrow> string \<Rightarrow> json" where
  "get_or_null kvs k = (case map_of kvs k of None \<Rightarrow> JNull | Some v \<Rightarrow> v)"

record configuration_mismatch =
  cf_path :: string
  cf_expected :: string
  cf_observed :: string

definition leaf_mismatch :: "string \<Rightarrow> json \<Rightarrow> json \<Rightarrow> configuration_mismatch list" where
  "leaf_mismatch path expected observed =
     (if json_same expected observed then []
      else [\<lparr>cf_path = path, cf_expected = dumps expected, cf_observed = dumps observed\<rparr>])"

lemma size_get_or_null: "size (get_or_null kvs k) < Suc (size_list (size_prod (\<lambda>x. 0) size) kvs)"
  by (induction kvs) (auto simp: get_or_null_def split: if_splits)

function (sequential) compare_values :: "string \<Rightarrow> json \<Rightarrow> json \<Rightarrow> configuration_mismatch list" where
  "compare_values path (JObj es) (JObj os) =
     concat (map (\<lambda>k. compare_values (path @ ''.'' @ k) (get_or_null es k) (get_or_null os k))
       (sort (remdups (map fst es @ map fst os))))"
| "compare_values path expected observed = leaf_mismatch path expected observed"
  by pat_completeness auto
termination
  by (relation "measure (\<lambda>(p, e, ob). size e)") (auto simp: size_get_or_null)

definition effective_configuration_mismatches ::
  "endpoint_configuration \<Rightarrow> endpoint_configuration \<Rightarrow> configuration_mismatch list" where
  "effective_configuration_mismatches expected observed =
     compare_values ''configuration'' (configuration_json expected) (configuration_json observed)"

text \<open>
  The failures of provisioning: \<open>EndpointProvisioningError\<close> and its subclasses, and the
  \<open>ValueError\<close> of a timeout that is not positive.
\<close>

datatype endpoint_error =
    Endpoint_not_found
  | Endpoint_provider_error
  | Ambiguous_create
  | Ambiguous_pause
  | Ambiguous_delete
  | Verification_timeout
  | Configuration_mismatch "configuration_mismatch list"
  | Identity_mismatch
  | Endpoint_not_paused
  | Timeout_not_positive

definition verify_exact_endpoint :: "desired_endpoint \<Rightarrow> endpoint_snapshot \<Rightarrow> endpoint_error + unit" where
  "verify_exact_endpoint desired snapshot =
     (if sn_namespace snapshot \<noteq> mi_namespace (de_identity desired) \<or>
         sn_name snapshot \<noteq> mi_name (de_identity desired) \<or>
         \<not> set (mi_tags (de_identity desired)) \<subseteq> set (ec_tags (sn_configuration snapshot))
      then Inl Identity_mismatch
      else let mismatches = effective_configuration_mismatches (de_configuration desired)
               (sn_configuration snapshot)
        in if mismatches \<noteq> [] then Inl (Configuration_mismatch mismatches) else Inr ())"

definition is_paused_zero_ready :: "endpoint_snapshot \<Rightarrow> bool" where
  "is_paused_zero_ready s \<longleftrightarrow> st_state (sn_status s) = ''paused'' \<and> st_ready_replicas (sn_status s) = 0"

definition require_paused_zero_ready :: "endpoint_snapshot \<Rightarrow> endpoint_error + unit" where
  "require_paused_zero_ready s = require (is_paused_zero_ready s) Endpoint_not_paused"

section \<open>No mismatch means the same configuration\<close>

lemma compare_objects_Nil:
  "compare_values path (JObj es) (JObj os) = [] \<longleftrightarrow>
     (\<forall>k \<in> fst ` set es \<union> fst ` set os.
        compare_values (path @ ''.'' @ k) (get_or_null es k) (get_or_null os k) = [])"
  by (simp add: concat_eq_Nil_conv image_Un) blast

lemma compare_leaf_Nil:
  "compare_values path (JStr a) (JStr b) = [] \<longleftrightarrow> a = b"
  "compare_values path (JInt i) (JInt j) = [] \<longleftrightarrow> i = j"
  "compare_values path (JBool p) (JBool q) = [] \<longleftrightarrow> p = q"
  "compare_values path (json_opt_str m) (json_opt_str n) = [] \<longleftrightarrow> m = n"
  "compare_values path (json_opt_int k) (json_opt_int l) = [] \<longleftrightarrow> k = l"
  "compare_values path (json_strs xs) (json_strs ys) = [] \<longleftrightarrow> xs = ys"
  by (auto simp: leaf_mismatch_def json_same_def json_opt_str_def json_opt_int_def json_strs_def
      comp_def inj_map_eq_map inj_on_def split: option.splits)

lemma get_or_null_simps [simp]:
  "get_or_null [] k = JNull" "get_or_null ((k', v) # kvs) k = (if k = k' then v else get_or_null kvs k)"
  by (auto simp: get_or_null_def)

lemma get_or_null_str_dict:
  "get_or_null (map (\<lambda>(k, v). (k, JStr v)) d) k = json_opt_str (map_of d k)"
  by (induction d) (auto simp: json_opt_str_def)

lemma compare_str_dict_Nil:
  "compare_values path (json_str_dict d) (json_str_dict e) = [] \<longleftrightarrow> map_of d = map_of e"
proof -
  have "compare_values path (json_str_dict d) (json_str_dict e) = [] \<longleftrightarrow>
      (\<forall>k \<in> dom (map_of d) \<union> dom (map_of e). map_of d k = map_of e k)"
    unfolding json_str_dict_def compare_objects_Nil get_or_null_str_dict compare_leaf_Nil
    by (simp add: dom_map_of_conv_image_fst image_image case_prod_unfold)
  also have "\<dots> \<longleftrightarrow> map_of d = map_of e"
    by (auto simp: fun_eq_iff domIff)
  finally show ?thesis .
qed

lemma access_name_inj [simp]: "access_name x = access_name y \<longleftrightarrow> x = y"
  by (cases x; cases y) auto

lemma metric_name_inj [simp]: "metric_name a = metric_name b \<longleftrightarrow> a = b"
  by (cases a; cases b) auto

lemma opt_metric_name_inj [simp]: "map_option metric_name m = map_option metric_name n \<longleftrightarrow> m = n"
  by (cases m; cases n) auto

lemmas compare_Nil = compare_objects_Nil compare_leaf_Nil compare_str_dict_Nil

text \<open>The same configuration, up to the order of the environment.\<close>

definition same_model :: "endpoint_model \<Rightarrow> endpoint_model \<Rightarrow> bool" where
  "same_model m n \<longleftrightarrow>
     m\<lparr>em_environment := []\<rparr> = n\<lparr>em_environment := []\<rparr> \<and> map_of (em_environment m) = map_of (em_environment n)"

definition same_configuration :: "endpoint_configuration \<Rightarrow> endpoint_configuration \<Rightarrow> bool" where
  "same_configuration c d \<longleftrightarrow>
     same_model (ec_model c) (ec_model d) \<and> d = c\<lparr>ec_model := ec_model d\<rparr>"

lemma compare_image_Nil: "compare_values path (image_json i) (image_json j) = [] \<longleftrightarrow> i = j"
  by (cases i; cases j) (auto simp: image_json_def compare_Nil simp del: compare_values.simps)

lemma compare_model_Nil:
  "compare_values path (endpoint_model_json m) (endpoint_model_json n) = [] \<longleftrightarrow> same_model m n"
  by (cases m; cases n)
    (auto simp: endpoint_model_json_def same_model_def compare_Nil compare_image_Nil simp del: compare_values.simps)

lemma compare_compute_Nil: "compare_values path (compute_json c) (compute_json d) = [] \<longleftrightarrow> c = d"
proof -
  have "compare_values path (scaling_json s) (scaling_json t) = [] \<longleftrightarrow> s = t" for path s t
    by (cases s; cases t) (auto simp: scaling_json_def compare_Nil simp del: compare_values.simps)
  then show ?thesis
    by (cases c; cases d) (auto simp: compute_json_def compare_Nil simp del: compare_values.simps)
qed

lemma compare_parts_Nil:
  "compare_values path (provider_json p) (provider_json q) = [] \<longleftrightarrow> p = q"
  "compare_values path (route_json r) (route_json s) = [] \<longleftrightarrow> r = s"
  by (cases p; cases q; auto simp: provider_json_def compare_Nil simp del: compare_values.simps)
    (cases r; cases s; auto simp: route_json_def compare_Nil simp del: compare_values.simps)

lemma effective_mismatches_Nil:
  "effective_configuration_mismatches c d = [] \<longleftrightarrow> same_configuration c d"
  by (cases c; cases d)
    (auto simp: effective_configuration_mismatches_def configuration_json_def same_configuration_def compare_Nil
      compare_model_Nil compare_compute_Nil compare_parts_Nil simp del: compare_values.simps)

end
