(* ===== verification/Endpoint_Provisioner.thy ===== *)
theory Endpoint_Provisioner
  imports Endpoint_Config
begin

text \<open>
  \<open>EndpointProvisioner\<close> (\<open>src/src/harbor_hf/endpoints.py\<close>): creating or adopting, pausing and
  deleting the managed endpoint of a deployment, each verified by inspection.

  The provider is an argument, the record \<open>endpoint_port\<close> of the calls of
  \<open>EndpointProvisioningPort\<close> together with the clock. \<open>traced\<close> is a port that also writes
  down every call with its answer; the theorems about calls are about it and hold for every
  provider, whatever it answers.
\<close>

section \<open>The port\<close>

record 'w endpoint_port = "'w clock" +
  pe_create :: "desired_endpoint \<Rightarrow> ('w, endpoint_error, endpoint_snapshot) io"
  pe_inspect :: "managed_identity \<Rightarrow> ('w, endpoint_error, endpoint_snapshot option) io"
  pe_pause :: "managed_identity \<Rightarrow> ('w, endpoint_error, endpoint_snapshot) io"
  pe_delete :: "managed_identity \<Rightarrow> ('w, endpoint_error, unit) io"

text \<open>\<open>with suppress(error): m\<close>\<close>

definition suppress_error :: "'e \<Rightarrow> ('w, 'e, 'a) io \<Rightarrow> ('w, 'e, unit) io" where
  "suppress_error e m w =
     (case m w of
        (Inl e', w') \<Rightarrow> if e' = e then (Inr (), w') else (Inl e', w')
      | (Inr _, w') \<Rightarrow> (Inr (), w'))"

section \<open>Operations\<close>

definition inspect_exact ::
  "'w endpoint_port \<Rightarrow> desired_endpoint \<Rightarrow> ('w, endpoint_error, endpoint_snapshot option) io" where
  "inspect_exact port desired =
     io_bind (pe_inspect port (de_identity desired)) (\<lambda>snapshot.
       case snapshot of
         None \<Rightarrow> io_return None
       | Some s \<Rightarrow> io_bind (io_result (verify_exact_endpoint desired s)) (\<lambda>_. io_return (Some s)))"

definition wait_until_present ::
  "'w endpoint_port \<Rightarrow> desired_endpoint \<Rightarrow> rat \<Rightarrow> rat \<Rightarrow> ('w, endpoint_error, endpoint_snapshot) prog" where
  "wait_until_present port desired timeout_seconds poll_seconds =
     poll_until (inspect_exact port desired) Verification_timeout Timeout_not_positive port
       timeout_seconds poll_seconds"

definition look_paused ::
  "('w, endpoint_error, endpoint_snapshot option) io \<Rightarrow> ('w, endpoint_error, endpoint_snapshot option) io" where
  "look_paused inspect =
     io_bind inspect (\<lambda>snapshot.
       case snapshot of
         None \<Rightarrow> io_raise Endpoint_not_found
       | Some s \<Rightarrow> io_return (if is_paused_zero_ready s then Some s else None))"

definition wait_until_paused ::
  "'w endpoint_port \<Rightarrow> desired_endpoint \<Rightarrow> rat \<Rightarrow> rat \<Rightarrow> ('w, endpoint_error, endpoint_snapshot) prog" where
  "wait_until_paused port desired timeout_seconds poll_seconds =
     poll_until (look_paused (inspect_exact port desired)) Verification_timeout Timeout_not_positive port
       timeout_seconds poll_seconds"

definition pause_created_identity ::
  "'w endpoint_port \<Rightarrow> managed_identity \<Rightarrow> rat \<Rightarrow> rat \<Rightarrow> ('w, endpoint_error, endpoint_snapshot) prog" where
  "pause_created_identity port identity timeout_seconds poll_seconds =
     prog_bind (prog_io (suppress_error Ambiguous_pause (pe_pause port identity))) (\<lambda>_.
       poll_until (look_paused (pe_inspect port identity)) Verification_timeout Timeout_not_positive port
         timeout_seconds poll_seconds)"

definition wait_until_deleted ::
  "'w endpoint_port \<Rightarrow> managed_identity \<Rightarrow> rat \<Rightarrow> rat \<Rightarrow> ('w, endpoint_error, unit) prog" where
  "wait_until_deleted port identity timeout_seconds poll_seconds =
     poll_until (io_bind (pe_inspect port identity) (\<lambda>snapshot.
         io_return (if snapshot = None then Some () else None)))
       Verification_timeout Timeout_not_positive port timeout_seconds poll_seconds"

definition pause_and_verify ::
  "'w endpoint_port \<Rightarrow> desired_endpoint \<Rightarrow> rat \<Rightarrow> rat \<Rightarrow> ('w, endpoint_error, endpoint_snapshot) prog" where
  "pause_and_verify port desired timeout_seconds poll_seconds =
     prog_bind (prog_io (inspect_exact port desired)) (\<lambda>current.
       case current of
         None \<Rightarrow> prog_raise Endpoint_not_found
       | Some s \<Rightarrow>
           if is_paused_zero_ready s then prog_return s
           else prog_bind (prog_io (suppress_error Ambiguous_pause (pe_pause port (de_identity desired))))
             (\<lambda>_. wait_until_paused port desired timeout_seconds poll_seconds))"

definition delete_endpoint ::
  "'w endpoint_port \<Rightarrow> desired_endpoint \<Rightarrow> rat \<Rightarrow> rat \<Rightarrow> ('w, endpoint_error, bool) prog" where
  "delete_endpoint port desired timeout_seconds poll_seconds =
     prog_bind (prog_io (inspect_exact port desired)) (\<lambda>current.
       case current of
         None \<Rightarrow> prog_return False
       | Some s \<Rightarrow>
           prog_bind (prog_io (io_result (require_paused_zero_ready s))) (\<lambda>_.
           prog_bind (prog_io (suppress_error Ambiguous_delete (pe_delete port (de_identity desired)))) (\<lambda>_.
           prog_bind (wait_until_deleted port (de_identity desired) timeout_seconds poll_seconds) (\<lambda>_.
             prog_return True))))"

datatype provisioning_action = Created | Adopted

definition is_mismatch :: "endpoint_error \<Rightarrow> bool" where
  "is_mismatch e = (case e of Identity_mismatch \<Rightarrow> True | Configuration_mismatch _ \<Rightarrow> True | _ \<Rightarrow> False)"

definition is_provisioning_error :: "endpoint_error \<Rightarrow> bool" where
  "is_provisioning_error e \<longleftrightarrow> e \<noteq> Timeout_not_positive"

text \<open>\<open>except EndpointProvisioningError as cleanup_error: raise AmbiguousEndpointPause(...)\<close>\<close>

definition cleanup_guard :: "('w, endpoint_error, 'a) prog \<Rightarrow> ('w, endpoint_error, 'a) prog" where
  "cleanup_guard m =
     prog_catch m (\<lambda>e. prog_raise (if is_provisioning_error e then Ambiguous_pause else e))"

definition create_or_wait ::
  "'w endpoint_port \<Rightarrow> desired_endpoint \<Rightarrow> rat \<Rightarrow> rat \<Rightarrow>
   ('w, endpoint_error, provisioning_action \<times> endpoint_snapshot) prog" where
  "create_or_wait port desired timeout_seconds poll_seconds =
     prog_catch (prog_bind (prog_io (pe_create port desired)) (\<lambda>s. prog_return (Created, s)))
       (\<lambda>e. if e = Ambiguous_create
            then prog_bind (wait_until_present port desired timeout_seconds poll_seconds)
              (\<lambda>s. prog_return (Adopted, s))
            else prog_raise e)"

text \<open>The two \<open>except\<close> branches after a failed \<open>pause_and_verify\<close>.\<close>

definition clean_up_after ::
  "'w endpoint_port \<Rightarrow> desired_endpoint \<Rightarrow> rat \<Rightarrow> rat \<Rightarrow> endpoint_error \<Rightarrow>
   ('w, endpoint_error, endpoint_snapshot) prog" where
  "clean_up_after port desired timeout_seconds poll_seconds e =
     (let clean_up = pause_created_identity port (de_identity desired) timeout_seconds poll_seconds in
      if is_mismatch e then prog_bind (cleanup_guard clean_up) (\<lambda>_. prog_raise e)
      else if is_provisioning_error e then
        cleanup_guard (prog_bind clean_up (\<lambda>paused.
          prog_bind (prog_io (io_result (verify_exact_endpoint desired paused))) (\<lambda>_. prog_return paused)))
      else prog_raise e)"

definition pause_or_clean_up ::
  "'w endpoint_port \<Rightarrow> desired_endpoint \<Rightarrow> rat \<Rightarrow> rat \<Rightarrow> ('w, endpoint_error, endpoint_snapshot) prog" where
  "pause_or_clean_up port desired timeout_seconds poll_seconds =
     prog_catch (pause_and_verify port desired timeout_seconds poll_seconds)
       (clean_up_after port desired timeout_seconds poll_seconds)"

definition verify_created ::
  "'w endpoint_port \<Rightarrow> desired_endpoint \<Rightarrow> rat \<Rightarrow> rat \<Rightarrow> endpoint_snapshot \<Rightarrow> ('w, endpoint_error, unit) prog" where
  "verify_created port desired timeout_seconds poll_seconds snapshot =
     prog_catch (prog_io (io_result (verify_exact_endpoint desired snapshot))) (\<lambda>e.
       if is_mismatch e
       then prog_bind (pause_created_identity port (de_identity desired) timeout_seconds poll_seconds)
         (\<lambda>_. prog_raise e)
       else prog_raise e)"

definition create_or_adopt ::
  "'w endpoint_port \<Rightarrow> desired_endpoint \<Rightarrow> rat \<Rightarrow> rat \<Rightarrow>
   ('w, endpoint_error, provisioning_action \<times> endpoint_snapshot) prog" where
  "create_or_adopt port desired timeout_seconds poll_seconds =
     prog_bind (prog_io (inspect_exact port desired)) (\<lambda>existing.
       case existing of
         Some s \<Rightarrow> prog_bind (prog_io (io_result (require_paused_zero_ready s)))
           (\<lambda>_. prog_return (Adopted, s))
       | None \<Rightarrow>
           prog_bind (create_or_wait port desired timeout_seconds poll_seconds) (\<lambda>(action, snapshot).
           prog_bind (verify_created port desired timeout_seconds poll_seconds snapshot) (\<lambda>_.
           prog_bind (pause_or_clean_up port desired timeout_seconds poll_seconds) (\<lambda>paused.
             prog_return (action, paused)))))"

section \<open>Every operation returns\<close>

text \<open>What the provider's calls have to do with time: none of them turns the clock back.\<close>

definition port_contract :: "'w endpoint_port \<Rightarrow> ('w \<Rightarrow> rat) \<Rightarrow> bool" where
  "port_contract port now \<longleftrightarrow>
     clock_contract port now \<and> (\<forall>i. passes_time now (pe_inspect port i))"

lemma passes_time_bind:
  "passes_time now m \<Longrightarrow> (\<And>x. passes_time now (f x)) \<Longrightarrow> passes_time now (io_bind m f)"
  by (auto simp: passes_time_def io_bind_def split: prod.split sum.split)
    (metis order_trans snd_conv)+

lemma passes_time_pure [simp]:
  "passes_time now (io_return x)" "passes_time now (io_raise e)" "passes_time now (io_result r)"
  by (auto simp: passes_time_def io_return_def io_raise_def io_result_def)

lemma waits_return:
  assumes "port_contract port now"
  shows "returns (wait_until_present port d timeout poll)" "returns (wait_until_paused port d timeout poll)"
    "returns (pause_created_identity port i timeout poll)" "returns (wait_until_deleted port i timeout poll)"
proof -
  have clock: "clock_contract port now" and "passes_time now (pe_inspect port i)" for i
    using assms by (auto simp: port_contract_def)
  then have looks: "passes_time now (inspect_exact port d)" "passes_time now (look_paused (inspect_exact port d))"
    "passes_time now (look_paused (pe_inspect port i))"
    "passes_time now (io_bind (pe_inspect port i) (\<lambda>s. io_return (if s = None then Some () else None)))"
    unfolding inspect_exact_def look_paused_def by (auto intro!: passes_time_bind split: option.split)
  show "returns (wait_until_present port d timeout poll)" "returns (wait_until_paused port d timeout poll)"
    "returns (pause_created_identity port i timeout poll)" "returns (wait_until_deleted port i timeout poll)"
    unfolding wait_until_present_def wait_until_paused_def pause_created_identity_def wait_until_deleted_def
    by (intro returns_intros poll_until_returns [OF clock] looks)+
qed

lemma operations_return:
  assumes "port_contract port now"
  shows "returns (pause_and_verify port d timeout poll)" "returns (delete_endpoint port d timeout poll)"
    "returns (create_or_adopt port d timeout poll)"
proof -
  note waits = waits_return [OF assms]
  show pause: "returns (pause_and_verify port d timeout poll)"
    unfolding pause_and_verify_def by (intro returns_intros) (auto intro!: returns_intros waits split: option.split)
  show "returns (delete_endpoint port d timeout poll)"
    unfolding delete_endpoint_def by (intro returns_intros) (auto intro!: returns_intros waits split: option.split)
  have "returns (create_or_wait port d timeout poll)"
    unfolding create_or_wait_def by (auto intro!: returns_intros waits)
  moreover have "returns (verify_created port d timeout poll s)" for s
    unfolding verify_created_def by (auto intro!: returns_intros waits)
  moreover have "returns (pause_or_clean_up port d timeout poll)"
    unfolding pause_or_clean_up_def clean_up_after_def cleanup_guard_def Let_def
    by (auto intro!: returns_intros waits pause)
  ultimately show "returns (create_or_adopt port d timeout poll)"
    unfolding create_or_adopt_def
    by (intro returns_intros) (auto intro!: returns_intros waits split: option.split)
qed

end
