(* ===== verification/Endpoint_Calls.thy ===== *)
theory Endpoint_Calls
  imports Endpoint_Provisioner
begin

text \<open>
  The calls an operation of the provisioner makes. \<open>traced port\<close> is the port with a list of
  the calls made so far and their answers in its world. \<open>adds P s s'\<close> says that between two
  worlds only calls with the property \<open>P\<close> were added.
\<close>

datatype endpoint_call =
    Create_call desired_endpoint "endpoint_error + endpoint_snapshot"
  | Inspect_call managed_identity "endpoint_error + endpoint_snapshot option"
  | Pause_call managed_identity "endpoint_error + endpoint_snapshot"
  | Delete_call managed_identity "endpoint_error + unit"

type_synonym 'w trace = "'w \<times> endpoint_call list"

definition logged :: "('w \<Rightarrow> 'r \<times> 'w) \<Rightarrow> ('r \<Rightarrow> endpoint_call) \<Rightarrow> 'w trace \<Rightarrow> 'r \<times> 'w trace" where
  "logged m c s = (case m (fst s) of (r, w) \<Rightarrow> (r, (w, snd s @ [c r])))"

definition traced :: "'w endpoint_port \<Rightarrow> 'w trace endpoint_port" where
  "traced port =
     \<lparr>ck_monotonic = (\<lambda>s. case ck_monotonic port (fst s) of (t, w) \<Rightarrow> (t, (w, snd s))),
      ck_sleep = (\<lambda>d s. (ck_sleep port d (fst s), snd s)),
      pe_create = (\<lambda>d. logged (pe_create port d) (Create_call d)),
      pe_inspect = (\<lambda>i. logged (pe_inspect port i) (Inspect_call i)),
      pe_pause = (\<lambda>i. logged (pe_pause port i) (Pause_call i)),
      pe_delete = (\<lambda>i. logged (pe_delete port i) (Delete_call i))\<rparr>"

definition adds :: "(endpoint_call \<Rightarrow> bool) \<Rightarrow> 'w trace \<Rightarrow> 'w trace \<Rightarrow> bool" where
  "adds P s s' \<longleftrightarrow> (\<exists>cs. snd s' = snd s @ cs \<and> list_all P cs)"

lemma adds_refl [simp]: "adds P s s"
  by (simp add: adds_def)

lemma adds_trans [trans]: "adds P s t \<Longrightarrow> adds P t u \<Longrightarrow> adds P s u"
  unfolding adds_def by (metis append_assoc list_all_append)

lemma adds_preorder: "reflp (adds P)" "transp (adds P)"
  by (auto intro: reflpI transpI adds_trans)

lemma adds_mono: "adds P s t \<Longrightarrow> (\<And>c. P c \<Longrightarrow> Q c) \<Longrightarrow> adds Q s t"
  unfolding adds_def by (meson list.pred_mono_strong)

lemma adds_one: "snd s' = snd s @ [c] \<Longrightarrow> P c \<Longrightarrow> adds P s s'"
  by (simp add: adds_def)

text \<open>The calls that look at, or pause, one endpoint.\<close>

definition inspects :: "managed_identity \<Rightarrow> endpoint_call \<Rightarrow> bool" where
  "inspects i c \<longleftrightarrow> (\<exists>a. c = Inspect_call i a)"

definition handles :: "managed_identity \<Rightarrow> endpoint_call \<Rightarrow> bool" where
  "handles i c \<longleftrightarrow> (\<exists>a. c = Inspect_call i a) \<or> (\<exists>a. c = Pause_call i a)"

lemma inspects_handles: "inspects i c \<Longrightarrow> handles i c"
  by (auto simp: inspects_def handles_def)

lemma traced_clock: "clock_stays (adds P) (traced port)"
  by (auto simp: clock_stays_def stays_def traced_def adds_def case_prod_unfold)

section \<open>Single calls\<close>

lemma traced_inspect:
  "pe_inspect (traced port) i s = (r, s') \<Longrightarrow> snd s' = snd s @ [Inspect_call i r]"
  by (auto simp: traced_def logged_def split: prod.splits)

lemma traced_pause:
  "suppress_error e (pe_pause (traced port) i) s = (r, s') \<Longrightarrow> adds (handles i) s s'"
  by (auto simp: suppress_error_def traced_def logged_def adds_def handles_def split: prod.splits sum.splits if_splits)

definition checked ::
  "desired_endpoint \<Rightarrow> endpoint_error + endpoint_snapshot option \<Rightarrow> endpoint_error + endpoint_snapshot option" where
  "checked d a = rbind a (\<lambda>x. case x of None \<Rightarrow> Inr None
     | Some snap \<Rightarrow> rbind (verify_exact_endpoint d snap) (\<lambda>_. Inr (Some snap)))"

lemma checked_Inr:
  "checked d a = Inr (Some snap) \<longleftrightarrow> a = Inr (Some snap) \<and> verify_exact_endpoint d snap = Inr ()"
  "checked d a = Inr None \<longleftrightarrow> a = Inr None"
  by (auto simp: checked_def rbind_Inr_iff split: option.split)

lemma inspect_exact_call:
  assumes "inspect_exact (traced port) d s = (r, s')"
  obtains a where "snd s' = snd s @ [Inspect_call (de_identity d) a]" and "r = checked d a"
proof -
  obtain a t where a: "pe_inspect (traced port) (de_identity d) s = (a, t)" by (rule prod.exhaust)
  then have "inspect_exact (traced port) d s = (checked d a, t)"
    by (cases a)
      (auto simp: inspect_exact_def checked_def io_bind_def io_return_def io_result_def split: sum.split option.split)
  with assms traced_inspect [OF a] show ?thesis by (intro that [of a]) simp_all
qed

lemma inspect_exact_adds: "inspect_exact (traced port) d s = (r, s') \<Longrightarrow> adds (inspects (de_identity d)) s s'"
  by (erule inspect_exact_call) (auto intro: adds_one simp: inspects_def)

section \<open>Waits\<close>

lemma look_paused_stays:
  assumes "stays (adds P) m"
  shows "stays (adds P) (look_paused m)"
proof -
  have "snd (look_paused m s) = snd (m s)" for s
    by (auto simp: look_paused_def io_bind_def io_return_def io_raise_def split: prod.split sum.split option.split)
  with assms show ?thesis by (simp add: stays_def)
qed

lemma inspections_stay:
  "stays (adds (inspects (de_identity d))) (inspect_exact (traced port) d)"
  "stays (adds (inspects i)) (pe_inspect (traced port) i)"
  unfolding stays_def
  by (blast intro: inspect_exact_adds [OF prod.collapse [symmetric]])
    (blast intro: adds_one [OF traced_inspect [OF prod.collapse [symmetric]]] inspects_def [THEN iffD2])

lemma wait_until_present_calls:
  assumes "wait_until_present (traced port) d timeout poll s = Some (r, s')"
  shows "adds (inspects (de_identity d)) s s'"
  using assms unfolding wait_until_present_def
  by (rule poll_until_result(1) [OF _ inspections_stay(1) traced_clock adds_preorder])

text \<open>A wait for a pause that succeeds ends with the inspection that saw it.\<close>

definition seen_paused :: "managed_identity \<Rightarrow> endpoint_snapshot \<Rightarrow> 'w trace \<Rightarrow> bool" where
  "seen_paused i snap s \<longleftrightarrow>
     is_paused_zero_ready snap \<and> (\<exists>cs. snd s = cs @ [Inspect_call i (Inr (Some snap))])"

lemma look_paused_found:
  assumes "look_paused m s = (Inr (Some snap), s')"
  shows "m s = (Inr (Some snap), s')" and "is_paused_zero_ready snap"
  using assms
  by (auto simp: look_paused_def io_bind_def io_return_def io_raise_def split: prod.splits sum.splits option.splits if_splits)

lemma wait_until_paused_calls:
  assumes "wait_until_paused (traced port) d timeout poll s = Some (r, s')"
  shows "adds (inspects (de_identity d)) s s'"
    and "r = Inr snap \<Longrightarrow> seen_paused (de_identity d) snap s' \<and> verify_exact_endpoint d snap = Inr ()"
proof -
  note result = poll_until_result [OF assms [unfolded wait_until_paused_def]
      look_paused_stays [OF inspections_stay(1)] traced_clock adds_preorder]
  show "adds (inspects (de_identity d)) s s'" by (rule result(1))
  assume "r = Inr snap"
  from result(2) [OF this] obtain v where
    v: "look_paused (inspect_exact (traced port) d) v = (Inr (Some snap), s')" by blast
  obtain a where "snd s' = snd v @ [Inspect_call (de_identity d) a]" "Inr (Some snap) = checked d a"
    by (rule inspect_exact_call [OF look_paused_found(1) [OF v]])
  with look_paused_found(2) [OF v] show "seen_paused (de_identity d) snap s' \<and> verify_exact_endpoint d snap = Inr ()"
    using checked_Inr(1) [of d a snap] by (simp add: seen_paused_def)
qed

lemma pause_created_identity_calls:
  assumes "pause_created_identity (traced port) i timeout poll s = Some (r, s')"
  shows "adds (handles i) s s'" and "r = Inr snap \<Longrightarrow> seen_paused i snap s'"
proof -
  have "adds (handles i) s s' \<and> (\<forall>snap. r = Inr snap \<longrightarrow> seen_paused i snap s')"
  proof (cases "\<exists>e. suppress_error Ambiguous_pause (pe_pause (traced port) i) s = (Inl e, s') \<and> r = Inl e")
    case True
    then show ?thesis using traced_pause by fastforce
  next
    case False
    with assms obtain u t where t: "suppress_error Ambiguous_pause (pe_pause (traced port) i) s = (Inr u, t)"
      and poll: "poll_until (look_paused (pe_inspect (traced port) i)) Verification_timeout
        Timeout_not_positive (traced port) timeout poll t = Some (r, s')"
      by (auto simp: pause_created_identity_def prog_simps)
    note result = poll_until_result [OF poll look_paused_stays [OF inspections_stay(2)] traced_clock adds_preorder]
    have "adds (handles i) s s'"
      using traced_pause [OF t] adds_mono [OF result(1) inspects_handles] by (rule adds_trans)
    moreover have "seen_paused i snap s'" if "r = Inr snap" for snap
      using result(2) [OF that] look_paused_found traced_inspect unfolding seen_paused_def by metis
    ultimately show ?thesis by blast
  qed
  then show "adds (handles i) s s'" "r = Inr snap \<Longrightarrow> seen_paused i snap s'" by auto
qed

section \<open>Operations\<close>

lemma pause_and_verify_calls:
  assumes "pause_and_verify (traced port) d timeout poll s = Some (r, s')"
  shows "adds (handles (de_identity d)) s s'"
    and "r = Inr snap \<Longrightarrow> seen_paused (de_identity d) snap s' \<and> verify_exact_endpoint d snap = Inr ()"
proof -
  obtain c t where c: "inspect_exact (traced port) d s = (c, t)" by (rule prod.exhaust)
  have t: "adds (handles (de_identity d)) s t"
    using inspect_exact_adds [OF c] inspects_handles by (rule adds_mono)
  have "adds (handles (de_identity d)) t s' \<and>
      (\<forall>snap. r = Inr snap \<longrightarrow> seen_paused (de_identity d) snap s' \<and> verify_exact_endpoint d snap = Inr ())"
  proof (cases "\<exists>snap. c = Inr (Some snap) \<and> \<not> is_paused_zero_ready snap")
    case True
    obtain p u where p: "suppress_error Ambiguous_pause (pe_pause (traced port) (de_identity d)) t = (p, u)"
      by (rule prod.exhaust)
    from True assms c p have "(\<exists>e. r = Inl e \<and> s' = u) \<or>
        wait_until_paused (traced port) d timeout poll u = Some (r, s')"
      by (auto simp: pause_and_verify_def prog_simps)
    then show ?thesis
    proof
      assume w: "wait_until_paused (traced port) d timeout poll u = Some (r, s')"
      have "adds (handles (de_identity d)) u s'"
        using wait_until_paused_calls(1) [OF w] inspects_handles by (rule adds_mono)
      with traced_pause [OF p] wait_until_paused_calls(2) [OF w] show ?thesis by (blast intro: adds_trans)
    qed (use traced_pause [OF p] in auto)
  next
    case False
    with assms c have "s' = t" and found: "r = Inr snap \<Longrightarrow> c = Inr (Some snap) \<and> is_paused_zero_ready snap" for snap
      by (auto simp: pause_and_verify_def prog_simps split: option.splits if_splits)
    moreover from inspect_exact_call [OF c] obtain a where "snd t = snd s @ [Inspect_call (de_identity d) a]"
      "c = checked d a" .
    ultimately show ?thesis unfolding seen_paused_def by (auto simp: checked_Inr)
  qed
  with t show "adds (handles (de_identity d)) s s'"
    "r = Inr snap \<Longrightarrow> seen_paused (de_identity d) snap s' \<and> verify_exact_endpoint d snap = Inr ()"
    by (auto intro: adds_trans)
qed

text \<open>What pausing a created endpoint can end with: seen paused, or a failure that says it was not.\<close>

definition settled :: "desired_endpoint \<Rightarrow> endpoint_error + endpoint_snapshot \<Rightarrow> 'w trace \<Rightarrow> bool" where
  "settled d r s =
     (case r of
        Inr snap \<Rightarrow> seen_paused (de_identity d) snap s \<and> verify_exact_endpoint d snap = Inr ()
      | Inl e \<Rightarrow> is_mismatch e \<longrightarrow> (\<exists>snap. seen_paused (de_identity d) snap s))"

lemma not_mismatch: "\<not> is_provisioning_error e \<Longrightarrow> \<not> is_mismatch e" "\<not> is_mismatch Ambiguous_pause"
  "\<not> is_mismatch Verification_timeout" "\<not> is_mismatch Timeout_not_positive"
  by (auto simp: is_mismatch_def is_provisioning_error_def)

lemma clean_up_after_calls:
  assumes "clean_up_after (traced port) d timeout poll e s = Some (r, s')"
  shows "adds (handles (de_identity d)) s s' \<and> settled d r s'"
proof (cases "is_provisioning_error e")
  case True
  let ?clean = "pause_created_identity (traced port) (de_identity d) timeout poll s"
  have "?clean \<noteq> None"
    using assms True by (cases ?clean)
      (simp_all add: clean_up_after_def cleanup_guard_def Let_def prog_catch_def prog_bind_def split: if_splits)
  then obtain q u where q: "?clean = Some (q, u)" by (metis not_None_eq surj_pair)
  note calls = pause_created_identity_calls [OF q]
  show ?thesis
  proof (cases q)
    case (Inl c)
    with assms True q have "s' = u" "r = Inl (if is_provisioning_error c then Ambiguous_pause else c)"
      by (simp_all add: clean_up_after_def cleanup_guard_def Let_def prog_catch_def prog_bind_def prog_io_def
          io_raise_def split: if_splits)
    with calls(1) not_mismatch show ?thesis by (simp add: settled_def)
  next
    case (Inr snap)
    define v where "v = verify_exact_endpoint d snap"
    have "clean_up_after (traced port) d timeout poll e s =
        Some (if is_mismatch e then Inl e else case v of Inl c \<Rightarrow> Inl (if is_provisioning_error c then Ambiguous_pause else c)
          | Inr _ \<Rightarrow> Inr snap, u)"
      using True q Inr
      by (simp add: clean_up_after_def cleanup_guard_def Let_def prog_catch_def prog_bind_def prog_io_def
            io_raise_def io_return_def io_result_def v_def split: sum.split)
    with assms have r: "s' = u" "r = (if is_mismatch e then Inl e
        else case v of Inl c \<Rightarrow> Inl (if is_provisioning_error c then Ambiguous_pause else c) | Inr _ \<Rightarrow> Inr snap)"
      by simp_all
    from calls(2) [OF Inr] have "settled d r u" unfolding r(2) v_def
      by (auto simp: settled_def not_mismatch split: sum.split)
    with calls(1) r(1) show ?thesis by simp
  qed
next
  case False
  with assms not_mismatch(1) [OF False] show ?thesis
    by (auto simp: clean_up_after_def Let_def prog_io_def io_raise_def settled_def)
qed

lemma pause_or_clean_up_calls:
  assumes "pause_or_clean_up (traced port) d timeout poll s = Some (r, s')"
  shows "adds (handles (de_identity d)) s s' \<and> settled d r s'"
proof -
  have "pause_and_verify (traced port) d timeout poll s \<noteq> None"
    using assms by (cases "pause_and_verify (traced port) d timeout poll s")
      (simp_all add: pause_or_clean_up_def prog_catch_def)
  then obtain p t where p: "pause_and_verify (traced port) d timeout poll s = Some (p, t)"
    by (metis not_None_eq surj_pair)
  note first = pause_and_verify_calls [OF p]
  show ?thesis
  proof (cases p)
    case (Inr snap)
    with assms p have "r = Inr snap" "s' = t" by (simp_all add: pause_or_clean_up_def prog_catch_def)
    with first(1) first(2) [OF Inr] show ?thesis by (simp add: settled_def)
  next
    case (Inl e)
    with assms p have "clean_up_after (traced port) d timeout poll e t = Some (r, s')"
      by (simp add: pause_or_clean_up_def prog_catch_def)
    from clean_up_after_calls [OF this] first(1) show ?thesis by (blast intro: adds_trans)
  qed
qed

lemma create_or_wait_calls:
  assumes "create_or_wait (traced port) d timeout poll s = Some (r, s')"
  obtains b cs where "snd s' = snd s @ Create_call d b # cs" and "list_all (inspects (de_identity d)) cs"
    and "\<forall>snap. b = Inr snap \<longrightarrow> r = Inr (Created, snap)"
proof -
  obtain b t where b: "pe_create (traced port) d s = (b, t)" by (rule prod.exhaust)
  then have t: "snd t = snd s @ [Create_call d b]"
    by (auto simp: traced_def logged_def split: prod.splits)
  show ?thesis
  proof (cases "b = Inl Ambiguous_create")
    case True
    with assms b obtain q where "wait_until_present (traced port) d timeout poll t = Some (q, s')"
      by (auto simp: create_or_wait_def prog_simps)
    from wait_until_present_calls [OF this] t True show ?thesis
      by (auto simp: adds_def intro: that)
  next
    case False
    with assms b have "s' = t" "\<forall>snap. b = Inr snap \<longrightarrow> r = Inr (Created, snap)"
      by (auto simp: create_or_wait_def prog_simps split: if_splits)
    with t show ?thesis by (intro that [of b "[]"]) simp_all
  qed
qed

text \<open>Only the provisioner itself raises mismatches; the calls of the port do not.\<close>

definition port_errors_plain :: "'w endpoint_port \<Rightarrow> bool" where
  "port_errors_plain port \<longleftrightarrow>
     (\<forall>i w e w'. pe_inspect port i w = (Inl e, w') \<or> pe_pause port i w = (Inl e, w') \<longrightarrow> \<not> is_mismatch e)"

lemma pause_created_identity_error:
  assumes "port_errors_plain port" and "pause_created_identity (traced port) i timeout poll s = Some (Inl e, s')"
  shows "\<not> is_mismatch e"
proof -
  have inspect: "\<not> is_mismatch e" if "look_paused (pe_inspect (traced port) i) v = (Inl e, u)" for v u
    using that assms(1)
    by (auto simp: look_paused_def io_bind_def io_return_def io_raise_def traced_def logged_def port_errors_plain_def
        is_mismatch_def split: prod.splits sum.splits option.splits)
  have pause: "\<not> is_mismatch e" if "suppress_error Ambiguous_pause (pe_pause (traced port) i) s = (Inl e, u)" for u
    using that assms(1)
    by (auto simp: suppress_error_def traced_def logged_def port_errors_plain_def split: prod.splits sum.splits if_splits)
  from assms(2) consider "suppress_error Ambiguous_pause (pe_pause (traced port) i) s = (Inl e, s')"
    | t where "poll_until (look_paused (pe_inspect (traced port) i)) Verification_timeout Timeout_not_positive
        (traced port) timeout poll t = Some (Inl e, s')"
    by (auto simp: pause_created_identity_def prog_simps)
  then show ?thesis
  proof cases
    case (2 t)
    from poll_until_result(3) [OF 2 look_paused_stays [OF inspections_stay(2)] traced_clock adds_preorder refl]
    show ?thesis by (elim disjE exE) (simp_all add: not_mismatch inspect)
  qed (rule pause)
qed

lemma verify_created_calls:
  assumes "verify_created (traced port) d timeout poll snapshot s = Some (r, s')"
  shows "adds (handles (de_identity d)) s s'"
    and "port_errors_plain port \<Longrightarrow> r = Inl e \<Longrightarrow> settled d (Inl e) s'"
proof -
  have "adds (handles (de_identity d)) s s' \<and> (port_errors_plain port \<longrightarrow> r = Inl e \<longrightarrow> settled d (Inl e) s')"
  proof (cases "\<exists>c. verify_exact_endpoint d snapshot = Inl c \<and> is_mismatch c")
    case True
    with assms obtain c q where q: "pause_created_identity (traced port) (de_identity d) timeout poll s = Some (q, s')"
      and r: "r = (case q of Inl c' \<Rightarrow> Inl c' | Inr _ \<Rightarrow> Inl c)"
      by (auto simp: verify_created_def prog_simps io_result_def)
    note calls = pause_created_identity_calls [OF q]
    show ?thesis
    proof (cases q)
      case (Inl c')
      with calls(1) r pause_created_identity_error [OF _ q [unfolded Inl]] show ?thesis
        by (auto simp: settled_def)
    next
      case (Inr snap)
      with calls(1) calls(2) [OF Inr] r show ?thesis by (simp add: settled_def) blast
    qed
  next
    case False
    with assms show ?thesis
      by (auto simp: verify_created_def prog_simps io_result_def settled_def split: if_splits)
  qed
  then show "adds (handles (de_identity d)) s s'"
    "port_errors_plain port \<Longrightarrow> r = Inl e \<Longrightarrow> settled d (Inl e) s'" by auto
qed

lemma prog_bind_cases:
  assumes "prog_bind m f s = Some (r, s')"
  obtains (raised) e where "m s = Some (Inl e, s')" and "r = Inl e"
    | (continued) x t where "m s = Some (Inr x, t)" and "f x t = Some (r, s')"
  using assms by (cases "m s") (auto simp: prog_bind_def split: sum.splits)

lemma verified_and_paused_calls:
  assumes "prog_bind (verify_created (traced port) d timeout poll snapshot) (\<lambda>_.
      prog_bind (pause_or_clean_up (traced port) d timeout poll) (\<lambda>paused. prog_return (action, paused))) s
    = Some (r, s')"
  shows "adds (handles (de_identity d)) s s' \<and> (\<forall>a snap. r = Inr (a, snap) \<longrightarrow> settled d (Inr snap) s') \<and>
    (\<forall>e. port_errors_plain port \<longrightarrow> r = Inl e \<longrightarrow> settled d (Inl e) s')"
  using assms
proof (cases rule: prog_bind_cases)
  case (raised e)
  with verify_created_calls [OF raised(1)] show ?thesis by simp
next
  case (continued x t)
  from continued(2) show ?thesis
  proof (cases rule: prog_bind_cases)
    case (raised e)
    with verify_created_calls(1) [OF continued(1)] pause_or_clean_up_calls [OF raised(1)] show ?thesis
      by (simp add: adds_trans [of _ s t s'])
  next
    case (continued snap u)
    from continued(2) have "r = Inr (action, snap)" "s' = u" by (simp_all add: prog_simps)
    with verify_created_calls(1) [OF \<open>verify_created (traced port) d timeout poll snapshot s = Some (Inr x, t)\<close>]
      pause_or_clean_up_calls [OF continued(1)] show ?thesis by (simp add: adds_trans [of _ s t u])
  qed
qed

text \<open>After the first inspection found nothing: one create, then only inspections and pauses.\<close>

definition create_calls ::
  "'w endpoint_port \<Rightarrow> desired_endpoint \<Rightarrow> endpoint_error + (provisioning_action \<times> endpoint_snapshot) \<Rightarrow>
   'w trace \<Rightarrow> 'w trace \<Rightarrow> bool" where
  "create_calls port d r s s' \<longleftrightarrow>
     (\<exists>b cs. snd s' = snd s @ Create_call d b # cs \<and> list_all (handles (de_identity d)) cs \<and>
       (\<forall>a snap. r = Inr (a, snap) \<longrightarrow> settled d (Inr snap) s') \<and>
       (\<forall>e snap. port_errors_plain port \<longrightarrow> b = Inr snap \<longrightarrow> r = Inl e \<longrightarrow> settled d (Inl e) s'))"

lemma created_calls:
  assumes "prog_bind (create_or_wait (traced port) d timeout poll) (\<lambda>(action, snapshot).
      prog_bind (verify_created (traced port) d timeout poll snapshot) (\<lambda>_.
      prog_bind (pause_or_clean_up (traced port) d timeout poll) (\<lambda>paused. prog_return (action, paused)))) s
    = Some (r, s')"
  shows "create_calls port d r s s'"
  using assms
proof (cases rule: prog_bind_cases)
  case (raised e)
  obtain b cs where b: "snd s' = snd s @ Create_call d b # cs" "list_all (inspects (de_identity d)) cs"
    "\<forall>snap. b = Inr snap \<longrightarrow> (Inl e :: endpoint_error + provisioning_action \<times> endpoint_snapshot) = Inr (Created, snap)"
    by (rule create_or_wait_calls [OF raised(1)])
  have "list_all (handles (de_identity d)) cs"
    using b(2) by (auto simp: list_all_iff inspects_handles)
  with b raised(2) show ?thesis unfolding create_calls_def by (intro exI [of _ b] exI [of _ cs]) simp
next
  case (continued x t)
  obtain b cs where b: "snd t = snd s @ Create_call d b # cs" "list_all (inspects (de_identity d)) cs"
    by (rule create_or_wait_calls [OF continued(1)])
  have rest: "adds (handles (de_identity d)) t s' \<and> (\<forall>a snap. r = Inr (a, snap) \<longrightarrow> settled d (Inr snap) s') \<and>
      (\<forall>e. port_errors_plain port \<longrightarrow> r = Inl e \<longrightarrow> settled d (Inl e) s')"
    using continued(2) by (intro verified_and_paused_calls [of port d timeout poll "snd x" "fst x"])
      (simp add: case_prod_unfold)
  then obtain more where "snd s' = snd t @ more" "list_all (handles (de_identity d)) more"
    unfolding adds_def by blast
  with b rest show ?thesis
    unfolding create_calls_def
    by (intro exI [of _ b] exI [of _ "cs @ more"]) (auto simp: list_all_iff inspects_handles)
qed

lemma create_or_adopt_calls:
  assumes "create_or_adopt (traced port) d timeout poll s = Some (r, s')"
  obtains (existing) a where "snd s' = snd s @ [Inspect_call (de_identity d) a]" and "a \<noteq> Inr None"
      and "\<forall>action snap. r = Inr (action, snap) \<longrightarrow> settled d (Inr snap) s'"
    | (absent) t where "snd t = snd s @ [Inspect_call (de_identity d) (Inr None)]" and "create_calls port d r t s'"
proof -
  obtain c t where c: "inspect_exact (traced port) d s = (c, t)" by (rule prod.exhaust)
  obtain a where a: "snd t = snd s @ [Inspect_call (de_identity d) a]"
    "c = checked d a" by (rule inspect_exact_call [OF c])
  show ?thesis
  proof (cases "c = Inr None")
    case True
    with assms c have "create_calls port d r t s'"
      by (intro created_calls) (simp add: create_or_adopt_def prog_bind_def prog_io_def)
    moreover have "a = Inr None" using a(2) True checked_Inr(2) [of d a] by simp
    ultimately show ?thesis using a(1) by (intro absent) simp_all
  next
    case False
    have "create_or_adopt (traced port) d timeout poll s =
        Some (case c of Inl e \<Rightarrow> Inl e | Inr x \<Rightarrow>
          if is_paused_zero_ready (the x) then Inr (Adopted, the x) else Inl Endpoint_not_paused, t)"
      using c False by (auto simp: create_or_adopt_def prog_bind_def prog_io_def io_result_def io_return_def
          require_paused_zero_ready_def require_def split: sum.splits option.splits)
    with assms have "s' = t" and r: "r = Inr (action, snap) \<Longrightarrow> c = Inr (Some snap) \<and> is_paused_zero_ready snap" for action snap
      using False by (auto split: sum.splits if_splits)
    moreover have "settled d (Inr snap) t" if "r = Inr (action, snap)" for action snap
      using r [OF that] a by (simp add: settled_def seen_paused_def checked_Inr)
    ultimately show ?thesis using a False by (intro existing [of a]) (auto simp: checked_Inr)
  qed
qed

lemma wait_until_deleted_calls:
  assumes "wait_until_deleted (traced port) i timeout poll s = Some (r, s')"
  shows "\<exists>cs. snd s' = snd s @ cs \<and> list_all (inspects i) cs \<and>
    (r = Inr u \<longrightarrow> cs \<noteq> [] \<and> last cs = Inspect_call i (Inr None))"
proof -
  let ?look = "io_bind (pe_inspect (traced port) i) (\<lambda>x. io_return (if x = None then Some () else None))"
  have "snd (?look v) = snd (pe_inspect (traced port) i v)" for v
    by (auto simp: io_bind_def io_return_def split: prod.split sum.split)
  then have "stays (adds (inspects i)) ?look" using inspections_stay(2) by (simp add: stays_def)
  note result = poll_until_result [OF assms [unfolded wait_until_deleted_def] this traced_clock adds_preorder]
  show ?thesis
  proof (cases "r = Inr u")
    case True
    from result(2) [OF True] obtain v where v: "adds (inspects i) s v" "?look v = (Inr (Some u), s')" by blast
    from v(2) have "pe_inspect (traced port) i v = (Inr None, s')"
      by (auto simp: io_bind_def io_return_def split: prod.splits sum.splits if_splits)
    from traced_inspect [OF this] v(1) show ?thesis by (auto simp: adds_def inspects_def)
  next
    case False
    with result(1) show ?thesis by (auto simp: adds_def)
  qed
qed

lemma delete_endpoint_calls:
  assumes "delete_endpoint (traced port) d timeout poll s = Some (r, s')"
  obtains (kept) cs where "snd s' = snd s @ cs" and "list_all (inspects (de_identity d)) cs" and "r \<noteq> Inr True"
      and "r = Inr False \<longrightarrow> cs = [Inspect_call (de_identity d) (Inr None)]"
    | (deleted) snap b cs where
        "snd s' = snd s @ Inspect_call (de_identity d) (Inr (Some snap)) # Delete_call (de_identity d) b # cs"
      and "verify_exact_endpoint d snap = Inr ()" and "is_paused_zero_ready snap" and "r \<noteq> Inr False"
      and "list_all (inspects (de_identity d)) cs"
      and "r = Inr True \<longrightarrow> cs \<noteq> [] \<and> last cs = Inspect_call (de_identity d) (Inr None)"
proof -
  obtain c t where c: "inspect_exact (traced port) d s = (c, t)" by (rule prod.exhaust)
  obtain a where a: "snd t = snd s @ [Inspect_call (de_identity d) a]"
    "c = checked d a" by (rule inspect_exact_call [OF c])
  show ?thesis
  proof (cases "\<exists>snap. c = Inr (Some snap) \<and> is_paused_zero_ready snap")
    case False
    have "delete_endpoint (traced port) d timeout poll s =
        Some (case c of Inl e \<Rightarrow> Inl e | Inr None \<Rightarrow> Inr False | Inr (Some _) \<Rightarrow> Inl Endpoint_not_paused, t)"
      using c False by (auto simp: delete_endpoint_def prog_bind_def prog_io_def io_result_def io_return_def
          require_paused_zero_ready_def require_def split: sum.splits option.splits)
    with assms have "s' = t" "r \<noteq> Inr True" "r = Inr False \<longrightarrow> c = Inr None"
      by (auto split: sum.splits option.splits)
    with a show ?thesis by (intro kept [of "[Inspect_call (de_identity d) a]"]) (auto simp: inspects_def checked_Inr)
  next
    case True
    then obtain snap where snap: "c = Inr (Some snap)" "is_paused_zero_ready snap" by blast
    obtain b u where b: "pe_delete (traced port) (de_identity d) t = (b, u)" by (rule prod.exhaust)
    have u: "snd u = snd t @ [Delete_call (de_identity d) b]"
      using b by (auto simp: traced_def logged_def split: prod.splits)
    let ?rest = "prog_bind (wait_until_deleted (traced port) (de_identity d) timeout poll) (\<lambda>_. prog_return True)"
    have "s' = u \<and> (\<exists>e. r = Inl e) \<or> ?rest u = Some (r, s')"
      using assms c snap b
      by (cases b; simp add: delete_endpoint_def prog_bind_def prog_io_def io_result_def suppress_error_def
          require_paused_zero_ready_def split: if_splits) auto
    then obtain cs where cs: "snd s' = snd u @ cs" "list_all (inspects (de_identity d)) cs" "r \<noteq> Inr False"
      "r = Inr True \<longrightarrow> cs \<noteq> [] \<and> last cs = Inspect_call (de_identity d) (Inr None)"
    proof (elim disjE)
      assume "?rest u = Some (r, s')"
      then show thesis
      proof (cases rule: prog_bind_cases)
        case (raised e)
        with wait_until_deleted_calls [OF raised(1), of "()"] that show thesis by auto
      next
        case (continued x v)
        then have "r = Inr True" "s' = v" by (simp_all add: prog_simps)
        with wait_until_deleted_calls [OF continued(1), of x] that show thesis by auto
      qed
    qed (use that [of "[]"] in auto)
    have "a = Inr (Some snap)" "verify_exact_endpoint d snap = Inr ()"
      using a(2) snap(1) checked_Inr(1) [of d a snap] by simp_all
    with a(1) u snap cs show ?thesis by (intro deleted [of snap b cs]) simp_all
  qed
qed

end
