(* ===== verification/Hf_Endpoint_Adapter.thy ===== *)
theory Hf_Endpoint_Adapter
  imports Endpoint_Calls
begin

text \<open>
  \<open>HuggingFaceEndpointAdapter\<close> (\<open>src/src/harbor_hf/hf_endpoints.py\<close>): the calls of the
  endpoint port as requests to the Inference Endpoints API, and the validation of what the API
  answers. The API client is an argument; an answer is the JSON value \<open>resource.raw\<close>, a failure
  is an HTTP status or a transport error. \<open>secret\<close> reads a secret (\<open>environment_secret\<close>).
\<close>

section \<open>Reading an answer\<close>

datatype raw_error = Raw_type_error string | Raw_value_error string | Raw_invalid

fun raw_mapping :: "string \<Rightarrow> json \<Rightarrow> raw_error + (string \<times> json) list" where
  "raw_mapping path (JObj kvs) = Inr kvs"
| "raw_mapping path _ = Inl (Raw_type_error path)"

definition optional_mapping :: "string \<Rightarrow> json \<Rightarrow> raw_error + (string \<times> json) list" where
  "optional_mapping path v = (if v = JNull then Inr [] else raw_mapping path v)"

fun raw_string :: "string \<Rightarrow> json \<Rightarrow> raw_error + string" where
  "raw_string path (JStr s) = Inr s"
| "raw_string path _ = Inl (Raw_type_error path)"

definition optional_string :: "string \<Rightarrow> json \<Rightarrow> raw_error + string option" where
  "optional_string path v = (if v = JNull then Inr None else rbind (raw_string path v) (\<lambda>s. Inr (Some s)))"

fun raw_integer :: "string \<Rightarrow> json \<Rightarrow> raw_error + int" where
  "raw_integer path (JInt i) = Inr i"
| "raw_integer path _ = Inl (Raw_type_error path)"

definition optional_integer :: "string \<Rightarrow> json \<Rightarrow> raw_error + int option" where
  "optional_integer path v = (if v = JNull then Inr None else rbind (raw_integer path v) (\<lambda>i. Inr (Some i)))"

fun raw_boolean :: "string \<Rightarrow> json \<Rightarrow> raw_error + bool" where
  "raw_boolean path (JBool b) = Inr b"
| "raw_boolean path _ = Inl (Raw_type_error path)"

fun raw_string_list :: "string \<Rightarrow> json \<Rightarrow> raw_error + string list" where
  "raw_string_list path (JArr xs) = mapM (raw_string path) xs"
| "raw_string_list path _ = Inl (Raw_type_error path)"

definition raw_string_mapping :: "string \<Rightarrow> json \<Rightarrow> raw_error + (string, string) dict" where
  "raw_string_mapping path v =
     rbind (raw_mapping path v) (mapM (\<lambda>(k, x). rbind (raw_string path x) (\<lambda>s. Inr (k, s))))"

definition raw_secret_names :: "json \<Rightarrow> raw_error + string list" where
  "raw_secret_names v = rbind (raw_mapping ''model.secrets'' v) (\<lambda>kvs. Inr (sort (map fst kvs)))"

definition raw_access_type :: "json \<Rightarrow> raw_error + access_type" where
  "raw_access_type v =
     rbind (raw_string ''endpoint.type'' v) (\<lambda>s.
       of_option (Raw_value_error ''endpoint.type'')
         (map_of [(''public'', Access_public), (''authenticated'', Access_authenticated),
           (''private'', Access_private)] s))"

definition scaling_measure :: "json \<Rightarrow> raw_error + (scaling_metric option \<times> int option)" where
  "scaling_measure v =
     (if v = JNull then Inr (None, None)
      else rbind (raw_mapping ''scaling.measure'' v) (\<lambda>measured.
        case measured of
          [(metric, threshold)] \<Rightarrow>
            rbind (of_option (Raw_value_error ''scaling.measure'')
                (map_of [(''pendingRequests'', Metric_pending_requests),
                  (''hardwareUsage'', Metric_hardware_usage)] metric)) (\<lambda>m.
              if threshold = JNull then Inr (None, None)
              else rbind (raw_integer ''scaling.measure'' threshold) (\<lambda>t. Inr (Some m, Some t)))
        | _ \<Rightarrow> Inl (Raw_value_error ''scaling.measure'')))"

text \<open>\<open>dict.get(key, default)\<close>\<close>

definition get_default :: "(string \<times> json) list \<Rightarrow> string \<Rightarrow> json \<Rightarrow> json" where
  "get_default kvs k v = (case map_of kvs k of None \<Rightarrow> v | Some x \<Rightarrow> x)"

definition raw_model :: "(string \<times> json) list \<Rightarrow> (string \<times> json) list \<Rightarrow> (string \<times> json) list \<Rightarrow>
    raw_error + endpoint_model" where
  "raw_model raw model custom =
     rbind (raw_string ''model.repository'' (get_or_null model ''repository'')) (\<lambda>repository.
     rbind (raw_string ''model.revision'' (get_or_null model ''revision'')) (\<lambda>revision.
     rbind (raw_string ''model.framework'' (get_or_null model ''framework'')) (\<lambda>framework.
     rbind (raw_string ''model.task'' (get_or_null model ''task'')) (\<lambda>task.
     rbind (raw_string ''model.image.custom.url'' (get_or_null custom ''url'')) (\<lambda>url.
     rbind (raw_string ''model.image.healthRoute''
         (get_default custom ''healthRoute'' (get_or_null raw ''healthRoute''))) (\<lambda>health_route.
     rbind (optional_integer ''model.image.port'' (get_or_null custom ''port'')) (\<lambda>port.
     rbind (raw_string_list ''model.command'' (get_default model ''command'' (JArr []))) (\<lambda>command.
     rbind (raw_string_list ''model.args'' (get_default model ''args'' (JArr []))) (\<lambda>arguments.
     rbind (raw_string_mapping ''model.env'' (get_default model ''env'' (JObj []))) (\<lambda>environment.
     rbind (raw_secret_names (get_default model ''secrets'' (JObj []))) (\<lambda>secret_names.
       Inr \<lparr>em_repository = repository, em_revision = revision, em_framework = framework, em_task = task,
            em_image = \<lparr>im_url = url, im_health_route = health_route, im_port = port\<rparr>,
            em_command = command, em_arguments = arguments, em_environment = environment,
            em_secret_names = secret_names\<rparr>)))))))))))"

definition raw_compute :: "(string \<times> json) list \<Rightarrow> (string \<times> json) list \<Rightarrow>
    scaling_metric option \<times> int option \<Rightarrow> raw_error + endpoint_compute" where
  "raw_compute compute scaling measured =
     rbind (raw_string ''compute.accelerator'' (get_or_null compute ''accelerator'')) (\<lambda>accelerator.
     rbind (raw_string ''compute.instanceSize'' (get_or_null compute ''instanceSize'')) (\<lambda>instance_size.
     rbind (raw_string ''compute.instanceType'' (get_or_null compute ''instanceType'')) (\<lambda>instance_type.
     rbind (raw_integer ''scaling.minReplica'' (get_or_null scaling ''minReplica'')) (\<lambda>min_replicas.
     rbind (raw_integer ''scaling.maxReplica'' (get_or_null scaling ''maxReplica'')) (\<lambda>max_replicas.
     rbind (optional_integer ''scaling.scaleToZeroTimeout'' (get_or_null scaling ''scaleToZeroTimeout'')) (\<lambda>timeout.
       Inr \<lparr>cm_accelerator = accelerator, cm_instance_size = instance_size, cm_instance_type = instance_type,
            cm_scaling = \<lparr>sc_min_replicas = min_replicas, sc_max_replicas = max_replicas,
              sc_scale_to_zero_timeout = timeout, sc_metric = fst measured, sc_threshold = snd measured\<rparr>\<rparr>))))))"

definition raw_provider :: "(string \<times> json) list \<Rightarrow> (string \<times> json) list \<Rightarrow> raw_error + endpoint_provider" where
  "raw_provider raw provider =
     rbind (raw_string ''provider.vendor'' (get_or_null provider ''vendor'')) (\<lambda>vendor.
     rbind (raw_string ''provider.region'' (get_or_null provider ''region'')) (\<lambda>region.
     rbind (optional_string ''accountId'' (get_or_null raw ''accountId'')) (\<lambda>account_id.
       Inr \<lparr>pv_vendor = vendor, pv_region = region, pv_account_id = account_id\<rparr>)))"

definition raw_status :: "(string \<times> json) list \<Rightarrow> raw_error + endpoint_status" where
  "raw_status status =
     rbind (raw_string ''status.state'' (get_or_null status ''state'')) (\<lambda>state.
     rbind (raw_integer ''status.readyReplica'' (get_or_null status ''readyReplica'')) (\<lambda>ready.
     rbind (raw_integer ''status.targetReplica'' (get_default status ''targetReplica'' (JInt 0))) (\<lambda>target.
     rbind (optional_string ''status.url'' (get_or_null status ''url'')) (\<lambda>url.
       Inr \<lparr>st_state = state, st_ready_replicas = ready, st_target_replicas = target, st_url = url\<rparr>))))"

text \<open>The pydantic models validate what was read, and sort the names.\<close>

definition validated_parts ::
  "string \<Rightarrow> string \<Rightarrow> endpoint_configuration \<Rightarrow> endpoint_status \<Rightarrow> raw_error + endpoint_snapshot" where
  "validated_parts namespace name configuration status =
     rbind (of_option Raw_invalid (canonical_configuration configuration)) (\<lambda>c.
       if nonempty namespace \<and> profile_name name \<and> endpoint_status_ok status
       then Inr \<lparr>sn_namespace = namespace, sn_name = name, sn_configuration = c, sn_status = status\<rparr>
       else Inl Raw_invalid)"

definition snapshot_from_raw :: "string \<Rightarrow> json \<Rightarrow> raw_error + endpoint_snapshot" where
  "snapshot_from_raw namespace raw_value =
     rbind (raw_mapping ''endpoint'' raw_value) (\<lambda>raw.
     rbind (raw_mapping ''endpoint.model'' (get_or_null raw ''model'')) (\<lambda>model.
     rbind (raw_mapping ''endpoint.model.image'' (get_or_null model ''image'')) (\<lambda>image.
     rbind (raw_mapping ''endpoint.model.image.custom'' (get_or_null image ''custom'')) (\<lambda>custom.
     rbind (raw_mapping ''endpoint.compute'' (get_or_null raw ''compute'')) (\<lambda>compute.
     rbind (raw_mapping ''endpoint.compute.scaling'' (get_or_null compute ''scaling'')) (\<lambda>scaling.
     rbind (raw_mapping ''endpoint.provider'' (get_or_null raw ''provider'')) (\<lambda>provider.
     rbind (raw_mapping ''endpoint.status'' (get_or_null raw ''status'')) (\<lambda>status.
     rbind (optional_mapping ''endpoint.route'' (get_or_null raw ''route'')) (\<lambda>route.
     rbind (scaling_measure (get_or_null scaling ''measure'')) (\<lambda>measured.
     rbind (raw_string ''endpoint.name'' (get_or_null raw ''name'')) (\<lambda>name.
     rbind (raw_model raw model custom) (\<lambda>m.
     rbind (raw_compute compute scaling measured) (\<lambda>c.
     rbind (raw_provider raw provider) (\<lambda>p.
     rbind (raw_access_type (get_or_null raw ''type'')) (\<lambda>access.
     rbind (optional_string ''route.domain'' (get_or_null route ''domain'')) (\<lambda>domain.
     rbind (optional_string ''route.path'' (get_or_null route ''path'')) (\<lambda>path.
     rbind (raw_boolean ''cacheHttpResponses'' (get_default raw ''cacheHttpResponses'' (JBool False))) (\<lambda>cache.
     rbind (raw_string_list ''endpoint.tags'' (get_default raw ''tags'' (JArr []))) (\<lambda>tags.
     rbind (raw_status status) (\<lambda>st.
       validated_parts namespace name
         \<lparr>ec_model = m, ec_compute = c, ec_provider = p, ec_access_type = access,
          ec_route = \<lparr>rt_domain = domain, rt_path = path\<rparr>, ec_cache_http_responses = cache, ec_tags = tags\<rparr>
         st))))))))))))))))))))"

definition validated_snapshot :: "string \<Rightarrow> json \<Rightarrow> endpoint_error + endpoint_snapshot" where
  "validated_snapshot namespace raw =
     (case snapshot_from_raw namespace raw of Inl _ \<Rightarrow> Inl Endpoint_provider_error | Inr s \<Rightarrow> Inr s)"

section \<open>Calls\<close>

datatype api_error = Http_error int | Transport_error

record 'w endpoint_api = "'w clock" +
  ea_create :: "string \<Rightarrow> (string \<times> json) list \<Rightarrow> ('w, api_error, json) io"
  ea_get :: "string \<Rightarrow> string \<Rightarrow> ('w, api_error, json) io"
  ea_pause :: "string \<Rightarrow> string \<Rightarrow> ('w, api_error, json) io"
  ea_delete :: "string \<Rightarrow> string \<Rightarrow> ('w, api_error, unit) io"

definition provider_call :: "bool \<Rightarrow> endpoint_error \<Rightarrow> ('w, api_error, 'a) io \<Rightarrow> ('w, endpoint_error, 'a) io" where
  "provider_call deleting ambiguous request w =
     (case request w of
        (Inr x, w') \<Rightarrow> (Inr x, w')
      | (Inl (Http_error status), w') \<Rightarrow>
          (Inl (if status = 409 \<or> 500 \<le> status \<or> deleting \<and> status = 404 then ambiguous
             else Endpoint_provider_error), w')
      | (Inl Transport_error, w') \<Rightarrow> (Inl ambiguous, w'))"

text \<open>\<open>None\<close> in the request stands for an empty list or object.\<close>

definition or_none :: "json \<Rightarrow> json" where
  "or_none v = (if v = JArr [] \<or> v = JObj [] then JNull else v)"

definition create_request :: "desired_endpoint \<Rightarrow> (string, string) dict \<Rightarrow> (string \<times> json) list" where
  "create_request desired secrets =
     (let c = de_configuration desired; m = ec_model c; k = ec_compute c; s = cm_scaling k; p = ec_provider c in
      [(''repository'', JStr (em_repository m)), (''framework'', JStr (em_framework m)),
       (''accelerator'', JStr (cm_accelerator k)), (''instance_size'', JStr (cm_instance_size k)),
       (''instance_type'', JStr (cm_instance_type k)), (''region'', JStr (pv_region p)),
       (''vendor'', JStr (pv_vendor p)), (''account_id'', json_opt_str (pv_account_id p)),
       (''min_replica'', JInt (sc_min_replicas s)), (''max_replica'', JInt (sc_max_replicas s)),
       (''scaling_metric'', json_opt_str (map_option metric_name (sc_metric s))),
       (''scaling_threshold'', json_opt_int (sc_threshold s)),
       (''scale_to_zero_timeout'', json_opt_int (sc_scale_to_zero_timeout s)),
       (''revision'', JStr (em_revision m)), (''task'', JStr (em_task m)),
       (''custom_image'', JObj ([(''url'', JStr (im_url (em_image m))),
          (''healthRoute'', JStr (im_health_route (em_image m)))] @
          (case im_port (em_image m) of None \<Rightarrow> [] | Some port \<Rightarrow> [(''port'', JInt port)]))),
       (''container_command'', or_none (json_strs (em_command m))),
       (''container_args'', or_none (json_strs (em_arguments m))),
       (''env'', or_none (json_str_dict (em_environment m))),
       (''secrets'', or_none (json_str_dict secrets)),
       (''type'', JStr (access_name (ec_access_type c))),
       (''domain'', json_opt_str (rt_domain (ec_route c))), (''path'', json_opt_str (rt_path (ec_route c))),
       (''cache_http_responses'', JBool (ec_cache_http_responses c)), (''tags'', json_strs (ec_tags c)),
       (''namespace'', JStr (mi_namespace (de_identity desired)))])"

text \<open>A successful answer that cannot be validated leaves the outcome of the call unknown.\<close>

definition answered_by ::
  "endpoint_error \<Rightarrow> string \<Rightarrow> json \<Rightarrow> ('w, endpoint_error, endpoint_snapshot) io" where
  "answered_by ambiguous namespace raw =
     io_result (case validated_snapshot namespace raw of Inl _ \<Rightarrow> Inl ambiguous | Inr s \<Rightarrow> Inr s)"

definition hf_create ::
  "(string \<Rightarrow> endpoint_error + string) \<Rightarrow> 'w endpoint_api \<Rightarrow> desired_endpoint \<Rightarrow>
   ('w, endpoint_error, endpoint_snapshot) io" where
  "hf_create secret api desired =
     io_bind (io_result (mapM (\<lambda>n. rbind (secret n) (\<lambda>v. Inr (n, v)))
         (em_secret_names (ec_model (de_configuration desired))))) (\<lambda>secrets.
     io_bind (provider_call False Ambiguous_create
         (ea_create api (mi_name (de_identity desired)) (create_request desired secrets))) (\<lambda>raw.
       answered_by Ambiguous_create (mi_namespace (de_identity desired)) raw))"

definition hf_inspect ::
  "'w endpoint_api \<Rightarrow> managed_identity \<Rightarrow> ('w, endpoint_error, endpoint_snapshot option) io" where
  "hf_inspect api i w =
     (case ea_get api (mi_name i) (mi_namespace i) w of
        (Inl (Http_error status), w') \<Rightarrow>
          (if status = 404 then Inr None else Inl Endpoint_provider_error, w')
      | (Inl Transport_error, w') \<Rightarrow> (Inl Endpoint_provider_error, w')
      | (Inr raw, w') \<Rightarrow> (rbind (validated_snapshot (mi_namespace i) raw) (\<lambda>s. Inr (Some s)), w'))"

definition hf_pause ::
  "'w endpoint_api \<Rightarrow> managed_identity \<Rightarrow> ('w, endpoint_error, endpoint_snapshot) io" where
  "hf_pause api i =
     io_bind (provider_call False Ambiguous_pause (ea_pause api (mi_name i) (mi_namespace i))) (\<lambda>raw.
       answered_by Ambiguous_pause (mi_namespace i) raw)"

definition hf_delete :: "'w endpoint_api \<Rightarrow> managed_identity \<Rightarrow> ('w, endpoint_error, unit) io" where
  "hf_delete api i = provider_call True Ambiguous_delete (ea_delete api (mi_name i) (mi_namespace i))"

definition hf_port :: "(string \<Rightarrow> endpoint_error + string) \<Rightarrow> 'w endpoint_api \<Rightarrow> 'w endpoint_port" where
  "hf_port secret api =
     \<lparr>ck_monotonic = ck_monotonic api, ck_sleep = ck_sleep api, pe_create = hf_create secret api,
      pe_inspect = hf_inspect api, pe_pause = hf_pause api, pe_delete = hf_delete api\<rparr>"

section \<open>The adapter as a port\<close>

lemma validated_snapshot_Inl: "validated_snapshot n raw = Inl e \<Longrightarrow> e = Endpoint_provider_error"
  by (auto simp: validated_snapshot_def split: sum.splits)

lemma hf_errors_plain: "port_errors_plain (hf_port secret api)"
proof -
  have "\<not> is_mismatch e" if "hf_inspect api i w = (Inl e, w')" for i w e w'
    using that by (auto simp: hf_inspect_def is_mismatch_def rbind_Inl_iff
        dest!: validated_snapshot_Inl split: prod.splits sum.splits api_error.splits if_splits)
  moreover have "\<not> is_mismatch e" if "hf_pause api i w = (Inl e, w')" for i w e w'
    using that by (auto simp: hf_pause_def answered_by_def provider_call_def io_bind_def io_result_def is_mismatch_def
        split: prod.splits sum.splits api_error.splits if_splits)
  ultimately show ?thesis by (auto simp: port_errors_plain_def hf_port_def)
qed

lemma hf_port_contract:
  assumes "clock_contract api now" and "\<forall>n ns. passes_time now (ea_get api n ns)"
  shows "port_contract (hf_port secret api) now"
proof -
  have "snd (hf_inspect api i w) = snd (ea_get api (mi_name i) (mi_namespace i) w)" for i w
    by (auto simp: hf_inspect_def split: prod.split sum.split api_error.split)
  then show ?thesis
    using assms by (auto simp: port_contract_def hf_port_def clock_contract_def passes_time_def)
qed

section \<open>Answers read back\<close>

text \<open>The answer of a provider that holds an endpoint, in the format of the API.\<close>

definition measure_json :: "endpoint_scaling \<Rightarrow> json" where
  "measure_json s = (case (sc_metric s, sc_threshold s) of
     (Some m, Some t) \<Rightarrow> JObj [(metric_name m, JInt t)] | _ \<Rightarrow> JNull)"

definition raw_model_json :: "endpoint_model \<Rightarrow> json" where
  "raw_model_json m =
     JObj [(''repository'', JStr (em_repository m)), (''revision'', JStr (em_revision m)),
       (''framework'', JStr (em_framework m)), (''task'', JStr (em_task m)),
       (''image'', JObj [(''custom'', JObj [(''url'', JStr (im_url (em_image m))),
          (''healthRoute'', JStr (im_health_route (em_image m))), (''port'', json_opt_int (im_port (em_image m)))])]),
       (''command'', json_strs (em_command m)), (''args'', json_strs (em_arguments m)),
       (''env'', json_str_dict (em_environment m)),
       (''secrets'', JObj (map (\<lambda>n. (n, JNull)) (em_secret_names m)))]"

definition raw_compute_json :: "endpoint_compute \<Rightarrow> json" where
  "raw_compute_json k =
     JObj [(''accelerator'', JStr (cm_accelerator k)), (''instanceSize'', JStr (cm_instance_size k)),
       (''instanceType'', JStr (cm_instance_type k)),
       (''scaling'', JObj [(''minReplica'', JInt (sc_min_replicas (cm_scaling k))),
          (''maxReplica'', JInt (sc_max_replicas (cm_scaling k))),
          (''scaleToZeroTimeout'', json_opt_int (sc_scale_to_zero_timeout (cm_scaling k))),
          (''measure'', measure_json (cm_scaling k))])]"

definition raw_of_snapshot :: "endpoint_snapshot \<Rightarrow> json" where
  "raw_of_snapshot s =
     (let c = sn_configuration s; st = sn_status s in
      JObj [(''name'', JStr (sn_name s)), (''type'', JStr (access_name (ec_access_type c))),
        (''model'', raw_model_json (ec_model c)), (''compute'', raw_compute_json (ec_compute c)),
        (''provider'', JObj [(''vendor'', JStr (pv_vendor (ec_provider c))), (''region'', JStr (pv_region (ec_provider c)))]),
        (''accountId'', json_opt_str (pv_account_id (ec_provider c))),
        (''route'', JObj [(''domain'', json_opt_str (rt_domain (ec_route c))), (''path'', json_opt_str (rt_path (ec_route c)))]),
        (''cacheHttpResponses'', JBool (ec_cache_http_responses c)), (''tags'', json_strs (ec_tags c)),
        (''status'', JObj [(''state'', JStr (st_state st)), (''readyReplica'', JInt (st_ready_replicas st)),
          (''targetReplica'', JInt (st_target_replicas st)), (''url'', json_opt_str (st_url st))])])"

lemma raw_simps [simp]:
  "optional_string p (json_opt_str m) = Inr m" "optional_integer p (json_opt_int k) = Inr k"
  "raw_string_list p (json_strs xs) = Inr xs" "raw_string_mapping p (json_str_dict d) = Inr d"
  "raw_secret_names (JObj (map (\<lambda>n. (n, JNull)) ns)) = Inr (sort ns)"
  "raw_access_type (JStr (access_name a)) = Inr a"
proof -
  have "mapM (raw_string p) (map JStr xs) = Inr xs" by (induction xs) auto
  then show "raw_string_list p (json_strs xs) = Inr xs" by (simp add: json_strs_def)
  have "mapM (\<lambda>(k, x). rbind (raw_string p x) (\<lambda>s. Inr (k, s))) (map (\<lambda>(k, v). (k, JStr v)) d) = Inr d"
    by (induction d) auto
  then show "raw_string_mapping p (json_str_dict d) = Inr d" by (simp add: raw_string_mapping_def json_str_dict_def)
  show "raw_access_type (JStr (access_name a)) = Inr a" by (cases a) (simp_all add: raw_access_type_def)
qed (auto simp: optional_string_def optional_integer_def json_opt_str_def json_opt_int_def raw_secret_names_def comp_def
    split: option.split)

lemma get_default_simps [simp]:
  "get_default [] k v = v" "get_default ((k', x) # kvs) k v = (if k = k' then x else get_default kvs k v)"
  by (auto simp: get_default_def)

lemma scaling_measure_json:
  assumes "endpoint_scaling_ok s"
  shows "scaling_measure (measure_json s) = Inr (sc_metric s, sc_threshold s)"
proof (cases "sc_metric s")
  case None
  with assms show ?thesis by (simp add: endpoint_scaling_ok_def measure_json_def scaling_measure_def)
next
  case (Some m)
  with assms obtain t where "sc_threshold s = Some t" by (auto simp: endpoint_scaling_ok_def)
  with Some show ?thesis by (cases m) (simp_all add: measure_json_def scaling_measure_def)
qed

text \<open>Records of their own fields.\<close>

lemma record_eta:
  "\<lparr>im_url = im_url x0, im_health_route = im_health_route x0, im_port = im_port x0\<rparr> =
     x0"
  "\<lparr>em_repository = em_repository x1, em_revision = em_revision x1, em_framework =
     em_framework x1, em_task = em_task x1, em_image = em_image x1, em_command = em_command x1,
     em_arguments = em_arguments x1, em_environment = em_environment x1, em_secret_names =
     em_secret_names x1\<rparr> = x1"
  "\<lparr>sc_min_replicas = sc_min_replicas x2, sc_max_replicas = sc_max_replicas x2,
     sc_scale_to_zero_timeout = sc_scale_to_zero_timeout x2, sc_metric = sc_metric x2, sc_threshold
     = sc_threshold x2\<rparr> = x2"
  "\<lparr>cm_accelerator = cm_accelerator x3, cm_instance_size = cm_instance_size x3,
     cm_instance_type = cm_instance_type x3, cm_scaling = cm_scaling x3\<rparr> = x3"
  "\<lparr>pv_vendor = pv_vendor x4, pv_region = pv_region x4, pv_account_id = pv_account_id
     x4\<rparr> = x4"
  "\<lparr>rt_domain = rt_domain x5, rt_path = rt_path x5\<rparr> = x5"
  "\<lparr>ec_model = ec_model x6, ec_compute = ec_compute x6, ec_provider = ec_provider x6,
     ec_access_type = ec_access_type x6, ec_route = ec_route x6, ec_cache_http_responses =
     ec_cache_http_responses x6, ec_tags = ec_tags x6\<rparr> = x6"
  "\<lparr>st_state = st_state x7, st_ready_replicas = st_ready_replicas x7, st_target_replicas =
     st_target_replicas x7, st_url = st_url x7\<rparr> = x7"
  "\<lparr>sn_namespace = sn_namespace x8, sn_name = sn_name x8, sn_configuration = sn_configuration
     x8, sn_status = sn_status x8\<rparr> = x8"
  by simp_all

definition snapshot_ok :: "endpoint_snapshot \<Rightarrow> bool" where
  "snapshot_ok s \<longleftrightarrow>
     endpoint_configuration_ok (sn_configuration s) \<and> endpoint_status_ok (sn_status s) \<and>
     nonempty (sn_namespace s) \<and> profile_name (sn_name s) \<and> sorted (ec_tags (sn_configuration s)) \<and>
     sorted (em_secret_names (ec_model (sn_configuration s)))"

lemma snapshot_reads_back:
  assumes "snapshot_ok s"
  shows "snapshot_from_raw (sn_namespace s) (raw_of_snapshot s) = Inr s"
proof -
  have "endpoint_scaling_ok (cm_scaling (ec_compute (sn_configuration s)))"
    using assms by (simp add: snapshot_ok_def endpoint_configuration_ok_def endpoint_compute_ok_def)
  note measure = scaling_measure_json [OF this]
  show ?thesis
    using assms measure
    by (simp add: snapshot_ok_def raw_of_snapshot_def snapshot_from_raw_def raw_model_json_def raw_compute_json_def raw_model_def
        raw_compute_def raw_provider_def raw_status_def optional_mapping_def validated_parts_def
        canonical_configuration_def sorted_sort_id Let_def record_eta)
qed

end
