(* ===== verification/Campaign_Planning.thy ===== *)
theory Campaign_Planning
  imports Experiment_Validation
begin

text \<open>
  Planning and locking a campaign, \<open>src/src/harbor_hf/campaigns.py\<close>:
  \<open>build_campaign_plan\<close> resolves the matrix to runs, cuts the trials of a run into shards,
  admits provider deployments and plans their initial waves; \<open>build_campaign_lock\<close> gives
  runs, shards and trials their identities and locks the initial waves.

  Decimal products are exact: the code multiplies decimals in the default context, whose 28
  digits hold every amount and headroom factor in use.
\<close>

section \<open>The plan\<close>

record planned_trial =
  pn_trial_digest :: string
  pn_task_name :: string
  pn_task_digest :: string
  pn_logical_attempt :: int

record planned_shard =
  psh_shard_digest :: string
  psh_trials :: "planned_trial list"

record planned_run = run_admission +
  pr_shards :: "planned_shard list"

record planned_initial_wave =
  piw_wave_index :: int
  piw_deployment_digest :: string
  piw_shard_digests :: "string list"
  piw_trial_count :: int
  piw_effective_concurrency :: int
  piw_planned_duration_seconds :: int

definition planned_initial_wave_ok :: "planned_initial_wave \<Rightarrow> bool" where
  "planned_initial_wave_ok w \<longleftrightarrow>
     1 \<le> piw_wave_index w \<and> piw_shard_digests w \<noteq> [] \<and> 1 \<le> piw_trial_count w \<and>
     1 \<le> piw_effective_concurrency w \<and> 1 \<le> piw_planned_duration_seconds w"

record campaign_plan =
  cpl_experiment :: string
  cpl_evaluation_id :: string
  cpl_publication_role :: publication_role
  cpl_component_kind :: "component_kind option"
  cpl_manifest_digest :: string
  cpl_source_lock :: benchmark_source_lock
  cpl_plan_digest :: string
  cpl_run_count :: int
  cpl_shard_count :: int
  cpl_trial_count :: int
  cpl_max_shards_per_wave :: int
  cpl_recovery_policy :: recovery_policy
  cpl_controller_policy :: "controller_spec option"
  cpl_planned_campaign_duration_seconds :: "int option"
  cpl_initial_waves :: "planned_initial_wave list"
  cpl_runs :: "planned_run list"

definition planned_shards :: "planned_run list \<Rightarrow> planned_shard list" where
  "planned_shards runs = concat (map pr_shards runs)"

definition planned_trial_count :: "planned_shard list \<Rightarrow> int" where
  "planned_trial_count shards = sum_list (map (\<lambda>s. int (length (psh_trials s))) shards)"

definition campaign_plan_ok :: "campaign_plan \<Rightarrow> bool" where
  "campaign_plan_ok p \<longleftrightarrow>
     ((cpl_publication_role p = Role_component) = (cpl_component_kind p \<noteq> None)) \<and>
     controller_fields_complete (cpl_controller_policy p)
       (cpl_planned_campaign_duration_seconds p) (cpl_initial_waves p) \<and>
     wave_indexes_contiguous (map piw_wave_index (cpl_initial_waves p)) \<and>
     (cpl_run_count p, cpl_shard_count p, cpl_trial_count p) =
       (int (length (cpl_runs p)), int (length (planned_shards (cpl_runs p))),
        planned_trial_count (planned_shards (cpl_runs p))) \<and>
     opt_ge 1 (cpl_planned_campaign_duration_seconds p) \<and>
     list_all planned_initial_wave_ok (cpl_initial_waves p) \<and>
     list_all run_admission_ok (cpl_runs p)"

datatype plan_error =
    Spec_failure spec_error
  | Cell_failure cell_error
  | Duration_failure campaign_error
  | Plan_range_step_zero
  | Plan_without_task_digests
  | Plan_tasks_not_exact
  | Unknown_profile
  | Ambiguous_deployment_digest
  | Mixed_providers_and_endpoints
  | Controller_without_providers
  | Providers_without_controller
  | Controller_without_remote
  | Run_without_request_limit
  | Inconsistent_concurrency
  | Wave_exceeds_execution_timeout
  | Campaign_exceeds_job_timeout
  | Deployment_without_waves
  | Plan_invalid
  | Unsafe_campaign_id
  | Deployment_not_planned
  | Lock_invalid

section \<open>Tasks and trials\<close>

definition resolved_tasks :: "benchmark_spec \<Rightarrow> plan_error + (string \<times> string) list" where
  "resolved_tasks b =
     (if bm_task_digests b = [] then Inl Plan_without_task_digests
      else if \<not> selection_exact b then Inl Plan_tasks_not_exact
      else Inr (sort (bm_task_digests b)))"

definition plan_trial :: "hash \<Rightarrow> string \<Rightarrow> int \<Rightarrow> string \<times> string \<Rightarrow> planned_trial" where
  "plan_trial h source_identity attempt task =
     \<lparr>pn_trial_digest = digest h (JObj [(''task_name'', JStr (fst task)),
         (''task_digest'', JStr (snd task)), (''logical_attempt'', JInt attempt),
         (''source_lock_digest'', JStr source_identity)]),
      pn_task_name = fst task, pn_task_digest = snd task, pn_logical_attempt = attempt\<rparr>"

definition plan_trials ::
  "hash \<Rightarrow> string \<Rightarrow> int \<Rightarrow> (string \<times> string) list \<Rightarrow> planned_trial list" where
  "plan_trials h source_identity attempts tasks =
     [plan_trial h source_identity attempt task. attempt \<leftarrow> [1..attempts], task \<leftarrow> tasks]"

section \<open>Runs\<close>

record profiles =
  pf_models :: "(string, model_profile) dict"
  pf_deployments :: "(string, deployment_target) dict"
  pf_agents :: "(string, agent_profile) dict"

definition profiles_of :: "matrix_spec \<Rightarrow> profiles" where
  "profiles_of m =
     \<lparr>pf_models = mk_dict (map (\<lambda>p. (mp_id p, p)) (mx_models m)),
      pf_deployments = mk_dict (map (\<lambda>p. (target_id p, p)) (mx_deployments m)),
      pf_agents = mk_dict (map (\<lambda>p. (ag_id p, p)) (mx_agents m))\<rparr>"

definition cell_profiles ::
  "profiles \<Rightarrow> run_cell \<Rightarrow> plan_error + (model_profile \<times> deployment_target \<times> agent_profile)" where
  "cell_profiles pf cell =
     rbind (of_option Unknown_profile (map_of (pf_models pf) (cell_model cell))) (\<lambda>model.
     rbind (of_option Unknown_profile (map_of (pf_deployments pf) (cell_deployment cell))) (\<lambda>deployment.
     rbind (of_option Unknown_profile (map_of (pf_agents pf) (cell_agent cell))) (\<lambda>agent.
       Inr (model, deployment, agent))))"

definition validate_campaign_cell ::
  "hash \<Rightarrow> profiles \<Rightarrow> (string, string \<times> string) dict \<Rightarrow> run_cell \<Rightarrow>
   plan_error + (string, string \<times> string) dict" where
  "validate_campaign_cell h pf pairs cell =
     rbind (cell_profiles pf cell) (\<lambda>(model, deployment, agent).
     rbind (case deployment of
              Provider_target p \<Rightarrow> lift_error Cell_failure (validate_provider_cell model p agent)
            | Endpoint_target _ \<Rightarrow> Inr ()) (\<lambda>_.
       let d = deployment_digest h model deployment;
           pair = (cell_model cell, cell_deployment cell)
       in case map_of pairs d of
            None \<Rightarrow> Inr (AList.update d pair pairs)
          | Some previous \<Rightarrow>
              if previous \<noteq> pair then Inl Ambiguous_deployment_digest else Inr pairs))"

definition validate_campaign_cells :: "hash \<Rightarrow> run_cell list \<Rightarrow> profiles \<Rightarrow> plan_error + unit" where
  "validate_campaign_cells h cells pf =
     rbind (foldM (validate_campaign_cell h pf) [] cells) (\<lambda>_. Inr ())"

definition usd_to_microusd :: "decimal option \<Rightarrow> int option" where
  "usd_to_microusd m = map_option (\<lambda>d. (dec_coeff d * 1000000) div 10 ^ dec_places d) m"

fun target_admission ::
  "deployment_target \<Rightarrow> string option \<times> int option \<times> int option \<times> int option" where
  "target_admission (Provider_target p) =
     (Some (pt_service p), Some (pvl_max_concurrent_requests (pt_limits p)),
      usd_to_microusd (pvl_max_spend_usd (pt_limits p)),
      usd_to_microusd (pvl_estimated_wave_cost_usd (pt_limits p)))"
| "target_admission (Endpoint_target _) = (None, None, None, None)"

definition planned_trial_json :: "planned_trial \<Rightarrow> json" where
  "planned_trial_json t =
     JObj [(''trial_digest'', JStr (pn_trial_digest t)), (''task_name'', JStr (pn_task_name t)),
       (''task_digest'', JStr (pn_task_digest t)), (''logical_attempt'', JInt (pn_logical_attempt t))]"

definition plan_shard :: "hash \<Rightarrow> string \<Rightarrow> planned_trial list \<Rightarrow> planned_shard" where
  "plan_shard h cell_digest chunk =
     \<lparr>psh_shard_digest = digest h (JObj [(''cell_digest'', JStr cell_digest),
         (''trials'', JArr (map planned_trial_json chunk))]),
      psh_trials = chunk\<rparr>"

definition plan_run ::
  "hash \<Rightarrow> experiment_spec \<Rightarrow> planned_trial list \<Rightarrow> profiles \<Rightarrow> string \<Rightarrow> run_cell \<Rightarrow>
   plan_error + planned_run" where
  "plan_run h s trials pf source_identity cell =
     rbind (cell_profiles pf cell) (\<lambda>(model, deployment, agent).
       let cell_digest = digest h (JObj [(''model'', JObj (model_dump_fields model)),
             (''deployment'', JObj (target_dump_fields deployment)),
             (''agent'', JObj (agent_dump_fields agent)),
             (''source_lock_digest'', JStr source_identity)]);
           (provider, max_requests, spend_cap, wave_cost) = target_admission deployment
       in rbind (py_chunks Plan_range_step_zero (ex_max_trials_per_shard (es_execution s)) trials)
         (\<lambda>cs. Inr \<lparr>ra_cell_digest = cell_digest,
            ra_deployment_digest = deployment_digest h model deployment,
            ra_model = cell_model cell, ra_deployment = cell_deployment cell,
            ra_agent = cell_agent cell, ra_provider = provider,
            ra_max_concurrent_requests = max_requests, ra_spend_cap_microusd = spend_cap,
            ra_estimated_wave_cost_microusd = wave_cost,
            pr_shards = map (plan_shard h cell_digest) cs\<rparr>))"

section \<open>Provider controllers and their initial waves\<close>

definition provider_controller_policy ::
  "experiment_spec \<Rightarrow> planned_run list \<Rightarrow> plan_error + controller_spec option" where
  "provider_controller_policy s runs =
     (let provider_count = length (filter (\<lambda>r. ra_provider r \<noteq> None) runs);
          policy = ex_controller (es_execution s)
      in if 0 < provider_count \<and> provider_count < length runs then Inl Mixed_providers_and_endpoints
         else if provider_count = 0
         then (if policy \<noteq> None then Inl Controller_without_providers else Inr None)
         else if policy = None then Inl Providers_without_controller
         else if es_remote s = None then Inl Controller_without_remote
         else Inr policy)"

definition profile_limit :: "execution_spec \<Rightarrow> int" where
  "profile_limit e =
     (case ex_serving_profile e of Some b \<Rightarrow> sb_concurrency b | None \<Rightarrow> ex_concurrent_trials e)"

definition extend_list :: "'k \<Rightarrow> 'v list \<Rightarrow> ('k, 'v list) dict \<Rightarrow> ('k, 'v list) dict" where
  "extend_list k xs d =
     AList.update k ((case map_of d k of None \<Rightarrow> [] | Some ys \<Rightarrow> ys) @ xs) d"

type_synonym wave_groups = "(string, planned_shard list) dict \<times> (string, int) dict"

definition add_provider_run ::
  "execution_spec \<Rightarrow> wave_groups \<Rightarrow> planned_run \<Rightarrow> plan_error + wave_groups" where
  "add_provider_run e groups run =
     (case groups of (grouped, concurrency) \<Rightarrow>
        rbind (of_option Run_without_request_limit (ra_max_concurrent_requests run)) (\<lambda>provider_limit.
          let effective = min (ex_concurrent_trials e) (min provider_limit (profile_limit e));
              d = ra_deployment_digest run;
              grouped' = extend_list d (pr_shards run) grouped
          in case map_of concurrency d of
               None \<Rightarrow> Inr (grouped', AList.update d effective concurrency)
             | Some previous \<Rightarrow>
                 if previous \<noteq> effective then Inl Inconsistent_concurrency
                 else Inr (grouped', concurrency)))"

definition provider_wave_groups :: "execution_spec \<Rightarrow> planned_run list \<Rightarrow> plan_error + wave_groups" where
  "provider_wave_groups e runs = foldM (add_provider_run e) ([], []) runs"

definition plan_wave ::
  "execution_spec \<Rightarrow> controller_spec \<Rightarrow> (string, int) dict \<Rightarrow> planned_initial_wave list \<Rightarrow>
   string \<times> planned_shard list \<Rightarrow> plan_error + planned_initial_wave list" where
  "plan_wave e policy concurrency waves dc =
     (case dc of (d, chunk) \<Rightarrow>
        rbind (of_option Deployment_not_planned (map_of concurrency d)) (\<lambda>k.
        rbind (lift_error Duration_failure
                 (planned_provider_wave_seconds policy (planned_trial_count chunk) k)) (\<lambda>duration.
          if ex_timeout_seconds e < duration then Inl Wave_exceeds_execution_timeout
          else Inr (waves @ [\<lparr>piw_wave_index = int (length waves) + 1, piw_deployment_digest = d,
                 piw_shard_digests = map psh_shard_digest chunk,
                 piw_trial_count = planned_trial_count chunk,
                 piw_effective_concurrency = k, piw_planned_duration_seconds = duration\<rparr>]))))"

definition deployment_chunks ::
  "'e \<Rightarrow> int \<Rightarrow> (string, 's list) dict \<Rightarrow> 'e + (string \<times> 's list) list" where
  "deployment_chunks err bound grouped =
     rbind (mapM (\<lambda>d. rbind (py_chunks err bound (case map_of grouped d of None \<Rightarrow> [] | Some xs \<Rightarrow> xs))
         (\<lambda>cs. Inr (map (Pair d) cs))) (sort (dict_keys grouped))) (\<lambda>groups.
       Inr (concat groups))"

definition maximum_duration ::
  "planned_initial_wave list \<Rightarrow> string \<Rightarrow> plan_error + int" where
  "maximum_duration waves d =
     (case map piw_planned_duration_seconds (filter (\<lambda>w. piw_deployment_digest w = d) waves) of
        [] \<Rightarrow> Inl Deployment_without_waves
      | x # xs \<Rightarrow> Inr (foldl max x xs))"

definition build_planned_initial_waves ::
  "execution_spec \<Rightarrow> controller_spec \<Rightarrow> wave_groups \<Rightarrow> plan_error + planned_initial_wave list" where
  "build_planned_initial_waves e policy groups =
     (case groups of (grouped, concurrency) \<Rightarrow>
        rbind (deployment_chunks Plan_range_step_zero (ex_max_shards_per_wave e) grouped) (\<lambda>dcs.
        rbind (foldM (plan_wave e policy concurrency) [] dcs) (\<lambda>waves.
        rbind (mapM (\<lambda>d. rbind (maximum_duration waves d) (\<lambda>m. Inr (d, m))) (dict_keys grouped))
          (\<lambda>maximum.
            mapM (\<lambda>w. rbind (of_option Deployment_not_planned (map_of maximum (piw_deployment_digest w)))
              (\<lambda>m. Inr (w\<lparr>piw_planned_duration_seconds := m\<rparr>))) waves))))"

definition controller_plan ::
  "experiment_spec \<Rightarrow> planned_run list \<Rightarrow>
   plan_error + (controller_spec option \<times> planned_initial_wave list \<times> int option)" where
  "controller_plan s runs =
     rbind (provider_controller_policy s runs) (\<lambda>policy.
       case policy of
         None \<Rightarrow> Inr (None, [], None)
       | Some c \<Rightarrow>
           rbind (provider_wave_groups (es_execution s) runs) (\<lambda>groups.
           rbind (build_planned_initial_waves (es_execution s) c groups) (\<lambda>waves.
             let total = sum_list (map piw_planned_duration_seconds waves)
                   + cc_controller_reserve_seconds c
             in case es_remote s of
                  None \<Rightarrow> Inl Campaign_exceeds_job_timeout
                | Some remote \<Rightarrow>
                    if rj_timeout_seconds remote < total then Inl Campaign_exceeds_job_timeout
                    else Inr (Some c, waves, Some total))))"

section \<open>The plan of a campaign\<close>

definition recovery_policy_json :: "recovery_policy \<Rightarrow> json" where
  "recovery_policy_json p =
     JObj [(''max_active_waves'', JInt (rp_max_active_waves p)),
       (''max_physical_executions_per_trial'', JInt (rp_max_physical_executions_per_trial p)),
       (''retry_base_seconds'', JInt (rp_retry_base_seconds p)),
       (''retry_max_seconds'', JInt (rp_retry_max_seconds p)),
       (''cancellation_grace_seconds'', JInt (rp_cancellation_grace_seconds p)),
       (''spend_cap_microusd'', json_opt_int (rp_spend_cap_microusd p))]"

definition planned_shard_json :: "planned_shard \<Rightarrow> json" where
  "planned_shard_json s =
     JObj [(''shard_digest'', JStr (psh_shard_digest s)),
       (''trials'', JArr (map planned_trial_json (psh_trials s)))]"

definition planned_run_json :: "planned_run \<Rightarrow> json" where
  "planned_run_json r =
     JObj ([(''cell_digest'', JStr (ra_cell_digest r)),
        (''deployment_digest'', JStr (ra_deployment_digest r)), (''model'', JStr (ra_model r)),
        (''deployment'', JStr (ra_deployment r)), (''agent'', JStr (ra_agent r))] @
       opt_field True ''provider'' (map_option JStr (ra_provider r)) @
       opt_field True ''max_concurrent_requests'' (map_option JInt (ra_max_concurrent_requests r)) @
       opt_field True ''spend_cap_microusd'' (map_option JInt (ra_spend_cap_microusd r)) @
       opt_field True ''estimated_wave_cost_microusd''
         (map_option JInt (ra_estimated_wave_cost_microusd r)) @
       [(''shards'', JArr (map planned_shard_json (pr_shards r)))])"

definition planned_wave_json :: "planned_initial_wave \<Rightarrow> json" where
  "planned_wave_json w =
     JObj [(''wave_index'', JInt (piw_wave_index w)),
       (''deployment_digest'', JStr (piw_deployment_digest w)),
       (''shard_digests'', JArr (map JStr (piw_shard_digests w))),
       (''trial_count'', JInt (piw_trial_count w)),
       (''effective_concurrency'', JInt (piw_effective_concurrency w)),
       (''planned_duration_seconds'', JInt (piw_planned_duration_seconds w))]"

definition plan_payload ::
  "experiment_spec \<Rightarrow> benchmark_source_lock \<Rightarrow> recovery_policy \<Rightarrow> planned_run list \<Rightarrow>
   controller_spec option \<times> planned_initial_wave list \<times> int option \<Rightarrow> json" where
  "plan_payload s source_lock policy runs controller =
     JObj ([(''schema_version'', JStr ''harbor-hf/campaign-plan/v1alpha1''),
        (''experiment'', metadata_json s),
        (''benchmark_dataset'', JStr (bm_dataset (es_benchmark s))),
        (''benchmark_dataset_digest'', json_opt_str (bm_dataset_digest (es_benchmark s))),
        (''source_lock'', source_lock_json source_lock),
        (''execution'', JObj (execution_fields (es_execution s))),
        (''recovery_policy'', recovery_policy_json policy),
        (''artifacts'', artifacts_json (es_artifacts s)),
        (''publishing'', publishing_json False (es_publishing s)),
        (''remote'', case es_remote s of None \<Rightarrow> JNull | Some r \<Rightarrow> remote_json r),
        (''runs'', JArr (map planned_run_json runs))] @
       (case controller of
          (Some c, waves, duration) \<Rightarrow>
            [(''controller_policy'', controller_json c),
             (''planned_campaign_duration_seconds'', json_opt_int duration),
             (''initial_waves'', JArr (map planned_wave_json waves))]
        | (None, _, _) \<Rightarrow> []) @
       opt_field True ''benchmark_judge'' (map_option judge_json (bm_judge (es_benchmark s))))"

definition assemble_plan ::
  "hash \<Rightarrow> experiment_spec \<Rightarrow> experiment_spec \<Rightarrow> benchmark_source_lock \<Rightarrow> recovery_policy \<Rightarrow>
   planned_run list \<Rightarrow> controller_spec option \<times> planned_initial_wave list \<times> int option \<Rightarrow>
   campaign_plan" where
  "assemble_plan h s r source_lock policy runs controller =
     \<lparr>cpl_experiment = es_name r, cpl_evaluation_id = pb_evaluation_id (es_publishing r),
      cpl_publication_role = pb_role (es_publishing r),
      cpl_component_kind = pb_component_kind (es_publishing r),
      cpl_manifest_digest = experiment_digest h s, cpl_source_lock = source_lock,
      cpl_plan_digest = digest h (plan_payload r source_lock policy runs controller),
      cpl_run_count = int (length runs), cpl_shard_count = int (length (planned_shards runs)),
      cpl_trial_count = planned_trial_count (planned_shards runs),
      cpl_max_shards_per_wave = ex_max_shards_per_wave (es_execution r),
      cpl_recovery_policy = policy, cpl_controller_policy = fst controller,
      cpl_planned_campaign_duration_seconds = snd (snd controller),
      cpl_initial_waves = fst (snd controller), cpl_runs = runs\<rparr>"

definition build_campaign_plan ::
  "hash \<Rightarrow> experiment_spec \<Rightarrow> benchmark_source_lock option \<Rightarrow> recovery_policy option \<Rightarrow>
   plan_error + campaign_plan" where
  "build_campaign_plan h s requested_lock requested_policy =
     rbind (lift_error Spec_failure (case requested_lock of
              Some l \<Rightarrow> Inr l | None \<Rightarrow> source_lock_from_spec s)) (\<lambda>source_lock.
     rbind (lift_error Spec_failure (resolved_experiment h s source_lock)) (\<lambda>r.
     let policy = (case requested_policy of Some p \<Rightarrow> p | None \<Rightarrow> default_recovery_policy);
         source_identity = source_lock_digest h source_lock;
         pf = profiles_of (es_matrix r)
     in
     rbind (resolved_tasks (es_benchmark r)) (\<lambda>tasks.
     let trials = plan_trials h source_identity (ex_attempts (es_execution r)) tasks in
     rbind (lift_error Spec_failure (resolved_cells (es_matrix r))) (\<lambda>cells.
     rbind (validate_campaign_cells h cells pf) (\<lambda>_.
     rbind (mapM (plan_run h r trials pf source_identity) cells) (\<lambda>runs.
     rbind (controller_plan r runs) (\<lambda>controller.
       let plan = assemble_plan h s r source_lock policy runs controller in
       if campaign_plan_ok plan then Inr plan else Inl Plan_invalid)))))))"

section \<open>The lock of a campaign\<close>

definition lock_trial :: "hash \<Rightarrow> string \<Rightarrow> planned_trial \<Rightarrow> trial_lock" where
  "lock_trial h run_id t =
     \<lparr>tl_trial_id = short_id h ''trial'' (JObj [(''run_id'', JStr run_id),
         (''trial_digest'', JStr (pn_trial_digest t))]),
      tl_trial_digest = pn_trial_digest t, tl_task_name = pn_task_name t,
      tl_task_digest = pn_task_digest t, tl_logical_attempt = pn_logical_attempt t\<rparr>"

definition lock_shard :: "hash \<Rightarrow> string \<Rightarrow> planned_shard \<Rightarrow> shard_lock" where
  "lock_shard h run_id s =
     \<lparr>sl_shard_id = short_id h ''shard'' (JObj [(''run_id'', JStr run_id),
         (''shard_digest'', JStr (psh_shard_digest s))]),
      sl_shard_digest = psh_shard_digest s, sl_trials = map (lock_trial h run_id) (psh_trials s)\<rparr>"

definition lock_run :: "hash \<Rightarrow> string \<Rightarrow> planned_run \<Rightarrow> run_lock" where
  "lock_run h campaign_id r =
     (let run_id = short_id h ''run'' (JObj [(''campaign_id'', JStr campaign_id),
            (''cell_digest'', JStr (ra_cell_digest r))]) in
      \<lparr>ra_cell_digest = ra_cell_digest r, ra_deployment_digest = ra_deployment_digest r,
       ra_model = ra_model r, ra_deployment = ra_deployment r, ra_agent = ra_agent r,
       ra_provider = ra_provider r, ra_max_concurrent_requests = ra_max_concurrent_requests r,
       ra_spend_cap_microusd = ra_spend_cap_microusd r,
       ra_estimated_wave_cost_microusd = ra_estimated_wave_cost_microusd r,
       rl_run_id = run_id, rl_shards = map (lock_shard h run_id) (pr_shards r)\<rparr>)"

definition lock_groups :: "run_lock list \<Rightarrow> (string, shard_lock list) dict" where
  "lock_groups runs =
     foldl (\<lambda>d r. extend_list (ra_deployment_digest r) (sort_key sl_shard_id (rl_shards r)) d) []
       (sort_key rl_run_id runs)"

definition lock_wave ::
  "(string, int) dict \<Rightarrow> (string, int) dict \<Rightarrow> locked_initial_wave list \<Rightarrow> string \<times> shard_lock list \<Rightarrow>
   plan_error + locked_initial_wave list" where
  "lock_wave concurrency duration waves dc =
     (case dc of (d, chunk) \<Rightarrow>
        rbind (of_option Deployment_not_planned (map_of concurrency d)) (\<lambda>k.
        rbind (of_option Deployment_not_planned (map_of duration d)) (\<lambda>seconds.
          Inr (waves @ [\<lparr>liw_wave_index = int (length waves) + 1, liw_deployment_digest = d,
                 liw_shard_ids = map sl_shard_id chunk,
                 liw_trial_count = sum_list (map (\<lambda>s. int (length (sl_trials s))) chunk),
                 liw_effective_concurrency = k, liw_planned_duration_seconds = seconds\<rparr>]))))"

definition locked_initial_waves ::
  "campaign_plan \<Rightarrow> run_lock list \<Rightarrow> plan_error + locked_initial_wave list" where
  "locked_initial_waves plan runs =
     (if cpl_controller_policy plan = None then Inr []
      else
        let concurrency = mk_dict (map (\<lambda>w. (piw_deployment_digest w, piw_effective_concurrency w))
              (cpl_initial_waves plan));
            duration = mk_dict (map (\<lambda>w. (piw_deployment_digest w, piw_planned_duration_seconds w))
              (cpl_initial_waves plan))
        in rbind (deployment_chunks Plan_range_step_zero (cpl_max_shards_per_wave plan)
                    (lock_groups runs))
             (foldM (lock_wave concurrency duration) []))"

definition build_campaign_lock ::
  "hash \<Rightarrow> campaign_plan \<Rightarrow> string \<Rightarrow> int \<Rightarrow> plan_error + campaign_lock" where
  "build_campaign_lock h plan campaign_id created_at =
     (if \<not> safe_name 99 campaign_id then Inl Unsafe_campaign_id
      else
        let runs = map (lock_run h campaign_id) (cpl_runs plan) in
        rbind (locked_initial_waves plan runs) (\<lambda>waves.
          let lock =
            \<lparr>cl_campaign_id = campaign_id, cl_created_at = created_at,
             cl_experiment = cpl_experiment plan, cl_evaluation_id = cpl_evaluation_id plan,
             cl_publication_role = cpl_publication_role plan,
             cl_component_kind = cpl_component_kind plan,
             cl_manifest_digest = cpl_manifest_digest plan, cl_source_lock = cpl_source_lock plan,
             cl_plan_digest = cpl_plan_digest plan,
             cl_artifact_prefix = ''campaigns/'' @ campaign_id,
             cl_max_shards_per_wave = cpl_max_shards_per_wave plan,
             cl_recovery_policy = cpl_recovery_policy plan,
             cl_controller_policy = cpl_controller_policy plan,
             cl_planned_campaign_duration_seconds = cpl_planned_campaign_duration_seconds plan,
             cl_initial_waves = waves, cl_runs = runs\<rparr>
          in if campaign_lock_ok lock then Inr lock else Inl Lock_invalid))"

definition new_campaign_id :: "campaign_plan \<Rightarrow> string \<Rightarrow> string \<Rightarrow> string" where
  "new_campaign_id plan stamp identifier =
     stamp @ ''-'' @ take 10 (remove_prefix (cpl_plan_digest plan) ''sha256:'') @ ''-'' @
     take 10 identifier"

end
