(* ===== verification/Sample_Manifest.thy ===== *)
theory Sample_Manifest
  imports Campaign_Planning
begin

text \<open>
  A small concrete manifest: one model, one inference provider, one agent and one task, with
  a controller, and its plan and lock for a concrete hash function. The witnesses of the
  planning properties evaluate the model on it.
\<close>

definition zero_hash :: hash where
  "zero_hash s = replicate 16 0"

definition zeros :: "nat \<Rightarrow> string" where
  "zeros n = replicate n CHR ''0''"

lemma zero_hexdigest [simp]: "hexdigest zero_hash s = zeros 32"
  unfolding hexdigest_def zero_hash_def zeros_def by code_simp

definition zero_sha :: string where
  "zero_sha = ''sha256:'' @ zeros 32"

lemma zero_digest [simp]: "digest zero_hash v = zero_sha"
  by (simp add: digest_def zero_sha_def)

lemma zero_short_id [simp]: "short_id zero_hash p v = p @ ''-'' @ zeros 24"
  by (simp add: short_id_eq short_digest_def zeros_def)

lemma zero_source_lock [simp]: "source_lock_digest zero_hash l = zero_sha"
  by (simp add: source_lock_digest_def zero_sha_def)

definition sample_agent :: agent_profile where
  "sample_agent =
     \<lparr>ag_id = ''agent'', ag_name = ''hermes'',
      ag_import_path = Some ''harbor_hf_agents.hermes.agent:HermesAgent'',
      ag_revision = replicate 40 CHR ''b'', ag_revision_kind = Rev_git, ag_parameter_keys = [],
      ag_fields = []\<rparr>"

definition sample_provider :: provider_target where
  "sample_provider =
     \<lparr>pt_id = ''provider'', pt_service = ''hf-inference-providers'', pt_api = Api_chat_completions,
      pt_model = ''org/model'',
      pt_limits = \<lparr>pvl_max_concurrent_requests = 2, pvl_max_spend_usd = Some (Decimal 25 1),
        pvl_estimated_wave_cost_usd = Some (Decimal 5 1)\<rparr>, pt_fields = []\<rparr>"

definition planned_controller :: controller_spec where
  "planned_controller =
     \<lparr>cc_planning_trial_seconds = 100, cc_headroom_factor = Decimal 15 1,
      cc_wave_reserve_seconds = 60, cc_controller_reserve_seconds = 600,
      cc_heartbeat_seconds = 30, cc_stale_after_seconds = 90, cc_max_attempts = 3\<rparr>"

definition sample_model_profile :: model_profile where
  "sample_model_profile =
     \<lparr>mp_id = ''model'', mp_repo = ''org/model'', mp_revision = replicate 40 CHR ''c'',
      mp_weights = JObj [(''format'', JStr ''safetensors'')]\<rparr>"

definition planned_execution :: execution_spec where
  "planned_execution =
     \<lparr>ex_attempts = 1, ex_concurrent_trials = 4, ex_max_trials_per_shard = 64,
      ex_max_shards_per_wave = 8, ex_timeout_seconds = 3600,
      ex_agent_setup_timeout_multiplier = None, ex_server_context_tokens = None,
      ex_max_output_tokens = None, ex_reasoning_required = False, ex_serving_profile = None,
      ex_controller = Some planned_controller\<rparr>"

definition sample_remote :: remote_spec where
  "sample_remote =
     (let pin = \<lparr>sp_repository = ''org/repo'', sp_revision = replicate 40 CHR ''a''\<rparr> in
      \<lparr>rj_namespace = ''org'', rj_image = ''image@sha256:'' @ replicate 64 CHR ''d'',
       rj_flavor = ''cpu-basic'', rj_timeout_seconds = 10800, rw_worker = pin, rh_source = pin,
       rh_sandbox_flavor = ''cpu-basic'', rh_sandbox_idle_timeout_seconds = 3600\<rparr>)"

definition sample_matrix :: matrix_spec where
  "sample_matrix =
     \<lparr>mx_models = [sample_model_profile], mx_deployments = [Provider_target sample_provider],
      mx_agents = [sample_agent], mx_include = [], mx_exclude = []\<rparr>"

definition sample_task :: "string \<times> string" where
  "sample_task = (''task'', ''sha256:'' @ replicate 64 CHR ''1'')"

definition sample_benchmark :: benchmark_spec where
  "sample_benchmark =
     \<lparr>bm_dataset = ''bench'', bm_dataset_digest = None,
      bm_source = Some (Source_bundle (''sha256:'' @ replicate 64 CHR ''e'') (replicate 64 CHR ''f'')),
      bm_judge = None, bm_task_names = [''*''],
      bm_task_digests = [sample_task]\<rparr>"

definition sample_manifest :: experiment_spec where
  "sample_manifest =
     \<lparr>es_name = ''experiment'', es_labels = [], es_benchmark = sample_benchmark,
      es_matrix = sample_matrix, es_execution = planned_execution,
      es_artifacts = \<lparr>af_bucket = ''org/bucket'', af_trial_evidence = Some (JObj [])\<rparr>,
      es_publishing = \<lparr>pb_dataset = ''org/data'', pb_dataset_visibility = Visibility_private,
        pb_index_dataset = None, pb_index_dataset_visibility = None, pb_evaluation_id = ''eval'',
        pb_role = Role_final, pb_component_kind = None\<rparr>,
      es_remote = Some sample_remote\<rparr>"

lemma sample_manifest_ok: "manifest_ok sample_manifest"
  by code_simp

lemma sample_manifest_valid: "validate_experiment zero_hash sample_manifest = Inr ()"
  by code_simp

section \<open>Its plan\<close>

definition sample_source :: benchmark_source_lock where
  "sample_source = Bundle_source (''sha256:'' @ replicate 64 CHR ''e'') (replicate 64 CHR ''f'')"

definition sample_cell :: run_cell where
  "sample_cell = \<lparr>cell_model = ''model'', cell_deployment = ''provider'', cell_agent = ''agent''\<rparr>"

definition sample_planned_trial :: planned_trial where
  "sample_planned_trial =
     \<lparr>pn_trial_digest = zero_sha, pn_task_name = fst sample_task,
      pn_task_digest = snd sample_task, pn_logical_attempt = 1\<rparr>"

definition sample_planned_run :: planned_run where
  "sample_planned_run =
     \<lparr>ra_cell_digest = zero_sha, ra_deployment_digest = zero_sha,
      ra_model = ''model'', ra_deployment = ''provider'', ra_agent = ''agent'',
      ra_provider = Some ''hf-inference-providers'', ra_max_concurrent_requests = Some 2,
      ra_spend_cap_microusd = Some 2500000, ra_estimated_wave_cost_microusd = Some 500000,
      pr_shards = [\<lparr>psh_shard_digest = zero_sha, psh_trials = [sample_planned_trial]\<rparr>]\<rparr>"

definition sample_planned_wave :: planned_initial_wave where
  "sample_planned_wave =
     \<lparr>piw_wave_index = 1, piw_deployment_digest = zero_sha,
      piw_shard_digests = [zero_sha], piw_trial_count = 1,
      piw_effective_concurrency = 2, piw_planned_duration_seconds = 210\<rparr>"

definition sample_plan :: campaign_plan where
  "sample_plan = assemble_plan zero_hash sample_manifest sample_manifest sample_source
     default_recovery_policy [sample_planned_run]
     (Some planned_controller, [sample_planned_wave], Some 810)"

lemma sample_source_lock: "source_lock_from_spec sample_manifest = Inr sample_source"
  by code_simp

lemma sample_resolved: "resolved_experiment h sample_manifest sample_source = Inr sample_manifest"
  by (simp add: resolved_experiment_def validate_source_resolution_def sample_source_def Let_def
      sample_manifest_def sample_benchmark_def)

lemma sample_tasks:
  "resolved_tasks (es_benchmark sample_manifest) = Inr [sample_task]"
  by code_simp

lemma sample_cells: "resolved_cells (es_matrix sample_manifest) = Inr [sample_cell]"
  by code_simp

lemma sample_cell_fields [simp]:
  "cell_model sample_cell = ''model''" "cell_deployment sample_cell = ''provider''"
  "cell_agent sample_cell = ''agent''"
  by (simp_all add: sample_cell_def)

lemma sample_profiles:
  "cell_profiles (profiles_of (es_matrix sample_manifest)) sample_cell =
     Inr (sample_model_profile, Provider_target sample_provider, sample_agent)"
  by code_simp

lemma sample_cells_valid:
  "validate_campaign_cells zero_hash [sample_cell] (profiles_of (es_matrix sample_manifest)) = Inr ()"
proof -
  have "validate_provider_cell sample_model_profile sample_provider sample_agent = Inr ()"
    by code_simp
  then show ?thesis
    by (simp add: validate_campaign_cells_def validate_campaign_cell_def sample_profiles
        deployment_digest_def Let_def)
qed

lemma sample_run:
  "plan_run zero_hash sample_manifest [sample_planned_trial] (profiles_of (es_matrix sample_manifest))
     zero_sha sample_cell = Inr sample_planned_run"
proof -
  have "target_admission (Provider_target sample_provider) =
      (Some ''hf-inference-providers'', Some 2, Some 2500000, Some 500000)"
    and "py_chunks Plan_range_step_zero (ex_max_trials_per_shard (es_execution sample_manifest))
      [sample_planned_trial] = Inr [[sample_planned_trial]]" by code_simp+
  then show ?thesis
    by (simp add: plan_run_def sample_profiles deployment_digest_def Let_def sample_planned_run_def
        plan_shard_def del: target_admission.simps)
qed

lemma sample_trials:
  "plan_trials zero_hash zero_sha (ex_attempts (es_execution sample_manifest))
     [sample_task] = [sample_planned_trial]"
  by (simp add: plan_trials_def plan_trial_def sample_manifest_def planned_execution_def
      sample_planned_trial_def)

lemma sample_controller_plan:
  "controller_plan sample_manifest [sample_planned_run] =
     Inr (Some planned_controller, [sample_planned_wave], Some 810)"
  by code_simp

lemma sample_plan_ok: "campaign_plan_ok sample_plan"
proof -
  have "list_all run_admission_ok [sample_planned_run]" "planned_initial_wave_ok sample_planned_wave"
    "planned_trial_count (planned_shards [sample_planned_run]) = 1"
    "length (planned_shards [sample_planned_run]) = 1" by code_simp+
  then show ?thesis
    by (simp add: campaign_plan_ok_def sample_plan_def assemble_plan_def sample_manifest_def
        controller_fields_complete_def wave_indexes_contiguous_def opt_ge_def sample_planned_wave_def)
qed

lemma sample_plan_built: "build_campaign_plan zero_hash sample_manifest None None = Inr sample_plan"
proof -
  have "assemble_plan zero_hash sample_manifest sample_manifest sample_source default_recovery_policy
      [sample_planned_run] (Some planned_controller, [sample_planned_wave], Some 810) = sample_plan"
    by (simp add: sample_plan_def)
  with sample_plan_ok show ?thesis
    by (simp add: build_campaign_plan_def sample_source_lock sample_resolved sample_tasks sample_cells
        sample_cells_valid sample_trials sample_run sample_controller_plan Let_def)
qed

end
