(* ===== verification/Endpoint_Properties.thy ===== *)
theory Endpoint_Properties
  imports Hf_Endpoint_Adapter Sample_Manifest
begin

text \<open>
  The properties of endpoint provisioning, with a small provider in memory for the witnesses:
  its world is the endpoint it holds, if any, and the time.
\<close>

section \<open>A provider in memory\<close>

record cloud =
  cl_endpoint :: "endpoint_snapshot option"
  cl_time :: rat

definition cloud_status :: "string \<Rightarrow> endpoint_snapshot \<Rightarrow> endpoint_snapshot" where
  "cloud_status state s = s\<lparr>sn_status := \<lparr>st_state = state, st_ready_replicas = (if state = ''paused'' then 0 else 1),
     st_target_replicas = 1, st_url = None\<rparr>\<rparr>"

definition started_endpoint :: "desired_endpoint \<Rightarrow> endpoint_snapshot" where
  "started_endpoint d =
     \<lparr>sn_namespace = mi_namespace (de_identity d), sn_name = mi_name (de_identity d),
      sn_configuration = de_configuration d,
      sn_status = \<lparr>st_state = ''running'', st_ready_replicas = 1, st_target_replicas = 1, st_url = None\<rparr>\<rparr>"

text \<open>\<open>built\<close> is what the provider makes of a request and \<open>answer\<close> how it answers one.\<close>

definition cloud_port ::
  "(desired_endpoint \<Rightarrow> endpoint_snapshot) \<Rightarrow> (endpoint_snapshot \<Rightarrow> endpoint_error + endpoint_snapshot) \<Rightarrow>
   cloud endpoint_port" where
  "cloud_port built answer =
     \<lparr>ck_monotonic = (\<lambda>w. (cl_time w, w)), ck_sleep = (\<lambda>d w. w\<lparr>cl_time := cl_time w + d\<rparr>),
      pe_create = (\<lambda>d w. (answer (built d), w\<lparr>cl_endpoint := Some (built d)\<rparr>)),
      pe_inspect = (\<lambda>i w. (Inr (cl_endpoint w), w)),
      pe_pause = (\<lambda>i w. (case cl_endpoint w of
          None \<Rightarrow> (Inl Endpoint_provider_error, w)
        | Some s \<Rightarrow> (Inr (cloud_status ''paused'' s), w\<lparr>cl_endpoint := Some (cloud_status ''paused'' s)\<rparr>))),
      pe_delete = (\<lambda>i w. (Inr (), w\<lparr>cl_endpoint := None\<rparr>))\<rparr>"

lemma cloud_contract: "port_contract (cloud_port built answer) cl_time"
  by (auto simp: port_contract_def clock_contract_def cloud_port_def passes_time_def)

definition sample_identity :: managed_identity where
  "sample_identity =
     \<lparr>mi_namespace = ''org'', mi_name = ''harbor-hf-e'', mi_campaign_id = ''c'', mi_deployment_digest = zero_sha,
      mi_tags = [''harbor-hf-managed'']\<rparr>"

definition sample_configuration :: endpoint_configuration where
  "sample_configuration =
     \<lparr>ec_model = \<lparr>em_repository = ''org/model'', em_revision = zeros 40, em_framework = ''custom'',
        em_task = ''text-generation'', em_image = \<lparr>im_url = ''image'', im_health_route = ''/health'', im_port = None\<rparr>,
        em_command = [], em_arguments = [], em_environment = [], em_secret_names = []\<rparr>,
      ec_compute = \<lparr>cm_accelerator = ''gpu'', cm_instance_size = ''x1'', cm_instance_type = ''nvidia-l4'',
        cm_scaling = \<lparr>sc_min_replicas = 1, sc_max_replicas = 1, sc_scale_to_zero_timeout = None,
          sc_metric = None, sc_threshold = None\<rparr>\<rparr>,
      ec_provider = \<lparr>pv_vendor = ''aws'', pv_region = ''us-east-1'', pv_account_id = None\<rparr>,
      ec_access_type = Access_authenticated, ec_route = \<lparr>rt_domain = None, rt_path = None\<rparr>,
      ec_cache_http_responses = False, ec_tags = [''harbor-hf-managed'']\<rparr>"

definition sample_desired :: desired_endpoint where
  "sample_desired = \<lparr>de_identity = sample_identity, de_configuration = sample_configuration\<rparr>"

definition empty_cloud :: "cloud trace" where
  "empty_cloud = (\<lparr>cl_endpoint = None, cl_time = 0\<rparr>, [])"

lemma exact_verified:
  "set (mi_tags (de_identity d)) \<subseteq> set (ec_tags (de_configuration d)) \<Longrightarrow> verify_exact_endpoint d (started_endpoint d) = Inr ()"
  "set (mi_tags (de_identity d)) \<subseteq> set (ec_tags (de_configuration d)) \<Longrightarrow>
     verify_exact_endpoint d (cloud_status state (started_endpoint d)) = Inr ()"
  by (simp_all add: verify_exact_endpoint_def started_endpoint_def cloud_status_def effective_mismatches_Nil
      same_configuration_def same_model_def)

definition provisions ::
  "cloud endpoint_port \<Rightarrow> cloud trace \<Rightarrow>
   (endpoint_error + (provisioning_action \<times> endpoint_snapshot) \<Rightarrow> endpoint_call list \<Rightarrow> bool) \<Rightarrow> bool" where
  "provisions port s P =
     (case create_or_adopt (traced port) sample_desired 300 5 s of
        None \<Rightarrow> False | Some (r, (w, calls)) \<Rightarrow> P r calls)"

lemma provisions_D:
  assumes "provisions port s P"
  obtains r w calls where "create_or_adopt (traced port) sample_desired 300 5 s = Some (r, (w, calls))" and "P r calls"
  using assms by (auto simp: provisions_def split: option.splits intro: that)

lemma sample_created:
  "provisions (cloud_port started_endpoint Inr) empty_cloud
     (\<lambda>r calls. (case r of Inr (Created, s) \<Rightarrow> True | _ \<Rightarrow> False) \<and> length calls = 5)"
  by code_simp

text \<open>A provider that starts the endpoint with another number of replicas.\<close>

definition drifted_endpoint :: "desired_endpoint \<Rightarrow> endpoint_snapshot" where
  "drifted_endpoint d = (let s = started_endpoint d; c = sn_configuration s in
     s\<lparr>sn_configuration := c\<lparr>ec_compute := (ec_compute c)\<lparr>cm_instance_size := ''x8''\<rparr>\<rparr>\<rparr>)"

fun answered_create :: "endpoint_call \<Rightarrow> bool" where
  "answered_create (Create_call d (Inr s)) = (d = sample_desired)"
| "answered_create c = False"

lemma sample_drifted:
  "provisions (cloud_port drifted_endpoint Inr) empty_cloud
     (\<lambda>r calls. (case r of Inl e \<Rightarrow> is_mismatch e | _ \<Rightarrow> False) \<and>
        list_ex answered_create calls)"
  by code_simp

section \<open>Creating and adopting\<close>

text \<open>
  C36. Whatever the provider answers, provisioning first inspects the endpoint of its identity.
  It creates only when there is none, at most once, and then only inspects and pauses that
  endpoint; an endpoint that was there is never touched, and nothing is ever deleted. When it
  succeeds, the last call was an inspection that saw exactly the desired configuration, paused
  and without ready replicas.
\<close>

theorem provisioning_discipline:
  assumes "create_or_adopt (traced port) d timeout poll (w, []) = Some (r, (w', calls))"
  shows "(\<exists>a. calls = [Inspect_call (de_identity d) a] \<and> a \<noteq> Inr None \<or>
      (\<exists>b more. calls = Inspect_call (de_identity d) (Inr None) # Create_call d b # more \<and>
        (\<forall>c \<in> set more. (\<exists>x. c = Inspect_call (de_identity d) x) \<or> (\<exists>x. c = Pause_call (de_identity d) x)))) \<and>
    (\<forall>action snap. r = Inr (action, snap) \<longrightarrow>
       last calls = Inspect_call (de_identity d) (Inr (Some snap)) \<and>
       same_configuration (de_configuration d) (sn_configuration snap) \<and> is_paused_zero_ready snap)"
proof -
  have paused: "last calls = Inspect_call (de_identity d) (Inr (Some snap)) \<and>
      same_configuration (de_configuration d) (sn_configuration snap) \<and> is_paused_zero_ready snap"
    if "settled d (Inr snap) (w', calls)" for snap
    using that
    by (auto simp: settled_def seen_paused_def verify_exact_endpoint_def Let_def effective_mismatches_Nil split: if_splits)
  from assms show ?thesis
  proof (cases rule: create_or_adopt_calls)
    case (existing a)
    with paused show ?thesis by auto
  next
    case (absent t)
    with paused show ?thesis by (auto simp: create_calls_def list_all_iff handles_def)
  qed
qed

theorem provisioning_discipline_witness:
  "\<exists>r w calls action snap.
     create_or_adopt (traced (cloud_port started_endpoint Inr)) sample_desired 300 5 empty_cloud = Some (r, (w, calls)) \<and>
     r = Inr (action, snap) \<and> is_paused_zero_ready snap"
proof -
  from sample_created obtain r w calls where
    run: "create_or_adopt (traced (cloud_port started_endpoint Inr)) sample_desired 300 5 empty_cloud = Some (r, (w, calls))"
    and r: "case r of Inr (Created, s) \<Rightarrow> True | _ \<Rightarrow> False"
    by (auto elim!: provisions_D)
  then obtain snap where "r = Inr (Created, snap)" by (auto split: sum.splits provisioning_action.splits)
  with provisioning_discipline [OF run [unfolded empty_cloud_def]] run show ?thesis by blast
qed

text \<open>
  An endpoint that was created and turns out not to be the desired one is not left running:
  when the create was answered and provisioning then reports a mismatch, its last call was an
  inspection that saw the endpoint paused and without ready replicas. The calls of the port
  themselves never raise a mismatch.
\<close>

theorem mismatched_endpoint_is_paused:
  assumes "create_or_adopt (traced port) d timeout poll (w, []) = Some (Inl e, (w', calls))"
    and "is_mismatch e" and "Create_call d (Inr created) \<in> set calls" and "port_errors_plain port"
  shows "\<exists>snap. last calls = Inspect_call (de_identity d) (Inr (Some snap)) \<and> is_paused_zero_ready snap"
  using assms(1)
proof (cases rule: create_or_adopt_calls)
  case (existing a)
  with assms(3) show ?thesis by simp
next
  case (absent t)
  then obtain b cs where b: "calls = snd t @ Create_call d b # cs" "list_all (handles (de_identity d)) cs"
    "\<forall>snap. b = Inr snap \<longrightarrow> settled d (Inl e) (w', calls)"
    using assms(4) unfolding create_calls_def by auto
  have "b = Inr created" using assms(3) b(1,2) absent(1) by (auto simp: list_all_iff handles_def)
  with b(3) assms(2) show ?thesis by (auto simp: settled_def seen_paused_def)
qed

theorem mismatched_endpoint_is_paused_witness:
  "\<exists>e w calls snap.
     create_or_adopt (traced (cloud_port drifted_endpoint Inr)) sample_desired 300 5 empty_cloud = Some (Inl e, (w, calls)) \<and>
     is_mismatch e \<and> last calls = Inspect_call sample_identity (Inr (Some snap)) \<and> is_paused_zero_ready snap"
proof -
  from sample_drifted obtain r w calls where
    run: "create_or_adopt (traced (cloud_port drifted_endpoint Inr)) sample_desired 300 5 empty_cloud = Some (r, (w, calls))"
    and r: "case r of Inl e \<Rightarrow> is_mismatch e | _ \<Rightarrow> False"
    and c: "list_ex answered_create calls"
    by (auto elim!: provisions_D)
  from r obtain e where e: "r = Inl e" "is_mismatch e" by (auto split: sum.splits)
  from c obtain s where "Create_call sample_desired (Inr s) \<in> set calls"
    by (auto simp: list_ex_iff elim: answered_create.elims(2))
  moreover have "port_errors_plain (cloud_port drifted_endpoint Inr)"
    by (auto simp: port_errors_plain_def cloud_port_def is_mismatch_def split: option.splits)
  ultimately have "\<exists>snap. last calls = Inspect_call (de_identity sample_desired) (Inr (Some snap)) \<and> is_paused_zero_ready snap"
    using run e unfolding empty_cloud_def by (intro mismatched_endpoint_is_paused) auto
  with run e show ?thesis by (auto simp: sample_desired_def)
qed

text \<open>
  After a create whose outcome is unknown, the endpoint is found by inspection, and a
  mismatch is raised by that inspection itself: no pause is ever requested, and the endpoint
  is left running. The documentation says that an ambiguously created endpoint is paused.
\<close>

theorem ambiguous_mismatch_left_running:
  "\<exists>(port :: cloud endpoint_port) d w e w' calls snap.
     create_or_adopt (traced port) d 300 5 (w, []) = Some (Inl e, (w', calls)) \<and> is_mismatch e \<and>
     Create_call d (Inl Ambiguous_create) \<in> set calls \<and> (\<forall>i x. Pause_call i x \<notin> set calls) \<and>
     last calls = Inspect_call (de_identity d) (Inr (Some snap)) \<and> \<not> is_paused_zero_ready snap"
proof -
  let ?port = "cloud_port drifted_endpoint (\<lambda>_. Inl Ambiguous_create)"
  have "provisions ?port empty_cloud (\<lambda>r calls.
      (case r of Inl e \<Rightarrow> is_mismatch e | _ \<Rightarrow> False) \<and>
      calls = [Inspect_call sample_identity (Inr None), Create_call sample_desired (Inl Ambiguous_create),
        Inspect_call sample_identity (Inr (Some (drifted_endpoint sample_desired)))])"
    by code_simp
  then obtain r w calls where run: "create_or_adopt (traced ?port) sample_desired 300 5 empty_cloud = Some (r, (w, calls))"
    and r: "case r of Inl e \<Rightarrow> is_mismatch e | _ \<Rightarrow> False"
    and calls: "calls = [Inspect_call sample_identity (Inr None), Create_call sample_desired (Inl Ambiguous_create),
        Inspect_call sample_identity (Inr (Some (drifted_endpoint sample_desired)))]"
    by (rule provisions_D) auto
  from r obtain e where "r = Inl e" "is_mismatch e" by (auto split: sum.splits)
  moreover have "\<not> is_paused_zero_ready (drifted_endpoint sample_desired)" by code_simp
  moreover have "de_identity sample_desired = sample_identity" by (simp add: sample_desired_def)
  ultimately show ?thesis
    using run calls unfolding empty_cloud_def
    by (intro exI [of _ ?port] exI [of _ sample_desired] exI [of _ "fst empty_cloud"] exI [of _ e] exI [of _ w]
        exI [of _ calls] exI [of _ "drifted_endpoint sample_desired"]) (simp add: empty_cloud_def)
qed

section \<open>Deleting\<close>

text \<open>
  C37. An endpoint is deleted only directly after an inspection that saw exactly the desired
  configuration, paused and without ready replicas, and at most once. Success means that the
  last inspection found no endpoint: \<open>True\<close> after a deletion, \<open>False\<close> when there was none.
\<close>

theorem deletion_is_verified:
  assumes "delete_endpoint (traced port) d timeout poll (w, []) = Some (r, (w', calls))"
  shows "((\<forall>c \<in> set calls. \<exists>x. c = Inspect_call (de_identity d) x) \<or>
      (\<exists>snap b more. calls = Inspect_call (de_identity d) (Inr (Some snap)) # Delete_call (de_identity d) b # more \<and>
        same_configuration (de_configuration d) (sn_configuration snap) \<and> is_paused_zero_ready snap \<and>
        (\<forall>c \<in> set more. \<exists>x. c = Inspect_call (de_identity d) x))) \<and>
    (\<forall>deleted. r = Inr deleted \<longrightarrow> last calls = Inspect_call (de_identity d) (Inr None) \<and>
       deleted = (\<exists>b. Delete_call (de_identity d) b \<in> set calls))"
  using assms
proof (cases rule: delete_endpoint_calls)
  case (kept cs)
  then show ?thesis by (auto simp: list_all_iff inspects_def)
next
  case (deleted snap b cs)
  then have "same_configuration (de_configuration d) (sn_configuration snap)"
    by (auto simp: verify_exact_endpoint_def Let_def effective_mismatches_Nil split: if_splits)
  with deleted show ?thesis by (auto simp: list_all_iff inspects_def)
qed

definition paused_cloud :: "cloud trace" where
  "paused_cloud = (\<lparr>cl_endpoint = Some (cloud_status ''paused'' (started_endpoint sample_desired)), cl_time = 0\<rparr>, [])"

theorem deletion_is_verified_witness:
  "\<exists>w calls. delete_endpoint (traced (cloud_port started_endpoint Inr)) sample_desired 300 5 paused_cloud =
     Some (Inr True, (w, calls)) \<and> last calls = Inspect_call sample_identity (Inr None)"
proof -
  have "case delete_endpoint (traced (cloud_port started_endpoint Inr)) sample_desired 300 5 paused_cloud of
      Some (Inr b, _) \<Rightarrow> b | _ \<Rightarrow> False" by code_simp
  then obtain w calls where
    run: "delete_endpoint (traced (cloud_port started_endpoint Inr)) sample_desired 300 5 paused_cloud = Some (Inr True, (w, calls))"
    by (auto split: option.splits sum.splits)
  from deletion_is_verified [OF run [unfolded paused_cloud_def]] run show ?thesis
    by (auto simp: sample_desired_def)
qed

section \<open>Provisioning ends\<close>

text \<open>
  C38. Provisioning, pausing and deleting return for every provider, timeout and poll interval,
  as long as the clock is monotonic and a sleep lasts at least as long as asked: no wait is
  forever, even if the endpoint never reaches the state waited for.
\<close>

theorem provisioning_terminates:
  assumes "port_contract port now"
  shows "(\<exists>r w'. create_or_adopt port d timeout poll w = Some (r, w')) \<and>
    (\<exists>r w'. pause_and_verify port d timeout poll w = Some (r, w')) \<and>
    (\<exists>r w'. delete_endpoint port d timeout poll w = Some (r, w'))"
  using operations_return [OF assms] by (auto simp: returns_def)

theorem provisioning_terminates_witness:
  "\<exists>r w'. create_or_adopt (cloud_port started_endpoint Inr) sample_desired 300 5 (fst empty_cloud) = Some (r, w')"
  using provisioning_terminates [OF cloud_contract] by blast

section \<open>Comparing configurations\<close>

text \<open>
  C39. The comparison by dotted paths reports nothing exactly when all fields of the two
  configurations agree, the environment as a mapping.
\<close>

theorem configurations_compared_exactly:
  "effective_configuration_mismatches c d = [] \<longleftrightarrow>
     ec_compute c = ec_compute d \<and> ec_provider c = ec_provider d \<and> ec_access_type c = ec_access_type d \<and>
     ec_route c = ec_route d \<and> ec_cache_http_responses c = ec_cache_http_responses d \<and> ec_tags c = ec_tags d \<and>
     map_of (em_environment (ec_model c)) = map_of (em_environment (ec_model d)) \<and>
     (ec_model c)\<lparr>em_environment := []\<rparr> = (ec_model d)\<lparr>em_environment := []\<rparr>"
  by (cases c; cases d) (auto simp: effective_mismatches_Nil same_configuration_def same_model_def)

section \<open>The adapter\<close>




end
