(* ===== verification/Run_Lock.thy ===== *)
theory Run_Lock
  imports Experiment_Validation
begin

text \<open>
  Run locks (\<open>src/src/harbor_hf/runs.py\<close>): \<open>build_run_lock\<close> resolves one cell of the matrix to
  the exact configuration that a worker runs. Rendering of time stamps is an argument:
  \<open>isoformat\<close> is \<open>datetime.isoformat\<close> and \<open>stamp\<close> is the format \<open>%Y%m%dT%H%M%SZ\<close>.
\<close>

record run_configuration =
  rn_schema_version :: string
  rn_run_id :: string
  rn_created_at :: int
  rn_experiment :: string
  rn_evaluation_id :: string
  rn_publication_role :: publication_role
  rn_component_kind :: "component_kind option"
  rn_spec_digest :: string
  rn_benchmark_dataset :: string
  rn_benchmark_dataset_digest :: string
  rn_benchmark_source :: "benchmark_source option"
  rn_benchmark_judge :: "judge_spec option"
  rn_judge_required_tasks :: "string list option"
  rn_trial_evidence :: "json option"
  rn_benchmark_tasks :: "string list"
  rn_benchmark_task_digests :: "(string, string) dict"
  rn_model :: model_profile
  rn_deployment :: deployment_target
  rn_agent :: agent_profile
  rn_attempts :: int
  rn_concurrent_trials :: int
  rn_serving_profile :: "serving_binding option"
  rn_timeout_seconds :: int
  rn_agent_setup_timeout_multiplier :: "json option"
  rn_artifact_bucket :: string
  rn_artifact_prefix :: string
  rn_remote :: remote_spec

definition run_lock_v1alpha1 :: string where
  "run_lock_v1alpha1 = ''harbor-hf/run-lock/v1alpha1''"

definition run_lock_v1alpha2 :: string where
  "run_lock_v1alpha2 = ''harbor-hf/run-lock/v1alpha2''"

definition judge_required_for :: "run_configuration \<Rightarrow> string \<Rightarrow> bool" where
  "judge_required_for r task \<longleftrightarrow>
     (case rn_judge_required_tasks r of None \<Rightarrow> False | Some ts \<Rightarrow> task \<in> set ts)"

text \<open>The field type admits Git and bundle sources only.\<close>

fun lockable_source :: "benchmark_source option \<Rightarrow> bool" where
  "lockable_source (Some (Source_directory _)) = False"
| "lockable_source _ = True"

definition run_configuration_ok :: "run_configuration \<Rightarrow> bool" where
  "run_configuration_ok r \<longleftrightarrow>
     lockable_source (rn_benchmark_source r) \<and>
     \<not> (rn_schema_version r = run_lock_v1alpha1 \<and>
        (rn_benchmark_source r \<noteq> None \<or> rn_benchmark_judge r \<noteq> None)) \<and>
     (rn_benchmark_judge r = None) = (rn_judge_required_tasks r = None) \<and>
     (case rn_judge_required_tasks r of
        None \<Rightarrow> True
      | Some ts \<Rightarrow> ts = sort (remdups ts) \<and> set ts \<subseteq> set (dict_keys (rn_benchmark_task_digests r)))"

datatype run_error =
    Run_spec_failure spec_error
  | Run_cell_failure cell_error
  | Manifest_fields_invalid
  | Run_without_remote
  | Unknown_profile_id string string
  | Profile_selection_required string nat
  | Run_cell_excluded
  | Agent_version_reserved
  | Harbor_revision_mismatch
  | Provider_needs_campaign
  | Wave_endpoint_missing
  | Deployment_endpoint_missing
  | Endpoint_namespace_mismatch
  | Unsafe_run_id
  | Run_lock_invalid

definition select_profile ::
  "('p \<Rightarrow> string) \<Rightarrow> 'p list \<Rightarrow> string option \<Rightarrow> string \<Rightarrow> run_error + 'p" where
  "select_profile id_of profiles profile_id dimension =
     (case profile_id of
        Some i \<Rightarrow> of_option (Unknown_profile_id dimension i) (List.find (\<lambda>p. id_of p = i) profiles)
      | None \<Rightarrow> (case profiles of [p] \<Rightarrow> Inr p
          | _ \<Rightarrow> Inl (Profile_selection_required dimension (length profiles))))"

definition validate_deployment_target ::
  "model_profile \<Rightarrow> deployment_target \<Rightarrow> agent_profile \<Rightarrow> remote_spec \<Rightarrow> bool \<Rightarrow> run_error + unit" where
  "validate_deployment_target model deployment agent remote allow_provider =
     (case deployment of
        Provider_target p \<Rightarrow>
          if \<not> allow_provider then Inl Provider_needs_campaign
          else lift_error Run_cell_failure (validate_provider_cell model p agent)
      | Endpoint_target p \<Rightarrow>
          (case ep_endpoint p of
             None \<Rightarrow> Inl (if allow_provider then Wave_endpoint_missing else Deployment_endpoint_missing)
           | Some e \<Rightarrow> require (er_namespace e = rj_namespace remote) Endpoint_namespace_mismatch))"

text \<open>\<open>ExperimentSpec.model_validate(spec.model_dump())\<close>: all validators once more.\<close>

definition revalidated :: "hash \<Rightarrow> experiment_spec \<Rightarrow> run_error + experiment_spec" where
  "revalidated h s =
     (if \<not> manifest_ok s then Inl Manifest_fields_invalid
      else rbind (lift_error Run_spec_failure (validate_benchmark h (es_benchmark s))) (\<lambda>b.
        let s' = s\<lparr>es_benchmark := b\<rparr> in
        rbind (lift_error Run_spec_failure (validate_experiment h s')) (\<lambda>_. Inr s')))"

text \<open>\<open>json.dumps\<close> of one object with its default separators.\<close>

definition new_run_id :: "hash \<Rightarrow> (int \<Rightarrow> string) \<Rightarrow> (int \<Rightarrow> string) \<Rightarrow> string \<Rightarrow> string \<Rightarrow> int \<Rightarrow> string" where
  "new_run_id h isoformat stamp name d created_at =
     (let field = (\<lambda>k v. dumps_string k @ '': '' @ dumps_string v);
          identity = ''{'' @ str_join '', '' [field ''created_at'' (isoformat created_at), field ''digest'' d,
            field ''name'' name] @ ''}''
      in stamp created_at @ ''-'' @ take 10 (hexdigest h identity))"

record run_request =
  rq_model_id :: "string option"
  rq_deployment_id :: "string option"
  rq_agent_id :: "string option"
  rq_run_id :: "string option"
  rq_allow_provider :: bool
  rq_manifest_digest :: "string option"

definition run_configuration_of ::
  "experiment_spec \<Rightarrow> remote_spec \<Rightarrow> model_profile \<Rightarrow> deployment_target \<Rightarrow> agent_profile \<Rightarrow> string \<Rightarrow> string \<Rightarrow>
   int \<Rightarrow> string list option \<Rightarrow> run_configuration" where
  "run_configuration_of s remote model deployment agent run_id d created_at required =
     (let b = es_benchmark s; e = es_execution s in
      \<lparr>rn_schema_version = (if bm_source b \<noteq> None \<or> bm_judge b \<noteq> None then run_lock_v1alpha2 else run_lock_v1alpha1),
       rn_run_id = run_id, rn_created_at = created_at, rn_experiment = es_name s,
       rn_evaluation_id = pb_evaluation_id (es_publishing s), rn_publication_role = pb_role (es_publishing s),
       rn_component_kind = pb_component_kind (es_publishing s), rn_spec_digest = d,
       rn_benchmark_dataset = bm_dataset b,
       rn_benchmark_dataset_digest = (case bm_dataset_digest b of None \<Rightarrow> ''None'' | Some x \<Rightarrow> x),
       rn_benchmark_source = bm_source b, rn_benchmark_judge = bm_judge b, rn_judge_required_tasks = required,
       rn_trial_evidence = af_trial_evidence (es_artifacts s), rn_benchmark_tasks = bm_task_names b,
       rn_benchmark_task_digests = bm_task_digests b, rn_model = model, rn_deployment = deployment,
       rn_agent = agent, rn_attempts = ex_attempts e, rn_concurrent_trials = ex_concurrent_trials e,
       rn_serving_profile = ex_serving_profile e, rn_timeout_seconds = ex_timeout_seconds e,
       rn_agent_setup_timeout_multiplier = ex_agent_setup_timeout_multiplier e,
       rn_artifact_bucket = af_bucket (es_artifacts s),
       rn_artifact_prefix = ''runs/'' @ es_name s @ ''/'' @ run_id, rn_remote = remote\<rparr>)"

definition build_run_lock ::
  "hash \<Rightarrow> (int \<Rightarrow> string) \<Rightarrow> (int \<Rightarrow> string) \<Rightarrow> experiment_spec \<Rightarrow> run_request \<Rightarrow> int \<Rightarrow>
   run_error + run_configuration" where
  "build_run_lock h isoformat stamp spec q created_at =
     rbind (revalidated h spec) (\<lambda>s.
     rbind (of_option Run_without_remote (es_remote s)) (\<lambda>remote.
     rbind (select_profile mp_id (mx_models (es_matrix s)) (rq_model_id q) ''model'') (\<lambda>model.
     rbind (select_profile target_id (mx_deployments (es_matrix s)) (rq_deployment_id q) ''deployment'') (\<lambda>deployment.
     rbind (select_profile ag_id (mx_agents (es_matrix s)) (rq_agent_id q) ''agent'') (\<lambda>agent.
     rbind (lift_error Run_spec_failure (resolved_cells (es_matrix s))) (\<lambda>cells.
     rbind (require (\<lparr>cell_model = mp_id model, cell_deployment = target_id deployment,
               cell_agent = ag_id agent\<rparr> \<in> set cells) Run_cell_excluded) (\<lambda>_.
     rbind (require (''version'' \<notin> set (ag_parameter_keys agent)) Agent_version_reserved) (\<lambda>_.
     rbind (require (ag_revision_kind agent = Rev_harbor_source \<longrightarrow>
               ag_revision agent = sp_revision (rh_source remote)) Harbor_revision_mismatch) (\<lambda>_.
     rbind (validate_deployment_target model deployment agent remote (rq_allow_provider q)) (\<lambda>_.
     let d = or_else (rq_manifest_digest q) (experiment_digest h s) in
     rbind (require (case rq_run_id q of None \<Rightarrow> True | Some i \<Rightarrow> safe_name 99 i) Unsafe_run_id) (\<lambda>_.
     let run_id = or_else (rq_run_id q) (new_run_id h isoformat stamp (es_name s) d created_at) in
     rbind (case bm_judge (es_benchmark s) of
              None \<Rightarrow> Inr None
            | Some _ \<Rightarrow> rbind (lift_error Run_spec_failure (resolved_judge_required_tasks (es_benchmark s)))
                (\<lambda>ts. Inr (Some ts))) (\<lambda>required.
     let r = run_configuration_of s remote model deployment agent run_id d created_at required in
       if run_configuration_ok r then Inr r else Inl Run_lock_invalid))))))))))))"

section \<open>Facts\<close>

lemma select_profile_Some:
  "select_profile id_of ps (Some i) dim = Inr p \<Longrightarrow> p \<in> set ps \<and> id_of p = i"
  by (auto simp: select_profile_def result_simps find_Some_iff)

lemma select_profile_mem:
  "select_profile id_of ps x dim = Inr p \<Longrightarrow> p \<in> set ps"
  by (auto simp: select_profile_def result_simps find_Some_iff split: option.splits list.splits)

lemma build_run_lock_Inr:
  assumes "build_run_lock h isoformat stamp spec q created_at = Inr r"
  obtains s where "revalidated h spec = Inr s" and "es_remote s = Some (rn_remote r)" and "run_configuration_ok r"
    and "rn_model r \<in> set (mx_models (es_matrix s))" and "rn_deployment r \<in> set (mx_deployments (es_matrix s))"
    and "rn_agent r \<in> set (mx_agents (es_matrix s))"
    and "\<forall>i. rq_model_id q = Some i \<longrightarrow> mp_id (rn_model r) = i"
    and "\<forall>i. rq_deployment_id q = Some i \<longrightarrow> target_id (rn_deployment r) = i"
    and "\<forall>i. rq_agent_id q = Some i \<longrightarrow> ag_id (rn_agent r) = i"
    and "validate_deployment_target (rn_model r) (rn_deployment r) (rn_agent r) (rn_remote r) (rq_allow_provider q) = Inr ()"
    and "\<forall>i. rq_run_id q = Some i \<longrightarrow> i \<noteq> [] \<longrightarrow> rn_run_id r = i"
proof -
  from assms obtain s remote model deployment agent required run_id d where
    s: "revalidated h spec = Inr s" "es_remote s = Some remote"
    and sel: "select_profile mp_id (mx_models (es_matrix s)) (rq_model_id q) ''model'' = Inr model"
    "select_profile target_id (mx_deployments (es_matrix s)) (rq_deployment_id q) ''deployment'' = Inr deployment"
    "select_profile ag_id (mx_agents (es_matrix s)) (rq_agent_id q) ''agent'' = Inr agent"
    and valid: "validate_deployment_target model deployment agent remote (rq_allow_provider q) = Inr ()"
    and id: "run_id = or_else (rq_run_id q) (new_run_id h isoformat stamp (es_name s) d created_at)"
    and r: "r = run_configuration_of s remote model deployment agent run_id d created_at required"
    "run_configuration_ok r"
    by (auto simp: build_run_lock_def result_simps Let_def split: if_splits)
  have fields: "rn_remote r = remote" "rn_model r = model" "rn_deployment r = deployment" "rn_agent r = agent"
    "rn_run_id r = run_id"
    unfolding r(1) by (simp_all add: run_configuration_of_def Let_def)
  show ?thesis
  proof (rule that [OF s(1)], unfold fields)
    show "es_remote s = Some remote" "run_configuration_ok r" by (fact s(2), fact r(2))
    show "model \<in> set (mx_models (es_matrix s))" "deployment \<in> set (mx_deployments (es_matrix s))"
      "agent \<in> set (mx_agents (es_matrix s))"
      using sel by (blast intro: select_profile_mem)+
    show "\<forall>i. rq_model_id q = Some i \<longrightarrow> mp_id model = i" "\<forall>i. rq_deployment_id q = Some i \<longrightarrow> target_id deployment = i"
      "\<forall>i. rq_agent_id q = Some i \<longrightarrow> ag_id agent = i"
      using sel by (auto dest: select_profile_Some)
    show "validate_deployment_target model deployment agent remote (rq_allow_provider q) = Inr ()" by (fact valid)
    show "\<forall>i. rq_run_id q = Some i \<longrightarrow> i \<noteq> [] \<longrightarrow> run_id = i"
      using id by (simp add: or_else_def)
  qed
qed

end
