(* ===== verification/Wave_Lock.thy ===== *)
theory Wave_Lock
  imports Campaign_Planning Reconciler Run_Lock
begin

text \<open>
  Wave locks (\<open>src/src/harbor_hf/campaigns.py\<close>): \<open>build_wave_lock\<close> checks a billable action of
  the reconciler against the campaign lock, selects its shards, binds the endpoint of the wave
  and resolves the exact configuration of every run in it. The campaign lock is first rebuilt
  from the manifest and must be equal to the given one.
\<close>

section \<open>The lock of a wave\<close>

record wave_shard_lock =
  wsl_artifact_prefix :: string
  wsl_run_id :: string
  wsl_shard :: shard_lock

record wave_run_lock =
  wrl_artifact_prefix :: string
  wrl_configuration :: run_configuration
  wrl_shards :: "wave_shard_lock list"

datatype wave_target =
    Endpoint_wave_target endpoint_ref
  | Provider_wave_target provider_target

record wave_lock =
  wl_wave_id :: string
  wl_action_id :: string
  wl_action_key :: string
  wl_action_kind :: billable_kind
  wl_campaign_id :: string
  wl_created_at :: int
  wl_manifest_digest :: string
  wl_plan_digest :: string
  wl_deployment_digest :: string
  wl_target :: wave_target
  wl_artifact_bucket :: string
  wl_artifact_prefix :: string
  wl_max_shards :: int
  wl_max_concurrent_shards :: int
  wl_spend_cap_microusd :: "int option"
  wl_estimated_cost_microusd :: int
  wl_duration_seconds :: int
  wl_remote :: remote_spec
  wl_recovery_parent_worker_revision :: "string option"
  wl_shard_ids :: "string list"
  wl_trial_ids :: "string list"
  wl_runs :: "wave_run_lock list"

definition wave_locked_shards :: "wave_lock \<Rightarrow> shard_lock list" where
  "wave_locked_shards w = concat (map (\<lambda>r. map wsl_shard (wrl_shards r)) (wl_runs w))"

definition wave_locked_trials :: "wave_lock \<Rightarrow> trial_lock list" where
  "wave_locked_trials w = concat (map sl_trials (wave_locked_shards w))"

definition wave_bounds_match_contents :: "wave_lock \<Rightarrow> bool" where
  "wave_bounds_match_contents w \<longleftrightarrow>
     (let shard_count = length (wave_locked_shards w);
          observed_ids = map sl_shard_id (wave_locked_shards w);
          locked_trial_ids = set (map tl_trial_id (wave_locked_trials w))
      in \<not> (shard_count < 1 \<or> int shard_count > wl_max_shards w) \<and>
         length observed_ids = length (wl_shard_ids w) \<and> distinct (wl_shard_ids w) \<and>
         set observed_ids = set (wl_shard_ids w) \<and>
         distinct (wl_trial_ids w) \<and> set (wl_trial_ids w) \<subseteq> locked_trial_ids \<and>
         \<not> (wl_action_kind w = Retry_shard \<and> wl_trial_ids w = []) \<and>
         \<not> (wl_action_kind w = Submit_wave \<and> wl_trial_ids w \<noteq> []) \<and>
         \<not> wl_max_concurrent_shards w < 1 \<and> \<not> wl_duration_seconds w < 1)"

definition recovery_worker_is_only_for_retries :: "wave_lock \<Rightarrow> bool" where
  "recovery_worker_is_only_for_retries w \<longleftrightarrow>
     \<not> (wl_recovery_parent_worker_revision w \<noteq> None \<and> wl_action_kind w \<noteq> Retry_shard)"

definition wave_lock_ok :: "wave_lock \<Rightarrow> bool" where
  "wave_lock_ok w \<longleftrightarrow>
     opt_ge 0 (wl_spend_cap_microusd w) \<and> 0 \<le> wl_estimated_cost_microusd w \<and>
     (case wl_recovery_parent_worker_revision w of None \<Rightarrow> True | Some r \<Rightarrow> hex_string 40 r) \<and>
     wave_bounds_match_contents w \<and> recovery_worker_is_only_for_retries w"

section \<open>Actions\<close>

definition deterministic_wave_id :: "string \<Rightarrow> campaign_error + string" where
  "deterministic_wave_id action_key =
     (if \<not> hex_string 24 action_key then Inl Wave_key_malformed else Inr (''wave-'' @ action_key))"

definition validate_action_trials :: "reconcile_action \<Rightarrow> campaign_error + unit" where
  "validate_action_trials a =
     (if \<not> distinct (ca_trial_ids a) then Inl Action_trials_not_unique
      else if ca_kind a = AK_retry_shard \<and> ca_trial_ids a = [] then Inl Retry_without_trials
      else if ca_kind a = AK_submit_wave \<and> ca_trial_ids a \<noteq> [] then Inl Submit_with_trials
      else Inr ())"

definition validate_submit_wave_action :: "campaign_lock \<Rightarrow> reconcile_action \<Rightarrow> campaign_error + unit" where
  "validate_submit_wave_action campaign a =
     (if ca_kind a \<notin> {AK_submit_wave, AK_retry_shard} \<or> ac_campaign_id a \<noteq> cl_campaign_id campaign
      then Inl Action_not_for_campaign
      else if ca_shard_ids a = [] then Inl Action_without_shards
      else if \<not> distinct (ca_shard_ids a) then Inl Action_shards_not_unique
      else if int (length (ca_shard_ids a)) > cl_max_shards_per_wave campaign
      then Inl Action_exceeds_shard_bound
      else rbind (validate_action_trials a) (\<lambda>_.
        if \<not> hex_string 24 (ac_action_key a) \<or> ac_action_id a \<noteq> ''act-'' @ ac_action_key a
        then Inl Action_identity_mismatch else Inr ()))"

text \<open>The loop over the runs keeps the selected shards and the identifiers found so far.\<close>

definition select_run_shards ::
  "reconcile_action \<Rightarrow> (run_lock \<times> shard_lock list) list \<times> string list \<Rightarrow> run_lock \<Rightarrow>
   campaign_error + ((run_lock \<times> shard_lock list) list \<times> string list)" where
  "select_run_shards a state r =
     (case state of (selected, found) \<Rightarrow>
        let shards = filter (\<lambda>s. sl_shard_id s \<in> set (ca_shard_ids a)) (rl_shards r) in
        if shards = [] then Inr (selected, found)
        else if ra_deployment_digest r \<noteq> ca_deployment_digest a then Inl Action_mixes_deployments
        else Inr (selected @ [(r, shards)], found @ map sl_shard_id shards))"

definition selected_wave_shards ::
  "campaign_lock \<Rightarrow> reconcile_action \<Rightarrow> campaign_error + (run_lock \<times> shard_lock list) list" where
  "selected_wave_shards campaign a =
     rbind (foldM (select_run_shards a) ([], []) (cl_runs campaign)) (\<lambda>(selected, found).
       if \<not> set (ca_shard_ids a) \<subseteq> set found then Inl Action_unknown_shard else Inr selected)"

section \<open>Endpoints of a wave\<close>

datatype wave_error =
    Wave_plan_failure plan_error
  | Wave_spec_failure spec_error
  | Wave_campaign_failure campaign_error
  | Wave_run_failure run_error
  | Wave_endpoint_failure endpoint_spec_error
  | Wave_campaign_mismatch
  | Wave_trials_outside_shards
  | Wave_estimates_differ
  | Wave_targets_differ
  | Wave_without_remote
  | Wave_without_policy
  | Wave_profile_missing
  | Managed_wave_without_remote
  | Managed_deployment_unknown
  | Managed_profiles_conflict
  | Managed_provider_deployment
  | Managed_manifest_mismatch
  | Provider_wave_has_endpoint
  | Wave_has_no_endpoint
  | Wave_endpoint_not_allowed
  | Wave_target_unbound
  | Wave_lock_invalid

definition managed_wave_endpoint ::
  "hash \<Rightarrow> campaign_lock \<Rightarrow> experiment_spec \<Rightarrow> string \<Rightarrow> wave_error + endpoint_ref" where
  "managed_wave_endpoint h campaign spec deployment =
     rbind (of_option Managed_wave_without_remote (es_remote spec)) (\<lambda>remote.
     let pairs = map (\<lambda>r. (ra_model r, ra_deployment r))
           (filter (\<lambda>r. ra_deployment_digest r = deployment) (cl_runs campaign))
     in case remdups pairs of
          [] \<Rightarrow> Inl Managed_deployment_unknown
        | [(model_id, deployment_id)] \<Rightarrow>
            rbind (of_option Wave_profile_missing
                (List.find (\<lambda>p. mp_id p = model_id) (mx_models (es_matrix spec)))) (\<lambda>model.
            rbind (of_option Wave_profile_missing
                (List.find (\<lambda>p. target_id p = deployment_id) (mx_deployments (es_matrix spec)))) (\<lambda>target.
              case target of
                Provider_target _ \<Rightarrow> Inl Managed_provider_deployment
              | Endpoint_target profile \<Rightarrow>
                  if deployment_digest h model target \<noteq> deployment then Inl Managed_manifest_mismatch
                  else rbind (lift_error Wave_endpoint_failure (managed_endpoint_identity h
                      (rj_namespace remote) (cl_campaign_id campaign) deployment)) (\<lambda>identity.
                    Inr \<lparr>er_namespace = mi_namespace identity, er_name = mi_name identity,
                         er_served_model_name = served_model_name profile model\<rparr>)))
        | _ \<Rightarrow> Inl Managed_profiles_conflict)"

definition bound_wave_spec ::
  "hash \<Rightarrow> campaign_lock \<Rightarrow> experiment_spec \<Rightarrow> run_lock \<Rightarrow> endpoint_ref option \<Rightarrow>
   wave_error + experiment_spec" where
  "bound_wave_spec h campaign spec r requested_endpoint =
     rbind (of_option Wave_profile_missing
         (List.find (\<lambda>p. target_id p = ra_deployment r) (mx_deployments (es_matrix spec)))) (\<lambda>target.
       case target of
         Provider_target _ \<Rightarrow>
           if requested_endpoint \<noteq> None then Inl Provider_wave_has_endpoint else Inr spec
       | Endpoint_target profile \<Rightarrow>
           rbind (of_option Wave_has_no_endpoint
               (case requested_endpoint of None \<Rightarrow> ep_endpoint profile | Some e \<Rightarrow> Some e)) (\<lambda>resolved.
           rbind (managed_wave_endpoint h campaign spec (ra_deployment_digest r)) (\<lambda>managed.
             if Some resolved \<noteq> ep_endpoint profile \<and> resolved \<noteq> managed
             then Inl Wave_endpoint_not_allowed
             else lift_error Wave_endpoint_failure (bind_endpoint spec (ra_deployment r) resolved))))"

fun wave_target_of :: "deployment_target \<Rightarrow> wave_error + wave_target" where
  "wave_target_of (Provider_target p) = Inr (Provider_wave_target p)"
| "wave_target_of (Endpoint_target p) =
     (case ep_endpoint p of None \<Rightarrow> Inl Wave_target_unbound | Some e \<Rightarrow> Inr (Endpoint_wave_target e))"

fun provider_of_target :: "wave_target \<Rightarrow> provider_target option" where
  "provider_of_target (Provider_wave_target p) = Some p"
| "provider_of_target (Endpoint_wave_target _) = None"

section \<open>Building a wave lock\<close>

definition billable_kind_of :: "action_kind \<Rightarrow> billable_kind" where
  "billable_kind_of k = (if k = AK_retry_shard then Retry_shard else Submit_wave)"

definition wave_duration_seconds ::
  "campaign_lock \<Rightarrow> experiment_spec \<Rightarrow> reconcile_action \<Rightarrow> provider_target option \<Rightarrow> wave_error + int" where
  "wave_duration_seconds campaign spec a provider =
     (if provider = None then Inr (ex_timeout_seconds (es_execution spec))
      else rbind (of_option Wave_without_policy (cl_controller_policy campaign)) (\<lambda>policy.
        rbind (lift_error Wave_campaign_failure (locked_provider_action_seconds campaign
            (billable_kind_of (ca_kind a)) (ca_deployment_digest a) (ca_shard_ids a)
            (int (length (ca_trial_ids a))))) (\<lambda>planned.
          Inr (planned - cc_wave_reserve_seconds policy))))"

definition wave_run_request :: "campaign_lock \<Rightarrow> run_lock \<Rightarrow> run_request" where
  "wave_run_request campaign r =
     \<lparr>rq_model_id = Some (ra_model r), rq_deployment_id = Some (ra_deployment r),
      rq_agent_id = Some (ra_agent r), rq_run_id = Some (rl_run_id r), rq_allow_provider = True,
      rq_manifest_digest = Some (cl_manifest_digest campaign)\<rparr>"

definition wave_run_lock_of ::
  "campaign_lock \<Rightarrow> run_lock \<Rightarrow> run_configuration \<Rightarrow> shard_lock list \<Rightarrow> wave_run_lock" where
  "wave_run_lock_of campaign r configuration shards =
     (let prefix = cl_artifact_prefix campaign @ ''/runs/'' @ rl_run_id r in
      \<lparr>wrl_artifact_prefix = prefix, wrl_configuration = configuration,
       wrl_shards = map (\<lambda>s. \<lparr>wsl_artifact_prefix = prefix @ ''/shards/'' @ sl_shard_id s,
         wsl_run_id = rl_run_id r, wsl_shard = s\<rparr>) shards\<rparr>)"

definition add_wave_run ::
  "hash \<Rightarrow> (int \<Rightarrow> string) \<Rightarrow> (int \<Rightarrow> string) \<Rightarrow> campaign_lock \<Rightarrow> experiment_spec \<Rightarrow> endpoint_ref option \<Rightarrow>
   wave_target option \<times> wave_run_lock list \<Rightarrow> run_lock \<times> shard_lock list \<Rightarrow>
   wave_error + (wave_target option \<times> wave_run_lock list)" where
  "add_wave_run h isoformat stamp campaign spec endpoint state selection =
     (case (state, selection) of ((target, runs), (r, shards)) \<Rightarrow>
        rbind (bound_wave_spec h campaign spec r endpoint) (\<lambda>bound.
        rbind (lift_error Wave_run_failure (build_run_lock h isoformat stamp bound
            (wave_run_request campaign r) (cl_created_at campaign))) (\<lambda>configuration.
        rbind (wave_target_of (rn_deployment configuration)) (\<lambda>observed.
          if target \<noteq> None \<and> Some observed \<noteq> target then Inl Wave_targets_differ
          else Inr (Some observed, runs @ [wave_run_lock_of campaign r configuration shards])))))"

definition selected_trial_ids :: "(run_lock \<times> shard_lock list) list \<Rightarrow> string list" where
  "selected_trial_ids selected = concat (map (\<lambda>(r, shards). concat (map (\<lambda>s. map tl_trial_id (sl_trials s)) shards)) selected)"

definition wave_estimate :: "(run_lock \<times> shard_lock list) list \<Rightarrow> wave_error + int" where
  "wave_estimate selected =
     (case remdups (map (\<lambda>(r, shards). ra_estimated_wave_cost_microusd r) selected) of
        [estimate] \<Rightarrow> Inr (or_zero estimate)
      | _ \<Rightarrow> Inl Wave_estimates_differ)"

definition expected_campaign_lock ::
  "hash \<Rightarrow> campaign_lock \<Rightarrow> experiment_spec \<Rightarrow> wave_error + campaign_lock" where
  "expected_campaign_lock h campaign spec =
     lift_error Wave_plan_failure
       (rbind (build_campaign_plan h spec (Some (cl_source_lock campaign)) (Some (cl_recovery_policy campaign)))
         (\<lambda>plan. build_campaign_lock h plan (cl_campaign_id campaign) (cl_created_at campaign)))"

definition assemble_wave_lock ::
  "campaign_lock \<Rightarrow> experiment_spec \<Rightarrow> reconcile_action \<Rightarrow> wave_target \<Rightarrow> int \<Rightarrow> int \<Rightarrow> int \<Rightarrow> remote_spec \<Rightarrow>
   string \<Rightarrow> wave_run_lock list \<Rightarrow> wave_lock" where
  "assemble_wave_lock campaign spec a target concurrency estimate duration remote wave_id runs =
     \<lparr>wl_wave_id = wave_id, wl_action_id = ac_action_id a, wl_action_key = ac_action_key a,
      wl_action_kind = billable_kind_of (ca_kind a), wl_campaign_id = cl_campaign_id campaign,
      wl_created_at = cl_created_at campaign, wl_manifest_digest = cl_manifest_digest campaign,
      wl_plan_digest = cl_plan_digest campaign, wl_deployment_digest = ca_deployment_digest a,
      wl_target = target, wl_artifact_bucket = af_bucket (es_artifacts spec),
      wl_artifact_prefix = cl_artifact_prefix campaign @ ''/waves/'' @ wave_id,
      wl_max_shards = cl_max_shards_per_wave campaign, wl_max_concurrent_shards = concurrency,
      wl_spend_cap_microusd = (case provider_of_target target of None \<Rightarrow> None
        | Some p \<Rightarrow> usd_to_microusd (pvl_max_spend_usd (pt_limits p))),
      wl_estimated_cost_microusd = estimate, wl_duration_seconds = duration, wl_remote = remote,
      wl_recovery_parent_worker_revision = None, wl_shard_ids = ca_shard_ids a,
      wl_trial_ids = ca_trial_ids a, wl_runs = runs\<rparr>"

definition build_wave_lock ::
  "hash \<Rightarrow> (int \<Rightarrow> string) \<Rightarrow> (int \<Rightarrow> string) \<Rightarrow> campaign_lock \<Rightarrow> experiment_spec \<Rightarrow> reconcile_action \<Rightarrow>
   endpoint_ref option \<Rightarrow> wave_error + wave_lock" where
  "build_wave_lock h isoformat stamp campaign spec a endpoint =
     rbind (expected_campaign_lock h campaign spec) (\<lambda>expected.
     rbind (require (campaign = expected) Wave_campaign_mismatch) (\<lambda>_.
     rbind (lift_error Wave_campaign_failure (validate_submit_wave_action campaign a)) (\<lambda>_.
     rbind (lift_error Wave_spec_failure (resolved_experiment h spec (cl_source_lock campaign))) (\<lambda>resolved.
     rbind (lift_error Wave_campaign_failure (selected_wave_shards campaign a)) (\<lambda>selected.
     rbind (require (set (ca_trial_ids a) \<subseteq> set (selected_trial_ids selected)) Wave_trials_outside_shards) (\<lambda>_.
     rbind (wave_estimate selected) (\<lambda>estimate.
     rbind (foldM (add_wave_run h isoformat stamp campaign resolved endpoint) (None, []) selected)
       (\<lambda>(found, runs).
     rbind (of_option Wave_without_remote found) (\<lambda>target.
     rbind (of_option Wave_without_remote (es_remote resolved)) (\<lambda>remote.
     rbind (wave_duration_seconds campaign resolved a (provider_of_target target)) (\<lambda>duration.
     rbind (lift_error Wave_campaign_failure (deterministic_wave_id (ac_action_key a))) (\<lambda>wave_id.
     rbind (if provider_of_target target \<noteq> None
            then lift_error Wave_campaign_failure
              (locked_provider_action_concurrency campaign (ca_deployment_digest a))
            else Inr (ex_concurrent_trials (es_execution resolved))) (\<lambda>concurrency.
     let w = assemble_wave_lock campaign resolved a target concurrency estimate duration remote wave_id runs
     in if wave_lock_ok w then Inr w else Inl Wave_lock_invalid)))))))))))))"

end
