(* ===== verification/Reconciler_Admission.thy ===== *)
theory Reconciler_Admission
  imports Reconciler "HOL-Library.Multiset"
begin

text \<open>
  Facts about the admission loop of \<open>reconciler.py\<close>: what one decision can do, the
  invariant that keeps every budget, where the actions of a plan come from, and that every
  candidate is accounted for.
\<close>

section \<open>Usage\<close>

lemma get0_add_to [simp]: "get0 (add_to k n d) j = get0 d j + (if j = k then n else 0)"
  by (simp add: get0_def add_to_def)

lemma materialize_Some:
  assumes "materialize h lock p c = Some a"
  shows "ca_kind a = ca_kind c" and "ca_deployment_digest a = ca_deployment_digest c"
    and "ca_provider a = ca_provider c" and "ca_shard_ids a = ca_shard_ids c"
    and "ca_trial_ids a = ca_trial_ids c" and "ca_target_ids a = ca_target_ids c"
    and "ca_estimated_cost_microusd a = ca_estimated_cost_microusd c"
    and "ca_spend_cap_microusd a = ca_spend_cap_microusd c"
    and "ac_action_key a = action_key_of h lock p c" and "ac_action_id a = ''act-'' @ ac_action_key a"
    and "ac_campaign_id a = cl_campaign_id lock" and "\<not> outstanding_key p (ac_action_key a)"
    and "ca_wave_id c = None \<Longrightarrow> billable (ca_kind c) \<Longrightarrow> ca_wave_id a = Some (wave_id_of_key (ac_action_key a))"
  using assms by (auto simp: materialize_def Let_def split: if_splits)

section \<open>One admission decision\<close>

lemma admit_decide_cases:
  assumes "admit_decide h lock p ctx s c = Inr (out, t)"
  obtains (skip) "out = None" and "t = s" and "materialize h lock p c = None"
  | (denied) reason ex where "out = None" and "billable (ca_kind c)"
      and "budget_reason lock c ctx (as_usage s) = Some reason"
      and "fst (denied_billable_action h lock p c reason ex) = None"
      and "t = s\<lparr>as_blocked := as_blocked s @ snd (denied_billable_action h lock p c reason ex)\<rparr>"
  | (free) a where "out = Some a" and "t = s" and "materialize h lock p c = Some a"
      and "\<not> billable (ca_kind c)"
  | (billed) a where "out = Some a" and "materialize h lock p c = Some a" and "billable (ca_kind c)"
      and "budget_reason lock c ctx (as_usage s) = None"
      and "t = s\<lparr>as_usage := admit_usage c (cl_campaign_id lock) (as_usage s)\<rparr>"
  | (exhausted) a where "out = Some a" and "t = s" and "ca_kind c = AK_retry_shard"
      and "materialize h lock p ((blank_candidate AK_exhaust_trials)
              \<lparr>ca_deployment_digest := ca_deployment_digest c, ca_shard_ids := ca_shard_ids c,
                ca_trial_ids := ca_trial_ids c, ca_target_ids := ca_trial_ids c\<rparr>) = Some a"
      and "budget_reason lock c ctx (as_usage s) = Some BR_spend_cap"
      and "durable_spend_cap_blocks_retry lock p c = Inr True"
proof (cases "materialize h lock p c")
  case None
  with assms show ?thesis by (intro skip) (simp_all add: admit_decide_def)
next
  case (Some a)
  show ?thesis
  proof (cases "billable (ca_kind c)")
    case False
    with assms Some show ?thesis by (intro free [of a]) (simp_all add: admit_decide_def)
  next
    case bill: True
    show ?thesis
    proof (cases "budget_reason lock c ctx (as_usage s)")
      case None
      with assms Some bill show ?thesis by (intro billed [of a]) (simp_all add: admit_decide_def)
    next
      case (Some reason)
      with assms \<open>materialize h lock p c = Some a\<close> bill obtain ex where
        ex: "durable_spend_cap_blocks_retry lock p c = Inr ex"
        by (auto simp: admit_decide_def result_simps)
      with assms \<open>materialize h lock p c = Some a\<close> bill Some
      have d: "out = fst (denied_billable_action h lock p c reason ex)"
        "t = s\<lparr>as_blocked := as_blocked s @ snd (denied_billable_action h lock p c reason ex)\<rparr>"
        by (auto simp: admit_decide_def split: prod.splits)
      show ?thesis
      proof (cases out)
        case None
        with d bill \<open>budget_reason lock c ctx (as_usage s) = Some reason\<close> show ?thesis
          by (intro denied [of reason ex]) simp_all
      next
        case (Some b)
        with d have "ca_kind c = AK_retry_shard \<and> reason = BR_spend_cap \<and> ex"
          by (auto simp: denied_billable_action_def split: if_splits)
        with d ex Some \<open>budget_reason lock c ctx (as_usage s) = Some reason\<close> show ?thesis
          by (intro exhausted [of b]) (auto simp: denied_billable_action_def)
      qed
    qed
  qed
qed

text \<open>One round of the loop: no action, an action beyond the limit, or an action appended.\<close>

lemma admit_loop_Cons:
  assumes "admit_loop h lock p ctx s (c # cs) = Inr t"
  obtains (pass) u where "admit_decide h lock p ctx s c = Inr (None, u)"
      and "admit_loop h lock p ctx u cs = Inr t"
  | (limit) a where "admit_decide h lock p ctx s c = Inr (Some a, t)"
      and "al_action_limit (rc_limits ctx) \<le> int (length (as_actions t))"
  | (append) a u where "admit_decide h lock p ctx s c = Inr (Some a, u)"
      and "int (length (as_actions u)) < al_action_limit (rc_limits ctx)"
      and "admit_loop h lock p ctx (u\<lparr>as_actions := as_actions u @ [a]\<rparr>) cs = Inr t"
proof -
  from assms obtain out u where d: "admit_decide h lock p ctx s c = Inr (out, u)"
    and rest: "(case out of None \<Rightarrow> admit_loop h lock p ctx u cs
       | Some action \<Rightarrow>
           if int (length (as_actions u)) \<ge> al_action_limit (rc_limits ctx) then Inr u
           else admit_loop h lock p ctx (u\<lparr>as_actions := as_actions u @ [action]\<rparr>) cs) = Inr t"
    by (auto simp: result_simps split: prod.splits)
  then show ?thesis
    using that by (cases out) (auto simp: not_le split: if_splits)
qed

lemma admit_decide_actions:
  "admit_decide h lock p ctx s c = Inr (out, t) \<Longrightarrow> as_actions t = as_actions s"
  by (erule admit_decide_cases) auto

text \<open>An invariant of the loop head that decisions preserve holds of the returned actions.\<close>

lemma admit_loop_invariant:
  assumes "admit_loop h lock p ctx s cs = Inr t" and "I s"
    and "\<And>s c t. I s \<Longrightarrow> admit_decide h lock p ctx s c = Inr (None, t) \<Longrightarrow> I t"
    and "\<And>s c a t. I s \<Longrightarrow> admit_decide h lock p ctx s c = Inr (Some a, t) \<Longrightarrow>
      int (length (as_actions t)) < al_action_limit (rc_limits ctx) \<Longrightarrow>
      I (t\<lparr>as_actions := as_actions t @ [a]\<rparr>)"
  shows "\<exists>u. I u \<and> as_actions u = as_actions t"
  using assms(1,2)
proof (induction cs arbitrary: s)
  case Nil
  then show ?case by auto
next
  case (Cons c cs)
  from Cons.prems(1) show ?case
  proof (cases rule: admit_loop_Cons)
    case (pass u)
    with Cons assms(3) show ?thesis by blast
  next
    case (limit a)
    with Cons.prems(2) admit_decide_actions [OF limit(1)] show ?thesis by auto
  next
    case (append a u)
    with Cons assms(4) show ?thesis by blast
  qed
qed

section \<open>Budgets\<close>

definition waves_in :: "(reconcile_action \<Rightarrow> bool) \<Rightarrow> reconcile_action list \<Rightarrow> int" where
  "waves_in P acts = int (length (filter (\<lambda>a. billable (ca_kind a) \<and> P a) acts))"

definition cost_of :: "reconcile_action list \<Rightarrow> int" where
  "cost_of acts = sum_list (map (\<lambda>a. or_zero (ca_estimated_cost_microusd a))
     (filter (\<lambda>a. billable (ca_kind a)) acts))"

text \<open>The usage that counts exactly the billable actions of a list on top of \<open>u\<close>.\<close>

definition usage_after :: "string \<Rightarrow> mutable_usage \<Rightarrow> reconcile_action list \<Rightarrow> mutable_usage \<Rightarrow> bool" where
  "usage_after cid u acts v \<longleftrightarrow>
     mu_global_waves v = mu_global_waves u + waves_in (\<lambda>_. True) acts \<and>
     (\<forall>d. get0 (mu_deployments v) d =
        get0 (mu_deployments u) d + waves_in (\<lambda>a. ca_deployment_digest a = d) acts) \<and>
     (\<forall>d. get0 (mu_providers v) d = get0 (mu_providers u) d + waves_in (\<lambda>a. ca_provider a = d) acts) \<and>
     get0 (mu_campaigns v) cid = get0 (mu_campaigns u) cid + waves_in (\<lambda>_. True) acts \<and>
     get0 (mu_spend v) cid = get0 (mu_spend u) cid + cost_of acts"

definition fits :: "int \<Rightarrow> int \<Rightarrow> int \<Rightarrow> bool" where
  "fits used n limit \<longleftrightarrow> n = 0 \<or> used + n \<le> limit"

definition within_budget ::
  "campaign_lock \<Rightarrow> reconcile_context \<Rightarrow> mutable_usage \<Rightarrow> reconcile_action list \<Rightarrow> bool" where
  "within_budget lock ctx u acts \<longleftrightarrow>
     fits (mu_global_waves u) (waves_in (\<lambda>_. True) acts) (al_global_active_waves (rc_limits ctx)) \<and>
     (\<forall>d. fits (get0 (mu_deployments u) d) (waves_in (\<lambda>a. ca_deployment_digest a = d) acts)
        (al_deployment_active_waves (rc_limits ctx))) \<and>
     (\<forall>d. fits (get0 (mu_providers u) d) (waves_in (\<lambda>a. ca_provider a = d) acts)
        (al_provider_active_waves (rc_limits ctx))) \<and>
     fits (get0 (mu_campaigns u) (cl_campaign_id lock)) (waves_in (\<lambda>_. True) acts)
       (min (al_campaign_active_waves (rc_limits ctx)) (rp_max_active_waves (cl_recovery_policy lock)))"

text \<open>Each billable action, with all before it, stays within the caps that apply to it.\<close>

fun spend_within :: "int option \<Rightarrow> int \<Rightarrow> reconcile_action list \<Rightarrow> bool" where
  "spend_within policy_cap spent [] = True"
| "spend_within policy_cap spent (a # acts) =
     (if billable (ca_kind a) then
        (let total = spent + or_zero (ca_estimated_cost_microusd a) in
         (case policy_cap of None \<Rightarrow> True | Some cap \<Rightarrow> total \<le> cap) \<and>
         (case ca_spend_cap_microusd a of None \<Rightarrow> True | Some cap \<Rightarrow> total \<le> cap) \<and>
         ((policy_cap, ca_spend_cap_microusd a) = (None, None) \<or> ca_estimated_cost_microusd a \<noteq> None) \<and>
         spend_within policy_cap total acts)
      else spend_within policy_cap spent acts)"

lemma spend_within_snoc:
  "spend_within cap spent (acts @ [a]) \<longleftrightarrow>
     spend_within cap spent acts \<and> spend_within cap (spent + cost_of acts) [a]"
  by (induction acts arbitrary: spent) (auto simp: cost_of_def Let_def add.assoc)

lemma waves_in_snoc:
  "waves_in P (acts @ [a]) = waves_in P acts + (if billable (ca_kind a) \<and> P a then 1 else 0)"
  "waves_in P [] = 0"
  by (simp_all add: waves_in_def)

lemma cost_of_snoc:
  "cost_of (acts @ [a]) = cost_of acts + (if billable (ca_kind a) then or_zero (ca_estimated_cost_microusd a) else 0)"
  "cost_of [] = 0"
  by (simp_all add: cost_of_def)

lemma waves_in_nonneg: "0 \<le> waves_in P acts"
  by (simp add: waves_in_def)

lemma budget_reason_None:
  assumes "budget_reason lock c ctx u = None"
  shows "mu_global_waves u < al_global_active_waves (rc_limits ctx)"
    and "get0 (mu_deployments u) (ca_deployment_digest c) < al_deployment_active_waves (rc_limits ctx)"
    and "get0 (mu_providers u) (ca_provider c) < al_provider_active_waves (rc_limits ctx)"
    and "get0 (mu_campaigns u) (cl_campaign_id lock) <
      min (al_campaign_active_waves (rc_limits ctx)) (rp_max_active_waves (cl_recovery_policy lock))"
  using assms by (auto simp: budget_reason_def Let_def split: if_splits)

lemma budget_reason_spend:
  assumes "budget_reason lock c ctx u = None" and "cap \<in> set (spend_caps lock c)"
  shows "ca_estimated_cost_microusd c \<noteq> None"
    and "get0 (mu_spend u) (cl_campaign_id lock) + or_zero (ca_estimated_cost_microusd c) \<le> cap"
proof -
  show "ca_estimated_cost_microusd c \<noteq> None"
    using assms by (auto simp: budget_reason_def Let_def split: if_splits)
  have "get0 (mu_spend u) (cl_campaign_id lock) + or_zero (ca_estimated_cost_microusd c)
      \<le> Min (set (spend_caps lock c))"
    using assms by (auto simp: budget_reason_def Let_def not_less split: if_splits)
  also have "\<dots> \<le> cap" using assms(2) by simp
  finally show "get0 (mu_spend u) (cl_campaign_id lock) + or_zero (ca_estimated_cost_microusd c) \<le> cap" .
qed

definition admitted :: "campaign_lock \<Rightarrow> reconcile_context \<Rightarrow> mutable_usage \<Rightarrow> admit_state \<Rightarrow> bool" where
  "admitted lock ctx u s \<longleftrightarrow>
     usage_after (cl_campaign_id lock) u (as_actions s) (as_usage s) \<and>
     within_budget lock ctx u (as_actions s) \<and>
     spend_within (rp_spend_cap_microusd (cl_recovery_policy lock))
       (get0 (mu_spend u) (cl_campaign_id lock)) (as_actions s) \<and>
     int (length (as_actions s)) \<le> max 0 (al_action_limit (rc_limits ctx))"

lemma admitted_free:
  assumes "admitted lock ctx u s" and "\<not> billable (ca_kind a)"
    and "int (length (as_actions s)) < al_action_limit (rc_limits ctx)"
  shows "admitted lock ctx u (s\<lparr>as_actions := as_actions s @ [a]\<rparr>)"
  using assms
  by (simp add: admitted_def usage_after_def within_budget_def waves_in_snoc cost_of_snoc
      spend_within_snoc)

lemma fits_next: "used + n < limit \<Longrightarrow> fits used (n + 1) limit"
  by (simp add: fits_def)

lemma spend_within_one:
  assumes "\<And>cap. policy_cap = Some cap \<Longrightarrow> spent + or_zero (ca_estimated_cost_microusd a) \<le> cap \<and>
      ca_estimated_cost_microusd a \<noteq> None"
    and "\<And>cap. ca_spend_cap_microusd a = Some cap \<Longrightarrow>
      spent + or_zero (ca_estimated_cost_microusd a) \<le> cap \<and> ca_estimated_cost_microusd a \<noteq> None"
  shows "spend_within policy_cap spent [a]"
  using assms by (cases policy_cap; cases "ca_spend_cap_microusd a") (simp_all add: Let_def)

lemma admitted_billed:
  assumes inv: "admitted lock ctx u s" and a: "materialize h lock p c = Some a" and "billable (ca_kind c)"
    and budget: "budget_reason lock c ctx (as_usage s) = None"
    and "int (length (as_actions s)) < al_action_limit (rc_limits ctx)"
  shows "admitted lock ctx u (s\<lparr>as_usage := admit_usage c (cl_campaign_id lock) (as_usage s),
    as_actions := as_actions s @ [a]\<rparr>)"
proof -
  note same = materialize_Some [OF a]
  have usage: "usage_after (cl_campaign_id lock) u (as_actions s) (as_usage s)"
    using inv by (simp add: admitted_def)
  have "usage_after (cl_campaign_id lock) u (as_actions s @ [a])
      (admit_usage c (cl_campaign_id lock) (as_usage s))"
    using usage assms(3) by (simp add: usage_after_def admit_usage_def waves_in_snoc cost_of_snoc same)
  moreover have "within_budget lock ctx u (as_actions s @ [a])"
    using inv usage budget_reason_None [OF budget] assms(3)
    by (auto simp: admitted_def within_budget_def waves_in_snoc usage_after_def same
        intro!: fits_next)
  moreover have "spend_within (rp_spend_cap_microusd (cl_recovery_policy lock))
      (get0 (mu_spend u) (cl_campaign_id lock) + cost_of (as_actions s)) [a]"
  proof -
    have "get0 (mu_spend (as_usage s)) (cl_campaign_id lock) =
        get0 (mu_spend u) (cl_campaign_id lock) + cost_of (as_actions s)"
      using usage by (simp add: usage_after_def)
    then show ?thesis
      using budget_reason_spend [OF budget]
      by (intro spend_within_one) (auto simp: same spend_caps_def)
  qed
  ultimately show ?thesis
    using inv assms(5) by (simp add: admitted_def spend_within_snoc)
qed

lemma admit_loop_admitted:
  assumes "admit_loop h lock p ctx s cs = Inr t" and "admitted lock ctx u s"
  shows "\<exists>v. admitted lock ctx u v \<and> as_actions v = as_actions t"
proof (rule admit_loop_invariant [where I = "admitted lock ctx u", OF assms])
  fix s c t
  assume inv: "admitted lock ctx u s" and "admit_decide h lock p ctx s c = Inr (None, t)"
  from this(2) inv show "admitted lock ctx u t"
    by (cases rule: admit_decide_cases) (simp_all add: admitted_def)
next
  fix s c a t
  assume inv: "admitted lock ctx u s" and d: "admit_decide h lock p ctx s c = Inr (Some a, t)"
    and room: "int (length (as_actions t)) < al_action_limit (rc_limits ctx)"
  from d show "admitted lock ctx u (t\<lparr>as_actions := as_actions t @ [a]\<rparr>)"
  proof (cases rule: admit_decide_cases)
    case (free b)
    with inv room materialize_Some(1) [OF free(3)] show ?thesis by (simp add: admitted_free)
  next
    case (billed b)
    with admitted_billed [OF inv billed(2,3,4)] room show ?thesis by simp
  next
    case (exhausted b)
    with inv room materialize_Some(1) [OF exhausted(4)] show ?thesis
      by (simp add: admitted_free blank_candidate_def billable_def)
  qed simp_all
qed

lemma admitted_init:
  "admitted lock ctx u \<lparr>as_usage = u, as_actions = [], as_blocked = b\<rparr>"
  by (simp add: admitted_def usage_after_def within_budget_def waves_in_snoc cost_of_snoc fits_def)

lemma admit_within:
  assumes "admit h lock p cs ctx b = Inr (acts, blocked)"
  shows "within_budget lock ctx (initial_usage ctx p) acts"
    and "spend_within (rp_spend_cap_microusd (cl_recovery_policy lock))
      (get0 (mu_spend (initial_usage ctx p)) (cl_campaign_id lock)) acts"
    and "int (length acts) \<le> max 0 (al_action_limit (rc_limits ctx))"
proof -
  from assms obtain t where t: "admit_loop h lock p ctx
      \<lparr>as_usage = initial_usage ctx p, as_actions = [], as_blocked = b\<rparr> cs = Inr t"
    "acts = as_actions t" by (auto simp: admit_def result_simps)
  from admit_loop_admitted [OF t(1) admitted_init] t(2)
  show "within_budget lock ctx (initial_usage ctx p) acts"
    and "spend_within (rp_spend_cap_microusd (cl_recovery_policy lock))
      (get0 (mu_spend (initial_usage ctx p)) (cl_campaign_id lock)) acts"
    and "int (length acts) \<le> max 0 (al_action_limit (rc_limits ctx))"
    by (auto simp: admitted_def)
qed

section \<open>Where actions come from\<close>

definition exhaustion :: "candidate \<Rightarrow> candidate" where
  "exhaustion c = (blank_candidate AK_exhaust_trials)
     \<lparr>ca_deployment_digest := ca_deployment_digest c, ca_shard_ids := ca_shard_ids c,
      ca_trial_ids := ca_trial_ids c, ca_target_ids := ca_trial_ids c\<rparr>"

definition realises ::
  "hash \<Rightarrow> campaign_lock \<Rightarrow> recovery_projection \<Rightarrow> candidate \<Rightarrow> reconcile_action \<Rightarrow> bool" where
  "realises h lock p c a \<longleftrightarrow>
     materialize h lock p c = Some a \<or>
     ca_kind c = AK_retry_shard \<and> materialize h lock p (exhaustion c) = Some a"

lemma admit_decide_realises:
  assumes "admit_decide h lock p ctx s c = Inr (Some a, t)"
  shows "realises h lock p c a"
  using assms by (cases rule: admit_decide_cases) (auto simp: realises_def exhaustion_def)

lemma admit_loop_sources:
  assumes "admit_loop h lock p ctx s cs = Inr t"
  shows "\<exists>cs' new. as_actions t = as_actions s @ new \<and> subseq cs' cs \<and> list_all2 (realises h lock p) cs' new"
  using assms
proof (induction cs arbitrary: s)
  case Nil
  then show ?case by auto
next
  case (Cons c cs)
  from Cons.prems show ?case
  proof (cases rule: admit_loop_Cons)
    case (pass u)
    from Cons.IH [OF pass(2)] admit_decide_actions [OF pass(1)] show ?thesis by auto
  next
    case (limit a)
    from admit_decide_actions [OF limit(1)] show ?thesis by (intro exI [of _ "[]"]) simp
  next
    case (append a u)
    from Cons.IH [OF append(3)] admit_decide_actions [OF append(1)] obtain cs' new
      where "as_actions t = as_actions s @ a # new" "subseq cs' cs"
        "list_all2 (realises h lock p) cs' new" by auto
    with admit_decide_realises [OF append(1)] show ?thesis
      by (intro exI [of _ "c # cs'"] exI [of _ "a # new"]) simp
  qed
qed

lemma admit_sources:
  assumes "admit h lock p cs ctx b = Inr (acts, blocked)"
  obtains cs' where "subseq cs' cs" and "list_all2 (realises h lock p) cs' acts"
proof -
  from assms obtain t where t: "admit_loop h lock p ctx
      \<lparr>as_usage = initial_usage ctx p, as_actions = [], as_blocked = b\<rparr> cs = Inr t"
    "acts = as_actions t" by (auto simp: admit_def result_simps)
  from admit_loop_sources [OF t(1)] t(2) that show ?thesis by auto
qed

text \<open>Nothing is dropped silently.\<close>

definition accounted ::
  "hash \<Rightarrow> campaign_lock \<Rightarrow> recovery_projection \<Rightarrow> reconcile_context \<Rightarrow> reconcile_action list \<Rightarrow>
   blocked_action list \<Rightarrow> candidate \<Rightarrow> bool" where
  "accounted h lock p ctx acts blocked c \<longleftrightarrow>
     (\<exists>a \<in> set acts. realises h lock p c a) \<or>
     outstanding_key p (action_key_of h lock p c) \<or>
     (ca_kind c = AK_retry_shard \<and> outstanding_key p (action_key_of h lock p (exhaustion c))) \<or>
     (\<exists>b \<in> set blocked. billable (ca_kind c) \<and> ba_kind b = ca_kind c \<and>
        ba_deployment_digest b = ca_deployment_digest c \<and> ba_shard_ids b = ca_shard_ids c) \<or>
     al_action_limit (rc_limits ctx) \<le> int (length acts)"

lemma materialize_None: "materialize h lock p c = None \<longleftrightarrow> outstanding_key p (action_key_of h lock p c)"
  by (simp add: materialize_def Let_def)

lemma admit_decide_None:
  assumes "admit_decide h lock p ctx s c = Inr (None, t)"
  shows "accounted h lock p ctx acts (as_blocked t) c"
  using assms
proof (cases rule: admit_decide_cases)
  case skip
  then show ?thesis by (simp add: materialize_None accounted_def)
next
  case (denied reason ex)
  then show ?thesis
    by (auto simp: denied_billable_action_def accounted_def materialize_None exhaustion_def
        split: if_splits)
qed simp_all

lemma admit_decide_blocked:
  assumes "admit_decide h lock p ctx s c = Inr (out, t)"
  shows "set (as_blocked s) \<subseteq> set (as_blocked t)"
  using assms by (cases rule: admit_decide_cases) auto

lemma accounted_mono:
  assumes "accounted h lock p ctx acts blocked c" and "set acts \<subseteq> set acts'"
    and "set blocked \<subseteq> set blocked'" and "length acts \<le> length acts'"
  shows "accounted h lock p ctx acts' blocked' c"
  using assms unfolding accounted_def by force

lemma admit_loop_extends:
  assumes "admit_loop h lock p ctx s cs = Inr t"
  shows "set (as_actions s) \<subseteq> set (as_actions t)" and "length (as_actions s) \<le> length (as_actions t)"
    and "set (as_blocked s) \<subseteq> set (as_blocked t)"
proof -
  show "set (as_actions s) \<subseteq> set (as_actions t)" "length (as_actions s) \<le> length (as_actions t)"
    using admit_loop_sources [OF assms] by auto
  show "set (as_blocked s) \<subseteq> set (as_blocked t)"
    using assms
  proof (induction cs arbitrary: s)
    case (Cons c cs)
    from Cons.prems show ?case
    proof (cases rule: admit_loop_Cons)
      case (pass u)
      with Cons.IH [OF pass(2)] admit_decide_blocked [OF pass(1)] show ?thesis by blast
    next
      case (limit a)
      with admit_decide_blocked [OF limit(1)] show ?thesis by blast
    next
      case (append a u)
      with Cons.IH [OF append(3)] admit_decide_blocked [OF append(1)] show ?thesis by simp
    qed
  qed simp
qed

lemma admit_loop_accounted:
  assumes "admit_loop h lock p ctx s cs = Inr t" and "c \<in> set cs"
  shows "accounted h lock p ctx (as_actions t) (as_blocked t) c"
  using assms
proof (induction cs arbitrary: s)
  case (Cons x cs)
  from Cons.prems(1) show ?case
  proof (cases rule: admit_loop_Cons)
    case (pass u)
    from accounted_mono [OF admit_decide_None [OF pass(1), of "as_actions u"]
        admit_loop_extends(1,3,2) [OF pass(2)]] Cons.IH [OF pass(2)] Cons.prems(2)
    show ?thesis by auto
  next
    case (limit a)
    then show ?thesis by (simp add: accounted_def)
  next
    case (append a u)
    have "a \<in> set (as_actions t)" using admit_loop_extends(1) [OF append(3)] by simp
    with admit_decide_realises [OF append(1)] Cons.IH [OF append(3)] Cons.prems(2)
    show ?thesis by (auto simp: accounted_def)
  qed
qed simp

lemma admit_accounted:
  assumes "admit h lock p cs ctx b = Inr (acts, blocked)" and "c \<in> set cs"
  shows "accounted h lock p ctx acts blocked c"
  using assms admit_loop_accounted by (fastforce simp: admit_def result_simps)

end
