(* ===== verification/Control_Projection.thy ===== *)
theory Control_Projection
  imports Control_Events
begin

text \<open>
  Properties of the event log and of the campaign projection of \<open>control.py\<close>: the
  canonical order depends only on the set of records; the status machine never moves
  backwards; actions follow their own small machine; casts succeed on validated events.
\<close>

section \<open>Ordering of statuses\<close>

fun campaign_rank :: "campaign_status \<Rightarrow> nat" where
  "campaign_rank CS_queued = 0"
| "campaign_rank CS_active = 1"
| "campaign_rank CS_cancel_requested = 2"
| "campaign_rank CS_draining = 3"
| "campaign_rank CS_manual_intervention = 4"
| "campaign_rank CS_completed = 5"
| "campaign_rank CS_partial = 6"
| "campaign_rank CS_failed = 7"
| "campaign_rank CS_cancelled = 8"

lemma campaign_rank_inj: "campaign_rank a = campaign_rank b \<longleftrightarrow> a = b"
  by (cases a; cases b) simp_all

instantiation campaign_status :: linorder
begin

definition less_eq_campaign_status :: "campaign_status \<Rightarrow> campaign_status \<Rightarrow> bool" where
  "less_eq_campaign_status a b \<longleftrightarrow> campaign_rank a \<le> campaign_rank b"

definition less_campaign_status :: "campaign_status \<Rightarrow> campaign_status \<Rightarrow> bool" where
  "less_campaign_status a b \<longleftrightarrow> campaign_rank a < campaign_rank b"

instance
  by standard
    (auto simp: less_eq_campaign_status_def less_campaign_status_def campaign_rank_inj
      dest: antisym)

end

section \<open>The canonical order\<close>

definition id_dict :: "(string, event) dict \<Rightarrow> bool" where
  "id_dict d \<longleftrightarrow> dict_ok d \<and> (\<forall>(k, e) \<in> set d. k = ev_event_id e)"

lemma id_dict_get:
  assumes "id_dict d"
  shows "map_of d i = Some e \<longleftrightarrow> e \<in> set (dict_values d) \<and> ev_event_id e = i"
  using assms by (force simp: id_dict_def)

lemma id_dict_inj: "id_dict d \<Longrightarrow> inj_on ev_event_id (set (dict_values d))"
  by (rule inj_onI) (metis id_dict_get option.inject)

lemma insert_event_step:
  assumes "id_dict d" and "insert_event d e = Inr d'"
  shows "id_dict d'" and "set (dict_values d') = insert e (set (dict_values d))"
proof -
  have d': "d' = AList.update (ev_event_id e) e d"
    using assms(2) by (auto simp: insert_event_def split: option.splits if_splits)
  have at: "map_of d (ev_event_id e) \<in> {None, Some e}"
    using assms(2) by (auto simp: insert_event_def split: option.splits if_splits)
  have get: "map_of d' = (map_of d)(ev_event_id e \<mapsto> e)"
    by (simp add: d')
  have ok: "dict_ok d'"
    using assms(1) by (simp add: d' id_dict_def)
  show id: "id_dict d'"
  proof -
    have "k = ev_event_id x" if "(k, x) \<in> set d'" for k x
    proof -
      from that ok have "map_of d' k = Some x" by simp
      with get have "k = ev_event_id e \<and> x = e \<or> map_of d k = Some x"
        by (auto split: if_splits)
      with id_dict_get [OF assms(1)] show ?thesis by auto
    qed
    with ok show ?thesis by (auto simp: id_dict_def)
  qed
  show "set (dict_values d') = insert e (set (dict_values d))"
  proof (intro set_eqI)
    fix x
    have "x \<in> set (dict_values d') \<longleftrightarrow> map_of d' (ev_event_id x) = Some x"
      using id_dict_get [OF id] by blast
    also have "\<dots> \<longleftrightarrow> x = e \<or> map_of d (ev_event_id x) = Some x"
      using get at by (auto split: if_splits)
    also have "\<dots> \<longleftrightarrow> x \<in> insert e (set (dict_values d))"
      using id_dict_get [OF assms(1)] by blast
    finally show "x \<in> set (dict_values d') \<longleftrightarrow> x \<in> insert e (set (dict_values d))" .
  qed
qed

interpretation event_dict: result_fold insert_event id_dict
  by unfold_locales (rule insert_event_step(1))

lemma insert_event_conflict:
  assumes "id_dict d"
  shows "insert_event d e = Inl c \<longleftrightarrow>
    c = Event_id_conflict \<and> (\<exists>x \<in> set (dict_values d). ev_event_id x = ev_event_id e \<and> x \<noteq> e)"
proof (cases "map_of d (ev_event_id e)")
  case None
  then have "\<not> (\<exists>x \<in> set (dict_values d). ev_event_id x = ev_event_id e)"
    using id_dict_get [OF assms] by (metis option.distinct(1))
  with None show ?thesis by (auto simp: insert_event_def)
next
  case (Some y)
  have "x = y \<longleftrightarrow> x \<in> set (dict_values d) \<and> ev_event_id x = ev_event_id e" for x
    using id_dict_get [OF assms, of "ev_event_id e" x] unfolding Some by auto
  then show ?thesis unfolding insert_event_def Some by (auto simp del: set_map)
qed

lemma collect_events:
  assumes "id_dict d"
  shows "foldM insert_event d es = Inr d' \<Longrightarrow> id_dict d' \<and>
      set (dict_values d') = set (dict_values d) \<union> set es" (is "?A \<Longrightarrow> ?B")
    and "inj_on ev_event_id (set (dict_values d) \<union> set es) \<Longrightarrow> \<exists>d'. foldM insert_event d es = Inr d'"
    and "foldM insert_event d es = Inl c \<Longrightarrow> c = Event_id_conflict"
  using assms
proof (induction es arbitrary: d)
  case Nil
  { case 1 then show ?case by auto next case 2 then show ?case by auto next
    case 3 then show ?case by auto }
next
  case (Cons e es)
  { case 1
    then obtain u where u: "insert_event d e = Inr u" "foldM insert_event u es = Inr d'"
      by (auto simp: rbind_Inr_iff)
    with Cons.IH(1) [OF u(2)] insert_event_step [OF 1(2) u(1)] show ?case by auto
  next
    case 2
    have "insert_event d e \<noteq> Inl c" for c
    proof
      assume "insert_event d e = Inl c"
      then obtain x where "x \<in> set (dict_values d)" "ev_event_id x = ev_event_id e" "x \<noteq> e"
        using insert_event_conflict [OF 2(2)] by blast
      with inj_onD [OF 2(1)] show False by simp
    qed
    then obtain u where u: "insert_event d e = Inr u" by (cases "insert_event d e") auto
    note step = insert_event_step [OF 2(2) u]
    from 2(1) step(2) have "inj_on ev_event_id (set (dict_values u) \<union> set es)"
      by (simp add: insert_commute Un_commute)
    with Cons.IH(2) [OF _ step(1)] u show ?case by auto
  next
    case 3
    then show ?case
      using insert_event_conflict [OF 3(2)] insert_event_step(1) [OF 3(2)] Cons.IH(3)
      by (auto simp: rbind_Inl_iff)
  }
qed

lemma id_dict_Nil [simp]: "id_dict []"
  by (simp add: id_dict_def)

lemma event_key_inj: "inj_on ev_event_id S \<Longrightarrow> inj_on event_key S"
  by (auto simp: event_key_def inj_on_def)

lemma ordered_events_Inr:
  assumes "ordered_events es = Inr r"
  shows "set r = set es" and "sorted (map event_key r)" and "distinct r"
    and "inj_on ev_event_id (set es)"
proof -
  from assms obtain d where d: "foldM insert_event [] es = Inr d"
    and r: "r = sort_key event_key (dict_values d)"
    by (auto simp: ordered_events_def result_simps)
  from collect_events(1) [OF id_dict_Nil d] have id: "id_dict d" and vals: "set (dict_values d) = set es"
    by auto
  show "set r = set es" using r vals by simp
  show "sorted (map event_key r)" using r by simp
  have "distinct (dict_values d)"
  proof -
    have "map fst d = map ev_event_id (dict_values d)"
      using id by (auto simp: id_dict_def)
    then have "distinct (map ev_event_id (dict_values d))"
      using id by (metis id_dict_def)
    then show ?thesis using distinct_map by blast
  qed
  then show "distinct r" using r by simp
  show "inj_on ev_event_id (set es)" using id_dict_inj [OF id] vals by simp
qed

lemma ordered_events_Inl: "ordered_events es = Inl c \<longleftrightarrow>
    c = Event_id_conflict \<and> \<not> inj_on ev_event_id (set es)"
proof
  assume l: "ordered_events es = Inl c"
  then have f: "foldM insert_event [] es = Inl c"
    by (auto simp: ordered_events_def rbind_Inl_iff)
  with collect_events(3) [OF id_dict_Nil f] collect_events(2) [OF id_dict_Nil, of es]
  show "c = Event_id_conflict \<and> \<not> inj_on ev_event_id (set es)" by auto
next
  assume "c = Event_id_conflict \<and> \<not> inj_on ev_event_id (set es)"
  with ordered_events_Inr(4) [of es] collect_events(3) [OF id_dict_Nil, of es]
  show "ordered_events es = Inl c"
    by (cases "ordered_events es") (auto simp: ordered_events_def rbind_Inl_iff)
qed

lemma ordered_events_cong:
  assumes "set es = set es'"
  shows "ordered_events es = ordered_events es'"
proof (cases "inj_on ev_event_id (set es)")
  case False
  then show ?thesis using assms ordered_events_Inl by metis
next
  case True
  with assms ordered_events_Inl obtain r r' where r: "ordered_events es = Inr r" "ordered_events es' = Inr r'"
    by (metis sum.exhaust)
  note a = ordered_events_Inr [OF r(1)] and b = ordered_events_Inr [OF r(2)]
  have "r = r'"
    using a b assms event_key_inj [OF True]
    by (intro sorted_key_unique [of event_key]) auto
  with r show ?thesis by simp
qed

section \<open>The campaign status machine\<close>

text \<open>
  The status the campaign has or returns to: while a manual intervention is pending, the
  projection remembers where the campaign came from.
\<close>

definition resume_status :: "campaign_status \<Rightarrow> campaign_status option \<Rightarrow> campaign_status" where
  "resume_status status previous =
     (if status = CS_manual_intervention
      then (case previous of None \<Rightarrow> CS_manual_intervention | Some p \<Rightarrow> p)
      else status)"

abbreviation effective_status :: "projection_state \<Rightarrow> campaign_status" where
  "effective_status s \<equiv> resume_status (ps_status s) (ps_previous s)"

definition manual_inv :: "campaign_status \<Rightarrow> campaign_status option \<Rightarrow> bool \<Rightarrow> bool" where
  "manual_inv status previous remaining \<longleftrightarrow>
     (remaining \<longrightarrow> CS_manual_intervention \<le> status) \<and>
     (status = CS_manual_intervention \<longrightarrow> resume_status status previous \<le> CS_draining) \<and>
     (status < CS_manual_intervention \<longrightarrow> previous = None)"

abbreviation projection_inv :: "projection_state \<Rightarrow> bool" where
  "projection_inv s \<equiv> manual_inv (ps_status s) (ps_previous s) (ps_requirements s \<noteq> [])"

lemmas status_order = less_eq_campaign_status_def less_campaign_status_def

lemma projection_inv_init: "projection_inv initial_projection_state"
  by (simp add: manual_inv_def initial_projection_state_def status_order)

lemma apply_event_action:
  assumes "\<forall>k. ev_kind e \<noteq> Campaign_event k"
  shows "apply_event lock e status actions previous remaining =
    (if ev_subject_type e \<noteq> ST_campaign \<or> ev_subject_id e \<noteq> cl_campaign_id lock
     then Inl Wrong_subject
     else rbind (apply_action_event e actions)
       (\<lambda>acts. Inr (if status = CS_queued then CS_active else status, acts)))"
  using assms by (cases "ev_kind e") (simp_all add: apply_event_def)

lemma apply_event_campaign:
  assumes "ev_kind e = Campaign_event k"
    and "apply_event lock e status actions previous remaining = Inr (status', actions')"
  shows "ev_subject_id e = cl_campaign_id lock" and "k \<noteq> CK_submitted" and "actions' = actions"
  using assms by (auto simp: apply_event_def result_simps split: if_splits)

text \<open>The three ways a step can succeed: another subject, an action event, a campaign event.\<close>

lemma project_step_cases [consumes 1, case_names other action campaign]:
  assumes "project_step lock s e = Inr t"
  obtains
    (other) "ev_subject_type e \<noteq> ST_campaign" and "t = s" and "\<not> campaign_terminal (ps_status s)"
  | (action) acts where "ev_subject_type e = ST_campaign" and "ev_subject_id e = cl_campaign_id lock"
      and "\<not> campaign_terminal (ps_status s)" and "\<forall>k. ev_kind e \<noteq> Campaign_event k"
      and "apply_action_event e (ps_actions s) = Inr acts"
      and "t = s\<lparr>ps_status := (if ps_status s = CS_queued then CS_active else ps_status s),
                 ps_actions := acts\<rparr>"
  | (campaign) k reqs status where "ev_subject_type e = ST_campaign"
      and "ev_subject_id e = cl_campaign_id lock" and "\<not> campaign_terminal (ps_status s)"
      and "ev_kind e = Campaign_event k" and "k \<noteq> CK_submitted"
      and "update_manual_requirements e (ps_requirements s) = Inr reqs"
      and "apply_event lock e (ps_status s) (ps_actions s)
             (manual_return_status (Campaign_event k) (ps_status s) (ps_previous s)) (reqs \<noteq> [])
             = Inr (status, ps_actions s)"
      and "t = \<lparr>ps_status = status,
            ps_previous = (if k = CK_manual_resolved \<and> reqs = [] then None
              else manual_return_status (Campaign_event k) (ps_status s) (ps_previous s)),
            ps_requirements = reqs, ps_actions = ps_actions s\<rparr>"
proof (cases "ev_subject_type e = ST_campaign")
  case False
  with assms show ?thesis
    by (intro other) (auto simp: project_step_def split: if_splits)
next
  case subject: True
  with assms obtain reqs status acts where run: "\<not> campaign_terminal (ps_status s)"
    "update_manual_requirements e (ps_requirements s) = Inr reqs"
    "apply_event lock e (ps_status s) (ps_actions s)
       (manual_return_status (ev_kind e) (ps_status s) (ps_previous s)) (reqs \<noteq> [])
       = Inr (status, acts)"
    "t = \<lparr>ps_status = status,
          ps_previous = (if manual_intervention_fully_resolved e reqs then None
            else manual_return_status (ev_kind e) (ps_status s) (ps_previous s)),
          ps_requirements = reqs, ps_actions = acts\<rparr>"
    by (auto simp: project_step_def Let_def result_simps split: if_splits prod.splits)
  show ?thesis
  proof (cases "\<exists>k. ev_kind e = Campaign_event k")
    case False
    then have "\<forall>k. ev_kind e \<noteq> Campaign_event k" by blast
    with subject run show ?thesis
      by (intro action [of acts])
        (auto simp: result_simps update_manual_requirements_def apply_event_action
          manual_return_status_def manual_intervention_fully_resolved_def split: if_splits)
  next
    case True
    then obtain k where k: "ev_kind e = Campaign_event k" ..
    with subject run apply_event_campaign [OF k run(3)] show ?thesis
      by (intro campaign [of k reqs status])
        (auto simp: manual_intervention_fully_resolved_def)
  qed
qed

lemma update_requirements_kind:
  assumes "ev_kind e = Campaign_event k" and "update_manual_requirements e reqs = Inr reqs'"
  shows "k \<notin> {CK_manual_required, CK_manual_resolved} \<Longrightarrow> reqs' = reqs"
    and "k = CK_manual_required \<Longrightarrow> reqs' \<noteq> []"
    and "k = CK_manual_resolved \<Longrightarrow> reqs' \<noteq> [] \<Longrightarrow> reqs \<noteq> []"
  using assms
  by (auto simp: update_manual_requirements_def result_simps List.insert_def split: if_splits)

text \<open>The status after a campaign event, as one function of the status before it.\<close>

fun next_status ::
  "campaign_kind \<Rightarrow> campaign_status \<Rightarrow> campaign_status option \<Rightarrow> bool \<Rightarrow> campaign_status" where
  "next_status CK_draining status p r =
     (if status = CS_manual_intervention then status else CS_draining)"
| "next_status CK_manual_required status p r = CS_manual_intervention"
| "next_status CK_manual_resolved status p r =
     (if r then CS_manual_intervention
      else if p \<in> {Some CS_cancel_requested, Some CS_draining} then the p else CS_active)"
| "next_status CK_cancel_requested status p r = apply_operator_request CK_cancel_requested status"
| "next_status CK_shard_retry_requested status p r =
     apply_operator_request CK_shard_retry_requested status"
| "next_status k status p r = terminal_kind_status k"

lemma apply_event_status:
  assumes "ev_kind e = Campaign_event k"
    and "apply_event lock e status actions previous remaining = Inr (status', actions')"
  shows "status' = next_status k status previous remaining"
    and "k = CK_manual_resolved \<Longrightarrow> \<not> remaining \<Longrightarrow> status = CS_manual_intervention"
proof -
  show "status' = next_status k status previous remaining"
    using assms
    by (cases k) (auto simp: apply_event_def result_simps apply_manual_lifecycle_event_def
      resolve_manual_intervention_def split: if_splits option.splits)
  show "k = CK_manual_resolved \<Longrightarrow> \<not> remaining \<Longrightarrow> status = CS_manual_intervention"
    using assms
    by (auto simp: apply_event_def result_simps apply_manual_lifecycle_event_def
      resolve_manual_intervention_def split: if_splits option.splits)
qed

text \<open>
  One step keeps the invariant and never moves the effective status backwards: in
  particular a resolved intervention returns to the cancellation it interrupted.
\<close>

lemma next_status_mono:
  assumes "manual_inv status previous r" and "\<not> campaign_terminal status" and "k \<noteq> CK_submitted"
    and "k = CK_manual_required \<Longrightarrow> r'"
    and "k = CK_manual_resolved \<Longrightarrow> r' \<Longrightarrow> r"
    and "k = CK_manual_resolved \<Longrightarrow> \<not> r' \<Longrightarrow> status = CS_manual_intervention"
    and "k \<notin> {CK_manual_required, CK_manual_resolved} \<Longrightarrow> r' = r"
    and "p = manual_return_status (Campaign_event k) status previous"
    and "p' = (if k = CK_manual_resolved \<and> \<not> r' then None else p)"
  shows "manual_inv (next_status k status p r') p' r' \<and>
    resume_status status previous \<le> resume_status (next_status k status p r') p'"
proof (cases "status = CS_manual_intervention")
  case True
  then obtain q where q: "previous = Some q" "q \<le> CS_draining"
    using assms(1) by (cases previous) (auto simp: manual_inv_def resume_status_def status_order)
  show ?thesis
    using q(2) assms(3-9) unfolding True q(1)
    by (cases k; cases q; cases r; cases r')
      (simp_all add: manual_inv_def resume_status_def status_order
        manual_return_status_def apply_operator_request_def)
next
  case False
  then have "previous = None" "\<not> r"
    using assms(1,2) by (cases status; simp add: manual_inv_def campaign_terminal_def status_order)+
  with False show ?thesis
    using assms(2-9)
    by (cases k; cases status; cases r')
      (simp_all add: manual_inv_def resume_status_def status_order campaign_terminal_def
        manual_return_status_def apply_operator_request_def)
qed

lemma project_step_inv_mono:
  assumes inv: "projection_inv s" and step: "project_step lock s e = Inr t"
  shows "projection_inv t \<and> effective_status s \<le> effective_status t"
  using step
proof (cases rule: project_step_cases)
  case other
  with inv show ?thesis by simp
next
  case (action acts)
  with inv show ?thesis
    by (cases "ps_status s")
      (auto simp: manual_inv_def resume_status_def campaign_terminal_def status_order)
next
  case (campaign k reqs status)
  note rq = update_requirements_kind [OF campaign(4,6)]
  note st = apply_event_status [OF campaign(4,7)]
  show ?thesis
    using next_status_mono [OF inv campaign(3,5), of "reqs \<noteq> []"] rq st campaign(8) by auto
qed

interpretation campaign_loop: result_trace "project_step lock" projection_inv effective_status "(\<le>)"
  for lock
  using project_step_inv_mono by unfold_locales blast+

lemma effective_status_mono:
  "projection_inv s \<Longrightarrow> foldM (project_step lock) s es = Inr t \<Longrightarrow>
   effective_status s \<le> effective_status t"
  by (rule le_rtranclp) (rule campaign_loop.run_move)

lemma cancel_step:
  assumes inv: "projection_inv s" and step: "project_step lock s e = Inr t"
    and kind: "ev_kind e = Campaign_event CK_cancel_requested" and subj: "ev_subject_type e = ST_campaign"
  shows "CS_cancel_requested \<le> effective_status t"
  using step
proof (cases rule: project_step_cases)
  case (campaign k reqs status)
  then have k: "k = CK_cancel_requested" using kind by simp
  from apply_event_status(1) [OF campaign(4,7)] inv campaign(3) show ?thesis
    unfolding campaign(8) k
    by (cases "ps_status s"; cases "ps_previous s")
      (auto simp: resume_status_def status_order apply_operator_request_def
        manual_return_status_def campaign_terminal_def manual_inv_def)
qed (use kind subj in auto)

lemma project_campaign_run:
  assumes "project_campaign lock es = Inr p"
  obtains first rest s where "ordered_events es = Inr (first # rest)"
    and "submission_matches lock first"
    and "foldM (project_step lock) initial_projection_state rest = Inr s"
    and "projection_inv s" and "cp_status p = ps_status s" and "cp_actions p = ps_actions s"
    and "cp_event_count p = int (length (first # rest))"
    and "cp_last_observed_at p = ev_observed_at (last (first # rest))"
    and "cp_campaign_id p = cl_campaign_id lock"
proof -
  from assms obtain ordered where "ordered_events es = Inr ordered"
    by (auto simp: project_campaign_def result_simps)
  with assms show ?thesis
    using campaign_loop.run_inv [OF projection_inv_init] projection_inv_init
    by (cases ordered) (auto simp: project_campaign_def result_simps intro!: that split: if_splits)
qed

text \<open>
  Once cancellation is requested, no later event brings the campaign back to a status in
  which new work is planned.
\<close>

lemma cancelled_run:
  assumes "projection_inv s" and "foldM (project_step lock) s es = Inr t"
    and "e \<in> set es" and "ev_kind e = Campaign_event CK_cancel_requested"
    and "ev_subject_type e = ST_campaign"
  shows "CS_cancel_requested \<le> effective_status t"
proof -
  from assms(3) obtain xs ys where es: "es = (xs @ [e]) @ ys"
    by (metis append_Cons append_Nil append_assoc split_list)
  with assms(1,2) obtain u where u: "foldM (project_step lock) s (xs @ [e]) = Inr u"
    "projection_inv u" "foldM (project_step lock) u ys = Inr t"
    using campaign_loop.run_split by metis
  from u(1) obtain v where v: "foldM (project_step lock) s xs = Inr v" "project_step lock v e = Inr u"
    by (auto simp: result_simps)
  have "CS_cancel_requested \<le> effective_status u"
    using cancel_step [OF _ v(2)] campaign_loop.run_inv [OF assms(1) v(1)] assms(4,5) by blast
  also have "\<dots> \<le> effective_status t"
    using u(2,3) by (rule effective_status_mono)
  finally show ?thesis .
qed

text \<open>A terminal status is reached only by the last event of the log.\<close>

lemma terminal_step:
  assumes "projection_inv s" and "project_step lock s e = Inr t" and "campaign_terminal (ps_status t)"
  shows "\<exists>k. ev_kind e = Campaign_event k \<and> k \<in> {CK_completed, CK_partial, CK_failed, CK_cancelled} \<and>
    ps_status t = terminal_kind_status k"
  using assms(2)
proof (cases rule: project_step_cases)
  case (campaign k reqs status)
  from apply_event_status(1) [OF campaign(4,7)] assms(3) campaign(3,4,5,8) show ?thesis
    by (cases k) (auto simp: campaign_terminal_def apply_operator_request_def
        manual_return_status_def split: if_splits)
qed (use assms(3) in \<open>auto simp: campaign_terminal_def split: if_splits\<close>)

lemma terminal_last:
  assumes "foldM (project_step lock) s es = Inr t" and "projection_inv s"
    and "\<not> campaign_terminal (ps_status s)" and "campaign_terminal (ps_status t)"
  shows "\<exists>xs e k. es = xs @ [e] \<and> ev_kind e = Campaign_event k \<and>
    k \<in> {CK_completed, CK_partial, CK_failed, CK_cancelled} \<and> ps_status t = terminal_kind_status k"
proof (cases es rule: rev_cases)
  case Nil
  with assms show ?thesis by simp
next
  case (snoc xs e)
  with assms(1) obtain u where u: "foldM (project_step lock) s xs = Inr u" "project_step lock u e = Inr t"
    by (auto simp: result_simps)
  with terminal_step [OF campaign_loop.run_inv [OF assms(2) u(1)] u(2) assms(4)] snoc show ?thesis
    by auto
qed

lemma terminal_stops:
  assumes "foldM (project_step lock) s (xs @ e # ys) = Inr t"
  shows "\<exists>u. foldM (project_step lock) s xs = Inr u \<and> \<not> campaign_terminal (ps_status u)"
proof -
  from assms obtain u v where "foldM (project_step lock) s xs = Inr u" "project_step lock u e = Inr v"
    by (auto simp: foldM_append result_simps)
  then show ?thesis by (auto simp: project_step_def split: if_splits)
qed

section \<open>Actions\<close>

text \<open>Every change of an action: its reservation, then outcomes while it is not settled.\<close>

inductive action_move :: "action_projection option \<Rightarrow> action_projection option \<Rightarrow> bool" where
  reserve: "ap_status a = AS_reserved \<Longrightarrow> action_move None (Some a)"
| outcome: "ap_status a \<in> {AS_reserved, AS_ambiguous} \<Longrightarrow> st \<noteq> AS_reserved \<Longrightarrow>
    action_move (Some a) (Some (a\<lparr>ap_status := st, ap_message := m, ap_remote_id := r\<rparr>))"

inductive_cases action_move_from: "action_move (Some a) x"

definition actions_ok :: "(string, action_projection) dict \<Rightarrow> bool" where
  "actions_ok d \<longleftrightarrow> dict_ok d \<and> (\<forall>k a. map_of d k = Some a \<longrightarrow> ap_action_id a = k)"

lemma ap_status_same: "ap_status a = st \<Longrightarrow> a\<lparr>ap_status := st\<rparr> = a"
  by (cases a) simp

lemma reserve_action_event:
  assumes "ev_kind e = Action_event AS_reserved" and "apply_action_event e acts = Inr acts'"
  shows "\<exists>b. acts' = AList.update (ap_action_id b) b acts \<and>
    map_of acts (ap_action_id b) = None \<and> ap_status b = AS_reserved"
proof -
  from assms obtain p where p: "as_reserved (ev_payload e) = Inr p"
    by (auto simp: apply_action_event_def result_simps)
  let ?b = "\<lparr>ap_action_id = arp_action_id p, ap_action_key = arp_action_key p,
      ap_action_kind = arp_action_kind p, ap_target_ids = arp_target_ids p,
      ap_status = AS_reserved, ap_remote_id = None, ap_message = None\<rparr>"
  from assms p have "acts' = AList.update (ap_action_id ?b) ?b acts \<and>
      map_of acts (ap_action_id ?b) = None \<and> ap_status ?b = AS_reserved"
    by (simp add: apply_action_event_def map_of_eq_None_iff split: if_splits)
  then show ?thesis by blast
qed

lemma outcome_action_event:
  assumes "ev_kind e \<noteq> Action_event AS_reserved" and "apply_action_event e acts = Inr acts'"
  shows "\<exists>j a st m r. acts' = AList.update j (a\<lparr>ap_status := st, ap_message := m, ap_remote_id := r\<rparr>) acts \<and>
    map_of acts j = Some a \<and> ap_status a \<in> {AS_reserved, AS_ambiguous} \<and> st \<noteq> AS_reserved"
proof -
  from assms obtain p where p: "as_action_outcome (ev_payload e) = Inr p"
    by (auto simp: apply_action_event_def result_simps)
  with assms obtain a where a: "map_of acts (aop_action_id p) = Some a"
    "ap_status a \<in> {AS_reserved, AS_ambiguous}"
    by (cases "map_of acts (aop_action_id p)") (auto simp: apply_action_event_def split: if_splits)
  with assms p obtain st where st: "ev_kind e = Action_event st" "st \<noteq> AS_reserved"
    by (cases "ev_kind e") (auto simp: apply_action_event_def)
  let ?r = "if ap_status a = AS_ambiguous \<and> st = AS_ambiguous \<and> aop_remote_id p = None
    then ap_remote_id a else aop_remote_id p"
  from assms p a st have "acts' = AList.update (aop_action_id p)
      (a\<lparr>ap_status := st, ap_message := aop_message p, ap_remote_id := ?r\<rparr>) acts"
    by (auto simp: apply_action_event_def ap_status_same split: if_splits)
  with a st show ?thesis by blast
qed

lemma apply_action_event_move:
  assumes "actions_ok acts" and "apply_action_event e acts = Inr acts'"
  shows "actions_ok acts' \<and> action_move\<^sup>=\<^sup>= (map_of acts i) (map_of acts' i)"
proof (cases "ev_kind e = Action_event AS_reserved")
  case True
  from reserve_action_event [OF this assms(2)] assms(1) show ?thesis
    by (auto simp: actions_ok_def intro: action_move.reserve split: if_splits)
next
  case False
  from outcome_action_event [OF this assms(2)] assms(1) show ?thesis
    by (auto simp: actions_ok_def intro: action_move.outcome split: if_splits)
qed

lemma project_step_action_move:
  assumes "actions_ok (ps_actions s)" and "project_step lock s e = Inr t"
  shows "actions_ok (ps_actions t) \<and>
    action_move\<^sup>*\<^sup>* (map_of (ps_actions s) i) (map_of (ps_actions t) i)"
  using assms(2)
proof (cases rule: project_step_cases)
  case (action acts)
  with apply_action_event_move [OF assms(1) action(5), of i] show ?thesis by auto
qed (use assms(1) in auto)

interpretation action_trace: result_trace "project_step lock" "\<lambda>s. actions_ok (ps_actions s)"
    "\<lambda>s. map_of (ps_actions s) i" action_move
  for lock i
  using project_step_action_move by unfold_locales blast+

text \<open>What a settled or reserved action can become.\<close>

lemma action_moves_identity:
  assumes "action_move\<^sup>*\<^sup>* (Some a) x"
  shows "\<exists>b. x = Some b \<and> ap_action_id b = ap_action_id a \<and> ap_action_key b = ap_action_key a \<and>
    ap_action_kind b = ap_action_kind a \<and> ap_target_ids b = ap_target_ids a \<and>
    (ap_status a \<in> {AS_succeeded, AS_failed} \<longrightarrow> b = a)"
  using assms
  by (induction rule: rtranclp_induct) (auto elim!: action_move_from)

section \<open>Payload classes\<close>

text \<open>
  On validated events the projection reads only payloads of the class it expects, but for a
  spend record addressed to the campaign itself, which the validator admits.
\<close>

definition projectable :: "event \<Rightarrow> bool" where
  "projectable e \<longleftrightarrow> event_ok e \<and> \<not> (ev_kind e = Spend_recorded \<and> ev_subject_type e = ST_campaign)"

lemma apply_action_event_payload:
  assumes "payload_type_matches (ev_kind e) (ev_payload e)" and "ev_kind e = Action_event st"
  shows "apply_action_event e acts \<noteq> Inl Payload_type_error"
  using assms
  by (cases st; cases "ev_payload e") (auto simp: apply_action_event_def split: option.splits)

lemma project_step_payload:
  assumes "projectable e"
  shows "project_step lock s e \<noteq> Inl Payload_type_error"
proof (cases "ev_subject_type e = ST_campaign")
  case False
  then show ?thesis by (simp add: project_step_def)
next
  case True
  with assms have m: "payload_type_matches (ev_kind e) (ev_payload e)"
    "(\<exists>k. ev_kind e = Campaign_event k) \<or> (\<exists>st. ev_kind e = Action_event st)"
    by (cases "ev_kind e"; simp add: projectable_def event_ok_def)+
  then have "update_manual_requirements e (ps_requirements s) \<noteq> Inl Payload_type_error"
    by (cases "ev_payload e") (auto simp: update_manual_requirements_def)
  moreover have "apply_event lock e st acts prev r \<noteq> Inl Payload_type_error" for st acts prev r
    using m apply_action_event_payload [of e]
    by (auto simp: apply_event_def rbind_Inl_iff apply_manual_lifecycle_event_def
        resolve_manual_intervention_def split: option.splits if_splits)
  ultimately show ?thesis
    by (auto simp: project_step_def rbind_Inl_iff Let_def split: prod.splits)
qed

end
