(* ===== verification/Recovery_Trace.thy ===== *)
theory Recovery_Trace
  imports Recovery Control_Projection
begin

text \<open>
  Facts about the event loop of \<open>recovery.py\<close>: retry delays, the life of a wave, what
  events leave unchanged, the bookkeeping of executions, the conservation of spend, and the
  shape of a returned projection.
\<close>

section \<open>Retry delays\<close>

lemma uint_byte_bounds: "0 \<le> uint (b :: byte)" "uint (b :: byte) \<le> 255"
  using unsigned_less [of b, where 'a = int] by simp_all

lemma jitter_percent_bounds: "75 \<le> jitter_percent d" "jitter_percent d \<le> 125"
proof -
  have "0 \<le> uint (hd d) * 50 div 255"
    using uint_byte_bounds(1) by (intro pos_imp_zdiv_nonneg_iff [THEN iffD2]) simp_all
  moreover have "uint (hd d) * 50 div 255 \<le> 255 * 50 div (255 :: int)"
    using uint_byte_bounds(2) by (intro zdiv_mono1 mult_right_mono) simp_all
  ultimately show "75 \<le> jitter_percent d" "jitter_percent d \<le> 125"
    unfolding jitter_percent_def by simp_all
qed

lemma clamp_bounds:
  fixes j q :: int
  assumes "1 \<le> m" and "lo \<le> j" and "j \<le> hi"
  shows "1 \<le> min m (max 1 (max j q))" and "min m (max 1 (max j q)) \<le> m"
    and "min m (max lo q) \<le> min m (max 1 (max j q))" and "min m (max 1 (max j q)) \<le> max 1 (max hi q)"
  using assms by (simp_all add: min_def max_def)

definition backoff_seconds :: "campaign_lock \<Rightarrow> retry_category \<Rightarrow> int \<Rightarrow> int" where
  "backoff_seconds lock category attempt =
     rp_retry_base_seconds (cl_recovery_policy lock) * 2 ^ nat (min (attempt - 1) 30) *
     (if category \<in> {RC_quota, RC_rate_limit} then 2 else 1)"

lemma percent_mono: "0 \<le> (raw :: int) \<Longrightarrow> a \<le> b \<Longrightarrow> raw * a div 100 \<le> raw * b div 100"
  by (intro zdiv_mono1 mult_left_mono) simp_all

lemma retry_delay_range:
  assumes "recovery_policy_ok (cl_recovery_policy lock)" and "retryable category"
  shows "\<exists>delay. retry_delay_seconds h lock category attempt x r = Inr delay \<and>
    1 \<le> delay \<and> delay \<le> rp_retry_max_seconds (cl_recovery_policy lock) \<and>
    min (rp_retry_max_seconds (cl_recovery_policy lock))
      (max (backoff_seconds lock category attempt * 75 div 100) (case r of None \<Rightarrow> 0 | Some s \<Rightarrow> s)) \<le> delay \<and>
    delay \<le> max 1 (max (backoff_seconds lock category attempt * 125 div 100) (case r of None \<Rightarrow> 0 | Some s \<Rightarrow> s))"
proof -
  let ?raw = "backoff_seconds lock category attempt"
  let ?d = "h (x @ '':'' @ category_name category @ '':'' @ show_int attempt)"
  let ?req = "case r of None \<Rightarrow> 0 | Some s \<Rightarrow> s"
  let ?max = "rp_retry_max_seconds (cl_recovery_policy lock)"
  have raw: "0 \<le> ?raw" and mx: "1 \<le> ?max"
    using assms(1) by (auto simp: backoff_seconds_def recovery_policy_ok_def)
  have lo: "?raw * 75 div 100 \<le> ?raw * jitter_percent ?d div 100"
    and hi: "?raw * jitter_percent ?d div 100 \<le> ?raw * 125 div 100"
    using percent_mono [OF raw] jitter_percent_bounds by blast+
  have "retry_delay_seconds h lock category attempt x r =
      Inr (min ?max (max 1 (max (?raw * jitter_percent ?d div 100) ?req)))"
    unfolding retry_delay_seconds_def backoff_seconds_def Let_def
    by (simp only: assms(2) not_True_eq_False if_False)
  with clamp_bounds [OF mx lo hi, of ?req] show ?thesis by (intro exI conjI) assumption+
qed

section \<open>Waves\<close>

text \<open>Every change of a wave: its first record, then allowed transitions of the same wave.\<close>

inductive wave_move :: "wave_projection option \<Rightarrow> wave_projection option \<Rightarrow> bool" where
  appear: "wave_move None (Some w)"
| transition: "st \<in> allowed_wave_transitions (wv_status w) \<Longrightarrow>
    wave_move (Some w) (Some (w\<lparr>wv_status := st\<rparr>))"

inductive_cases wave_move_from: "wave_move (Some w) x"

definition waves_ok :: "(string, wave_projection) dict \<Rightarrow> bool" where
  "waves_ok d \<longleftrightarrow> dict_ok d \<and> (\<forall>k w. map_of d k = Some w \<longrightarrow> wv_wave_id w = k)"

lemma wave_same_status: "wv_status w = st \<Longrightarrow> w\<lparr>wv_status := st\<rparr> = w"
  by (cases w) simp

lemma waves_ok_update:
  "waves_ok d \<Longrightarrow> wv_wave_id w = j \<Longrightarrow> waves_ok (AList.update j w d)"
  by (auto simp: waves_ok_def)

lemma resolve_wave_move:
  assumes "waves_ok d" and "resolve_wave d j = Inr d'"
  shows "waves_ok d' \<and> wave_move\<^sup>*\<^sup>* (map_of d i) (map_of d' i)"
proof -
  from assms(2) obtain w where w: "map_of d j = Some w"
    and d': "d' = d \<or> wv_status w = WS_cleanup_failed \<and>
      d' = AList.update (wv_wave_id w) (w\<lparr>wv_status := WS_closed\<rparr>) d"
    by (auto simp: resolve_wave_def split: option.splits if_splits)
  have "wv_wave_id w = j" using assms(1) w by (simp add: waves_ok_def)
  moreover have "wave_move (Some w) (Some (w\<lparr>wv_status := WS_closed\<rparr>))"
    if "wv_status w = WS_cleanup_failed"
    using that by (intro wave_move.transition) simp
  ultimately show ?thesis
    using d' w assms(1) waves_ok_update [OF assms(1), of "w\<lparr>wv_status := WS_closed\<rparr>" j] by auto
qed

interpretation resolution: result_trace resolve_wave waves_ok "\<lambda>d. map_of d i" wave_move for i
  by unfold_locales (simp_all add: resolve_wave_move)

lemma wave_of_payload_same:
  assumes "waves_ok d" and "map_of d j = Some w"
    and "(wv_deployment_digest w, wv_provider w, wv_shard_ids w, wv_estimated_cost_microusd w)
      = (wp_deployment_digest p, wp_provider p, wp_shard_ids p, wp_estimated_cost_microusd p)"
  shows "wave_of_payload j st p = w\<lparr>wv_status := st\<rparr>"
  using assms by (auto simp: wave_of_payload_def waves_ok_def)

lemma record_wave_status_move:
  assumes "waves_ok (rs_waves s)" and "record_wave_status e st s = Inr t"
  shows "waves_ok (rs_waves t) \<and> wave_move\<^sup>=\<^sup>= (map_of (rs_waves s) i) (map_of (rs_waves t) i)"
proof -
  from assms(2) obtain p where p: "as_wave (ev_payload e) = Inr p"
    by (auto simp: record_wave_status_def result_simps)
  let ?w = "wave_of_payload (ev_subject_id e) st p"
  let ?t = "s\<lparr>rs_waves := AList.update (ev_subject_id e) ?w (rs_waves s)\<rparr>"
  have ok: "waves_ok (rs_waves ?t)"
    using waves_ok_update [OF assms(1), of ?w "ev_subject_id e"] by (simp add: wave_of_payload_def)
  show ?thesis
  proof (cases "map_of (rs_waves s) (ev_subject_id e)")
    case None
    with assms(2) p have "t = ?t" by (auto simp: record_wave_status_def Let_def split: if_splits)
    with ok None show ?thesis by (auto intro: wave_move.appear)
  next
    case (Some w)
    show ?thesis
    proof (cases "stale_reconciler_transition (ev_producer e) (wv_status w) st")
      case True
      with assms p Some show ?thesis
        by (auto simp: record_wave_status_def Let_def split: if_splits)
    next
      case False
      with assms(2) p Some have "?w = w\<lparr>wv_status := st\<rparr>" and t: "t = ?t"
        and "st = wv_status w \<or> st \<in> allowed_wave_transitions (wv_status w)"
        using wave_of_payload_same [OF assms(1) Some]
        by (auto simp: record_wave_status_def Let_def validate_wave_transition_def
            result_simps split: if_splits)
      then have "wave_move\<^sup>=\<^sup>= (Some w) (Some ?w)"
        using wave_same_status [of w st] by (auto intro: wave_move.transition)
      with ok t Some show ?thesis by auto
    qed
  qed
qed

lemma apply_recovery_event_waves:
  assumes "apply_recovery_event s e = Inr t" and "\<forall>st. ev_kind e \<noteq> Wave_event st"
  shows "rs_waves t = rs_waves s"
  using assms
  by (auto simp: apply_recovery_event_def record_run_status_def record_shard_status_def
      record_trial_status_def start_execution_def finish_execution_def result_simps
      split: event_kind.splits option.splits if_splits)

lemma recovery_step_waves:
  assumes "waves_ok (rs_waves s)" and "recovery_step s e = Inr t"
  shows "waves_ok (rs_waves t) \<and> wave_move\<^sup>*\<^sup>* (map_of (rs_waves s) i) (map_of (rs_waves t) i)"
proof -
  from assms(2) obtain waves where w: "apply_campaign_recovery_event e (rs_waves s) = Inr waves"
    "apply_recovery_event (s\<lparr>rs_waves := waves\<rparr>) e = Inr t"
    by (auto simp: recovery_step_def result_simps)
  have first: "waves_ok waves \<and> wave_move\<^sup>*\<^sup>* (map_of (rs_waves s) i) (map_of waves i)"
    using w(1) resolution.run_inv [OF assms(1)] resolution.run_move [OF assms(1)] assms(1)
    by (auto simp: apply_campaign_recovery_event_def result_simps split: if_splits)
  show ?thesis
  proof (cases "\<exists>st. ev_kind e = Wave_event st")
    case True
    then obtain st where "ev_kind e = Wave_event st" ..
    with w(2) have "record_wave_status e st (s\<lparr>rs_waves := waves\<rparr>) = Inr t"
      by (simp add: apply_recovery_event_def)
    with record_wave_status_move [OF _ this, of i] first show ?thesis by auto
  next
    case False
    with apply_recovery_event_waves [OF w(2)] first show ?thesis by simp
  qed
qed

interpretation wave_trace: result_trace recovery_step "\<lambda>s. waves_ok (rs_waves s)"
    "\<lambda>s. map_of (rs_waves s) i" wave_move
  for i
  by unfold_locales (simp_all add: recovery_step_waves)

definition wave_reaches :: "wave_status \<Rightarrow> wave_status \<Rightarrow> bool" where
  "wave_reaches = (\<lambda>a b. b \<in> allowed_wave_transitions a)\<^sup>*\<^sup>*"

lemma wave_moves_identity:
  assumes "wave_move\<^sup>*\<^sup>* (Some w) x"
  shows "\<exists>st. x = Some (w\<lparr>wv_status := st\<rparr>) \<and> wave_reaches (wv_status w) st"
  using assms
proof (induction rule: rtranclp_induct)
  case base
  show ?case by (intro exI [of _ "wv_status w"]) (simp add: wave_reaches_def wave_same_status)
next
  case (step y z)
  then show ?case
    by (fastforce simp: wave_reaches_def elim!: wave_move_from intro: rtranclp.rtrancl_into_rtrancl)
qed

lemma closed_is_final: "wave_reaches WS_closed st \<longleftrightarrow> st = WS_closed"
  unfolding wave_reaches_def by (auto elim: converse_rtranclpE)

section \<open>The frame of the projection\<close>

text \<open>
  Events change only the observed status of a run or shard, the status of a trial, the
  executions, the waves and the spend: everything else is the frame given by the lock.
\<close>

definition run_frame :: "run_projection \<Rightarrow> run_projection" where
  "run_frame r = r\<lparr>ru_observed_status := None\<rparr>"

definition shard_frame :: "shard_projection \<Rightarrow> shard_projection" where
  "shard_frame x = x\<lparr>sh_observed_status := None\<rparr>"

definition trial_frame :: "trial_projection \<Rightarrow> trial_projection" where
  "trial_frame t = t\<lparr>tr_status := NS_planned\<rparr>"

lemma trial_frame_eq:
  "trial_frame t = trial_frame t' \<longleftrightarrow> tr_trial_id t = tr_trial_id t' \<and>
     tr_shard_id t = tr_shard_id t' \<and> tr_logical_attempt t = tr_logical_attempt t' \<and>
     tr_executions t = tr_executions t' \<and> tr_retry_not_before t = tr_retry_not_before t' \<and>
     tr_outcome t = tr_outcome t'"
  by (cases t; cases t') (simp add: trial_frame_def)

lemma shard_frame_eq:
  "shard_frame x = shard_frame x' \<longleftrightarrow> sh_shard_id x = sh_shard_id x' \<and>
     sh_run_id x = sh_run_id x' \<and> sh_status x = sh_status x' \<and> sh_trial_ids x = sh_trial_ids x'"
  by (cases x; cases x') (simp add: shard_frame_def)

lemma run_frame_eq:
  "run_frame r = run_frame r' \<longleftrightarrow> ru_run_id r = ru_run_id r' \<and>
     ru_deployment_digest r = ru_deployment_digest r' \<and> ru_status r = ru_status r' \<and>
     ru_shard_ids r = ru_shard_ids r'"
  by (cases r; cases r') (simp add: run_frame_def)

definition lock_trial_map :: "campaign_lock \<Rightarrow> (string, trial_projection) dict" where
  "lock_trial_map lock = rs_trials (initial_projections lock)"

definition framed :: "campaign_lock \<Rightarrow> recovery_state \<Rightarrow> bool" where
  "framed lock s \<longleftrightarrow>
     on_values run_frame (rs_runs s) = on_values run_frame (rs_runs (initial_projections lock)) \<and>
     on_values shard_frame (rs_shards s) = on_values shard_frame (rs_shards (initial_projections lock)) \<and>
     on_values trial_frame (rs_trials s) = on_values trial_frame (lock_trial_map lock)"

section \<open>Executions\<close>

definition execution_ok :: "campaign_lock \<Rightarrow> string \<Rightarrow> execution_projection \<Rightarrow> bool" where
  "execution_ok lock k x \<longleftrightarrow>
     xp_execution_id x = k \<and>
     (xp_status x = ES_active \<longrightarrow> xp_spend_microusd x = 0) \<and>
     (xp_status x \<in> {ES_active, ES_completed} \<longrightarrow> xp_category x = None) \<and>
     (xp_status x = ES_failed \<longrightarrow> xp_category x \<noteq> None) \<and>
     (\<exists>t. map_of (lock_trial_map lock) (xp_trial_id x) = Some t \<and> tr_shard_id t = xp_shard_id x)"

definition executions_ok :: "campaign_lock \<Rightarrow> (string, execution_projection) dict \<Rightarrow> bool" where
  "executions_ok lock d \<longleftrightarrow>
     dict_ok d \<and> (\<forall>k x. map_of d k = Some x \<longrightarrow> execution_ok lock k x)"

lemma start_execution_Inr:
  assumes "start_execution e s = Inr t"
  obtains p tr x where "ev_payload e = Started_payload p"
    and "map_of (rs_trials s) (esp_trial_id p) = Some tr" and "tr_shard_id tr = esp_shard_id p"
    and "ev_subject_id e \<notin> fst ` set (rs_executions s)"
    and "t = s\<lparr>rs_executions := rs_executions s @ [(ev_subject_id e, x)]\<rparr>"
    and "xp_execution_id x = ev_subject_id e" and "xp_trial_id x = esp_trial_id p"
    and "xp_shard_id x = esp_shard_id p" and "xp_status x = ES_active" and "xp_category x = None"
    and "xp_spend_microusd x = 0" and "xp_physical_attempt x = esp_physical_attempt p"
proof -
  from assms obtain p where p: "ev_payload e = Started_payload p"
    by (cases "ev_payload e") (auto simp: start_execution_def)
  with assms obtain tr where "map_of (rs_trials s) (esp_trial_id p) = Some tr"
    by (auto simp: start_execution_def split: option.splits)
  with assms p show ?thesis
    by (intro that [of p tr])
      (auto simp: start_execution_def keys_update_absent split: if_splits)
qed

lemma finish_execution_Inr:
  assumes "finish_execution e k s = Inr t"
  obtains (stale) "t = s"
  | (finish) x p where "map_of (rs_executions s) (ev_subject_id e) = Some x" and "xp_status x = ES_active"
    and "ev_payload e = Outcome_payload p" and "k = EK_completed \<Longrightarrow> eop_category p = None"
    and "k = EK_failed \<Longrightarrow> eop_category p \<noteq> None"
    and "t = s\<lparr>rs_executions := AList.update (ev_subject_id e)
          (x\<lparr>xp_status := execution_kind_status k, xp_category := eop_category p,
             xp_observed_at := ev_observed_at e,
             xp_retry_after_seconds := eop_retry_after_seconds p,
             xp_spend_microusd := eop_spend_microusd p,
             xp_message := eop_message p\<rparr>) (rs_executions s),
        rs_spend := rs_spend s + eop_spend_microusd p\<rparr>"
proof -
  from assms obtain x where x: "map_of (rs_executions s) (ev_subject_id e) = Some x"
    by (auto simp: finish_execution_def split: option.splits)
  show ?thesis
  proof (cases "xp_status x = ES_active")
    case False
    with assms x show ?thesis
      by (intro stale) (auto simp: finish_execution_def result_simps split: if_splits)
  next
    case True
    with assms x obtain p where "ev_payload e = Outcome_payload p"
      by (cases "ev_payload e") (auto simp: finish_execution_def)
    with assms x True show ?thesis
      by (intro finish [of x p]) (auto simp: finish_execution_def split: if_splits)
  qed
qed

lemma executions_ok_append:
  assumes "executions_ok lock d" and "execution_ok lock k x" and "k \<notin> fst ` set d"
  shows "executions_ok lock (d @ [(k, x)])"
  using assms by (auto simp: executions_ok_def map_add_Some_iff)

lemma executions_ok_update:
  assumes "executions_ok lock d" and "execution_ok lock k x"
  shows "executions_ok lock (AList.update k x d)"
  using assms by (auto simp: executions_ok_def)

text \<open>The part of a state that an event on another subject leaves alone.\<close>

lemma apply_recovery_event_executions:
  assumes "apply_recovery_event s e = Inr t" and "\<forall>k. ev_kind e \<noteq> Execution_event k"
  shows "rs_executions t = rs_executions s"
  using assms
  by (auto simp: apply_recovery_event_def record_run_status_def record_shard_status_def
      record_trial_status_def record_wave_status_def Let_def result_simps
      split: event_kind.splits option.splits if_splits)

lemma execution_trial_known:
  assumes "framed lock s" and "map_of (rs_trials s) i = Some tr"
  shows "\<exists>t. map_of (lock_trial_map lock) i = Some t \<and> tr_shard_id t = tr_shard_id tr"
proof -
  from assms(1) have "on_values trial_frame (rs_trials s) = on_values trial_frame (lock_trial_map lock)"
    by (simp add: framed_def)
  from on_values_eq_get [OF this assms(2)] obtain t where "map_of (lock_trial_map lock) i = Some t"
    and "trial_frame t = trial_frame tr" by blast
  then show ?thesis by (auto simp: trial_frame_eq)
qed

lemma apply_recovery_event_execution_inv:
  assumes "framed lock s" and "executions_ok lock (rs_executions s)" and "apply_recovery_event s e = Inr t"
  shows "executions_ok lock (rs_executions t)"
proof (cases "\<exists>k. ev_kind e = Execution_event k")
  case False
  with apply_recovery_event_executions [OF assms(3)] assms(2) show ?thesis by simp
next
  case True
  then obtain k where k: "ev_kind e = Execution_event k" ..
  show ?thesis
  proof (cases "k = EK_started")
    case True
    with assms(3) k have "start_execution e s = Inr t" by (simp add: apply_recovery_event_def)
    then show ?thesis
    proof (cases rule: start_execution_Inr)
      case (1 p tr x)
      with execution_trial_known [OF assms(1) 1(2)] have "execution_ok lock (ev_subject_id e) x"
        by (simp add: execution_ok_def)
      with executions_ok_append [OF assms(2) _ 1(4)] 1(5) show ?thesis by simp
    qed
  next
    case False
    with assms(3) k have "finish_execution e k s = Inr t" by (simp add: apply_recovery_event_def)
    then show ?thesis
    proof (cases rule: finish_execution_Inr)
      case stale
      with assms(2) show ?thesis by simp
    next
      case (finish x p)
      from finish(1) assms(2) have "execution_ok lock (ev_subject_id e) x"
        by (simp add: executions_ok_def)
      with finish False show ?thesis
        by (cases k) (simp_all add: executions_ok_update [OF assms(2)] execution_ok_def)
    qed
  qed
qed

lemma apply_recovery_event_framed:
  assumes "framed lock s" and "apply_recovery_event s e = Inr t"
  shows "framed lock t"
  using assms
  by (auto simp: framed_def apply_recovery_event_def record_run_status_def record_shard_status_def
      record_trial_status_def record_wave_status_def start_execution_def finish_execution_def
      Let_def result_simps on_values_update run_frame_def shard_frame_def trial_frame_def
      split: event_kind.splits option.splits if_splits)

definition recovery_inv :: "campaign_lock \<Rightarrow> recovery_state \<Rightarrow> bool" where
  "recovery_inv lock s \<longleftrightarrow> framed lock s \<and> executions_ok lock (rs_executions s)"

lemma recovery_step_waves_only:
  assumes "recovery_step s e = Inr t"
  obtains waves where "apply_recovery_event (s\<lparr>rs_waves := waves\<rparr>) e = Inr t"
  using assms by (auto simp: recovery_step_def result_simps)

interpretation recovery_loop: result_fold recovery_step "recovery_inv lock" for lock
proof
  fix s e t
  assume inv: "recovery_inv lock s" and step: "recovery_step s e = Inr t"
  from step obtain waves where "apply_recovery_event (s\<lparr>rs_waves := waves\<rparr>) e = Inr t"
    by (rule recovery_step_waves_only)
  with inv show "recovery_inv lock t"
    using apply_recovery_event_execution_inv [of lock "s\<lparr>rs_waves := waves\<rparr>" e t]
      apply_recovery_event_framed [of lock "s\<lparr>rs_waves := waves\<rparr>" e t]
    by (simp add: recovery_inv_def framed_def)
qed

lemma recovery_inv_init: "recovery_inv lock (initial_projections lock)"
  by (simp add: recovery_inv_def framed_def lock_trial_map_def executions_ok_def initial_projections_def)

section \<open>Spend\<close>

definition recorded_spend :: "event \<Rightarrow> int" where
  "recorded_spend e =
     (if ev_kind e = Spend_recorded
      then (case ev_payload e of Spend_payload p \<Rightarrow> sp_amount_microusd p | _ \<Rightarrow> 0) else 0)"

definition execution_spend :: "(string, execution_projection) dict \<Rightarrow> int" where
  "execution_spend d = sum_list (map xp_spend_microusd (dict_values d))"

lemma apply_recovery_event_spend:
  assumes "executions_ok lock (rs_executions s)" and "apply_recovery_event s e = Inr t"
  shows "rs_spend t - execution_spend (rs_executions t) =
    rs_spend s - execution_spend (rs_executions s) + recorded_spend e"
proof (cases "ev_kind e")
  case (Execution_event k)
  have no: "recorded_spend e = 0" by (simp add: recorded_spend_def Execution_event)
  show ?thesis
  proof (cases "k = EK_started")
    case True
    with assms(2) Execution_event have "start_execution e s = Inr t"
      by (simp add: apply_recovery_event_def)
    then show ?thesis
      by (cases rule: start_execution_Inr) (simp add: no execution_spend_def)
  next
    case False
    with assms(2) Execution_event have "finish_execution e k s = Inr t"
      by (simp add: apply_recovery_event_def)
    then show ?thesis
    proof (cases rule: finish_execution_Inr)
      case stale
      with no show ?thesis by simp
    next
      case (finish x p)
      from finish(1,2) assms(1) have "xp_spend_microusd x = 0"
        by (simp add: executions_ok_def execution_ok_def)
      with finish no show ?thesis by (simp add: execution_spend_def sum_update_present del: map_map)
    qed
  qed
next
  case Spend_recorded
  with assms(2) show ?thesis
    by (cases "ev_payload e") (auto simp: apply_recovery_event_def recorded_spend_def)
qed (use assms(2) in \<open>auto simp: apply_recovery_event_def recorded_spend_def record_run_status_def
      record_shard_status_def record_trial_status_def record_wave_status_def Let_def result_simps
      split: option.splits if_splits\<close>)

lemma recovery_run_spend:
  assumes "recovery_inv lock s" and "foldM recovery_step s es = Inr t"
  shows "rs_spend t - execution_spend (rs_executions t) =
    rs_spend s - execution_spend (rs_executions s) + sum_list (map recorded_spend es)"
  using assms
proof (induction es arbitrary: s)
  case (Cons e es)
  then obtain u where u: "recovery_step s e = Inr u" "foldM recovery_step u es = Inr t"
    by (auto simp: result_simps)
  have inv: "recovery_inv lock u" using recovery_loop.step_inv [OF Cons.prems(1) u(1)] .
  from u(1) obtain waves where "apply_recovery_event (s\<lparr>rs_waves := waves\<rparr>) e = Inr u"
    by (rule recovery_step_waves_only)
  with apply_recovery_event_spend [of lock "s\<lparr>rs_waves := waves\<rparr>" e u] Cons.prems(1)
    Cons.IH [OF inv u(2)] show ?case by (simp add: recovery_inv_def)
qed simp

section \<open>The shape of a projection\<close>

lemma project_recovery_run:
  assumes "project_recovery h lock es = Inr p"
  obtains ordered s trials0 campaign where "ordered_events es = Inr ordered"
    and "project_campaign lock es = Inr campaign"
    and "foldM recovery_step (initial_projections lock) ordered = Inr s"
    and "recovery_inv lock s"
    and "derive_trials h lock (rs_trials s) (rs_executions s) = Inr trials0"
    and "apply_retry_requests h lock es trials0 = Inr (rv_trials p)"
    and "derive_shards (rs_shards s) (rv_trials p) = Inr (rv_shards p)"
    and "derive_runs (rs_runs s) (rv_shards p) = Inr (rv_runs p)"
    and "rv_executions p = rs_executions s" and "rv_waves p = rs_waves s"
    and "rv_spend_microusd p = rs_spend s" and "rv_counts p = projection_counts_of (rv_trials p)"
    and "rv_cancel_requested_at p = cancel_requested_at ordered"
    and "rv_terminal_decision p = terminal_decision_of lock (rv_campaign p) (rv_runs p) (rv_trials p)
          (rv_waves p) (rv_counts p)"
    and "cp_status (rv_campaign p) =
      (if \<not> campaign_terminal (cp_status campaign) \<and>
          (\<exists>w \<in> set (dict_values (rs_waves s)). wv_status w = WS_cleanup_failed)
       then CS_manual_intervention
       else if cp_status campaign = CS_queued \<and> (rs_executions s \<noteq> [] \<or> rs_waves s \<noteq> [])
       then CS_active else cp_status campaign)"
    and "cp_actions (rv_campaign p) = cp_actions campaign"
    and "cp_campaign_id (rv_campaign p) = cl_campaign_id lock"
proof -
  from assms obtain campaign ordered s trials0 where r: "project_campaign lock es = Inr campaign"
    "ordered_events es = Inr ordered" "foldM recovery_step (initial_projections lock) ordered = Inr s"
    "derive_trials h lock (rs_trials s) (rs_executions s) = Inr trials0"
    by (auto simp: project_recovery_def result_simps Let_def)
  have inv: "recovery_inv lock s" using recovery_loop.run_inv [OF recovery_inv_init r(3)] .
  have id: "cp_campaign_id campaign = cl_campaign_id lock" using r(1) by (rule project_campaign_run)
  show ?thesis
    using assms r inv id
    by (intro that [of ordered campaign s trials0])
      (auto simp: project_recovery_def result_simps Let_def simp del: set_map)
qed

lemma spend_conservation:
  assumes "project_recovery h lock es = Inr p" and "ordered_events es = Inr r"
  shows "rv_spend_microusd p =
    sum_list (map xp_spend_microusd (dict_values (rv_executions p))) + sum_list (map recorded_spend r)"
  using assms(1)
proof (rule project_recovery_run)
  fix ordered s
  assume s: "ordered_events es = Inr ordered"
    "foldM recovery_step (initial_projections lock) ordered = Inr s"
    "rv_executions p = rs_executions s" "rv_spend_microusd p = rs_spend s"
  from recovery_run_spend [OF recovery_inv_init s(2)] s assms(2) show ?thesis
    by (simp add: execution_spend_def initial_projections_def)
qed

end
