(* ===== verification/Recovery_Trials.thy ===== *)
theory Recovery_Trials
  imports Recovery_Trace
begin

text \<open>
  Facts about derived trials: observed statuses stay in their type, and every trial of a
  returned projection is well formed, holds exactly its own executions with contiguous
  attempts, and waits for a retry only below the execution limit.
\<close>

section \<open>Observed statuses\<close>

definition observed_ok :: "node_status option \<Rightarrow> bool" where
  "observed_ok m \<longleftrightarrow> m \<noteq> Some NS_planned \<and> m \<noteq> Some NS_retry_wait"

lemma observed_lifecycle [simp]: "observed_ok (Some (lifecycle_status l))" "observed_ok None"
  by (cases l; simp add: observed_ok_def) (simp add: observed_ok_def)

definition statuses_ok :: "recovery_state \<Rightarrow> bool" where
  "statuses_ok s \<longleftrightarrow>
     values_all (\<lambda>r. observed_ok (ru_observed_status r)) (rs_runs s) \<and>
     values_all (\<lambda>x. observed_ok (sh_observed_status x)) (rs_shards s) \<and>
     values_all (\<lambda>t. tr_status t = NS_planned \<or> node_terminal (tr_status t)) (rs_trials s)"

lemma apply_recovery_event_nodes:
  assumes "apply_recovery_event s e = Inr t"
    and "\<forall>l k. ev_kind e \<notin> {Run_event l, Shard_event l, Trial_event k}"
  shows "rs_runs t = rs_runs s" and "rs_shards t = rs_shards s" and "rs_trials t = rs_trials s"
  using assms
  by (auto simp: apply_recovery_event_def record_wave_status_def start_execution_def
      finish_execution_def Let_def result_simps split: event_kind.splits option.splits if_splits)

lemma apply_recovery_event_statuses:
  assumes "statuses_ok s" and "apply_recovery_event s e = Inr t"
  shows "statuses_ok t"
proof (cases "ev_kind e")
  case (Run_event l)
  with assms(2) obtain r where "map_of (rs_runs s) (ev_subject_id e) = Some r"
    and "t = s\<lparr>rs_runs := AList.update (ev_subject_id e)
      (r\<lparr>ru_observed_status := Some (lifecycle_status l)\<rparr>) (rs_runs s)\<rparr>"
    by (auto simp: apply_recovery_event_def record_run_status_def split: option.splits)
  with assms(1) show ?thesis by (simp add: statuses_ok_def values_all_update)
next
  case (Shard_event l)
  with assms(2) obtain x where "map_of (rs_shards s) (ev_subject_id e) = Some x"
    and "t = s\<lparr>rs_shards := AList.update (ev_subject_id e)
      (x\<lparr>sh_observed_status := Some (lifecycle_status l)\<rparr>) (rs_shards s)\<rparr>"
    by (auto simp: apply_recovery_event_def record_shard_status_def split: option.splits)
  with assms(1) show ?thesis by (simp add: statuses_ok_def values_all_update)
next
  case (Trial_event k)
  with assms(2) obtain x where "map_of (rs_trials s) (ev_subject_id e) = Some x"
    and "t = s\<lparr>rs_trials := AList.update (ev_subject_id e)
      (x\<lparr>tr_status := trial_kind_status k\<rparr>) (rs_trials s)\<rparr>"
    by (auto simp: apply_recovery_event_def record_trial_status_def split: option.splits)
  moreover have "node_terminal (trial_kind_status k)"
    by (cases k) (simp_all add: node_terminal_def)
  ultimately show ?thesis
    using assms(1) by (simp add: statuses_ok_def values_all_update)
qed (use assms apply_recovery_event_nodes [OF assms(2)] in \<open>simp_all add: statuses_ok_def\<close>)

interpretation status_loop: result_fold recovery_step statuses_ok
proof
  fix s e t
  assume inv: "statuses_ok s" and step: "recovery_step s e = Inr t"
  from step obtain waves where "apply_recovery_event (s\<lparr>rs_waves := waves\<rparr>) e = Inr t"
    by (rule recovery_step_waves_only)
  with inv show "statuses_ok t"
    using apply_recovery_event_statuses [of "s\<lparr>rs_waves := waves\<rparr>" e t] by (simp add: statuses_ok_def)
qed

lemma statuses_ok_init: "statuses_ok (initial_projections lock)"
proof -
  have "observed_ok (ru_observed_status r)"
    if "r \<in> set (dict_values (rs_runs (initial_projections lock)))" for r
    using that values_mk_dict by (fastforce simp: initial_projections_def initial_run_def)
  moreover have "observed_ok (sh_observed_status x)"
    if "x \<in> set (dict_values (rs_shards (initial_projections lock)))" for x
    using that values_mk_dict by (fastforce simp: initial_projections_def initial_shard_def)
  moreover have "tr_status t = NS_planned"
    if "t \<in> set (dict_values (rs_trials (initial_projections lock)))" for t
    using that values_mk_dict by (fastforce simp: initial_projections_def initial_trial_def)
  ultimately show ?thesis by (auto simp: statuses_ok_def values_all_def simp del: set_map)
qed

section \<open>Derived trials\<close>

definition attempts_contiguous :: "execution_projection list \<Rightarrow> bool" where
  "attempts_contiguous xs \<longleftrightarrow> map xp_physical_attempt xs = map int [1..<length xs + 1]"

definition retry_wait_ok :: "campaign_lock \<Rightarrow> trial_projection \<Rightarrow> bool" where
  "retry_wait_ok lock t \<longleftrightarrow>
     tr_executions t \<noteq> [] \<and>
     int (length (tr_executions t)) < rp_max_physical_executions_per_trial (cl_recovery_policy lock) \<and>
     xp_status (last (dict_values (tr_executions t))) = ES_failed \<and>
     (\<exists>c. xp_category (last (dict_values (tr_executions t))) = Some c \<and> retryable c) \<and>
     tr_retry_not_before t \<noteq> None"

definition trial_wf :: "campaign_lock \<Rightarrow> trial_projection \<Rightarrow> bool" where
  "trial_wf lock t \<longleftrightarrow>
     trial_status_ok (tr_status t) \<and> dict_ok (tr_executions t) \<and>
     attempts_contiguous (dict_values (tr_executions t)) \<and>
     (tr_status t = NS_planned \<longrightarrow> tr_executions t = []) \<and>
     (tr_status t = NS_active \<longrightarrow> tr_executions t \<noteq> [] \<and>
        xp_status (last (dict_values (tr_executions t))) = ES_active) \<and>
     (tr_status t = NS_retry_wait \<longrightarrow> retry_wait_ok lock t) \<and>
     (tr_outcome t = Some TO_scored \<longleftrightarrow> tr_status t = NS_complete)"

lemma node_terminal_trial: "node_terminal s \<Longrightarrow> trial_status_ok s \<and> s \<notin> {NS_planned, NS_active, NS_retry_wait}"
  by (auto simp: node_terminal_def trial_status_ok_def)

lemma task_outcome_scored: "derive_task_outcome s xs = Some TO_scored \<longleftrightarrow> s = NS_complete"
  by (auto simp: derive_task_outcome_def Let_def)

lemma failed_trial_state_Inr:
  assumes "failed_trial_state h lock x n = Inr (st, at)"
  shows "(st \<in> {NS_invalid, NS_failed_infrastructure} \<and> at = None) \<or>
    (st = NS_retry_wait \<and> (\<exists>c delay. xp_category x = Some c \<and> retryable c \<and>
      n < rp_max_physical_executions_per_trial (cl_recovery_policy lock) \<and>
      retry_delay_seconds h lock c (xp_physical_attempt x) (xp_execution_id x)
        (xp_retry_after_seconds x) = Inr delay \<and>
      at = Some (xp_observed_at x + microseconds delay)))"
  using assms
  by (auto simp: failed_trial_state_def result_simps split: option.splits if_splits)

abbreviation by_attempt :: "execution_projection list \<Rightarrow> execution_projection list" where
  "by_attempt xs \<equiv> sort_key xp_physical_attempt xs"

text \<open>The branches of \<open>_derive_trial\<close> that return.\<close>

lemma derive_trial_Inr:
  assumes "derive_trial h lock t xs = Inr t'" and "distinct (map xp_execution_id xs)"
  obtains (untouched) "xs = []" and "\<not> node_terminal (tr_status t)" and "t' = t"
  | (derived) st at out where "attempts_contiguous (by_attempt xs)"
      and "t' = t\<lparr>tr_status := st, tr_executions := map (\<lambda>x. (xp_execution_id x, x)) (by_attempt xs),
                 tr_retry_not_before := at, tr_outcome := out\<rparr>"
      and "out = Some TO_scored \<longleftrightarrow> st = NS_complete"
      and "node_terminal (tr_status t) \<and> st = tr_status t \<or> xs \<noteq> [] \<and>
        (st \<in> {NS_complete, NS_cancelled, NS_invalid, NS_failed_infrastructure} \<or>
         st = NS_active \<and> xp_status (last (by_attempt xs)) = ES_active \<or>
         st = NS_retry_wait \<and> xp_status (last (by_attempt xs)) = ES_failed \<and>
           failed_trial_state h lock (last (by_attempt xs)) (int (length xs)) = Inr (NS_retry_wait, at))"
proof -
  let ?o = "by_attempt xs"
  let ?m = "map (\<lambda>x. (xp_execution_id x, x)) ?o"
  have "distinct (map xp_execution_id ?o)"
    using assms(2) by (simp add: distinct_map)
  then have m: "mk_dict ?m = ?m" by (intro mk_dict_distinct) (simp add: comp_def)
  have cont: "attempts_contiguous ?o"
    using assms(1) by (auto simp: derive_trial_def Let_def attempts_contiguous_def split: if_splits)
  show ?thesis
  proof (cases "node_terminal (tr_status t)")
    case True
    then have "t' = t\<lparr>tr_executions := ?m, tr_outcome := derive_task_outcome (tr_status t) ?o\<rparr>"
      using assms(1) by (simp add: derive_trial_def Let_def m split: if_splits)
    with cont True show ?thesis
      by (intro derived [where st = "tr_status t" and at = "tr_retry_not_before t"
            and out = "derive_task_outcome (tr_status t) ?o"]) (auto simp: task_outcome_scored)
  next
    case live: False
    show ?thesis
    proof (cases "xs = []")
      case True
      with live assms(1) show ?thesis
        by (intro untouched) (simp_all add: derive_trial_def Let_def)
    next
      case False
      show ?thesis
      proof (cases "\<exists>x \<in> set xs. xp_status x = ES_completed")
        case True
        with False live assms(1) have "t' = t\<lparr>tr_status := NS_complete, tr_executions := ?m,
            tr_outcome := Some TO_scored\<rparr>"
          by (simp add: derive_trial_def Let_def m split: if_splits)
        with cont False show ?thesis
          by (intro derived [where st = NS_complete and at = "tr_retry_not_before t"
              and out = "Some TO_scored"]) simp_all
      next
        case incomplete: False
        let ?l = "last ?o"
        have "?l \<in> set xs" using False by (metis last_in_set set_sort set_empty)
        with incomplete have "xp_status ?l \<noteq> ES_completed" by blast
        with False live incomplete assms(1) obtain st at where st:
          "(if xp_status ?l = ES_active then Inr (NS_active, None)
            else if xp_status ?l = ES_cancelled then Inr (NS_cancelled, None)
            else failed_trial_state h lock ?l (int (length xs))) = Inr (st, at)"
          "t' = t\<lparr>tr_status := st, tr_executions := ?m, tr_retry_not_before := at,
                 tr_outcome := derive_task_outcome st ?o\<rparr>"
          by (auto simp: derive_trial_def Let_def m result_simps split: if_splits)
        have "xp_status ?l \<noteq> ES_completed" by fact
        with st(1) failed_trial_state_Inr [of h lock ?l "int (length xs)" st at] cont False st(2)
        show ?thesis
          by (intro derived [where st = st and at = at and out = "derive_task_outcome st ?o"])
            (cases "xp_status ?l"; auto simp: task_outcome_scored split: if_splits)+
      qed
    qed
  qed
qed

lemma derive_trial_wf:
  assumes "derive_trial h lock t xs = Inr t'" and "distinct (map xp_execution_id xs)"
    and "tr_status t = NS_planned \<and> tr_outcome t = None \<or> node_terminal (tr_status t)"
    and "xs = [] \<Longrightarrow> tr_executions t = []"
  shows "trial_wf lock t' \<and> tr_trial_id t' = tr_trial_id t \<and> tr_shard_id t' = tr_shard_id t \<and>
      set (dict_values (tr_executions t')) = set xs \<and> length (tr_executions t') = length xs \<and>
      map xp_execution_id (dict_values (tr_executions t')) = dict_keys (tr_executions t')"
  using assms(1,2)
proof (cases rule: derive_trial_Inr)
  case untouched
  with assms(3,4) show ?thesis
    by (auto simp: trial_wf_def trial_status_ok_def attempts_contiguous_def)
next
  case (derived st at out)
  let ?o = "by_attempt xs"
  have vals: "dict_values (tr_executions t') = ?o"
    using derived(2) by (simp add: comp_def)
  have keys: "dict_keys (tr_executions t') = map xp_execution_id ?o"
    using derived(2) by (simp add: comp_def)
  have "distinct (map xp_execution_id ?o)" using assms(2) by (simp add: distinct_map)
  with vals keys derived(1,3) derived(2) have base: "dict_ok (tr_executions t')"
    "attempts_contiguous (dict_values (tr_executions t'))"
    "tr_outcome t' = Some TO_scored \<longleftrightarrow> tr_status t' = NS_complete"
    "length (tr_executions t') = length xs" "tr_status t' = st" "tr_retry_not_before t' = at"
    by (simp_all add: comp_def)
  have ne: "xs \<noteq> [] \<Longrightarrow> tr_executions t' \<noteq> []" using base(4) by auto
  have "trial_wf lock t'"
    using derived(4)
  proof (elim disjE conjE)
    assume "node_terminal (tr_status t)" "st = tr_status t"
    with base node_terminal_trial show ?thesis by (auto simp: trial_wf_def)
  next
    assume "st \<in> {NS_complete, NS_cancelled, NS_invalid, NS_failed_infrastructure}"
    with base show ?thesis by (auto simp: trial_wf_def trial_status_ok_def)
  next
    assume "xs \<noteq> []" "st = NS_active" "xp_status (last ?o) = ES_active"
    with base ne vals show ?thesis by (auto simp: trial_wf_def trial_status_ok_def)
  next
    assume w: "xs \<noteq> []" "st = NS_retry_wait" "xp_status (last ?o) = ES_failed"
      "failed_trial_state h lock (last ?o) (int (length xs)) = Inr (NS_retry_wait, at)"
    from failed_trial_state_Inr [OF w(4)] base ne w vals have "retry_wait_ok lock t'"
      by (auto simp: retry_wait_ok_def)
    with base w show ?thesis by (auto simp: trial_wf_def trial_status_ok_def)
  qed
  with derived(2) vals keys base(4) show ?thesis
    by simp
qed

text \<open>A trial of the projection: well formed, under its own key, with its own executions.\<close>

definition trial_at ::
  "campaign_lock \<Rightarrow> (string, execution_projection) dict \<Rightarrow> string \<Rightarrow> trial_projection \<Rightarrow> bool" where
  "trial_at lock executions i t \<longleftrightarrow>
     trial_wf lock t \<and>
     (\<exists>t0. map_of (lock_trial_map lock) i = Some t0 \<and> tr_trial_id t = tr_trial_id t0 \<and>
        tr_shard_id t = tr_shard_id t0) \<and>
     map xp_execution_id (dict_values (tr_executions t)) = dict_keys (tr_executions t) \<and>
     set (dict_values (tr_executions t)) = {x \<in> set (dict_values executions). xp_trial_id x = i}"

definition trials_at ::
  "campaign_lock \<Rightarrow> (string, execution_projection) dict \<Rightarrow> (string, trial_projection) dict \<Rightarrow> bool" where
  "trials_at lock executions d \<longleftrightarrow>
     dict_keys d = dict_keys (lock_trial_map lock) \<and> (\<forall>(i, t) \<in> set d. trial_at lock executions i t)"

lemma executions_ids_distinct:
  assumes "executions_ok lock d"
  shows "distinct (map xp_execution_id (filter P (dict_values d)))"
proof -
  have "map xp_execution_id (dict_values d) = dict_keys d"
    using assms by (auto simp: executions_ok_def execution_ok_def)
  then have "distinct (map xp_execution_id (dict_values d))"
    using assms by (metis executions_ok_def)
  then show ?thesis by (rule distinct_map_filter)
qed

lemma lock_trial_map_frame:
  assumes "map_of (lock_trial_map lock) i = Some t"
  shows "tr_status t = NS_planned" and "tr_executions t = []" and "tr_outcome t = None"
proof -
  have "t \<in> set (dict_values (rs_trials (initial_projections lock)))"
    using assms map_of_SomeD [OF assms] unfolding lock_trial_map_def by force
  with values_mk_dict show "tr_status t = NS_planned" "tr_executions t = []" "tr_outcome t = None"
    by (fastforce simp: initial_projections_def initial_trial_def)+
qed

lemma derive_trials_at:
  assumes "recovery_inv lock s" and "statuses_ok s"
    and "derive_trials h lock (rs_trials s) (rs_executions s) = Inr d"
    and ids: "dict_ok (rs_trials s)"
  shows "trials_at lock (rs_executions s) d"
proof -
  have frame: "on_values trial_frame (rs_trials s) = on_values trial_frame (lock_trial_map lock)"
    and ok: "executions_ok lock (rs_executions s)"
    using assms(1) by (simp_all add: recovery_inv_def framed_def)
  from assms(3) have run: "mapM (\<lambda>(i, t). rbind (derive_trial h lock t
      (filter (\<lambda>x. xp_trial_id x = i) (dict_values (rs_executions s)))) (\<lambda>t'. Inr (i, t'))) (rs_trials s)
      = Inr d"
    by (auto simp: derive_trials_def result_simps)
  have "dict_keys d = dict_keys (rs_trials s)" using mapM_keyed(1) [OF run] .
  also have "\<dots> = dict_keys (lock_trial_map lock)" using frame by (metis on_values_keys)
  finally have keys: "dict_keys d = dict_keys (lock_trial_map lock)" .
  have "trial_at lock (rs_executions s) i t'" if "(i, t') \<in> set d" for i t'
  proof -
    let ?xs = "filter (\<lambda>x. xp_trial_id x = i) (dict_values (rs_executions s))"
    from mapM_keyed(2) [OF run that] obtain t where t: "(i, t) \<in> set (rs_trials s)"
      "derive_trial h lock t ?xs = Inr t'" by blast
    then have get: "map_of (rs_trials s) i = Some t" using ids by simp
    from on_values_eq_get [OF frame get] obtain t0 where t0: "map_of (lock_trial_map lock) i = Some t0"
      "trial_frame t0 = trial_frame t" by blast
    have "tr_status t = NS_planned \<or> node_terminal (tr_status t)"
      using assms(2) get unfolding statuses_ok_def by (auto dest: values_all_get)
    moreover have "tr_executions t = []" "tr_outcome t = None"
      using t0 lock_trial_map_frame [OF t0(1)] by (simp_all add: trial_frame_eq)
    ultimately show ?thesis
      using derive_trial_wf [OF t(2) executions_ids_distinct [OF ok]] t0
      by (auto simp: trial_at_def trial_frame_eq)
  qed
  with keys show ?thesis by (auto simp: trials_at_def)
qed

lemma recover_trial_at:
  assumes "trial_at lock xs i t" and "recover_trial h lock requested (i, t) = Inr (j, t')"
  shows "j = i \<and> trial_at lock xs i t'"
proof (cases "requested_generations i requested")
  case Nil
  with assms show ?thesis by (simp add: recover_trial_def)
next
  case (Cons g gs)
  let ?g = "foldl max g gs"
  let ?cleared = "t\<lparr>tr_status := NS_planned, tr_retry_not_before := None, tr_outcome := None\<rparr>"
  from assms(2) Cons have "\<not> int (length (tr_executions t)) < ?g"
    by (auto simp: recover_trial_def Let_def split: if_splits)
  with assms(2) Cons have "rbind (derive_trial h lock ?cleared (dict_values (tr_executions t)))
      (\<lambda>d. Inr (i, if ?g = int (length (tr_executions t)) \<and> tr_status d = NS_retry_wait
        then d\<lparr>tr_retry_not_before := map_of requested (i, ?g)\<rparr> else d)) = Inr (j, t')"
    by (simp add: recover_trial_def Let_def)
  then obtain d where d: "derive_trial h lock ?cleared (dict_values (tr_executions t)) = Inr d"
    and t': "j = i" "t' = (if ?g = int (length (tr_executions t)) \<and> tr_status d = NS_retry_wait
      then d\<lparr>tr_retry_not_before := map_of requested (i, ?g)\<rparr> else d)"
    by (simp only: rbind_Inr_iff sum.inject prod.inject) blast
  have "distinct (map xp_execution_id (dict_values (tr_executions t)))"
    using assms(1) unfolding trial_at_def trial_wf_def by metis
  from derive_trial_wf [OF d this] assms(1)
  have wf: "trial_at lock xs i d" by (auto simp: trial_at_def)
  have "?g \<in> set (g # gs)"
    by (rule foldl_max_in)
  then have "?g \<in> set (requested_generations i requested)" using Cons by simp
  then have "map_of requested (i, ?g) \<noteq> None"
    by (auto simp: requested_generations_def map_of_eq_None_iff image_iff) force
  with wf t' show ?thesis
    by (auto simp: trial_at_def trial_wf_def retry_wait_ok_def)
qed

lemma lock_trial_map_ok: "dict_ok (lock_trial_map lock)"
  by (simp add: lock_trial_map_def initial_projections_def dict_ok_mk_dict)

lemma framed_trials_ok: "framed lock s \<Longrightarrow> dict_ok (rs_trials s)"
  unfolding framed_def by (metis lock_trial_map_ok on_values_keys)

lemma apply_retry_requests_at:
  assumes "trials_at lock xs d" and "apply_retry_requests h lock es d = Inr d'"
  shows "trials_at lock xs d'"
proof -
  from assms(2) obtain requested where "mapM (recover_trial h lock requested) d = Inr d'"
    by (auto simp: apply_retry_requests_def result_simps)
  then have l: "list_all2 (\<lambda>x y. recover_trial h lock requested x = Inr y) d d'"
    by (simp add: mapM_Inr_iff)
  have at: "\<forall>(i, t) \<in> set d. trial_at lock xs i t" using assms(1) by (simp add: trials_at_def)
  have "dict_keys d' = dict_keys d \<and> (\<forall>(i, t) \<in> set d'. trial_at lock xs i t)"
    using l at
  proof (induction rule: list_all2_induct)
    case (Cons x d y d')
    then show ?case
      using recover_trial_at [of lock xs "fst x" "snd x" h requested "fst y" "snd y"]
      by (auto simp: case_prod_unfold)
  qed simp
  with assms(1) show ?thesis by (simp add: trials_at_def)
qed

lemma project_recovery_trials:
  assumes "project_recovery h lock es = Inr p"
  shows "trials_at lock (rv_executions p) (rv_trials p)"
  using assms
proof (rule project_recovery_run)
  fix ordered s trials0
  assume s: "foldM recovery_step (initial_projections lock) ordered = Inr s" "recovery_inv lock s"
    "derive_trials h lock (rs_trials s) (rs_executions s) = Inr trials0"
    "apply_retry_requests h lock es trials0 = Inr (rv_trials p)" "rv_executions p = rs_executions s"
  have "statuses_ok s" using status_loop.run_inv [OF statuses_ok_init s(1)] .
  moreover have "dict_ok (rs_trials s)"
    using s(2) by (auto simp: recovery_inv_def intro: framed_trials_ok)
  ultimately have "trials_at lock (rs_executions s) trials0"
    using derive_trials_at [OF s(2) _ s(3)] by blast
  with apply_retry_requests_at s(4,5) show ?thesis by metis
qed

end
