(* ===== verification/Recovery_Rollup.thy ===== *)
theory Recovery_Rollup
  imports Recovery_Trials
begin

text \<open>
  Roll-ups: the contract shared by the aggregation of trials to a shard and of shards to a
  run, as a locale, its composition to two levels, counts, terminal decisions, sealing and
  cancellation requests.
\<close>

section \<open>Roll-ups\<close>

text \<open>
  A roll-up derives the status of a node from the statuses of its children and the status
  observed for the node itself. Its contract relates terminality, scoring and completion of
  the node to the children's.
\<close>

locale rollup =
  fixes roll :: "node_status option \<Rightarrow> node_status list \<Rightarrow> 'e + node_status"
  assumes roll_terminal: "roll obs cs = Inr st \<Longrightarrow> node_terminal st \<longleftrightarrow> list_all node_terminal cs"
    and roll_scored: "roll obs cs = Inr st \<Longrightarrow> scored_terminal st \<longleftrightarrow> list_all scored_terminal cs"
    and roll_complete: "roll obs cs = Inr st \<Longrightarrow>
      st = NS_complete \<longleftrightarrow> list_all scored_terminal cs \<and> NS_complete \<in> set cs"

text \<open>Two levels: the statuses of the leaves decide the status of the root.\<close>

locale rollup_tree = inner: rollup roll_in + outer: rollup roll_out
  for roll_in :: "node_status option \<Rightarrow> node_status list \<Rightarrow> 'e + node_status"
    and roll_out :: "node_status option \<Rightarrow> node_status list \<Rightarrow> 'f + node_status"
begin

lemma tree_terminal:
  assumes "list_all2 (\<lambda>cs st. \<exists>obs. roll_in obs cs = Inr st) css sts" and "roll_out obs sts = Inr st"
  shows "node_terminal st \<longleftrightarrow> list_all node_terminal (concat css)"
proof -
  have "list_all node_terminal sts \<longleftrightarrow> list_all node_terminal (concat css)"
    using assms(1) by (induction rule: list_all2_induct) (auto dest: inner.roll_terminal)
  with outer.roll_terminal [OF assms(2)] show ?thesis by simp
qed

lemma tree_complete:
  assumes "list_all2 (\<lambda>cs st. \<exists>obs. roll_in obs cs = Inr st) css sts" and "roll_out obs sts = Inr st"
  shows "st = NS_complete \<longleftrightarrow>
    list_all scored_terminal (concat css) \<and> NS_complete \<in> set (concat css)"
proof -
  have "(list_all scored_terminal sts \<longleftrightarrow> list_all scored_terminal (concat css)) \<and>
    (list_all scored_terminal (concat css) \<longrightarrow>
      (NS_complete \<in> set sts \<longleftrightarrow> NS_complete \<in> set (concat css)))"
    using assms(1)
  proof (induction rule: list_all2_induct)
    case (Cons cs css st sts)
    then obtain obs where "roll_in obs cs = Inr st" by blast
    from inner.roll_scored [OF this] inner.roll_complete [OF this] Cons.IH show ?case by auto
  qed simp
  with outer.roll_complete [OF assms(2)] show ?thesis by auto
qed

end

definition shard_roll :: "node_status option \<Rightarrow> node_status list \<Rightarrow> recovery_error + node_status" where
  "shard_roll obs statuses =
     rbind (validate_observed_terminal obs statuses) (\<lambda>_.
       case scored_terminal_status statuses of
         Some scored \<Rightarrow> Inr scored
       | None \<Rightarrow>
           if list_all node_terminal statuses then Inr NS_cancelled
           else if NS_active \<in> set statuses then Inr NS_active
           else if NS_retry_wait \<in> set statuses then Inr NS_retry_wait
           else Inr (case obs of None \<Rightarrow> NS_planned | Some s \<Rightarrow> s))"

definition run_roll :: "node_status option \<Rightarrow> node_status list \<Rightarrow> recovery_error + node_status" where
  "run_roll obs statuses =
     rbind (validate_observed_terminal obs statuses) (\<lambda>_.
       case scored_terminal_status statuses of
         Some scored \<Rightarrow> Inr scored
       | None \<Rightarrow>
           if list_all node_terminal statuses then Inr NS_cancelled
           else if NS_active \<in> set statuses \<or> NS_retry_wait \<in> set statuses then Inr NS_active
           else Inr (case obs of None \<Rightarrow> NS_planned | Some s \<Rightarrow> s))"

lemma aggregate_shard_roll:
  "aggregate_shard shard trials =
     rbind (mapM (\<lambda>i. of_option Missing_key (map_of trials i)) (sh_trial_ids shard)) (\<lambda>ts.
       shard_roll (sh_observed_status shard) (map tr_status ts))"
  by (simp add: aggregate_shard_def shard_roll_def Let_def)

lemma aggregate_run_roll:
  "aggregate_run run shards =
     rbind (mapM (\<lambda>i. of_option Missing_key (map_of shards i)) (ru_shard_ids run)) (\<lambda>ss.
       run_roll (ru_observed_status run) (map sh_status ss))"
  by (simp add: aggregate_run_def run_roll_def Let_def)

lemma scored_is_terminal: "scored_terminal s \<Longrightarrow> node_terminal s"
  by (auto simp: scored_terminal_def node_terminal_def)

lemma all_scored_terminal: "list_all scored_terminal cs \<Longrightarrow> list_all node_terminal cs"
  by (metis list.pred_mono_strong scored_is_terminal)

lemma scored_terminal_status_cases:
  "scored_terminal_status cs = Some st \<Longrightarrow> list_all scored_terminal cs \<and> scored_terminal st \<and>
     (st = NS_complete \<longleftrightarrow> NS_complete \<in> set cs)"
  "scored_terminal_status cs = None \<longleftrightarrow> \<not> list_all scored_terminal cs"
  by (auto simp: scored_terminal_status_def scored_terminal_def split: if_splits)

text \<open>What both aggregations share: a live node is live, a dead one cancelled.\<close>

lemma roll_contract:
  assumes "rbind (validate_observed_terminal obs cs) (\<lambda>_.
      case scored_terminal_status cs of Some s \<Rightarrow> Inr s
      | None \<Rightarrow> if list_all node_terminal cs then Inr NS_cancelled else live) = Inr st"
    and "\<not> list_all node_terminal cs \<Longrightarrow> live = Inr st \<Longrightarrow> validate_observed_terminal obs cs = Inr () \<Longrightarrow>
      \<not> node_terminal st"
  shows "(node_terminal st \<longleftrightarrow> list_all node_terminal cs) \<and>
    (scored_terminal st \<longleftrightarrow> list_all scored_terminal cs) \<and>
    (st = NS_complete \<longleftrightarrow> list_all scored_terminal cs \<and> NS_complete \<in> set cs)"
proof (cases "scored_terminal_status cs")
  case (Some s)
  with assms(1) have "st = s" by (auto simp: result_simps)
  with scored_terminal_status_cases(1) [OF Some] scored_is_terminal all_scored_terminal
  show ?thesis by blast
next
  case None
  then have ns: "\<not> list_all scored_terminal cs" by (simp add: scored_terminal_status_cases)
  show ?thesis
  proof (cases "list_all node_terminal cs")
    case True
    with None assms(1) have "st = NS_cancelled" by (auto simp: result_simps)
    with ns True show ?thesis by (simp add: scored_terminal_def node_terminal_def)
  next
    case False
    with None assms(1) have "live = Inr st" and "validate_observed_terminal obs cs = Inr ()"
      by (auto simp: result_simps)
    with assms(2) False ns show ?thesis
      by (auto simp: scored_terminal_def node_terminal_def)
  qed
qed

lemma observed_live:
  assumes "validate_observed_terminal obs cs = Inr ()" and "\<not> list_all node_terminal cs"
  shows "\<not> node_terminal (case obs of None \<Rightarrow> NS_planned | Some s \<Rightarrow> s)"
  using assms
  by (cases obs) (auto simp: validate_observed_terminal_def node_terminal_def split: if_splits)

lemma shard_roll_contract:
  assumes "shard_roll obs cs = Inr st"
  shows "(node_terminal st \<longleftrightarrow> list_all node_terminal cs) \<and>
    (scored_terminal st \<longleftrightarrow> list_all scored_terminal cs) \<and>
    (st = NS_complete \<longleftrightarrow> list_all scored_terminal cs \<and> NS_complete \<in> set cs)"
  using assms unfolding shard_roll_def
  by (rule roll_contract) (use observed_live [of obs cs] in \<open>auto simp: node_terminal_def split: if_splits\<close>)

lemma run_roll_contract:
  assumes "run_roll obs cs = Inr st"
  shows "(node_terminal st \<longleftrightarrow> list_all node_terminal cs) \<and>
    (scored_terminal st \<longleftrightarrow> list_all scored_terminal cs) \<and>
    (st = NS_complete \<longleftrightarrow> list_all scored_terminal cs \<and> NS_complete \<in> set cs)"
  using assms unfolding run_roll_def
  by (rule roll_contract) (use observed_live [of obs cs] in \<open>auto simp: node_terminal_def split: if_splits\<close>)

interpretation campaign_tree: rollup_tree shard_roll run_roll
  by unfold_locales (simp_all add: shard_roll_contract run_roll_contract)

section \<open>Runs and their trials\<close>

definition run_trial_ids :: "run_lock \<Rightarrow> string list" where
  "run_trial_ids r = concat (map (\<lambda>s. map tl_trial_id (sl_trials s)) (rl_shards r))"

definition trial_status_of :: "recovery_projection \<Rightarrow> string \<Rightarrow> node_status option" where
  "trial_status_of p i = map_option tr_status (map_of (rv_trials p) i)"

lemma derive_shards_get:
  assumes "derive_shards shards trials = Inr d"
  shows "map_of shards k = Some x \<Longrightarrow>
      \<exists>st. aggregate_shard x trials = Inr st \<and> map_of d k = Some (x\<lparr>sh_status := st\<rparr>)"
    and "map_of d k = Some y \<Longrightarrow> \<exists>x st. map_of shards k = Some x \<and>
      aggregate_shard x trials = Inr st \<and> y = x\<lparr>sh_status := st\<rparr>"
    and "dict_keys d = dict_keys shards"
proof -
  have run: "mapM (\<lambda>(k, x). rbind (rbind (aggregate_shard x trials) (\<lambda>st. Inr (x\<lparr>sh_status := st\<rparr>)))
      (\<lambda>x'. Inr (k, x'))) shards = Inr d"
    using assms by (simp add: derive_shards_def rbind_assoc)
  show "map_of shards k = Some x \<Longrightarrow>
      \<exists>st. aggregate_shard x trials = Inr st \<and> map_of d k = Some (x\<lparr>sh_status := st\<rparr>)"
    using mapM_keyed_get(1) [OF run] by (fastforce simp: result_simps)
  show "map_of d k = Some y \<Longrightarrow> \<exists>x st. map_of shards k = Some x \<and>
      aggregate_shard x trials = Inr st \<and> y = x\<lparr>sh_status := st\<rparr>"
    using mapM_keyed_get(2) [OF run] by (fastforce simp: result_simps)
  show "dict_keys d = dict_keys shards" using mapM_keyed(1) [OF run] .
qed

lemma derive_runs_get:
  assumes "derive_runs runs shards = Inr d"
  shows "map_of runs k = Some x \<Longrightarrow>
      \<exists>st. aggregate_run x shards = Inr st \<and> map_of d k = Some (x\<lparr>ru_status := st\<rparr>)"
    and "map_of d k = Some y \<Longrightarrow> \<exists>x st. map_of runs k = Some x \<and>
      aggregate_run x shards = Inr st \<and> y = x\<lparr>ru_status := st\<rparr>"
    and "dict_keys d = dict_keys runs"
proof -
  have run: "mapM (\<lambda>(k, x). rbind (rbind (aggregate_run x shards) (\<lambda>st. Inr (x\<lparr>ru_status := st\<rparr>)))
      (\<lambda>x'. Inr (k, x'))) runs = Inr d"
    using assms by (simp add: derive_runs_def rbind_assoc)
  show "map_of runs k = Some x \<Longrightarrow>
      \<exists>st. aggregate_run x shards = Inr st \<and> map_of d k = Some (x\<lparr>ru_status := st\<rparr>)"
    using mapM_keyed_get(1) [OF run] by (fastforce simp: result_simps)
  show "map_of d k = Some y \<Longrightarrow> \<exists>x st. map_of runs k = Some x \<and>
      aggregate_run x shards = Inr st \<and> y = x\<lparr>ru_status := st\<rparr>"
    using mapM_keyed_get(2) [OF run] by (fastforce simp: result_simps)
  show "dict_keys d = dict_keys runs" using mapM_keyed(1) [OF run] .
qed

text \<open>Children looked up in a dictionary, as the aggregations do.\<close>

lemma lookup_children:
  assumes "mapM (\<lambda>i. of_option e (map_of d i)) ids = Inr vs"
  shows "map (map_of d) ids = map Some vs"
  using assms by (induction ids arbitrary: vs) (auto simp: result_simps)

lemma aggregate_shard_statuses:
  assumes "aggregate_shard x trials = Inr st"
  obtains cs where "map (\<lambda>i. map_option tr_status (map_of trials i)) (sh_trial_ids x) = map Some cs"
    and "shard_roll (sh_observed_status x) cs = Inr st"
proof -
  from assms obtain ts where ts: "mapM (\<lambda>i. of_option Missing_key (map_of trials i)) (sh_trial_ids x) = Inr ts"
    "shard_roll (sh_observed_status x) (map tr_status ts) = Inr st"
    by (auto simp: aggregate_shard_roll result_simps)
  from lookup_children [OF ts(1)] have "map (map_option tr_status) (map (map_of trials) (sh_trial_ids x))
      = map (map_option tr_status) (map Some ts)" by simp
  then have "map (\<lambda>i. map_option tr_status (map_of trials i)) (sh_trial_ids x) = map Some (map tr_status ts)"
    by (simp add: comp_def)
  with ts(2) show ?thesis by (rule that [rotated])
qed

lemma aggregate_run_statuses:
  assumes "aggregate_run x shards = Inr st"
  obtains ss where "map (map_of shards) (ru_shard_ids x) = map Some ss"
    and "run_roll (ru_observed_status x) (map sh_status ss) = Inr st"
  using assms by (auto simp: aggregate_run_roll result_simps dest: lookup_children intro: that)

lemma initial_get:
  assumes "lock_ids_distinct lock" and "r \<in> set (cl_runs lock)"
  shows "map_of (rs_runs (initial_projections lock)) (rl_run_id r) = Some (initial_run r)"
    and "s \<in> set (rl_shards r) \<Longrightarrow>
      map_of (rs_shards (initial_projections lock)) (sl_shard_id s) = Some (initial_shard (rl_run_id r) s)"
proof -
  let ?runs = "map (\<lambda>r. (rl_run_id r, initial_run r)) (cl_runs lock)"
  let ?shards = "concat (map (\<lambda>r. map (\<lambda>s. (sl_shard_id s, initial_shard (rl_run_id r) s)) (rl_shards r))
    (cl_runs lock))"
  have "distinct (dict_keys ?runs)" using assms(1) by (simp add: lock_ids_distinct_def comp_def)
  then have "map_of (mk_dict ?runs) (rl_run_id r) = Some (initial_run r)"
    using assms(2) by (simp add: mk_dict_distinct)
  then show "map_of (rs_runs (initial_projections lock)) (rl_run_id r) = Some (initial_run r)"
    by (simp add: initial_projections_def)
  have "dict_keys ?shards = lock_shard_ids lock"
    by (simp add: lock_shard_ids_def lock_shards_def map_concat comp_def)
  then have d: "distinct (dict_keys ?shards)" using assms(1) by (simp add: lock_ids_distinct_def)
  assume "s \<in> set (rl_shards r)"
  then have "(sl_shard_id s, initial_shard (rl_run_id r) s) \<in> set ?shards" using assms(2) by auto
  then have "map_of ?shards (sl_shard_id s) = Some (initial_shard (rl_run_id r) s)"
    using d by (rule map_of_is_SomeI [rotated])
  then show "map_of (rs_shards (initial_projections lock)) (sl_shard_id s) =
      Some (initial_shard (rl_run_id r) s)"
    using mk_dict_distinct [OF d] by (simp add: initial_projections_def)
qed

text \<open>The statuses of a run's shards are rolled up from those of their trials.\<close>

lemma project_recovery_tree:
  assumes "project_recovery h lock es = Inr p" and "lock_ids_distinct lock" and "r \<in> set (cl_runs lock)"
  obtains run css sts obs where "map_of (rv_runs p) (rl_run_id r) = Some run"
    and "map (trial_status_of p) (run_trial_ids r) = map Some (concat css)"
    and "list_all2 (\<lambda>cs st. \<exists>obs. shard_roll obs cs = Inr st) css sts"
    and "run_roll obs sts = Inr (ru_status run)"
proof -
  from assms(1) obtain s where s: "recovery_inv lock s"
    "derive_shards (rs_shards s) (rv_trials p) = Inr (rv_shards p)"
    "derive_runs (rs_runs s) (rv_shards p) = Inr (rv_runs p)"
    by (rule project_recovery_run)
  then have frames: "on_values run_frame (rs_runs (initial_projections lock)) = on_values run_frame (rs_runs s)"
    "on_values shard_frame (rs_shards (initial_projections lock)) = on_values shard_frame (rs_shards s)"
    by (simp_all add: recovery_inv_def framed_def)
  from on_values_eq_get [OF frames(1) initial_get(1) [OF assms(2,3)]] obtain x
    where x: "map_of (rs_runs s) (rl_run_id r) = Some x" "run_frame x = run_frame (initial_run r)" by blast
  from derive_runs_get(1) [OF s(3) x(1)] obtain st where st: "aggregate_run x (rv_shards p) = Inr st"
    "map_of (rv_runs p) (rl_run_id r) = Some (x\<lparr>ru_status := st\<rparr>)" by blast
  from aggregate_run_statuses [OF st(1)] obtain ss
    where ss: "map (map_of (rv_shards p)) (ru_shard_ids x) = map Some ss"
      "run_roll (ru_observed_status x) (map sh_status ss) = Inr st" by blast
  have "ru_shard_ids x = map sl_shard_id (rl_shards r)"
    using x(2) by (simp add: run_frame_eq initial_run_def)
  with ss(1) have l: "list_all2 (\<lambda>sh y. map_of (rv_shards p) (sl_shard_id sh) = Some y) (rl_shards r) ss"
    by (auto simp: list_eq_iff_nth_eq list_all2_conv_all_nth)
  have "list_all2 (\<lambda>sh y. \<exists>cs. map (trial_status_of p) (map tl_trial_id (sl_trials sh)) = map Some cs \<and>
      (\<exists>obs. shard_roll obs cs = Inr (sh_status y))) (rl_shards r) ss"
    using l
  proof (rule list.rel_mono_strong)
    fix sh y
    assume sh: "sh \<in> set (rl_shards r)" and y: "map_of (rv_shards p) (sl_shard_id sh) = Some y"
    from derive_shards_get(2) [OF s(2) y] obtain z stz where z: "map_of (rs_shards s) (sl_shard_id sh) = Some z"
      "aggregate_shard z (rv_trials p) = Inr stz" "y = z\<lparr>sh_status := stz\<rparr>" by blast
    from on_values_eq_get [OF frames(2) initial_get(2) [OF assms(2,3) sh]] z(1)
    have "shard_frame z = shard_frame (initial_shard (rl_run_id r) sh)" by auto
    then have "sh_trial_ids z = map tl_trial_id (sl_trials sh)"
      by (simp add: shard_frame_eq initial_shard_def)
    with z(2,3) show "\<exists>cs. map (trial_status_of p) (map tl_trial_id (sl_trials sh)) = map Some cs \<and>
      (\<exists>obs. shard_roll obs cs = Inr (sh_status y))"
      by (auto simp: trial_status_of_def comp_def elim!: aggregate_shard_statuses)
  qed
  then have "\<exists>css. map (trial_status_of p) (run_trial_ids r) = map Some (concat css) \<and>
      list_all2 (\<lambda>cs st. \<exists>obs. shard_roll obs cs = Inr st) css (map sh_status ss)"
    unfolding run_trial_ids_def
  proof (induction rule: list_all2_induct)
    case (Cons sh shs y ys)
    then obtain cs css where "map (trial_status_of p) (map tl_trial_id (sl_trials sh)) = map Some cs"
      "\<exists>obs. shard_roll obs cs = Inr (sh_status y)"
      "map (trial_status_of p) (concat (map (\<lambda>s. map tl_trial_id (sl_trials s)) shs)) = map Some (concat css)"
      "list_all2 (\<lambda>cs st. \<exists>obs. shard_roll obs cs = Inr st) css (map sh_status ys)" by blast
    then show ?case by (intro exI [of _ "cs # css"]) simp
  qed simp
  with st(2) ss(2) show ?thesis by (auto intro: that)
qed

section \<open>Counts\<close>

definition counts_total :: "projection_counts \<Rightarrow> int" where
  "counts_total c = pc_planned c + pc_active c + pc_retrying c + pc_complete c + pc_invalid c +
     pc_failed c + pc_cancelled c"

lemma count_status_Cons:
  "count_status st (t # ts) = (if tr_status t = st then 1 else 0) + count_status st ts"
  by (simp add: count_status_def)

lemma count_status_partition:
  assumes "\<forall>t \<in> set ts. trial_status_ok (tr_status t)"
  shows "count_status NS_planned ts + count_status NS_active ts + count_status NS_retry_wait ts +
    count_status NS_complete ts + count_status NS_invalid ts + count_status NS_failed_infrastructure ts +
    count_status NS_cancelled ts = int (length ts)"
  using assms
proof (induction ts)
  case (Cons t ts)
  then have "trial_status_ok (tr_status t)" by simp
  with Cons show ?case
    by (cases "tr_status t") (simp_all add: count_status_Cons trial_status_ok_def)
qed (simp add: count_status_def)

lemma counts_total_projection:
  assumes "values_all (\<lambda>t. trial_status_ok (tr_status t)) trials"
  shows "counts_total (projection_counts_of trials) = int (length trials)"
  using count_status_partition [of "dict_values trials"] assms
  by (simp add: counts_total_def projection_counts_of_def Let_def values_all_def)

lemma counts_total_terminal: "counts_total (terminal_counts c counts) = counts_total counts"
  by (simp add: counts_total_def terminal_counts_def)

lemma project_recovery_trial_statuses:
  assumes "project_recovery h lock es = Inr p"
  shows "values_all (\<lambda>t. trial_status_ok (tr_status t)) (rv_trials p)"
  using project_recovery_trials [OF assms]
  by (auto simp: trials_at_def trial_at_def trial_wf_def values_all_def)

section \<open>The terminal decision\<close>

definition trial_settled :: "bool \<Rightarrow> trial_projection \<Rightarrow> bool" where
  "trial_settled cancelling t \<longleftrightarrow>
     node_terminal (tr_status t) \<or> (cancelling \<and> tr_status t \<in> {NS_planned, NS_retry_wait})"

lemma not_terminal_recorded: "\<not> campaign_terminal s \<longleftrightarrow> recorded_status s = None"
  by (cases s) (simp_all add: campaign_terminal_def)

lemma terminal_decision_some:
  assumes "\<not> campaign_terminal (cp_status c)"
  shows "terminal_decision_of lock c runs trials waves counts \<noteq> None \<longleftrightarrow>
    cleanup_is_complete c waves \<and>
    list_all (trial_settled (cp_status c \<in> {CS_cancel_requested, CS_draining})) (dict_values trials)"
  using assms
  unfolding terminal_decision_of_def not_terminal_recorded trial_settled_def [abs_def] Let_def
  by simp

lemma decision_fields [simp]:
  "td_status (decision lock st c r) = st" "td_counts (decision lock st c r) = c"
  by (simp_all add: decision_def)

lemma terminal_decision_counts:
  assumes "terminal_decision_of lock c runs trials waves counts = Some d"
  shows "td_counts d = terminal_counts c counts"
  using assms
  by (auto simp: terminal_decision_of_def Let_def split: option.splits if_splits)

lemma terminal_decision_completed:
  assumes "terminal_decision_of lock c runs trials waves counts = Some d" and "td_status d = TS_completed"
    and "\<not> campaign_terminal (cp_status c)"
  shows "runs \<noteq> [] \<and> values_all (\<lambda>r. ru_status r = NS_complete) runs"
  using assms
  by (auto simp: terminal_decision_of_def not_terminal_recorded Let_def values_all_def list_all_iff
      split: if_splits)

section \<open>Sealing\<close>

lemma derive_shards_idem:
  assumes "derive_shards d trials = Inr d'"
  shows "derive_shards d' trials = Inr d'"
proof -
  have same: "aggregate_shard (x\<lparr>sh_status := st\<rparr>) trials = aggregate_shard x trials" for x st
    by (simp add: aggregate_shard_roll)
  from assms show ?thesis
    unfolding derive_shards_def
    by (induction d arbitrary: d') (auto simp: result_simps same)
qed

lemma derive_runs_idem:
  assumes "derive_runs d shards = Inr d'"
  shows "derive_runs d' shards = Inr d'"
proof -
  have same: "aggregate_run (x\<lparr>ru_status := st\<rparr>) shards = aggregate_run x shards" for x st
    by (simp add: aggregate_run_roll)
  from assms show ?thesis
    unfolding derive_runs_def
    by (induction d arbitrary: d') (auto simp: result_simps same)
qed

definition seal_trial :: "string \<times> trial_projection \<Rightarrow> recovery_error + (string \<times> trial_projection)" where
  "seal_trial kt =
     (case kt of (k, t) \<Rightarrow>
       if scored_terminal (tr_status t) then Inr (k, t)
       else rbind (seal_retry_wait_trial t) (\<lambda>t'. Inr (k, t')))"

lemma seal_trial_Inr:
  assumes "seal_trial (k, t) = Inr (k', t')"
  shows "k' = k \<and> scored_terminal (tr_status t') \<and> (scored_terminal (tr_status t) \<longrightarrow> t' = t) \<and>
    (tr_status t' = NS_complete \<longleftrightarrow> tr_status t = NS_complete)"
  using assms
  by (auto simp: seal_trial_def seal_retry_wait_trial_def result_simps scored_terminal_def
      split: if_splits option.splits)

lemma seal_trials:
  assumes "mapM seal_trial d = Inr d'"
  shows "mapM seal_trial d' = Inr d'" and "values_all (\<lambda>t. scored_terminal (tr_status t)) d'"
    and "map_of d' k = Some t' \<Longrightarrow> \<exists>t. map_of d k = Some t \<and>
      (tr_status t' = NS_complete \<longleftrightarrow> tr_status t = NS_complete)"
proof -
  from assms have l: "list_all2 (\<lambda>x y. seal_trial x = Inr y) d d'" by (simp add: mapM_Inr_iff)
  have fixed: "seal_trial (k, t) = Inr (k, t)" if "scored_terminal (tr_status t)" for k t
    using that by (simp add: seal_trial_def)
  from l show scored: "values_all (\<lambda>t. scored_terminal (tr_status t)) d'"
    by (induction rule: list_all2_induct) (auto simp: values_all_def dest!: seal_trial_Inr)
  then show "mapM seal_trial d' = Inr d'"
    by (induction d') (auto simp: values_all_def fixed)
  from l show "map_of d' k = Some t' \<Longrightarrow> \<exists>t. map_of d k = Some t \<and>
      (tr_status t' = NS_complete \<longleftrightarrow> tr_status t = NS_complete)"
    by (induction rule: list_all2_induct) (auto dest!: seal_trial_Inr split: if_splits)
qed

lemma seal_partial_Inr:
  assumes "seal_partial_projection p = Inr q"
  obtains trials shards runs d where "rv_terminal_decision p = Some d" and "cp_status (rv_campaign p) = CS_partial"
    and "td_status d = TS_partial" and "\<not> (\<exists>w \<in> set (dict_values (rv_waves p)). wv_status w \<noteq> WS_closed)"
    and "mapM seal_trial (rv_trials p) = Inr trials"
    and "derive_shards (rv_shards p) trials = Inr shards" and "derive_runs (rv_runs p) shards = Inr runs"
    and "\<not> (\<exists>r \<in> set (dict_values runs). ru_status r \<noteq> NS_complete)"
    and "q = p\<lparr>rv_runs := runs, rv_shards := shards, rv_trials := trials,
               rv_counts := projection_counts_of trials\<rparr>"
proof -
  have f: "(\<lambda>(k, t). if scored_terminal (tr_status t) then Inr (k, t)
      else rbind (seal_retry_wait_trial t) (\<lambda>t'. Inr (k, t'))) = seal_trial"
    by (auto simp: seal_trial_def fun_eq_iff)
  from assms obtain d where d: "rv_terminal_decision p = Some d"
    by (auto simp: seal_partial_projection_def split: option.splits)
  with assms show ?thesis
    unfolding seal_partial_projection_def f
    by (auto simp: result_simps simp del: set_map intro: that split: if_splits)
qed

lemma seal_partial_intro:
  assumes "rv_terminal_decision p = Some d" and "cp_status (rv_campaign p) = CS_partial"
    and "td_status d = TS_partial" and "\<not> (\<exists>w \<in> set (dict_values (rv_waves p)). wv_status w \<noteq> WS_closed)"
    and "mapM seal_trial (rv_trials p) = Inr trials"
    and "derive_shards (rv_shards p) trials = Inr shards" and "derive_runs (rv_runs p) shards = Inr runs"
    and "\<not> (\<exists>r \<in> set (dict_values runs). ru_status r \<noteq> NS_complete)"
  shows "seal_partial_projection p = Inr (p\<lparr>rv_runs := runs, rv_shards := shards, rv_trials := trials,
               rv_counts := projection_counts_of trials\<rparr>)"
proof -
  have f: "(\<lambda>(k, t). if scored_terminal (tr_status t) then Inr (k, t)
      else rbind (seal_retry_wait_trial t) (\<lambda>t'. Inr (k, t'))) = seal_trial"
    by (auto simp: seal_trial_def fun_eq_iff)
  show ?thesis
    unfolding seal_partial_projection_def f using assms by simp
qed

lemma counts_all_scored:
  assumes "values_all (\<lambda>t. scored_terminal (tr_status t)) trials"
  shows "pc_planned (projection_counts_of trials) = 0 \<and> pc_active (projection_counts_of trials) = 0 \<and>
    pc_retrying (projection_counts_of trials) = 0 \<and> pc_cancelled (projection_counts_of trials) = 0"
  using assms
  by (auto simp: projection_counts_of_def Let_def count_status_def values_all_def scored_terminal_def
      filter_empty_conv)

section \<open>Cancellation requests\<close>

lemma ordered_find_cancel:
  assumes "ordered_events es = Inr r"
  shows "List.find P r = None \<longleftrightarrow> (\<forall>e \<in> set es. \<not> P e)"
  using ordered_events_Inr(1) [OF assms] by (auto simp: find_None_iff)

lemma cancellation_created:
  assumes "durable_cancellation_event h lock es reason now = Inr (e, True)"
  shows "ev_kind e = Campaign_event CK_cancel_requested" and "ev_subject_type e = ST_campaign"
    and "ev_subject_id e = cl_campaign_id lock"
    and "\<forall>x \<in> set es. ev_kind x \<noteq> Campaign_event CK_cancel_requested"
  using assms
  by (auto simp: durable_cancellation_event_def result_simps new_event_def ordered_find_cancel
      split: option.splits)

lemma cancellation_existing:
  assumes "durable_cancellation_event h lock es reason now = Inr (e, False)"
  obtains r where "ordered_events es = Inr r"
    and "List.find (\<lambda>e. ev_kind e = Campaign_event CK_cancel_requested) r = Some e"
  using assms by (auto simp: durable_cancellation_event_def result_simps split: option.splits)

end
