(* ===== verification/Control_Properties.thy ===== *)
theory Control_Properties
  imports Control_Projection Sample_Campaign
begin

text \<open>
  The properties of the event log and the campaign projection: canonical order, monotone
  status, permanent cancellation, terminal events, action finality and payload safety, each
  with its witness on the sample campaign.
\<close>

section \<open>Properties\<close>

text \<open>
  The canonical order of a log holds exactly the given records, without duplicates and
  sorted by observation time and identifier; it fails exactly when two different records
  share an identifier.
\<close>

theorem ordered_events_canonical:
  "case ordered_events es of
     Inr r \<Rightarrow> set r = set es \<and> distinct r \<and> sorted (map event_key r) \<and> inj_on ev_event_id (set es)
   | Inl c \<Rightarrow> c = Event_id_conflict \<and> \<not> inj_on ev_event_id (set es)"
  using ordered_events_Inr [of es] ordered_events_Inl [of es]
  by (cases "ordered_events es") auto

lemma resume_status_le: "manual_inv s p r \<Longrightarrow> resume_status s p \<le> s"
  by (cases s) (auto simp: manual_inv_def resume_status_def status_order)

lemma resume_status_direct: "s \<noteq> CS_manual_intervention \<Longrightarrow> resume_status s p = s"
  by (simp add: resume_status_def)

lemma terminal_kind_step:
  assumes "project_step lock s e = Inr t" and "ev_subject_type e = ST_campaign"
    and "ev_kind e = Campaign_event k" and "k \<in> {CK_completed, CK_partial, CK_failed, CK_cancelled}"
  shows "campaign_terminal (ps_status t)"
  using assms(1)
proof (cases rule: project_step_cases)
  case (campaign k' reqs status)
  with assms(3,4) apply_event_status(1) [OF campaign(4,7)] show ?thesis
    by (auto simp: campaign_terminal_def)
qed (use assms in auto)

text \<open>Two projections, the second of a log that continues the first.\<close>

lemma project_campaign_continued:
  assumes "project_campaign lock es = Inr p" and "project_campaign lock es' = Inr p'"
    and "ordered_events es = Inr old" and "ordered_events es' = Inr (old @ new)"
  obtains rest s t where "foldM (project_step lock) initial_projection_state rest = Inr s"
    and "foldM (project_step lock) s new = Inr t" and "projection_inv s" and "projection_inv t"
    and "cp_status p = ps_status s" and "cp_actions p = ps_actions s"
    and "cp_status p' = ps_status t" and "cp_actions p' = ps_actions t"
proof -
  from project_campaign_run [OF assms(1)] assms(3) obtain first rest s
    where a: "old = first # rest" "foldM (project_step lock) initial_projection_state rest = Inr s"
      "projection_inv s" "cp_status p = ps_status s" "cp_actions p = ps_actions s"
    by (metis sum.inject(2))
  from project_campaign_run [OF assms(2)] assms(4) obtain first' rest' t
    where b: "old @ new = first' # rest'" "foldM (project_step lock) initial_projection_state rest' = Inr t"
      "projection_inv t" "cp_status p' = ps_status t" "cp_actions p' = ps_actions t"
    by (metis sum.inject(2))
  from a(1) b(1) have "rest' = rest @ new" by simp
  with a(2) b(2) have "foldM (project_step lock) s new = Inr t" by (simp add: foldM_append)
  with a b show ?thesis by (intro that)
qed

text \<open>
  As a log grows, the campaign status never moves backwards in the order queued,
  active, cancel requested, draining, manual intervention, terminal: the one exception is
  leaving a manual intervention.
\<close>

theorem campaign_status_advances:
  assumes "project_campaign lock es = Inr p" and "project_campaign lock es' = Inr p'"
    and "ordered_events es = Inr old" and "ordered_events es' = Inr (old @ new)"
    and "cp_status p \<noteq> CS_manual_intervention"
  shows "cp_status p \<le> cp_status p'"
  using assms(1-4)
proof (rule project_campaign_continued)
  fix rest s t
  assume s: "foldM (project_step lock) s new = Inr t" "projection_inv s" "projection_inv t"
    "cp_status p = ps_status s" "cp_status p' = ps_status t"
  have "cp_status p = effective_status s" using assms(5) s(4) by (simp add: resume_status_direct)
  also have "\<dots> \<le> effective_status t" using s(2,1) by (rule effective_status_mono)
  also have "\<dots> \<le> cp_status p'" using resume_status_le [OF s(3)] s(5) by simp
  finally show ?thesis .
qed

text \<open>
  Cancellation is permanent: when the log holds a cancellation request, the campaign is
  neither queued nor active, whatever was observed before or after it.
\<close>

theorem cancellation_is_permanent:
  assumes "project_campaign lock es = Inr p" and "e \<in> set es"
    and "ev_kind e = Campaign_event CK_cancel_requested" and "ev_subject_type e = ST_campaign"
  shows "cp_status p \<notin> {CS_queued, CS_active}"
  using assms(1)
proof (rule project_campaign_run)
  fix first rest s
  assume r: "ordered_events es = Inr (first # rest)" "submission_matches lock first"
    "foldM (project_step lock) initial_projection_state rest = Inr s" "projection_inv s"
    "cp_status p = ps_status s"
  have "e \<in> set (first # rest)" using ordered_events_Inr(1) [OF r(1)] assms(2) by simp
  moreover have "e \<noteq> first" using r(2) assms(3) by (auto simp: submission_matches_def)
  ultimately have "CS_cancel_requested \<le> effective_status s"
    using cancelled_run [OF projection_inv_init r(3)] assms(3,4) by simp
  with resume_status_le [OF r(4)] have "CS_cancel_requested \<le> cp_status p"
    using r(5) by (simp add: order_trans)
  then show ?thesis by (auto simp: status_order)
qed

definition final_event :: "event \<Rightarrow> bool" where
  "final_event e \<longleftrightarrow> ev_subject_type e = ST_campaign \<and>
     ev_kind e \<in> Campaign_event ` {CK_completed, CK_partial, CK_failed, CK_cancelled}"

lemma final_event_stops:
  assumes "foldM (project_step lock) s (xs @ e # ys) = Inr t" and "final_event e"
  shows "ys = []"
proof (cases ys)
  case (Cons y ys')
  with assms(1) have "foldM (project_step lock) s ((xs @ [e]) @ y # ys') = Inr t" by simp
  from terminal_stops [OF this] obtain u v where "foldM (project_step lock) s xs = Inr v"
    "project_step lock v e = Inr u" "\<not> campaign_terminal (ps_status u)"
    by (auto simp: result_simps)
  with terminal_kind_step assms(2) show ?thesis by (fastforce simp: final_event_def)
qed

lemma final_event_step:
  assumes "projection_inv s" and "foldM (project_step lock) s (xs @ [e]) = Inr t"
  shows "campaign_terminal (ps_status t) \<longleftrightarrow> final_event e"
    and "final_event e \<Longrightarrow> ev_kind e = Campaign_event k \<Longrightarrow> ps_status t = terminal_kind_status k"
proof -
  from assms(2) obtain u where u: "foldM (project_step lock) s xs = Inr u" "project_step lock u e = Inr t"
    by (auto simp: result_simps)
  have inv: "projection_inv u" using campaign_loop.run_inv [OF assms(1) u(1)] .
  have subject: "ev_subject_type e = ST_campaign" if "campaign_terminal (ps_status t)"
    using u(2) that by (cases rule: project_step_cases) auto
  show iff: "campaign_terminal (ps_status t) \<longleftrightarrow> final_event e"
    using terminal_step [OF inv u(2)] terminal_kind_step [OF u(2)] subject
    by (auto simp: final_event_def)
  show "ps_status t = terminal_kind_status k" if "final_event e" "ev_kind e = Campaign_event k"
    using terminal_step [OF inv u(2)] iff that by auto
qed

text \<open>
  A campaign is terminal exactly when the last record of the log is a final campaign
  event, and then the status is the one that event names; no earlier record is one.
\<close>

theorem terminal_iff_final_event_last:
  assumes "project_campaign lock es = Inr p" and "ordered_events es = Inr r"
  shows "(campaign_terminal (cp_status p) \<longleftrightarrow> final_event (last r)) \<and>
    (\<forall>k. final_event (last r) \<and> ev_kind (last r) = Campaign_event k \<longrightarrow>
       cp_status p = terminal_kind_status k) \<and>
    (\<forall>e \<in> set (butlast r). \<not> final_event e)"
  using assms(1)
proof (rule project_campaign_run)
  fix first rest s
  assume a: "ordered_events es = Inr (first # rest)" "submission_matches lock first"
    "foldM (project_step lock) initial_projection_state rest = Inr s" "cp_status p = ps_status s"
  have r: "r = first # rest" using a(1) assms(2) by simp
  have first: "\<not> final_event first" using a(2) by (auto simp: submission_matches_def final_event_def)
  show ?thesis
  proof (cases rest rule: rev_cases)
    case Nil
    with a(3,4) first show ?thesis
      by (auto simp: r initial_projection_state_def campaign_terminal_def)
  next
    case (snoc xs e)
    have "\<not> final_event x" if x: "x \<in> set xs" for x
    proof
      assume f: "final_event x"
      from x obtain us vs where "xs = us @ x # vs" by (auto dest: split_list)
      with a(3) snoc final_event_stops [of lock _ us x "vs @ [e]", OF _ f] show False by simp
    qed
    with snoc first a(4) final_event_step [OF projection_inv_init a(3) [unfolded snoc]]
    show ?thesis by (auto simp: r butlast_append)
  qed
qed

text \<open>
  Actions are append-only facts: once reserved, an action keeps its identity, kind and
  targets as the log grows, and an action that succeeded or failed never changes again.
\<close>

theorem action_identity_and_finality:
  assumes "project_campaign lock es = Inr p" and "project_campaign lock es' = Inr p'"
    and "ordered_events es = Inr old" and "ordered_events es' = Inr (old @ new)"
    and "map_of (cp_actions p) i = Some a"
  shows "\<exists>b. map_of (cp_actions p') i = Some b \<and> ap_action_id b = i \<and>
    ap_action_key b = ap_action_key a \<and> ap_action_kind b = ap_action_kind a \<and>
    ap_target_ids b = ap_target_ids a \<and>
    (ap_status a \<in> {AS_succeeded, AS_failed} \<longrightarrow> b = a)"
  using assms(1-4)
proof (rule project_campaign_continued)
  fix rest s t
  assume s: "foldM (project_step lock) initial_projection_state rest = Inr s"
    "foldM (project_step lock) s new = Inr t"
    "cp_actions p = ps_actions s" "cp_actions p' = ps_actions t"
  have ok: "actions_ok (ps_actions s)"
    using action_trace.run_inv [OF _ s(1)]
    by (simp add: initial_projection_state_def actions_ok_def)
  then have "ap_action_id a = i" using assms(5) s(3) by (simp add: actions_ok_def)
  moreover have "action_move\<^sup>*\<^sup>* (Some a) (map_of (cp_actions p') i)"
    using action_trace.run_move [OF ok s(2), of i] assms(5) s(3,4) by simp
  ultimately show ?thesis using action_moves_identity by fastforce
qed

text \<open>
  Projecting validated records never reads a field the payload does not have, provided
  no spend record is addressed to the campaign itself.
\<close>

theorem projection_casts_are_safe:
  assumes "\<forall>e \<in> set es. projectable e"
  shows "project_campaign lock es \<noteq> Inl Payload_type_error"
proof (cases "ordered_events es")
  case (Inl c)
  then show ?thesis using ordered_events_Inl [of es c] by (auto simp: project_campaign_def)
next
  case (Inr r)
  have "foldM (project_step lock) s rest \<noteq> Inl Payload_type_error" if "set rest \<subseteq> set es" for s rest
    using assms that project_step_payload by (intro foldM_no_error) blast
  with Inr ordered_events_Inr(1) [OF Inr] show ?thesis
    by (cases r) (auto simp: project_campaign_def rbind_Inl_iff)
qed

text \<open>
  The record the validator should reject: a valid spend record whose subject is the
  campaign makes the projection of any live campaign crash with a payload type error.
\<close>

theorem campaign_spend_record_crashes:
  assumes "event_ok e" and "ev_kind e = Spend_recorded" and "ev_subject_type e = ST_campaign"
    and "ev_subject_id e = cl_campaign_id lock" and "\<not> campaign_terminal (ps_status s)"
  shows "project_step lock s e = Inl Payload_type_error"
proof -
  from assms(1,2) obtain p where "ev_payload e = Spend_payload p"
    by (cases "ev_payload e") (auto simp: event_ok_def)
  with assms(2-5) show ?thesis
    by (simp add: project_step_def update_manual_requirements_def apply_event_def
        apply_action_event_def Let_def)
qed

section \<open>Witnesses\<close>

definition projects :: "campaign_lock \<Rightarrow> event list \<Rightarrow> (campaign_projection \<Rightarrow> bool) \<Rightarrow> bool" where
  "projects lock es P = (case project_campaign lock es of Inl _ \<Rightarrow> False | Inr p \<Rightarrow> P p)"

lemma projects_D: "projects lock es P \<Longrightarrow> \<exists>p. project_campaign lock es = Inr p \<and> P p"
  by (cases "project_campaign lock es") (auto simp: projects_def)

theorem cancellation_is_permanent_witness:
  "\<exists>p. project_campaign sample_lock [sample_submitted, sample_reserved 2, sample_cancel 3] = Inr p \<and>
     cp_status p \<notin> {CS_queued, CS_active}"
proof -
  have "projects sample_lock [sample_submitted, sample_reserved 2, sample_cancel 3] (\<lambda>_. True)"
    by code_simp
  then obtain p where p: "project_campaign sample_lock
      [sample_submitted, sample_reserved 2, sample_cancel 3] = Inr p"
    by (auto dest: projects_D)
  with cancellation_is_permanent [OF p, of "sample_cancel 3"] show ?thesis
    by (simp add: sample_cancel_def sample_event_def)
qed

lemma sample_ordered:
  "ordered_events [sample_submitted] = Inr [sample_submitted]"
  "ordered_events [sample_submitted, sample_reserved 2] = Inr [sample_submitted, sample_reserved 2]"
  "ordered_events [sample_submitted, sample_reserved 2, sample_action_done 3 AS_succeeded] =
     Inr ([sample_submitted, sample_reserved 2] @ [sample_action_done 3 AS_succeeded])"
  "ordered_events [sample_submitted, sample_cancel 2, sample_terminal 3 CK_cancelled] =
     Inr [sample_submitted, sample_cancel 2, sample_terminal 3 CK_cancelled]"
  by code_simp+

theorem campaign_status_advances_witness:
  "\<exists>p p'. project_campaign sample_lock [sample_submitted, sample_reserved 2] = Inr p \<and>
     project_campaign sample_lock
       [sample_submitted, sample_reserved 2, sample_action_done 3 AS_succeeded] = Inr p' \<and>
     cp_status p \<noteq> CS_manual_intervention \<and> cp_status p \<le> cp_status p'"
proof -
  have "projects sample_lock [sample_submitted, sample_reserved 2]
      (\<lambda>p. cp_status p = CS_active)"
    "projects sample_lock [sample_submitted, sample_reserved 2, sample_action_done 3 AS_succeeded]
      (\<lambda>_. True)" by code_simp+
  then obtain p p' where p: "project_campaign sample_lock [sample_submitted, sample_reserved 2] = Inr p"
    "project_campaign sample_lock
       [sample_submitted, sample_reserved 2, sample_action_done 3 AS_succeeded] = Inr p'"
    and "cp_status p = CS_active"
    by (blast dest: projects_D)
  with campaign_status_advances [OF p sample_ordered(2,3)] show ?thesis by auto
qed

theorem terminal_iff_final_event_last_witness:
  "\<exists>p. project_campaign sample_lock [sample_submitted, sample_cancel 2, sample_terminal 3 CK_cancelled]
       = Inr p \<and> campaign_terminal (cp_status p) \<and> final_event (sample_terminal 3 CK_cancelled) \<and>
     \<not> final_event (sample_cancel 2)"
proof -
  have "projects sample_lock [sample_submitted, sample_cancel 2, sample_terminal 3 CK_cancelled]
      (\<lambda>_. True)" by code_simp
  then obtain p where p: "project_campaign sample_lock
      [sample_submitted, sample_cancel 2, sample_terminal 3 CK_cancelled] = Inr p"
    by (auto dest: projects_D)
  have "final_event (sample_terminal 3 CK_cancelled)" by code_simp
  with p terminal_iff_final_event_last [OF p sample_ordered(4)] show ?thesis by auto
qed

theorem action_identity_and_finality_witness:
  "\<exists>p p' a b. project_campaign sample_lock [sample_submitted, sample_reserved 2] = Inr p \<and>
     project_campaign sample_lock
       [sample_submitted, sample_reserved 2, sample_action_done 3 AS_succeeded] = Inr p' \<and>
     map_of (cp_actions p) ''act-k'' = Some a \<and> map_of (cp_actions p') ''act-k'' = Some b \<and>
     ap_target_ids b = ap_target_ids a"
proof -
  have "projects sample_lock [sample_submitted, sample_reserved 2]
      (\<lambda>p. map_of (cp_actions p) ''act-k'' \<noteq> None)"
    "projects sample_lock [sample_submitted, sample_reserved 2, sample_action_done 3 AS_succeeded]
      (\<lambda>_. True)" by code_simp+
  then obtain p p' a where p: "project_campaign sample_lock [sample_submitted, sample_reserved 2] = Inr p"
    "project_campaign sample_lock
       [sample_submitted, sample_reserved 2, sample_action_done 3 AS_succeeded] = Inr p'"
    and a: "map_of (cp_actions p) ''act-k'' = Some a"
    by (blast dest: projects_D)
  with action_identity_and_finality [OF p sample_ordered(2,3) a] show ?thesis by blast
qed

theorem projection_casts_are_safe_witness:
  "list_all projectable [sample_submitted, sample_cancel 2] \<and>
   project_campaign sample_lock [sample_submitted, sample_cancel 2] \<noteq> Inl Payload_type_error"
proof -
  have ok: "list_all projectable [sample_submitted, sample_cancel 2]" by code_simp
  then have "\<forall>e \<in> set [sample_submitted, sample_cancel 2]. projectable e" by simp
  from projection_casts_are_safe [OF this] ok show ?thesis by blast
qed

definition sample_campaign_spend :: event where
  "sample_campaign_spend = sample_event ''evt-00000000000000000000000000000009'' 9 ST_campaign ''c''
     Spend_recorded (Spend_payload \<lparr>sp_amount_microusd = 5, sp_source_execution_id = None\<rparr>)"

theorem campaign_spend_record_crashes_witness:
  "event_ok sample_campaign_spend \<and>
   project_step sample_lock initial_projection_state sample_campaign_spend = Inl Payload_type_error"
proof -
  have "event_ok sample_campaign_spend" and "ev_kind sample_campaign_spend = Spend_recorded"
    and "ev_subject_type sample_campaign_spend = ST_campaign"
    and "ev_subject_id sample_campaign_spend = cl_campaign_id sample_lock"
    and "\<not> campaign_terminal (ps_status initial_projection_state)"
    by code_simp+
  with campaign_spend_record_crashes show ?thesis by blast
qed

end
