(* ===== verification/Reconciler_Candidates.thy ===== *)
theory Reconciler_Candidates
  imports Reconciler_Admission Recovery_Rollup Control_Properties
begin

text \<open>
  Facts about the candidates of \<open>reconciler.py\<close> and the plans made from them: grouping by
  deployment and slicing into waves, new waves, retries, cleanup, and the way from
  candidates to the actions of a plan.
\<close>

section \<open>Grouping\<close>

definition group_pairs :: "('k \<times> 'v) list \<Rightarrow> ('k, 'v list) dict" where
  "group_pairs ps = foldl (\<lambda>g (k, v). append_to k v g) [] ps"

lemma group_snoc: "group_pairs (ps @ [(k, v)]) = append_to k v (group_pairs ps)"
  by (simp add: group_pairs_def)

lemma group_dict:
  "dict_ok (group_pairs ps)" "set (dict_keys (group_pairs ps)) = fst ` set ps"
  "get_list (group_pairs ps) k = map snd (filter (\<lambda>x. fst x = k) ps)"
proof (induction ps rule: rev_induct)
  case (snoc p ps)
  obtain j v where p: "p = (j, v)" by (cases p)
  { case 1
    from snoc(1) show ?case by (simp add: p group_snoc append_to_def)
  next
    case 2
    from snoc(2) show ?case by (simp add: p group_snoc append_to_def keys_update)
  next
    case 3
    from snoc(3) show ?case
      by (auto simp: p group_snoc append_to_def get_list_def split: option.splits) }
qed (simp_all add: group_pairs_def get_list_def)

lemma get_list_group: "get_list (group_pairs ps) = (\<lambda>k. map snd (filter (\<lambda>x. fst x = k) ps))"
  by (rule ext) (rule group_dict(3))

lemma group_mem: "v \<in> set (map snd (filter (\<lambda>x. fst x = k) ps)) \<longleftrightarrow> (k, v) \<in> set ps"
  by force

lemma distinct_groups:
  assumes "distinct ks" and "distinct (map snd ps)"
  shows "distinct (concat (map (\<lambda>k. map snd (filter (\<lambda>x. fst x = k) ps)) ks))"
  using assms(1)
proof (induction ks)
  case (Cons k ks)
  have "set (map snd (filter (\<lambda>x. fst x = k) ps)) \<inter>
      set (concat (map (\<lambda>k. map snd (filter (\<lambda>x. fst x = k) ps)) ks)) = {}"
  proof -
    have "inj_on snd (set ps)" using assms(2) by (simp add: distinct_map)
    then have eq: "j = k" if "(k, v) \<in> set ps" "(j, v) \<in> set ps" for j v
      using that inj_onD [of snd "set ps" "(k, v)" "(j, v)"] by simp
    have "\<not> (\<exists>j \<in> set ks. (j, v) \<in> set ps)" if "(k, v) \<in> set ps" for v
      using eq [OF that] Cons.prems by auto
    then show ?thesis
      by (simp only: disjoint_iff group_mem set_concat set_map [of _ ks] UN_iff bex_simps) blast
  qed
  moreover have "distinct (map snd (filter (\<lambda>x. fst x = k) ps))"
    using assms(2) by (rule distinct_map_filter)
  ultimately show ?case using Cons by simp
qed simp

lemma groups_cover:
  "set (concat (map (\<lambda>k. map snd (filter (\<lambda>x. fst x = k) ps)) (sort (dict_keys (group_pairs ps))))) = snd ` set ps"
proof -
  have "fst ` set (group_pairs ps) = fst ` set ps" using group_dict(2) [of ps] by simp
  then have "set (concat (map (\<lambda>k. map snd (filter (\<lambda>x. fst x = k) ps)) (sort (dict_keys (group_pairs ps)))))
      = (\<Union>k \<in> fst ` set ps. snd ` {x \<in> set ps. fst x = k})" by simp
  also have "\<dots> = snd ` set ps" by auto
  finally show ?thesis .
qed

section \<open>New waves\<close>

lemma mset_concat_map: "mset (concat (map f xs)) = (\<Sum>x \<in># mset xs. mset (f x))"
  by (induction xs) auto

lemma sorted_lock_shards_mset: "mset (map snd (sorted_lock_shards lock)) = mset (lock_shard_ids lock)"
proof -
  have "map snd (sorted_lock_shards lock) =
      concat (map (\<lambda>r. map sl_shard_id (sort_key sl_shard_id (rl_shards r))) (sort_key rl_run_id (cl_runs lock)))"
    by (simp add: sorted_lock_shards_def map_concat comp_def)
  moreover have "lock_shard_ids lock = concat (map (\<lambda>r. map sl_shard_id (rl_shards r)) (cl_runs lock))"
    by (simp add: lock_shard_ids_def lock_shards_def map_concat comp_def)
  ultimately show ?thesis by (simp only: mset_concat_map mset_sort mset_map)
qed

lemma sorted_lock_shards_ids:
  "set (map snd (sorted_lock_shards lock)) = set (lock_shard_ids lock)"
  "lock_ids_distinct lock \<Longrightarrow> distinct (map snd (sorted_lock_shards lock))"
  by (rule mset_eq_setD [OF sorted_lock_shards_mset])
    (metis sorted_lock_shards_mset mset_eq_imp_distinct_iff lock_ids_distinct_def)

lemma sorted_lock_shards_run:
  "(d, i) \<in> set (sorted_lock_shards lock) \<longleftrightarrow>
     (\<exists>r \<in> set (cl_runs lock). ra_deployment_digest r = d \<and> i \<in> sl_shard_id ` set (rl_shards r))"
  by (auto simp: sorted_lock_shards_def)

definition wave_pending :: "recovery_projection \<Rightarrow> string list \<Rightarrow> string \<Rightarrow> bool" where
  "wave_pending p assigned i \<longleftrightarrow>
     i \<notin> set assigned \<and>
     (case map_of (rv_shards p) i of None \<Rightarrow> False | Some s \<Rightarrow> sh_status s \<in> {NS_planned, NS_queued})"

lemma unassigned_groups_Inr:
  assumes "unassigned_groups lock p assigned = Inr g"
  shows "g = group_pairs (filter (\<lambda>x. wave_pending p assigned (snd x)) (sorted_lock_shards lock))"
proof -
  have "foldM (\<lambda>groups (d, i).
       rbind (of_option Missing_projection (map_of (rv_shards p) i)) (\<lambda>shard.
         Inr (if i \<notin> set assigned \<and> sh_status shard \<in> {NS_planned, NS_queued}
              then append_to d i groups else groups))) [] ps = Inr g \<Longrightarrow>
     g = group_pairs (filter (\<lambda>x. wave_pending p assigned (snd x)) ps)" for ps
  proof (induction ps arbitrary: g rule: rev_induct)
    case (snoc x ps)
    then show ?case
      by (cases x) (auto simp: result_simps wave_pending_def group_snoc split: if_splits)
  qed (simp add: group_pairs_def)
  with assms show ?thesis by (simp add: unassigned_groups_def)
qed

lemma new_wave_candidate_Inr:
  assumes "new_wave_candidate lock d adm chunk = Inr c"
  shows "ca_kind c = AK_submit_wave" and "ca_deployment_digest c = d" and "ca_shard_ids c = chunk"
    and "ca_target_ids c = chunk" and "ca_wave_id c = None" and "ca_trial_ids c = []"
    and "ca_estimated_cost_microusd c = da_estimated_wave_cost_microusd adm"
  using assms by (auto simp: new_wave_candidate_def result_simps)

lemma mapM_map_eq:
  assumes "mapM f xs = Inr ys" and "\<And>x y. f x = Inr y \<Longrightarrow> g y = x"
  shows "map g ys = xs"
  using assms(1) by (induction xs arbitrary: ys) (auto simp: result_simps assms(2))

lemma deployment_waves_Inr:
  assumes "rbind (deployment_admission_of lock ctx d) (\<lambda>admission.
      rbind (py_chunks e (cl_max_shards_per_wave lock) ids) (\<lambda>cs.
        mapM (new_wave_candidate lock d admission) cs)) = Inr ws"
    and "0 < cl_max_shards_per_wave lock"
  shows "concat (map ca_shard_ids ws) = ids"
    and "w \<in> set ws \<Longrightarrow> ca_kind w = AK_submit_wave \<and> ca_deployment_digest w = d \<and>
      ca_shard_ids w \<noteq> [] \<and> int (length (ca_shard_ids w)) \<le> cl_max_shards_per_wave lock \<and>
      ca_target_ids w = ca_shard_ids w"
proof -
  let ?n = "nat (cl_max_shards_per_wave lock)"
  from assms obtain admission where run: "mapM (new_wave_candidate lock d admission) (chunks ?n ids) = Inr ws"
    by (auto simp: result_simps)
  have chunks: "map ca_shard_ids ws = chunks ?n ids"
    using run by (rule mapM_map_eq) (rule new_wave_candidate_Inr(3))
  with concat_chunks [of ?n ids] assms(2) show "concat (map ca_shard_ids ws) = ids" by simp
  show "ca_kind w = AK_submit_wave \<and> ca_deployment_digest w = d \<and>
      ca_shard_ids w \<noteq> [] \<and> int (length (ca_shard_ids w)) \<le> cl_max_shards_per_wave lock \<and>
      ca_target_ids w = ca_shard_ids w" if w: "w \<in> set ws"
  proof -
    from mapM_memD [OF run w] obtain chunk where c: "chunk \<in> set (chunks ?n ids)"
      "new_wave_candidate lock d admission chunk = Inr w" by blast
    from chunks_bounds [OF c(1)] new_wave_candidate_Inr [OF c(2)] assms(2) show ?thesis by auto
  qed
qed

lemma mapM_concat:
  assumes "mapM f xs = Inr yss" and "\<And>x ys. x \<in> set xs \<Longrightarrow> f x = Inr ys \<Longrightarrow> concat (map g ys) = k x"
  shows "concat (map g (concat yss)) = concat (map k xs)"
  using assms by (induction xs arbitrary: yss) (auto simp: result_simps)

lemma new_wave_candidates_Inr:
  assumes "new_wave_candidates lock p ctx = Inr ws" and "0 < cl_max_shards_per_wave lock"
  obtains assigned ps where "assigned_shards lock p = Inr assigned"
    and "ps = filter (\<lambda>x. wave_pending p assigned (snd x)) (sorted_lock_shards lock)"
    and "concat (map ca_shard_ids ws) =
      concat (map (\<lambda>k. map snd (filter (\<lambda>x. fst x = k) ps)) (sort (dict_keys (group_pairs ps))))"
    and "\<forall>w \<in> set ws. ca_kind w = AK_submit_wave \<and> ca_shard_ids w \<noteq> [] \<and>
      int (length (ca_shard_ids w)) \<le> cl_max_shards_per_wave lock \<and> ca_target_ids w = ca_shard_ids w \<and>
      (\<forall>i \<in> set (ca_shard_ids w). (ca_deployment_digest w, i) \<in> set ps)"
proof -
  let ?f = "\<lambda>groups d. rbind (deployment_admission_of lock ctx d) (\<lambda>admission.
      rbind (py_chunks (Campaign_failure Range_step_zero) (cl_max_shards_per_wave lock)
         (get_list groups d)) (\<lambda>cs. mapM (new_wave_candidate lock d admission) cs))"
  from assms(1) obtain assigned groups wss where r: "assigned_shards lock p = Inr assigned"
    "unassigned_groups lock p assigned = Inr groups"
    "mapM (?f groups) (sort (dict_keys groups)) = Inr wss" "ws = concat wss"
    by (auto simp: new_wave_candidates_def result_simps)
  let ?ps = "filter (\<lambda>x. wave_pending p assigned (snd x)) (sorted_lock_shards lock)"
  have g: "groups = group_pairs ?ps" using unassigned_groups_Inr [OF r(2)] .
  have "concat (map ca_shard_ids ws) = concat (map (get_list groups) (sort (dict_keys groups)))"
    unfolding r(4) using r(3) deployment_waves_Inr(1) [OF _ assms(2)] by (rule mapM_concat)
  moreover have "ca_kind w = AK_submit_wave \<and> ca_shard_ids w \<noteq> [] \<and>
      int (length (ca_shard_ids w)) \<le> cl_max_shards_per_wave lock \<and> ca_target_ids w = ca_shard_ids w \<and>
      (\<forall>i \<in> set (ca_shard_ids w). (ca_deployment_digest w, i) \<in> set ?ps)" if "w \<in> set ws" for w
  proof -
    from that r(4) obtain ys where ys: "ys \<in> set wss" "w \<in> set ys" by auto
    from mapM_memD [OF r(3) ys(1)] obtain d where d: "?f groups d = Inr ys" by blast
    note w = deployment_waves_Inr [OF d assms(2)]
    have "set (ca_shard_ids w) \<subseteq> set (concat (map ca_shard_ids ys))" using ys(2) by auto
    then have "set (ca_shard_ids w) \<subseteq> set (get_list groups d)" unfolding w(1) .
    with w(2) [OF ys(2)] show ?thesis by (auto simp: g group_dict(3))
  qed
  ultimately show ?thesis
    using r(1) by (intro that [of assigned ?ps]) (simp_all only: g get_list_group, blast+)
qed

section \<open>Retries\<close>

definition queued ::
  "recovery_projection \<Rightarrow> int \<Rightarrow> retry_queue \<Rightarrow> trial_projection \<Rightarrow> bool" where
  "queued p now q t \<longleftrightarrow>
     tr_trial_id t \<notin> set (reserved_trial_ids p) \<and> retry_queue_of p t now = Inr (Some q)"

abbreviation trial_keys :: "trial_projection list \<Rightarrow> (string \<times> string) list" where
  "trial_keys ts \<equiv> map (\<lambda>t. (tr_shard_id t, tr_trial_id t)) ts"

lemma queue_trial_Inr:
  assumes "queue_trial p now (ready, waiting) t = Inr (ready', waiting')"
  shows "ready' = (if queued p now Queue_ready t then append_to (tr_shard_id t) (tr_trial_id t) ready else ready)"
    and "waiting' = (if queued p now Queue_waiting t then append_to (tr_shard_id t) (tr_trial_id t) waiting else waiting)"
  using assms
  by (auto simp: queue_trial_def queued_def result_simps split: if_splits option.splits retry_queue.splits)

lemma queues_Inr:
  assumes "foldM (queue_trial p now) ([], []) ts = Inr (ready, waiting)"
  shows "ready = group_pairs (trial_keys (filter (queued p now Queue_ready) ts)) \<and>
    waiting = group_pairs (trial_keys (filter (queued p now Queue_waiting) ts))"
  using assms
proof (induction ts arbitrary: ready waiting rule: rev_induct)
  case (snoc t ts)
  then obtain r w where r: "foldM (queue_trial p now) ([], []) ts = Inr (r, w)"
    "queue_trial p now (r, w) t = Inr (ready, waiting)" by (auto simp: result_simps)
  from snoc.IH [OF r(1)] queue_trial_Inr [OF r(2)] show ?case by (simp add: group_snoc)
qed (simp add: group_pairs_def)

lemma group_by_deployment_Inr:
  assumes "group_by_deployment lock ids = Inr g"
  shows "\<exists>ps. g = group_pairs ps \<and> map snd ps = ids \<and>
    (\<forall>(d, i) \<in> set ps. deployment_for_shards lock [i] = Inr d)"
  using assms
proof (induction ids arbitrary: g rule: rev_induct)
  case Nil
  then show ?case by (intro exI [of _ "[]"]) (simp add: group_by_deployment_def group_pairs_def)
next
  case (snoc i ids)
  then obtain g0 d where r: "group_by_deployment lock ids = Inr g0"
    "deployment_for_shards lock [i] = Inr d" "g = append_to d i g0"
    by (auto simp: group_by_deployment_def result_simps)
  from snoc.IH [OF r(1)] obtain ps where "g0 = group_pairs ps" "map snd ps = ids"
    "\<forall>(d, i) \<in> set ps. deployment_for_shards lock [i] = Inr d" by blast
  with r(2,3) show ?case by (intro exI [of _ "ps @ [(d, i)]"]) (simp add: group_snoc)
qed

lemma retry_candidate_Inr:
  assumes "retry_candidate lock d adm ready chunk = Inr c"
  shows "ca_kind c = AK_retry_shard" and "ca_deployment_digest c = d" and "ca_shard_ids c = chunk"
    and "ca_target_ids c = ca_trial_ids c" and "set (ca_trial_ids c) = set (concat (map (get_list ready) chunk))"
  using assms by (auto simp: retry_candidate_def result_simps Let_def)

lemma deployment_retries_Inr:
  assumes "rbind (deployment_admission_of lock ctx d) (\<lambda>admission.
      rbind (py_chunks e (cl_max_shards_per_wave lock) ids) (\<lambda>cs.
        mapM (retry_candidate lock d admission ready) cs)) = Inr ws"
    and "0 < cl_max_shards_per_wave lock"
  shows "concat (map ca_shard_ids ws) = ids"
    and "w \<in> set ws \<Longrightarrow> ca_kind w = AK_retry_shard \<and> ca_shard_ids w \<noteq> [] \<and>
      int (length (ca_shard_ids w)) \<le> cl_max_shards_per_wave lock \<and>
      set (ca_trial_ids w) = (\<Union>i \<in> set (ca_shard_ids w). set (get_list ready i))"
proof -
  let ?n = "nat (cl_max_shards_per_wave lock)"
  from assms obtain admission where run: "mapM (retry_candidate lock d admission ready) (chunks ?n ids) = Inr ws"
    by (auto simp: result_simps)
  have chunks: "map ca_shard_ids ws = chunks ?n ids"
    using run by (rule mapM_map_eq) (rule retry_candidate_Inr(3))
  with concat_chunks [of ?n ids] assms(2) show "concat (map ca_shard_ids ws) = ids" by simp
  show "ca_kind w = AK_retry_shard \<and> ca_shard_ids w \<noteq> [] \<and>
      int (length (ca_shard_ids w)) \<le> cl_max_shards_per_wave lock \<and>
      set (ca_trial_ids w) = (\<Union>i \<in> set (ca_shard_ids w). set (get_list ready i))" if w: "w \<in> set ws"
  proof -
    from mapM_memD [OF run w] obtain chunk where c: "chunk \<in> set (chunks ?n ids)"
      "retry_candidate lock d admission ready chunk = Inr w" by blast
    from chunks_bounds [OF c(1)] retry_candidate_Inr [OF c(2)] assms(2) show ?thesis by auto
  qed
qed

lemma retry_candidates_Inr:
  assumes "retry_candidates lock p ctx now = Inr (ws, blocked)" and "0 < cl_max_shards_per_wave lock"
  obtains ready where
    "ready = group_pairs (trial_keys (filter (queued p now Queue_ready) (dict_values (rv_trials p))))"
    and "set (concat (map ca_shard_ids ws)) = set (dict_keys ready)"
    and "distinct (concat (map ca_shard_ids ws))"
    and "\<forall>w \<in> set ws. ca_kind w = AK_retry_shard \<and> ca_shard_ids w \<noteq> [] \<and>
      int (length (ca_shard_ids w)) \<le> cl_max_shards_per_wave lock \<and>
      set (ca_trial_ids w) = (\<Union>i \<in> set (ca_shard_ids w). set (get_list ready i))"
    and "\<forall>b \<in> set blocked. ba_kind b = AK_retry_shard \<and> ba_reason b = BR_backoff"
proof -
  let ?ready = "group_pairs (trial_keys (filter (queued p now Queue_ready) (dict_values (rv_trials p))))"
  let ?f = "\<lambda>groups d. rbind (deployment_admission_of lock ctx d) (\<lambda>admission.
      rbind (py_chunks (Campaign_failure Range_step_zero) (cl_max_shards_per_wave lock)
         (get_list groups d)) (\<lambda>cs. mapM (retry_candidate lock d admission ?ready) cs))"
  from assms(1) obtain ready waiting groups wss where q:
    "foldM (queue_trial p now) ([], []) (dict_values (rv_trials p)) = Inr (ready, waiting)"
    "group_by_deployment lock (sort (dict_keys ready)) = Inr groups"
    "mapM (\<lambda>d. rbind (deployment_admission_of lock ctx d) (\<lambda>admission.
       rbind (py_chunks (Campaign_failure Range_step_zero) (cl_max_shards_per_wave lock)
         (get_list groups d)) (\<lambda>cs. mapM (retry_candidate lock d admission ready) cs)))
       (sort (dict_keys groups)) = Inr wss" "ws = concat wss"
    "mapM (\<lambda>i. rbind (deployment_for_shards lock [i]) (\<lambda>d.
       Inr \<lparr>ba_kind = AK_retry_shard, ba_deployment_digest = d, ba_shard_ids = [i],
            ba_reason = BR_backoff\<rparr>)) (sort (dict_keys waiting)) = Inr blocked"
    by (auto simp: retry_candidates_def result_simps split: prod.splits)
  have ready: "ready = ?ready" using queues_Inr [OF q(1)] by simp
  from group_by_deployment_Inr [OF q(2)] obtain ps where ps: "groups = group_pairs ps"
    "map snd ps = sort (dict_keys ready)" by blast
  have run: "mapM (?f groups) (sort (dict_keys groups)) = Inr wss" using q(3) ready by simp
  have shards: "concat (map ca_shard_ids ws) =
      concat (map (\<lambda>k. map snd (filter (\<lambda>x. fst x = k) ps)) (sort (dict_keys (group_pairs ps))))"
    unfolding q(4) using run deployment_retries_Inr(1) [OF _ assms(2)]
    by (rule mapM_concat [THEN trans]) (simp_all only: ps get_list_group)
  have "set (concat (map ca_shard_ids ws)) = snd ` set ps" unfolding shards by (rule groups_cover)
  also have "\<dots> = set (dict_keys ready)" using arg_cong [OF ps(2), of set] by simp
  finally have cover: "set (concat (map ca_shard_ids ws)) = set (dict_keys ?ready)" using ready by simp
  have "distinct (map snd ps)" unfolding ps(2) ready using group_dict(1) by simp
  then have dist: "distinct (concat (map ca_shard_ids ws))"
    unfolding shards using group_dict(1) by (intro distinct_groups) simp_all
  have "ca_kind w = AK_retry_shard \<and> ca_shard_ids w \<noteq> [] \<and>
      int (length (ca_shard_ids w)) \<le> cl_max_shards_per_wave lock \<and>
      set (ca_trial_ids w) = (\<Union>i \<in> set (ca_shard_ids w). set (get_list ?ready i))" if w: "w \<in> set ws" for w
  proof -
    from w q(4) obtain ys where ys: "ys \<in> set wss" "w \<in> set ys" by auto
    from mapM_memD [OF run ys(1)] obtain d where d: "?f groups d = Inr ys" by blast
    from deployment_retries_Inr(2) [OF d assms(2) ys(2)] show ?thesis .
  qed
  moreover have "ba_kind b = AK_retry_shard \<and> ba_reason b = BR_backoff" if "b \<in> set blocked" for b
    using mapM_memD [OF q(5) that] by (auto simp: result_simps)
  ultimately show ?thesis using cover dist by (intro that [of ?ready]) auto
qed

section \<open>Cleanup\<close>

definition cleanup_kind :: "action_kind \<Rightarrow> bool" where
  "cleanup_kind k \<longleftrightarrow>
     k \<in> {AK_cancel_execution, AK_cancel_wave, AK_drain_wave, AK_cleanup_wave, AK_manual_intervention}"

lemma wave_candidate_fields [simp]:
  "ca_kind (wave_candidate w k) = k" "ca_target_ids (wave_candidate w k) = [wv_wave_id w]"
  "ca_wave_id (wave_candidate w k) = Some (wv_wave_id w)"
  by (simp_all add: wave_candidate_def blank_candidate_def)

lemma wave_cleanup_Inr:
  assumes "wave_cleanup w p cancelling force = Inr cs"
  shows "c \<in> set cs \<Longrightarrow> \<exists>k. c = wave_candidate w k \<and> cleanup_kind k \<and>
      k \<noteq> AK_cancel_execution \<and> (k = AK_cancel_wave \<longrightarrow> cancelling \<and> force)"
    and "cancelling \<Longrightarrow> wv_status w \<noteq> WS_closed \<Longrightarrow> cs \<noteq> []"
  using assms
  by (auto simp: wave_cleanup_def cancellation_wave_actions_def cleanup_kind_def result_simps
      split: if_splits)

lemma unobserved_Inr:
  assumes "unobserved_wave_cancellations lock p known force = Inr cs" and "c \<in> set cs"
  shows "cleanup_kind (ca_kind c) \<and> (ca_kind c = AK_cancel_wave \<longrightarrow> force) \<and> ca_kind c \<noteq> AK_cancel_execution"
proof -
  from assms obtain css where r: "mapM (\<lambda>a.
       let wave_id = wave_id_of_key (ap_action_key a);
           shard_ids = action_shard_ids lock (ap_action_kind a) (ap_target_ids a)
       in rbind (deployment_for_shards lock shard_ids) (\<lambda>d.
         Inr (map (\<lambda>k. (blank_candidate k)\<lparr>ca_deployment_digest := d, ca_wave_id := Some wave_id,
                ca_shard_ids := shard_ids, ca_target_ids := [ap_action_id a]\<rparr>)
           (if force then [AK_cancel_wave, AK_cleanup_wave] else [AK_drain_wave]))))
       (filter (\<lambda>a. \<not> (\<not> billable (ap_action_kind a) \<or> ap_status a = AS_failed) \<and>
          wave_id_of_key (ap_action_key a) \<notin> set known) (projected_actions p)) = Inr css" "cs = concat css"
    by (auto simp: unobserved_wave_cancellations_def result_simps)
  from r(2) assms(2) obtain ys where ys: "ys \<in> set css" "c \<in> set ys" by auto
  from mapM_memD [OF r(1) ys(1)] ys(2) show ?thesis
    by (auto simp: result_simps Let_def blank_candidate_def cleanup_kind_def split: if_splits)
qed

lemma execution_cancellations_fields:
  assumes "c \<in> set (execution_cancellations p)"
  shows "ca_kind c = AK_cancel_execution"
  using assms by (auto simp: execution_cancellations_def blank_candidate_def)

lemma cleanup_candidates_Inr:
  assumes "cleanup_candidates lock p now = Inr cs"
  shows "c \<in> set cs \<Longrightarrow> cleanup_kind (ca_kind c) \<and>
      (ca_kind c \<in> {AK_cancel_wave, AK_cancel_execution} \<longrightarrow>
        cancelling_status (cp_status (rv_campaign p)) \<and> cancellation_grace_elapsed lock p now)"
    and "cancelling_status (cp_status (rv_campaign p)) \<Longrightarrow> w \<in> set (dict_values (rv_waves p)) \<Longrightarrow>
      wv_status w \<noteq> WS_closed \<Longrightarrow> \<exists>k. cleanup_kind k \<and> wave_candidate w k \<in> set cs"
    and "cancelling_status (cp_status (rv_campaign p)) \<Longrightarrow> cancellation_grace_elapsed lock p now \<Longrightarrow>
      set (execution_cancellations p) \<subseteq> set cs"
proof -
  let ?c = "cancelling_status (cp_status (rv_campaign p))"
  let ?f = "cancellation_grace_elapsed lock p now"
  from assms obtain css un where r:
    "mapM (\<lambda>w. wave_cleanup w p ?c ?f) (dict_values (rv_waves p)) = Inr css"
    "(if ?c then unobserved_wave_cancellations lock p (map wv_wave_id (dict_values (rv_waves p))) ?f
      else Inr []) = Inr un"
    "cs = (if ?c \<and> ?f then execution_cancellations p else []) @ concat css @ un"
    by (auto simp: cleanup_candidates_def Let_def result_simps)
  show "cleanup_kind (ca_kind c) \<and> (ca_kind c \<in> {AK_cancel_wave, AK_cancel_execution} \<longrightarrow> ?c \<and> ?f)"
    if c: "c \<in> set cs"
  proof -
    consider "?c \<and> ?f" "c \<in> set (execution_cancellations p)" | "c \<in> set (concat css)"
      | "c \<in> set un" using c r(3) by (auto split: if_splits)
    then show ?thesis
    proof cases
      case 1
      with execution_cancellations_fields show ?thesis by (simp add: cleanup_kind_def)
    next
      case 2
      then obtain ys where ys: "ys \<in> set css" "c \<in> set ys" by auto
      from mapM_memD [OF r(1) ys(1)] obtain w where "wave_cleanup w p ?c ?f = Inr ys" by blast
      from wave_cleanup_Inr(1) [OF this ys(2)] show ?thesis
        by auto
    next
      case 3
      show ?thesis
      proof (cases ?c)
        case True
        with r(2) have "unobserved_wave_cancellations lock p
            (map wv_wave_id (dict_values (rv_waves p))) ?f = Inr un" by simp
        from unobserved_Inr [OF this 3] True show ?thesis by auto
      next
        case False
        with r(2) 3 show ?thesis by simp
      qed
    qed
  qed
  show "\<exists>k. cleanup_kind k \<and> wave_candidate w k \<in> set cs"
    if "?c" "w \<in> set (dict_values (rv_waves p))" "wv_status w \<noteq> WS_closed"
  proof -
    from mapM_memI [OF r(1) that(2)] obtain ys where ys: "ys \<in> set css" "wave_cleanup w p ?c ?f = Inr ys"
      by blast
    from wave_cleanup_Inr(2) [OF ys(2) that(1,3)] obtain c where c: "c \<in> set ys" by (cases ys) auto
    from wave_cleanup_Inr(1) [OF ys(2) c] obtain k where "c = wave_candidate w k" "cleanup_kind k" by blast
    moreover have "c \<in> set cs" using c ys(1) r(3) by auto
    ultimately show ?thesis by blast
  qed
  show "set (execution_cancellations p) \<subseteq> set cs" if "?c" "?f"
    using r(3) that by simp
qed

section \<open>All candidates\<close>

definition summary_candidates :: "recovery_projection \<Rightarrow> candidate list" where
  "summary_candidates p = (case rv_terminal_decision p of None \<Rightarrow> []
     | Some d \<Rightarrow> [(blank_candidate AK_publish_summary)\<lparr>ca_target_ids := [td_summary_path d]\<rparr>])"

lemma summary_kind: "c \<in> set (summary_candidates p) \<Longrightarrow> ca_kind c = AK_publish_summary"
  by (auto simp: summary_candidates_def blank_candidate_def split: option.splits)

lemma candidates_cancelling:
  assumes "candidates_of lock p ctx now = Inr (cs, blocked)"
    and "cancelling_status (cp_status (rv_campaign p))"
  obtains cleanup where "cleanup_candidates lock p now = Inr cleanup" and "blocked = []"
    and "cs = sort_key candidate_key (cleanup @ summary_candidates p)"
  using assms
  by (auto simp: candidates_of_def result_simps Let_def summary_candidates_def)

lemma candidates_active:
  assumes "candidates_of lock p ctx now = Inr (cs, blocked)"
    and "\<not> cancelling_status (cp_status (rv_campaign p))"
  obtains cleanup retry waves where "cleanup_candidates lock p now = Inr cleanup"
    and "retry_candidates lock p ctx now = Inr (retry, blocked)"
    and "new_wave_candidates lock p ctx = Inr waves"
    and "cs = sort_key candidate_key (cleanup @ (retry @ waves) @ summary_candidates p)"
  using assms
  by (auto simp: candidates_of_def result_simps Let_def summary_candidates_def split: prod.splits)

lemma cleanup_kind_not_billable: "cleanup_kind k \<Longrightarrow> \<not> billable k"
  by (auto simp: cleanup_kind_def billable_def)

section \<open>Plans\<close>

lemma plan_projection_Inr:
  assumes "plan_projection h lock p ctx requested = Inr plan"
  obtains (terminal) "campaign_terminal (cp_status (rv_campaign p))" and "pl_actions plan = []"
      and "pl_blocked plan = []"
  | (live) cs pre where "\<not> campaign_terminal (cp_status (rv_campaign p))"
      and "candidates_of lock p ctx (max requested (cp_last_observed_at (rv_campaign p))) = Inr (cs, pre)"
      and "admit h lock p cs ctx pre = Inr (pl_actions plan, pl_blocked plan)"
      and "pl_action_count plan = int (length (pl_actions plan))"
  using assms
  by (auto simp: plan_projection_def plan_of_def Let_def result_simps campaign_terminal_def
      split: if_splits prod.splits)

lemma realises_kind:
  assumes "realises h lock p c a"
  shows "ca_kind a = ca_kind c \<and> ca_shard_ids a = ca_shard_ids c \<and> ca_trial_ids a = ca_trial_ids c \<or>
    ca_kind c = AK_retry_shard \<and> ca_kind a = AK_exhaust_trials"
proof (cases "materialize h lock p c = Some a")
  case True
  from materialize_Some(1,4,5) [OF this] show ?thesis by simp
next
  case False
  with assms have "ca_kind c = AK_retry_shard" and m: "materialize h lock p (exhaustion c) = Some a"
    by (simp_all add: realises_def)
  with materialize_Some(1) [OF m] show ?thesis by (simp add: exhaustion_def blank_candidate_def)
qed

lemma subseq_subset: "subseq xs ys \<Longrightarrow> set xs \<subseteq> set ys"
  by (induction rule: list_emb.induct) auto

lemma plan_action_source:
  assumes "admit h lock p cs ctx pre = Inr (acts, blocked)" and "a \<in> set acts"
  shows "\<exists>c \<in> set cs. realises h lock p c a"
proof -
  from assms(1) obtain cs' where c: "subseq cs' cs" "list_all2 (realises h lock p) cs' acts"
    by (rule admit_sources)
  from c(2) assms(2) have "\<exists>c \<in> set cs'. realises h lock p c a"
    by (induction rule: list_all2_induct) auto
  with subseq_subset [OF c(1)] show ?thesis by blast
qed

lemma cancelling_no_billable:
  assumes "plan_projection h lock p ctx requested = Inr plan"
    and "cancelling_status (cp_status (rv_campaign p)) \<or> campaign_terminal (cp_status (rv_campaign p))"
    and "a \<in> set (pl_actions plan)"
  shows "\<not> billable (ca_kind a)"
  using assms(1)
proof (cases rule: plan_projection_Inr)
  case terminal
  with assms(3) show ?thesis by simp
next
  case (live cs pre)
  with assms(2) have c: "cancelling_status (cp_status (rv_campaign p))" by blast
  from plan_action_source [OF live(3) assms(3)] obtain x where x: "x \<in> set cs" "realises h lock p x a" ..
  from live(2) c obtain cleanup where 1: "cleanup_candidates lock p
      (max requested (cp_last_observed_at (rv_campaign p))) = Inr cleanup"
    "cs = sort_key candidate_key (cleanup @ summary_candidates p)"
    by (rule candidates_cancelling)
  from x(1) have "x \<in> set cleanup \<or> x \<in> set (summary_candidates p)" unfolding 1(2) by simp
  then have "\<not> billable (ca_kind x)"
    using cleanup_candidates_Inr(1) [OF 1(1)] cleanup_kind_not_billable summary_kind
    by (fastforce simp: billable_def)
  with realises_kind [OF x(2)] show ?thesis by (auto simp: billable_def)
qed

section \<open>From candidates to plans\<close>

lemma subseq_distinct_concat:
  assumes "subseq ys xs" and "distinct (concat (map f xs))"
  shows "distinct (concat (map f ys))"
  using assms
proof (induction rule: list_emb.induct)
  case (list_emb_Cons2 x y xs ys)
  have "set (concat (map f xs)) \<subseteq> set (concat (map f ys))"
    using subseq_subset [OF list_emb_Cons2.hyps(2)] by auto
  with list_emb_Cons2 show ?case by auto
qed auto

lemma subseq_filter_mono: "subseq xs ys \<Longrightarrow> subseq (filter P xs) (filter P ys)"
  by (induction rule: list_emb.induct) auto

lemma mset_distinct_concat:
  assumes "mset xs = mset ys" and "distinct (concat (map f ys))"
  shows "distinct (concat (map f xs))"
proof -
  have "mset (concat (map f xs)) = mset (concat (map f ys))"
    using assms(1) by (simp add: mset_concat_map)
  with assms(2) show ?thesis using mset_eq_imp_distinct_iff by blast
qed

abbreviation submits :: "'a candidate_scheme \<Rightarrow> bool" where
  "submits c \<equiv> ca_kind c = AK_submit_wave"

lemma realised_submits:
  assumes "list_all2 (realises h lock p) cs acts"
  shows "map ca_shard_ids (filter submits acts) = map ca_shard_ids (filter submits cs)"
  using assms
proof (induction rule: list_all2_induct)
  case (Cons c cs a acts)
  with realises_kind [OF Cons.hyps(1)] show ?case by auto
qed simp

lemma filter_all_false: "\<forall>x \<in> set xs. \<not> P x \<Longrightarrow> filter P xs = []"
  by (simp add: filter_empty_conv)

text \<open>The submit candidates of a live campaign are exactly its new waves.\<close>

lemma submit_candidates:
  assumes "candidates_of lock p ctx now = Inr (cs, pre)" and "0 < cl_max_shards_per_wave lock"
    and "\<not> cancelling_status (cp_status (rv_campaign p))"
  obtains waves where "new_wave_candidates lock p ctx = Inr waves"
    and "mset (filter submits cs) = mset waves"
proof -
  from assms(1,3) obtain cleanup retry waves where c: "cleanup_candidates lock p now = Inr cleanup"
    "retry_candidates lock p ctx now = Inr (retry, pre)" "new_wave_candidates lock p ctx = Inr waves"
    "cs = sort_key candidate_key (cleanup @ (retry @ waves) @ summary_candidates p)"
    by (rule candidates_active)
  have "\<forall>x \<in> set cleanup. \<not> submits x"
    using cleanup_candidates_Inr(1) [OF c(1)] cleanup_kind_not_billable by (fastforce simp: billable_def)
  moreover have "\<forall>x \<in> set retry. \<not> submits x"
    using c(2) assms(2) by (rule retry_candidates_Inr) auto
  moreover have "\<forall>x \<in> set (summary_candidates p). \<not> submits x" using summary_kind by fastforce
  moreover have "\<forall>x \<in> set waves. submits x"
    using c(3) assms(2) by (rule new_wave_candidates_Inr) auto
  ultimately have "filter submits (cleanup @ (retry @ waves) @ summary_candidates p) = waves"
    by (simp add: filter_all_false)
  moreover have "mset (filter submits cs) =
      mset (filter submits (cleanup @ (retry @ waves) @ summary_candidates p))"
    unfolding c(4) by (simp only: mset_filter mset_sort)
  ultimately show ?thesis using c(3) by (intro that) simp_all
qed

text \<open>A wave that may be submitted: pending shards of one deployment, at most a wave's worth.\<close>

definition submit_ok :: "campaign_lock \<Rightarrow> recovery_projection \<Rightarrow> 'a candidate_scheme \<Rightarrow> bool" where
  "submit_ok lock p c \<longleftrightarrow>
     ca_shard_ids c \<noteq> [] \<and> int (length (ca_shard_ids c)) \<le> cl_max_shards_per_wave lock \<and>
     (\<exists>assigned. assigned_shards lock p = Inr assigned \<and>
       (\<forall>i \<in> set (ca_shard_ids c). wave_pending p assigned i \<and>
         (\<exists>r \<in> set (cl_runs lock). ra_deployment_digest r = ca_deployment_digest c \<and>
           i \<in> sl_shard_id ` set (rl_shards r))))"

lemma new_waves_ok:
  assumes "new_wave_candidates lock p ctx = Inr waves" and "0 < cl_max_shards_per_wave lock"
  shows "\<forall>w \<in> set waves. submits w \<and> submit_ok lock p w"
    and "lock_ids_distinct lock \<Longrightarrow> distinct (concat (map ca_shard_ids waves))"
proof -
  from assms obtain assigned ps where n: "assigned_shards lock p = Inr assigned"
    "ps = filter (\<lambda>x. wave_pending p assigned (snd x)) (sorted_lock_shards lock)"
    "concat (map ca_shard_ids waves) =
      concat (map (\<lambda>k. map snd (filter (\<lambda>x. fst x = k) ps)) (sort (dict_keys (group_pairs ps))))"
    "\<forall>w \<in> set waves. submits w \<and> ca_shard_ids w \<noteq> [] \<and>
      int (length (ca_shard_ids w)) \<le> cl_max_shards_per_wave lock \<and> ca_target_ids w = ca_shard_ids w \<and>
      (\<forall>i \<in> set (ca_shard_ids w). (ca_deployment_digest w, i) \<in> set ps)"
    by (rule new_wave_candidates_Inr)
  have "wave_pending p assigned i \<and> (\<exists>r \<in> set (cl_runs lock). ra_deployment_digest r = d \<and>
      i \<in> sl_shard_id ` set (rl_shards r))" if "(d, i) \<in> set ps" for d i
    using that n(2) sorted_lock_shards_run [of d i lock] by simp
  with n(1,4) show "\<forall>w \<in> set waves. submits w \<and> submit_ok lock p w"
    unfolding submit_ok_def by blast
  assume "lock_ids_distinct lock"
  then have "distinct (map snd ps)"
    unfolding n(2) by (intro distinct_map_filter sorted_lock_shards_ids(2))
  then show "distinct (concat (map ca_shard_ids waves))"
    unfolding n(3) using group_dict(1) by (intro distinct_groups) simp_all
qed

lemma plan_no_submits:
  assumes "plan_projection h lock p ctx requested = Inr plan"
    and "cancelling_status (cp_status (rv_campaign p)) \<or> campaign_terminal (cp_status (rv_campaign p))"
  shows "filter submits (pl_actions plan) = []"
  using cancelling_no_billable [OF assms] by (auto simp: billable_def filter_empty_conv)

text \<open>In a live plan every submit action realises one of the new waves, each at most once.\<close>

lemma plan_submit_sources:
  assumes "candidates_of lock p ctx now = Inr (cs, pre)" and "admit h lock p cs ctx pre = Inr (acts, blocked)"
    and "0 < cl_max_shards_per_wave lock" and "\<not> cancelling_status (cp_status (rv_campaign p))"
  obtains waves cs' where "new_wave_candidates lock p ctx = Inr waves"
    and "mset (filter submits cs) = mset waves" and "subseq cs' cs"
    and "list_all2 (realises h lock p) cs' acts"
proof -
  from assms(1,3,4) obtain waves where "new_wave_candidates lock p ctx = Inr waves"
    "mset (filter submits cs) = mset waves" by (rule submit_candidates)
  moreover from assms(2) obtain cs' where "subseq cs' cs" "list_all2 (realises h lock p) cs' acts"
    by (rule admit_sources)
  ultimately show ?thesis by (rule that)
qed

lemma plan_submits_distinct:
  assumes "plan_projection h lock p ctx requested = Inr plan" and "lock_ids_distinct lock"
    and "0 < cl_max_shards_per_wave lock"
  shows "distinct (concat (map ca_shard_ids (filter submits (pl_actions plan))))"
proof (cases "cancelling_status (cp_status (rv_campaign p)) \<or> campaign_terminal (cp_status (rv_campaign p))")
  case True
  with plan_no_submits [OF assms(1)] show ?thesis by simp
next
  case False
  from assms(1) show ?thesis
  proof (cases rule: plan_projection_Inr)
    case (live cs pre)
    from False have "\<not> cancelling_status (cp_status (rv_campaign p))" by blast
    with live(2,3) assms(3) obtain waves cs' where w: "new_wave_candidates lock p ctx = Inr waves"
      "mset (filter submits cs) = mset waves" "subseq cs' cs"
      "list_all2 (realises h lock p) cs' (pl_actions plan)" by (rule plan_submit_sources)
    have "distinct (concat (map ca_shard_ids (filter submits cs)))"
      using w(2) new_waves_ok(2) [OF w(1) assms(3,2)] by (rule mset_distinct_concat)
    with subseq_distinct_concat [OF subseq_filter_mono [OF w(3)]]
    have "distinct (concat (map ca_shard_ids (filter submits cs')))" by blast
    then show ?thesis by (simp only: realised_submits [OF w(4)])
  qed simp
qed

lemma plan_submits_ok:
  assumes "plan_projection h lock p ctx requested = Inr plan" and "0 < cl_max_shards_per_wave lock"
    and a: "a \<in> set (pl_actions plan)" "submits a"
  shows "submit_ok lock p a"
  using assms(1)
proof (cases rule: plan_projection_Inr)
  case terminal
  with a show ?thesis by simp
next
  case (live cs pre)
  have "\<not> cancelling_status (cp_status (rv_campaign p))"
    using plan_no_submits [OF assms(1)] a by (auto simp: filter_empty_conv)
  with live(2,3) assms(2) obtain waves where w: "new_wave_candidates lock p ctx = Inr waves"
    "mset (filter submits cs) = mset waves" by (rule plan_submit_sources)
  from plan_action_source [OF live(3) a(1)] obtain c where c: "c \<in> set cs" "realises h lock p c a" ..
  have m: "materialize h lock p c = Some a"
    using c(2) a(2) materialize_Some(1) [of h lock p "exhaustion c" a]
    by (auto simp: realises_def exhaustion_def blank_candidate_def)
  have "c \<in> set (filter submits cs)" using c(1) a(2) materialize_Some(1) [OF m] by simp
  then have "c \<in> set waves" using mset_eq_setD [OF w(2)] by blast
  with new_waves_ok(1) [OF w(1) assms(2)] have "submit_ok lock p c" by blast
  then show ?thesis by (simp add: submit_ok_def materialize_Some(2,4) [OF m])
qed

section \<open>Retries in a plan\<close>

lemma plan_retry_ready:
  assumes "plan_projection h lock p ctx requested = Inr plan" and "0 < cl_max_shards_per_wave lock"
    and a: "a \<in> set (pl_actions plan)" "ca_kind a = AK_retry_shard" and i: "i \<in> set (ca_trial_ids a)"
  shows "\<exists>t \<in> set (dict_values (rv_trials p)). tr_trial_id t = i \<and>
    queued p (max requested (cp_last_observed_at (rv_campaign p))) Queue_ready t"
  using assms(1)
proof (cases rule: plan_projection_Inr)
  case terminal
  with a show ?thesis by simp
next
  case (live cs pre)
  let ?now = "max requested (cp_last_observed_at (rv_campaign p))"
  have nc: "\<not> cancelling_status (cp_status (rv_campaign p))"
    using cancelling_no_billable [OF assms(1) _ a(1)] a(2) by (auto simp: billable_def)
  from live(2) nc obtain cleanup retry waves where c: "cleanup_candidates lock p ?now = Inr cleanup"
    "retry_candidates lock p ctx ?now = Inr (retry, pre)" "new_wave_candidates lock p ctx = Inr waves"
    "cs = sort_key candidate_key (cleanup @ (retry @ waves) @ summary_candidates p)"
    by (rule candidates_active)
  from plan_action_source [OF live(3) a(1)] obtain x where x: "x \<in> set cs" "realises h lock p x a" ..
  have same: "ca_kind x = AK_retry_shard" "ca_trial_ids x = ca_trial_ids a"
    using realises_kind [OF x(2)] a(2) by auto
  have "x \<in> set cleanup \<or> x \<in> set retry \<or> x \<in> set waves \<or> x \<in> set (summary_candidates p)"
    using x(1) unfolding c(4) by simp
  moreover have "x \<notin> set cleanup"
    using cleanup_candidates_Inr(1) [OF c(1), of x] same(1) by (auto simp: cleanup_kind_def)
  moreover have "x \<notin> set waves" using new_waves_ok(1) [OF c(3) assms(2)] same(1) by auto
  moreover have "x \<notin> set (summary_candidates p)" using summary_kind same(1) by force
  ultimately have "x \<in> set retry" by blast
  from c(2) assms(2) show ?thesis
  proof (rule retry_candidates_Inr)
    fix ready
    assume ready: "ready = group_pairs (trial_keys (filter (queued p ?now Queue_ready) (dict_values (rv_trials p))))"
      and w: "\<forall>w \<in> set retry. ca_kind w = AK_retry_shard \<and> ca_shard_ids w \<noteq> [] \<and>
        int (length (ca_shard_ids w)) \<le> cl_max_shards_per_wave lock \<and>
        set (ca_trial_ids w) = (\<Union>i \<in> set (ca_shard_ids w). set (get_list ready i))"
    have "set (ca_trial_ids x) = (\<Union>i \<in> set (ca_shard_ids x). set (get_list ready i))"
      using bspec [OF w \<open>x \<in> set retry\<close>] by (elim conjE)
    with i same(2) have "i \<in> (\<Union>i \<in> set (ca_shard_ids x). set (get_list ready i))" by simp
    then obtain k where "i \<in> set (get_list ready k)" by (rule UN_E)
    then show ?thesis by (force simp: ready get_list_group)
  qed
qed

lemma queued_ready_due:
  assumes "queued p now Queue_ready t"
  shows "tr_status t = NS_planned \<or> retry_is_ready t now"
  using assms
  by (auto simp: queued_def retry_queue_of_def result_simps retry_is_ready_def split: if_splits)

section \<open>Work that must be planned\<close>

lemma plan_accounted:
  assumes "plan_projection h lock p ctx requested = Inr plan"
    and "\<not> campaign_terminal (cp_status (rv_campaign p))"
  obtains cs pre where
    "candidates_of lock p ctx (max requested (cp_last_observed_at (rv_campaign p))) = Inr (cs, pre)"
    and "\<forall>c \<in> set cs. accounted h lock p ctx (pl_actions plan) (pl_blocked plan) c"
  using assms(1)
proof (cases rule: plan_projection_Inr)
  case (live cs pre)
  with admit_accounted [OF live(3)] that show ?thesis by blast
qed (use assms(2) in simp)

lemma pending_shard_planned:
  assumes "new_wave_candidates lock p ctx = Inr waves" and "0 < cl_max_shards_per_wave lock"
    and "assigned_shards lock p = Inr assigned" and "i \<in> set (lock_shard_ids lock)"
    and "wave_pending p assigned i"
  shows "\<exists>c \<in> set waves. submits c \<and> i \<in> set (ca_shard_ids c)"
proof -
  from assms(1,2) obtain assigned' ps where n: "assigned_shards lock p = Inr assigned'"
    "ps = filter (\<lambda>x. wave_pending p assigned' (snd x)) (sorted_lock_shards lock)"
    "concat (map ca_shard_ids waves) =
      concat (map (\<lambda>k. map snd (filter (\<lambda>x. fst x = k) ps)) (sort (dict_keys (group_pairs ps))))"
    by (rule new_wave_candidates_Inr)
  have "i \<in> snd ` set (sorted_lock_shards lock)" using sorted_lock_shards_ids(1) assms(4) by simp
  then have "i \<in> snd ` set ps" using n(1,2) assms(3,5) by auto
  then have "i \<in> set (concat (map ca_shard_ids waves))" unfolding n(3) groups_cover .
  with new_waves_ok(1) [OF assms(1,2)] show ?thesis by auto
qed

lemma ready_trial_planned:
  assumes "retry_candidates lock p ctx now = Inr (retry, pre)" and "0 < cl_max_shards_per_wave lock"
    and "t \<in> set (dict_values (rv_trials p))" and "queued p now Queue_ready t"
  shows "\<exists>c \<in> set retry. ca_kind c = AK_retry_shard \<and> tr_trial_id t \<in> set (ca_trial_ids c)"
  using assms(1,2)
proof (rule retry_candidates_Inr)
  fix ready
  assume r: "ready = group_pairs (trial_keys (filter (queued p now Queue_ready) (dict_values (rv_trials p))))"
    "set (concat (map ca_shard_ids retry)) = set (dict_keys ready)"
    "\<forall>w \<in> set retry. ca_kind w = AK_retry_shard \<and> ca_shard_ids w \<noteq> [] \<and>
      int (length (ca_shard_ids w)) \<le> cl_max_shards_per_wave lock \<and>
      set (ca_trial_ids w) = (\<Union>i \<in> set (ca_shard_ids w). set (get_list ready i))"
  let ?keys = "trial_keys (filter (queued p now Queue_ready) (dict_values (rv_trials p)))"
  have mem: "(tr_shard_id t, tr_trial_id t) \<in> set ?keys" using assms(3,4) by force
  then have list: "tr_trial_id t \<in> set (get_list ready (tr_shard_id t))"
    unfolding r(1) get_list_group group_mem .
  have "tr_shard_id t \<in> fst ` set ?keys" using mem by (rule image_eqI [rotated]) simp
  then have "tr_shard_id t \<in> set (dict_keys ready)" unfolding r(1) group_dict(2) .
  then obtain c where c: "c \<in> set retry" "tr_shard_id t \<in> set (ca_shard_ids c)"
    unfolding r(2) [symmetric] by auto
  from bspec [OF r(3) c(1)] list c show ?thesis by blast
qed

section \<open>Other facts about candidates\<close>

lemma cancel_status_reached:
  assumes "project_campaign lock es = Inr p" and "e \<in> set es"
    and "ev_kind e = Campaign_event CK_cancel_requested" and "ev_subject_type e = ST_campaign"
  shows "CS_cancel_requested \<le> cp_status p"
  using assms(1)
proof (rule project_campaign_run)
  fix first rest s
  assume r: "ordered_events es = Inr (first # rest)" "submission_matches lock first"
    "foldM (project_step lock) initial_projection_state rest = Inr s" "projection_inv s"
    "cp_status p = ps_status s"
  have "e \<in> set (first # rest)" using ordered_events_Inr(1) [OF r(1)] assms(2) by simp
  moreover have "e \<noteq> first" using r(2) assms(3) by (auto simp: submission_matches_def)
  ultimately have "CS_cancel_requested \<le> effective_status s"
    using cancelled_run [OF projection_inv_init r(3)] assms(3,4) by simp
  with resume_status_le [OF r(4)] show ?thesis using r(5) by (simp add: order_trans)
qed

lemma project_recovery_status:
  assumes "project_recovery h lock es = Inr p"
  obtains campaign where "project_campaign lock es = Inr campaign"
    and "cp_status (rv_campaign p) \<in> {cp_status campaign, CS_manual_intervention, CS_active}"
    and "cp_status (rv_campaign p) = CS_active \<longrightarrow> cp_status campaign \<in> {CS_queued, CS_active}"
  using assms
proof (rule project_recovery_run)
  fix s campaign
  assume "project_campaign lock es = Inr campaign"
    and "cp_status (rv_campaign p) =
      (if \<not> campaign_terminal (cp_status campaign) \<and>
          (\<exists>w \<in> set (dict_values (rs_waves s)). wv_status w = WS_cleanup_failed)
       then CS_manual_intervention
       else if cp_status campaign = CS_queued \<and> (rs_executions s \<noteq> [] \<or> rs_waves s \<noteq> [])
       then CS_active else cp_status campaign)"
  then show ?thesis by (intro that [of campaign]) (simp_all split: if_splits)
qed

lemma retry_candidate_unnamed: "retry_candidate lock d adm ready chunk = Inr c \<Longrightarrow> ca_wave_id c = None"
  by (auto simp: retry_candidate_def result_simps Let_def)

lemma retries_unnamed:
  assumes "retry_candidates lock p ctx now = Inr (retry, pre)" and "c \<in> set retry"
  shows "ca_wave_id c = None"
proof -
  from assms obtain ready groups wss ys where r: "mapM (\<lambda>d. rbind (deployment_admission_of lock ctx d) (\<lambda>admission.
       rbind (py_chunks (Campaign_failure Range_step_zero) (cl_max_shards_per_wave lock)
         (get_list groups d)) (\<lambda>cs. mapM (retry_candidate lock d admission ready) cs)))
       (sort (dict_keys groups)) = Inr wss" "ys \<in> set wss" "c \<in> set ys"
    by (auto simp: retry_candidates_def result_simps split: prod.splits)
  from mapM_memD [OF r(1,2)] r(3) show ?thesis
    by (auto simp: result_simps dest!: mapM_memD retry_candidate_unnamed)
qed

lemma waves_unnamed:
  assumes "new_wave_candidates lock p ctx = Inr waves" and "c \<in> set waves"
  shows "ca_wave_id c = None" and "ca_trial_ids c = []"
proof -
  from assms obtain groups wss ys where r: "mapM (\<lambda>d. rbind (deployment_admission_of lock ctx d) (\<lambda>admission.
       rbind (py_chunks (Campaign_failure Range_step_zero) (cl_max_shards_per_wave lock)
         (get_list groups d)) (\<lambda>cs. mapM (new_wave_candidate lock d admission) cs)))
       (sort (dict_keys groups)) = Inr wss" "ys \<in> set wss" "c \<in> set ys"
    by (auto simp: new_wave_candidates_def result_simps)
  from mapM_memD [OF r(1,2)] r(3) show "ca_wave_id c = None" "ca_trial_ids c = []"
    by (auto simp: result_simps dest!: mapM_memD dest: new_wave_candidate_Inr(5,6))
qed

text \<open>The candidates besides cleanup: retries, new waves and the summary.\<close>

lemma candidates_split:
  assumes "candidates_of lock p ctx now = Inr (cs, pre)"
  obtains cleanup work where "cleanup_candidates lock p now = Inr cleanup"
    and "set cs = set cleanup \<union> set work \<union> set (summary_candidates p)"
    and "\<forall>c \<in> set work. ca_wave_id c = None"
    and "0 < cl_max_shards_per_wave lock \<longrightarrow> (\<forall>c \<in> set work. billable (ca_kind c))"
proof (cases "cancelling_status (cp_status (rv_campaign p))")
  case True
  with assms obtain cleanup where "cleanup_candidates lock p now = Inr cleanup"
    "cs = sort_key candidate_key (cleanup @ summary_candidates p)" by (rule candidates_cancelling)
  then show ?thesis by (intro that [of cleanup "[]"]) simp_all
next
  case False
  with assms obtain cleanup retry waves where c: "cleanup_candidates lock p now = Inr cleanup"
    "retry_candidates lock p ctx now = Inr (retry, pre)" "new_wave_candidates lock p ctx = Inr waves"
    "cs = sort_key candidate_key (cleanup @ (retry @ waves) @ summary_candidates p)"
    by (rule candidates_active)
  have "\<forall>c \<in> set (retry @ waves). ca_wave_id c = None"
    using retries_unnamed [OF c(2)] waves_unnamed [OF c(3)] by auto
  moreover have "\<forall>c \<in> set (retry @ waves). billable (ca_kind c)" if "0 < cl_max_shards_per_wave lock"
  proof -
    have "\<forall>c \<in> set retry. ca_kind c = AK_retry_shard"
      using c(2) that by (rule retry_candidates_Inr) blast
    with new_waves_ok(1) [OF c(3) that] show ?thesis by (auto simp: billable_def)
  qed
  ultimately show ?thesis using c(1,4) by (intro that [of cleanup "retry @ waves"]) auto
qed

lemma billable_candidate_unnamed:
  assumes "candidates_of lock p ctx now = Inr (cs, pre)" and "c \<in> set cs" and "billable (ca_kind c)"
  shows "ca_wave_id c = None"
  using assms(1)
proof (rule candidates_split)
  fix cleanup work
  assume s: "cleanup_candidates lock p now = Inr cleanup"
    "set cs = set cleanup \<union> set work \<union> set (summary_candidates p)" "\<forall>c \<in> set work. ca_wave_id c = None"
  have "c \<notin> set cleanup"
    using cleanup_candidates_Inr(1) [OF s(1), of c] cleanup_kind_not_billable assms(3) by blast
  moreover have "c \<notin> set (summary_candidates p)" using summary_kind assms(3) by (force simp: billable_def)
  ultimately show ?thesis using s(2,3) assms(2) by blast
qed

lemma cleanup_and_rest:
  assumes "candidates_of lock p ctx now = Inr (cs, pre)" and "0 < cl_max_shards_per_wave lock"
  obtains cleanup rest where "cleanup_candidates lock p now = Inr cleanup"
    and "set cs \<subseteq> set cleanup \<union> rest"
    and "\<forall>y \<in> rest. ca_kind y \<notin> {AK_cancel_wave, AK_cancel_execution}"
  using assms(1)
proof (rule candidates_split)
  fix cleanup work
  assume s: "cleanup_candidates lock p now = Inr cleanup"
    "set cs = set cleanup \<union> set work \<union> set (summary_candidates p)"
    "0 < cl_max_shards_per_wave lock \<longrightarrow> (\<forall>c \<in> set work. billable (ca_kind c))"
  have "\<forall>y \<in> set work \<union> set (summary_candidates p). ca_kind y \<notin> {AK_cancel_wave, AK_cancel_execution}"
    using s(3) assms(2) summary_kind by (fastforce simp: billable_def)
  with s(1,2) show ?thesis by (intro that [of cleanup "set work \<union> set (summary_candidates p)"]) auto
qed

end
