(* ===== verification/Recovery_Properties.thy ===== *)
theory Recovery_Properties
  imports Recovery_Rollup Control_Properties
begin

text \<open>
  The properties of the recovery projection, each with its witness on a sample log.
\<close>

section \<open>Leaves of a roll-up\<close>

lemma all_leaves:
  assumes "map f is = map Some cs"
  shows "(\<forall>i \<in> set is. \<exists>st. f i = Some st \<and> P st) \<longleftrightarrow> list_all P cs"
  using assms
proof (induction "is" arbitrary: cs)
  case (Cons i "is")
  then obtain c cs' where "cs = c # cs'" by (cases cs) auto
  with Cons show ?case by auto
qed simp

lemma some_leaf:
  assumes "map f is = map Some cs"
  shows "(\<exists>i \<in> set is. f i = Some c) \<longleftrightarrow> c \<in> set cs"
  using assms
proof (induction "is" arbitrary: cs)
  case (Cons i "is")
  then obtain d cs' where "cs = d # cs'" by (cases cs) auto
  with Cons show ?case by auto
qed simp

section \<open>Properties\<close>

text \<open>
  C5. The projection of a log, errors included, depends only on the set of its records: a
  store may list, batch or repeat them in any order.
\<close>

theorem projection_order_independent:
  assumes "set es = set es'"
  shows "project_recovery h lock es = project_recovery h lock es'"
  using ordered_events_cong [OF assms]
  by (simp add: project_recovery_def project_campaign_def apply_retry_requests_def)

text \<open>
  A retryable failure always has a delay, and it is between one second and the policy's
  maximum; below that maximum it is at least three quarters and at most five quarters of the
  exponential backoff, and never shorter than what the provider asked for.
\<close>

theorem retry_delay_bounded:
  assumes "recovery_policy_ok (cl_recovery_policy lock)" and "retryable category"
  shows "\<exists>delay. retry_delay_seconds h lock category attempt x r = Inr delay \<and>
    1 \<le> delay \<and> delay \<le> rp_retry_max_seconds (cl_recovery_policy lock) \<and>
    min (rp_retry_max_seconds (cl_recovery_policy lock))
      (max (backoff_seconds lock category attempt * 75 div 100) (case r of None \<Rightarrow> 0 | Some s \<Rightarrow> s)) \<le> delay \<and>
    delay \<le> max 1 (max (backoff_seconds lock category attempt * 125 div 100) (case r of None \<Rightarrow> 0 | Some s \<Rightarrow> s))"
  using assms by (rule retry_delay_range)

text \<open>Two projections, the second of a log that continues the first.\<close>

lemma project_recovery_continued:
  assumes "project_recovery h lock es = Inr p" and "project_recovery h lock es' = Inr p'"
    and "ordered_events es = Inr old" and "ordered_events es' = Inr (old @ new)"
  obtains s t where "foldM recovery_step (initial_projections lock) old = Inr s"
    and "foldM recovery_step s new = Inr t" and "recovery_inv lock s"
    and "rv_waves p = rs_waves s" and "rv_waves p' = rs_waves t"
    and "rv_executions p = rs_executions s" and "rv_executions p' = rs_executions t"
proof -
  from assms(1,3) obtain s where s: "foldM recovery_step (initial_projections lock) old = Inr s"
    "recovery_inv lock s" "rv_waves p = rs_waves s" "rv_executions p = rs_executions s"
    by (auto elim!: project_recovery_run)
  from assms(2,4) obtain t where t: "foldM recovery_step (initial_projections lock) (old @ new) = Inr t"
    "rv_waves p' = rs_waves t" "rv_executions p' = rs_executions t"
    by (auto elim!: project_recovery_run)
  from s(1) t(1) have "foldM recovery_step s new = Inr t" by (simp add: foldM_append)
  with s t show ?thesis by (intro that) assumption+
qed

text \<open>
  C29. As a log grows, a wave keeps its deployment, provider, shards and cost, its status only
  follows the allowed transitions, and a closed wave stays closed.
\<close>

theorem wave_lifecycle:
  assumes "project_recovery h lock es = Inr p" and "project_recovery h lock es' = Inr p'"
    and "ordered_events es = Inr old" and "ordered_events es' = Inr (old @ new)"
    and "map_of (rv_waves p) i = Some w"
  shows "\<exists>st. map_of (rv_waves p') i = Some (w\<lparr>wv_status := st\<rparr>) \<and>
    wave_reaches (wv_status w) st \<and> (wv_status w = WS_closed \<longrightarrow> st = WS_closed)"
  using assms(1-4)
proof (rule project_recovery_continued)
  fix s t
  assume s: "foldM recovery_step (initial_projections lock) old = Inr s"
    "foldM recovery_step s new = Inr t" "rv_waves p = rs_waves s" "rv_waves p' = rs_waves t"
  have "waves_ok (rs_waves s)"
    using wave_trace.run_inv [OF _ s(1)] by (simp add: initial_projections_def waves_ok_def)
  from wave_trace.run_move [OF this s(2), of i] assms(5) s(3,4)
  have "wave_move\<^sup>*\<^sup>* (Some w) (map_of (rv_waves p') i)" by simp
  from wave_moves_identity [OF this] show ?thesis using closed_is_final by auto
qed

text \<open>
  C30. No spend is lost or counted twice: the recorded spend is the sum of the spends of the
  executions and of the separately recorded amounts.
\<close>

theorem spend_is_conserved:
  assumes "project_recovery h lock es = Inr p" and "ordered_events es = Inr r"
  shows "rv_spend_microusd p =
    sum_list (map xp_spend_microusd (dict_values (rv_executions p))) + sum_list (map recorded_spend r)"
  using assms by (rule spend_conservation)

text \<open>
  C31. Every trial of a projection is a trial of the lock, holds exactly its own executions
  with attempts 1, 2, 3 and so on, is planned only before any execution, and waits for a
  retry only after a retryable failure and below the limit of physical executions, with a
  time at which the retry is due; it counts as scored exactly when it is complete.
\<close>

theorem trial_projection_sound:
  assumes "project_recovery h lock es = Inr p" and "map_of (rv_trials p) i = Some t"
  shows "i \<in> set (lock_trial_ids lock) \<and> trial_status_ok (tr_status t) \<and>
    set (dict_values (tr_executions t)) = {x \<in> set (dict_values (rv_executions p)). xp_trial_id x = i} \<and>
    map xp_physical_attempt (dict_values (tr_executions t)) = map int [1..<length (tr_executions t) + 1] \<and>
    (tr_status t = NS_planned \<longrightarrow> tr_executions t = []) \<and>
    (tr_status t = NS_retry_wait \<longrightarrow> retry_wait_ok lock t) \<and>
    (tr_outcome t = Some TO_scored \<longleftrightarrow> tr_status t = NS_complete)"
proof -
  have at: "trials_at lock (rv_executions p) (rv_trials p)"
    using assms(1) by (rule project_recovery_trials)
  from at map_of_SomeD [OF assms(2)] have "trial_at lock (rv_executions p) i t"
    by (auto simp: trials_at_def)
  moreover from this obtain t0 where "map_of (lock_trial_map lock) i = Some t0"
    by (auto simp: trial_at_def)
  then have "i \<in> fst ` set (lock_trial_map lock)" by (force dest: map_of_SomeD)
  then have "i \<in> set (lock_trial_ids lock)"
    by (auto simp: lock_trial_map_def initial_projections_def lock_trial_ids_def lock_trials_def
        keys_mk_dict)
  ultimately show ?thesis
    by (simp add: trial_at_def trial_wf_def attempts_contiguous_def)
qed
text \<open>
  The status of a run is decided by its trials: it is terminal exactly when all of them
  are, and complete exactly when all reached a scored terminal outcome and one is complete.
\<close>

theorem run_status_iff_trials:
  assumes "project_recovery h lock es = Inr p" and "lock_ids_distinct lock" and "r \<in> set (cl_runs lock)"
  shows "\<exists>run. map_of (rv_runs p) (rl_run_id r) = Some run \<and>
    (node_terminal (ru_status run) \<longleftrightarrow>
       (\<forall>i \<in> set (run_trial_ids r). \<exists>st. trial_status_of p i = Some st \<and> node_terminal st)) \<and>
    (ru_status run = NS_complete \<longleftrightarrow>
       (\<forall>i \<in> set (run_trial_ids r). \<exists>st. trial_status_of p i = Some st \<and> scored_terminal st) \<and>
       (\<exists>i \<in> set (run_trial_ids r). trial_status_of p i = Some NS_complete))"
proof -
  from project_recovery_tree [OF assms] obtain run css sts obs
    where run: "map_of (rv_runs p) (rl_run_id r) = Some run"
      and leaves: "map (trial_status_of p) (run_trial_ids r) = map Some (concat css)"
      and roll: "list_all2 (\<lambda>cs st. \<exists>obs. shard_roll obs cs = Inr st) css sts"
        "run_roll obs sts = Inr (ru_status run)"
    by blast
  have all: "(\<forall>i \<in> set (run_trial_ids r). \<exists>st. trial_status_of p i = Some st \<and> P st) \<longleftrightarrow>
      list_all P (concat css)" for P
    using leaves by (rule all_leaves)
  have some: "(\<exists>i \<in> set (run_trial_ids r). trial_status_of p i = Some NS_complete) \<longleftrightarrow>
      NS_complete \<in> set (concat css)"
    using leaves by (rule some_leaf)
  show ?thesis
    using run campaign_tree.tree_terminal [OF roll] campaign_tree.tree_complete [OF roll]
    unfolding all some by blast
qed

text \<open>
  The seven status counts of a projection, and those of its terminal decision, add up to
  the number of trials.
\<close>

theorem counts_partition_trials:
  assumes "project_recovery h lock es = Inr p"
  shows "counts_total (rv_counts p) = int (length (rv_trials p)) \<and>
    (\<forall>d. rv_terminal_decision p = Some d \<longrightarrow> counts_total (td_counts d) = int (length (rv_trials p)))"
proof -
  have total: "counts_total (rv_counts p) = int (length (rv_trials p))"
    using assms counts_total_projection [OF project_recovery_trial_statuses [OF assms]]
    by (auto elim!: project_recovery_run)
  have "td_counts d = terminal_counts (rv_campaign p) (rv_counts p)"
    if "rv_terminal_decision p = Some d" for d
    using assms that by (auto elim!: project_recovery_run intro: terminal_decision_counts)
  with total counts_total_terminal show ?thesis by simp
qed


text \<open>
  A decision that a live campaign completed is backed by its trials: every trial of every
  run has a scored terminal outcome, and every run has a complete trial.
\<close>

theorem completed_decision_sound:
  assumes "project_recovery h lock es = Inr p" and "lock_ids_distinct lock"
    and "\<not> campaign_terminal (cp_status (rv_campaign p))"
    and "rv_terminal_decision p = Some d" and "td_status d = TS_completed" and "r \<in> set (cl_runs lock)"
  shows "(\<forall>i \<in> set (run_trial_ids r). \<exists>st. trial_status_of p i = Some st \<and> scored_terminal st) \<and>
    (\<exists>i \<in> set (run_trial_ids r). trial_status_of p i = Some NS_complete)"
proof -
  from project_recovery_tree [OF assms(1,2,6)] obtain run css sts obs
    where run: "map_of (rv_runs p) (rl_run_id r) = Some run"
      and leaves: "map (trial_status_of p) (run_trial_ids r) = map Some (concat css)"
      and roll: "list_all2 (\<lambda>cs st. \<exists>obs. shard_roll obs cs = Inr st) css sts"
        "run_roll obs sts = Inr (ru_status run)"
    by blast
  have "rv_terminal_decision p = terminal_decision_of lock (rv_campaign p) (rv_runs p) (rv_trials p)
      (rv_waves p) (rv_counts p)"
    using assms(1) by (rule project_recovery_run)
  with terminal_decision_completed assms(3-5) have "values_all (\<lambda>r. ru_status r = NS_complete) (rv_runs p)"
    by metis
  with run have "ru_status run = NS_complete" using values_all_get by fastforce
  with campaign_tree.tree_complete [OF roll] have "list_all scored_terminal (concat css)"
    and "NS_complete \<in> set (concat css)" by auto
  with all_leaves [OF leaves] some_leaf [OF leaves] show ?thesis by blast
qed

text \<open>
  Sealing a partial campaign leaves every trial with a scored terminal outcome and every
  run complete, adds no completed trial, clears the open counts, and sealing again changes
  nothing.
\<close>

theorem seal_partial_sound:
  assumes "seal_partial_projection p = Inr q"
  shows "values_all (\<lambda>t. scored_terminal (tr_status t)) (rv_trials q) \<and>
    values_all (\<lambda>r. ru_status r = NS_complete) (rv_runs q) \<and>
    pc_planned (rv_counts q) = 0 \<and> pc_active (rv_counts q) = 0 \<and> pc_retrying (rv_counts q) = 0 \<and>
    pc_cancelled (rv_counts q) = 0 \<and>
    (\<forall>k t. map_of (rv_trials q) k = Some t \<and> tr_status t = NS_complete \<longrightarrow>
       (\<exists>t0. map_of (rv_trials p) k = Some t0 \<and> tr_status t0 = NS_complete)) \<and>
    seal_partial_projection q = Inr q"
  using assms
proof (rule seal_partial_Inr)
  fix trials shards runs d
  assume s: "rv_terminal_decision p = Some d" "cp_status (rv_campaign p) = CS_partial"
    "td_status d = TS_partial" "\<not> (\<exists>w \<in> set (dict_values (rv_waves p)). wv_status w \<noteq> WS_closed)"
    "mapM seal_trial (rv_trials p) = Inr trials" "derive_shards (rv_shards p) trials = Inr shards"
    "derive_runs (rv_runs p) shards = Inr runs"
    "\<not> (\<exists>r \<in> set (dict_values runs). ru_status r \<noteq> NS_complete)"
    "q = p\<lparr>rv_runs := runs, rv_shards := shards, rv_trials := trials,
           rv_counts := projection_counts_of trials\<rparr>"
  have again: "seal_partial_projection q = Inr q"
    using seal_partial_intro [of q d trials shards runs] s(1-4,8,9) seal_trials(1) [OF s(5)]
      derive_shards_idem [OF s(6)] derive_runs_idem [OF s(7)] by simp
  have "values_all (\<lambda>r. ru_status r = NS_complete) runs"
    using s(8) by (auto simp: values_all_def)
  moreover have "\<exists>t0. map_of (rv_trials p) k = Some t0 \<and> tr_status t0 = NS_complete"
    if "map_of trials k = Some t" "tr_status t = NS_complete" for k t
    using seal_trials(3) [OF s(5) that(1)] that(2) by auto
  ultimately show ?thesis
    using again seal_trials(2) [OF s(5)] counts_all_scored [OF seal_trials(2) [OF s(5)]] s(9) by simp
qed

text \<open>
  Requesting cancellation is idempotent: once the event of a request is in the log, every
  later request returns that event and creates nothing.
\<close>

theorem cancellation_request_idempotent:
  assumes "durable_cancellation_event h lock es reason now = Inr (e, created)"
    and "ordered_events (e # es) = Inr r"
  shows "durable_cancellation_event h lock (e # es) reason' now' = Inr (e, False)"
proof (cases created)
  case True
  with assms(1) cancellation_created [of h lock es reason now e]
  have e: "ev_kind e = Campaign_event CK_cancel_requested"
    and no: "\<forall>x \<in> set es. ev_kind x \<noteq> Campaign_event CK_cancel_requested" by simp_all
  have "List.find (\<lambda>e. ev_kind e = Campaign_event CK_cancel_requested) r = Some x \<Longrightarrow> x = e" for x
    using ordered_events_Inr(1) [OF assms(2)] no by (auto simp: find_Some_iff dest!: nth_mem)
  with e ordered_find_cancel [OF assms(2), of "\<lambda>e. ev_kind e = Campaign_event CK_cancel_requested"]
  have "List.find (\<lambda>e. ev_kind e = Campaign_event CK_cancel_requested) r = Some e"
    by (cases "List.find (\<lambda>e. ev_kind e = Campaign_event CK_cancel_requested) r") auto
  with assms(2) show ?thesis by (simp add: durable_cancellation_event_def)
next
  case False
  with assms(1) obtain q where q: "ordered_events es = Inr q"
    "List.find (\<lambda>e. ev_kind e = Campaign_event CK_cancel_requested) q = Some e"
    by (auto elim: cancellation_existing)
  then have "e \<in> set es"
    using ordered_events_Inr(1) [OF q(1)] by (auto simp: find_Some_iff dest!: nth_mem)
  then have "ordered_events (e # es) = ordered_events es" by (intro ordered_events_cong) auto
  with q show ?thesis by (simp add: durable_cancellation_event_def)
qed

text \<open>
  The guard against repeating finished work looks only at the last completed execution:
  a trial whose first and second executions both completed is accepted as complete.
\<close>

theorem repeated_completion_accepted:
  assumes "xp_physical_attempt a = 1" and "xp_physical_attempt b = 2"
    and "xp_status a = ES_completed" and "xp_status b = ES_completed"
    and "tr_status t = NS_planned"
  shows "\<exists>t'. derive_trial h lock t [a, b] = Inr t' \<and> tr_status t' = NS_complete"
proof -
  have "[1..<3::nat] = [1, 2]" "[0..<2::nat] = [0, 1]" by code_simp+
  with assms show ?thesis
    by (simp add: derive_trial_def Let_def node_terminal_def numeral_2_eq_2 numeral_3_eq_3)
qed

section \<open>Witnesses\<close>

definition recovers ::
  "hash \<Rightarrow> campaign_lock \<Rightarrow> event list \<Rightarrow> (recovery_projection \<Rightarrow> bool) \<Rightarrow> bool" where
  "recovers h lock es P = (case project_recovery h lock es of Inl _ \<Rightarrow> False | Inr p \<Rightarrow> P p)"

lemma recovers_D: "recovers h lock es P \<Longrightarrow> \<exists>p. project_recovery h lock es = Inr p \<and> P p"
  by (cases "project_recovery h lock es") (auto simp: recovers_def)

text \<open>What the projections of the sample logs look like.\<close>

lemma sample_retry_recovers:
  "recovers sample_hash sample_lock sample_retry_log (\<lambda>p.
     map_of (rv_waves p) ''wave-k'' \<noteq> None \<and> rv_spend_microusd p = 40 \<and>
     map_option tr_status (map_of (rv_trials p) ''t1'') = Some NS_retry_wait)"
  by code_simp

lemma sample_draining_recovers:
  "recovers sample_hash sample_lock sample_draining_log (\<lambda>_. True)"
  by code_simp

lemma sample_done_recovers:
  "recovers sample_hash sample_lock sample_done_log (\<lambda>p.
     \<not> campaign_terminal (cp_status (rv_campaign p)) \<and>
     map_option td_status (rv_terminal_decision p) = Some TS_completed)"
  by code_simp

lemma sample_partial_seals:
  "recovers sample_hash sample_lock sample_partial_log (\<lambda>p.
     \<not> isl (seal_partial_projection p))"
  by code_simp

lemma sample_log_order:
  "ordered_events sample_retry_log = Inr sample_retry_log"
  "ordered_events sample_draining_log =
     Inr (sample_retry_log @ [sample_wave_event ''1'' 6 WS_draining])"
  by code_simp+

theorem projection_order_independent_witness:
  "set sample_retry_log = set (rev sample_retry_log) \<and>
   project_recovery sample_hash sample_lock sample_retry_log =
   project_recovery sample_hash sample_lock (rev sample_retry_log)"
  using projection_order_independent [of sample_retry_log "rev sample_retry_log"] by simp

theorem retry_delay_bounded_witness:
  "retryable RC_quota \<and> (\<exists>delay. retry_delay_seconds sample_hash sample_lock RC_quota 2 ''x'' None = Inr delay \<and>
     1 \<le> delay \<and> delay \<le> 1800 \<and> 90 \<le> delay \<and> delay \<le> 150)"
proof -
  have ok: "recovery_policy_ok (cl_recovery_policy sample_lock)" "retryable RC_quota" by code_simp+
  have val: "rp_retry_max_seconds (cl_recovery_policy sample_lock) = 1800"
    "backoff_seconds sample_lock RC_quota 2 * 75 div 100 = 90"
    "backoff_seconds sample_lock RC_quota 2 * 125 div 100 = 150" by code_simp+
  from retry_delay_bounded [OF ok, of sample_hash 2 "''x''" None] ok(2) val show ?thesis by auto
qed

theorem wave_lifecycle_witness:
  "\<exists>p p' w st. project_recovery sample_hash sample_lock sample_retry_log = Inr p \<and>
     project_recovery sample_hash sample_lock sample_draining_log = Inr p' \<and>
     map_of (rv_waves p) ''wave-k'' = Some w \<and>
     map_of (rv_waves p') ''wave-k'' = Some (w\<lparr>wv_status := st\<rparr>) \<and> wave_reaches (wv_status w) st"
proof -
  from recovers_D [OF sample_retry_recovers] recovers_D [OF sample_draining_recovers]
  obtain p p' w where p: "project_recovery sample_hash sample_lock sample_retry_log = Inr p"
    "project_recovery sample_hash sample_lock sample_draining_log = Inr p'"
    and w: "map_of (rv_waves p) ''wave-k'' = Some w" by blast
  from wave_lifecycle [OF p sample_log_order w] p w show ?thesis by blast
qed

theorem spend_is_conserved_witness:
  "\<exists>p. project_recovery sample_hash sample_lock sample_retry_log = Inr p \<and> rv_spend_microusd p = 40 \<and>
     40 = sum_list (map xp_spend_microusd (dict_values (rv_executions p))) +
       sum_list (map recorded_spend sample_retry_log)"
proof -
  from recovers_D [OF sample_retry_recovers] obtain p
    where p: "project_recovery sample_hash sample_lock sample_retry_log = Inr p" "rv_spend_microusd p = 40"
    by blast
  from spend_is_conserved [OF p(1) sample_log_order(1)] p show ?thesis by auto
qed

theorem trial_projection_sound_witness:
  "\<exists>p t. project_recovery sample_hash sample_lock sample_retry_log = Inr p \<and>
     map_of (rv_trials p) ''t1'' = Some t \<and> tr_status t = NS_retry_wait \<and> retry_wait_ok sample_lock t"
proof -
  from recovers_D [OF sample_retry_recovers] obtain p t
    where p: "project_recovery sample_hash sample_lock sample_retry_log = Inr p"
      and t: "map_of (rv_trials p) ''t1'' = Some t" "tr_status t = NS_retry_wait"
    by auto
  from trial_projection_sound [OF p t(1)] p t show ?thesis by blast
qed

theorem run_status_iff_trials_witness:
  "\<exists>p run. project_recovery sample_hash sample_lock sample_done_log = Inr p \<and>
     map_of (rv_runs p) ''r'' = Some run \<and> run_trial_ids sample_run = [''t1'', ''t2''] \<and>
     (ru_status run = NS_complete \<longleftrightarrow>
       (\<exists>st. trial_status_of p ''t1'' = Some st \<and> scored_terminal st) \<and>
       (\<exists>st. trial_status_of p ''t2'' = Some st \<and> scored_terminal st) \<and>
       (trial_status_of p ''t1'' = Some NS_complete \<or> trial_status_of p ''t2'' = Some NS_complete))"
proof -
  from recovers_D [OF sample_done_recovers] obtain p
    where p: "project_recovery sample_hash sample_lock sample_done_log = Inr p" by blast
  have r: "sample_run \<in> set (cl_runs sample_lock)" and ids: "rl_run_id sample_run = ''r''"
    "run_trial_ids sample_run = [''t1'', ''t2'']"
    by (simp_all add: sample_lock_def sample_run_def run_trial_ids_def sample_shard_def sample_trial_def)
  from run_status_iff_trials [OF p sample_lock_ok(2) r] p ids show ?thesis by auto
qed

theorem counts_partition_trials_witness:
  "\<exists>p. project_recovery sample_hash sample_lock sample_retry_log = Inr p \<and>
     counts_total (rv_counts p) = int (length (rv_trials p))"
proof -
  from recovers_D [OF sample_retry_recovers] obtain p
    where p: "project_recovery sample_hash sample_lock sample_retry_log = Inr p" by blast
  from counts_partition_trials [OF p] p show ?thesis by blast
qed


theorem completed_decision_sound_witness:
  "\<exists>p d. project_recovery sample_hash sample_lock sample_done_log = Inr p \<and>
     rv_terminal_decision p = Some d \<and> td_status d = TS_completed \<and>
     (\<exists>i \<in> set (run_trial_ids sample_run). trial_status_of p i = Some NS_complete)"
proof -
  from recovers_D [OF sample_done_recovers] obtain p d
    where p: "project_recovery sample_hash sample_lock sample_done_log = Inr p"
      "\<not> campaign_terminal (cp_status (rv_campaign p))"
      "rv_terminal_decision p = Some d" "td_status d = TS_completed" by auto
  have "sample_run \<in> set (cl_runs sample_lock)" by (simp add: sample_lock_def)
  from completed_decision_sound [OF p(1) sample_lock_ok(2) p(2-4) this] p show ?thesis by blast
qed

theorem seal_partial_sound_witness:
  "\<exists>p q. project_recovery sample_hash sample_lock sample_partial_log = Inr p \<and>
     seal_partial_projection p = Inr q \<and> values_all (\<lambda>t. scored_terminal (tr_status t)) (rv_trials q) \<and>
     seal_partial_projection q = Inr q"
proof -
  from recovers_D [OF sample_partial_seals] obtain p
    where p: "project_recovery sample_hash sample_lock sample_partial_log = Inr p"
      and "\<not> isl (seal_partial_projection p)"
    by blast
  then obtain q where q: "seal_partial_projection p = Inr q"
    by (cases "seal_partial_projection p") auto
  from seal_partial_sound [OF q] p q show ?thesis by blast
qed

theorem cancellation_request_idempotent_witness:
  "\<exists>e. durable_cancellation_event sample_hash sample_lock [sample_submitted] ''stop'' 5 = Inr (e, True) \<and>
     durable_cancellation_event sample_hash sample_lock [e, sample_submitted] ''again'' 9 = Inr (e, False)"
proof -
  let ?e = "new_event ST_campaign ''c'' (Campaign_event CK_cancel_requested) PR_cli
    (Cancellation_payload ''stop'') 5 (cancellation_identifier sample_hash sample_lock)"
  have e: "durable_cancellation_event sample_hash sample_lock [sample_submitted] ''stop'' 5 = Inr (?e, True)"
    by code_simp
  have "ordered_events [?e, sample_submitted] = Inr [sample_submitted, ?e]" by code_simp
  from cancellation_request_idempotent [OF e this] e show ?thesis by blast
qed

definition sample_execution :: "string \<Rightarrow> int \<Rightarrow> execution_projection" where
  "sample_execution i n =
     \<lparr>xp_execution_id = i, xp_trial_id = ''t1'', xp_shard_id = ''s1'', xp_wave_id = None,
      xp_physical_attempt = n, xp_status = ES_completed, xp_category = None, xp_observed_at = 0,
      xp_retry_after_seconds = None, xp_estimated_cost_microusd = 0, xp_spend_microusd = 0,
      xp_message = None\<rparr>"

theorem repeated_completion_accepted_witness:
  "\<exists>t'. derive_trial sample_hash sample_lock (initial_trial ''s1'' (sample_trial ''t1''))
     [sample_execution ''x1'' 1, sample_execution ''x2'' 2] = Inr t' \<and> tr_status t' = NS_complete"
  using repeated_completion_accepted [of "sample_execution ''x1'' 1" "sample_execution ''x2'' 2"
      "initial_trial ''s1'' (sample_trial ''t1'')" sample_hash sample_lock]
  by (simp add: sample_execution_def initial_trial_def)

end
