(* ===== verification/Reconciler_Properties.thy ===== *)
theory Reconciler_Properties
  imports Reconciler_Candidates Recovery_Properties
begin

text \<open>
  The properties of reconciliation plans: budgets, cancellation, disjoint and complete
  planning of work, progress of cleanup and freshness of actions, each with its witness.
\<close>

section \<open>Properties\<close>

lemma initial_usage_spend:
  assumes "cp_campaign_id (rv_campaign p) = cl_campaign_id lock"
  shows "get0 (mu_spend (initial_usage ctx p)) (cl_campaign_id lock) =
    get0 (au_campaign_spend_microusd (rc_usage ctx)) (cl_campaign_id lock) + durable_spend p"
  using assms by (simp add: initial_usage_def Let_def durable_spend_def)

lemma plan_reconciliation_Inr:
  assumes "plan_reconciliation h lock es ctx now = Inr (p, plan)"
  shows "project_recovery h lock es = Inr p" and "plan_projection h lock p ctx now = Inr plan"
  using assms by (auto simp: plan_reconciliation_def result_simps)


text \<open>
  C1. Admission never overspends: recorded spend, the estimates of every wave of the campaign
  and the estimates of the planned waves, added in plan order, stay within the campaign's cap
  and within the cap of each planned wave's run; a capped wave without an estimate is not
  planned.
\<close>

theorem plan_respects_spend_caps:
  assumes "plan_reconciliation h lock es ctx now = Inr (p, plan)"
  shows "spend_within (rp_spend_cap_microusd (cl_recovery_policy lock))
    (get0 (au_campaign_spend_microusd (rc_usage ctx)) (cl_campaign_id lock) + durable_spend p)
    (pl_actions plan)"
proof -
  note p = plan_reconciliation_Inr [OF assms]
  have "cp_campaign_id (rv_campaign p) = cl_campaign_id lock" using p(1) by (rule project_recovery_run)
  note spend = initial_usage_spend [OF this, of ctx]
  from p(2) show ?thesis
  proof (cases rule: plan_projection_Inr)
    case live
    with admit_within(2) spend show ?thesis by metis
  qed simp
qed

text \<open>
  A plan holds at most the configured number of actions and reports how many it holds.
\<close>

theorem plan_action_count:
  assumes "plan_projection h lock p ctx now = Inr plan"
  shows "pl_action_count plan = int (length (pl_actions plan)) \<and>
    pl_action_count plan \<le> max 0 (al_action_limit (rc_limits ctx))"
proof -
  have "pl_action_count plan = int (length (pl_actions plan))"
    using assms by (auto simp: plan_projection_def plan_of_def Let_def result_simps split: if_splits prod.splits)
  moreover from assms have "int (length (pl_actions plan)) \<le> max 0 (al_action_limit (rc_limits ctx))"
  proof (cases rule: plan_projection_Inr)
    case live
    with admit_within(3) show ?thesis by blast
  qed simp
  ultimately show ?thesis by simp
qed

text \<open>
  C3. Once a cancellation request is in the log, no plan made from it submits or retries
  anything, whatever the limits, the clock and the later events are.
\<close>

theorem cancelled_campaign_plans_no_work:
  assumes "plan_reconciliation h lock es ctx now = Inr (p, plan)" and "e \<in> set es"
    and "ev_kind e = Campaign_event CK_cancel_requested" and "ev_subject_type e = ST_campaign"
    and "a \<in> set (pl_actions plan)"
  shows "ca_kind a \<notin> {AK_submit_wave, AK_retry_shard}"
proof -
  note p = plan_reconciliation_Inr [OF assms(1)]
  from p(1) obtain campaign where c: "project_campaign lock es = Inr campaign"
    "cp_status (rv_campaign p) \<in> {cp_status campaign, CS_manual_intervention, CS_active}"
    "cp_status (rv_campaign p) = CS_active \<longrightarrow> cp_status campaign \<in> {CS_queued, CS_active}"
    by (rule project_recovery_status)
  have "CS_cancel_requested \<le> cp_status campaign"
    using c(1) assms(2-4) by (rule cancel_status_reached)
  with c(2,3) have "cancelling_status (cp_status (rv_campaign p)) \<or> campaign_terminal (cp_status (rv_campaign p))"
    by (cases "cp_status campaign")
      (auto simp: cancelling_status_def campaign_terminal_def status_order)
  from cancelling_no_billable [OF p(2) this assms(5)] show ?thesis by (simp add: billable_def)
qed

text \<open>
  C4. The new waves of a plan never compete: no shard is in two of them, and each has
  between one shard and the configured maximum, all of one deployment, planned or queued,
  and not assigned to any other wave, execution or outstanding action.
\<close>

theorem submitted_waves_are_disjoint:
  assumes "plan_projection h lock p ctx now = Inr plan" and "lock_ids_distinct lock"
    and "0 < cl_max_shards_per_wave lock"
  shows "distinct (concat (map ca_shard_ids (filter submits (pl_actions plan)))) \<and>
    (\<forall>a \<in> set (filter submits (pl_actions plan)). submit_ok lock p a)"
  using plan_submits_distinct [OF assms] plan_submits_ok [OF assms(1,3)] by simp

text \<open>
  A retry is never early and never repeated: every trial of a retry action belongs to the
  campaign, is not reserved by an outstanding retry, and either waits with its due time
  reached or was never started.
\<close>

theorem retried_trials_are_due:
  assumes "plan_projection h lock p ctx now = Inr plan" and "0 < cl_max_shards_per_wave lock"
    and "a \<in> set (pl_actions plan)" and "ca_kind a = AK_retry_shard" and "i \<in> set (ca_trial_ids a)"
  shows "\<exists>t \<in> set (dict_values (rv_trials p)). tr_trial_id t = i \<and>
    i \<notin> set (reserved_trial_ids p) \<and>
    (tr_status t = NS_planned \<or>
     retry_is_ready t (max now (cp_last_observed_at (rv_campaign p))))"
proof -
  from plan_retry_ready [OF assms] obtain t where "t \<in> set (dict_values (rv_trials p))"
    "tr_trial_id t = i" "queued p (max now (cp_last_observed_at (rv_campaign p))) Queue_ready t" by blast
  with queued_ready_due show ?thesis unfolding queued_def by blast
qed

text \<open>
  C27. Work is not forgotten: in a live campaign every pending shard is in a new wave that is
  planned, already outstanding, reported as blocked, or cut off by the action limit; and so
  is every trial whose retry is due.
\<close>

theorem ready_work_is_accounted:
  assumes "plan_projection h lock p ctx now = Inr plan" and "0 < cl_max_shards_per_wave lock"
    and "\<not> cancelling_status (cp_status (rv_campaign p))"
    and "\<not> campaign_terminal (cp_status (rv_campaign p))"
    and "assigned_shards lock p = Inr assigned"
  shows "(\<forall>i \<in> set (lock_shard_ids lock). wave_pending p assigned i \<longrightarrow>
      (\<exists>c. submits c \<and> i \<in> set (ca_shard_ids c) \<and>
        accounted h lock p ctx (pl_actions plan) (pl_blocked plan) c)) \<and>
    (\<forall>t \<in> set (dict_values (rv_trials p)).
      queued p (max now (cp_last_observed_at (rv_campaign p))) Queue_ready t \<longrightarrow>
      (\<exists>c. ca_kind c = AK_retry_shard \<and> tr_trial_id t \<in> set (ca_trial_ids c) \<and>
        accounted h lock p ctx (pl_actions plan) (pl_blocked plan) c))"
proof -
  from assms(1,4) obtain cs pre where c:
    "candidates_of lock p ctx (max now (cp_last_observed_at (rv_campaign p))) = Inr (cs, pre)"
    "\<forall>c \<in> set cs. accounted h lock p ctx (pl_actions plan) (pl_blocked plan) c"
    by (rule plan_accounted)
  from c(1) assms(3) obtain cleanup retry waves where w:
    "retry_candidates lock p ctx (max now (cp_last_observed_at (rv_campaign p))) = Inr (retry, pre)"
    "new_wave_candidates lock p ctx = Inr waves"
    "cs = sort_key candidate_key (cleanup @ (retry @ waves) @ summary_candidates p)"
    by (rule candidates_active)
  have "set retry \<subseteq> set cs" "set waves \<subseteq> set cs" unfolding w(3) by auto
  then show ?thesis
    using c(2) pending_shard_planned [OF w(2) assms(2,5)] ready_trial_planned [OF w(1) assms(2)]
    by blast
qed

text \<open>
  C28. Cancellation makes progress: in a cancelling campaign every wave that is not closed has
  a cleanup step that is planned, already outstanding, or cut off by the action limit.
\<close>

theorem cancelling_waves_are_handled:
  assumes "plan_projection h lock p ctx now = Inr plan"
    and "cancelling_status (cp_status (rv_campaign p))"
    and "w \<in> set (dict_values (rv_waves p))" and "wv_status w \<noteq> WS_closed"
  shows "\<exists>k. cleanup_kind k \<and>
    ((\<exists>a \<in> set (pl_actions plan). ca_kind a = k \<and> ca_target_ids a = [wv_wave_id w]) \<or>
     outstanding_key p (action_key_of h lock p (wave_candidate w k)) \<or>
     al_action_limit (rc_limits ctx) \<le> int (length (pl_actions plan)))"
proof -
  have "\<not> campaign_terminal (cp_status (rv_campaign p))"
    using assms(2) by (auto simp: cancelling_status_def campaign_terminal_def)
  with assms(1) obtain cs pre where c:
    "candidates_of lock p ctx (max now (cp_last_observed_at (rv_campaign p))) = Inr (cs, pre)"
    "\<forall>c \<in> set cs. accounted h lock p ctx (pl_actions plan) (pl_blocked plan) c"
    by (rule plan_accounted)
  from c(1) assms(2) obtain cleanup where l:
    "cleanup_candidates lock p (max now (cp_last_observed_at (rv_campaign p))) = Inr cleanup"
    "cs = sort_key candidate_key (cleanup @ summary_candidates p)" by (rule candidates_cancelling)
  from cleanup_candidates_Inr(2) [OF l(1) assms(2-4)] obtain k
    where k: "cleanup_kind k" "wave_candidate w k \<in> set cleanup" by blast
  then have "accounted h lock p ctx (pl_actions plan) (pl_blocked plan) (wave_candidate w k)"
    using c(2) by (simp add: l(2))
  moreover have "\<not> billable k" "k \<noteq> AK_retry_shard"
    using k(1) by (auto simp: cleanup_kind_def billable_def)
  ultimately have "(\<exists>a \<in> set (pl_actions plan). materialize h lock p (wave_candidate w k) = Some a) \<or>
     outstanding_key p (action_key_of h lock p (wave_candidate w k)) \<or>
     al_action_limit (rc_limits ctx) \<le> int (length (pl_actions plan))"
    by (auto simp: accounted_def realises_def)
  with materialize_Some(1,6) k(1) show ?thesis by fastforce
qed

text \<open>
  Running work is killed only after the grace period: a plan cancels a wave or an
  execution only in a cancelling campaign, and only once the grace period since the first
  cancellation request has passed.
\<close>

theorem cancellation_respects_grace:
  assumes "plan_projection h lock p ctx now = Inr plan" and "0 < cl_max_shards_per_wave lock" and "a \<in> set (pl_actions plan)"
    and "ca_kind a \<in> {AK_cancel_wave, AK_cancel_execution}"
  shows "cancelling_status (cp_status (rv_campaign p)) \<and>
    (\<exists>at. rv_cancel_requested_at p = Some at \<and>
      at + 1000000 * rp_cancellation_grace_seconds (cl_recovery_policy lock)
        \<le> max now (cp_last_observed_at (rv_campaign p)))"
  using assms(1)
proof (cases rule: plan_projection_Inr)
  case terminal
  with assms(3) show ?thesis by simp
next
  case (live cs pre)
  let ?now = "max now (cp_last_observed_at (rv_campaign p))"
  from plan_action_source [OF live(3) assms(3)] obtain x where x: "x \<in> set cs" "realises h lock p x a" ..
  have kind: "ca_kind x \<in> {AK_cancel_wave, AK_cancel_execution}"
    using realises_kind [OF x(2)] assms(4) by auto
  obtain cleanup rest where c: "cleanup_candidates lock p ?now = Inr cleanup"
    "set cs \<subseteq> set cleanup \<union> rest" "\<forall>y \<in> rest. ca_kind y \<notin> {AK_cancel_wave, AK_cancel_execution}"
    using live(2) assms(2) by (rule cleanup_and_rest)
  with x(1) kind have "x \<in> set cleanup" by blast
  from cleanup_candidates_Inr(1) [OF c(1) this] kind show ?thesis
    by (auto simp: cancellation_grace_elapsed_def microseconds_def split: option.splits)
qed

text \<open>
  Planned actions are fresh and addressable: none repeats the key of an outstanding
  action, the identifier is derived from the key, and the wave of a billable action is the
  one named after its key.
\<close>

theorem planned_actions_are_fresh:
  assumes "plan_projection h lock p ctx now = Inr plan" and "a \<in> set (pl_actions plan)"
  shows "\<not> outstanding_key p (ac_action_key a) \<and> ac_action_id a = ''act-'' @ ac_action_key a \<and>
    ac_campaign_id a = cl_campaign_id lock \<and>
    (billable (ca_kind a) \<longrightarrow> ca_wave_id a = Some (wave_id_of_key (ac_action_key a)))"
  using assms(1)
proof (cases rule: plan_projection_Inr)
  case terminal
  with assms(2) show ?thesis by simp
next
  case (live cs pre)
  from plan_action_source [OF live(3) assms(2)] obtain x where x: "x \<in> set cs" "realises h lock p x a" ..
  from x(2) obtain y where y: "materialize h lock p y = Some a" "y = x \<or> \<not> billable (ca_kind y)"
    by (auto simp: realises_def exhaustion_def blank_candidate_def billable_def)
  have "ca_wave_id x = None" if "billable (ca_kind x)"
    using live(2) x(1) that by (rule billable_candidate_unnamed)
  with y materialize_Some [OF y(1)] show ?thesis by auto
qed

section \<open>Witnesses\<close>

definition sample_context :: reconcile_context where
  "sample_context =
     \<lparr>rc_limits = default_limits\<lparr>al_deployment_active_waves := 8\<rparr>, rc_usage = default_usage,
      rc_deployments = []\<rparr>"

definition sample_cancel_log :: "event list" where
  "sample_cancel_log = sample_retry_log @ [sample_cancel 6]"

definition plans ::
  "event list \<Rightarrow> int \<Rightarrow> (recovery_projection \<Rightarrow> reconcile_plan \<Rightarrow> bool) \<Rightarrow> bool" where
  "plans es now P =
     (case plan_reconciliation sample_hash sample_lock es sample_context now of
        Inl _ \<Rightarrow> False | Inr (p, plan) \<Rightarrow> P p plan)"

lemma plans_D:
  assumes "plans es now P"
  obtains p plan where "plan_reconciliation sample_hash sample_lock es sample_context now = Inr (p, plan)"
    and "plan_projection sample_hash sample_lock p sample_context now = Inr plan" and "P p plan"
  using assms
  by (auto simp: plans_def plan_reconciliation_def result_simps split: sum.splits prod.splits intro: that)

text \<open>A fresh campaign submits both waves; a due retry is planned; a cancelled one is cleaned up.\<close>

lemma sample_fresh_plan:
  "plans [sample_submitted] 9 (\<lambda>p plan.
     map ca_kind (pl_actions plan) = [AK_submit_wave, AK_submit_wave] \<and>
     \<not> cancelling_status (cp_status (rv_campaign p)) \<and> \<not> campaign_terminal (cp_status (rv_campaign p)) \<and>
     assigned_shards sample_lock p = Inr [])"
  by code_simp

lemma sample_retry_plan:
  "plans sample_retry_log 100000000 (\<lambda>p plan.
     case pl_actions plan of a # _ \<Rightarrow> ca_kind a = AK_retry_shard \<and> ca_trial_ids a = [''t1''] | [] \<Rightarrow> False)"
  by code_simp

lemma sample_cancel_plan:
  "plans sample_cancel_log 9 (\<lambda>p plan.
     cancelling_status (cp_status (rv_campaign p)) \<and>
     (case dict_values (rv_waves p) of w # _ \<Rightarrow> wv_status w \<noteq> WS_closed | [] \<Rightarrow> False) \<and>
     (case pl_actions plan of a # _ \<Rightarrow> ca_kind a = AK_cancel_wave | [] \<Rightarrow> False))"
  by code_simp

lemma sample_wave_bound: "0 < cl_max_shards_per_wave sample_lock"
  by (simp add: sample_lock_def)


theorem plan_respects_spend_caps_witness:
  "\<exists>p plan. plan_reconciliation sample_hash sample_lock [sample_submitted] sample_context 9 = Inr (p, plan) \<and>
     spend_within (Some 1000) (get0 [] ''c'' + durable_spend p) (pl_actions plan)"
  using sample_fresh_plan
proof (rule plans_D)
  fix p plan
  assume "plan_reconciliation sample_hash sample_lock [sample_submitted] sample_context 9 = Inr (p, plan)"
  with plan_respects_spend_caps [OF this] show ?thesis
    by (auto simp: sample_lock_def sample_policy_def sample_context_def default_usage_def)
qed

theorem plan_action_count_witness:
  "\<exists>p plan. plan_projection sample_hash sample_lock p sample_context 9 = Inr plan \<and>
     pl_action_count plan = int (length (pl_actions plan)) \<and> pl_action_count plan \<le> 64"
  using sample_fresh_plan
proof (rule plans_D)
  fix p plan
  assume "plan_projection sample_hash sample_lock p sample_context 9 = Inr plan"
  with plan_action_count [OF this] show ?thesis
    by (auto simp: sample_context_def default_limits_def)
qed

theorem cancelled_campaign_plans_no_work_witness:
  "\<exists>p plan a. plan_reconciliation sample_hash sample_lock sample_cancel_log sample_context 9 = Inr (p, plan) \<and>
     a \<in> set (pl_actions plan) \<and> ca_kind a \<notin> {AK_submit_wave, AK_retry_shard}"
  using sample_cancel_plan
proof (rule plans_D)
  fix p plan
  assume p: "plan_reconciliation sample_hash sample_lock sample_cancel_log sample_context 9 = Inr (p, plan)"
    and "cancelling_status (cp_status (rv_campaign p)) \<and>
      (case dict_values (rv_waves p) of w # _ \<Rightarrow> wv_status w \<noteq> WS_closed | [] \<Rightarrow> False) \<and>
      (case pl_actions plan of a # _ \<Rightarrow> ca_kind a = AK_cancel_wave | [] \<Rightarrow> False)"
  then have "pl_actions plan \<noteq> []" by auto
  then obtain a where a: "a \<in> set (pl_actions plan)" by (meson list.set_sel(1))
  have e: "sample_cancel 6 \<in> set sample_cancel_log"
    "ev_kind (sample_cancel 6) = Campaign_event CK_cancel_requested"
    "ev_subject_type (sample_cancel 6) = ST_campaign"
    by (simp_all add: sample_cancel_log_def sample_cancel_def sample_event_def)
  from cancelled_campaign_plans_no_work [OF p e a] p a show ?thesis by blast
qed

theorem submitted_waves_are_disjoint_witness:
  "\<exists>p plan. plan_projection sample_hash sample_lock p sample_context 9 = Inr plan \<and>
     length (filter submits (pl_actions plan)) = 2 \<and>
     distinct (concat (map ca_shard_ids (filter submits (pl_actions plan))))"
  using sample_fresh_plan
proof (rule plans_D)
  fix p plan
  assume p: "plan_projection sample_hash sample_lock p sample_context 9 = Inr plan"
    and k: "map ca_kind (pl_actions plan) = [AK_submit_wave, AK_submit_wave] \<and>
      \<not> cancelling_status (cp_status (rv_campaign p)) \<and> \<not> campaign_terminal (cp_status (rv_campaign p)) \<and>
      assigned_shards sample_lock p = Inr []"
  then have "length (filter submits (pl_actions plan)) = 2" by (auto simp: map_eq_Cons_conv)
  with submitted_waves_are_disjoint [OF p sample_lock_ok(2) sample_wave_bound] p show ?thesis by blast
qed

theorem retried_trials_are_due_witness:
  "\<exists>p plan a t. plan_projection sample_hash sample_lock p sample_context 100000000 = Inr plan \<and>
     a \<in> set (pl_actions plan) \<and> ca_kind a = AK_retry_shard \<and>
     t \<in> set (dict_values (rv_trials p)) \<and> tr_trial_id t = ''t1'' \<and>
     ''t1'' \<notin> set (reserved_trial_ids p)"
  using sample_retry_plan
proof (rule plans_D)
  fix p plan
  assume p: "plan_projection sample_hash sample_lock p sample_context 100000000 = Inr plan"
    and "case pl_actions plan of a # _ \<Rightarrow> ca_kind a = AK_retry_shard \<and> ca_trial_ids a = [''t1''] | [] \<Rightarrow> False"
  then obtain a rest where "pl_actions plan = a # rest" "ca_kind a = AK_retry_shard" "ca_trial_ids a = [''t1'']"
    by (cases "pl_actions plan") auto
  then have a: "a \<in> set (pl_actions plan)" "ca_kind a = AK_retry_shard" "''t1'' \<in> set (ca_trial_ids a)"
    by simp_all
  from retried_trials_are_due [OF p sample_wave_bound a] p a show ?thesis by blast
qed

theorem ready_work_is_accounted_witness:
  "\<exists>p plan. plan_projection sample_hash sample_lock p sample_context 9 = Inr plan \<and>
     assigned_shards sample_lock p = Inr [] \<and> ''s1'' \<in> set (lock_shard_ids sample_lock) \<and>
     (\<not> wave_pending p [] ''s1'' \<or> (\<exists>c :: candidate. submits c \<and> ''s1'' \<in> set (ca_shard_ids c)))"
  using sample_fresh_plan
proof (rule plans_D)
  fix p plan
  assume p: "plan_projection sample_hash sample_lock p sample_context 9 = Inr plan"
    and k: "map ca_kind (pl_actions plan) = [AK_submit_wave, AK_submit_wave] \<and>
      \<not> cancelling_status (cp_status (rv_campaign p)) \<and> \<not> campaign_terminal (cp_status (rv_campaign p)) \<and>
      assigned_shards sample_lock p = Inr []"
  then have k': "\<not> cancelling_status (cp_status (rv_campaign p))"
    "\<not> campaign_terminal (cp_status (rv_campaign p))" "assigned_shards sample_lock p = Inr []" by auto
  have s1: "''s1'' \<in> set (lock_shard_ids sample_lock)" by code_simp
  from ready_work_is_accounted [OF p sample_wave_bound k', THEN conjunct1, rule_format, OF s1]
  have "\<not> wave_pending p [] ''s1'' \<or> (\<exists>c :: candidate. submits c \<and> ''s1'' \<in> set (ca_shard_ids c))"
    by blast
  with p k'(3) s1 show ?thesis by blast
qed

theorem cancelling_waves_are_handled_witness:
  "\<exists>p plan w. plan_projection sample_hash sample_lock p sample_context 9 = Inr plan \<and>
     w \<in> set (dict_values (rv_waves p)) \<and> wv_status w \<noteq> WS_closed \<and> (\<exists>k. cleanup_kind k \<and>
      ((\<exists>a \<in> set (pl_actions plan). ca_kind a = k \<and> ca_target_ids a = [wv_wave_id w]) \<or>
       outstanding_key p (action_key_of sample_hash sample_lock p (wave_candidate w k)) \<or>
       al_action_limit (rc_limits sample_context) \<le> int (length (pl_actions plan))))"
  using sample_cancel_plan
proof (rule plans_D)
  fix p plan
  assume p: "plan_projection sample_hash sample_lock p sample_context 9 = Inr plan"
    and k: "cancelling_status (cp_status (rv_campaign p)) \<and>
      (case dict_values (rv_waves p) of w # _ \<Rightarrow> wv_status w \<noteq> WS_closed | [] \<Rightarrow> False) \<and>
      (case pl_actions plan of a # _ \<Rightarrow> ca_kind a = AK_cancel_wave | [] \<Rightarrow> False)"
  then obtain w ws where "dict_values (rv_waves p) = w # ws" "wv_status w \<noteq> WS_closed"
    by (cases "dict_values (rv_waves p)") auto
  then have w: "w \<in> set (dict_values (rv_waves p))" "wv_status w \<noteq> WS_closed" by (metis list.set_intros(1))+
  from k have c: "cancelling_status (cp_status (rv_campaign p))" by blast
  from cancelling_waves_are_handled [OF p c w] p w show ?thesis by blast
qed

theorem cancellation_respects_grace_witness:
  "\<exists>p plan a. plan_projection sample_hash sample_lock p sample_context 9 = Inr plan \<and>
     a \<in> set (pl_actions plan) \<and> ca_kind a = AK_cancel_wave \<and>
     (\<exists>at. rv_cancel_requested_at p = Some at \<and> at \<le> max 9 (cp_last_observed_at (rv_campaign p)))"
  using sample_cancel_plan
proof (rule plans_D)
  fix p plan
  assume p: "plan_projection sample_hash sample_lock p sample_context 9 = Inr plan"
    and "cancelling_status (cp_status (rv_campaign p)) \<and>
      (case dict_values (rv_waves p) of w # _ \<Rightarrow> wv_status w \<noteq> WS_closed | [] \<Rightarrow> False) \<and>
      (case pl_actions plan of a # _ \<Rightarrow> ca_kind a = AK_cancel_wave | [] \<Rightarrow> False)"
  then obtain a rest where "pl_actions plan = a # rest" "ca_kind a = AK_cancel_wave"
    by (cases "pl_actions plan") auto
  then have a: "a \<in> set (pl_actions plan)" "ca_kind a = AK_cancel_wave" by simp_all
  have "rp_cancellation_grace_seconds (cl_recovery_policy sample_lock) = 0" by code_simp
  with cancellation_respects_grace [OF p sample_wave_bound a(1)] p a show ?thesis by auto
qed

theorem planned_actions_are_fresh_witness:
  "\<exists>p plan a. plan_projection sample_hash sample_lock p sample_context 9 = Inr plan \<and>
     a \<in> set (pl_actions plan) \<and> ca_kind a = AK_submit_wave \<and>
     ca_wave_id a = Some (wave_id_of_key (ac_action_key a)) \<and> \<not> outstanding_key p (ac_action_key a)"
  using sample_fresh_plan
proof (rule plans_D)
  fix p plan
  assume p: "plan_projection sample_hash sample_lock p sample_context 9 = Inr plan"
    and "map ca_kind (pl_actions plan) = [AK_submit_wave, AK_submit_wave] \<and>
      \<not> cancelling_status (cp_status (rv_campaign p)) \<and> \<not> campaign_terminal (cp_status (rv_campaign p)) \<and>
      assigned_shards sample_lock p = Inr []"
  then obtain a b where "pl_actions plan = [a, b]" "ca_kind a = AK_submit_wave"
    by (auto simp: map_eq_Cons_conv)
  then have a: "a \<in> set (pl_actions plan)" "ca_kind a = AK_submit_wave" by simp_all
  from planned_actions_are_fresh [OF p a(1)] p a show ?thesis by (auto simp: billable_def)
qed

end
