(* ===== verification/Wave_Actions.thy ===== *)
theory Wave_Actions
  imports Wave_Lock Reconciler_Properties
begin

text \<open>
  The billable actions of a reconciliation plan meet the checks with which \<open>build_wave_lock\<close>
  receives them.
\<close>

section \<open>Keys\<close>

lemma hex_digit_lower: "n < 16 \<Longrightarrow> is_lower_hex (hex_digit n)"
proof -
  have "\<forall>n \<in> {..<16}. is_lower_hex (hex_digit n)" by code_simp
  then show "n < 16 \<Longrightarrow> is_lower_hex (hex_digit n)" by simp
qed

lemma hexdigest_hex: "hex_string (2 * length (h s)) (hexdigest h s)"
proof -
  have "list_all is_lower_hex (hex_byte (unat b))" for b :: byte
    using unsigned_less [of b, where ?'a = nat] by (simp add: hex_byte_def hex_digit_lower)
  then show ?thesis
    by (simp add: hex_string_def hexdigest_def list_all_iff length_concat comp_def hex_byte_def sum_list_triv)
qed

lemma short_digest_hex: "12 \<le> length (h (dumps v)) \<Longrightarrow> hex_string 24 (short_digest h v)"
  using hexdigest_hex [of h "dumps v"]
  by (auto simp: hex_string_def short_digest_def list_all_iff dest: in_set_takeD)

section \<open>Selected shards\<close>

definition holds_shard :: "string list \<Rightarrow> run_lock \<Rightarrow> bool" where
  "holds_shard ids r \<longleftrightarrow> (\<exists>s \<in> set (rl_shards r). sl_shard_id s \<in> set ids)"

definition picked :: "string list \<Rightarrow> run_lock list \<Rightarrow> (run_lock \<times> shard_lock list) list" where
  "picked ids runs =
     map (\<lambda>r. (r, filter (\<lambda>s. sl_shard_id s \<in> set ids) (rl_shards r))) (filter (holds_shard ids) runs)"

definition picked_shards :: "(run_lock \<times> shard_lock list) list \<Rightarrow> shard_lock list" where
  "picked_shards sel = concat (map snd sel)"

lemma picked_simps [simp]:
  "picked ids [] = []"
  "picked ids (r # rs) = (if holds_shard ids r
     then [(r, filter (\<lambda>s. sl_shard_id s \<in> set ids) (rl_shards r))] else []) @ picked ids rs"
  by (simp_all add: picked_def)

lemma select_runs_Inr:
  "foldM (select_run_shards a) (sel, found) runs = Inr st \<longleftrightarrow>
     (\<forall>r \<in> set runs. holds_shard (ca_shard_ids a) r \<longrightarrow> ra_deployment_digest r = ca_deployment_digest a) \<and>
     st = (sel @ picked (ca_shard_ids a) runs,
       found @ map sl_shard_id (picked_shards (picked (ca_shard_ids a) runs)))"
proof (induction runs arbitrary: sel found)
  case (Cons r rs)
  have none: "filter (\<lambda>s. sl_shard_id s \<in> set (ca_shard_ids a)) (rl_shards r) = [] \<longleftrightarrow> \<not> holds_shard (ca_shard_ids a) r"
    by (auto simp: holds_shard_def filter_empty_conv)
  have "select_run_shards a (sel, found) r =
      (if \<not> holds_shard (ca_shard_ids a) r then Inr (sel, found)
       else if ra_deployment_digest r \<noteq> ca_deployment_digest a then Inl Action_mixes_deployments
       else Inr (sel @ [(r, filter (\<lambda>s. sl_shard_id s \<in> set (ca_shard_ids a)) (rl_shards r))],
         found @ map sl_shard_id (filter (\<lambda>s. sl_shard_id s \<in> set (ca_shard_ids a)) (rl_shards r))))"
    by (simp add: select_run_shards_def Let_def none)
  then show ?case by (simp add: Cons.IH picked_shards_def)
qed (auto simp: picked_shards_def)

lemma picked_ids:
  "set (map sl_shard_id (picked_shards (picked ids runs))) =
     set ids \<inter> set (map sl_shard_id (concat (map rl_shards runs)))"
  by (induction runs) (auto simp: picked_shards_def holds_shard_def)

lemma selected_wave_shards_Inr:
  "selected_wave_shards lock a = Inr sel \<longleftrightarrow>
     (\<forall>r \<in> set (cl_runs lock). holds_shard (ca_shard_ids a) r \<longrightarrow> ra_deployment_digest r = ca_deployment_digest a) \<and>
     set (ca_shard_ids a) \<subseteq> set (lock_shard_ids lock) \<and> sel = picked (ca_shard_ids a) (cl_runs lock)"
  by (auto simp: selected_wave_shards_def result_simps select_runs_Inr picked_ids lock_shard_ids_def
      lock_shards_def simp del: set_map split: if_splits)

lemma remdups_single: "remdups xs = [d] \<longleftrightarrow> xs \<noteq> [] \<and> (\<forall>x \<in> set xs. x = d)"
proof
  assume "remdups xs = [d]"
  then show "xs \<noteq> [] \<and> (\<forall>x \<in> set xs. x = d)" by (metis empty_iff empty_set list.simps(15) remdups.simps(1) set_remdups singleton_iff list.distinct(1))
next
  assume "xs \<noteq> [] \<and> (\<forall>x \<in> set xs. x = d)"
  then have "xs = replicate (length xs) d" "0 < length xs" by (simp_all add: replicate_length_same)
  moreover have "remdups (replicate n d) = [d]" if "0 < n" for n
    using that by (induction n rule: nat_induct_non_zero) simp_all
  ultimately show "remdups xs = [d]" by metis
qed

text \<open>A shard belongs to one deployment, in the sense of the reconciler's lookup.\<close>

lemma deployment_for_shard_iff:
  "deployment_for_shards lock [i] = Inr d \<longleftrightarrow>
     (\<exists>r \<in> set (cl_runs lock). holds_shard [i] r) \<and>
     (\<forall>r \<in> set (cl_runs lock). holds_shard [i] r \<longrightarrow> ra_deployment_digest r = d)"
proof -
  have "deployment_for_shards lock [i] = Inr d \<longleftrightarrow>
      remdups (map ra_deployment_digest (filter (holds_shard [i]) (cl_runs lock))) = [d]"
    by (auto simp: deployment_for_shards_def holds_shard_def [abs_def] split: list.splits)
  then show ?thesis unfolding remdups_single by (simp add: filter_empty_conv) blast
qed

lemma distinct_concat_unique:
  "distinct (concat (map f xs)) \<Longrightarrow> x \<in> set xs \<Longrightarrow> y \<in> set xs \<Longrightarrow> i \<in> set (f x) \<Longrightarrow> i \<in> set (f y) \<Longrightarrow> x = y"
  by (induction xs) (fastforce simp: disjoint_iff)+

lemma shard_deployment:
  assumes "lock_ids_distinct lock" and "r \<in> set (cl_runs lock)" and "i \<in> sl_shard_id ` set (rl_shards r)"
  shows "deployment_for_shards lock [i] = Inr (ra_deployment_digest r)"
proof -
  have "distinct (concat (map (\<lambda>r. map sl_shard_id (rl_shards r)) (cl_runs lock)))"
    using assms(1) by (simp add: lock_ids_distinct_def lock_shard_ids_def lock_shards_def map_concat comp_def)
  note unique = distinct_concat_unique [OF this]
  have "r' = r" if "r' \<in> set (cl_runs lock)" "holds_shard [i] r'" for r'
  proof (rule unique [OF that(1) assms(2)])
    show "i \<in> set (map sl_shard_id (rl_shards r'))" using that(2) by (force simp: holds_shard_def)
    show "i \<in> set (map sl_shard_id (rl_shards r))" using assms(3) by simp
  qed
  moreover have "holds_shard [i] r" using assms(3) by (auto simp: holds_shard_def)
  ultimately show ?thesis unfolding deployment_for_shard_iff using assms(2) by blast
qed

lemma selectable:
  assumes "\<forall>i \<in> set (ca_shard_ids a). deployment_for_shards lock [i] = Inr (ca_deployment_digest a)"
  shows "selected_wave_shards lock a = Inr (picked (ca_shard_ids a) (cl_runs lock))"
proof -
  have "ra_deployment_digest r = ca_deployment_digest a"
    if "r \<in> set (cl_runs lock)" "holds_shard (ca_shard_ids a) r" for r
    using that assms by (force simp: holds_shard_def deployment_for_shard_iff)
  moreover have "i \<in> set (lock_shard_ids lock)" if "i \<in> set (ca_shard_ids a)" for i
    using assms that by (force simp: holds_shard_def deployment_for_shard_iff lock_shard_ids_def lock_shards_def)
  ultimately show ?thesis unfolding selected_wave_shards_Inr by blast
qed

section \<open>Retries\<close>

lemma retry_source:
  assumes "retry_candidates lock p ctx now = Inr (ws, blocked)" and "0 < cl_max_shards_per_wave lock"
    and "w \<in> set ws"
    and ready: "ready = group_pairs (trial_keys (filter (queued p now Queue_ready) (dict_values (rv_trials p))))"
  shows "ca_trial_ids w = sort (concat (map (get_list ready) (ca_shard_ids w)))"
    and "\<forall>i \<in> set (ca_shard_ids w). i \<in> set (dict_keys ready) \<and>
      deployment_for_shards lock [i] = Inr (ca_deployment_digest w)"
proof -
  let ?n = "nat (cl_max_shards_per_wave lock)"
  from assms(1) obtain ready' waiting groups wss where q:
    "foldM (queue_trial p now) ([], []) (dict_values (rv_trials p)) = Inr (ready', waiting)"
    "group_by_deployment lock (sort (dict_keys ready')) = Inr groups"
    "mapM (\<lambda>d. rbind (deployment_admission_of lock ctx d) (\<lambda>admission.
       rbind (py_chunks (Campaign_failure Range_step_zero) (cl_max_shards_per_wave lock)
         (get_list groups d)) (\<lambda>cs. mapM (retry_candidate lock d admission ready') cs)))
       (sort (dict_keys groups)) = Inr wss" "ws = concat wss"
    by (auto simp: retry_candidates_def result_simps split: prod.splits)
  have r: "ready' = ready" using queues_Inr [OF q(1)] ready by simp
  from group_by_deployment_Inr [OF q(2)] obtain ps where ps: "groups = group_pairs ps"
    "map snd ps = sort (dict_keys ready)" "\<forall>(d, i) \<in> set ps. deployment_for_shards lock [i] = Inr d"
    unfolding r by blast
  from assms(3) q(4) obtain ys where ys: "ys \<in> set wss" "w \<in> set ys" by auto
  from mapM_memD [OF q(3) ys(1)] assms(2) obtain d adm where
    d: "mapM (retry_candidate lock d adm ready) (chunks ?n (get_list groups d)) = Inr ys"
    by (auto simp: result_simps r)
  from mapM_memD [OF d ys(2)] obtain chunk where c: "chunk \<in> set (chunks ?n (get_list groups d))"
    "retry_candidate lock d adm ready chunk = Inr w" by blast
  show "ca_trial_ids w = sort (concat (map (get_list ready) (ca_shard_ids w)))"
    using c(2) by (auto simp: retry_candidate_def result_simps Let_def)
  show "\<forall>i \<in> set (ca_shard_ids w). i \<in> set (dict_keys ready) \<and>
      deployment_for_shards lock [i] = Inr (ca_deployment_digest w)"
  proof
    fix i
    assume "i \<in> set (ca_shard_ids w)"
    then have "i \<in> set (get_list groups d)"
      using set_chunks_subset [OF c(1)] retry_candidate_Inr(3) [OF c(2)] by blast
    then have "(d, i) \<in> set ps" unfolding ps(1) get_list_group group_mem .
    moreover from this have "i \<in> set (map snd ps)" by force
    ultimately show "i \<in> set (dict_keys ready) \<and> deployment_for_shards lock [i] = Inr (ca_deployment_digest w)"
      using ps(3) retry_candidate_Inr(2) [OF c(2)] unfolding ps(2) by auto
  qed
qed

lemma projected_trials_distinct:
  assumes "project_recovery h lock es = Inr p" and "lock_ids_distinct lock"
  shows "map tr_trial_id (dict_values (rv_trials p)) = dict_keys (rv_trials p)"
    and "distinct (map tr_trial_id (dict_values (rv_trials p)))"
    and "t \<in> set (dict_values (rv_trials p)) \<Longrightarrow>
      \<exists>s \<in> set (lock_shards lock). sl_shard_id s = tr_shard_id t \<and> tr_trial_id t \<in> tl_trial_id ` set (sl_trials s)"
proof -
  let ?ps = "concat (map (\<lambda>s. map (\<lambda>t. (tl_trial_id t, initial_trial (sl_shard_id s) t)) (sl_trials s)) (lock_shards lock))"
  have at: "trials_at lock (rv_executions p) (rv_trials p)" using assms(1) by (rule project_recovery_trials)
  have keys: "map fst ?ps = lock_trial_ids lock"
    by (simp add: lock_trial_ids_def lock_trials_def map_concat comp_def)
  have "distinct (map fst ?ps)" unfolding keys using assms(2) by (simp add: lock_ids_distinct_def)
  then have m: "lock_trial_map lock = ?ps"
    by (simp add: lock_trial_map_def initial_projections_def mk_dict_distinct)
  have lock: "tr_trial_id t = i \<and> (\<exists>s \<in> set (lock_shards lock). sl_shard_id s = tr_shard_id t \<and>
      tr_trial_id t \<in> tl_trial_id ` set (sl_trials s))" if t: "(i, t) \<in> set (rv_trials p)" for i t
  proof -
    from t at obtain t0 where t0: "map_of (lock_trial_map lock) i = Some t0" "tr_trial_id t = tr_trial_id t0"
      "tr_shard_id t = tr_shard_id t0" by (auto simp: trials_at_def trial_at_def)
    from map_of_SomeD [OF t0(1)] have "(i, t0) \<in> set ?ps" unfolding m .
    with t0(2,3) show ?thesis by (auto simp: initial_trial_def)
  qed
  then show ids: "map tr_trial_id (dict_values (rv_trials p)) = dict_keys (rv_trials p)" by auto
  have "dict_keys (rv_trials p) = lock_trial_ids lock"
    using at m keys by (simp add: trials_at_def)
  then show "distinct (map tr_trial_id (dict_values (rv_trials p)))"
    unfolding ids using assms(2) by (simp add: lock_ids_distinct_def)
  assume "t \<in> set (dict_values (rv_trials p))"
  then obtain i where "(i, t) \<in> set (rv_trials p)" by force
  with lock show "\<exists>s \<in> set (lock_shards lock). sl_shard_id s = tr_shard_id t \<and>
      tr_trial_id t \<in> tl_trial_id ` set (sl_trials s)" by blast
qed

section \<open>The actions of a plan\<close>

text \<open>What the checks of a wave lock ask of the contents of an action.\<close>

definition action_contents_ok :: "campaign_lock \<Rightarrow> 'a candidate_scheme \<Rightarrow> bool" where
  "action_contents_ok lock c \<longleftrightarrow>
     ca_shard_ids c \<noteq> [] \<and> distinct (ca_shard_ids c) \<and>
     int (length (ca_shard_ids c)) \<le> cl_max_shards_per_wave lock \<and> distinct (ca_trial_ids c) \<and>
     (ca_kind c = AK_retry_shard \<longrightarrow> ca_trial_ids c \<noteq> []) \<and>
     (ca_kind c = AK_submit_wave \<longrightarrow> ca_trial_ids c = []) \<and>
     (\<forall>i \<in> set (ca_shard_ids c). deployment_for_shards lock [i] = Inr (ca_deployment_digest c)) \<and>
     (\<forall>i \<in> set (ca_trial_ids c). \<exists>s \<in> set (lock_shards lock).
        sl_shard_id s \<in> set (ca_shard_ids c) \<and> i \<in> tl_trial_id ` set (sl_trials s))"

lemma retries_contents_ok:
  assumes p: "project_recovery h lock es = Inr p" "lock_ids_distinct lock"
    and "retry_candidates lock p ctx now = Inr (ws, blocked)" and "0 < cl_max_shards_per_wave lock"
    and w: "w \<in> set ws"
  shows "action_contents_ok lock w"
  using assms(3,4)
proof (rule retry_candidates_Inr)
  fix ready
  let ?ts = "filter (queued p now Queue_ready) (dict_values (rv_trials p))"
  assume ready: "ready = group_pairs (trial_keys ?ts)" and d: "distinct (concat (map ca_shard_ids ws))"
    and ok: "\<forall>w \<in> set ws. ca_kind w = AK_retry_shard \<and> ca_shard_ids w \<noteq> [] \<and>
      int (length (ca_shard_ids w)) \<le> cl_max_shards_per_wave lock \<and>
      set (ca_trial_ids w) = (\<Union>i \<in> set (ca_shard_ids w). set (get_list ready i))"
  note src = retry_source [OF assms(3,4) w ready]
  have k: "ca_kind w = AK_retry_shard" "ca_shard_ids w \<noteq> []"
    "int (length (ca_shard_ids w)) \<le> cl_max_shards_per_wave lock" using ok w by blast+
  have ds: "distinct (ca_shard_ids w)" using d w by (simp add: distinct_concat_iff)
  have get: "get_list ready = (\<lambda>k. map snd (filter (\<lambda>x. fst x = k) (trial_keys ?ts)))"
    unfolding ready by (rule get_list_group)
  have "distinct (map snd (trial_keys ?ts))"
    using distinct_map_filter [OF projected_trials_distinct(2) [OF p]] by (simp add: comp_def)
  with ds have dt: "distinct (ca_trial_ids w)"
    unfolding src(1) get distinct_sort by (rule distinct_groups)
  have mem: "\<exists>t \<in> set ?ts. tr_shard_id t = j \<and> tr_trial_id t = i" if "i \<in> set (get_list ready j)" for i j
    using that unfolding get group_mem by auto
  have "\<exists>s \<in> set (lock_shards lock). sl_shard_id s \<in> set (ca_shard_ids w) \<and> i \<in> tl_trial_id ` set (sl_trials s)"
    if "i \<in> set (ca_trial_ids w)" for i
  proof -
    from that obtain j where j: "j \<in> set (ca_shard_ids w)" "i \<in> set (get_list ready j)" unfolding src(1) by auto
    from mem [OF j(2)] obtain t where t: "t \<in> set ?ts" "tr_shard_id t = j" "tr_trial_id t = i" by blast
    from t(1) have "t \<in> set (dict_values (rv_trials p))" by (simp only: set_filter mem_Collect_eq)
    with projected_trials_distinct(3) [OF p] t j(1) show ?thesis by metis
  qed
  moreover have "ca_trial_ids w \<noteq> []"
  proof -
    obtain j where j: "j \<in> set (ca_shard_ids w)" using k(2) by (cases "ca_shard_ids w") auto
    with src(2) have "j \<in> fst ` set (trial_keys ?ts)" unfolding ready group_dict(2) by blast
    then obtain i where "(j, i) \<in> set (trial_keys ?ts)" by force
    then have "i \<in> set (get_list ready j)" unfolding get group_mem .
    with j have "i \<in> set (ca_trial_ids w)" unfolding src(1) by auto
    then show ?thesis by auto
  qed
  ultimately show "action_contents_ok lock w"
    using k ds dt src(2) unfolding action_contents_ok_def by simp
qed

lemma waves_contents_ok:
  assumes "new_wave_candidates lock p ctx = Inr waves" and "lock_ids_distinct lock"
    and "0 < cl_max_shards_per_wave lock" and w: "w \<in> set waves"
  shows "action_contents_ok lock w"
proof -
  have "submits w" "submit_ok lock p w" using new_waves_ok(1) [OF assms(1,3)] w by blast+
  moreover have "distinct (ca_shard_ids w)"
    using new_waves_ok(2) [OF assms(1,3,2)] w by (simp add: distinct_concat_iff)
  moreover have "ca_trial_ids w = []" using assms(1) w by (rule waves_unnamed)
  ultimately show ?thesis
    using shard_deployment [OF assms(2)] unfolding action_contents_ok_def submit_ok_def by fastforce
qed

lemma plan_contents_ok:
  assumes "plan_reconciliation h lock es ctx now = Inr (p, plan)" and d: "lock_ids_distinct lock"
    and m: "0 < cl_max_shards_per_wave lock" and a: "a \<in> set (pl_actions plan)" "billable (ca_kind a)"
  shows "action_contents_ok lock a"
proof -
  note p = plan_reconciliation_Inr [OF assms(1)]
  let ?now = "max now (cp_last_observed_at (rv_campaign p))"
  from p(2) show ?thesis
  proof (cases rule: plan_projection_Inr)
    case terminal
    with a show ?thesis by simp
  next
    case (live cs pre)
    have nc: "\<not> cancelling_status (cp_status (rv_campaign p))"
      using cancelling_no_billable [OF p(2) _ a(1)] a(2) by blast
    from live(2) nc obtain cleanup retry waves where c: "cleanup_candidates lock p ?now = Inr cleanup"
      "retry_candidates lock p ctx ?now = Inr (retry, pre)" "new_wave_candidates lock p ctx = Inr waves"
      "cs = sort_key candidate_key (cleanup @ (retry @ waves) @ summary_candidates p)"
      by (rule candidates_active)
    from plan_action_source [OF live(3) a(1)] obtain x where x: "x \<in> set cs" "realises h lock p x a" ..
    have mx: "materialize h lock p x = Some a"
      using x(2) a(2) materialize_Some(1) [of h lock p "exhaustion x" a]
      by (auto simp: realises_def exhaustion_def blank_candidate_def billable_def)
    have b: "billable (ca_kind x)" using a(2) materialize_Some(1) [OF mx] by simp
    have "x \<notin> set cleanup"
      using cleanup_candidates_Inr(1) [OF c(1), of x] cleanup_kind_not_billable b by blast
    moreover have "x \<notin> set (summary_candidates p)" using summary_kind b by (force simp: billable_def)
    ultimately have "x \<in> set retry \<or> x \<in> set waves" using x(1) c(4) by auto
    then have "action_contents_ok lock x"
      using retries_contents_ok [OF p(1) d c(2) m] waves_contents_ok [OF c(3) d m] by blast
    then show ?thesis by (simp add: action_contents_ok_def materialize_Some(1,2,4,5) [OF mx])
  qed
qed

lemma plan_action_identity:
  assumes "plan_projection h lock p ctx now = Inr plan" and "a \<in> set (pl_actions plan)"
  obtains c where "ac_action_key a = action_key_of h lock p c"
    and "ac_action_id a = ''act-'' @ ac_action_key a" and "ac_campaign_id a = cl_campaign_id lock"
  using assms(1)
proof (cases rule: plan_projection_Inr)
  case terminal
  with assms(2) show ?thesis by simp
next
  case (live cs pre)
  from plan_action_source [OF live(3) assms(2)] obtain x where "realises h lock p x a" ..
  then obtain c where "materialize h lock p c = Some a" by (auto simp: realises_def)
  from materialize_Some(9,10,11) [OF this] show ?thesis by (rule that)
qed

end
