(* ===== verification/Campaign_Planning_Facts.thy ===== *)
theory Campaign_Planning_Facts
  imports Campaign_Planning Reconciler_Candidates
begin

text \<open>
  Facts about planning and locking: how trials are cut into shards and shards into waves,
  the contract of the two wave builders (planned and locked waves), and the inversion of
  \<open>build_campaign_plan\<close> and \<open>build_campaign_lock\<close>.
\<close>

section \<open>Slices\<close>

lemma deployment_chunks_Inr:
  assumes "deployment_chunks e k grouped = Inr dcs" and "0 < k"
  shows "dcs = concat (map (\<lambda>d. map (Pair d) (chunks (nat k) (get_list grouped d)))
     (sort (dict_keys grouped)))"
proof -
  let ?f = "\<lambda>d. rbind (py_chunks e k (get_list grouped d)) (\<lambda>cs. Inr (map (Pair d) cs))"
  have f: "?f d = Inr (map (Pair d) (chunks (nat k) (get_list grouped d)))" for d
    using assms(2) by (simp add: py_chunks_def)
  have "mapM ?f (sort (dict_keys grouped)) =
      Inr (map (\<lambda>d. map (Pair d) (chunks (nat k) (get_list grouped d))) (sort (dict_keys grouped)))"
    by (rule mapM_total) (rule f)
  with assms(1) show ?thesis by (simp add: deployment_chunks_def get_list_def)
qed

lemma deployment_chunks_total: "0 < k \<Longrightarrow> \<exists>dcs. deployment_chunks e k grouped = Inr dcs"
proof -
  assume "0 < k"
  then have "\<exists>ys. mapM (\<lambda>d. rbind (py_chunks e k (case map_of grouped d of None \<Rightarrow> [] | Some xs \<Rightarrow> xs))
      (\<lambda>cs. Inr (map (Pair d) cs))) xs = Inr ys" for xs
    by (induction xs) (auto simp: py_chunks_def)
  from this [of "sort (dict_keys grouped)"] show ?thesis by (auto simp: deployment_chunks_def)
qed

lemma deployment_chunk_mem:
  assumes "deployment_chunks e k grouped = Inr dcs" and "0 < k" and "(d, c) \<in> set dcs"
  shows "d \<in> set (dict_keys grouped)" and "c \<noteq> []" and "int (length c) \<le> k"
    and "set c \<subseteq> set (get_list grouped d)"
proof -
  from assms deployment_chunks_Inr [OF assms(1,2)]
  have d: "d \<in> set (dict_keys grouped)" and c: "c \<in> set (chunks (nat k) (get_list grouped d))"
    by auto
  show "d \<in> set (dict_keys grouped)" by (rule d)
  from chunks_bounds [OF c] assms(2) show "c \<noteq> []" "int (length c) \<le> k" by auto
  show "set c \<subseteq> set (get_list grouped d)" by (rule set_chunks_subset [OF c])
qed

section \<open>Grouping runs\<close>

lemma get_extend_list:
  "get_list (extend_list k xs d) j = (if j = k then get_list d k @ xs else get_list d j)"
  by (auto simp: get_list_def extend_list_def split: option.splits)

lemma extend_list_keys:
  "dict_ok d \<Longrightarrow> dict_ok (extend_list k xs d)"
  "set (dict_keys (extend_list k xs d)) = insert k (set (dict_keys d))"
  by (simp_all add: extend_list_def keys_update)

lemma group_runs:
  fixes dep :: "'r \<Rightarrow> 'k" and items :: "'r \<Rightarrow> 's list"
  defines "grp \<equiv> \<lambda>rs. foldl (\<lambda>d r. extend_list (dep r) (items r) d) [] rs"
  shows "dict_ok (grp rs)" and "set (dict_keys (grp rs)) = dep ` set rs"
    and "get_list (grp rs) j = concat (map items (filter (\<lambda>r. dep r = j) rs))"
proof (induction rs rule: rev_induct)
  case (snoc r rs)
  { case 1
    from snoc(1) show ?case by (simp add: grp_def extend_list_keys(1))
  next
    case 2
    from snoc(2) show ?case using extend_list_keys(2) [of "dep r" "items r" "grp rs"] by (simp add: grp_def)
  next
    case 3
    from snoc(3) show ?case by (auto simp: grp_def get_extend_list) }
qed (simp_all add: grp_def get_list_def)

lemma lock_groups_dict:
  "dict_ok (lock_groups runs)" "set (dict_keys (lock_groups runs)) = ra_deployment_digest ` set runs"
  "get_list (lock_groups runs) d = concat (map (\<lambda>r. sort_key sl_shard_id (rl_shards r))
     (filter (\<lambda>r. ra_deployment_digest r = d) (sort_key rl_run_id runs)))"
  using group_runs [of ra_deployment_digest "\<lambda>r. sort_key sl_shard_id (rl_shards r)" "sort_key rl_run_id runs"]
  by (simp_all only: lock_groups_def set_sort)

section \<open>Wave builders\<close>

text \<open>
  Planned and locked waves are built by the same loop: each group of shards appends one
  wave that carries the next index and the key of the group.
\<close>

locale wave_builder =
  fixes step :: "'w list \<Rightarrow> 'g \<Rightarrow> 'e + 'w list"
    and index :: "'w \<Rightarrow> int" and made :: "'w \<Rightarrow> 'g \<Rightarrow> bool"
  assumes step_appends: "step ws g = Inr ws' \<Longrightarrow>
    \<exists>w. ws' = ws @ [w] \<and> index w = int (length ws) + 1 \<and> made w g"
begin

lemma built:
  assumes "foldM step [] gs = Inr ws"
  shows "list_all2 made ws gs" and "wave_indexes_contiguous (map index ws)"
proof -
  have "foldM step [] gs = Inr ws \<Longrightarrow>
      list_all2 made ws gs \<and> map index ws = map int [1..<length ws + 1]" for ws
  proof (induction gs arbitrary: ws rule: rev_induct)
    case (snoc g gs)
    then obtain us where us: "foldM step [] gs = Inr us" "step us g = Inr ws"
      by (auto simp: foldM_snoc_Inr)
    from step_appends [OF us(2)] obtain w where w: "ws = us @ [w]" "index w = int (length us) + 1" "made w g"
      by blast
    from snoc.IH [OF us(1)] w show ?case by (simp add: list_all2_appendI)
  qed simp
  from this [OF assms] show "list_all2 made ws gs" "wave_indexes_contiguous (map index ws)"
    unfolding wave_indexes_contiguous_def length_map by blast+
qed

end

definition planned_of ::
  "execution_spec \<Rightarrow> controller_spec \<Rightarrow> (string, int) dict \<Rightarrow> planned_initial_wave \<Rightarrow>
   string \<times> planned_shard list \<Rightarrow> bool" where
  "planned_of e policy concurrency w dc \<longleftrightarrow>
     piw_deployment_digest w = fst dc \<and> piw_shard_digests w = map psh_shard_digest (snd dc) \<and>
     piw_trial_count w = planned_trial_count (snd dc) \<and>
     map_of concurrency (fst dc) = Some (piw_effective_concurrency w) \<and>
     planned_provider_wave_seconds policy (piw_trial_count w) (piw_effective_concurrency w) =
       Inr (piw_planned_duration_seconds w) \<and>
     piw_planned_duration_seconds w \<le> ex_timeout_seconds e"

interpretation planned: wave_builder "plan_wave e policy concurrency" piw_wave_index
    "planned_of e policy concurrency" for e policy concurrency
  by unfold_locales
    (auto simp: plan_wave_def planned_of_def result_simps split: prod.splits if_splits)

definition locked_of ::
  "(string, int) dict \<Rightarrow> (string, int) dict \<Rightarrow> locked_initial_wave \<Rightarrow> string \<times> shard_lock list \<Rightarrow> bool" where
  "locked_of concurrency duration w dc \<longleftrightarrow>
     liw_deployment_digest w = fst dc \<and> liw_shard_ids w = map sl_shard_id (snd dc) \<and>
     liw_trial_count w = sum_list (map (\<lambda>s. int (length (sl_trials s))) (snd dc)) \<and>
     map_of concurrency (fst dc) = Some (liw_effective_concurrency w) \<and>
     map_of duration (fst dc) = Some (liw_planned_duration_seconds w)"

interpretation locked: wave_builder "lock_wave concurrency duration" liw_wave_index
    "locked_of concurrency duration" for concurrency duration
  by unfold_locales (auto simp: lock_wave_def locked_of_def result_simps split: prod.splits)

section \<open>Planned runs\<close>

definition task_product :: "int \<Rightarrow> (string \<times> string) list \<Rightarrow> (int \<times> string \<times> string) list" where
  "task_product attempts tasks = [(a, t). a \<leftarrow> [1..attempts], t \<leftarrow> tasks]"

definition trial_point :: "planned_trial \<Rightarrow> int \<times> string \<times> string" where
  "trial_point t = (pn_logical_attempt t, pn_task_name t, pn_task_digest t)"

lemma plan_trials_points: "map trial_point (plan_trials h i n tasks) = task_product n tasks"
  by (simp add: plan_trials_def task_product_def map_concat comp_def trial_point_def plan_trial_def)

lemma plan_trials_nonempty: "1 \<le> n \<Longrightarrow> tasks \<noteq> [] \<Longrightarrow> plan_trials h i n tasks \<noteq> []"
  by (auto simp: plan_trials_def upto_rec1 [of 1 n])

lemma plan_run_Inr:
  assumes "plan_run h s trials pf i cell = Inr run" and "1 \<le> ex_max_trials_per_shard (es_execution s)"
  shows "ra_model run = cell_model cell" and "ra_deployment run = cell_deployment cell"
    and "ra_agent run = cell_agent cell"
    and "concat (map psh_trials (pr_shards run)) = trials"
    and "sh \<in> set (pr_shards run) \<Longrightarrow> psh_trials sh \<noteq> [] \<and>
      int (length (psh_trials sh)) \<le> ex_max_trials_per_shard (es_execution s)"
    and "\<exists>target. map_of (pf_deployments pf) (cell_deployment cell) = Some target \<and>
      target_admission target = (ra_provider run, ra_max_concurrent_requests run,
        ra_spend_cap_microusd run, ra_estimated_wave_cost_microusd run)"
proof -
  let ?n = "nat (ex_max_trials_per_shard (es_execution s))"
  from assms(1) obtain model target agent where p: "cell_profiles pf cell = Inr (model, target, agent)"
    by (auto simp: plan_run_def result_simps split: prod.splits)
  from assms p have run: "ra_model run = cell_model cell"
    "ra_deployment run = cell_deployment cell" "ra_agent run = cell_agent cell"
    "pr_shards run = map (plan_shard h (ra_cell_digest run)) (chunks ?n trials)"
    "target_admission target = (ra_provider run, ra_max_concurrent_requests run,
        ra_spend_cap_microusd run, ra_estimated_wave_cost_microusd run)"
    by (auto simp: plan_run_def result_simps Let_def split: prod.splits)
  from p have "map_of (pf_deployments pf) (cell_deployment cell) = Some target"
    by (auto simp: cell_profiles_def result_simps)
  with run show "ra_model run = cell_model cell" "ra_deployment run = cell_deployment cell"
    "ra_agent run = cell_agent cell"
    "\<exists>target. map_of (pf_deployments pf) (cell_deployment cell) = Some target \<and>
      target_admission target = (ra_provider run, ra_max_concurrent_requests run,
        ra_spend_cap_microusd run, ra_estimated_wave_cost_microusd run)" by auto
  have shards: "psh_trials (plan_shard h cd c) = c" for cd c by (simp add: plan_shard_def)
  with run(4) concat_chunks [of ?n trials] assms(2)
  show "concat (map psh_trials (pr_shards run)) = trials" by (simp add: comp_def)
  show "psh_trials sh \<noteq> [] \<and> int (length (psh_trials sh)) \<le> ex_max_trials_per_shard (es_execution s)"
    if "sh \<in> set (pr_shards run)"
    using that run(4) chunks_bounds [of _ ?n trials] assms(2) shards by fastforce
qed

section \<open>Provider groups\<close>

definition run_concurrency :: "execution_spec \<Rightarrow> planned_run \<Rightarrow> int option" where
  "run_concurrency e r =
     map_option (\<lambda>k. min (ex_concurrent_trials e) (min k (profile_limit e)))
       (ra_max_concurrent_requests r)"

lemma add_provider_run_Inr:
  assumes "add_provider_run e (g, c) r = Inr (g', c')"
  obtains k where "run_concurrency e r = Some k"
    and "g' = extend_list (ra_deployment_digest r) (pr_shards r) g"
    and "map_of c (ra_deployment_digest r) = None \<and> c' = AList.update (ra_deployment_digest r) k c \<or>
       map_of c (ra_deployment_digest r) = Some k \<and> c' = c"
proof -
  from assms obtain x where x: "ra_max_concurrent_requests r = Some x"
    by (auto simp: add_provider_run_def result_simps)
  define k where "k = min (ex_concurrent_trials e) (min x (profile_limit e))"
  have "g' = extend_list (ra_deployment_digest r) (pr_shards r) g \<and>
     (map_of c (ra_deployment_digest r) = None \<and> c' = AList.update (ra_deployment_digest r) k c \<or>
       map_of c (ra_deployment_digest r) = Some k \<and> c' = c)"
    using assms x by (cases "map_of c (ra_deployment_digest r)")
      (auto simp: add_provider_run_def k_def Let_def split: if_splits)
  then show ?thesis using x by (intro that [of k]) (auto simp: run_concurrency_def k_def)
qed

lemma provider_wave_groups_Inr:
  assumes "provider_wave_groups e runs = Inr (grouped, concurrency)"
  shows "grouped = foldl (\<lambda>d r. extend_list (ra_deployment_digest r) (pr_shards r) d) [] runs"
    and "set (dict_keys concurrency) = ra_deployment_digest ` set runs"
    and "r \<in> set runs \<Longrightarrow> map_of concurrency (ra_deployment_digest r) = run_concurrency e r \<and>
      run_concurrency e r \<noteq> None"
proof -
  have "foldM (add_provider_run e) ([], []) runs = Inr (grouped, concurrency) \<Longrightarrow>
     grouped = foldl (\<lambda>d r. extend_list (ra_deployment_digest r) (pr_shards r) d) [] runs \<and>
     set (dict_keys concurrency) = ra_deployment_digest ` set runs \<and>
     (\<forall>r \<in> set runs. map_of concurrency (ra_deployment_digest r) = run_concurrency e r \<and>
       run_concurrency e r \<noteq> None)" for grouped concurrency
  proof (induction runs arbitrary: grouped concurrency rule: rev_induct)
    case (snoc r runs)
    then obtain g c where gc: "foldM (add_provider_run e) ([], []) runs = Inr (g, c)"
      "add_provider_run e (g, c) r = Inr (grouped, concurrency)"
      by (auto simp: foldM_snoc_Inr)
    let ?d = "ra_deployment_digest r"
    from gc(2) obtain k where k: "run_concurrency e r = Some k"
      "grouped = extend_list ?d (pr_shards r) g"
      "map_of c ?d = None \<and> concurrency = AList.update ?d k c \<or>
       map_of c ?d = Some k \<and> concurrency = c"
      by (rule add_provider_run_Inr)
    note IH = snoc.IH [OF gc(1)]
    have keys: "set (dict_keys concurrency) = insert ?d (set (dict_keys c))"
      using k(3) by (elim disjE conjE)
        (simp_all add: keys_update insert_absorb image_iff, metis map_of_SomeD fst_conv insert_absorb image_eqI)
    have old: "map_of concurrency (ra_deployment_digest x) = run_concurrency e x" if "x \<in> set runs" for x
    proof -
      from IH that have x: "map_of c (ra_deployment_digest x) = run_concurrency e x" "run_concurrency e x \<noteq> None"
        by auto
      then show ?thesis using k(3) by auto
    qed
    have new: "map_of concurrency ?d = run_concurrency e r" using k by auto
    from IH k(1,2) keys old new show ?case by auto
  qed simp
  from this [of grouped concurrency] assms
  show "grouped = foldl (\<lambda>d r. extend_list (ra_deployment_digest r) (pr_shards r) d) [] runs"
    and "set (dict_keys concurrency) = ra_deployment_digest ` set runs"
    and "r \<in> set runs \<Longrightarrow> map_of concurrency (ra_deployment_digest r) = run_concurrency e r \<and>
      run_concurrency e r \<noteq> None"
    by (simp_all add: provider_wave_groups_def)
qed

section \<open>Planned waves\<close>

lemma foldl_max_ge: "y \<in> set (x # xs) \<Longrightarrow> y \<le> foldl max (x :: 'a::linorder) xs"
proof (induction xs arbitrary: x y)
  case (Cons z zs)
  have "max x z \<le> foldl max (max x z) zs" by (rule Cons.IH) simp
  with Cons.IH [of y "max x z"] Cons.prems show ?case by auto
qed simp

lemma maximum_duration_Inr:
  assumes "maximum_duration waves d = Inr m"
  shows "\<exists>w \<in> set waves. piw_deployment_digest w = d \<and> piw_planned_duration_seconds w = m"
    and "w \<in> set waves \<Longrightarrow> piw_deployment_digest w = d \<Longrightarrow> piw_planned_duration_seconds w \<le> m"
proof -
  let ?ds = "map piw_planned_duration_seconds (filter (\<lambda>w. piw_deployment_digest w = d) waves)"
  from assms obtain x xs where ds: "?ds = x # xs" "m = foldl max x xs"
    by (auto simp: maximum_duration_def split: list.splits)
  have "m \<in> set ?ds" unfolding ds by (rule foldl_max_in)
  then show "\<exists>w \<in> set waves. piw_deployment_digest w = d \<and> piw_planned_duration_seconds w = m" by auto
  show "piw_planned_duration_seconds w \<le> m" if "w \<in> set waves" "piw_deployment_digest w = d"
  proof -
    from that have "piw_planned_duration_seconds w \<in> set ?ds" by auto
    then show ?thesis unfolding ds by (rule foldl_max_ge)
  qed
qed

lemma map_of_keyed:
  assumes "mapM (\<lambda>d. rbind (f d) (\<lambda>m. Inr (d, m))) ks = Inr kvs" and "map_of kvs k = Some v"
  shows "f k = Inr v"
  using assms by (induction ks arbitrary: kvs) (auto simp: result_simps split: if_splits)

lemma build_planned_initial_waves_Inr:
  assumes "build_planned_initial_waves e policy (grouped, concurrency) = Inr waves"
  obtains dcs raw where "deployment_chunks Plan_range_step_zero (ex_max_shards_per_wave e) grouped = Inr dcs"
    and "foldM (plan_wave e policy concurrency) [] dcs = Inr raw"
    and "list_all2 (\<lambda>w r. \<exists>m. w = r\<lparr>piw_planned_duration_seconds := m\<rparr> \<and>
      maximum_duration raw (piw_deployment_digest r) = Inr m) waves raw"
proof -
  from assms obtain dcs raw maximum where r:
    "deployment_chunks Plan_range_step_zero (ex_max_shards_per_wave e) grouped = Inr dcs"
    "foldM (plan_wave e policy concurrency) [] dcs = Inr raw"
    "mapM (\<lambda>d. rbind (maximum_duration raw d) (\<lambda>m. Inr (d, m))) (dict_keys grouped) = Inr maximum"
    "mapM (\<lambda>w. rbind (of_option Deployment_not_planned (map_of maximum (piw_deployment_digest w)))
        (\<lambda>m. Inr (w\<lparr>piw_planned_duration_seconds := m\<rparr>))) raw = Inr waves"
    by (auto simp: build_planned_initial_waves_def result_simps)
  have "list_all2 (\<lambda>r w. \<exists>m. w = r\<lparr>piw_planned_duration_seconds := m\<rparr> \<and>
      maximum_duration raw (piw_deployment_digest r) = Inr m) raw waves"
    using r(4) unfolding mapM_Inr_iff
    by (rule list_all2_mono) (auto simp: result_simps dest: map_of_keyed [OF r(3)])
  with r(1,2) show ?thesis by (intro that [of dcs raw]) (simp_all add: list_all2_conv_all_nth)
qed

lemma planned_seconds_Inr:
  assumes "planned_provider_wave_seconds c n k = Inr secs" and "controller_spec_ok c"
  shows "1 \<le> n" and "1 \<le> k" and "1 \<le> secs"
    and "(n + k - 1) div k * cc_planning_trial_seconds c + cc_wave_reserve_seconds c \<le> secs"
proof -
  let ?b = "(n + k - 1) div k"
  from assms(1) have nk: "1 \<le> n" "1 \<le> k" and secs:
    "secs = ceil_mul (?b * cc_planning_trial_seconds c) (cc_headroom_factor c) + cc_wave_reserve_seconds c"
    by (auto simp: planned_provider_wave_seconds_def Let_def split: if_splits)
  from assms(2) have c: "1 \<le> cc_planning_trial_seconds c" "decimal_at_least_one (cc_headroom_factor c)"
    "1 \<le> cc_wave_reserve_seconds c" by (auto simp: controller_spec_ok_def)
  have work: "0 \<le> ?b * cc_planning_trial_seconds c"
    using nk c(1) by (intro mult_nonneg_nonneg) (auto simp: pos_imp_zdiv_nonneg_iff)
  from ceil_mul_at_least [OF c(2) work] work c(3) nk secs
  show "1 \<le> n" "1 \<le> k" "1 \<le> secs" "?b * cc_planning_trial_seconds c + cc_wave_reserve_seconds c \<le> secs"
    by auto
qed

text \<open>What the planner promises of every initial wave.\<close>

definition wave_fits :: "execution_spec \<Rightarrow> controller_spec \<Rightarrow> planned_initial_wave \<Rightarrow> bool" where
  "wave_fits e c w \<longleftrightarrow>
     (\<exists>secs. planned_provider_wave_seconds c (piw_trial_count w) (piw_effective_concurrency w) = Inr secs \<and>
        secs \<le> piw_planned_duration_seconds w) \<and>
     piw_planned_duration_seconds w \<le> ex_timeout_seconds e"

lemma planned_waves:
  assumes "build_planned_initial_waves e policy (grouped, concurrency) = Inr waves"
    and "0 < ex_max_shards_per_wave e"
  obtains dcs where
    "deployment_chunks Plan_range_step_zero (ex_max_shards_per_wave e) grouped = Inr dcs"
    and "map (\<lambda>w. (piw_deployment_digest w, piw_shard_digests w, piw_trial_count w)) waves =
      map (\<lambda>(d, c). (d, map psh_shard_digest c, planned_trial_count c)) dcs"
    and "wave_indexes_contiguous (map piw_wave_index waves)"
    and "\<forall>w \<in> set waves. wave_fits e policy w \<and>
      map_of concurrency (piw_deployment_digest w) = Some (piw_effective_concurrency w)"
    and "\<forall>v \<in> set waves. \<forall>w \<in> set waves. piw_deployment_digest v = piw_deployment_digest w \<longrightarrow>
      piw_planned_duration_seconds v = piw_planned_duration_seconds w"
proof -
  from assms(1) obtain dcs raw where r:
    "deployment_chunks Plan_range_step_zero (ex_max_shards_per_wave e) grouped = Inr dcs"
    "foldM (plan_wave e policy concurrency) [] dcs = Inr raw"
    and waves: "list_all2 (\<lambda>w r. \<exists>m. w = r\<lparr>piw_planned_duration_seconds := m\<rparr> \<and>
      maximum_duration raw (piw_deployment_digest r) = Inr m) waves raw"
    by (rule build_planned_initial_waves_Inr)
  note built = planned.built [OF r(2)]
  have same: "map (\<lambda>w. (piw_wave_index w, piw_deployment_digest w, piw_shard_digests w, piw_trial_count w,
        piw_effective_concurrency w)) waves =
      map (\<lambda>w. (piw_wave_index w, piw_deployment_digest w, piw_shard_digests w, piw_trial_count w,
        piw_effective_concurrency w)) raw"
    using waves by (induction rule: list_all2_induct) auto
  have from_raw: "\<exists>r \<in> set raw. piw_deployment_digest w = piw_deployment_digest r \<and>
      piw_trial_count w = piw_trial_count r \<and> piw_effective_concurrency w = piw_effective_concurrency r \<and>
      maximum_duration raw (piw_deployment_digest w) = Inr (piw_planned_duration_seconds w)"
    if "w \<in> set waves" for w
    using list_all2_mem [OF waves that] by fastforce
  have raw: "\<exists>dc. planned_of e policy concurrency r dc" if "r \<in> set raw" for r
    using list_all2_mem [OF built(1) that] by blast
  show ?thesis
  proof (rule that [OF r(1)])
    have "map (\<lambda>w. (piw_deployment_digest w, piw_shard_digests w, piw_trial_count w)) raw =
        map (\<lambda>(d, c). (d, map psh_shard_digest c, planned_trial_count c)) dcs"
      using built(1) by (induction rule: list_all2_induct) (auto simp: planned_of_def)
    with arg_cong [OF same, of "map (\<lambda>(i, d, s, t, k). (d, s, t))"]
    show "map (\<lambda>w. (piw_deployment_digest w, piw_shard_digests w, piw_trial_count w)) waves =
        map (\<lambda>(d, c). (d, map psh_shard_digest c, planned_trial_count c)) dcs" by (simp add: comp_def)
    from arg_cong [OF same, of "map fst"] have "map piw_wave_index waves = map piw_wave_index raw"
      by (simp add: comp_def)
    with built(2) show "wave_indexes_contiguous (map piw_wave_index waves)" by simp
  next
    show "\<forall>w \<in> set waves. wave_fits e policy w \<and>
      map_of concurrency (piw_deployment_digest w) = Some (piw_effective_concurrency w)"
    proof
    fix w assume "w \<in> set waves"
    from from_raw [OF this] obtain r where r: "r \<in> set raw" "piw_deployment_digest w = piw_deployment_digest r"
      "piw_trial_count w = piw_trial_count r" "piw_effective_concurrency w = piw_effective_concurrency r"
      "maximum_duration raw (piw_deployment_digest w) = Inr (piw_planned_duration_seconds w)" by blast
    from maximum_duration_Inr(1) [OF r(5)] obtain m where m: "m \<in> set raw"
      "piw_planned_duration_seconds m = piw_planned_duration_seconds w" by blast
    from raw [OF m(1)] raw [OF r(1)] r m maximum_duration_Inr(2) [OF r(5) r(1)]
    show "wave_fits e policy w \<and>
        map_of concurrency (piw_deployment_digest w) = Some (piw_effective_concurrency w)"
      by (auto simp: wave_fits_def planned_of_def)
    qed
  next
    show "\<forall>v \<in> set waves. \<forall>w \<in> set waves. piw_deployment_digest v = piw_deployment_digest w \<longrightarrow>
        piw_planned_duration_seconds v = piw_planned_duration_seconds w"
    proof (intro ballI impI)
      fix v w assume "v \<in> set waves" "w \<in> set waves" "piw_deployment_digest v = piw_deployment_digest w"
      with from_raw [of v] from_raw [of w] show "piw_planned_duration_seconds v = piw_planned_duration_seconds w"
        by auto
    qed
  qed
qed

section \<open>Inversion\<close>

lemma resolved_experiment_keeps:
  assumes "resolved_experiment h s lock = Inr r"
  shows "es_matrix r = es_matrix s" and "es_execution r = es_execution s"
    and "es_publishing r = es_publishing s" and "es_remote r = es_remote s"
    and "es_artifacts r = es_artifacts s" and "es_name r = es_name s"
    and "bm_task_digests (es_benchmark r) = bm_task_digests (es_benchmark s)"
    and "bm_task_names (es_benchmark r) = bm_task_names (es_benchmark s)"
proof -
  have unchanged: "bm_task_digests b = bm_task_digests b' \<and> bm_task_names b = bm_task_names b'"
    if "validate_benchmark h (b'\<lparr>bm_source := Some (Source_bundle c m), bm_dataset_digest := Some c\<rparr>) = Inr b"
    for b b' c m
    using that by (auto simp: validate_benchmark_def resolve_benchmark_source_digest_def split: if_splits)
  show "es_matrix r = es_matrix s" "es_execution r = es_execution s" "es_publishing r = es_publishing s"
    "es_remote r = es_remote s" "es_artifacts r = es_artifacts s" "es_name r = es_name s"
    "bm_task_digests (es_benchmark r) = bm_task_digests (es_benchmark s)"
    "bm_task_names (es_benchmark r) = bm_task_names (es_benchmark s)"
    using assms
    by (auto simp: resolved_experiment_def result_simps Let_def dest: unchanged
        split: option.splits benchmark_source.splits benchmark_source_lock.splits)
qed

lemma provider_policy_Inr:
  assumes "provider_controller_policy s runs = Inr policy"
  obtains (endpoints) "policy = None" and "\<forall>r \<in> set runs. ra_provider r = None"
  | (providers) c remote where "policy = Some c" and "ex_controller (es_execution s) = Some c"
      and "es_remote s = Some remote" and "\<forall>r \<in> set runs. ra_provider r \<noteq> None"
proof -
  define n where "n = length (filter (\<lambda>r. ra_provider r \<noteq> None) runs)"
  have n: "(if 0 < n \<and> n < length runs then Inl Mixed_providers_and_endpoints
     else if n = 0 then if ex_controller (es_execution s) \<noteq> None then Inl Controller_without_providers else Inr None
     else if ex_controller (es_execution s) = None then Inl Providers_without_controller
     else if es_remote s = None then Inl Controller_without_remote
     else Inr (ex_controller (es_execution s))) = Inr policy"
    using assms by (simp only: provider_controller_policy_def Let_def n_def)
  show ?thesis
  proof (cases "n = 0")
    case True
    then have "\<forall>r \<in> set runs. ra_provider r = None" by (auto simp: n_def filter_empty_conv)
    with True n show ?thesis by (intro endpoints) (auto split: if_splits)
  next
    case False
    have "n \<le> length runs" unfolding n_def by (rule length_filter_le)
    with False n have "n = length runs" by (auto split: if_splits)
    moreover have "n < length runs" if "r \<in> set runs" "ra_provider r = None" for r
      unfolding n_def by (rule length_filter_less [OF that(1)]) (simp add: that(2))
    ultimately have "\<forall>r \<in> set runs. ra_provider r \<noteq> None" by blast
    moreover from False n obtain c remote where "ex_controller (es_execution s) = Some c"
      "es_remote s = Some remote" "policy = Some c" by (auto split: if_splits)
    ultimately show ?thesis by (intro providers)
  qed
qed

lemma controller_plan_Inr:
  assumes "controller_plan s runs = Inr (policy, waves, duration)"
  obtains (endpoints) "policy = None" and "waves = []" and "duration = None"
      and "\<forall>r \<in> set runs. ra_provider r = None"
  | (providers) c grouped concurrency remote where "policy = Some c" and "ex_controller (es_execution s) = Some c"
      and "provider_wave_groups (es_execution s) runs = Inr (grouped, concurrency)"
      and "build_planned_initial_waves (es_execution s) c (grouped, concurrency) = Inr waves"
      and "es_remote s = Some remote"
      and "duration = Some (sum_list (map piw_planned_duration_seconds waves) + cc_controller_reserve_seconds c)"
      and "sum_list (map piw_planned_duration_seconds waves) + cc_controller_reserve_seconds c
        \<le> rj_timeout_seconds remote"
      and "\<forall>r \<in> set runs. ra_provider r \<noteq> None"
proof -
  from assms(1) obtain pol where pol: "provider_controller_policy s runs = Inr pol"
    by (auto simp: controller_plan_def result_simps)
  from pol show ?thesis
  proof (cases rule: provider_policy_Inr)
    case endpoints
    with assms(1) pol show ?thesis by (intro that(1)) (auto simp: controller_plan_def)
  next
    case (providers c remote)
    with assms(1) pol obtain grouped concurrency where
      "provider_wave_groups (es_execution s) runs = Inr (grouped, concurrency)"
      "build_planned_initial_waves (es_execution s) c (grouped, concurrency) = Inr waves" "policy = Some c"
      "duration = Some (sum_list (map piw_planned_duration_seconds waves) + cc_controller_reserve_seconds c)"
      "sum_list (map piw_planned_duration_seconds waves) + cc_controller_reserve_seconds c
        \<le> rj_timeout_seconds remote"
      by (auto simp: controller_plan_def result_simps Let_def split: if_splits)
    with providers show ?thesis by (intro that(2))
  qed
qed

section \<open>Plans are valid\<close>

lemma deployment_chunks_keys:
  assumes "deployment_chunks e k grouped = Inr dcs" and "0 < k"
    and "\<And>d. d \<in> set (dict_keys grouped) \<Longrightarrow> get_list grouped d \<noteq> []"
  shows "fst ` set dcs = set (dict_keys grouped)"
proof -
  have chunk: "chunks (nat k) (get_list grouped d) \<noteq> []" if "d \<in> set (dict_keys grouped)" for d
    using assms(3) [OF that] concat_chunks [of "nat k" "get_list grouped d"] assms(2) by auto
  have mem: "(d, c) \<in> set dcs \<longleftrightarrow>
      d \<in> set (dict_keys grouped) \<and> c \<in> set (chunks (nat k) (get_list grouped d))" for d c
    unfolding deployment_chunks_Inr [OF assms(1,2)] by auto
  show ?thesis
  proof (intro set_eqI iffI)
    fix d assume "d \<in> fst ` set dcs"
    then show "d \<in> set (dict_keys grouped)" using mem by (auto simp del: set_map)
  next
    fix d assume "d \<in> set (dict_keys grouped)"
    then have "(d, hd (chunks (nat k) (get_list grouped d))) \<in> set dcs"
      using chunk mem by (auto simp del: set_map)
    then show "d \<in> fst ` set dcs" by (rule image_eqI [rotated]) simp
  qed
qed

lemma planned_deployments:
  assumes "provider_wave_groups e runs = Inr (grouped, concurrency)"
    and "build_planned_initial_waves e c (grouped, concurrency) = Inr waves"
    and "0 < ex_max_shards_per_wave e" and "\<forall>r \<in> set runs. pr_shards r \<noteq> []"
  shows "piw_deployment_digest ` set waves = ra_deployment_digest ` set runs"
proof -
  from assms(2,3) obtain dcs where dcs:
    "deployment_chunks Plan_range_step_zero (ex_max_shards_per_wave e) grouped = Inr dcs"
    "map (\<lambda>w. (piw_deployment_digest w, piw_shard_digests w, piw_trial_count w)) waves =
      map (\<lambda>(d, c). (d, map psh_shard_digest c, planned_trial_count c)) dcs"
    by (rule planned_waves)
  note g = group_runs [of ra_deployment_digest pr_shards runs,
      folded provider_wave_groups_Inr(1) [OF assms(1)]]
  have "get_list grouped d \<noteq> []" if "d \<in> set (dict_keys grouped)" for d
    using that assms(4) g(2) by (auto simp: g(3))
  with dcs(1) assms(3) have "fst ` set dcs = set (dict_keys grouped)" by (intro deployment_chunks_keys)
  moreover from arg_cong [OF dcs(2), of "\<lambda>xs. fst ` set xs"]
  have "piw_deployment_digest ` set waves = fst ` set dcs" by (simp add: image_image case_prod_unfold)
  ultimately show ?thesis using g(2) by simp
qed

lemma usd_to_microusd_nonneg:
  "(case m of None \<Rightarrow> True | Some d \<Rightarrow> 0 < dec_coeff d) \<Longrightarrow> opt_ge 0 (usd_to_microusd m)"
  by (auto simp: opt_ge_def usd_to_microusd_def pos_imp_zdiv_nonneg_iff split: option.splits)

lemma target_admission_ok:
  assumes "target_ok t" and "target_admission t = (provider, requests, cap, estimate)"
  shows "opt_ge 1 requests" and "opt_ge 0 cap" and "opt_ge 0 estimate"
  using assms usd_to_microusd_nonneg
  by (cases t, auto simp: provider_limits_ok_def opt_ge_def [of 1] opt_ge_def [of _ None])+

lemma planned_run_admission:
  assumes "plan_run h s trials (profiles_of m) i cell = Inr run" and "1 \<le> ex_max_trials_per_shard (es_execution s)"
    and "list_all target_ok (mx_deployments m)"
  shows "run_admission_ok run"
proof -
  from plan_run_Inr(6) [OF assms(1,2)] obtain target where
    t: "map_of (pf_deployments (profiles_of m)) (cell_deployment cell) = Some target"
    "target_admission target = (ra_provider run, ra_max_concurrent_requests run,
        ra_spend_cap_microusd run, ra_estimated_wave_cost_microusd run)" by blast
  have "target \<in> set (mx_deployments m)"
    using map_of_SomeD [OF t(1)] values_mk_dict [of "map (\<lambda>p. (target_id p, p)) (mx_deployments m)"]
    by (force simp: profiles_of_def)
  with assms(3) have "target_ok target" by (simp add: list_all_iff)
  from target_admission_ok [OF this t(2)] show ?thesis by (simp add: run_admission_ok_def)
qed

lemma wave_ok_if_fits:
  assumes "wave_fits e c w" and "controller_spec_ok c" and "piw_shard_digests w \<noteq> []" and "1 \<le> piw_wave_index w"
  shows "planned_initial_wave_ok w"
proof -
  from assms(1) obtain secs where secs: "planned_provider_wave_seconds c (piw_trial_count w)
      (piw_effective_concurrency w) = Inr secs" "secs \<le> piw_planned_duration_seconds w"
    by (auto simp: wave_fits_def)
  from planned_seconds_Inr [OF secs(1) assms(2)] secs(2) assms(3,4) show ?thesis
    by (simp add: planned_initial_wave_ok_def)
qed

lemma contiguous_ge: "wave_indexes_contiguous (map index ws) \<Longrightarrow> w \<in> set ws \<Longrightarrow> 1 \<le> index w"
proof -
  assume c: "wave_indexes_contiguous (map index ws)" and "w \<in> set ws"
  then have "index w \<in> set (map int [1..<length ws + 1])"
    unfolding wave_indexes_contiguous_def length_map by (metis imageI set_map)
  then show ?thesis by auto
qed

lemma controller_plan_ok:
  assumes "controller_plan s runs = Inr (policy, waves, duration)" and "execution_spec_ok (es_execution s)"
    and "runs \<noteq> []" and "\<forall>r \<in> set runs. pr_shards r \<noteq> []"
  shows "controller_fields_complete policy duration waves" and "opt_ge 1 duration"
    and "wave_indexes_contiguous (map piw_wave_index waves)" and "list_all planned_initial_wave_ok waves"
proof -
  have "controller_fields_complete policy duration waves \<and> opt_ge 1 duration \<and>
    wave_indexes_contiguous (map piw_wave_index waves) \<and> list_all planned_initial_wave_ok waves"
    using assms(1)
  proof (cases rule: controller_plan_Inr)
    case endpoints
    then show ?thesis by (simp add: controller_fields_complete_def opt_ge_def wave_indexes_contiguous_def)
  next
    case (providers c grouped concurrency remote)
    from assms(2) providers(2) have e: "0 < ex_max_shards_per_wave (es_execution s)" "controller_spec_ok c"
      by (auto simp: execution_spec_ok_def)
    from providers(4) e(1) obtain dcs where dcs:
      "deployment_chunks Plan_range_step_zero (ex_max_shards_per_wave (es_execution s)) grouped = Inr dcs"
      "map (\<lambda>w. (piw_deployment_digest w, piw_shard_digests w, piw_trial_count w)) waves =
        map (\<lambda>(d, c). (d, map psh_shard_digest c, planned_trial_count c)) dcs"
      "wave_indexes_contiguous (map piw_wave_index waves)"
      "\<forall>w \<in> set waves. wave_fits (es_execution s) c w \<and>
        map_of concurrency (piw_deployment_digest w) = Some (piw_effective_concurrency w)"
      by (rule planned_waves)
    have ok: "planned_initial_wave_ok w" if w: "w \<in> set waves" for w
    proof (rule wave_ok_if_fits [OF _ e(2)])
      show "wave_fits (es_execution s) c w" using dcs(4) w by blast
      show "1 \<le> piw_wave_index w" by (rule contiguous_ge [OF dcs(3) w])
      from w have "(piw_deployment_digest w, piw_shard_digests w, piw_trial_count w) \<in>
          set (map (\<lambda>(d, c). (d, map psh_shard_digest c, planned_trial_count c)) dcs)"
        unfolding dcs(2) [symmetric] by auto
      then show "piw_shard_digests w \<noteq> []" using deployment_chunk_mem(2) [OF dcs(1) e(1)] by auto
    qed
    from planned_deployments [OF providers(3,4) e(1) assms(4)] assms(3) have "waves \<noteq> []" by auto
    moreover have "0 \<le> sum_list (map piw_planned_duration_seconds waves)"
      using ok by (intro sum_list_nonneg) (force simp: planned_initial_wave_ok_def)
    moreover have "600 \<le> cc_controller_reserve_seconds c" using e(2) by (simp add: controller_spec_ok_def)
    ultimately show ?thesis using providers(1,6) dcs(3) ok
      by (simp add: controller_fields_complete_def opt_ge_def list_all_iff)
  qed
  then show "controller_fields_complete policy duration waves" "opt_ge 1 duration"
    "wave_indexes_contiguous (map piw_wave_index waves)" "list_all planned_initial_wave_ok waves" by auto
qed

section \<open>Plans and locks\<close>

lemma build_campaign_plan_Inr:
  assumes "build_campaign_plan h s requested policy = Inr plan"
  obtains source r tasks cells where "resolved_experiment h s source = Inr r"
    and "resolved_tasks (es_benchmark r) = Inr tasks" and "resolved_cells (es_matrix r) = Inr cells"
    and "mapM (plan_run h r (plan_trials h (source_lock_digest h source) (ex_attempts (es_execution r)) tasks)
      (profiles_of (es_matrix r)) (source_lock_digest h source)) cells = Inr (cpl_runs plan)"
    and "controller_plan r (cpl_runs plan) = Inr (cpl_controller_policy plan, cpl_initial_waves plan,
      cpl_planned_campaign_duration_seconds plan)"
    and "campaign_plan_ok plan" and "cpl_max_shards_per_wave plan = ex_max_shards_per_wave (es_execution r)"
    and "cpl_recovery_policy plan = (case policy of Some q \<Rightarrow> q | None \<Rightarrow> default_recovery_policy)"
proof -
  from assms obtain source r tasks cells runs controller where
    "resolved_experiment h s source = Inr r"
    "resolved_tasks (es_benchmark r) = Inr tasks" "resolved_cells (es_matrix r) = Inr cells"
    "mapM (plan_run h r (plan_trials h (source_lock_digest h source) (ex_attempts (es_execution r)) tasks)
      (profiles_of (es_matrix r)) (source_lock_digest h source)) cells = Inr runs"
    "controller_plan r runs = Inr controller" "campaign_plan_ok plan"
    "plan = assemble_plan h s r source (case policy of Some q \<Rightarrow> q | None \<Rightarrow> default_recovery_policy) runs controller"
    by (auto simp: build_campaign_plan_def result_simps Let_def split: if_splits)
  then show ?thesis by (intro that [of source r tasks cells]) (simp_all add: assemble_plan_def)
qed

text \<open>Runs as the plan has them: the resolved cells in order, each with all trials.\<close>

lemma planned_runs:
  assumes "mapM (plan_run h r trials pf i) cells = Inr runs" and "1 \<le> ex_max_trials_per_shard (es_execution r)"
  shows "map (\<lambda>x. (ra_model x, ra_deployment x, ra_agent x)) runs =
      map (\<lambda>c. (cell_model c, cell_deployment c, cell_agent c)) cells"
    and "x \<in> set runs \<Longrightarrow> concat (map psh_trials (pr_shards x)) = trials"
    and "x \<in> set runs \<Longrightarrow> sh \<in> set (pr_shards x) \<Longrightarrow> psh_trials sh \<noteq> [] \<and>
      int (length (psh_trials sh)) \<le> ex_max_trials_per_shard (es_execution r)"
proof -
  from assms(1) have "list_all2 (\<lambda>c x. plan_run h r trials pf i c = Inr x) cells runs"
    by (simp add: mapM_Inr_iff)
  then show "map (\<lambda>x. (ra_model x, ra_deployment x, ra_agent x)) runs =
      map (\<lambda>c. (cell_model c, cell_deployment c, cell_agent c)) cells"
    by (induction rule: list_all2_induct) (auto dest: plan_run_Inr(1-3) [OF _ assms(2)])
  show "concat (map psh_trials (pr_shards x)) = trials" if "x \<in> set runs"
    using mapM_memD [OF assms(1) that] plan_run_Inr(4) [OF _ assms(2)] by blast
  show "psh_trials sh \<noteq> [] \<and> int (length (psh_trials sh)) \<le> ex_max_trials_per_shard (es_execution r)"
    if "x \<in> set runs" "sh \<in> set (pr_shards x)"
    using mapM_memD [OF assms(1) that(1)] plan_run_Inr(5) [OF _ assms(2) that(2)] by blast
qed

lemma planned_runs_nonempty:
  assumes "build_campaign_plan h s requested policy = Inr plan" and "execution_spec_ok (es_execution s)"
  shows "cpl_runs plan \<noteq> []" and "\<forall>x \<in> set (cpl_runs plan). pr_shards x \<noteq> []"
    and "\<forall>x \<in> set (cpl_runs plan). \<forall>sh \<in> set (pr_shards x). psh_trials sh \<noteq> []"
proof -
  from assms(1) obtain source r tasks cells where r: "resolved_experiment h s source = Inr r"
    "resolved_tasks (es_benchmark r) = Inr tasks" "resolved_cells (es_matrix r) = Inr cells"
    "mapM (plan_run h r (plan_trials h (source_lock_digest h source) (ex_attempts (es_execution r)) tasks)
      (profiles_of (es_matrix r)) (source_lock_digest h source)) cells = Inr (cpl_runs plan)"
    by (rule build_campaign_plan_Inr)
  have e: "1 \<le> ex_attempts (es_execution r)" "1 \<le> ex_max_trials_per_shard (es_execution r)"
    using assms(2) resolved_experiment_keeps(2) [OF r(1)] by (auto simp: execution_spec_ok_def)
  from r(2) have "tasks \<noteq> []" by (auto simp: resolved_tasks_def split: if_splits)
  from plan_trials_nonempty [OF e(1) this]
  have trials: "plan_trials h (source_lock_digest h source) (ex_attempts (es_execution r)) tasks \<noteq> []" .
  show "cpl_runs plan \<noteq> []" using resolved_cells_nonempty [OF r(3)] mapM_length [OF r(4)] by auto
  show "\<forall>x \<in> set (cpl_runs plan). pr_shards x \<noteq> []"
    using planned_runs(2) [OF r(4) e(2)] trials by force
  show "\<forall>x \<in> set (cpl_runs plan). \<forall>sh \<in> set (pr_shards x). psh_trials sh \<noteq> []"
    using planned_runs(3) [OF r(4) e(2)] by blast
qed

lemma lock_run_fields [simp]:
  "ra_deployment_digest (lock_run h c r) = ra_deployment_digest r"
  "ra_model (lock_run h c r) = ra_model r" "ra_deployment (lock_run h c r) = ra_deployment r"
  "ra_agent (lock_run h c r) = ra_agent r" "run_admission_ok (lock_run h c r) = run_admission_ok r"
  "rl_shards (lock_run h c r) = map (lock_shard h (rl_run_id (lock_run h c r))) (pr_shards r)"
  by (simp_all add: lock_run_def Let_def run_admission_ok_def)

lemma lock_shard_trials [simp]:
  "sl_trials (lock_shard h i s) = map (lock_trial h i) (psh_trials s)"
  by (simp add: lock_shard_def)

section \<open>Locked waves\<close>

lemma locked_initial_waves_Inr:
  assumes "locked_initial_waves plan runs = Inr waves" and "cpl_controller_policy plan \<noteq> None"
    and "0 < cpl_max_shards_per_wave plan"
  shows "map (\<lambda>w. (liw_deployment_digest w, liw_shard_ids w)) waves =
      concat (map (\<lambda>d. map (\<lambda>c. (d, map sl_shard_id c))
        (chunks (nat (cpl_max_shards_per_wave plan)) (get_list (lock_groups runs) d)))
        (sort (dict_keys (lock_groups runs))))"
proof -
  from assms(1,2) obtain dcs conc dur where
    dcs: "deployment_chunks Plan_range_step_zero (cpl_max_shards_per_wave plan) (lock_groups runs) = Inr dcs"
    and fold: "foldM (lock_wave conc dur) [] dcs = Inr waves"
    by (auto simp: locked_initial_waves_def result_simps Let_def)
  from locked.built(1) [OF fold]
  have "map (\<lambda>w. (liw_deployment_digest w, liw_shard_ids w)) waves = map (\<lambda>(d, c). (d, map sl_shard_id c)) dcs"
    by (induction rule: list_all2_induct) (auto simp: locked_of_def)
  then show ?thesis
    unfolding deployment_chunks_Inr [OF dcs assms(3)] by (simp add: map_concat comp_def)
qed

lemma build_campaign_lock_Inr:
  assumes "build_campaign_lock h plan c at = Inr lock"
  shows "locked_initial_waves plan (cl_runs lock) = Inr (cl_initial_waves lock)"
    and "cl_runs lock = map (lock_run h c) (cpl_runs plan)"
    and "cl_controller_policy lock = cpl_controller_policy plan"
    and "cl_max_shards_per_wave lock = cpl_max_shards_per_wave plan"
    and "cl_campaign_id lock = c" and "campaign_lock_ok lock"
    and "cl_planned_campaign_duration_seconds lock = cpl_planned_campaign_duration_seconds plan"
  using assms by (auto simp: build_campaign_lock_def result_simps Let_def split: if_splits)

section \<open>New waves of an untouched campaign\<close>

definition untouched :: "campaign_lock \<Rightarrow> recovery_projection \<Rightarrow> bool" where
  "untouched lock p \<longleftrightarrow>
     rv_waves p = [] \<and> rv_executions p = [] \<and> cp_actions (rv_campaign p) = [] \<and>
     list_all (wave_pending p []) (lock_shard_ids lock)"

lemma new_waves_shape:
  assumes "new_wave_candidates lock p ctx = Inr ws" and "0 < cl_max_shards_per_wave lock"
    and "assigned_shards lock p = Inr assigned"
  defines "groups \<equiv> group_pairs (filter (\<lambda>x. wave_pending p assigned (snd x)) (sorted_lock_shards lock))"
  shows "map (\<lambda>w. (ca_deployment_digest w, ca_shard_ids w)) ws =
      concat (map (\<lambda>d. map (Pair d) (chunks (nat (cl_max_shards_per_wave lock)) (get_list groups d)))
        (sort (dict_keys groups)))"
proof -
  let ?f = "\<lambda>d. rbind (deployment_admission_of lock ctx d) (\<lambda>admission.
      rbind (py_chunks (Campaign_failure Range_step_zero) (cl_max_shards_per_wave lock)
         (get_list groups d)) (\<lambda>cs. mapM (new_wave_candidate lock d admission) cs))"
  from assms(1,3) obtain wss where wss: "mapM ?f (sort (dict_keys groups)) = Inr wss" "ws = concat wss"
    unfolding groups_def
    by (auto simp: new_wave_candidates_def result_simps dest: unassigned_groups_Inr)
  have one: "map (\<lambda>w. (ca_deployment_digest w, ca_shard_ids w)) ys =
      map (Pair d) (chunks (nat (cl_max_shards_per_wave lock)) (get_list groups d))" if "?f d = Inr ys" for d ys
  proof -
    from that assms(2) obtain admission where
      "mapM (new_wave_candidate lock d admission) (chunks (nat (cl_max_shards_per_wave lock)) (get_list groups d)) = Inr ys"
      by (auto simp: result_simps)
    then have "list_all2 (\<lambda>c w. (ca_deployment_digest w, ca_shard_ids w) = (d, c))
        (chunks (nat (cl_max_shards_per_wave lock)) (get_list groups d)) ys"
      unfolding mapM_Inr_iff by (rule list_all2_mono) (auto dest: new_wave_candidate_Inr(2,3))
    then show ?thesis by (induction rule: list_all2_induct) auto
  qed
  have "mapM ?f ds = Inr yss \<Longrightarrow> map (\<lambda>w. (ca_deployment_digest w, ca_shard_ids w)) (concat yss) =
      concat (map (\<lambda>d. map (Pair d) (chunks (nat (cl_max_shards_per_wave lock)) (get_list groups d))) ds)"
    for ds yss
    using one by (induction ds arbitrary: yss) (fastforce simp: result_simps)+
  from this [OF wss(1)] show ?thesis unfolding wss(2) .
qed

lemma untouched_assigned: "untouched lock p \<Longrightarrow> assigned_shards lock p = Inr []"
  by (simp add: untouched_def assigned_shards_def projected_actions_def)

lemma untouched_pending:
  assumes "untouched lock p"
  shows "filter (\<lambda>x. wave_pending p [] (snd x)) (sorted_lock_shards lock) = sorted_lock_shards lock"
proof (rule filter_True)
  have "wave_pending p [] i" if "i \<in> set (map snd (sorted_lock_shards lock))" for i
    using assms that sorted_lock_shards_ids(1) [of lock] by (auto simp: untouched_def list_all_iff)
  then show "\<forall>x \<in> set (sorted_lock_shards lock). wave_pending p [] (snd x)" by auto
qed

text \<open>Both orders of the shards of a deployment: by run, then by shard.\<close>

lemma lock_groups_sorted:
  "get_list (group_pairs (sorted_lock_shards lock)) d = map sl_shard_id (get_list (lock_groups (cl_runs lock)) d)"
proof -
  have "map snd (filter (\<lambda>x. fst x = d) (concat (map (\<lambda>r. map (\<lambda>s. (ra_deployment_digest r, sl_shard_id s))
      (sort_key sl_shard_id (rl_shards r))) rs))) =
    map sl_shard_id (concat (map (\<lambda>r. sort_key sl_shard_id (rl_shards r))
      (filter (\<lambda>r. ra_deployment_digest r = d) rs)))" for rs
    by (induction rs) (auto simp: comp_def)
  then show ?thesis by (simp add: group_dict(3) sorted_lock_shards_def lock_groups_dict(3))
qed

lemma lock_groups_keys:
  assumes "\<forall>r \<in> set (cl_runs lock). rl_shards r \<noteq> []"
  shows "sort (dict_keys (group_pairs (sorted_lock_shards lock))) = sort (dict_keys (lock_groups (cl_runs lock)))"
proof (rule sorted_distinct_set_unique)
  have "fst ` set (sorted_lock_shards lock) = ra_deployment_digest ` set (cl_runs lock)"
    using assms by (force simp: sorted_lock_shards_def neq_Nil_conv image_iff)
  then show "set (sort (dict_keys (group_pairs (sorted_lock_shards lock)))) =
      set (sort (dict_keys (lock_groups (cl_runs lock))))"
    using group_dict(2) [of "sorted_lock_shards lock"] lock_groups_dict(2) [of "cl_runs lock"]
    by (simp del: set_map)
qed (use group_dict(1) lock_groups_dict(1) in auto)

section \<open>Every plan can be locked\<close>

lemma controlled_plan:
  assumes "build_campaign_plan h s requested policy = Inr plan" and "execution_spec_ok (es_execution s)"
    and "cpl_controller_policy plan = Some c"
  obtains grouped concurrency remote where
    "ex_controller (es_execution s) = Some c" and "es_remote s = Some remote"
    and "provider_wave_groups (es_execution s) (cpl_runs plan) = Inr (grouped, concurrency)"
    and "build_planned_initial_waves (es_execution s) c (grouped, concurrency) = Inr (cpl_initial_waves plan)"
    and "cpl_planned_campaign_duration_seconds plan =
      Some (sum_list (map piw_planned_duration_seconds (cpl_initial_waves plan)) + cc_controller_reserve_seconds c)"
    and "sum_list (map piw_planned_duration_seconds (cpl_initial_waves plan)) + cc_controller_reserve_seconds c
      \<le> rj_timeout_seconds remote"
    and "\<forall>x \<in> set (cpl_runs plan). ra_provider x \<noteq> None"
proof -
  from assms(1) obtain source r where r: "resolved_experiment h s source = Inr r"
    "controller_plan r (cpl_runs plan) = Inr (cpl_controller_policy plan, cpl_initial_waves plan,
      cpl_planned_campaign_duration_seconds plan)"
    by (rule build_campaign_plan_Inr)
  note k = resolved_experiment_keeps [OF r(1)]
  from r(2) show ?thesis
  proof (cases rule: controller_plan_Inr)
    case endpoints
    with assms(3) show ?thesis by simp
  next
    case (providers c' grouped concurrency remote)
    with assms(3) k show ?thesis by (intro that [of remote grouped concurrency]) simp_all
  qed
qed

lemma planned_wave_deployments:
  assumes "build_campaign_plan h s requested policy = Inr plan" and "execution_spec_ok (es_execution s)"
    and "cpl_controller_policy plan = Some c"
  shows "piw_deployment_digest ` set (cpl_initial_waves plan) = ra_deployment_digest ` set (cpl_runs plan)"
  using assms
proof (rule controlled_plan)
  fix grouped concurrency
  assume "provider_wave_groups (es_execution s) (cpl_runs plan) = Inr (grouped, concurrency)"
    "build_planned_initial_waves (es_execution s) c (grouped, concurrency) = Inr (cpl_initial_waves plan)"
  then show ?thesis
    using planned_runs_nonempty(2) [OF assms(1,2)] assms(2)
    by (intro planned_deployments) (auto simp: execution_spec_ok_def)
qed

lemma foldM_lock_wave_total:
  assumes "\<forall>dc \<in> set dcs. fst dc \<in> fst ` set conc \<and> fst dc \<in> fst ` set dur"
  shows "\<exists>ws. foldM (lock_wave conc dur) us dcs = Inr ws"
  using assms
proof (induction dcs arbitrary: us)
  case (Cons dc dcs)
  then obtain k t where "map_of conc (fst dc) = Some k" "map_of dur (fst dc) = Some t"
    by (auto simp: dom_map_of_conv_image_fst [symmetric])
  with Cons show ?case by (simp add: lock_wave_def case_prod_unfold)
qed simp

lemma locked_waves_total:
  assumes "piw_deployment_digest ` set (cpl_initial_waves plan) = ra_deployment_digest ` set runs"
    and "0 < cpl_max_shards_per_wave plan"
  shows "\<exists>waves. locked_initial_waves plan runs = Inr waves"
proof -
  from deployment_chunks_total [OF assms(2), of Plan_range_step_zero "lock_groups runs"] obtain dcs where
    dcs: "deployment_chunks Plan_range_step_zero (cpl_max_shards_per_wave plan) (lock_groups runs) = Inr dcs" ..
  have keys: "fst ` set (mk_dict (map (\<lambda>w. (piw_deployment_digest w, f w)) (cpl_initial_waves plan))) =
      ra_deployment_digest ` set runs" for f :: "planned_initial_wave \<Rightarrow> int"
    by (simp add: keys_mk_dict image_image assms(1))
  have mem: "fst dc \<in> ra_deployment_digest ` set runs" if "dc \<in> set dcs" for dc
    using deployment_chunk_mem(1) [OF dcs assms(2), of "fst dc" "snd dc"] that lock_groups_dict(2) [of runs] by simp
  have "\<exists>ws. foldM (lock_wave (mk_dict (map (\<lambda>w. (piw_deployment_digest w, f w)) (cpl_initial_waves plan)))
      (mk_dict (map (\<lambda>w. (piw_deployment_digest w, g w)) (cpl_initial_waves plan)))) [] dcs = Inr ws" for f g
    by (rule foldM_lock_wave_total) (simp add: keys mem)
  then show ?thesis by (simp add: locked_initial_waves_def Let_def dcs)
qed

lemma mk_dict_value:
  assumes "map_of (mk_dict (map (\<lambda>w. (k w, f w)) ws)) d = Some v"
  obtains w where "w \<in> set ws" and "v = f w"
  using map_of_SomeD [OF assms] values_mk_dict [of "map (\<lambda>w. (k w, f w)) ws"] that
  by (force simp: image_iff)

lemma locked_waves_ok:
  assumes "locked_initial_waves plan runs = Inr waves" and "0 < cpl_max_shards_per_wave plan"
    and "list_all planned_initial_wave_ok (cpl_initial_waves plan)"
    and "\<forall>r \<in> set runs. \<forall>s \<in> set (rl_shards r). sl_trials s \<noteq> []"
  shows "list_all locked_initial_wave_ok waves" and "wave_indexes_contiguous (map liw_wave_index waves)"
proof -
  have "list_all locked_initial_wave_ok waves \<and> wave_indexes_contiguous (map liw_wave_index waves)"
  proof (cases "cpl_controller_policy plan = None")
    case True
    with assms(1) show ?thesis by (simp add: locked_initial_waves_def wave_indexes_contiguous_def)
  next
    case False
    let ?conc = "mk_dict (map (\<lambda>w. (piw_deployment_digest w, piw_effective_concurrency w)) (cpl_initial_waves plan))"
    let ?dur = "mk_dict (map (\<lambda>w. (piw_deployment_digest w, piw_planned_duration_seconds w)) (cpl_initial_waves plan))"
    from False assms(1) obtain dcs where
      dcs: "deployment_chunks Plan_range_step_zero (cpl_max_shards_per_wave plan) (lock_groups runs) = Inr dcs"
      and fold: "foldM (lock_wave ?conc ?dur) [] dcs = Inr waves"
      by (auto simp: locked_initial_waves_def result_simps Let_def)
    note built = locked.built [OF fold]
    have "locked_initial_wave_ok w" if w: "w \<in> set waves" for w
    proof -
      from list_all2_mem [OF built(1) w] obtain d c where dc: "(d, c) \<in> set dcs" "locked_of ?conc ?dur w (d, c)"
        by auto
      note mem = deployment_chunk_mem [OF dcs assms(2) dc(1)]
      have trials: "1 \<le> int (length (sl_trials x))" if "x \<in> set c" for x
      proof -
        from that mem(4) have "x \<in> set (get_list (lock_groups runs) d)" by blast
        with assms(4) have "sl_trials x \<noteq> []" by (auto simp: lock_groups_dict(3))
        then show ?thesis by (cases "sl_trials x") auto
      qed
      have "1 \<le> sum_list (map (\<lambda>s. int (length (sl_trials s))) c)"
        using mem(2) trials by (cases c) (auto intro!: add_increasing2 sum_list_nonneg)
      moreover have "1 \<le> liw_effective_concurrency w"
        using dc(2) assms(3) by (auto simp: locked_of_def list_all_iff planned_initial_wave_ok_def elim: mk_dict_value)
      moreover have "1 \<le> liw_planned_duration_seconds w"
        using dc(2) assms(3) by (auto simp: locked_of_def list_all_iff planned_initial_wave_ok_def elim: mk_dict_value)
      ultimately show ?thesis
        using dc(2) mem(2) contiguous_ge [OF built(2) w] by (simp add: locked_initial_wave_ok_def locked_of_def)
    qed
    with built(2) show ?thesis by (simp add: list_all_iff)
  qed
  then show "list_all locked_initial_wave_ok waves" "wave_indexes_contiguous (map liw_wave_index waves)" by auto
qed

lemma locked_waves_nonempty:
  assumes "locked_initial_waves plan runs = Inr waves" and "0 < cpl_max_shards_per_wave plan"
    and "cpl_controller_policy plan \<noteq> None" and "runs \<noteq> []" and "\<forall>r \<in> set runs. rl_shards r \<noteq> []"
  shows "waves \<noteq> []"
proof -
  from assms(1,3) obtain dcs conc dur where
    dcs: "deployment_chunks Plan_range_step_zero (cpl_max_shards_per_wave plan) (lock_groups runs) = Inr dcs"
    and fold: "foldM (lock_wave conc dur) [] dcs = Inr waves"
    by (auto simp: locked_initial_waves_def result_simps Let_def)
  have "get_list (lock_groups runs) d \<noteq> []" if "d \<in> set (dict_keys (lock_groups runs))" for d
    using that assms(5) lock_groups_dict(2) [of runs] by (auto simp: lock_groups_dict(3) filter_empty_conv)
  with dcs assms(2) have "fst ` set dcs = ra_deployment_digest ` set runs"
    using deployment_chunks_keys [OF dcs assms(2)] lock_groups_dict(2) by metis
  with assms(4) have "dcs \<noteq> []" by auto
  with list_all2_lengthD [OF locked.built(1) [OF fold]] show ?thesis by auto
qed

lemma build_campaign_lock_total:
  assumes plan: "build_campaign_plan h s requested policy = Inr plan" and ok: "manifest_ok s"
    and policy: "recovery_policy_ok (cpl_recovery_policy plan)" and c: "safe_name 99 c"
  shows "\<exists>lock. build_campaign_lock h plan c at = Inr lock"
proof -
  let ?runs = "map (lock_run h c) (cpl_runs plan)"
  have e: "execution_spec_ok (es_execution s)" using ok by (simp add: manifest_ok_def)
  from plan obtain source r where r: "resolved_experiment h s source = Inr r" "campaign_plan_ok plan"
    "cpl_max_shards_per_wave plan = ex_max_shards_per_wave (es_execution r)"
    by (rule build_campaign_plan_Inr)
  have k: "0 < cpl_max_shards_per_wave plan"
    using e r(3) resolved_experiment_keeps(2) [OF r(1)] by (simp add: execution_spec_ok_def)
  note runs = planned_runs_nonempty [OF plan e]
  have "\<exists>waves. locked_initial_waves plan ?runs = Inr waves"
  proof (cases "cpl_controller_policy plan")
    case None
    then show ?thesis by (simp add: locked_initial_waves_def)
  next
    case (Some cs)
    show ?thesis
      by (rule locked_waves_total [OF _ k])
        (simp add: planned_wave_deployments [OF plan e Some] image_image)
  qed
  then obtain waves where waves: "locked_initial_waves plan ?runs = Inr waves" ..
  have plan_ok: "controller_fields_complete (cpl_controller_policy plan)
      (cpl_planned_campaign_duration_seconds plan) (cpl_initial_waves plan)"
    "list_all planned_initial_wave_ok (cpl_initial_waves plan)"
    using r(2) by (simp_all add: campaign_plan_ok_def)
  have trials: "\<forall>x \<in> set ?runs. \<forall>sh \<in> set (rl_shards x). sl_trials sh \<noteq> []" using runs(3) by auto
  note w_ok = locked_waves_ok [OF waves k plan_ok(2) trials]
  have "(cpl_controller_policy plan = None) = (waves = [])"
    using waves locked_waves_nonempty [OF waves k] runs(1,2)
    by (cases "cpl_controller_policy plan = None") (simp_all add: locked_initial_waves_def)
  with plan_ok(1) have "controller_fields_complete (cpl_controller_policy plan)
      (cpl_planned_campaign_duration_seconds plan) waves"
    by (simp add: controller_fields_complete_def)
  moreover have "case cpl_controller_policy plan of None \<Rightarrow> True | Some cs \<Rightarrow> controller_spec_ok cs"
  proof (cases "cpl_controller_policy plan")
    case (Some cs)
    from plan e Some have "ex_controller (es_execution s) = Some cs" by (rule controlled_plan)
    with e Some show ?thesis by (simp add: execution_spec_ok_def)
  qed simp
  ultimately have "campaign_lock_ok \<lparr>cl_campaign_id = c, cl_created_at = at,
      cl_experiment = cpl_experiment plan, cl_evaluation_id = cpl_evaluation_id plan,
      cl_publication_role = cpl_publication_role plan, cl_component_kind = cpl_component_kind plan,
      cl_manifest_digest = cpl_manifest_digest plan, cl_source_lock = cpl_source_lock plan,
      cl_plan_digest = cpl_plan_digest plan, cl_artifact_prefix = ''campaigns/'' @ c,
      cl_max_shards_per_wave = cpl_max_shards_per_wave plan, cl_recovery_policy = cpl_recovery_policy plan,
      cl_controller_policy = cpl_controller_policy plan,
      cl_planned_campaign_duration_seconds = cpl_planned_campaign_duration_seconds plan,
      cl_initial_waves = waves, cl_runs = ?runs\<rparr>"
    using w_ok policy r(2) by (simp add: campaign_lock_ok_def campaign_plan_ok_def list_all_iff)
  with waves c show ?thesis by (simp add: build_campaign_lock_def)
qed

section \<open>The plan's validator never fails\<close>

lemma no_plan_invalid [simp]:
  "resolved_tasks b \<noteq> Inl Plan_invalid"
  "lift_error Spec_failure m1 \<noteq> Inl Plan_invalid" "lift_error Cell_failure m2 \<noteq> Inl Plan_invalid"
  "lift_error Duration_failure m3 \<noteq> Inl Plan_invalid"
  "py_chunks Plan_range_step_zero n xs \<noteq> Inl Plan_invalid"
  "cell_profiles pf cell \<noteq> Inl Plan_invalid"
  "maximum_duration ws d \<noteq> Inl Plan_invalid"
  "provider_controller_policy sp runs \<noteq> Inl Plan_invalid"
  by (cases m1; cases m2; cases m3;
      auto simp: resolved_tasks_def py_chunks_def cell_profiles_def rbind_Inl_iff of_option_def
        maximum_duration_def provider_controller_policy_def Let_def split: option.splits list.splits)+

lemma no_plan_invalid_steps [simp]:
  "validate_campaign_cell h pf pairs cell \<noteq> Inl Plan_invalid"
  "plan_run h sp trials pf i cell \<noteq> Inl Plan_invalid"
  "add_provider_run e groups run \<noteq> Inl Plan_invalid"
  "plan_wave e policy conc ws dc \<noteq> Inl Plan_invalid"
  by (auto simp: validate_campaign_cell_def plan_run_def add_provider_run_def plan_wave_def rbind_Inl_iff
      of_option_def Let_def split: option.splits prod.splits deployment_target.splits if_splits)

lemma no_plan_invalid_loops [simp]:
  "validate_campaign_cells h cells pf \<noteq> Inl Plan_invalid"
  "provider_wave_groups e runs \<noteq> Inl Plan_invalid"
  "deployment_chunks Plan_range_step_zero n grouped \<noteq> Inl Plan_invalid"
  unfolding validate_campaign_cells_def provider_wave_groups_def deployment_chunks_def
  by (intro rbind_no_error foldM_no_error mapM_no_error; simp)+

lemma no_plan_invalid_waves [simp]: "build_planned_initial_waves e policy groups \<noteq> Inl Plan_invalid"
proof (cases groups)
  case (Pair grouped concurrency)
  show ?thesis
    unfolding build_planned_initial_waves_def Pair prod.case
    by (intro rbind_no_error foldM_no_error mapM_no_error; simp add: of_option_def split: option.split)
qed

lemma no_plan_invalid_controller [simp]: "controller_plan s runs \<noteq> Inl Plan_invalid"
  unfolding controller_plan_def
proof (rule rbind_no_error)
  fix policy
  show "(case policy of None \<Rightarrow> Inr (None, [], None)
     | Some c \<Rightarrow> rbind (provider_wave_groups (es_execution s) runs) (\<lambda>groups.
         rbind (build_planned_initial_waves (es_execution s) c groups) (\<lambda>waves.
           let total = sum_list (map piw_planned_duration_seconds waves) + cc_controller_reserve_seconds c
           in case es_remote s of
                None \<Rightarrow> Inl Campaign_exceeds_job_timeout
              | Some remote \<Rightarrow>
                  if rj_timeout_seconds remote < total then Inl Campaign_exceeds_job_timeout
                  else Inr (Some c, waves, Some total)))) \<noteq> Inl Plan_invalid"
    by (cases policy) (simp, simp only: option.case,
      intro rbind_no_error, auto simp: Let_def split: option.split)
qed simp

lemma plan_never_invalid:
  assumes ok: "manifest_ok s"
  shows "build_campaign_plan h s requested policy \<noteq> Inl Plan_invalid"
proof
  assume "build_campaign_plan h s requested policy = Inl Plan_invalid"
  then obtain source r tasks cells runs controller plan where
    r: "resolved_experiment h s source = Inr r" "resolved_tasks (es_benchmark r) = Inr tasks"
    "resolved_cells (es_matrix r) = Inr cells"
    "mapM (plan_run h r (plan_trials h (source_lock_digest h source) (ex_attempts (es_execution r)) tasks)
      (profiles_of (es_matrix r)) (source_lock_digest h source)) cells = Inr runs"
    "controller_plan r runs = Inr controller" "\<not> campaign_plan_ok plan"
    and plan: "plan = assemble_plan h s r source
      (case policy of Some q \<Rightarrow> q | None \<Rightarrow> default_recovery_policy) runs controller"
    by (auto simp: build_campaign_plan_def rbind_Inl_iff Let_def mapM_no_error result_simps split: if_splits)
  note k = resolved_experiment_keeps [OF r(1)]
  have e: "execution_spec_ok (es_execution r)" "1 \<le> ex_attempts (es_execution r)"
    "1 \<le> ex_max_trials_per_shard (es_execution r)"
    using ok k by (simp_all add: manifest_ok_def execution_spec_ok_def)
  have runs: "runs \<noteq> []" using resolved_cells_nonempty [OF r(3)] mapM_length [OF r(4)] by auto
  from r(2) have "tasks \<noteq> []" by (auto simp: resolved_tasks_def split: if_splits)
  from plan_trials_nonempty [OF e(2) this, of h "source_lock_digest h source"]
  have shards: "\<forall>x \<in> set runs. pr_shards x \<noteq> []"
    using planned_runs(2) [OF r(4) e(3)] by force
  have "run_admission_ok x" if "x \<in> set runs" for x
    using mapM_memD [OF r(4) that] planned_run_admission [OF _ e(3)] ok k by (auto simp: manifest_ok_def)
  moreover have "(pb_role (es_publishing r) = Role_component) = (pb_component_kind (es_publishing r) \<noteq> None)"
    using ok k by (simp add: manifest_ok_def publishing_spec_ok_def)
  ultimately have "campaign_plan_ok plan"
    using controller_plan_ok [of r runs "fst controller" "fst (snd controller)" "snd (snd controller)"] r(5) e(1) runs shards
    by (simp add: plan campaign_plan_ok_def assemble_plan_def list_all_iff)
  with r(6) show False ..
qed

end
