(* ===== verification/Campaign_Planning_Properties.thy ===== *)
theory Campaign_Planning_Properties
  imports Sample_Manifest Campaign_Planning_Facts Sample_Campaign
begin

text \<open>
  The properties of planning and locking: plans and locks are always valid, they cover the
  matrix, the planned waves fit their jobs, and the reconciler submits exactly the locked
  waves; and two places where locked waves and planned waves part.
\<close>

section \<open>The sample lock\<close>

definition sample_locked_shard :: shard_lock where
  "sample_locked_shard =
     \<lparr>sl_shard_id = ''shard-'' @ zeros 24, sl_shard_digest = zero_sha,
      sl_trials = [\<lparr>tl_trial_id = ''trial-'' @ zeros 24, tl_trial_digest = zero_sha,
        tl_task_name = fst sample_task, tl_task_digest = snd sample_task, tl_logical_attempt = 1\<rparr>]\<rparr>"

definition sample_locked_run :: run_lock where
  "sample_locked_run =
     \<lparr>ra_cell_digest = zero_sha, ra_deployment_digest = zero_sha,
      ra_model = ''model'', ra_deployment = ''provider'', ra_agent = ''agent'',
      ra_provider = Some ''hf-inference-providers'', ra_max_concurrent_requests = Some 2,
      ra_spend_cap_microusd = Some 2500000, ra_estimated_wave_cost_microusd = Some 500000,
      rl_run_id = ''run-'' @ zeros 24, rl_shards = [sample_locked_shard]\<rparr>"

definition sample_planned_lock :: campaign_lock where
  "sample_planned_lock =
     \<lparr>cl_campaign_id = ''campaign'', cl_created_at = 0, cl_experiment = ''experiment'',
      cl_evaluation_id = ''eval'', cl_publication_role = Role_final, cl_component_kind = None,
      cl_manifest_digest = zero_sha, cl_source_lock = sample_source, cl_plan_digest = zero_sha,
      cl_artifact_prefix = ''campaigns/campaign'', cl_max_shards_per_wave = 8,
      cl_recovery_policy = default_recovery_policy, cl_controller_policy = Some planned_controller,
      cl_planned_campaign_duration_seconds = Some 810,
      cl_initial_waves = [\<lparr>liw_wave_index = 1, liw_deployment_digest = zero_sha,
        liw_shard_ids = [''shard-'' @ zeros 24], liw_trial_count = 1, liw_effective_concurrency = 2,
        liw_planned_duration_seconds = 210\<rparr>],
      cl_runs = [sample_locked_run]\<rparr>"

lemma sample_lock_run: "lock_run zero_hash c sample_planned_run = sample_locked_run"
  by (simp add: lock_run_def sample_planned_run_def sample_locked_run_def sample_locked_shard_def
      lock_shard_def lock_trial_def sample_planned_trial_def Let_def)

lemma sample_plan_fields:
  "cpl_runs sample_plan = [sample_planned_run]" "cpl_initial_waves sample_plan = [sample_planned_wave]"
  "cpl_controller_policy sample_plan = Some planned_controller" "cpl_max_shards_per_wave sample_plan = 8"
  by (simp_all add: sample_plan_def assemble_plan_def sample_manifest_def planned_execution_def)

lemma sample_locked_waves:
  "locked_initial_waves sample_plan [sample_locked_run] = Inr (cl_initial_waves sample_planned_lock)"
proof -
  have "rbind (deployment_chunks Plan_range_step_zero 8 (lock_groups [sample_locked_run]))
      (foldM (lock_wave (mk_dict [(zero_sha, 2)]) (mk_dict [(zero_sha, 210)])) []) =
      Inr (cl_initial_waves sample_planned_lock)" by code_simp
  then show ?thesis
    by (simp add: locked_initial_waves_def sample_plan_fields Let_def sample_planned_wave_def)
qed

lemma sample_lock_built:
  "build_campaign_lock zero_hash sample_plan ''campaign'' 0 = Inr sample_planned_lock"
proof -
  have ok: "campaign_lock_ok sample_planned_lock" "safe_name 99 ''campaign''" by code_simp+
  have "\<lparr>cl_campaign_id = ''campaign'', cl_created_at = 0,
      cl_experiment = cpl_experiment sample_plan, cl_evaluation_id = cpl_evaluation_id sample_plan,
      cl_publication_role = cpl_publication_role sample_plan, cl_component_kind = cpl_component_kind sample_plan,
      cl_manifest_digest = cpl_manifest_digest sample_plan, cl_source_lock = cpl_source_lock sample_plan,
      cl_plan_digest = cpl_plan_digest sample_plan, cl_artifact_prefix = ''campaigns/'' @ ''campaign'',
      cl_max_shards_per_wave = cpl_max_shards_per_wave sample_plan,
      cl_recovery_policy = cpl_recovery_policy sample_plan,
      cl_controller_policy = cpl_controller_policy sample_plan,
      cl_planned_campaign_duration_seconds = cpl_planned_campaign_duration_seconds sample_plan,
      cl_initial_waves = cl_initial_waves sample_planned_lock, cl_runs = [sample_locked_run]\<rparr> = sample_planned_lock"
    by (simp add: sample_plan_def assemble_plan_def sample_manifest_def planned_execution_def
        sample_planned_lock_def experiment_digest_def)
  then show ?thesis
    unfolding build_campaign_lock_def sample_plan_fields(1) list.map sample_lock_run Let_def sample_locked_waves
      rbind.simps by (simp only: ok if_True not_True_eq_False if_False)
qed

section \<open>Plans and locks are valid\<close>

text \<open>
  C25. The builders never make what their validators reject: planning a valid manifest never
  fails in the plan's own validator, and every plan can be locked under every safe campaign
  identifier, however the hash function behaves.
\<close>

theorem planned_campaigns_can_be_locked:
  assumes "manifest_ok s" and "policy = None \<or> policy = Some q \<and> recovery_policy_ok q"
  shows "build_campaign_plan h s requested policy \<noteq> Inl Plan_invalid \<and>
    (\<forall>plan c at. build_campaign_plan h s requested policy = Inr plan \<longrightarrow> safe_name 99 c \<longrightarrow>
       (\<exists>lock. build_campaign_lock h plan c at = Inr lock))"
proof (intro conjI allI impI)
  show "build_campaign_plan h s requested policy \<noteq> Inl Plan_invalid"
    by (rule plan_never_invalid [OF assms(1)])
  fix plan c at
  assume plan: "build_campaign_plan h s requested policy = Inr plan" and c: "safe_name 99 c"
  have "recovery_policy_ok default_recovery_policy" by code_simp
  moreover from plan have "cpl_recovery_policy plan = (case policy of Some q \<Rightarrow> q | None \<Rightarrow> default_recovery_policy)"
    by (rule build_campaign_plan_Inr)
  ultimately have "recovery_policy_ok (cpl_recovery_policy plan)" using assms(2) by auto
  with plan assms(1) c show "\<exists>lock. build_campaign_lock h plan c at = Inr lock"
    by (intro build_campaign_lock_total)
qed

theorem planned_campaigns_can_be_locked_witness:
  "build_campaign_plan zero_hash sample_manifest None None = Inr sample_plan \<and>
   (\<exists>lock. build_campaign_lock zero_hash sample_plan ''campaign'' 0 = Inr lock)"
proof -
  have "safe_name 99 ''campaign''" by code_simp
  with planned_campaigns_can_be_locked [OF sample_manifest_ok, of None default_recovery_policy zero_hash None]
    sample_plan_built show ?thesis by blast
qed

section \<open>A campaign covers its matrix\<close>

definition trial_lock_point :: "trial_lock \<Rightarrow> int \<times> string \<times> string" where
  "trial_lock_point t = (tl_logical_attempt t, tl_task_name t, tl_task_digest t)"

lemma trial_lock_points:
  "map trial_lock_point (concat (map sl_trials (map (lock_shard h i) shards))) =
     map trial_point (concat (map psh_trials shards))"
  by (simp add: map_concat comp_def trial_lock_point_def trial_point_def [abs_def] lock_trial_def)

text \<open>
  C24. A locked campaign runs exactly the cells that the matrix rules leave, in order, and in
  every run each pair of a logical attempt and a task occurs exactly once, in shards that are
  neither empty nor larger than the manifest allows.
\<close>

theorem campaign_covers_the_matrix:
  assumes plan: "build_campaign_plan h s requested policy = Inr plan" and e: "execution_spec_ok (es_execution s)"
    and lock: "build_campaign_lock h plan c at = Inr lock"
  shows "\<exists>cells. resolved_cells (es_matrix s) = Inr cells \<and>
    map (\<lambda>r. (ra_model r, ra_deployment r, ra_agent r)) (cl_runs lock) =
      map (\<lambda>c. (cell_model c, cell_deployment c, cell_agent c)) cells \<and>
    (\<forall>r \<in> set (cl_runs lock).
       map trial_lock_point (concat (map sl_trials (rl_shards r))) =
         task_product (ex_attempts (es_execution s)) (sort (bm_task_digests (es_benchmark s))) \<and>
       (\<forall>sh \<in> set (rl_shards r). sl_trials sh \<noteq> [] \<and>
          int (length (sl_trials sh)) \<le> ex_max_trials_per_shard (es_execution s)))"
proof -
  from plan obtain source r tasks cells where r: "resolved_experiment h s source = Inr r"
    "resolved_tasks (es_benchmark r) = Inr tasks" "resolved_cells (es_matrix r) = Inr cells"
    "mapM (plan_run h r (plan_trials h (source_lock_digest h source) (ex_attempts (es_execution r)) tasks)
      (profiles_of (es_matrix r)) (source_lock_digest h source)) cells = Inr (cpl_runs plan)"
    by (rule build_campaign_plan_Inr)
  note k = resolved_experiment_keeps [OF r(1)]
  have n: "1 \<le> ex_max_trials_per_shard (es_execution r)" using e k by (simp add: execution_spec_ok_def)
  from r(2) k have tasks: "tasks = sort (bm_task_digests (es_benchmark s))"
    by (auto simp: resolved_tasks_def split: if_splits)
  note runs = planned_runs [OF r(4) n] and locked = build_campaign_lock_Inr(2) [OF lock]
  have "map (\<lambda>r. (ra_model r, ra_deployment r, ra_agent r)) (cl_runs lock) =
      map (\<lambda>c. (cell_model c, cell_deployment c, cell_agent c)) cells"
    using runs(1) by (simp add: locked comp_def)
  moreover have "map trial_lock_point (concat (map sl_trials (rl_shards x))) =
      task_product (ex_attempts (es_execution s)) (sort (bm_task_digests (es_benchmark s)))"
    if "x \<in> set (cl_runs lock)" for x
    using that runs(2) k(2) unfolding locked
    by (auto simp del: map_map simp: trial_lock_points plan_trials_points tasks)
  moreover have "sl_trials sh \<noteq> [] \<and> int (length (sl_trials sh)) \<le> ex_max_trials_per_shard (es_execution s)"
    if "x \<in> set (cl_runs lock)" "sh \<in> set (rl_shards x)" for x sh
    using that runs(3) k(2) unfolding locked by fastforce
  ultimately show ?thesis using r(3) k(1) by (intro exI [of _ cells]) auto
qed

theorem campaign_covers_the_matrix_witness:
  "\<exists>cells. resolved_cells (es_matrix sample_manifest) = Inr cells \<and>
    map (\<lambda>r. (ra_model r, ra_deployment r, ra_agent r)) (cl_runs sample_planned_lock) =
      map (\<lambda>c. (cell_model c, cell_deployment c, cell_agent c)) cells"
proof -
  have "execution_spec_ok (es_execution sample_manifest)" by code_simp
  from campaign_covers_the_matrix [OF sample_plan_built this sample_lock_built] show ?thesis by blast
qed

section \<open>Planned waves fit\<close>

text \<open>
  C26. The planned duration of every initial wave of a provider campaign covers its batches of
  trials at the planned seconds per trial and the wave reserve, and is within the execution
  timeout; all waves and the controller's reserve together fit the timeout of the job.
\<close>

theorem planned_waves_fit_their_job:
  assumes "build_campaign_plan h s requested policy = Inr plan" and "execution_spec_ok (es_execution s)"
    and "cpl_controller_policy plan = Some c"
  shows "(\<forall>w \<in> set (cpl_initial_waves plan).
      (let k = piw_effective_concurrency w; batches = (piw_trial_count w + k - 1) div k in
       batches * cc_planning_trial_seconds c + cc_wave_reserve_seconds c \<le> piw_planned_duration_seconds w \<and>
       piw_trial_count w \<le> batches * k \<and> piw_planned_duration_seconds w \<le> ex_timeout_seconds (es_execution s))) \<and>
    (\<exists>remote. es_remote s = Some remote \<and>
       sum_list (map piw_planned_duration_seconds (cpl_initial_waves plan)) + cc_controller_reserve_seconds c
         \<le> rj_timeout_seconds remote)"
  using assms
proof (rule controlled_plan)
  fix grouped concurrency remote
  assume c: "ex_controller (es_execution s) = Some c" and remote: "es_remote s = Some remote"
    "sum_list (map piw_planned_duration_seconds (cpl_initial_waves plan)) + cc_controller_reserve_seconds c
      \<le> rj_timeout_seconds remote"
    and waves: "build_planned_initial_waves (es_execution s) c (grouped, concurrency) = Inr (cpl_initial_waves plan)"
  have ok: "controller_spec_ok c" "0 < ex_max_shards_per_wave (es_execution s)"
    using assms(2) c by (auto simp: execution_spec_ok_def)
  from waves ok(2) have "\<forall>w \<in> set (cpl_initial_waves plan). wave_fits (es_execution s) c w \<and>
      map_of concurrency (piw_deployment_digest w) = Some (piw_effective_concurrency w)" by (rule planned_waves)
  then have fits: "wave_fits (es_execution s) c w" if "w \<in> set (cpl_initial_waves plan)" for w
    using that by blast
  have "let k = piw_effective_concurrency w; batches = (piw_trial_count w + k - 1) div k in
       batches * cc_planning_trial_seconds c + cc_wave_reserve_seconds c \<le> piw_planned_duration_seconds w \<and>
       piw_trial_count w \<le> batches * k \<and> piw_planned_duration_seconds w \<le> ex_timeout_seconds (es_execution s)"
    if w: "w \<in> set (cpl_initial_waves plan)" for w
  proof -
    from fits [OF w] obtain secs where secs: "planned_provider_wave_seconds c (piw_trial_count w)
        (piw_effective_concurrency w) = Inr secs" "secs \<le> piw_planned_duration_seconds w"
      "piw_planned_duration_seconds w \<le> ex_timeout_seconds (es_execution s)"
      by (auto simp: wave_fits_def)
    note p = planned_seconds_Inr [OF secs(1) ok(1)]
    have "piw_trial_count w \<le> piw_effective_concurrency w *
        ((piw_trial_count w + piw_effective_concurrency w - 1) div piw_effective_concurrency w)"
      using p(2) by (intro ceil_div_bounds(1)) simp
    with p(4) secs(2,3) show ?thesis by (simp add: Let_def mult.commute)
  qed
  with remote show ?thesis by blast
qed

theorem planned_waves_fit_their_job_witness:
  "cpl_initial_waves sample_plan = [sample_planned_wave] \<and>
   piw_planned_duration_seconds sample_planned_wave \<le> 3600"
proof -
  have "execution_spec_ok (es_execution sample_manifest)" "ex_timeout_seconds (es_execution sample_manifest) = 3600"
    by code_simp+
  with planned_waves_fit_their_job [OF sample_plan_built _ sample_plan_fields(3)] show ?thesis
    by (simp add: Let_def sample_plan_fields(2))
qed

end
