(* ===== verification/Wave_Planning_Properties.thy ===== *)
theory Wave_Planning_Properties
  imports Campaign_Planning_Properties Reconciler_Properties
begin

text \<open>
  Planned, locked and submitted waves: the reconciler submits exactly the locked waves of a
  campaign that has not started; but locked waves can be longer than planned, and a wave that
  executed only partly leaves shards whose new wave has no locked duration.
\<close>

section \<open>Submitted waves are the locked waves\<close>

lemma unique_shard_set:
  assumes "distinct (concat (map f ws))" and "\<forall>w \<in> set ws. f w \<noteq> []" and "w \<in> set ws"
  shows "filter (\<lambda>v. set (f v) = set (f w)) ws = [w]"
  using assms
proof (induction ws)
  case (Cons v ws)
  have other: "set (f u) \<noteq> set (f v)" if "u \<in> set ws" for u
  proof -
    have "set (f v) \<inter> set (f u) = {}" "f u \<noteq> []" using Cons.prems(1,2) that by auto
    then show ?thesis by auto
  qed
  show ?case
  proof (cases "w = v")
    case True
    with other show ?thesis by (auto simp: filter_empty_conv)
  next
    case False
    with Cons.prems have "w \<in> set ws" by simp
    with Cons.IH Cons.prems(1,2) other [OF this] show ?thesis by auto
  qed
qed simp

lemma map_pair_ids:
  "map (\<lambda>x. (f x, g x)) xs = map (\<lambda>y. (f' y, g' y)) ys \<Longrightarrow> map g xs = map g' ys"
  by (drule arg_cong [where f = "map snd"]) (simp add: comp_def)

lemma initial_wave_seconds:
  assumes "map (\<lambda>c. (ca_deployment_digest c, ca_shard_ids c)) cs =
      map (\<lambda>w. (liw_deployment_digest w, liw_shard_ids w)) (cl_initial_waves lock)"
    and "distinct (concat (map ca_shard_ids cs))" and "\<forall>c \<in> set cs. ca_shard_ids c \<noteq> []"
    and "cl_controller_policy lock \<noteq> None" and "c \<in> set cs"
  shows "\<exists>w \<in> set (cl_initial_waves lock). liw_shard_ids w = ca_shard_ids c \<and>
     locked_provider_action_seconds lock Submit_wave (ca_deployment_digest c) (ca_shard_ids c) n =
       Inr (liw_planned_duration_seconds w)"
proof -
  let ?ws = "cl_initial_waves lock"
  have ids: "map ca_shard_ids cs = map liw_shard_ids ?ws" by (rule map_pair_ids [OF assms(1)])
  have "(ca_deployment_digest c, ca_shard_ids c) \<in>
      set (map (\<lambda>w. (liw_deployment_digest w, liw_shard_ids w)) ?ws)"
    unfolding assms(1) [symmetric] using assms(5) by auto
  then obtain w where w: "w \<in> set ?ws" "liw_deployment_digest w = ca_deployment_digest c"
    "liw_shard_ids w = ca_shard_ids c" by auto
  have "\<forall>v \<in> set ?ws. liw_shard_ids v \<noteq> []"
  proof
    fix v assume "v \<in> set ?ws"
    then have "liw_shard_ids v \<in> set (map ca_shard_ids cs)" unfolding ids by simp
    with assms(3) show "liw_shard_ids v \<noteq> []" by auto
  qed
  with assms(2) w(1) have "filter (\<lambda>v. set (liw_shard_ids v) = set (liw_shard_ids w)) ?ws = [w]"
    unfolding ids by (intro unique_shard_set)
  then have "filter (\<lambda>v. liw_deployment_digest v = ca_deployment_digest c)
      (filter (\<lambda>v. set (liw_shard_ids v) = set (ca_shard_ids c)) ?ws) = [w]"
    using w(2,3) by simp
  then have "filter (\<lambda>v. liw_deployment_digest v = ca_deployment_digest c \<and>
      set (liw_shard_ids v) = set (ca_shard_ids c)) ?ws = [w]"
    by (simp add: conj_commute)
  with w assms(4) show ?thesis by (auto simp: locked_provider_action_seconds_def)
qed

text \<open>
  C23. What the reconciler submits for a provider campaign that has not started is exactly
  what was locked: the same waves in the same order, each with the same shards. As long as
  identifiers are distinct, every one of them has the locked duration by which the controller
  decides whether it fits the rest of the job.
\<close>

theorem reconciler_submits_locked_waves:
  assumes plan: "build_campaign_plan h s requested policy = Inr plan" and e: "execution_spec_ok (es_execution s)"
    and lock: "build_campaign_lock h plan c at = Inr lock" and provider: "cl_controller_policy lock \<noteq> None"
    and p: "untouched lock p" and cs: "new_wave_candidates lock p ctx = Inr cs"
  shows "map (\<lambda>c. (ca_deployment_digest c, ca_shard_ids c)) cs =
      map (\<lambda>w. (liw_deployment_digest w, liw_shard_ids w)) (cl_initial_waves lock) \<and>
    (lock_ids_distinct lock \<longrightarrow> (\<forall>c \<in> set cs. \<exists>w \<in> set (cl_initial_waves lock).
       liw_shard_ids w = ca_shard_ids c \<and>
       locked_provider_action_seconds lock Submit_wave (ca_deployment_digest c) (ca_shard_ids c)
         (int (length (ca_trial_ids c))) = Inr (liw_planned_duration_seconds w)))"
proof -
  note l = build_campaign_lock_Inr [OF lock]
  from plan obtain source r where r: "resolved_experiment h s source = Inr r"
    "cpl_max_shards_per_wave plan = ex_max_shards_per_wave (es_execution r)"
    by (rule build_campaign_plan_Inr)
  have k: "0 < cl_max_shards_per_wave lock"
    using e r(2) l(4) resolved_experiment_keeps(2) [OF r(1)] by (simp add: execution_spec_ok_def)
  have "\<forall>x \<in> set (cl_runs lock). rl_shards x \<noteq> []"
    using planned_runs_nonempty(2) [OF plan e] by (auto simp: l(2))
  then have same: "map (\<lambda>c. (ca_deployment_digest c, ca_shard_ids c)) cs =
      map (\<lambda>w. (liw_deployment_digest w, liw_shard_ids w)) (cl_initial_waves lock)"
    using new_waves_shape [OF cs k untouched_assigned [OF p]]
      locked_initial_waves_Inr [OF l(1)] provider k l(3,4)
    by (simp add: untouched_pending [OF p] lock_groups_sorted lock_groups_keys chunks_map comp_def)
  note ok = new_waves_ok [OF cs k]
  have "\<forall>c \<in> set cs. ca_shard_ids c \<noteq> []" using ok(1) by (auto simp: submit_ok_def)
  with same ok(2) provider show ?thesis by (auto intro: initial_wave_seconds)
qed

definition planned_submission :: event where
  "planned_submission = sample_event ''evt-00000000000000000000000000000001'' 1 ST_campaign ''campaign''
     (Campaign_event CK_submitted) (Submitted_payload zero_sha)"

definition starts_waves :: "campaign_lock \<Rightarrow> event list \<Rightarrow> reconcile_context \<Rightarrow> bool" where
  "starts_waves lock es ctx =
     (case project_recovery sample_hash lock es of
        Inl _ \<Rightarrow> False
      | Inr p \<Rightarrow> untouched lock p \<and> (case new_wave_candidates lock p ctx of Inl _ \<Rightarrow> False | Inr cs \<Rightarrow> cs \<noteq> []))"

theorem reconciler_submits_locked_waves_witness:
  "\<exists>p cs. project_recovery sample_hash sample_planned_lock [planned_submission] = Inr p \<and>
    new_wave_candidates sample_planned_lock p sample_context = Inr cs \<and> cs \<noteq> [] \<and>
    map ca_shard_ids cs = map liw_shard_ids (cl_initial_waves sample_planned_lock)"
proof -
  have e: "execution_spec_ok (es_execution sample_manifest)" by code_simp
  have n: "cl_controller_policy sample_planned_lock \<noteq> None" by (simp add: sample_planned_lock_def)
  have "starts_waves sample_planned_lock [planned_submission] sample_context" by code_simp
  then obtain p cs where p: "project_recovery sample_hash sample_planned_lock [planned_submission] = Inr p"
    "untouched sample_planned_lock p" "cs \<noteq> []"
    and cs: "new_wave_candidates sample_planned_lock p sample_context = Inr cs"
    by (auto simp: starts_waves_def split: sum.splits)
  from reconciler_submits_locked_waves [OF sample_plan_built e sample_lock_built n p(2) cs] p cs
  show ?thesis by (auto dest: map_pair_ids)
qed

section \<open>A wave that is only partly executed\<close>

definition pair_lock :: campaign_lock where
  "pair_lock = sample_lock\<lparr>cl_max_shards_per_wave := 2,
     cl_initial_waves := [(sample_wave 1 ''s1'')\<lparr>liw_shard_ids := [''s1'', ''s2''], liw_trial_count := 2\<rparr>]\<rparr>"

definition pair_wave_event :: "string \<Rightarrow> int \<Rightarrow> wave_status \<Rightarrow> event" where
  "pair_wave_event i at st = (sample_wave_event i at st)\<lparr>ev_payload :=
     Wave_payload \<lparr>wp_deployment_digest = ''dep'', wp_provider = ''hf'', wp_shard_ids = [''s1'', ''s2''],
        wp_estimated_cost_microusd = 100\<rparr>\<rparr>"

definition pair_log :: "event list" where
  "pair_log =
     [sample_submitted, pair_wave_event ''0'' 2 WS_acquiring, sample_start_of ''t1'' ''s1'' ''1'' 4 1,
      sample_finish_of ''t1'' ''1'' 5 1 EK_completed None, pair_wave_event ''1'' 6 WS_draining,
      pair_wave_event ''2'' 7 WS_cleaning, pair_wave_event ''3'' 8 WS_closed]"

definition plans_unplanned_wave :: bool where
  "plans_unplanned_wave =
     (case plan_reconciliation sample_hash pair_lock pair_log sample_context 9 of
        Inl _ \<Rightarrow> False
      | Inr (p, plan) \<Rightarrow> (case pl_actions plan of
          [a] \<Rightarrow> ca_kind a = AK_submit_wave \<and> ca_shard_ids a = [''s2''] \<and>
            locked_provider_action_seconds pair_lock Submit_wave (ca_deployment_digest a) (ca_shard_ids a)
              (int (length (ca_trial_ids a))) = Inl No_matching_initial_wave
        | _ \<Rightarrow> False))"

lemma pair_campaign:
  "campaign_lock_ok pair_lock" "lock_ids_distinct pair_lock" "list_all event_ok pair_log"
  "map liw_shard_ids (cl_initial_waves pair_lock) = [lock_shard_ids pair_lock]" plans_unplanned_wave
  by code_simp+

text \<open>
  The controller cannot run what the reconciler plans after a wave that executed only some
  of its shards: the other shards are submitted as a wave of their own, but the locked
  duration of a submitted wave is looked up by its exact set of shards, and there is no
  initial wave with that set. The lock and all events of the log are valid.
\<close>

theorem unfinished_wave_cannot_be_timed:
  "\<exists>h lock es ctx p plan a. campaign_lock_ok lock \<and> lock_ids_distinct lock \<and> list_all event_ok es \<and>
     concat (map liw_shard_ids (cl_initial_waves lock)) = lock_shard_ids lock \<and>
     plan_reconciliation h lock es ctx 9 = Inr (p, plan) \<and> a \<in> set (pl_actions plan) \<and>
     ca_kind a = AK_submit_wave \<and>
     locked_provider_action_seconds lock Submit_wave (ca_deployment_digest a) (ca_shard_ids a)
       (int (length (ca_trial_ids a))) = Inl No_matching_initial_wave"
proof -
  from pair_campaign(5) obtain p plan a where
    "plan_reconciliation sample_hash pair_lock pair_log sample_context 9 = Inr (p, plan)"
    "pl_actions plan = [a]" "ca_kind a = AK_submit_wave"
    "locked_provider_action_seconds pair_lock Submit_wave (ca_deployment_digest a) (ca_shard_ids a)
       (int (length (ca_trial_ids a))) = Inl No_matching_initial_wave"
    by (auto simp: plans_unplanned_wave_def split: sum.splits prod.splits list.splits)
  with pair_campaign show ?thesis
    by (intro exI [of _ sample_hash] exI [of _ pair_lock] exI [of _ pair_log] exI [of _ sample_context]
        exI [of _ p] exI [of _ plan] exI [of _ a]) simp
qed

section \<open>Locked waves can outgrow their plan\<close>

text \<open>
  A plan of three runs of one deployment with five trials each, and a hash function that keeps
  the last two characters of the digest in an identifier, so that the identifiers sort
  differently than the plan.
\<close>

definition byte_of :: "char \<Rightarrow> byte" where
  "byte_of c = word_of_int (of_char c)"

definition suffix_hash :: hash where
  "suffix_hash s = (case rev s of _ # _ # y # x # _ \<Rightarrow> [byte_of x, byte_of y] | _ \<Rightarrow> [])"

definition wide_shard :: "string \<Rightarrow> nat \<Rightarrow> planned_shard" where
  "wide_shard d n =
     \<lparr>psh_shard_digest = d,
      psh_trials = map (\<lambda>t. \<lparr>pn_trial_digest = d, pn_task_name = t, pn_task_digest = t,
        pn_logical_attempt = 1\<rparr>) (take n [''t'', ''u''])\<rparr>"

definition wide_run :: "string \<Rightarrow> planned_shard list \<Rightarrow> planned_run" where
  "wide_run d shards =
     \<lparr>ra_cell_digest = d, ra_deployment_digest = ''d'', ra_model = ''m'', ra_deployment = ''p'',
      ra_agent = d, ra_provider = Some ''hf'', ra_max_concurrent_requests = Some 1,
      ra_spend_cap_microusd = None, ra_estimated_wave_cost_microusd = None, pr_shards = shards\<rparr>"

definition wide_runs :: "planned_run list" where
  "wide_runs =
     [wide_run ''ra'' [wide_shard ''a0'' 2, wide_shard ''a1'' 2, wide_shard ''a2'' 1],
      wide_run ''rb'' [wide_shard ''b1'' 2, wide_shard ''b2'' 2, wide_shard ''b0'' 1],
      wide_run ''rc'' [wide_shard ''c0'' 2, wide_shard ''c1'' 2, wide_shard ''c2'' 1]]"

definition wide_execution :: execution_spec where
  "wide_execution = planned_execution\<lparr>ex_max_trials_per_shard := 2, ex_max_shards_per_wave := 4\<rparr>"

definition wide_waves :: "planned_initial_wave list" where
  "wide_waves =
     map (\<lambda>(i, ds, n). \<lparr>piw_wave_index = i, piw_deployment_digest = ''d'',
       piw_shard_digests = ds, piw_trial_count = n, piw_effective_concurrency = 1,
       piw_planned_duration_seconds = 1110\<rparr>)
       [(1, [''a0'', ''a1'', ''a2'', ''b1''], 7), (2, [''b2'', ''b0'', ''c0'', ''c1''], 7), (3, [''c2''], 1)]"

definition wide_plan :: campaign_plan where
  "wide_plan =
     \<lparr>cpl_experiment = ''e'', cpl_evaluation_id = ''v'', cpl_publication_role = Role_final,
      cpl_component_kind = None, cpl_manifest_digest = zero_sha, cpl_source_lock = sample_source,
      cpl_plan_digest = zero_sha, cpl_run_count = 3, cpl_shard_count = 9, cpl_trial_count = 15,
      cpl_max_shards_per_wave = 4, cpl_recovery_policy = default_recovery_policy,
      cpl_controller_policy = Some planned_controller,
      cpl_planned_campaign_duration_seconds = Some 3930,
      cpl_initial_waves = wide_waves, cpl_runs = wide_runs\<rparr>"

lemma wide_groups: "provider_wave_groups wide_execution wide_runs = Inr ([(''d'', planned_shards wide_runs)], [(''d'', 1)])"
  by code_simp

lemma wide_waves_built: "build_planned_initial_waves wide_execution planned_controller
   ([(''d'', planned_shards wide_runs)], [(''d'', 1)]) = Inr wide_waves"
  by code_simp
lemma wide_plan_ok: "campaign_plan_ok wide_plan" by code_simp

definition suffix_id :: "string \<Rightarrow> string \<Rightarrow> string" where
  "suffix_id p d = p @ ''-'' @ concat (map (\<lambda>c. hex_byte (unat (byte_of c))) d)"

lemma suffix_hash_tail: "suffix_hash (pre @ [x, y, a, b]) = [byte_of x, byte_of y]"
  by (simp add: suffix_hash_def)

lemma suffix_short_id:
  assumes "escape_char x = [x]" "escape_char y = [y]" "k1 \<le> k2"
  shows "short_id suffix_hash p (JObj [(k1, JStr r), (k2, JStr [x, y])]) = suffix_id p [x, y]"
proof -
  let ?v = "JObj [(k1, JStr r), (k2, JStr [x, y])]"
  have "\<exists>pre. dumps ?v = pre @ [x, y, CHR 0x22, CHR ''}'']"
    using assms by (simp add: str_join_def dumps_string_def)
  then obtain pre where "dumps ?v = pre @ [x, y, CHR 0x22, CHR ''}'']" ..
  then have "suffix_hash (dumps ?v) = [byte_of x, byte_of y]" by (simp only: suffix_hash_tail)
  then show ?thesis unfolding short_id_eq short_digest_def by (simp del: dumps.simps add: hexdigest_def suffix_id_def hex_byte_def)
qed

definition wide_lock_shard :: "string \<Rightarrow> nat \<Rightarrow> shard_lock" where
  "wide_lock_shard d n =
     \<lparr>sl_shard_id = suffix_id ''shard'' d, sl_shard_digest = d,
      sl_trials = map (\<lambda>t. \<lparr>tl_trial_id = suffix_id ''trial'' d, tl_trial_digest = d, tl_task_name = t,
        tl_task_digest = t, tl_logical_attempt = 1\<rparr>) (take n [''t'', ''u''])\<rparr>"

lemma wide_lock_shard:
  assumes "escape_char x = [x]" "escape_char y = [y]"
  shows "lock_shard suffix_hash i (wide_shard [x, y] n) = wide_lock_shard [x, y] n"
  using assms
  by (simp add: lock_shard_def wide_shard_def wide_lock_shard_def suffix_short_id lock_trial_def comp_def)

definition wide_lock_run :: "string \<Rightarrow> shard_lock list \<Rightarrow> run_lock" where
  "wide_lock_run d shards =
     \<lparr>ra_cell_digest = d, ra_deployment_digest = ''d'', ra_model = ''m'', ra_deployment = ''p'',
      ra_agent = d, ra_provider = Some ''hf'', ra_max_concurrent_requests = Some 1,
      ra_spend_cap_microusd = None, ra_estimated_wave_cost_microusd = None,
      rl_run_id = suffix_id ''run'' d, rl_shards = shards\<rparr>"

definition wide_lock_runs :: "run_lock list" where
  "wide_lock_runs =
     [wide_lock_run ''ra'' [wide_lock_shard ''a0'' 2, wide_lock_shard ''a1'' 2, wide_lock_shard ''a2'' 1],
      wide_lock_run ''rb'' [wide_lock_shard ''b1'' 2, wide_lock_shard ''b2'' 2, wide_lock_shard ''b0'' 1],
      wide_lock_run ''rc'' [wide_lock_shard ''c0'' 2, wide_lock_shard ''c1'' 2, wide_lock_shard ''c2'' 1]]"

lemma escapes: "list_all (\<lambda>c. escape_char c = [c]) ''abcr012''"
  by code_simp

lemma wide_locks:
  "map (lock_run suffix_hash c) wide_runs =
     wide_lock_runs"
  using escapes
  by (simp add: wide_runs_def wide_lock_runs_def wide_run_def wide_lock_run_def lock_run_def suffix_short_id wide_lock_shard Let_def)

definition wide_locked_waves :: "locked_initial_wave list" where
  "wide_locked_waves =
     map (\<lambda>(i, ds, n). \<lparr>liw_wave_index = i, liw_deployment_digest = ''d'',
       liw_shard_ids = map (suffix_id ''shard'') ds, liw_trial_count = n, liw_effective_concurrency = 1,
       liw_planned_duration_seconds = 1110\<rparr>)
       [(1, [''a0'', ''a1'', ''a2'', ''b0''], 6), (2, [''b1'', ''b2'', ''c0'', ''c1''], 8), (3, [''c2''], 1)]"

lemma wide_locked:
  "locked_initial_waves wide_plan
     wide_lock_runs =
   Inr wide_locked_waves"
  by code_simp

definition wide_lock :: campaign_lock where
  "wide_lock =
     \<lparr>cl_campaign_id = ''campaign'', cl_created_at = 0, cl_experiment = ''e'',
      cl_evaluation_id = ''v'', cl_publication_role = Role_final, cl_component_kind = None,
      cl_manifest_digest = zero_sha, cl_source_lock = sample_source, cl_plan_digest = zero_sha,
      cl_artifact_prefix = ''campaigns/campaign'', cl_max_shards_per_wave = 4,
      cl_recovery_policy = default_recovery_policy, cl_controller_policy = Some planned_controller,
      cl_planned_campaign_duration_seconds = Some 3930, cl_initial_waves = wide_locked_waves,
      cl_runs = wide_lock_runs\<rparr>"

lemma wide_lock_built: "build_campaign_lock suffix_hash wide_plan ''campaign'' 0 = Inr wide_lock"
proof -
  have ok: "campaign_lock_ok wide_lock" "safe_name 99 ''campaign''" by code_simp+
  have runs: "cpl_runs wide_plan = wide_runs" by (simp add: wide_plan_def)
  have "\<lparr>cl_campaign_id = ''campaign'', cl_created_at = 0,
      cl_experiment = cpl_experiment wide_plan, cl_evaluation_id = cpl_evaluation_id wide_plan,
      cl_publication_role = cpl_publication_role wide_plan, cl_component_kind = cpl_component_kind wide_plan,
      cl_manifest_digest = cpl_manifest_digest wide_plan, cl_source_lock = cpl_source_lock wide_plan,
      cl_plan_digest = cpl_plan_digest wide_plan, cl_artifact_prefix = ''campaigns/'' @ ''campaign'',
      cl_max_shards_per_wave = cpl_max_shards_per_wave wide_plan,
      cl_recovery_policy = cpl_recovery_policy wide_plan,
      cl_controller_policy = cpl_controller_policy wide_plan,
      cl_planned_campaign_duration_seconds = cpl_planned_campaign_duration_seconds wide_plan,
      cl_initial_waves = wide_locked_waves, cl_runs = wide_lock_runs\<rparr> = wide_lock"
    by (simp add: wide_plan_def wide_lock_def)
  then show ?thesis
    unfolding build_campaign_lock_def runs wide_locks Let_def wide_locked rbind.simps
    by (simp only: ok if_True not_True_eq_False if_False)
qed

text \<open>
  Locked waves are not the planned waves. The planner chunks the shards of a deployment in
  the order of the plan, the lock in the order of its identifiers, and then takes over the
  planned durations by deployment only: a locked wave can hold more trials than any planned
  wave and more than its locked duration covers. The planner computed the waves of this plan
  and the validators of plan and lock accept it; the hash function is an arbitrary one.
\<close>

theorem locked_waves_can_outgrow_their_plan:
  "\<exists>h e c plan groups lock w secs.
     provider_wave_groups e (cpl_runs plan) = Inr groups \<and>
     build_planned_initial_waves e c groups = Inr (cpl_initial_waves plan) \<and>
     campaign_plan_ok plan \<and> cpl_controller_policy plan = Some c \<and>
     build_campaign_lock h plan ''campaign'' 0 = Inr lock \<and> w \<in> set (cl_initial_waves lock) \<and>
     planned_provider_wave_seconds c (liw_trial_count w) (liw_effective_concurrency w) = Inr secs \<and>
     liw_planned_duration_seconds w < secs"
proof (intro exI conjI)
  show "provider_wave_groups wide_execution (cpl_runs wide_plan) = Inr ([(''d'', planned_shards wide_runs)], [(''d'', 1)])"
    using wide_groups by (simp add: wide_plan_def)
  show "build_planned_initial_waves wide_execution planned_controller
      ([(''d'', planned_shards wide_runs)], [(''d'', 1)]) = Inr (cpl_initial_waves wide_plan)"
    using wide_waves_built by (simp add: wide_plan_def)
  show "campaign_plan_ok wide_plan" by (rule wide_plan_ok)
  show "cpl_controller_policy wide_plan = Some planned_controller" by (simp add: wide_plan_def)
  show "build_campaign_lock suffix_hash wide_plan ''campaign'' 0 = Inr wide_lock" by (rule wide_lock_built)
  show "wide_locked_waves ! 1 \<in> set (cl_initial_waves wide_lock)"
    by (simp add: wide_lock_def wide_locked_waves_def)
  show "planned_provider_wave_seconds planned_controller (liw_trial_count (wide_locked_waves ! 1))
      (liw_effective_concurrency (wide_locked_waves ! 1)) = Inr 1260" by code_simp
  show "liw_planned_duration_seconds (wide_locked_waves ! 1) < 1260" by code_simp
qed

end
