(* ===== verification/Wave_Lock_Properties.thy ===== *)
theory Wave_Lock_Properties
  imports Wave_Actions Wave_Planning_Properties
begin

text \<open>
  The properties of wave locks: the reconciler plans no action that the lock builder refuses,
  a built lock holds exactly the shards of its action, and its target and duration are the
  ones the campaign lock allows.
\<close>

section \<open>Planned actions\<close>

lemma contents_validated:
  assumes "action_contents_ok lock a" and "billable (ca_kind a)" and "ac_campaign_id a = cl_campaign_id lock"
    and "hex_string 24 (ac_action_key a)" and "ac_action_id a = ''act-'' @ ac_action_key a"
  shows "validate_submit_wave_action lock a = Inr ()"
proof -
  have "validate_action_trials a = Inr ()"
    using assms(1) by (simp add: validate_action_trials_def action_contents_ok_def)
  with assms show ?thesis
    by (simp add: validate_submit_wave_action_def action_contents_ok_def billable_def)
qed

lemma contents_selected:
  assumes "action_contents_ok lock a"
  shows "selected_wave_shards lock a = Inr (picked (ca_shard_ids a) (cl_runs lock))"
    and "set (ca_trial_ids a) \<subseteq> set (selected_trial_ids (picked (ca_shard_ids a) (cl_runs lock)))"
proof -
  show "selected_wave_shards lock a = Inr (picked (ca_shard_ids a) (cl_runs lock))"
    using assms by (intro selectable) (simp add: action_contents_ok_def)
  show "set (ca_trial_ids a) \<subseteq> set (selected_trial_ids (picked (ca_shard_ids a) (cl_runs lock)))"
  proof
    fix i
    assume "i \<in> set (ca_trial_ids a)"
    with assms obtain s where s: "s \<in> set (lock_shards lock)" "sl_shard_id s \<in> set (ca_shard_ids a)"
      "i \<in> tl_trial_id ` set (sl_trials s)" by (auto simp: action_contents_ok_def)
    from s(1) obtain r where "r \<in> set (cl_runs lock)" "s \<in> set (rl_shards r)" by (auto simp: lock_shards_def)
    with s(2,3) show "i \<in> set (selected_trial_ids (picked (ca_shard_ids a) (cl_runs lock)))"
      by (force simp: selected_trial_ids_def picked_def holds_shard_def)
  qed
qed

text \<open>
  C33. The reconciler plans no wave that the lock builder would refuse: every submission and
  every retry of a plan passes the validation of wave actions, selects shards of one deployment
  of the campaign, and names only trials of those shards. The hash function gives at least
  twelve bytes, and the identifiers of the campaign lock are distinct.
\<close>

theorem planned_actions_pass_wave_checks:
  assumes "plan_reconciliation h lock es ctx now = Inr (p, plan)" and "lock_ids_distinct lock"
    and "0 < cl_max_shards_per_wave lock" and "\<forall>s. 12 \<le> length (h s)"
    and "a \<in> set (pl_actions plan)" and "billable (ca_kind a)"
  shows "validate_submit_wave_action lock a = Inr () \<and>
    (\<exists>selected. selected_wave_shards lock a = Inr selected \<and>
       set (ca_trial_ids a) \<subseteq> set (selected_trial_ids selected))"
proof -
  have ok: "action_contents_ok lock a" using assms(1,2,3,5,6) by (rule plan_contents_ok)
  from plan_reconciliation_Inr(2) [OF assms(1)] obtain c where
    "ac_action_key a = action_key_of h lock p c" "ac_action_id a = ''act-'' @ ac_action_key a"
    "ac_campaign_id a = cl_campaign_id lock"
    using assms(5) by (rule plan_action_identity)
  moreover from this(1) assms(4) have "hex_string 24 (ac_action_key a)"
    by (simp add: action_key_of_def short_digest_hex del: dumps.simps)
  ultimately show ?thesis using contents_validated [OF ok assms(6)] contents_selected [OF ok] by blast
qed

theorem planned_actions_pass_wave_checks_witness:
  "\<exists>p plan a. plan_reconciliation sample_hash sample_lock [sample_submitted] sample_context 9 = Inr (p, plan) \<and>
    a \<in> set (pl_actions plan) \<and> validate_submit_wave_action sample_lock a = Inr ()"
proof -
  from sample_fresh_plan obtain p plan where
    p: "plan_reconciliation sample_hash sample_lock [sample_submitted] sample_context 9 = Inr (p, plan)"
    "map ca_kind (pl_actions plan) = [AK_submit_wave, AK_submit_wave]" by (rule plans_D) (elim conjE, rule that)
  then obtain a where a: "a \<in> set (pl_actions plan)" "billable (ca_kind a)"
    by (cases "pl_actions plan") (auto simp: billable_def)
  have "lock_ids_distinct sample_lock" "0 < cl_max_shards_per_wave sample_lock" by code_simp+
  moreover have "\<forall>s. 12 \<le> length (sample_hash s)" by (simp add: sample_hash_def)
  ultimately show ?thesis using planned_actions_pass_wave_checks [OF p(1) _ _ _ a] p(1) a(1) by blast
qed

section \<open>What a built lock holds\<close>

lemma add_wave_run_Inr:
  assumes "add_wave_run h isoformat stamp campaign spec endpoint (target, runs) (r, shards) = Inr (target', runs')"
  obtains bound configuration observed where "bound_wave_spec h campaign spec r endpoint = Inr bound"
    and "build_run_lock h isoformat stamp bound (wave_run_request campaign r) (cl_created_at campaign) = Inr configuration"
    and "wave_target_of (rn_deployment configuration) = Inr observed" and "target = None \<or> target = Some observed"
    and "target' = Some observed" and "runs' = runs @ [wave_run_lock_of campaign r configuration shards]"
  using assms by (auto simp: add_wave_run_def result_simps split: if_splits)

text \<open>One run of a wave: its configuration is the run lock of the bound manifest.\<close>

definition wave_run_built ::
  "hash \<Rightarrow> (int \<Rightarrow> string) \<Rightarrow> (int \<Rightarrow> string) \<Rightarrow> campaign_lock \<Rightarrow> experiment_spec \<Rightarrow> endpoint_ref option \<Rightarrow>
   wave_target \<Rightarrow> run_lock \<times> shard_lock list \<Rightarrow> wave_run_lock \<Rightarrow> bool" where
  "wave_run_built h isoformat stamp campaign spec endpoint target selection x \<longleftrightarrow>
     (\<exists>bound configuration. bound_wave_spec h campaign spec (fst selection) endpoint = Inr bound \<and>
        build_run_lock h isoformat stamp bound (wave_run_request campaign (fst selection)) (cl_created_at campaign)
          = Inr configuration \<and>
        wave_target_of (rn_deployment configuration) = Inr target \<and>
        x = wave_run_lock_of campaign (fst selection) configuration (snd selection))"

lemma wave_runs_some:
  "foldM (add_wave_run h isoformat stamp campaign spec endpoint) st selected = Inr (found, runs) \<Longrightarrow>
   selected \<noteq> [] \<Longrightarrow> found \<noteq> None"
proof (induction selected arbitrary: found runs rule: rev_induct)
  case (snoc x xs)
  then obtain st' where "add_wave_run h isoformat stamp campaign spec endpoint st' x = Inr (found, runs)"
    by (auto simp: result_simps)
  then show ?case by (auto simp: add_wave_run_def result_simps split: if_splits prod.splits)
qed simp

lemma wave_runs_built:
  assumes "foldM (add_wave_run h isoformat stamp campaign spec endpoint) (None, []) selected = Inr (found, runs)"
  shows "(selected = [] \<longrightarrow> found = None) \<and>
    (\<forall>target. found = Some target \<longrightarrow>
      list_all2 (wave_run_built h isoformat stamp campaign spec endpoint target) selected runs)"
  using assms
proof (induction selected arbitrary: found runs rule: rev_induct)
  case (snoc x xs)
  then obtain found0 runs0 where s: "foldM (add_wave_run h isoformat stamp campaign spec endpoint) (None, []) xs = Inr (found0, runs0)"
    "add_wave_run h isoformat stamp campaign spec endpoint (found0, runs0) x = Inr (found, runs)"
    by (auto simp: result_simps)
  obtain r shards where x: "x = (r, shards)" by (cases x)
  note IH = snoc.IH [OF s(1)]
  from s(2) [unfolded x] show ?case
  proof (rule add_wave_run_Inr)
    fix bound configuration observed
    assume c: "bound_wave_spec h campaign spec r endpoint = Inr bound"
      "build_run_lock h isoformat stamp bound (wave_run_request campaign r) (cl_created_at campaign) = Inr configuration"
      "wave_target_of (rn_deployment configuration) = Inr observed" "found0 = None \<or> found0 = Some observed"
      "found = Some observed" "runs = runs0 @ [wave_run_lock_of campaign r configuration shards]"
    have one: "wave_run_built h isoformat stamp campaign spec endpoint observed x (wave_run_lock_of campaign r configuration shards)"
      unfolding wave_run_built_def x using c(1-3) by auto
    have "list_all2 (wave_run_built h isoformat stamp campaign spec endpoint observed) xs runs0"
    proof (cases xs)
      case Nil
      with s(1) show ?thesis by simp
    next
      case Cons
      then have "found0 \<noteq> None" using wave_runs_some [OF s(1)] by simp
      with c(4) IH show ?thesis by blast
    qed
    with one show ?case by (simp add: c(5,6) list_all2_appendI)
  qed
qed simp

lemma checked_Inr_iff: "(if b then Inr x else Inl e) = Inr y \<longleftrightarrow> b \<and> x = y"
  by simp

lemma build_wave_lock_Inr:
  assumes "build_wave_lock h isoformat stamp campaign spec a endpoint = Inr w"
  obtains resolved where "resolved_experiment h spec (cl_source_lock campaign) = Inr resolved"
    and "expected_campaign_lock h campaign spec = Inr campaign"
    and "validate_submit_wave_action campaign a = Inr ()"
    and "selected_wave_shards campaign a = Inr (picked (ca_shard_ids a) (cl_runs campaign))"
    and "list_all2 (wave_run_built h isoformat stamp campaign resolved endpoint (wl_target w))
      (picked (ca_shard_ids a) (cl_runs campaign)) (wl_runs w)"
    and "es_remote resolved = Some (wl_remote w)"
    and "wave_duration_seconds campaign resolved a (provider_of_target (wl_target w)) = Inr (wl_duration_seconds w)"
    and "deterministic_wave_id (ac_action_key a) = Inr (wl_wave_id w)"
    and "wl_shard_ids w = ca_shard_ids a" and "wl_trial_ids w = ca_trial_ids a"
    and "wl_deployment_digest w = ca_deployment_digest a" and "wave_lock_ok w"
proof -
  from assms obtain resolved selected estimate target runs remote duration wave_id concurrency where
    r: "expected_campaign_lock h campaign spec = Inr campaign" "validate_submit_wave_action campaign a = Inr ()"
      "resolved_experiment h spec (cl_source_lock campaign) = Inr resolved"
      "selected_wave_shards campaign a = Inr selected"
      "foldM (add_wave_run h isoformat stamp campaign resolved endpoint) (None, []) selected = Inr (Some target, runs)"
      "es_remote resolved = Some remote"
      "wave_duration_seconds campaign resolved a (provider_of_target target) = Inr duration"
      "deterministic_wave_id (ac_action_key a) = Inr wave_id"
    and w: "w = assemble_wave_lock campaign resolved a target concurrency estimate duration remote wave_id runs"
      "wave_lock_ok w"
    by (auto simp: build_wave_lock_def result_simps Let_def checked_Inr_iff)
  have f: "wl_target w = target" "wl_runs w = runs" "wl_remote w = remote" "wl_duration_seconds w = duration"
    "wl_wave_id w = wave_id" "wl_shard_ids w = ca_shard_ids a" "wl_trial_ids w = ca_trial_ids a"
    "wl_deployment_digest w = ca_deployment_digest a"
    unfolding w(1) by (simp_all add: assemble_wave_lock_def)
  have sel: "selected = picked (ca_shard_ids a) (cl_runs campaign)" using r(4) unfolding selected_wave_shards_Inr by blast
  show ?thesis
    by (rule that [of resolved]) (use r w(2) wave_runs_built [OF r(5)] in \<open>simp_all add: f sel\<close>)
qed

lemma bind_endpoint_Inr:
  assumes "bind_endpoint spec i e = Inr bound" and "t \<in> set (mx_deployments (es_matrix bound))" and "target_id t = i"
  shows "wave_target_of t = Inr (Endpoint_wave_target e)" and "es_remote bound = es_remote spec"
proof -
  from assms(1) obtain ds where ds: "bound = spec\<lparr>es_matrix := (es_matrix spec)\<lparr>mx_deployments := ds\<rparr>\<rparr>"
    "mapM (\<lambda>p. of_option Provider_binds_no_endpoint (bind_target i e p)) (mx_deployments (es_matrix spec)) = Inr ds"
    by (auto simp: bind_endpoint_def result_simps)
  from ds(1) show "es_remote bound = es_remote spec" by simp
  from ds(1) assms(2) have "t \<in> set ds" by simp
  from mapM_memD [OF ds(2) this] obtain p where "bind_target i e p = Some t" by (auto simp: result_simps)
  with assms(3) show "wave_target_of t = Inr (Endpoint_wave_target e)" by (cases p) (auto split: if_splits)
qed

definition wave_target_allowed ::
  "hash \<Rightarrow> campaign_lock \<Rightarrow> experiment_spec \<Rightarrow> run_lock \<Rightarrow> endpoint_ref option \<Rightarrow> wave_target \<Rightarrow> bool" where
  "wave_target_allowed h campaign spec r endpoint target \<longleftrightarrow>
     (case target of
        Provider_wave_target p \<Rightarrow> endpoint = None \<and> Provider_target p \<in> set (mx_deployments (es_matrix spec))
      | Endpoint_wave_target e \<Rightarrow>
          (endpoint = None \<or> endpoint = Some e) \<and>
          ((\<exists>p. Endpoint_target p \<in> set (mx_deployments (es_matrix spec)) \<and> ep_id p = ra_deployment r \<and>
              ep_endpoint p = Some e) \<or>
           managed_wave_endpoint h campaign spec (ra_deployment_digest r) = Inr e))"

lemma bound_target_allowed:
  assumes "bound_wave_spec h campaign spec r endpoint = Inr bound"
    and t: "t \<in> set (mx_deployments (es_matrix bound))" "target_id t = ra_deployment r"
      "wave_target_of t = Inr target"
  shows "wave_target_allowed h campaign spec r endpoint target \<and> es_remote bound = es_remote spec"
proof -
  from assms(1) obtain found where found: "List.find (\<lambda>p. target_id p = ra_deployment r) (mx_deployments (es_matrix spec)) = Some found"
    by (auto simp: bound_wave_spec_def result_simps)
  then have mem: "found \<in> set (mx_deployments (es_matrix spec))" "target_id found = ra_deployment r"
    by (auto simp: find_Some_iff)
  show ?thesis
  proof (cases found)
    case (Provider_target p)
    with assms(1) found have "endpoint = None" "bound = spec"
      by (auto simp: bound_wave_spec_def split: if_splits)
    with t show ?thesis
      by (cases rule: deployment_target.exhaust [of t]) (auto simp: wave_target_allowed_def split: option.splits)
  next
    case (Endpoint_target p)
    with assms(1) found obtain e managed where
      e: "(case endpoint of None \<Rightarrow> ep_endpoint p | Some e \<Rightarrow> Some e) = Some e"
      "managed_wave_endpoint h campaign spec (ra_deployment_digest r) = Inr managed"
      "Some e = ep_endpoint p \<or> e = managed" "bind_endpoint spec (ra_deployment r) e = Inr bound"
      by (auto simp: bound_wave_spec_def result_simps split: if_splits)
    from bind_endpoint_Inr [OF e(4) t(1,2)] t(3) have b: "target = Endpoint_wave_target e" "es_remote bound = es_remote spec"
      by auto
    have "endpoint = None \<or> endpoint = Some e" using e(1) by (cases endpoint) auto
    moreover have "(\<exists>p. Endpoint_target p \<in> set (mx_deployments (es_matrix spec)) \<and> ep_id p = ra_deployment r \<and>
        ep_endpoint p = Some e) \<or> managed_wave_endpoint h campaign spec (ra_deployment_digest r) = Inr e"
      using e(2,3) mem Endpoint_target by (metis target_id.simps(1))
    ultimately show ?thesis using b by (simp add: wave_target_allowed_def)
  qed
qed

lemma revalidated_remote: "revalidated h spec = Inr s \<Longrightarrow> es_remote s = es_remote spec \<and> es_matrix s = es_matrix spec"
  by (auto simp: revalidated_def result_simps Let_def split: if_splits)

lemma wave_run_target:
  assumes "wave_run_built h isoformat stamp campaign spec endpoint target (r, shards) x" and "rl_run_id r \<noteq> []"
    and "es_remote spec = Some remote"
  shows "wave_target_allowed h campaign spec r endpoint target"
    and "target = Endpoint_wave_target e \<Longrightarrow> er_namespace e = rj_namespace remote"
    and "mp_id (rn_model (wrl_configuration x)) = ra_model r" and "ag_id (rn_agent (wrl_configuration x)) = ra_agent r"
    and "target_id (rn_deployment (wrl_configuration x)) = ra_deployment r"
    and "rn_run_id (wrl_configuration x) = rl_run_id r" and "map wsl_shard (wrl_shards x) = shards"
    and "wave_target_of (rn_deployment (wrl_configuration x)) = Inr target"
proof -
  from assms(1) obtain bound c where b: "bound_wave_spec h campaign spec r endpoint = Inr bound"
    "build_run_lock h isoformat stamp bound (wave_run_request campaign r) (cl_created_at campaign) = Inr c"
    "wave_target_of (rn_deployment c) = Inr target" "x = wave_run_lock_of campaign r c shards"
    by (auto simp: wave_run_built_def)
  have x: "wrl_configuration x = c" "map wsl_shard (wrl_shards x) = shards"
    by (simp_all add: b(4) wave_run_lock_of_def Let_def comp_def)
  from b(2) obtain s where s: "revalidated h bound = Inr s" "es_remote s = Some (rn_remote c)"
    "rn_deployment c \<in> set (mx_deployments (es_matrix s))" "mp_id (rn_model c) = ra_model r"
    "target_id (rn_deployment c) = ra_deployment r" "ag_id (rn_agent c) = ra_agent r" "rn_run_id c = rl_run_id r"
    "validate_deployment_target (rn_model c) (rn_deployment c) (rn_agent c) (rn_remote c) True = Inr ()"
    by (rule build_run_lock_Inr) (use assms(2) in \<open>simp add: wave_run_request_def\<close>)
  have "rn_deployment c \<in> set (mx_deployments (es_matrix bound))" using s(3) revalidated_remote [OF s(1)] by simp
  note allowed = bound_target_allowed [OF b(1) this s(5) b(3)]
  show "wave_target_allowed h campaign spec r endpoint target" using allowed ..
  have remote: "rn_remote c = remote" using allowed revalidated_remote [OF s(1)] s(2) assms(3) by simp
  show "er_namespace e = rj_namespace remote" if "target = Endpoint_wave_target e"
    using s(8) b(3) that remote
    by (cases "rn_deployment c") (auto simp: validate_deployment_target_def result_simps split: option.splits if_splits)
  show "mp_id (rn_model (wrl_configuration x)) = ra_model r" "ag_id (rn_agent (wrl_configuration x)) = ra_agent r"
    "target_id (rn_deployment (wrl_configuration x)) = ra_deployment r"
    "rn_run_id (wrl_configuration x) = rl_run_id r" "map wsl_shard (wrl_shards x) = shards"
    "wave_target_of (rn_deployment (wrl_configuration x)) = Inr target"
    using s(4-7) b(3) x by simp_all
qed

lemma expected_runs_named:
  assumes "expected_campaign_lock h campaign spec = Inr campaign" and "r \<in> set (cl_runs campaign)"
  shows "rl_run_id r \<noteq> []"
proof -
  from assms(1) obtain plan where "build_campaign_lock h plan (cl_campaign_id campaign) (cl_created_at campaign) = Inr campaign"
    by (auto simp: expected_campaign_lock_def result_simps)
  from build_campaign_lock_Inr(2) [OF this] assms(2) show ?thesis
    by (auto simp: lock_run_def Let_def short_id_eq)
qed

lemma built_run:
  assumes "build_wave_lock h isoformat stamp campaign spec a endpoint = Inr w" and "x \<in> set (wl_runs w)"
  obtains r resolved where "resolved_experiment h spec (cl_source_lock campaign) = Inr resolved"
    and "es_remote resolved = Some (wl_remote w)" and "r \<in> set (cl_runs campaign)" and "rl_run_id r \<noteq> []"
    and "ra_deployment_digest r = ca_deployment_digest a"
    and "wave_run_built h isoformat stamp campaign resolved endpoint (wl_target w)
      (r, filter (\<lambda>s. sl_shard_id s \<in> set (ca_shard_ids a)) (rl_shards r)) x"
  using assms(1)
proof (rule build_wave_lock_Inr)
  fix resolved
  assume r: "resolved_experiment h spec (cl_source_lock campaign) = Inr resolved"
    "es_remote resolved = Some (wl_remote w)" "expected_campaign_lock h campaign spec = Inr campaign"
    "selected_wave_shards campaign a = Inr (picked (ca_shard_ids a) (cl_runs campaign))"
    "list_all2 (wave_run_built h isoformat stamp campaign resolved endpoint (wl_target w))
      (picked (ca_shard_ids a) (cl_runs campaign)) (wl_runs w)"
  from r(5) assms(2) obtain sel where sel: "sel \<in> set (picked (ca_shard_ids a) (cl_runs campaign))"
    "wave_run_built h isoformat stamp campaign resolved endpoint (wl_target w) sel x"
    by (metis in_set_conv_nth list_all2_lengthD list_all2_nthD2)
  from sel(1) obtain y where y: "y \<in> set (cl_runs campaign)" "holds_shard (ca_shard_ids a) y"
    "sel = (y, filter (\<lambda>s. sl_shard_id s \<in> set (ca_shard_ids a)) (rl_shards y))" by (auto simp: picked_def)
  have "ra_deployment_digest y = ca_deployment_digest a"
    using r(4) y(1,2) unfolding selected_wave_shards_Inr by blast
  then show ?thesis using that [OF r(1,2) y(1) expected_runs_named [OF r(3) y(1)]] sel(2) y(3) by blast
qed

text \<open>
  C34. A wave lock holds exactly what its action names: the shards of its runs are the shards of
  the action, each once, and at most the campaign's bound; every run is a run of the campaign
  lock with the action's deployment, under the locked identifier, with the locked model,
  deployment and agent and with all of its shards that the action names, and all runs resolve
  to the one target of the wave.
\<close>

theorem wave_lock_matches_campaign:
  assumes "build_wave_lock h isoformat stamp campaign spec a endpoint = Inr w"
  shows "mset (map sl_shard_id (wave_locked_shards w)) = mset (ca_shard_ids a) \<and>
    1 \<le> length (ca_shard_ids a) \<and> int (length (ca_shard_ids a)) \<le> cl_max_shards_per_wave campaign \<and>
    wl_wave_id w = wave_id_of_key (ac_action_key a) \<and>
    (\<forall>x \<in> set (wl_runs w). \<exists>r \<in> set (cl_runs campaign).
       ra_deployment_digest r = ca_deployment_digest a \<and>
       map wsl_shard (wrl_shards x) = filter (\<lambda>s. sl_shard_id s \<in> set (ca_shard_ids a)) (rl_shards r) \<and>
       rn_run_id (wrl_configuration x) = rl_run_id r \<and> mp_id (rn_model (wrl_configuration x)) = ra_model r \<and>
       target_id (rn_deployment (wrl_configuration x)) = ra_deployment r \<and>
       ag_id (rn_agent (wrl_configuration x)) = ra_agent r \<and>
       wave_target_of (rn_deployment (wrl_configuration x)) = Inr (wl_target w))"
proof -
  from assms have v: "validate_submit_wave_action campaign a = Inr ()" "wl_shard_ids w = ca_shard_ids a"
    "deterministic_wave_id (ac_action_key a) = Inr (wl_wave_id w)" "wave_lock_ok w"
    by (auto elim: build_wave_lock_Inr)
  from v(4) have b: "length (map sl_shard_id (wave_locked_shards w)) = length (ca_shard_ids a)" "distinct (ca_shard_ids a)"
    "set (map sl_shard_id (wave_locked_shards w)) = set (ca_shard_ids a)"
    by (simp_all add: wave_lock_ok_def wave_bounds_match_contents_def Let_def v(2))
  then have "distinct (map sl_shard_id (wave_locked_shards w))" by (metis card_distinct distinct_card)
  with b(2,3) have "mset (map sl_shard_id (wave_locked_shards w)) = mset (ca_shard_ids a)"
    using set_eq_iff_mset_eq_distinct by blast
  moreover have "1 \<le> length (ca_shard_ids a)" "int (length (ca_shard_ids a)) \<le> cl_max_shards_per_wave campaign"
    using v(1) by (auto simp: validate_submit_wave_action_def Suc_le_eq split: if_splits)
  moreover have "wl_wave_id w = wave_id_of_key (ac_action_key a)"
    using v(3) by (auto simp: deterministic_wave_id_def wave_id_of_key_def split: if_splits)
  moreover have "\<exists>r \<in> set (cl_runs campaign). ra_deployment_digest r = ca_deployment_digest a \<and>
       map wsl_shard (wrl_shards x) = filter (\<lambda>s. sl_shard_id s \<in> set (ca_shard_ids a)) (rl_shards r) \<and>
       rn_run_id (wrl_configuration x) = rl_run_id r \<and> mp_id (rn_model (wrl_configuration x)) = ra_model r \<and>
       target_id (rn_deployment (wrl_configuration x)) = ra_deployment r \<and>
       ag_id (rn_agent (wrl_configuration x)) = ra_agent r \<and>
       wave_target_of (rn_deployment (wrl_configuration x)) = Inr (wl_target w)" if x: "x \<in> set (wl_runs w)" for x
    using assms x
  proof (rule built_run)
    fix r resolved
    assume r: "r \<in> set (cl_runs campaign)" "ra_deployment_digest r = ca_deployment_digest a"
      and t: "wave_run_built h isoformat stamp campaign resolved endpoint (wl_target w)
        (r, filter (\<lambda>s. sl_shard_id s \<in> set (ca_shard_ids a)) (rl_shards r)) x"
        "rl_run_id r \<noteq> []" "es_remote resolved = Some (wl_remote w)"
    from wave_run_target(3-8) [OF t] show ?thesis by (intro bexI [OF _ r(1)]) (simp add: r(2))
  qed
  ultimately show ?thesis by blast
qed

text \<open>
  C35. A wave lock names only a target that the manifest allows, for the time that was planned:
  an endpoint is the requested one if any, is either the manifest's own endpoint or the managed
  endpoint of the campaign and deployment, lies in the namespace of the job, and the wave has
  the execution timeout; a provider is one of the manifest, takes no endpoint, and the wave has
  the locked duration of the action less the wave reserve. Either duration is positive.
\<close>

theorem wave_target_and_time_are_locked:
  assumes "build_wave_lock h isoformat stamp campaign spec a endpoint = Inr w"
  shows "1 \<le> wl_duration_seconds w \<and>
    (case wl_target w of
       Endpoint_wave_target e \<Rightarrow>
         (endpoint = None \<or> endpoint = Some e) \<and> er_namespace e = rj_namespace (wl_remote w) \<and>
         ((\<exists>p. Endpoint_target p \<in> set (mx_deployments (es_matrix spec)) \<and> ep_endpoint p = Some e) \<or>
          managed_wave_endpoint h campaign spec (ca_deployment_digest a) = Inr e) \<and>
         wl_duration_seconds w = ex_timeout_seconds (es_execution spec)
     | Provider_wave_target p \<Rightarrow>
         endpoint = None \<and> Provider_target p \<in> set (mx_deployments (es_matrix spec)) \<and>
         (\<exists>c. cl_controller_policy campaign = Some c \<and>
            locked_provider_action_seconds campaign (billable_kind_of (ca_kind a)) (ca_deployment_digest a)
              (ca_shard_ids a) (int (length (ca_trial_ids a)))
            = Inr (wl_duration_seconds w + cc_wave_reserve_seconds c)))"
  using assms
proof (rule build_wave_lock_Inr)
  fix resolved
  assume res: "resolved_experiment h spec (cl_source_lock campaign) = Inr resolved"
    and dur: "wave_duration_seconds campaign resolved a (provider_of_target (wl_target w)) = Inr (wl_duration_seconds w)"
    and ok: "wave_lock_ok w"
  note keeps = resolved_experiment_keeps [OF res]
  have same: "managed_wave_endpoint h campaign resolved = managed_wave_endpoint h campaign spec"
    by (rule ext) (simp only: managed_wave_endpoint_def keeps)
  from ok have pos: "1 \<le> wl_duration_seconds w" and "wave_locked_shards w \<noteq> []"
    by (auto simp: wave_lock_ok_def wave_bounds_match_contents_def Let_def)
  then obtain x where x: "x \<in> set (wl_runs w)" by (cases "wl_runs w") (auto simp: wave_locked_shards_def)
  from assms x obtain r resolved' where r: "resolved_experiment h spec (cl_source_lock campaign) = Inr resolved'"
    "es_remote resolved' = Some (wl_remote w)" "rl_run_id r \<noteq> []" "ra_deployment_digest r = ca_deployment_digest a"
    "wave_run_built h isoformat stamp campaign resolved' endpoint (wl_target w)
      (r, filter (\<lambda>s. sl_shard_id s \<in> set (ca_shard_ids a)) (rl_shards r)) x"
    by (rule built_run)
  have "resolved' = resolved" using r(1) res by simp
  note t = wave_run_target(1,2) [OF r(5) [unfolded this] r(3) r(2) [unfolded this]]
  show ?thesis
  proof (cases "wl_target w")
    case (Endpoint_wave_target e)
    with t dur pos show ?thesis
      by (auto simp: wave_target_allowed_def wave_duration_seconds_def same r(4) keeps)
  next
    case (Provider_wave_target p)
    with t(1) dur pos show ?thesis
      by (auto simp: wave_target_allowed_def wave_duration_seconds_def result_simps keeps)
  qed
qed

section \<open>A concrete wave\<close>

definition sample_wave_action :: reconcile_action where
  "sample_wave_action =
     \<lparr>ca_kind = AK_submit_wave, ca_deployment_digest = zero_sha, ca_provider = ''hf-inference-providers'',
      ca_wave_id = Some (''wave-'' @ zeros 24), ca_shard_ids = [''shard-'' @ zeros 24], ca_trial_ids = [],
      ca_target_ids = [''shard-'' @ zeros 24], ca_estimated_cost_microusd = Some 500000,
      ca_spend_cap_microusd = Some 2500000, ac_action_id = ''act-'' @ zeros 24, ac_action_key = zeros 24,
      ac_campaign_id = ''campaign''\<rparr>"

text \<open>Validation fills in the digest of the bundle.\<close>

definition sample_validated :: experiment_spec where
  "sample_validated = sample_manifest\<lparr>es_benchmark := sample_benchmark
     \<lparr>bm_dataset_digest := Some (''sha256:'' @ replicate 64 CHR ''e'')\<rparr>\<rparr>"

definition sample_wave_configuration :: run_configuration where
  "sample_wave_configuration = run_configuration_of sample_validated sample_remote sample_model_profile
     (Provider_target sample_provider) sample_agent (''run-'' @ zeros 24) zero_sha 0 None"

lemma sample_run_locked:
  "build_run_lock zero_hash f g sample_manifest (wave_run_request sample_planned_lock sample_locked_run) 0 =
     Inr sample_wave_configuration"
proof -
  let ?m = "es_matrix sample_validated"
  have 1: "revalidated zero_hash sample_manifest = Inr sample_validated" by code_simp
  have 2: "es_remote sample_validated = Some sample_remote" "bm_judge (es_benchmark sample_validated) = None" by code_simp+
  have 3: "select_profile mp_id (mx_models ?m) (Some ''model'') ''model'' = Inr sample_model_profile"
    "select_profile target_id (mx_deployments ?m) (Some ''provider'') ''deployment'' = Inr (Provider_target sample_provider)"
    "select_profile ag_id (mx_agents ?m) (Some ''agent'') ''agent'' = Inr sample_agent" by code_simp+
  have cells: "resolved_cells ?m = Inr [sample_cell]" by code_simp
  have 4: "\<lparr>cell_model = mp_id sample_model_profile, cell_deployment = target_id (Provider_target sample_provider),
      cell_agent = ag_id sample_agent\<rparr> = sample_cell" "ag_parameter_keys sample_agent = []"
    "ag_revision_kind sample_agent = Rev_git" by code_simp+
  have 5: "validate_deployment_target sample_model_profile (Provider_target sample_provider) sample_agent sample_remote True = Inr ()"
    "safe_name 99 (''run-'' @ zeros 24)" "run_configuration_ok sample_wave_configuration" by code_simp+
  have 6: "wave_run_request sample_planned_lock sample_locked_run =
      \<lparr>rq_model_id = Some ''model'', rq_deployment_id = Some ''provider'', rq_agent_id = Some ''agent'',
       rq_run_id = Some (''run-'' @ zeros 24), rq_allow_provider = True, rq_manifest_digest = Some zero_sha\<rparr>"
    by code_simp
  have 7: "or_else (Some zero_sha) y = zero_sha" "or_else (Some (''run-'' @ zeros 24)) y = ''run-'' @ zeros 24" for y
    by (simp_all add: or_else_def zero_sha_def)
  show ?thesis
    unfolding build_run_lock_def 1 rbind.simps 2 of_option_simps 6 run_request.simps 3 cells lift_error_simps 4
      5(1) 7 Let_def option.case
    by (simp only: 5 sample_wave_configuration_def [symmetric] list.set empty_iff insert_iff require_simps
        rbind.simps revision_kind.distinct simp_thms if_True)
qed

definition sample_wave_lock :: wave_lock where
  "sample_wave_lock = assemble_wave_lock sample_planned_lock sample_manifest sample_wave_action
     (Provider_wave_target sample_provider) 2 500000 150 sample_remote (''wave-'' @ zeros 24)
     [wave_run_lock_of sample_planned_lock sample_locked_run sample_wave_configuration [sample_locked_shard]]"

lemma sample_expected: "expected_campaign_lock zero_hash sample_planned_lock sample_manifest = Inr sample_planned_lock"
proof -
  have f: "cl_source_lock sample_planned_lock = sample_source" "cl_recovery_policy sample_planned_lock = default_recovery_policy"
    "cl_campaign_id sample_planned_lock = ''campaign''" "cl_created_at sample_planned_lock = 0"
    by (simp_all add: sample_planned_lock_def)
  have "build_campaign_plan zero_hash sample_manifest (Some sample_source) (Some default_recovery_policy) =
      build_campaign_plan zero_hash sample_manifest None None"
    by (simp add: build_campaign_plan_def sample_source_lock)
  then show ?thesis
    by (simp add: expected_campaign_lock_def f sample_plan_built sample_lock_built)
qed

lemma sample_wave_run:
  "foldM (add_wave_run zero_hash f g sample_planned_lock sample_manifest None) (None, [])
     [(sample_locked_run, [sample_locked_shard])] =
   Inr (Some (Provider_wave_target sample_provider),
     [wave_run_lock_of sample_planned_lock sample_locked_run sample_wave_configuration [sample_locked_shard]])"
proof -
  have "bound_wave_spec zero_hash sample_planned_lock sample_manifest sample_locked_run None = Inr sample_manifest"
    "wave_target_of (rn_deployment sample_wave_configuration) = Inr (Provider_wave_target sample_provider)"
    by code_simp+
  moreover have "cl_created_at sample_planned_lock = 0" by (simp add: sample_planned_lock_def)
  ultimately show ?thesis by (simp add: add_wave_run_def sample_run_locked)
qed

lemma sample_wave_built:
  "build_wave_lock zero_hash f g sample_planned_lock sample_manifest sample_wave_action None = Inr sample_wave_lock"
proof -
  have 1: "validate_submit_wave_action sample_planned_lock sample_wave_action = Inr ()"
    "selected_wave_shards sample_planned_lock sample_wave_action = Inr [(sample_locked_run, [sample_locked_shard])]"
    "wave_estimate [(sample_locked_run, [sample_locked_shard])] = Inr 500000"
    "es_remote sample_manifest = Some sample_remote" "deterministic_wave_id (ac_action_key sample_wave_action) = Inr (''wave-'' @ zeros 24)"
    "locked_provider_action_concurrency sample_planned_lock (ca_deployment_digest sample_wave_action) = Inr 2"
    "ca_trial_ids sample_wave_action = []" by code_simp+
  have 2: "wave_duration_seconds sample_planned_lock sample_manifest sample_wave_action (Some sample_provider) = Inr 150"
    by code_simp
  have 3: "wave_lock_ok sample_wave_lock" by code_simp
  have 4: "resolved_experiment zero_hash sample_manifest (cl_source_lock sample_planned_lock) = Inr sample_manifest"
    using sample_resolved by (simp add: sample_planned_lock_def)
  show ?thesis
    unfolding build_wave_lock_def sample_expected rbind.simps 1 4 lift_error_simps sample_wave_run prod.case
      of_option_simps provider_of_target.simps 2 Let_def sample_wave_lock_def [symmetric]
    by (simp only: 3 list.set empty_subsetI require_simps rbind.simps if_True option.distinct simp_thms lift_error_simps
        sample_wave_lock_def [symmetric])
qed

theorem wave_lock_matches_campaign_witness:
  "build_wave_lock zero_hash (\<lambda>_. []) (\<lambda>_. []) sample_planned_lock sample_manifest sample_wave_action None = Inr sample_wave_lock \<and>
   mset (map sl_shard_id (wave_locked_shards sample_wave_lock)) = mset [''shard-'' @ zeros 24]"
proof -
  have "ca_shard_ids sample_wave_action = [''shard-'' @ zeros 24]" by code_simp
  with wave_lock_matches_campaign [OF sample_wave_built] sample_wave_built show ?thesis by metis
qed

theorem wave_target_and_time_are_locked_witness:
  "build_wave_lock zero_hash (\<lambda>_. []) (\<lambda>_. []) sample_planned_lock sample_manifest sample_wave_action None = Inr sample_wave_lock \<and>
   1 \<le> wl_duration_seconds sample_wave_lock"
  using wave_target_and_time_are_locked [OF sample_wave_built] sample_wave_built by blast

end
