(* ===== verification/Io_Logic.thy ===== *)
theory Io_Logic
  imports Hub_Repository
begin

text \<open>
  Weakest preconditions of programs over a world, and the recording of calls: \<open>noted\<close> adds
  a call and its answer to a list beside the world. A property of all runs of a program with
  noted calls is then proved for arbitrary answers (\<open>wp_noted\<close>).
\<close>

named_theorems wp_simps \<open>weakest preconditions of the program constructs\<close>

definition wp :: "('w, 'e, 'a) io \<Rightarrow> ('e + 'a \<Rightarrow> 'w \<Rightarrow> bool) \<Rightarrow> 'w \<Rightarrow> bool" where
  "wp m Q w = (case m w of (r, w') \<Rightarrow> Q r w')"

definition io_catch :: "('w, 'e, 'a) io \<Rightarrow> ('e \<Rightarrow> ('w, 'e, 'a) io) \<Rightarrow> ('w, 'e, 'a) io" where
  "io_catch m handler w = (case m w of (Inl e, w') \<Rightarrow> handler e w' | (Inr x, w') \<Rightarrow> (Inr x, w'))"

definition io_lift :: "('e \<Rightarrow> 'f) \<Rightarrow> ('w, 'e, 'a) io \<Rightarrow> ('w, 'f, 'a) io" where
  "io_lift g m w = (case m w of (r, w') \<Rightarrow> (lift_error g r, w'))"

text \<open>\<open>io_read\<close> is a call that cannot fail, such as a reading of the clock.\<close>

definition io_read :: "('w \<Rightarrow> 'a \<times> 'w) \<Rightarrow> ('w, 'e, 'a) io" where
  "io_read m w = (case m w of (x, w') \<Rightarrow> (Inr x, w'))"

definition io_require :: "bool \<Rightarrow> 'e \<Rightarrow> ('w, 'e, unit) io" where
  "io_require b e = io_result (require b e)"

text \<open>\<open>io_attempt\<close> gives the outcome of a program as a value, for code that catches an exception.\<close>

definition io_attempt :: "('w, 'e, 'a) io \<Rightarrow> ('w, 'f, 'e + 'a) io" where
  "io_attempt m w = (case m w of (r, w') \<Rightarrow> (Inr r, w'))"

lemma wpD: "wp m Q w \<Longrightarrow> m w = (r, w') \<Longrightarrow> Q r w'"
  by (simp add: wp_def)

lemma wp_bind [wp_simps]:
  "wp (io_bind m f) Q w = wp m (\<lambda>r w'. case r of Inl e \<Rightarrow> Q (Inl e) w' | Inr x \<Rightarrow> wp (f x) Q w') w"
  by (auto simp: wp_def io_bind_def split: prod.split sum.split)

lemma wp_catch [wp_simps]:
  "wp (io_catch m h) Q w = wp m (\<lambda>r w'. case r of Inl e \<Rightarrow> wp (h e) Q w' | Inr x \<Rightarrow> Q (Inr x) w') w"
  by (auto simp: wp_def io_catch_def split: prod.split sum.split)

lemma wp_lift [wp_simps]: "wp (io_lift g m) Q w = wp m (\<lambda>r. Q (lift_error g r)) w"
  by (auto simp: wp_def io_lift_def split: prod.split)

lemma wp_return [wp_simps]: "wp (io_return x) Q w = Q (Inr x) w"
  by (simp add: wp_def io_return_def)

lemma wp_raise [wp_simps]: "wp (io_raise e) Q w = Q (Inl e) w"
  by (simp add: wp_def io_raise_def)

lemma wp_result [wp_simps]: "wp (io_result r) Q w = Q r w"
  by (simp add: wp_def io_result_def)

lemma wp_require [wp_simps]: "wp (io_require b e) Q w = Q (require b e) w"
  by (simp add: io_require_def wp_result)

lemma wp_attempt [wp_simps]: "wp (io_attempt m) Q w = wp m (\<lambda>r. Q (Inr r)) w"
  by (simp add: wp_def io_attempt_def split: prod.split)

lemma wp_mono: "wp m Q w \<Longrightarrow> (\<And>r w'. Q r w' \<Longrightarrow> R r w') \<Longrightarrow> wp m R w"
  by (auto simp: wp_def split: prod.splits)

section \<open>Recorded calls\<close>

definition noted ::
  "('w, 'e, 'a) io \<Rightarrow> ('e + 'a \<Rightarrow> 'c) \<Rightarrow> ('w \<times> 'c list, 'e, 'a) io" where
  "noted m c s = (case m (fst s) of (r, w) \<Rightarrow> (r, (w, snd s @ [c r])))"

definition unnoted :: "('w, 'e, 'a) io \<Rightarrow> ('w \<times> 'c list, 'e, 'a) io" where
  "unnoted m s = (case m (fst s) of (r, w) \<Rightarrow> (r, (w, snd s)))"

definition unnoted_read :: "('w \<Rightarrow> 'a \<times> 'w) \<Rightarrow> 'w \<times> 'c list \<Rightarrow> 'a \<times> ('w \<times> 'c list)" where
  "unnoted_read m s = (case m (fst s) of (x, w) \<Rightarrow> (x, (w, snd s)))"

lemma wp_noted: "(\<And>r w'. Q r (w', cs @ [c r])) \<Longrightarrow> wp (noted m c) Q (w, cs)"
  by (simp add: wp_def noted_def split: prod.split)

lemma wp_unnoted: "(\<And>r w'. Q r (w', cs)) \<Longrightarrow> wp (unnoted m) Q (w, cs)"
  by (simp add: wp_def unnoted_def split: prod.split)

lemma wp_unnoted_read: "(\<And>x w'. Q (Inr x) (w', cs)) \<Longrightarrow> wp (io_read (unnoted_read m)) Q (w, cs)"
  by (simp add: wp_def io_read_def unnoted_read_def split: prod.split)

text \<open>What a program does with noted calls: its result and the calls it adds.\<close>

definition wp_adds ::
  "('w \<times> 'c list, 'e, 'a) io \<Rightarrow> ('e + 'a \<Rightarrow> 'c list \<Rightarrow> bool) \<Rightarrow> bool" where
  "wp_adds m R \<longleftrightarrow> (\<forall>w calls. wp m (\<lambda>r s. \<exists>cs. snd s = calls @ cs \<and> R r cs) (w, calls))"

lemma wp_adds_I: "(\<And>w calls. wp m (\<lambda>r s. \<exists>cs. snd s = calls @ cs \<and> R r cs) (w, calls)) \<Longrightarrow> wp_adds m R"
  by (simp add: wp_adds_def)

lemma wp_adds_elim:
  assumes "wp_adds m R" and "m s = (r, s')"
  obtains cs where "snd s' = snd s @ cs" and "R r cs"
proof -
  obtain w calls where s: "s = (w, calls)" by (rule prod.exhaust)
  have "wp m (\<lambda>r s'. \<exists>cs. snd s' = calls @ cs \<and> R r cs) (w, calls)" using assms(1) by (simp add: wp_adds_def)
  from wpD [OF this] assms(2) s that show ?thesis by auto
qed

lemma wp_addsD: "wp_adds m R \<Longrightarrow> m (w, []) = (r, (w', calls)) \<Longrightarrow> R r calls"
  by (erule (1) wp_adds_elim) simp

lemma wp_adds_run: "(\<And>w calls r s. m (w, calls) = (r, s) \<Longrightarrow> \<exists>cs. snd s = calls @ cs \<and> R r cs) \<Longrightarrow> wp_adds m R"
  by (simp add: wp_adds_def wp_def split: prod.splits)

text \<open>The calls of a program, composed from the calls of its parts.\<close>

lemma wp_adds_bind:
  assumes m: "wp_adds m R" and f: "\<And>x. wp_adds (f x) (S x)"
    and bad: "\<And>e cs. R (Inl e) cs \<Longrightarrow> T (Inl e) cs"
    and good: "\<And>x cs r ds. R (Inr x) cs \<Longrightarrow> S x r ds \<Longrightarrow> T r (cs @ ds)"
  shows "wp_adds (io_bind m f) T"
proof (rule wp_adds_run)
  fix w calls r s
  assume run: "io_bind m f (w, calls) = (r, s)"
  obtain a t where a: "m (w, calls) = (a, t)" by (rule prod.exhaust)
  obtain cs where cs: "snd t = calls @ cs" "R a cs" using wp_adds_elim [OF m a] by auto
  show "\<exists>cs. snd s = calls @ cs \<and> T r cs"
  proof (cases a)
    case (Inl e)
    with run a cs bad show ?thesis by (auto simp: io_bind_def)
  next
    case (Inr x)
    with run a have "f x t = (r, s)" by (simp add: io_bind_def)
    then obtain ds where "snd s = snd t @ ds" "S x r ds" using wp_adds_elim [OF f] by blast
    with cs Inr good [of x cs r ds] show ?thesis by auto
  qed
qed

lemma wp_adds_catch:
  assumes m: "wp_adds m R" and g: "\<And>e. wp_adds (g e) (S e)"
    and good: "\<And>x cs. R (Inr x) cs \<Longrightarrow> T (Inr x) cs"
    and bad: "\<And>e cs r ds. R (Inl e) cs \<Longrightarrow> S e r ds \<Longrightarrow> T r (cs @ ds)"
  shows "wp_adds (io_catch m g) T"
proof (rule wp_adds_run)
  fix w calls r s
  assume run: "io_catch m g (w, calls) = (r, s)"
  obtain a t where a: "m (w, calls) = (a, t)" by (rule prod.exhaust)
  obtain cs where cs: "snd t = calls @ cs" "R a cs" using wp_adds_elim [OF m a] by auto
  show "\<exists>cs. snd s = calls @ cs \<and> T r cs"
  proof (cases a)
    case (Inr x)
    with run a cs good show ?thesis by (auto simp: io_catch_def)
  next
    case (Inl e)
    with run a have "g e t = (r, s)" by (simp add: io_catch_def)
    then obtain ds where "snd s = snd t @ ds" "S e r ds" using wp_adds_elim [OF g] by blast
    with cs Inl bad [of e cs r ds] show ?thesis by auto
  qed
qed

lemma wp_adds_result: "(T r []) \<Longrightarrow> wp_adds (io_result r) T"
  by (simp add: wp_adds_def wp_def io_result_def)

lemma wp_adds_return: "T (Inr x) [] \<Longrightarrow> wp_adds (io_return x) T"
  by (simp add: wp_adds_def wp_def io_return_def)

lemma wp_adds_raise: "T (Inl e) [] \<Longrightarrow> wp_adds (io_raise e) T"
  by (simp add: wp_adds_def wp_def io_raise_def)

lemma wp_adds_mono: "wp_adds m R \<Longrightarrow> (\<And>r cs. R r cs \<Longrightarrow> T r cs) \<Longrightarrow> wp_adds m T"
  unfolding wp_adds_def by (blast intro: wp_mono)

lemma wp_adds_lift: "wp_adds m (\<lambda>r. T (lift_error g r)) \<Longrightarrow> wp_adds (io_lift g m) T"
  unfolding wp_adds_def wp_lift by simp

lemma wp_adds_noted: "(\<And>r. T r [c r]) \<Longrightarrow> wp_adds (noted m c) T"
  by (simp add: wp_adds_def wp_noted)

lemma wp_adds_read: "(\<And>x. T (Inr x) []) \<Longrightarrow> wp_adds (io_read (unnoted_read m)) T"
  by (simp add: wp_adds_def wp_unnoted_read)

lemma wp_adds_attempt: "wp_adds m (\<lambda>r. T (Inr r)) \<Longrightarrow> wp_adds (io_attempt m) T"
  unfolding wp_adds_def wp_attempt by simp

lemma wp_adds_unnoted: "(\<And>r. T r []) \<Longrightarrow> wp_adds (unnoted m) T"
  by (simp add: wp_adds_def wp_unnoted)

lemma wp_adds_mapM:
  assumes step: "\<And>x. wp_adds (f x) (\<lambda>r cs. I cs)" and I: "I []" "\<And>cs ds. I cs \<Longrightarrow> I ds \<Longrightarrow> I (cs @ ds)"
  shows "wp_adds (io_mapM f xs) (\<lambda>r cs. I cs)"
proof (induction xs)
  case Nil
  show ?case by (simp add: wp_adds_return I)
next
  case (Cons x xs)
  have "wp_adds (io_bind (io_mapM f xs) (\<lambda>ys. io_return (y # ys))) (\<lambda>r cs. I cs)" for y
    by (rule wp_adds_bind [OF Cons wp_adds_return, where S = "\<lambda>_ r cs. cs = []"]) auto
  then show ?case
    by (auto intro!: wp_adds_bind [OF step] I)
qed

text \<open>A step without noted calls in front of a program.\<close>

lemma wp_adds_result_bind:
  "(\<And>y. x = Inr y \<Longrightarrow> wp_adds (f y) T) \<Longrightarrow> (\<And>e. T (Inl e) []) \<Longrightarrow> wp_adds (io_bind (io_result x) f) T"
  by (cases x) (auto simp: wp_adds_def wp_simps)

lemma wp_adds_read_bind:
  assumes "\<And>x. wp_adds (f x) T"
  shows "wp_adds (io_bind (io_read (unnoted_read m)) f) T"
  by (rule wp_adds_bind [OF wp_adds_read assms, where R = "\<lambda>r cs. cs = [] \<and> (\<exists>x. r = Inr x)"]) auto

text \<open>A continuation that needs what its argument satisfies.\<close>

lemma wp_adds_bind_if:
  assumes m: "wp_adds m R" and f: "\<And>x cs. R (Inr x) cs \<Longrightarrow> wp_adds (f x) (\<lambda>r ds. T r (cs @ ds))"
    and bad: "\<And>e cs. R (Inl e) cs \<Longrightarrow> T (Inl e) cs"
  shows "wp_adds (io_bind m f) T"
proof (rule wp_adds_run)
  fix w calls r s
  assume run: "io_bind m f (w, calls) = (r, s)"
  obtain a t where a: "m (w, calls) = (a, t)" by (rule prod.exhaust)
  obtain cs where cs: "snd t = calls @ cs" "R a cs" using wp_adds_elim [OF m a] by auto
  show "\<exists>cs. snd s = calls @ cs \<and> T r cs"
  proof (cases a)
    case (Inl e)
    with run a cs bad show ?thesis by (auto simp: io_bind_def)
  next
    case (Inr x)
    with run a have "f x t = (r, s)" by (simp add: io_bind_def)
    then obtain ds where "snd s = snd t @ ds" "T r (cs @ ds)"
      using wp_adds_elim [OF f] cs(2) Inr by blast
    with cs(1) show ?thesis by auto
  qed
qed

text \<open>
  A property of the calls of a program that holds when nothing relevant was called, and that
  irrelevant calls in front do not change.
\<close>

locale quiet_prefix =
  fixes quiet :: "'c list \<Rightarrow> bool" and post :: "'e + 'b \<Rightarrow> 'c list \<Rightarrow> bool"
  assumes none: "quiet cs \<Longrightarrow> post r cs"
    and after: "quiet ds \<Longrightarrow> post r cs \<Longrightarrow> post r (ds @ cs)"
begin

lemma bind: "wp_adds m (\<lambda>r. quiet) \<Longrightarrow> (\<And>x. wp_adds (f x) post) \<Longrightarrow> wp_adds (io_bind m f) post"
  by (rule wp_adds_bind [where R = "\<lambda>r. quiet" and S = "\<lambda>_. post"]) (auto intro: none after)

end

end
