(* ===== verification/Job_Commands.thy ===== *)
theory Job_Commands
  imports Wave_Lock
begin

text \<open>
  The command lines of remote Jobs, \<open>src/src/harbor_hf/submission.py\<close>: the locked source
  script, labels, volumes and secret names, and the form in which a command is executed, with
  its secrets in a file. The process environment is an argument.
\<close>

section \<open>Sources and buckets\<close>

datatype submit_error =
    Not_a_github_repository
  | Git_secret_names "string list"
  | Secret_sources_missing "string list"
  | Secret_not_single_line
  | Command_without_separator
  | Controller_without_provider_settings
  | Controller_attempt_outside_limit
  | Secrets_without_remote
  | Judge_needs_campaign
  | Run_has_no_endpoint
  | Provider_wave_not_a_job
  | Wave_mixes_bundles
  | Bucket_not_private
  | Repository_not_private
  | Repository_without_commit
  | Job_input_empty
  | No_job_id
  | Source_lock_changed
  | Source_lock_mismatch
  | Dataset_reference_invalid spec_error
  | Bundle_without_source
  | Bundle_changed_source

definition github_prefix :: string where
  "github_prefix = ''https://github.com/''"

definition github_repository :: "string \<Rightarrow> submit_error + string" where
  "github_repository repository =
     (let rest = remove_prefix repository github_prefix;
          owner = takeWhile (\<lambda>c. c \<noteq> CHR ''/'') rest;
          tail = drop (length owner + 1) rest;
          name = remove_suffix tail ''/'';
          plain = (if ends_with name ''.git'' \<and> 4 < length name then take (length name - 4) name else name)
      in if length owner < length rest \<and> owner \<noteq> [] \<and> list_all id_char owner \<and>
            name \<noteq> [] \<and> list_all id_char name
         then Inr (github_prefix @ owner @ ''/'' @ plain)
         else Inl Not_a_github_repository)"

text \<open>\<open>shlex.quote\<close> of the standard library.\<close>

definition shell_safe :: "char \<Rightarrow> bool" where
  "shell_safe c \<longleftrightarrow> alnum c \<or> c \<in> set ''_@%+=:,./-''"

definition shlex_quote :: "string \<Rightarrow> string" where
  "shlex_quote s =
     (let q = CHR 0x27; d = CHR 0x22 in
      if s = [] then [q, q]
      else if list_all shell_safe s then s
      else [q] @ concat (map (\<lambda>c. if c = q then [q, d, q, d, q] else [c]) s) @ [q])"

definition locked_source_script :: "string \<Rightarrow> string \<Rightarrow> string" where
  \<open>locked_source_script repository revision =
     concat (map (\<lambda>line. line @ [CHR 0x0A])
       [''set -euo pipefail'',
        ''export HARBOR_HF_JOB_STARTED_AT="$(date -u +%Y-%m-%dT%H:%M:%SZ)"'',
        ''unset GITHUB_TOKEN GH_TOKEN SSH_AUTH_SOCK GIT_SSH GIT_SSH_COMMAND '' @
        ''GIT_CONFIG_COUNT GIT_CONFIG_PARAMETERS GIT_CONFIG_SYSTEM'',
        ''export GIT_TERMINAL_PROMPT=0 GIT_CONFIG_NOSYSTEM=1 '' @
        ''GIT_CONFIG_GLOBAL=/dev/null GIT_ASKPASS=/bin/false SSH_ASKPASS=/bin/false'',
        ''repo_dir=$(mktemp -d)'',
        ''git_home=$(mktemp -d)'',
        ''HOME="$git_home" XDG_CONFIG_HOME="$git_home" '' @
        ''git -c credential.helper= clone --filter=blob:none --no-checkout '' @
        repository @ '' "$repo_dir"'',
        ''HOME="$git_home" XDG_CONFIG_HOME="$git_home" '' @
        ''git -C "$repo_dir" -c credential.helper= fetch --depth 1 origin '' @ revision,
        ''HOME="$git_home" XDG_CONFIG_HOME="$git_home" '' @
        ''git -C "$repo_dir" -c credential.helper= checkout --detach '' @ revision,
        ''test ! -f "$repo_dir/.gitmodules"'',
        ''exec uv run --project "$repo_dir" --locked --no-dev "$@"''])\<close>

definition locked_source_command :: "source_pin \<Rightarrow> string list \<Rightarrow> submit_error + string list" where
  "locked_source_command pin arguments =
     rbind (github_repository (sp_repository pin)) (\<lambda>repository.
       Inr ([''bash'', ''-lc'', locked_source_script (shlex_quote repository) (shlex_quote (sp_revision pin)),
             ''locked-source''] @ arguments))"

definition bucket_uri :: "string \<Rightarrow> string" where
  "bucket_uri bucket =
     (if starts_with bucket ''hf://buckets/'' then bucket
      else ''hf://buckets/'' @ remove_prefix bucket ''buckets/'')"

definition bundle_prefix :: "string \<Rightarrow> string" where
  "bundle_prefix content_digest = ''benchmark-bundles/sha256/'' @ remove_prefix content_digest ''sha256:''"

definition bundle_uri :: "string \<Rightarrow> string \<Rightarrow> string" where
  "bundle_uri namespace content_digest =
     ''hf://buckets/'' @ namespace @ ''/jobs-artifacts/'' @ bundle_prefix content_digest"

definition bundle_volume :: "string \<Rightarrow> string option \<Rightarrow> string list" where
  "bundle_volume namespace content =
     (case content of None \<Rightarrow> []
      | Some d \<Rightarrow> [''--volume'', bundle_uri namespace d @ '':/benchmark-source:ro''])"

fun bundle_of_lock :: "benchmark_source_lock \<Rightarrow> string option" where
  "bundle_of_lock (Bundle_source content _) = Some content"
| "bundle_of_lock _ = None"

fun bundle_of_source :: "benchmark_source option \<Rightarrow> string option" where
  "bundle_of_source (Some (Source_bundle content _)) = Some content"
| "bundle_of_source _ = None"

definition wave_bundle_volume :: "wave_lock \<Rightarrow> submit_error + string list" where
  "wave_bundle_volume lock =
     (case remdups (List.map_filter (\<lambda>r. bundle_of_source (rn_benchmark_source (wrl_configuration r))) (wl_runs lock)) of
        [] \<Rightarrow> Inr []
      | [content] \<Rightarrow> Inr (bundle_volume (rj_namespace (wl_remote lock)) (Some content))
      | _ \<Rightarrow> Inl Wave_mixes_bundles)"

section \<open>Secrets\<close>

definition token_secret_name :: string where
  "token_secret_name = ''HF_TOKEN''"

definition judge_secret_name :: "judge_spec \<Rightarrow> string" where
  "judge_secret_name j =
     (case map_of (jd_fields j) ''api_key_secret_name'' of Some (JStr s) \<Rightarrow> s | _ \<Rightarrow> ''HF_TOKEN'')"

text \<open>The token first, then the other names in order.\<close>

definition secret_names :: "judge_spec option list \<Rightarrow> string list" where
  "secret_names judges =
     token_secret_name # sort (remdups (filter (\<lambda>n. n \<noteq> token_secret_name)
       (map judge_secret_name (List.map_filter id judges))))"

definition run_secret_names :: "run_configuration \<Rightarrow> string list" where
  "run_secret_names lock = secret_names [rn_benchmark_judge lock]"

definition wave_secret_names :: "wave_lock \<Rightarrow> string list" where
  "wave_secret_names lock = secret_names (map (\<lambda>r. rn_benchmark_judge (wrl_configuration r)) (wl_runs lock))"

definition campaign_job_secret_names :: "experiment_spec \<Rightarrow> submit_error + string list" where
  "campaign_job_secret_names spec =
     (if es_remote spec = None then Inl Secrets_without_remote
      else Inr (secret_names [bm_judge (es_benchmark spec)]))"

definition prohibited_git_secret_names :: "string list" where
  "prohibited_git_secret_names =
     [''GITHUB_TOKEN'', ''GH_TOKEN'', ''GIT_ASKPASS'', ''SSH_ASKPASS'', ''SSH_AUTH_SOCK'', ''GIT_SSH'',
      ''GIT_SSH_COMMAND'']"

definition reject_git_secret_names :: "string list \<Rightarrow> submit_error + unit" where
  "reject_git_secret_names names =
     (let prohibited = sort (remdups (filter (\<lambda>n. n \<in> set prohibited_git_secret_names) names)) in
      require (prohibited = []) (Git_secret_names prohibited))"

definition remote_secret_source :: "string \<Rightarrow> string" where
  "remote_secret_source name =
     (case map_of [(''HF_TOKEN'', ''HARBOR_HF_JOB_TOKEN''),
         (''OPENAI_API_KEY'', ''HARBOR_HF_JOB_OPENAI_API_KEY''),
         (''GEMINI_API_KEY'', ''HARBOR_HF_JOB_GEMINI_API_KEY'')] name of
        Some source \<Rightarrow> source | None \<Rightarrow> ''HARBOR_HF_JOB_'' @ name)"

record environment =
  env_variable :: "string \<Rightarrow> string option"
  env_job_token :: "string option"

definition or_empty :: "string option \<Rightarrow> string" where
  "or_empty m = (case m of None \<Rightarrow> [] | Some s \<Rightarrow> s)"

definition remote_job_secret_values :: "environment \<Rightarrow> string list \<Rightarrow> submit_error + (string, string) dict" where
  "remote_job_secret_values env names =
     rbind (reject_git_secret_names names) (\<lambda>_.
       let values = mk_dict (map (\<lambda>n. (n, if n = ''HF_TOKEN'' then or_empty (env_job_token env)
             else or_empty (env_variable env (remote_secret_source n)))) names);
           missing = map (\<lambda>(n, v). remote_secret_source n) (filter (\<lambda>(n, v). v = []) values)
       in if missing \<noteq> [] then Inl (Secret_sources_missing (sort missing)) else Inr values)"

definition secret_arguments :: "string list \<Rightarrow> string list" where
  "secret_arguments names = concat (map (\<lambda>n. [''--secrets'', n]) names)"

text \<open>The arguments without the pairs that name a secret of the file.\<close>

fun without_secrets :: "string list \<Rightarrow> string list \<Rightarrow> string list" where
  "without_secrets names (a # b # rest) =
     (if a = ''--secrets'' \<and> b \<in> set names then without_secrets names rest
      else a # without_secrets names (b # rest))"
| "without_secrets names rest = rest"

definition single_line :: "string \<Rightarrow> bool" where
  "single_line s \<longleftrightarrow> CHR 0x0A \<notin> set s \<and> CHR 0x0D \<notin> set s"

text \<open>The command that is executed, and the content of the secrets file at \<open>path\<close>.\<close>

definition materialized_command ::
  "environment \<Rightarrow> string \<Rightarrow> string list \<Rightarrow> string list \<Rightarrow> submit_error + (string list \<times> string)" where
  "materialized_command env path names command =
     rbind (remote_job_secret_values env names) (\<lambda>values.
     rbind (require (list_all (\<lambda>(n, v). single_line v) values) Secret_not_single_line) (\<lambda>_.
       let content = concat (map (\<lambda>(n, v). n @ ''='' @ v @ [CHR 0x0A]) values);
           rendered = without_secrets (dict_keys values) command;
           options = takeWhile (\<lambda>a. a \<noteq> ''--'') rendered
       in if length options = length rendered then Inl Command_without_separator
          else Inr (options @ [''--secrets-file'', path] @ drop (length options) rendered, content)))"

section \<open>Commands\<close>

definition endpoint_lease_label_for :: "hash \<Rightarrow> string \<Rightarrow> string \<Rightarrow> string" where
  "endpoint_lease_label_for h namespace name = take 32 (hexdigest h (namespace @ ''/'' @ name))"

fun endpoint_binding :: "deployment_target \<Rightarrow> submit_error + endpoint_ref" where
  "endpoint_binding (Endpoint_target p) = of_option Run_has_no_endpoint (ep_endpoint p)"
| "endpoint_binding (Provider_target _) = Inl Run_has_no_endpoint"

definition endpoint_lease_label :: "hash \<Rightarrow> run_configuration \<Rightarrow> submit_error + string" where
  "endpoint_lease_label h lock =
     rbind (endpoint_binding (rn_deployment lock)) (\<lambda>e.
       Inr (endpoint_lease_label_for h (er_namespace e) (er_name e)))"

definition job_run_options :: "remote_spec \<Rightarrow> string list" where
  "job_run_options remote =
     [''hf'', ''jobs'', ''run'', ''--detach'', ''--namespace'', rj_namespace remote, ''--flavor'', rj_flavor remote,
      ''--timeout'', show_int (rj_timeout_seconds remote) @ ''s'']"

definition build_submit_command ::
  "hash \<Rightarrow> run_configuration \<Rightarrow> string \<Rightarrow> string \<Rightarrow> submit_error + string list" where
  "build_submit_command h lock input_dir bucket =
     (let remote = rn_remote lock in
      if rn_judge_required_tasks lock \<notin> {None, Some []} then Inl Judge_needs_campaign
      else rbind (endpoint_lease_label h lock) (\<lambda>label.
        rbind (locked_source_command (rw_worker remote) [''harbor-hf'', ''worker'', ''/input/manifest.yaml'',
            ''/input/run.lock.json'', ''--output-root'', ''/output'']) (\<lambda>worker.
          Inr (job_run_options remote @ secret_arguments (run_secret_names lock) @
            [''--label'', ''harbor-hf-run='' @ rn_run_id lock, ''--label'', ''harbor-hf-endpoint='' @ label,
             ''--volume'', input_dir @ '':/input:ro''] @
            bundle_volume (rj_namespace remote) (bundle_of_source (rn_benchmark_source lock)) @
            [''--volume'', bucket_uri bucket @ '':/output:rw'', ''--'', rj_image remote] @ worker))))"

definition judge_port :: string where
  "judge_port = ''8001''"

definition provider_port :: string where
  "provider_port = ''8000''"

definition build_submit_wave_command ::
  "hash \<Rightarrow> wave_lock \<Rightarrow> string \<Rightarrow> string \<Rightarrow> submit_error + string list" where
  "build_submit_wave_command h lock input_dir bucket =
     (case wl_target lock of
        Provider_wave_target _ \<Rightarrow> Inl Provider_wave_not_a_job
      | Endpoint_wave_target e \<Rightarrow>
          let remote = wl_remote lock;
              exposed = (if \<exists>r \<in> set (wl_runs lock). rn_judge_required_tasks (wrl_configuration r) \<notin> {None, Some []}
                then [''--expose'', judge_port] else [])
          in rbind (wave_bundle_volume lock) (\<lambda>volume.
             rbind (locked_source_command (rw_worker remote) [''harbor-hf'', ''wave-worker'', ''/input/manifest.yaml'',
                 ''/input/campaign.lock.json'', ''/input/wave.lock.json'', ''--output-root'', ''/output'']) (\<lambda>worker.
               Inr (job_run_options remote @ exposed @ secret_arguments (wave_secret_names lock) @
                 [''--label'', ''harbor-hf-wave='' @ wl_wave_id lock,
                  ''--label'', ''harbor-hf-endpoint='' @ endpoint_lease_label_for h (er_namespace e) (er_name e),
                  ''--volume'', input_dir @ '':/input:ro''] @ volume @
                 [''--volume'', bucket_uri bucket @ '':/output:rw'', ''--'', rj_image remote] @ worker))))"

definition plan_label :: "campaign_lock \<Rightarrow> string" where
  "plan_label lock = take 16 (remove_prefix (cl_plan_digest lock) ''sha256:'')"

definition build_submit_campaign_controller_command ::
  "campaign_lock \<Rightarrow> experiment_spec \<Rightarrow> string \<Rightarrow> string \<Rightarrow> int \<Rightarrow> submit_error + string list" where
  "build_submit_campaign_controller_command lock spec input_dir bucket attempt =
     (case (es_remote spec, cl_controller_policy lock) of
        (Some remote, Some policy) \<Rightarrow>
          if attempt < 1 \<or> attempt > cc_max_attempts policy then Inl Controller_attempt_outside_limit
          else rbind (campaign_job_secret_names spec) (\<lambda>names.
            rbind (locked_source_command (rw_worker remote)
                ([''harbor-hf'', ''campaign-controller'', ''/input/manifest.yaml'', ''/input/campaign.lock.json'',
                  ''--attempt'', show_int attempt] @
                 (if attempt > 1 then [''--prior-job-terminal''] else []) @ [''--output-root'', ''/output''])) (\<lambda>worker.
              Inr (job_run_options remote @ [''--expose'', provider_port] @
                (if bm_judge (es_benchmark spec) \<noteq> None then [''--expose'', judge_port] else []) @
                secret_arguments names @
                [''--label'', ''harbor-hf-role=campaign-controller'',
                 ''--label'', ''harbor-hf-campaign='' @ cl_campaign_id lock,
                 ''--label'', ''harbor-hf-plan='' @ plan_label lock,
                 ''--label'', ''harbor-hf-controller-attempt='' @ show_int attempt,
                 ''--volume'', input_dir @ '':/input:ro''] @
                bundle_volume (rj_namespace remote) (bundle_of_lock (cl_source_lock lock)) @
                [''--volume'', bucket_uri bucket @ '':/output:rw'', ''--'', rj_image remote] @ worker)))
      | _ \<Rightarrow> Inl Controller_without_provider_settings)"

section \<open>The identifier of a Job\<close>

text \<open>
  \<open>(?<![a-f0-9])[a-f0-9]{24}(?![a-f0-9])\<close>: the first maximal run of lower-case hexadecimal
  digits that is 24 characters long.
\<close>

fun find_job_id :: "string \<Rightarrow> string \<Rightarrow> string option" where
  "find_job_id hex [] = (if length hex = 24 then Some hex else None)"
| "find_job_id hex (c # cs) =
     (if is_lower_hex c then find_job_id (hex @ [c]) cs
      else if length hex = 24 then Some hex else find_job_id [] cs)"

definition job_id_search :: "string \<Rightarrow> string option" where
  "job_id_search output = find_job_id [] output"

end
