(* ===== verification/Controller_Launch.thy ===== *)
theory Controller_Launch
  imports Io_Logic Job_Commands Controller_Store
begin

text \<open>
  Launching a campaign controller, \<open>src/src/harbor_hf/submission.py\<close>: an attempt that was
  reserved is started as one Job. A launch that was recorded, or a Job that already has the
  labels of the attempt, is adopted; a new Job is started only under the launch claim, after
  both were looked for once more.

  \<open>'w state_store\<close> is the protocol \<open>ControllerStateStore\<close> of \<open>controller_status.py\<close>. The Jobs API,
  the command runner, the clock, the generator of identifiers and the name of the temporary
  secrets file are arguments. The attributes of an API object are JSON values, null when
  they are missing.
\<close>

section \<open>Ports\<close>

record 'w state_store =
  ss_acquire :: "controller_claim \<Rightarrow> bool \<Rightarrow> ('w, status_error failure, unit) io"
  ss_heartbeat :: "controller_claim \<Rightarrow> controller_claim \<Rightarrow> ('w, status_error failure, unit) io"
  ss_release :: "controller_claim \<Rightarrow> ('w, status_error failure, unit) io"
  ss_read_claim :: "string \<Rightarrow> ('w, status_error failure, controller_claim option) io"
  ss_read_status :: "string \<Rightarrow> ('w, status_error failure, controller_status option) io"
  ss_write_status :: "controller_status \<Rightarrow> ('w, status_error failure, unit) io"
  ss_acquire_launch :: "launch_claim \<Rightarrow> ('w, status_error failure, unit) io"
  ss_release_launch :: "launch_claim \<Rightarrow> ('w, status_error failure, unit) io"
  ss_read_launch_claim :: "string \<Rightarrow> int \<Rightarrow> ('w, status_error failure, launch_claim option) io"
  ss_write_launch :: "launch_receipt \<Rightarrow> ('w, status_error failure, unit) io"
  ss_read_launch :: "string \<Rightarrow> int \<Rightarrow> ('w, status_error failure, launch_receipt option) io"
  ss_acquire_capacity :: "capacity_claim \<Rightarrow> ('w, status_error failure, unit) io"
  ss_release_capacity :: "capacity_claim \<Rightarrow> ('w, status_error failure, unit) io"
  ss_recover_capacity :: "string \<Rightarrow> controller_claim \<Rightarrow> bool \<Rightarrow> ('w, status_error failure, unit) io"
  ss_read_capacity :: "string \<Rightarrow> ('w, status_error failure, capacity_claim option) io"
  ss_write_started :: "started_receipt \<Rightarrow> ('w, status_error failure, unit) io"
  ss_write_ended :: "ended_receipt \<Rightarrow> ('w, status_error failure, unit) io"
  ss_reserve_attempt :: "attempt_reservation \<Rightarrow> ('w, status_error failure, unit) io"
  ss_read_attempt :: "string \<Rightarrow> int \<Rightarrow> ('w, status_error failure, attempt_reservation option) io"
  ss_write_recovery :: "recovery_decision \<Rightarrow> ('w, status_error failure, unit) io"
  ss_read_recovery :: "string \<Rightarrow> int \<Rightarrow> ('w, status_error failure, recovery_decision option) io"

text \<open>\<open>HubControllerStateStore\<close> provides the protocol, with the codecs of its record classes.\<close>

record store_models =
  sm_claim :: "controller_claim model"
  sm_status :: "controller_status model"
  sm_launch_claim :: "launch_claim model"
  sm_launch :: "launch_receipt model"
  sm_capacity :: "capacity_claim model"
  sm_started :: "started_receipt model"
  sm_ended :: "ended_receipt model"
  sm_attempt :: "attempt_reservation model"
  sm_recovery :: "recovery_decision model"

definition hub_state_store :: "hash \<Rightarrow> store_models \<Rightarrow> 'w hub \<Rightarrow> 'w state_store" where
  "hub_state_store h ms hub =
     \<lparr>ss_acquire = acquire_controller (sm_claim ms) hub, ss_heartbeat = heartbeat (sm_claim ms) hub,
      ss_release = release_controller (sm_claim ms) hub, ss_read_claim = read_claim (sm_claim ms) hub,
      ss_read_status = read_status (sm_status ms) hub, ss_write_status = write_status (sm_status ms) hub,
      ss_acquire_launch = acquire_launch (sm_launch_claim ms) hub,
      ss_release_launch = release_launch (sm_launch_claim ms) hub,
      ss_read_launch_claim = read_launch_claim (sm_launch_claim ms) hub,
      ss_write_launch = write_launch (sm_launch ms) hub, ss_read_launch = read_launch (sm_launch ms) hub,
      ss_acquire_capacity = acquire_provider_capacity h (sm_capacity ms) hub,
      ss_release_capacity = release_provider_capacity h (sm_capacity ms) hub,
      ss_recover_capacity = recover_provider_capacity h (sm_capacity ms) hub,
      ss_read_capacity = read_provider_capacity h (sm_capacity ms) hub,
      ss_write_started = write_started (sm_started ms) hub, ss_write_ended = write_ended (sm_ended ms) hub,
      ss_reserve_attempt = reserve_attempt (sm_attempt ms) hub, ss_read_attempt = read_attempt (sm_attempt ms) hub,
      ss_write_recovery = write_recovery (sm_recovery ms) hub, ss_read_recovery = read_recovery (sm_recovery ms) hub\<rparr>"

record job_resource =
  jr_id :: json
  jr_labels :: json
  jr_stage :: json

datatype launch_error =
    Launch_store "status_error failure"
  | Launch_command submit_error
  | Launch_path status_error
  | Runner_process_error
  | Runner_other_error
  | Jobs_api_error
  | Launch_without_remote
  | Launch_contract_changed
  | Launch_record_invalid
  | Receipt_contract_changed
  | Job_without_id
  | Job_wrong_labels
  | Job_not_unique
  | Controller_without_job_id
  | Attempt_contract_changed

record 'w launcher = "'w state_store" +
  la_list_jobs :: "(string, string) dict \<Rightarrow> string \<Rightarrow> ('w, launch_error, job_resource list) io"
  la_run_text :: "string list \<Rightarrow> string \<Rightarrow> ('w, launch_error, string) io"
  la_clock :: "'w \<Rightarrow> int \<times> 'w"
  la_identifier :: "'w \<Rightarrow> string \<times> 'w"
  la_secrets_path :: "'w \<Rightarrow> string \<times> 'w"
  la_environment :: environment

section \<open>Jobs of an attempt\<close>

text \<open>The providers of a campaign, in order, as the controller and the watchdog go through them.\<close>

definition lock_providers :: "campaign_lock \<Rightarrow> string list" where
  "lock_providers lock = sort (remdups (List.map_filter ra_provider (cl_runs lock)))"

definition controller_labels :: "campaign_lock \<Rightarrow> int \<Rightarrow> (string, string) dict" where
  "controller_labels lock attempt =
     [(''harbor-hf-role'', ''campaign-controller''), (''harbor-hf-campaign'', cl_campaign_id lock),
      (''harbor-hf-plan'', plan_label lock), (''harbor-hf-controller-attempt'', show_int attempt)]"

text \<open>Whether an attribute is a mapping that has all the expected labels.\<close>

fun has_labels :: "json \<Rightarrow> (string, string) dict \<Rightarrow> bool" where
  "has_labels (JObj kvs) expected = list_all (\<lambda>(k, v). map_of kvs k = Some (JStr v)) expected"
| "has_labels _ expected = False"

definition job_identifier :: "(string, string) dict \<Rightarrow> job_resource \<Rightarrow> launch_error + string" where
  "job_identifier labels r =
     (case jr_id r of
        JStr i \<Rightarrow>
          if \<not> hex_string 24 i then Inl Job_without_id
          else if \<not> has_labels (jr_labels r) labels then Inl Job_wrong_labels
          else Inr i
      | _ \<Rightarrow> Inl Job_without_id)"

definition find_controller_jobs ::
  "('w, 'm) launcher_scheme \<Rightarrow> string \<Rightarrow> (string, string) dict \<Rightarrow> ('w, launch_error, string list) io" where
  "find_controller_jobs env namespace labels =
     io_bind (la_list_jobs env labels namespace) (\<lambda>resources.
     io_bind (io_result (mapM (job_identifier labels) resources)) (\<lambda>ids.
       if length ids > 1 then io_raise Job_not_unique else io_return ids))"

section \<open>Launch receipts\<close>

definition validated_launch_receipt :: "launch_receipt \<Rightarrow> attempt_reservation \<Rightarrow> launch_error + string" where
  "validated_launch_receipt receipt reservation =
     (if (lr_campaign_id receipt, lr_plan_digest receipt, lr_input_digest receipt, lr_attempt receipt) \<noteq>
         (at_campaign_id reservation, at_plan_digest reservation, at_input_digest reservation, at_attempt reservation)
      then Inl Receipt_contract_changed
      else Inr (lr_job_id receipt))"

definition launch_receipt_for :: "attempt_reservation \<Rightarrow> string \<Rightarrow> launch_receipt" where
  "launch_receipt_for reservation job_id =
     \<lparr>lr_campaign_id = at_campaign_id reservation, lr_plan_digest = at_plan_digest reservation,
      lr_input_digest = at_input_digest reservation, lr_attempt = at_attempt reservation, lr_job_id = job_id\<rparr>"

definition record_controller_launch ::
  "('w, 'm) launcher_scheme \<Rightarrow> attempt_reservation \<Rightarrow> string \<Rightarrow> ('w, launch_error, string) io" where
  "record_controller_launch env reservation job_id =
     (let receipt = launch_receipt_for reservation job_id in
      io_bind (io_require (launch_receipt_ok receipt) Launch_record_invalid) (\<lambda>_.
      io_bind (io_lift Launch_store (ss_write_launch env receipt)) (\<lambda>_.
        io_return job_id)))"

definition existing_controller_launch ::
  "('w, 'm) launcher_scheme \<Rightarrow> attempt_reservation \<Rightarrow> string \<Rightarrow> (string, string) dict \<Rightarrow>
   ('w, launch_error, string option) io" where
  "existing_controller_launch env reservation namespace labels =
     io_bind (io_lift Launch_store (ss_read_launch env (at_campaign_id reservation) (at_attempt reservation))) (\<lambda>found.
       case found of
         Some receipt \<Rightarrow> io_bind (io_result (validated_launch_receipt receipt reservation)) (\<lambda>i. io_return (Some i))
       | None \<Rightarrow>
           io_bind (find_controller_jobs env namespace labels) (\<lambda>existing.
             case existing of
               [] \<Rightarrow> io_return None
             | i # _ \<Rightarrow> io_bind (record_controller_launch env reservation i) (\<lambda>j. io_return (Some j))))"

section \<open>Starting the Job\<close>

definition adopt_started_job ::
  "('w, 'm) launcher_scheme \<Rightarrow> attempt_reservation \<Rightarrow> string \<Rightarrow> (string, string) dict \<Rightarrow> launch_error \<Rightarrow>
   ('w, launch_error, string) io" where
  "adopt_started_job env reservation namespace labels otherwise =
     io_bind (find_controller_jobs env namespace labels) (\<lambda>adopted.
       case adopted of
         [] \<Rightarrow> io_raise otherwise
       | i # _ \<Rightarrow> record_controller_launch env reservation i)"

definition run_job_text ::
  "('w, 'm) launcher_scheme \<Rightarrow> string list \<Rightarrow> string list \<Rightarrow> ('w, launch_error, string) io" where
  "run_job_text env names command =
     io_bind (io_read (la_secrets_path env)) (\<lambda>path.
     io_bind (io_result (lift_error Launch_command (materialized_command (la_environment env) path names command)))
       (\<lambda>(rendered, content). la_run_text env rendered content))"

definition run_controller_launch ::
  "('w, 'm) launcher_scheme \<Rightarrow> attempt_reservation \<Rightarrow> string \<Rightarrow> (string, string) dict \<Rightarrow> string list \<Rightarrow>
   string list \<Rightarrow> ('w, launch_error, string) io" where
  "run_controller_launch env reservation namespace labels command names =
     io_bind (io_attempt (run_job_text env names command)) (\<lambda>outcome.
       case outcome of
         Inl e \<Rightarrow>
           if e = Runner_process_error then adopt_started_job env reservation namespace labels e
           else io_raise e
       | Inr output \<Rightarrow>
           (case job_id_search output of
              Some i \<Rightarrow> record_controller_launch env reservation i
            | None \<Rightarrow> adopt_started_job env reservation namespace labels Controller_without_job_id))"

definition launch_lease :: int where
  "launch_lease = 30 * 60 * 1000000"

definition launch_claim_for :: "attempt_reservation \<Rightarrow> string \<Rightarrow> int \<Rightarrow> launch_claim" where
  "launch_claim_for reservation launcher at =
     \<lparr>lc_campaign_id = at_campaign_id reservation, lc_plan_digest = at_plan_digest reservation,
      lc_attempt = at_attempt reservation, lc_launcher_id = launcher, lc_acquired_at = at,
      lc_expires_at = at + launch_lease\<rparr>"

definition launch_or_adopt_controller ::
  "('w, 'm) launcher_scheme \<Rightarrow> attempt_reservation \<Rightarrow> string \<Rightarrow> (string, string) dict \<Rightarrow> string list \<Rightarrow>
   string list \<Rightarrow> ('w, launch_error, string) io" where
  "launch_or_adopt_controller env reservation namespace labels command names =
     (let look = existing_controller_launch env reservation namespace labels in
      io_bind look (\<lambda>adopted.
        case adopted of
          Some i \<Rightarrow> io_return i
        | None \<Rightarrow>
            io_bind (io_read (la_clock env)) (\<lambda>at.
            io_bind (io_read (la_identifier env)) (\<lambda>launcher.
            let claim = launch_claim_for reservation launcher at in
            io_bind (io_require (launch_claim_ok claim) Launch_record_invalid) (\<lambda>_.
            io_bind (io_catch (io_bind (io_lift Launch_store (ss_acquire_launch env claim)) (\<lambda>_. io_return None))
                (\<lambda>e. if e = Launch_store (Raised Launch_in_progress)
                  then io_bind look (\<lambda>found. case found of Some i \<Rightarrow> io_return (Some i) | None \<Rightarrow> io_raise e)
                  else io_raise e)) (\<lambda>refused.
            case refused of
              Some i \<Rightarrow> io_return i
            | None \<Rightarrow>
                io_bind look (\<lambda>found.
                io_bind (case found of
                    Some i \<Rightarrow> io_return i
                  | None \<Rightarrow> run_controller_launch env reservation namespace labels command names) (\<lambda>job_id.
                io_bind (io_lift Launch_store (ss_release_launch env claim)) (\<lambda>_.
                  io_return job_id)))))))))"

record controller_submission =
  cs_campaign_id :: string
  cs_plan_digest :: string
  cs_input_digest :: string
  cs_input_uri :: string
  cs_job_id :: string
  cs_attempt :: int
  cs_launch_receipt :: string
  cs_source_lock :: benchmark_source_lock
  cs_source_lock_digest :: string
  cs_secret_names :: "string list"
  cs_command :: "string list"

definition launch_reserved_campaign_controller ::
  "hash \<Rightarrow> ('w, 'm) launcher_scheme \<Rightarrow> campaign_lock \<Rightarrow> experiment_spec \<Rightarrow> attempt_reservation \<Rightarrow>
   ('w, launch_error, controller_submission) io" where
  "launch_reserved_campaign_controller h env lock spec reservation =
     (case es_remote spec of
        None \<Rightarrow> io_raise Launch_without_remote
      | Some remote \<Rightarrow>
          io_bind (io_result (lift_error Launch_command (campaign_job_secret_names spec))) (\<lambda>names.
          io_bind (io_result (lift_error Launch_command (remote_job_secret_values (la_environment env) names))) (\<lambda>_.
          io_bind (io_require (at_campaign_id reservation = cl_campaign_id lock \<and>
              at_plan_digest reservation = cl_plan_digest lock \<and>
              at_worker_revision reservation = sp_revision (rw_worker remote)) Launch_contract_changed) (\<lambda>_.
          io_bind (io_result (lift_error Launch_command (build_submit_campaign_controller_command lock spec
              (at_input_uri reservation) (at_output_uri reservation) (at_attempt reservation)))) (\<lambda>command.
          io_bind (launch_or_adopt_controller env reservation (rj_namespace remote)
              (controller_labels lock (at_attempt reservation)) command names) (\<lambda>job_id.
          io_bind (io_result (lift_error Launch_path
              (controller_launch_receipt_path (cl_campaign_id lock) (at_attempt reservation)))) (\<lambda>path.
            io_return \<lparr>cs_campaign_id = cl_campaign_id lock, cs_plan_digest = cl_plan_digest lock,
              cs_input_digest = at_input_digest reservation, cs_input_uri = at_input_uri reservation,
              cs_job_id = job_id, cs_attempt = at_attempt reservation, cs_launch_receipt = path,
              cs_source_lock = cl_source_lock lock, cs_source_lock_digest = source_lock_digest h (cl_source_lock lock),
              cs_secret_names = names, cs_command = command\<rparr>)))))))"

end
