(* ===== verification/Controller_Launch_Properties.thy ===== *)
theory Controller_Launch_Properties
  imports Controller_Launch
begin

text \<open>
  The properties of controller launches, for arbitrary answers of the store, the Jobs API and
  the command runner: \<open>traced_launcher\<close> records the calls that decide about a launch.
\<close>

section \<open>Calls\<close>

datatype launch_call =
    Read_call string int "status_error failure + launch_receipt option"
  | Jobs_call "(string, string) dict" "launch_error + job_resource list"
  | Claim_call launch_claim "status_error failure + unit"
  | Free_call launch_claim "status_error failure + unit"
  | Record_call launch_receipt "status_error failure + unit"
  | Run_call "string list" string "launch_error + string"
  | Status_read string "status_error failure + controller_status option"
  | Attempt_read string int "status_error failure + attempt_reservation option"
  | Recovery_read string int "status_error failure + recovery_decision option"
  | Capacity_read string "status_error failure + capacity_claim option"
  | Capacity_freed capacity_claim "status_error failure + unit"
  | Recovery_written recovery_decision "status_error failure + unit"
  | Attempt_reserved attempt_reservation "status_error failure + unit"
  | Other_write "status_error failure + unit"

fun is_run :: "launch_call \<Rightarrow> bool" where
  "is_run (Run_call _ _ _) = True"
| "is_run _ = False"

fun is_write :: "launch_call \<Rightarrow> bool" where
  "is_write (Read_call _ _ _) = False"
| "is_write (Jobs_call _ _) = False"
| "is_write (Status_read _ _) = False"
| "is_write (Attempt_read _ _ _) = False"
| "is_write (Recovery_read _ _ _) = False"
| "is_write (Capacity_read _ _) = False"
| "is_write _ = True"

text \<open>Every call that writes is recorded, and the reads the launch and the watchdog decide on.\<close>

definition traced_launcher :: "('w, 'm) launcher_scheme \<Rightarrow> 'x \<Rightarrow> ('w \<times> launch_call list, 'x) launcher_scheme" where
  "traced_launcher env x =
     \<lparr>ss_acquire = (\<lambda>c b. noted (ss_acquire env c b) Other_write),
      ss_heartbeat = (\<lambda>p r. noted (ss_heartbeat env p r) Other_write),
      ss_release = (\<lambda>c. noted (ss_release env c) Other_write), ss_read_claim = (\<lambda>c. unnoted (ss_read_claim env c)),
      ss_read_status = (\<lambda>c. noted (ss_read_status env c) (Status_read c)),
      ss_write_status = (\<lambda>s. noted (ss_write_status env s) Other_write),
      ss_acquire_launch = (\<lambda>c. noted (ss_acquire_launch env c) (Claim_call c)),
      ss_release_launch = (\<lambda>c. noted (ss_release_launch env c) (Free_call c)),
      ss_read_launch_claim = (\<lambda>c n. unnoted (ss_read_launch_claim env c n)),
      ss_write_launch = (\<lambda>r. noted (ss_write_launch env r) (Record_call r)),
      ss_read_launch = (\<lambda>c n. noted (ss_read_launch env c n) (Read_call c n)),
      ss_acquire_capacity = (\<lambda>c. noted (ss_acquire_capacity env c) Other_write),
      ss_release_capacity = (\<lambda>c. noted (ss_release_capacity env c) (Capacity_freed c)),
      ss_recover_capacity = (\<lambda>p c b. noted (ss_recover_capacity env p c b) Other_write),
      ss_read_capacity = (\<lambda>p. noted (ss_read_capacity env p) (Capacity_read p)),
      ss_write_started = (\<lambda>r. noted (ss_write_started env r) Other_write),
      ss_write_ended = (\<lambda>r. noted (ss_write_ended env r) Other_write),
      ss_reserve_attempt = (\<lambda>r. noted (ss_reserve_attempt env r) (Attempt_reserved r)),
      ss_read_attempt = (\<lambda>c n. noted (ss_read_attempt env c n) (Attempt_read c n)),
      ss_write_recovery = (\<lambda>d. noted (ss_write_recovery env d) (Recovery_written d)),
      ss_read_recovery = (\<lambda>c n. noted (ss_read_recovery env c n) (Recovery_read c n)),
      la_list_jobs = (\<lambda>labels ns. noted (la_list_jobs env labels ns) (Jobs_call labels)),
      la_run_text = (\<lambda>command content. noted (la_run_text env command content) (Run_call command content)),
      la_clock = unnoted_read (la_clock env), la_identifier = unnoted_read (la_identifier env),
      la_secrets_path = unnoted_read (la_secrets_path env), la_environment = la_environment env, \<dots> = x\<rparr>"

text \<open>A Job is on record when its receipt was written or read with the contract of the attempt.\<close>

definition on_record :: "attempt_reservation \<Rightarrow> string \<Rightarrow> launch_call list \<Rightarrow> bool" where
  "on_record reservation job calls \<longleftrightarrow>
     Record_call (launch_receipt_for reservation job) (Inr ()) \<in> set calls \<or>
     Read_call (at_campaign_id reservation) (at_attempt reservation)
       (Inr (Some (launch_receipt_for reservation job))) \<in> set calls"

lemma on_record_append: "on_record v j cs \<Longrightarrow> on_record v j (xs @ cs @ ys)"
  by (auto simp: on_record_def)

lemma validated_receipt: "validated_launch_receipt r v = Inr j \<longleftrightarrow> r = launch_receipt_for v j"
  by (cases r) (auto simp: validated_launch_receipt_def launch_receipt_for_def split: if_splits)

definition looked :: "attempt_reservation \<Rightarrow> (string, string) dict \<Rightarrow> launch_error + string option \<Rightarrow> launch_call list \<Rightarrow> bool" where
  "looked v labels r calls \<longleftrightarrow>
     \<not> list_ex is_run calls \<and>
     (r = Inr None \<longrightarrow> calls = [Read_call (at_campaign_id v) (at_attempt v) (Inr None), Jobs_call labels (Inr [])]) \<and>
     (\<forall>j. r = Inr (Some j) \<longrightarrow> on_record v j calls)"

lemma wp_traced:
  "(\<And>r w'. Q r (w', calls @ [Claim_call c r])) \<Longrightarrow> wp (ss_acquire_launch (traced_launcher env ext) c) Q (w, calls)"
  "(\<And>r w'. Q r (w', calls @ [Free_call c r])) \<Longrightarrow> wp (ss_release_launch (traced_launcher env ext) c) Q (w, calls)"
  "(\<And>r w'. Q' r (w', calls @ [Record_call v r])) \<Longrightarrow> wp (ss_write_launch (traced_launcher env ext) v) Q' (w, calls)"
  "(\<And>r w'. Q1 r (w', calls @ [Read_call i n r])) \<Longrightarrow> wp (ss_read_launch (traced_launcher env ext) i n) Q1 (w, calls)"
  "(\<And>r w'. Q2 r (w', calls @ [Jobs_call l r])) \<Longrightarrow> wp (la_list_jobs (traced_launcher env ext) l ns) Q2 (w, calls)"
  "(\<And>r w'. Q3 r (w', calls @ [Run_call a f r])) \<Longrightarrow> wp (la_run_text (traced_launcher env ext) a f) Q3 (w, calls)"
  "(\<And>x w'. Q4 (Inr x) (w', calls)) \<Longrightarrow> wp (io_read (la_clock (traced_launcher env ext))) Q4 (w, calls)"
  "(\<And>x w'. Q5 (Inr x) (w', calls)) \<Longrightarrow> wp (io_read (la_identifier (traced_launcher env ext))) Q5 (w, calls)"
  "(\<And>x w'. Q5 (Inr x) (w', calls)) \<Longrightarrow> wp (io_read (la_secrets_path (traced_launcher env ext))) Q5 (w, calls)"
  by (simp_all add: traced_launcher_def wp_noted wp_unnoted_read)

lemma record_adds:
  "wp_adds (record_controller_launch (traced_launcher env ext) v i)
     (\<lambda>r cs. \<not> list_ex is_run cs \<and> (\<forall>j. r = Inr j \<longrightarrow> on_record v j cs))"
  by (intro wp_adds_I)
    (auto simp: record_controller_launch_def Let_def wp_simps on_record_def require_def lift_error_Inr_iff intro!: wp_traced split: sum.split)

lemma jobs_add:
  "wp_adds (find_controller_jobs (traced_launcher env ext) ns labels)
     (\<lambda>r cs. (\<exists>a. cs = [Jobs_call labels a]) \<and> (r = Inr [] \<longrightarrow> cs = [Jobs_call labels (Inr [])]))"
  by (intro wp_adds_I)
    (auto simp: find_controller_jobs_def wp_simps mapM_Inr_iff intro!: wp_traced split: sum.split)


lemma look_adds:
  "wp_adds (existing_controller_launch (traced_launcher env ext) v ns labels) (looked v labels)"
proof -
  let ?read = "Read_call (at_campaign_id v) (at_attempt v)"
  let ?reads = "\<lambda>r cs. \<exists>a. lift_error Launch_store a = r \<and> cs = [?read a]"
  let ?finds = "\<lambda>r cs. (\<exists>a. cs = [Jobs_call labels a]) \<and> (r = Inr [] \<longrightarrow> cs = [Jobs_call labels (Inr [])])"
  let ?records = "\<lambda>r cs. \<not> list_ex is_run cs \<and> (\<forall>j. r = Inr (Some j) \<longrightarrow> on_record v j cs) \<and> r \<noteq> Inr None"
  let ?next = "\<lambda>found r ds. looked v labels r (?read (Inr found) # ds)"
  have read: "wp_adds (io_lift Launch_store (ss_read_launch (traced_launcher env ext) (at_campaign_id v) (at_attempt v))) ?reads"
    by (rule wp_adds_lift) (auto simp: traced_launcher_def intro!: wp_adds_noted)
  have found: "wp_adds (io_bind (record_controller_launch (traced_launcher env ext) v i) (\<lambda>j. io_return (Some j))) ?records" for i
    by (rule wp_adds_bind [OF record_adds wp_adds_return, where S = "\<lambda>j r ds. r = Inr (Some j) \<and> ds = []"]) auto
  have search: "wp_adds (io_bind (find_controller_jobs (traced_launcher env ext) ns labels) (\<lambda>existing.
      case existing of [] \<Rightarrow> io_return None
      | i # _ \<Rightarrow> io_bind (record_controller_launch (traced_launcher env ext) v i) (\<lambda>j. io_return (Some j)))) (?next None)"
    by (rule wp_adds_bind [OF jobs_add, where S = "\<lambda>ids r ds. if ids = [] then r = Inr None \<and> ds = [] else ?records r ds"])
      (auto simp: looked_def on_record_def intro!: wp_adds_return wp_adds_mono [OF found] split: list.split if_splits)
  have valid: "wp_adds (io_bind (io_result (validated_launch_receipt q v)) (\<lambda>i. io_return (Some i))) (?next (Some q))" for q
    by (rule wp_adds_bind [OF wp_adds_result wp_adds_return, where R = "\<lambda>r cs. r = validated_launch_receipt q v \<and> cs = []"
          and S = "\<lambda>j r ds. r = Inr (Some j) \<and> ds = []"])
      (auto simp: looked_def on_record_def dest: sym [THEN validated_receipt [THEN iffD1]])
  show ?thesis
    unfolding existing_controller_launch_def
  proof (rule wp_adds_bind [OF read, where S = ?next])
    show "wp_adds (case found of
        None \<Rightarrow> io_bind (find_controller_jobs (traced_launcher env ext) ns labels) (\<lambda>existing.
          case existing of [] \<Rightarrow> io_return None
          | i # _ \<Rightarrow> io_bind (record_controller_launch (traced_launcher env ext) v i) (\<lambda>j. io_return (Some j)))
      | Some receipt \<Rightarrow> io_bind (io_result (validated_launch_receipt receipt v)) (\<lambda>i. io_return (Some i))) (?next found)"
      for found
      using search valid by (cases found) simp_all
  next
    show "?reads (Inl e) cs \<Longrightarrow> looked v labels (Inl e) cs" for e cs
      by (auto simp: looked_def)
  next
    show "?reads (Inr found) cs \<Longrightarrow> ?next found r ds \<Longrightarrow> looked v labels r (cs @ ds)" for found cs r ds
      by (auto simp: lift_error_Inr_iff)
  qed
qed

lemma adopt_adds:
  "wp_adds (adopt_started_job (traced_launcher env ext) v ns labels e)
     (\<lambda>r cs. \<not> list_ex is_run cs \<and> (\<forall>j. r = Inr j \<longrightarrow> on_record v j cs))"
  unfolding adopt_started_job_def
  by (rule wp_adds_bind [OF jobs_add, where S = "\<lambda>ids r cs. \<not> list_ex is_run cs \<and> (\<forall>j. r = Inr j \<longrightarrow> on_record v j cs)"])
    (auto simp: on_record_def intro!: wp_adds_raise wp_adds_mono [OF record_adds] split: list.split)

lemma run_text_adds:
  "wp_adds (run_job_text (traced_launcher env ext) names command)
     (\<lambda>r cs. (\<exists>e. r = Inl (Launch_command e) \<and> cs = []) \<or> (\<exists>a f. cs = [Run_call a f r]))"
proof -
  let ?T = "\<lambda>r cs. (\<exists>e. r = Inl (Launch_command e) \<and> cs = []) \<or> (\<exists>a f. cs = [Run_call a f r])"
  let ?render = "\<lambda>path. lift_error Launch_command (materialized_command (la_environment (traced_launcher env ext)) path names command)"
  have run: "wp_adds (case p of (rendered, content) \<Rightarrow> la_run_text (traced_launcher env ext) rendered content)
      (\<lambda>r cs. \<exists>a f. cs = [Run_call a f r])" for p
    by (cases p) (simp add: traced_launcher_def wp_adds_noted)
  have rest: "wp_adds (io_bind (io_result (?render path)) (\<lambda>(rendered, content). la_run_text (traced_launcher env ext) rendered content)) ?T" for path
    by (rule wp_adds_bind [OF wp_adds_result run, where R = "\<lambda>r cs. cs = [] \<and> (\<forall>e. r = Inl e \<longrightarrow> (\<exists>d. e = Launch_command d))"])
      (auto simp: lift_error_def split: sum.splits)
  show ?thesis
    unfolding run_job_text_def
    by (rule wp_adds_bind [OF _ rest, where R = "\<lambda>r cs. cs = [] \<and> (\<exists>x. r = Inr x)"])
      (auto simp: traced_launcher_def intro!: wp_adds_read)
qed

lemma run_adds:
  "wp_adds (run_controller_launch (traced_launcher env ext) v ns labels command names)
     (\<lambda>r cs. (cs = [] \<or> (\<exists>a f x more. cs = Run_call a f x # more \<and> \<not> list_ex is_run more)) \<and>
       (\<forall>j. r = Inr j \<longrightarrow> on_record v j cs))"
proof -
  let ?quiet = "\<lambda>r cs. \<not> list_ex is_run cs \<and> (\<forall>j. r = Inr j \<longrightarrow> on_record v j cs)"
  let ?ran = "\<lambda>r cs. (\<exists>e. r = Inl (Launch_command e) \<and> cs = []) \<or> (\<exists>a f. cs = [Run_call a f r])"
  let ?next = "\<lambda>x r cs. if \<exists>e. x = Inl (Launch_command e) then cs = [] \<and> (\<exists>e. r = Inl e) else ?quiet r cs"
  have "wp_adds (io_attempt (run_job_text (traced_launcher env ext) names command)) (\<lambda>r cs. \<exists>x. r = Inr x \<and> ?ran x cs)"
    by (rule wp_adds_attempt, rule wp_adds_mono [OF run_text_adds]) auto
  moreover have "wp_adds (case x of
         Inl e \<Rightarrow> if e = Runner_process_error then adopt_started_job (traced_launcher env ext) v ns labels e else io_raise e
       | Inr output \<Rightarrow> (case job_id_search output of
              Some i \<Rightarrow> record_controller_launch (traced_launcher env ext) v i
            | None \<Rightarrow> adopt_started_job (traced_launcher env ext) v ns labels Controller_without_job_id)) (?next x)" for x
    using adopt_adds record_adds
    by (cases x) (auto intro!: wp_adds_raise split: option.split)
  ultimately show ?thesis
    unfolding run_controller_launch_def
    by (rule wp_adds_bind) (auto simp: on_record_def split: if_splits)
qed

definition launched_once :: "attempt_reservation \<Rightarrow> (string, string) dict \<Rightarrow> launch_call list \<Rightarrow> bool" where
  "launched_once v labels calls \<longleftrightarrow>
     \<not> list_ex is_run calls \<or>
     (\<exists>before claim command content answer after.
        calls = before @ [Claim_call claim (Inr ()), Read_call (at_campaign_id v) (at_attempt v) (Inr None),
          Jobs_call labels (Inr []), Run_call command content answer] @ after \<and>
        lc_campaign_id claim = at_campaign_id v \<and> lc_attempt claim = at_attempt v \<and>
        \<not> list_ex is_run before \<and> \<not> list_ex is_run after)"

lemma launched_once_after: "launched_once v labels cs \<Longrightarrow> \<not> list_ex is_run ds \<Longrightarrow> launched_once v labels (ds @ cs)"
  unfolding launched_once_def by (metis append_assoc list_ex_append)

lemma launched_none: "\<not> list_ex is_run cs \<Longrightarrow> launched_once v labels cs"
  by (simp add: launched_once_def)

text \<open>The part of a launch under its claim.\<close>

lemma claimed_adds:
  "wp_adds (io_bind (existing_controller_launch (traced_launcher env ext) v ns labels) (\<lambda>found.
     io_bind (case found of Some i \<Rightarrow> io_return i
         | None \<Rightarrow> run_controller_launch (traced_launcher env ext) v ns labels command names) (\<lambda>job_id.
     io_bind (io_lift Launch_store (ss_release_launch (traced_launcher env ext) claim)) (\<lambda>_. io_return job_id))))
     (\<lambda>r cs. (\<not> list_ex is_run cs \<or> (\<exists>a f x after. cs = [Read_call (at_campaign_id v) (at_attempt v) (Inr None),
          Jobs_call labels (Inr []), Run_call a f x] @ after \<and> \<not> list_ex is_run after)) \<and>
       (\<forall>j. r = Inr j \<longrightarrow> on_record v j cs))"
proof -
  let ?ran = "\<lambda>cs. cs = [] \<or> (\<exists>a f x more. cs = Run_call a f x # more \<and> \<not> list_ex is_run more)"
  have free: "wp_adds (io_bind (io_lift Launch_store (ss_release_launch (traced_launcher env ext) claim)) (\<lambda>_. io_return j))
      (\<lambda>r cs. \<not> list_ex is_run cs \<and> (\<forall>i. r = Inr i \<longrightarrow> i = j))" for j
    by (rule wp_adds_bind [OF wp_adds_lift wp_adds_return, where R = "\<lambda>r cs. \<exists>x. cs = [Free_call claim x]"
          and S = "\<lambda>_ r cs. r = Inr j \<and> cs = []"])
      (auto simp: traced_launcher_def intro!: wp_adds_noted)
  have step: "wp_adds (io_bind (case found of Some i \<Rightarrow> io_return i
         | None \<Rightarrow> run_controller_launch (traced_launcher env ext) v ns labels command names) (\<lambda>job_id.
     io_bind (io_lift Launch_store (ss_release_launch (traced_launcher env ext) claim)) (\<lambda>_. io_return job_id)))
     (\<lambda>r cs. (found = None \<longrightarrow> ?ran cs \<or> \<not> list_ex is_run cs) \<and>
       (\<forall>i. found = Some i \<longrightarrow> \<not> list_ex is_run cs) \<and>
       (\<forall>j. r = Inr j \<longrightarrow> (case found of Some i \<Rightarrow> j = i | None \<Rightarrow> on_record v j cs)))" for found
  proof (cases found)
    case None
    show ?thesis unfolding None option.case
      by (rule wp_adds_bind [OF run_adds free]) (fastforce simp: on_record_def)+
  next
    case (Some i)
    show ?thesis unfolding Some option.case
      by (rule wp_adds_bind [OF wp_adds_return free, where R = "\<lambda>r cs. r = Inr i \<and> cs = []"]) auto
  qed
  show ?thesis
    by (rule wp_adds_bind [OF look_adds step])
      (fastforce simp: looked_def on_record_def split: option.splits)+
qed

lemma claim_adds:
  "wp_adds (io_catch (io_bind (io_lift Launch_store (ss_acquire_launch (traced_launcher env ext) claim)) (\<lambda>_. io_return None))
       (\<lambda>e. if e = Launch_store (Raised Launch_in_progress)
         then io_bind (existing_controller_launch (traced_launcher env ext) v ns labels)
           (\<lambda>found. case found of Some i \<Rightarrow> io_return (Some i) | None \<Rightarrow> io_raise e)
         else io_raise e))
     (\<lambda>r cs. \<not> list_ex is_run cs \<and> (r = Inr None \<longrightarrow> cs = [Claim_call claim (Inr ())]) \<and>
       (\<forall>j. r = Inr (Some j) \<longrightarrow> on_record v j cs))" (is "wp_adds _ ?T")
proof -
  have acquire: "wp_adds (io_bind (io_lift Launch_store (ss_acquire_launch (traced_launcher env ext) claim)) (\<lambda>_. io_return None))
      (\<lambda>r cs. \<exists>x. cs = [Claim_call claim x] \<and> (r = Inr None \<longleftrightarrow> x = Inr ()) \<and> (\<forall>j. r \<noteq> Inr (Some j)))"
    by (rule wp_adds_bind [OF wp_adds_lift wp_adds_return,
          where R = "\<lambda>r cs. \<exists>x. cs = [Claim_call claim x] \<and> (r = Inr () \<longleftrightarrow> x = Inr ())" and S = "\<lambda>_ r cs. r = Inr None \<and> cs = []"])
      (auto simp: traced_launcher_def lift_error_Inr_iff intro!: wp_adds_noted)
  have handler: "wp_adds (if e = Launch_store (Raised Launch_in_progress)
         then io_bind (existing_controller_launch (traced_launcher env ext) v ns labels)
           (\<lambda>found. case found of Some i \<Rightarrow> io_return (Some i) | None \<Rightarrow> io_raise e)
         else io_raise e) (\<lambda>r cs. \<not> list_ex is_run cs \<and> r \<noteq> Inr None \<and> (\<forall>j. r = Inr (Some j) \<longrightarrow> on_record v j cs))" for e
  proof (cases "e = Launch_store (Raised Launch_in_progress)")
    case True
    have "wp_adds (case found of Some i \<Rightarrow> io_return (Some i) | None \<Rightarrow> io_raise e)
        (\<lambda>r cs. cs = [] \<and> r \<noteq> Inr None \<and> (\<forall>j. r = Inr (Some j) \<longrightarrow> found = Some j))" for found
      by (cases found) (auto intro!: wp_adds_return wp_adds_raise)
    then show ?thesis unfolding if_P [OF True]
      by (rule wp_adds_bind [OF look_adds]) (auto simp: looked_def)
  qed (auto intro!: wp_adds_raise)
  show ?thesis
    by (rule wp_adds_catch [OF acquire handler]) (auto simp: on_record_def)
qed

lemma claim_then_adds:
  assumes "lc_campaign_id claim = at_campaign_id v" "lc_attempt claim = at_attempt v"
    and under: "wp_adds body (\<lambda>r cs. (\<not> list_ex is_run cs \<or>
       (\<exists>a f x after. cs = [Read_call (at_campaign_id v) (at_attempt v) (Inr None),
          Jobs_call labels (Inr []), Run_call a f x] @ after \<and> \<not> list_ex is_run after)) \<and> (\<forall>j. r = Inr j \<longrightarrow> on_record v j cs))"
      (is "wp_adds _ ?under")
  shows "wp_adds (io_bind (io_catch (io_bind (io_lift Launch_store (ss_acquire_launch (traced_launcher env ext) claim)) (\<lambda>_. io_return None))
       (\<lambda>e. if e = Launch_store (Raised Launch_in_progress)
         then io_bind (existing_controller_launch (traced_launcher env ext) v ns labels)
           (\<lambda>found. case found of Some i \<Rightarrow> io_return (Some i) | None \<Rightarrow> io_raise e)
         else io_raise e)) (\<lambda>refused. case refused of Some i \<Rightarrow> io_return i | None \<Rightarrow> body))
     (\<lambda>r cs. launched_once v labels cs \<and> (\<forall>j. r = Inr j \<longrightarrow> on_record v j cs))" (is "wp_adds _ ?T")
proof -
  let ?held = "\<lambda>refused r cs. (refused = None \<longrightarrow> ?under r cs) \<and> (\<forall>i. refused = Some i \<longrightarrow> cs = [] \<and> r = Inr i)"
  have held: "wp_adds (case refused of Some i \<Rightarrow> io_return i | None \<Rightarrow> body) (?held refused)" for refused
    using under by (cases refused) (auto intro: wp_adds_return)
  show ?thesis
  proof (rule wp_adds_bind [OF claim_adds held])
    fix refused :: "string option" and cs and r :: "launch_error + string" and ds
    assume a: "\<not> list_ex is_run cs \<and> (Inr refused = Inr None \<longrightarrow> cs = [Claim_call claim (Inr ())]) \<and>
        (\<forall>j. Inr refused = (Inr (Some j) :: launch_error + string option) \<longrightarrow> on_record v j cs)"
      and b: "?held refused r ds"
    show "?T r (cs @ ds)"
    proof (cases refused)
      case None
      with a b assms(1,2) have "launched_once v labels (cs @ ds)"
        unfolding launched_once_def by (fastforce intro: exI [of _ "[]"])
      with a b None show ?thesis by (auto simp: on_record_def)
    qed (use a b in \<open>auto simp: launched_once_def\<close>)
  qed (auto simp: launched_once_def)
qed

text \<open>What a launch does, for every answer to its calls.\<close>

lemma launch_adds:
  "wp_adds (launch_or_adopt_controller (traced_launcher env ext) v ns labels command names)
     (\<lambda>r cs. launched_once v labels cs \<and> (\<forall>j. r = Inr j \<longrightarrow> on_record v j cs))" (is "wp_adds _ ?T")
proof -
  let ?env = "traced_launcher env ext"
  let ?look = "existing_controller_launch ?env v ns labels"
  let ?quiet = "\<lambda>r cs. cs = [] \<and> (\<exists>x. r = Inr x)"
  let ?claim = "\<lambda>at launcher. io_bind (io_require (launch_claim_ok (launch_claim_for v launcher at)) Launch_record_invalid) (\<lambda>_.
      io_bind (io_catch (io_bind (io_lift Launch_store (ss_acquire_launch ?env (launch_claim_for v launcher at))) (\<lambda>_. io_return None))
       (\<lambda>e. if e = Launch_store (Raised Launch_in_progress)
         then io_bind ?look (\<lambda>found. case found of Some i \<Rightarrow> io_return (Some i) | None \<Rightarrow> io_raise e)
         else io_raise e)) (\<lambda>refused. case refused of Some i \<Rightarrow> io_return i | None \<Rightarrow>
      io_bind ?look (\<lambda>found. io_bind (case found of Some i \<Rightarrow> io_return i
         | None \<Rightarrow> run_controller_launch ?env v ns labels command names) (\<lambda>job_id.
      io_bind (io_lift Launch_store (ss_release_launch ?env (launch_claim_for v launcher at))) (\<lambda>_. io_return job_id)))))"
  have claim: "wp_adds (?claim at launcher) ?T" for at launcher
    by (rule wp_adds_bind [OF _ claim_then_adds [OF _ _ claimed_adds], where R = "\<lambda>r cs. cs = []"])
      (auto simp: io_require_def launched_once_def launch_claim_for_def intro!: wp_adds_result)
  have "wp_adds (io_bind (io_read (la_clock ?env)) (\<lambda>at. io_bind (io_read (la_identifier ?env)) (?claim at))) ?T"
    by (rule wp_adds_bind [where R = ?quiet, OF _ wp_adds_bind [where R = ?quiet, OF _ claim]])
      (auto simp: traced_launcher_def intro!: wp_adds_read)
  then have "wp_adds (case adopted of Some i \<Rightarrow> io_return i
      | None \<Rightarrow> io_bind (io_read (la_clock ?env)) (\<lambda>at. io_bind (io_read (la_identifier ?env)) (?claim at)))
      (\<lambda>r cs. (adopted = None \<longrightarrow> ?T r cs) \<and> (\<forall>i. adopted = Some i \<longrightarrow> cs = [] \<and> r = Inr i))" for adopted
    by (cases adopted) (auto intro: wp_adds_return)
  then show ?thesis
    unfolding launch_or_adopt_controller_def Let_def
    by (rule wp_adds_bind [OF look_adds])
      (auto simp: looked_def on_record_def intro: launched_once_after launched_none split: option.splits)
qed

section \<open>Properties\<close>

definition idle_launcher :: "string \<Rightarrow> unit launcher" where
  "idle_launcher output =
     \<lparr>ss_acquire = (\<lambda>c b. io_return ()), ss_heartbeat = (\<lambda>p r. io_return ()), ss_release = (\<lambda>c. io_return ()),
      ss_read_claim = (\<lambda>c. io_return None), ss_read_status = (\<lambda>c. io_return None),
      ss_write_status = (\<lambda>s. io_return ()), ss_acquire_launch = (\<lambda>c. io_return ()),
      ss_release_launch = (\<lambda>c. io_return ()), ss_read_launch_claim = (\<lambda>c n. io_return None),
      ss_write_launch = (\<lambda>r. io_return ()), ss_read_launch = (\<lambda>c n. io_return None),
      ss_acquire_capacity = (\<lambda>c. io_return ()), ss_release_capacity = (\<lambda>c. io_return ()),
      ss_recover_capacity = (\<lambda>p c b. io_return ()), ss_read_capacity = (\<lambda>p. io_return None),
      ss_write_started = (\<lambda>r. io_return ()), ss_write_ended = (\<lambda>r. io_return ()),
      ss_reserve_attempt = (\<lambda>r. io_return ()), ss_read_attempt = (\<lambda>c n. io_return None),
      ss_write_recovery = (\<lambda>d. io_return ()), ss_read_recovery = (\<lambda>c n. io_return None),
      la_list_jobs = (\<lambda>labels ns. io_return []), la_run_text = (\<lambda>command content. io_return output),
      la_clock = (\<lambda>w. (0, w)), la_identifier = (\<lambda>w. (''launcher-1'', w)),
      la_secrets_path = (\<lambda>w. (''/tmp/secrets'', w)),
      la_environment = \<lparr>env_variable = (\<lambda>n. None), env_job_token = None\<rparr>\<rparr>"

definition sample_attempt :: attempt_reservation where
  "sample_attempt =
     \<lparr>at_campaign_id = ''campaign-1'', at_plan_digest = ''plan'', at_input_digest = ''input'',
      at_input_uri = ''hf://buckets/a/in'', at_output_uri = ''hf://buckets/a/out'',
      at_worker_revision = ''rev'', at_attempt = 1, at_reserved_at = 0\<rparr>"

definition sample_job_id :: string where
  "sample_job_id = ''0123456789abcdef01234567''"

definition sample_launch :: "(launch_error + string) \<times> (unit \<times> launch_call list)" where
  "sample_launch = launch_or_adopt_controller (traced_launcher (idle_launcher (''started '' @ sample_job_id)) ())
     sample_attempt ''ns'' [] [''hf'', ''--'', ''run''] [] ((), [])"

lemma sample_launch_result:
  "fst sample_launch = Inr sample_job_id" "length (filter is_run (snd (snd sample_launch))) = 1"
  by code_simp+

text \<open>
  C14. A controller attempt is started at most once by a launch, whatever the store, the Jobs API
  and the command runner answer. Either the launch runs no command, or it runs exactly one, and
  the calls just before are: the launch claim of this attempt acquired, no launch receipt found,
  and no Job with the labels of the attempt listed. A launch that returns a Job has its receipt
  on record, written by this launch or read with the contract of the attempt.
\<close>

theorem controller_started_once:
  assumes "launch_or_adopt_controller (traced_launcher env ()) v ns labels command names (w, []) = (r, (w', calls))"
  shows "(\<not> list_ex is_run calls \<or>
      (\<exists>before claim run content answer after.
        calls = before @ [Claim_call claim (Inr ()), Read_call (at_campaign_id v) (at_attempt v) (Inr None),
          Jobs_call labels (Inr []), Run_call run content answer] @ after \<and>
        lc_campaign_id claim = at_campaign_id v \<and> lc_attempt claim = at_attempt v \<and>
        \<not> list_ex is_run before \<and> \<not> list_ex is_run after)) \<and>
    (\<forall>j. r = Inr j \<longrightarrow> on_record v j calls)"
  using wp_addsD [OF launch_adds assms] by (simp add: launched_once_def)

theorem controller_started_once_witness:
  "length (filter is_run (snd (snd sample_launch))) = 1 \<and>
   on_record sample_attempt sample_job_id (snd (snd sample_launch))"
proof -
  obtain r w' calls where run: "sample_launch = (r, (w', calls))" by (metis prod.exhaust)
  have r: "r = Inr sample_job_id" and calls: "snd (snd sample_launch) = calls"
    using sample_launch_result(1) unfolding run by simp_all
  from controller_started_once [OF run [unfolded sample_launch_def]] have "on_record sample_attempt sample_job_id calls"
    by (simp add: r)
  with sample_launch_result(2) show ?thesis unfolding calls by simp
qed

end
