(* ===== verification/Controller_Watchdog.thy ===== *)
theory Controller_Watchdog
  imports Controller_Launch Recovery
begin

text \<open>
  The watchdog of campaign controllers, \<open>src/src/harbor_hf/campaign_watchdog.py\<close>: it reads the
  campaign, the controller records and the controller Jobs, frees provider capacity that a dead
  Job left behind, and replaces a lost controller by the next attempt.

  A Job is listed with the attributes the code reads, \<open>jr_stage\<close> being what the chain
  \<open>status.stage.value\<close> reaches. Loading a campaign and parsing its request are arguments
  (\<open>wd_load_snapshot\<close>, \<open>wd_load_experiment\<close>). Labels and stages are ASCII text.
\<close>

section \<open>Jobs\<close>

record controller_job =
  cj_job_id :: string
  cj_stage :: string
  cj_attempt :: int

definition ascii_upper :: "string \<Rightarrow> string" where
  "ascii_upper s = map (\<lambda>c. if is_lower c then char_of ((of_char c :: nat) - 32) else c) s"

definition terminal_job_stages :: "string list" where
  "terminal_job_stages = [''COMPLETED'', ''CANCELED'', ''CANCELLED'', ''ERROR'', ''DELETED'']"

definition job_terminal :: "controller_job \<Rightarrow> bool" where
  "job_terminal j \<longleftrightarrow> ascii_upper (cj_stage j) \<in> set terminal_job_stages"

datatype watchdog_error =
    Watchdog_store "store_error failure"
  | Watchdog_request
  | Watchdog_projection recovery_error
  | Watchdog_state "status_error failure"
  | Watchdog_jobs launch_error
  | Watchdog_launch launch_error
  | Watchdog_without_remote
  | Watchdog_job_without_id
  | Watchdog_job_wrong_labels
  | Watchdog_job_without_attempt
  | Watchdog_job_without_stage
  | Watchdog_job_invalid
  | Watchdog_attempt_shared
  | Recovery_without_status
  | Recovery_without_contract
  | Recovery_record_invalid
  | Recovery_conflict
  | Replacement_conflict

definition watchdog_labels :: "campaign_lock \<Rightarrow> (string, string) dict" where
  "watchdog_labels lock =
     [(''harbor-hf-role'', ''campaign-controller''), (''harbor-hf-campaign'', cl_campaign_id lock),
      (''harbor-hf-plan'', plan_label lock)]"

definition digits_int :: "string \<Rightarrow> int" where
  "digits_int s = foldl (\<lambda>n c. 10 * n + (int (of_char c) - 48)) 0 s"

fun attempt_label :: "json \<Rightarrow> int option" where
  "attempt_label (JObj kvs) =
     (case map_of kvs ''harbor-hf-controller-attempt'' of
        Some (JStr s) \<Rightarrow> if s \<noteq> [] \<and> list_all is_digit s then Some (digits_int s) else None
      | _ \<Rightarrow> None)"
| "attempt_label _ = None"

fun nonempty_text :: "json \<Rightarrow> string option" where
  "nonempty_text (JStr s) = (if s = [] then None else Some s)"
| "nonempty_text _ = None"

definition controller_job_of :: "(string, string) dict \<Rightarrow> job_resource \<Rightarrow> watchdog_error + controller_job" where
  "controller_job_of expected r =
     rbind (of_option Watchdog_job_without_id (nonempty_text (jr_id r))) (\<lambda>i.
     rbind (require (has_labels (jr_labels r) expected) Watchdog_job_wrong_labels) (\<lambda>_.
     rbind (of_option Watchdog_job_without_attempt (attempt_label (jr_labels r))) (\<lambda>attempt.
     rbind (of_option Watchdog_job_without_stage (nonempty_text (jr_stage r))) (\<lambda>stage.
     rbind (require (1 \<le> attempt) Watchdog_job_invalid) (\<lambda>_.
       Inr \<lparr>cj_job_id = i, cj_stage = stage, cj_attempt = attempt\<rparr>)))))"

definition add_controller_job ::
  "(string, string) dict \<Rightarrow> controller_job list \<Rightarrow> job_resource \<Rightarrow> watchdog_error + controller_job list" where
  "add_controller_job labels jobs r =
     rbind (controller_job_of labels r) (\<lambda>job.
     rbind (require (cj_attempt job \<notin> set (map cj_attempt jobs)) Watchdog_attempt_shared) (\<lambda>_.
       Inr (jobs @ [job])))"

definition controller_jobs ::
  "('w, 'm) launcher_scheme \<Rightarrow> campaign_lock \<Rightarrow> string \<Rightarrow> ('w, watchdog_error, controller_job list) io" where
  "controller_jobs env lock namespace =
     io_bind (io_require (namespace \<noteq> []) Watchdog_without_remote) (\<lambda>_.
     io_bind (io_lift Watchdog_jobs (la_list_jobs env (watchdog_labels lock) namespace)) (\<lambda>resources.
     io_bind (io_result (foldM (add_controller_job (watchdog_labels lock)) [] resources)) (\<lambda>jobs.
       io_return (sort_key cj_attempt jobs))))"

section \<open>The decision\<close>

datatype watchdog_decision =
    Watchdog_none string
  | Watchdog_operator string
  | Watchdog_recover int

fun state_name :: "controller_state \<Rightarrow> string" where
  "state_name KS_starting = ''starting''"
| "state_name KS_running = ''running''"
| "state_name KS_waiting_retry = ''waiting-retry''"
| "state_name KS_finalizing = ''finalizing''"
| "state_name KS_completed = ''completed''"
| "state_name KS_paused_capacity = ''paused-capacity''"
| "state_name KS_paused_policy = ''paused-policy''"
| "state_name KS_failed_infrastructure = ''failed-infrastructure''"
| "state_name KS_failed_deterministic = ''failed-deterministic''"

definition retryable_states :: "controller_state list" where
  "retryable_states = [KS_starting, KS_running, KS_waiting_retry, KS_finalizing, KS_failed_infrastructure]"

definition status_recovery_decision :: "controller_spec \<Rightarrow> controller_status option \<Rightarrow> watchdog_decision" where
  "status_recovery_decision policy status =
     (case status of
        None \<Rightarrow> Watchdog_operator ''controller has no durable status''
      | Some s \<Rightarrow>
          if ks_state s \<in> {KS_paused_capacity, KS_paused_policy, KS_failed_deterministic}
          then Watchdog_operator (''controller state requires approval: '' @ state_name (ks_state s))
          else if ks_attempt s \<ge> cc_max_attempts policy
          then Watchdog_operator ''controller attempt limit is exhausted''
          else if ks_state s \<notin> set retryable_states
          then Watchdog_operator ''controller outcome is not retryable infrastructure''
          else Watchdog_recover (ks_attempt s + 1))"

definition plan_controller_watchdog ::
  "campaign_lock \<Rightarrow> controller_status option \<Rightarrow> controller_claim option \<Rightarrow> controller_job list \<Rightarrow>
   bool \<Rightarrow> int \<Rightarrow> watchdog_decision" where
  "plan_controller_watchdog lock status claim jobs is_terminal now =
     (case cl_controller_policy lock of
        None \<Rightarrow> Watchdog_none ''campaign uses no controller''
      | Some policy \<Rightarrow>
          if is_terminal \<or> (case status of Some s \<Rightarrow> ks_state s = KS_completed | None \<Rightarrow> False)
          then Watchdog_none ''campaign is terminal''
          else if filter (\<lambda>j. \<not> job_terminal j) jobs \<noteq> []
          then Watchdog_none ''controller Job is active''
          else if (case claim of Some c \<Rightarrow> kc_expires_at c > now | None \<Rightarrow> False)
          then Watchdog_none ''controller claim is still valid''
          else status_recovery_decision policy status)"

section \<open>Abandoned provider capacity\<close>

definition capacity_is_abandoned :: "capacity_claim option \<Rightarrow> string \<Rightarrow> string list \<Rightarrow> bool" where
  "capacity_is_abandoned claim campaign_id active_job_ids \<longleftrightarrow>
     (case claim of
        None \<Rightarrow> False
      | Some c \<Rightarrow> pc_campaign_id c = campaign_id \<and> pc_job_id c \<notin> set active_job_ids)"

definition release_abandoned_capacity ::
  "('w, 'm) state_store_scheme \<Rightarrow> string \<Rightarrow> string list \<Rightarrow> string \<Rightarrow> ('w, status_error failure, unit) io" where
  "release_abandoned_capacity store campaign_id active provider =
     io_bind (ss_read_capacity store provider) (\<lambda>claim.
       case claim of
         None \<Rightarrow> io_return ()
       | Some c \<Rightarrow>
           if \<not> capacity_is_abandoned claim campaign_id active then io_return ()
           else ss_release_capacity store c)"

definition release_abandoned_provider_capacity ::
  "('w, 'm) state_store_scheme \<Rightarrow> campaign_lock \<Rightarrow> controller_job list \<Rightarrow> ('w, status_error failure, unit) io" where
  "release_abandoned_provider_capacity store lock jobs =
     io_bind (io_mapM (release_abandoned_capacity store (cl_campaign_id lock)
         (map cj_job_id (filter (\<lambda>j. \<not> job_terminal j) jobs))) (lock_providers lock)) (\<lambda>_. io_return ())"

section \<open>Recovery\<close>

definition replacement_for :: "attempt_reservation \<Rightarrow> int \<Rightarrow> int \<Rightarrow> attempt_reservation" where
  "replacement_for prior attempt at = prior\<lparr>at_attempt := attempt, at_reserved_at := at\<rparr>"

definition recovery_for ::
  "snapshot \<Rightarrow> controller_status \<Rightarrow> string \<Rightarrow> int \<Rightarrow> recovery_decision option \<Rightarrow> int \<Rightarrow> recovery_decision" where
  "recovery_for snapshot status campaign_id attempt existing at =
     \<lparr>rd_campaign_id = campaign_id, rd_plan_digest = cl_plan_digest (sn_lock snapshot),
      rd_prior_job_id = ks_job_id status, rd_prior_attempt = ks_attempt status,
      rd_replacement_attempt = attempt,
      rd_checkpoint_revision =
        (case existing of Some d \<Rightarrow> rd_checkpoint_revision d | None \<Rightarrow> sn_control_commit snapshot),
      rd_category = RD_lost, rd_decided_at = at\<rparr>"

record 'w watchdog = "'w launcher" +
  wd_load_snapshot :: "string \<Rightarrow> ('w, store_error failure, snapshot) io"
  wd_load_experiment :: "hub_file \<Rightarrow> experiment_spec option"

record watchdog_result =
  wr_campaign_id :: string
  wr_decision :: watchdog_decision
  wr_submission :: "controller_submission option"

text \<open>The time of the recovery: that of its records when an earlier watchdog wrote one of them.\<close>

definition recovery_time ::
  "('w, 'm) launcher_scheme \<Rightarrow> recovery_decision option \<Rightarrow> attempt_reservation option \<Rightarrow> ('w, watchdog_error, int) io" where
  "recovery_time env existing_recovery existing_replacement =
     (case existing_recovery of
        Some d \<Rightarrow> io_return (rd_decided_at d)
      | None \<Rightarrow>
          (case existing_replacement of
             Some r \<Rightarrow> io_return (at_reserved_at r)
           | None \<Rightarrow> io_read (la_clock env)))"

definition recovery_records ::
  "recovery_decision option \<Rightarrow> attempt_reservation option \<Rightarrow> recovery_decision \<Rightarrow> attempt_reservation \<Rightarrow>
   watchdog_error + unit" where
  "recovery_records existing_recovery existing_replacement recovery replacement =
     rbind (require (attempt_reservation_ok replacement \<and> recovery_decision_ok recovery) Recovery_record_invalid) (\<lambda>_.
     rbind (require (existing_recovery = None \<or> existing_recovery = Some recovery) Recovery_conflict) (\<lambda>_.
       require (existing_replacement = None \<or> existing_replacement = Some replacement) Replacement_conflict))"

definition recover_controller ::
  "hash \<Rightarrow> ('w, 'm) watchdog_scheme \<Rightarrow> string \<Rightarrow> snapshot \<Rightarrow> experiment_spec \<Rightarrow> controller_status option \<Rightarrow> int \<Rightarrow>
   ('w, watchdog_error, controller_submission) io" where
  "recover_controller h env campaign_id snapshot spec status attempt =
     io_bind (io_result (of_option Recovery_without_status status)) (\<lambda>s.
     io_bind (io_lift Watchdog_state (ss_read_attempt env campaign_id (ks_attempt s))) (\<lambda>contract.
     io_bind (io_result (of_option Recovery_without_contract contract)) (\<lambda>prior.
     io_bind (io_lift Watchdog_state (ss_read_recovery env campaign_id attempt)) (\<lambda>existing_recovery.
     io_bind (io_lift Watchdog_state (ss_read_attempt env campaign_id attempt)) (\<lambda>existing_replacement.
     io_bind (recovery_time env existing_recovery existing_replacement) (\<lambda>at.
     let replacement = replacement_for prior attempt at;
         recovery = recovery_for snapshot s campaign_id attempt existing_recovery at in
     io_bind (io_result (recovery_records existing_recovery existing_replacement recovery replacement)) (\<lambda>_.
     io_bind (io_lift Watchdog_state (ss_write_recovery env recovery)) (\<lambda>_.
     io_bind (io_lift Watchdog_state (ss_reserve_attempt env replacement)) (\<lambda>_.
       io_lift Watchdog_launch (launch_reserved_campaign_controller h env (sn_lock snapshot) spec replacement))))))))))"

definition run_campaign_watchdog ::
  "hash \<Rightarrow> ('w, 'm) watchdog_scheme \<Rightarrow> string \<Rightarrow> bool \<Rightarrow> ('w, watchdog_error, watchdog_result) io" where
  "run_campaign_watchdog h env campaign_id dry_run =
     io_bind (io_lift Watchdog_store (wd_load_snapshot env campaign_id)) (\<lambda>snapshot.
     io_bind (io_result (of_option Watchdog_request (wd_load_experiment env (sn_request snapshot)))) (\<lambda>spec.
     io_bind (io_result (lift_error Watchdog_projection (project_recovery h (sn_lock snapshot) (sn_events snapshot)))) (\<lambda>projection.
     io_bind (io_lift Watchdog_state (ss_read_status env campaign_id)) (\<lambda>status.
     io_bind (io_lift Watchdog_state (ss_read_claim env campaign_id)) (\<lambda>claim.
     io_bind (controller_jobs env (sn_lock snapshot)
         (case es_remote spec of Some remote \<Rightarrow> rj_namespace remote | None \<Rightarrow> [])) (\<lambda>jobs.
     io_bind (if dry_run then io_return ()
         else io_lift Watchdog_state (release_abandoned_provider_capacity env (sn_lock snapshot) jobs)) (\<lambda>_.
     io_bind (io_read (la_clock env)) (\<lambda>now.
       let planned = plan_controller_watchdog (sn_lock snapshot) status claim jobs
             (campaign_terminal (cp_status (rv_campaign projection))) now;
           unchanged = \<lparr>wr_campaign_id = campaign_id, wr_decision = planned, wr_submission = None\<rparr>
       in case planned of
            Watchdog_recover attempt \<Rightarrow>
              if dry_run then io_return unchanged
              else io_bind (recover_controller h env campaign_id snapshot spec status attempt) (\<lambda>submission.
                io_return (unchanged\<lparr>wr_submission := Some submission\<rparr>))
          | _ \<Rightarrow> io_return unchanged))))))))"

end
