(* ===== verification/Controller_Watchdog_Properties.thy ===== *)
theory Controller_Watchdog_Properties
  imports Controller_Launch_Properties Controller_Watchdog Sample_Campaign Sample_Manifest
begin

text \<open>
  The properties of the watchdog: when it replaces a controller, and what it does to the store
  and the Jobs, for arbitrary answers of its ports.
\<close>

section \<open>The calls of the watchdog\<close>

definition traced_watchdog :: "'w watchdog \<Rightarrow> ('w \<times> launch_call list) watchdog" where
  "traced_watchdog env =
     traced_launcher env (watchdog.fields (\<lambda>c. unnoted (wd_load_snapshot env c)) (wd_load_experiment env))"

text \<open>What freeing abandoned capacity does for one provider and for all.\<close>

definition frees_abandoned :: "string \<Rightarrow> string list \<Rightarrow> launch_call list \<Rightarrow> bool" where
  "frees_abandoned campaign_id active calls \<longleftrightarrow>
     \<not> list_ex is_run calls \<and>
     (\<forall>claim a. Capacity_freed claim a \<in> set calls \<longrightarrow>
        (\<exists>p. Capacity_read p (Inr (Some claim)) \<in> set calls) \<and>
        pc_campaign_id claim = campaign_id \<and> pc_job_id claim \<notin> set active)"

lemma release_one_adds:
  "wp_adds (release_abandoned_capacity (traced_launcher env ext) c active p) (\<lambda>r cs. frees_abandoned c active cs)"
proof -
  let ?next = "\<lambda>claim. case claim of None \<Rightarrow> io_return ()
    | Some k \<Rightarrow> if \<not> capacity_is_abandoned claim c active then io_return ()
        else ss_release_capacity (traced_launcher env ext) k"
  have "wp_adds (?next claim) (\<lambda>r cs. cs = [] \<or> (\<exists>k a. claim = Some k \<and> cs = [Capacity_freed k a] \<and>
      pc_campaign_id k = c \<and> pc_job_id k \<notin> set active))" for claim
    by (auto simp: capacity_is_abandoned_def traced_launcher_def intro!: wp_adds_return wp_adds_noted
        split: option.split)
  moreover have "wp_adds (ss_read_capacity (traced_launcher env ext) p) (\<lambda>r cs. cs = [Capacity_read p r])"
    by (simp add: traced_launcher_def wp_adds_noted)
  ultimately show ?thesis
    unfolding release_abandoned_capacity_def
    by (auto simp: frees_abandoned_def intro!: wp_adds_bind)
qed

lemma release_all_adds:
  "wp_adds (release_abandoned_provider_capacity (traced_launcher env ext) lock jobs)
     (\<lambda>r cs. frees_abandoned (cl_campaign_id lock) (map cj_job_id (filter (\<lambda>j. \<not> job_terminal j) jobs)) cs)"
  unfolding release_abandoned_provider_capacity_def
  by (rule wp_adds_bind [OF wp_adds_mapM [OF release_one_adds] wp_adds_return, where S = "\<lambda>_ r cs. cs = []"])
    (auto simp: frees_abandoned_def)

section \<open>Replacing a controller\<close>

lemma reserved_launch_adds:
  "wp_adds (launch_reserved_campaign_controller h (traced_launcher env ext) lock spec v)
     (\<lambda>r cs. launched_once v (controller_labels lock (at_attempt v)) cs)"
proof (cases "es_remote spec")
  case None
  then show ?thesis by (auto simp: launch_reserved_campaign_controller_def launched_none intro!: wp_adds_raise)
next
  case (Some remote)
  have last: "wp_adds (io_bind (io_result x) (\<lambda>p. io_return (g p))) (\<lambda>r cs. cs = [])"
    for x :: "launch_error + string" and g :: "string \<Rightarrow> controller_submission"
    by (auto intro!: wp_adds_result_bind wp_adds_return)
  show ?thesis
    unfolding launch_reserved_campaign_controller_def Some option.case io_require_def
    by (intro wp_adds_result_bind wp_adds_bind [OF launch_adds last]) (auto simp: launched_none)
qed

definition replaced_once :: "string \<Rightarrow> controller_status \<Rightarrow> int \<Rightarrow> launch_call list \<Rightarrow> bool" where
  "replaced_once c s n calls \<longleftrightarrow>
     \<not> list_ex is_run calls \<or>
     (\<exists>before d v labels more.
        calls = before @ [Recovery_written d (Inr ()), Attempt_reserved v (Inr ())] @ more \<and>
        rd_campaign_id d = c \<and> rd_prior_attempt d = ks_attempt s \<and> rd_replacement_attempt d = n \<and>
        at_attempt v = n \<and> \<not> list_ex is_run before \<and> launched_once v labels more)"

lemma replaced_none: "\<not> list_ex is_run cs \<Longrightarrow> replaced_once c s n cs"
  by (simp add: replaced_once_def)

lemma replaced_after: "replaced_once c s n cs \<Longrightarrow> \<not> list_ex is_run ds \<Longrightarrow> replaced_once c s n (ds @ cs)"
  unfolding replaced_once_def by (metis append_assoc list_ex_append)

interpretation replacing: quiet_prefix "\<lambda>cs. \<not> list_ex is_run cs" "\<lambda>r. replaced_once c s n" for c s n
  by unfold_locales (auto intro: replaced_none replaced_after)

text \<open>The end of a recovery: its records are written, then the replacement is launched.\<close>

lemma replacement_adds:
  assumes "rd_campaign_id d = c" "rd_prior_attempt d = ks_attempt s" "rd_replacement_attempt d = n" "at_attempt v = n"
  shows "wp_adds (io_bind (io_lift Watchdog_state (ss_write_recovery (traced_launcher env ext) d)) (\<lambda>_.
     io_bind (io_lift Watchdog_state (ss_reserve_attempt (traced_launcher env ext) v)) (\<lambda>_.
       io_lift Watchdog_launch (launch_reserved_campaign_controller h (traced_launcher env ext) lock spec v))))
     (\<lambda>r. replaced_once c s n)"
proof -
  let ?E = "traced_launcher env ext"
  let ?labels = "controller_labels lock (at_attempt v)"
  have launch: "wp_adds (io_lift Watchdog_launch (launch_reserved_campaign_controller h ?E lock spec v))
      (\<lambda>r cs. launched_once v ?labels cs)"
    by (rule wp_adds_lift) (rule reserved_launch_adds)
  have reserve: "wp_adds (io_lift Watchdog_state (ss_reserve_attempt ?E v))
      (\<lambda>r cs. (\<exists>a. cs = [Attempt_reserved v a]) \<and> (r = Inr () \<longrightarrow> cs = [Attempt_reserved v (Inr ())]))"
    and noted: "wp_adds (io_lift Watchdog_state (ss_write_recovery ?E d))
      (\<lambda>r cs. (\<exists>a. cs = [Recovery_written d a]) \<and> (r = Inr () \<longrightarrow> cs = [Recovery_written d (Inr ())]))"
    by (auto simp: traced_launcher_def lift_error_Inr_iff intro!: wp_adds_lift wp_adds_noted)
  have rest: "wp_adds (io_bind (io_lift Watchdog_state (ss_reserve_attempt ?E v)) (\<lambda>_.
       io_lift Watchdog_launch (launch_reserved_campaign_controller h ?E lock spec v)))
      (\<lambda>r cs. \<not> list_ex is_run cs \<or> (\<exists>more. cs = Attempt_reserved v (Inr ()) # more \<and> launched_once v ?labels more))"
    by (rule wp_adds_bind [OF reserve launch]) auto
  show ?thesis
    by (rule wp_adds_bind [OF noted rest])
      (use assms in \<open>fastforce simp: replaced_once_def intro: exI [of _ "[]"]\<close>)+
qed

lemma reads_quiet:
  "wp_adds (io_lift Watchdog_state (ss_read_attempt (traced_launcher env ext) c n)) (\<lambda>r cs. \<not> list_ex is_run cs)"
  "wp_adds (io_lift Watchdog_state (ss_read_recovery (traced_launcher env ext) c n)) (\<lambda>r cs. \<not> list_ex is_run cs)"
  "wp_adds (recovery_time (traced_launcher env ext) a b) (\<lambda>r cs. \<not> list_ex is_run cs)"
  by (auto simp: recovery_time_def traced_launcher_def intro!: wp_adds_lift wp_adds_noted wp_adds_return wp_adds_read
      split: option.split)

lemma recover_adds:
  fixes env :: "'w watchdog"
  shows "wp_adds (recover_controller h (traced_watchdog env) c snapshot spec (Some s) n) (\<lambda>r. replaced_once c s n)"
  unfolding recover_controller_def of_option_def option.case Let_def traced_watchdog_def
  by (intro wp_adds_result_bind replacing.bind reads_quiet replacement_adds)
    (auto simp: replaced_none recovery_for_def replacement_for_def)

section \<open>The whole watchdog\<close>

lemma recover_decision_iff:
  "plan_controller_watchdog lock status claim jobs is_terminal now = Watchdog_recover n \<longleftrightarrow>
     (\<exists>policy s. cl_controller_policy lock = Some policy \<and> status = Some s \<and>
        \<not> is_terminal \<and> list_all job_terminal jobs \<and>
        (claim = None \<or> (\<exists>k. claim = Some k \<and> kc_expires_at k \<le> now)) \<and>
        ks_state s \<in> set retryable_states \<and> ks_attempt s < cc_max_attempts policy \<and>
        n = ks_attempt s + 1)"
proof (cases "cl_controller_policy lock")
  case (Some policy)
  show ?thesis
  proof (cases status)
    case None
    with Some show ?thesis by (simp add: plan_controller_watchdog_def status_recovery_decision_def)
  next
    case (Some s)
    with \<open>cl_controller_policy lock = Some policy\<close> show ?thesis
      by (cases "ks_state s"; cases claim)
        (auto simp: plan_controller_watchdog_def status_recovery_decision_def retryable_states_def
          filter_empty_conv list_all_iff)
  qed
qed (simp add: plan_controller_watchdog_def)

definition harmless :: "bool \<Rightarrow> launch_call list \<Rightarrow> bool" where
  "harmless dry calls \<longleftrightarrow> \<not> list_ex is_run calls \<and> (dry \<longrightarrow> \<not> list_ex is_write calls)"

definition watchdog_effect :: "bool \<Rightarrow> string \<Rightarrow> controller_status option \<Rightarrow> launch_call list \<Rightarrow> bool" where
  "watchdog_effect dry c status calls \<longleftrightarrow>
     harmless dry calls \<or>
     (\<not> dry \<and> (\<exists>s. status = Some s \<and> ks_state s \<in> set retryable_states \<and> replaced_once c s (ks_attempt s + 1) calls))"

interpretation effects: quiet_prefix "harmless dry" "\<lambda>r. watchdog_effect dry c status" for dry c status
  by unfold_locales (auto simp: watchdog_effect_def harmless_def intro: replaced_after)

lemma jobs_harmless: "wp_adds (controller_jobs (traced_launcher env ext) lock ns) (\<lambda>r. harmless dry)"
proof -
  let ?E = "traced_launcher env ext"
  have list: "wp_adds (io_lift Watchdog_jobs (la_list_jobs ?E l ns)) (\<lambda>r cs. \<exists>a. cs = [Jobs_call l a])" for l
    by (auto simp: traced_launcher_def intro!: wp_adds_lift wp_adds_noted)
  have rest: "wp_adds (io_bind (io_result x) (\<lambda>jobs. io_return (sort_key cj_attempt jobs))) (\<lambda>r cs. cs = [])"
    for x :: "watchdog_error + controller_job list"
    by (auto intro!: wp_adds_result_bind wp_adds_return)
  show ?thesis
    unfolding controller_jobs_def io_require_def
    by (intro wp_adds_result_bind wp_adds_bind [OF list rest]) (auto simp: harmless_def)
qed

lemma free_harmless:
  "wp_adds (if dry then io_return () else io_lift Watchdog_state (release_abandoned_provider_capacity (traced_launcher env ext) lock jobs))
     (\<lambda>r. harmless dry)"
  by (auto simp: harmless_def frees_abandoned_def intro!: wp_adds_return wp_adds_lift wp_adds_mono [OF release_all_adds])

lemma decision_adds:
  assumes "planned = plan_controller_watchdog lock status claim jobs is_terminal now"
  shows "wp_adds (case planned of
            Watchdog_recover attempt \<Rightarrow>
              if dry then io_return u
              else io_bind (recover_controller h (traced_watchdog env) c snapshot spec status attempt) (\<lambda>x. io_return (g x))
          | _ \<Rightarrow> io_return u) (\<lambda>r. watchdog_effect dry c status)"
proof (cases planned)
  case (Watchdog_recover n)
  with assms recover_decision_iff [of lock status claim jobs is_terminal now n]
  obtain s where s: "status = Some s" "ks_state s \<in> set retryable_states" "n = ks_attempt s + 1" by auto
  have "wp_adds (io_bind (recover_controller h (traced_watchdog env) c snapshot spec status n) (\<lambda>x. io_return (g x)))
      (\<lambda>r. replaced_once c s n)"
    unfolding s(1) by (rule wp_adds_bind [OF recover_adds wp_adds_return, where S = "\<lambda>_ r cs. cs = []"]) auto
  then show ?thesis
    using Watchdog_recover s
    by (auto simp: watchdog_effect_def harmless_def intro!: wp_adds_return elim: wp_adds_mono)
qed (auto simp: watchdog_effect_def harmless_def intro!: wp_adds_return)

lemma watchdog_adds:
  "wp_adds (run_campaign_watchdog h (traced_watchdog env) c dry)
     (\<lambda>r cs. harmless dry cs \<or> (\<exists>s more. \<not> dry \<and> cs = Status_read c (Inr (Some s)) # more \<and>
        ks_state s \<in> set retryable_states \<and> replaced_once c s (ks_attempt s + 1) more))" (is "wp_adds _ ?T")
proof -
  have status: "wp_adds (io_lift Watchdog_state (ss_read_status (traced_watchdog env) c))
      (\<lambda>r cs. \<exists>a. cs = [Status_read c a] \<and> (\<forall>x. r = Inr x \<longrightarrow> a = Inr x))"
    by (auto simp: traced_watchdog_def traced_launcher_def lift_error_Inr_iff intro!: wp_adds_lift wp_adds_noted)
  have quiet: "wp_adds (io_lift Watchdog_store (wd_load_snapshot (traced_watchdog env) c)) (\<lambda>r cs. cs = [])"
    by (auto simp: traced_watchdog_def traced_launcher_def watchdog.defs intro!: wp_adds_lift wp_adds_unnoted)
  have claim: "wp_adds (io_lift Watchdog_state (ss_read_claim (traced_watchdog env) c)) (\<lambda>r. harmless dry)"
    and clock: "wp_adds (io_read (la_clock (traced_watchdog env))) (\<lambda>r. harmless dry)"
    by (auto simp: traced_watchdog_def traced_launcher_def harmless_def intro!: wp_adds_lift wp_adds_unnoted wp_adds_read)
  have step: "wp_adds (controller_jobs (traced_watchdog env) lock ns) (\<lambda>r. harmless dry)"
    "wp_adds (if dry then io_return ()
       else io_lift Watchdog_state (release_abandoned_provider_capacity (traced_watchdog env) lock jobs)) (\<lambda>r. harmless dry)"
    for lock ns jobs
    unfolding traced_watchdog_def by (rule jobs_harmless, rule free_harmless)
  show ?thesis
    unfolding run_campaign_watchdog_def Let_def
    apply (rule wp_adds_bind [OF quiet, where S = "\<lambda>_. ?T"])
    apply (intro wp_adds_result_bind)
    apply (rule wp_adds_bind [OF status, where S = "\<lambda>status r. watchdog_effect dry c status"])
    apply (intro effects.bind claim clock step decision_adds refl)
    apply (auto simp: watchdog_effect_def harmless_def)
    done
qed

section \<open>Properties\<close>

text \<open>
  A campaign whose controller, attempt 1 with a Job that ended, published that it was running,
  and whose claim is gone. The first attempt was reserved, the second was not.
\<close>

definition lost_status :: controller_status where
  "lost_status =
     \<lparr>ks_campaign_id = ''c'', ks_plan_digest = ''pd'', ks_job_id = ''job-1'', ks_attempt = 1, ks_state = KS_running,
      ks_heartbeat_at = 5, ks_lease_expires_at = 9, ks_physical_deadline = 100, ks_remaining_seconds = 50,
      ks_projection = \<lparr>kn_logical_trials = 2, kn_terminal_trials = 0, kn_active_trials = 0, kn_physical_executions = 0\<rparr>,
      ks_current_action = None, ks_current_wave = None, ks_spend_reserved_microusd = 0, ks_block_reason = None,
      ks_event_revision = None, ks_evidence_revision = None, ks_capacity = None\<rparr>"

definition lost_attempt :: attempt_reservation where
  "lost_attempt =
     \<lparr>at_campaign_id = ''c'', at_plan_digest = ''pd'', at_input_digest = ''input'',
      at_input_uri = ''hf://buckets/org/in'', at_output_uri = ''hf://buckets/org/out'',
      at_worker_revision = replicate 40 CHR ''a'', at_attempt = 1, at_reserved_at = 0\<rparr>"

definition lost_watchdog :: "unit watchdog" where
  "lost_watchdog =
     launcher.extend ((idle_launcher sample_job_id)\<lparr>
       ss_read_status := (\<lambda>c. io_return (Some lost_status)),
       ss_read_attempt := (\<lambda>c n. io_return (if n = 1 then Some lost_attempt else None)),
       la_environment := \<lparr>env_variable = (\<lambda>n. None), env_job_token = Some ''token''\<rparr>\<rparr>)
     (watchdog.fields (\<lambda>c. io_return \<lparr>sn_lock = sample_lock, sn_events = [sample_submitted],
         sn_request = Text_file [], sn_control_commit = ''head''\<rparr>) (\<lambda>f. Some sample_manifest))"

definition sample_watch :: "(watchdog_error + watchdog_result) \<times> (unit \<times> launch_call list)" where
  "sample_watch = run_campaign_watchdog sample_hash (traced_watchdog lost_watchdog) ''c'' True ((), [])"

lemma sample_watch_result:
  "(fst sample_watch, length (snd (snd sample_watch))) =
   (Inr \<lparr>wr_campaign_id = ''c'', wr_decision = Watchdog_recover 2, wr_submission = None\<rparr>, 2)"
  by code_simp

text \<open>
  C16. The watchdog replaces a controller exactly when the campaign has a controller policy and is
  not terminal, no controller Job of the campaign is active, the controller claim is absent or
  expired, the published state is one of the retryable ones (starting, running, waiting to
  retry, finalizing, failed by infrastructure) and the attempt limit is not reached; the
  replacement is the attempt after the published one.
\<close>

theorem watchdog_recovers_lost_controllers:
  "plan_controller_watchdog lock status claim jobs is_terminal now = Watchdog_recover n \<longleftrightarrow>
     (\<exists>policy s. cl_controller_policy lock = Some policy \<and> status = Some s \<and>
        \<not> is_terminal \<and> list_all job_terminal jobs \<and>
        (claim = None \<or> (\<exists>k. claim = Some k \<and> kc_expires_at k \<le> now)) \<and>
        ks_state s \<in> {KS_starting, KS_running, KS_waiting_retry, KS_finalizing, KS_failed_infrastructure} \<and>
        ks_attempt s < cc_max_attempts policy \<and> n = ks_attempt s + 1)"
  using recover_decision_iff by (simp add: retryable_states_def)

text \<open>
  C15. What the watchdog does, whatever its ports answer. A dry run writes nothing. Otherwise it
  runs a launch command at most once, and only after it read a retryable controller status,
  wrote the recovery decision from that attempt to the next one and reserved the next attempt,
  in this order; the launch then follows the protocol of that attempt.
\<close>

theorem watchdog_replaces_once:
  assumes "run_campaign_watchdog h (traced_watchdog env) c dry (w, []) = (r, (w', calls))"
  shows "(dry \<longrightarrow> \<not> list_ex is_write calls) \<and>
    (\<not> list_ex is_run calls \<or>
     (\<exists>s before d v labels more.
        calls = Status_read c (Inr (Some s)) # before @ [Recovery_written d (Inr ()), Attempt_reserved v (Inr ())] @ more \<and>
        ks_state s \<in> set retryable_states \<and> rd_campaign_id d = c \<and> rd_prior_attempt d = ks_attempt s \<and>
        rd_replacement_attempt d = ks_attempt s + 1 \<and> at_attempt v = ks_attempt s + 1 \<and>
        \<not> list_ex is_run before \<and> launched_once v labels more))"
proof -
  from wp_addsD [OF watchdog_adds assms] consider "harmless dry calls"
    | s more where "\<not> dry" "calls = Status_read c (Inr (Some s)) # more"
      "ks_state s \<in> set retryable_states" "replaced_once c s (ks_attempt s + 1) more" by auto
  then show ?thesis
  proof cases
    case 2
    then show ?thesis by (simp add: replaced_once_def)
  qed (simp add: harmless_def)
qed

theorem watchdog_replaces_once_witness:
  "fst sample_watch = Inr \<lparr>wr_campaign_id = ''c'', wr_decision = Watchdog_recover 2, wr_submission = None\<rparr> \<and>
   \<not> list_ex is_write (snd (snd sample_watch))"
proof -
  obtain r w' calls where run: "sample_watch = (r, (w', calls))" by (metis prod.exhaust)
  from watchdog_replaces_once [OF run [unfolded sample_watch_def]] have "\<not> list_ex is_write calls" by simp
  with sample_watch_result show ?thesis unfolding run by simp
qed

text \<open>
  The watchdog frees provider capacity only when it was abandoned: a claim that it releases
  was read from the store just for that, belongs to the campaign of the watchdog, and names a
  Job that is not an active controller Job of the campaign.
\<close>

theorem watchdog_frees_abandoned_capacity:
  assumes "release_abandoned_provider_capacity (traced_watchdog env) lock jobs (w, []) = (r, (w', calls))"
    and "Capacity_freed claim a \<in> set calls"
  shows "(\<exists>p. Capacity_read p (Inr (Some claim)) \<in> set calls) \<and> pc_campaign_id claim = cl_campaign_id lock \<and>
    \<not> list_ex (\<lambda>j. cj_job_id j = pc_job_id claim \<and> \<not> job_terminal j) jobs"
proof -
  have "frees_abandoned (cl_campaign_id lock) (map cj_job_id (filter (\<lambda>j. \<not> job_terminal j) jobs)) calls"
    by (rule wp_addsD [OF release_all_adds assms(1) [unfolded traced_watchdog_def]])
  then have "(\<exists>p. Capacity_read p (Inr (Some claim)) \<in> set calls) \<and> pc_campaign_id claim = cl_campaign_id lock \<and>
      pc_job_id claim \<notin> set (map cj_job_id (filter (\<lambda>j. \<not> job_terminal j) jobs))"
    using assms(2) unfolding frees_abandoned_def by blast
  then show ?thesis by (auto simp: list_ex_iff image_iff)
qed

definition abandoned_capacity :: capacity_claim where
  "abandoned_capacity =
     \<lparr>pc_provider = ''p'', pc_campaign_id = ''c'', pc_plan_digest = ''pd'', pc_job_id = ''job-1'', pc_attempt = 1,
      pc_action_id = ''act'', pc_acquired_at = 1\<rparr>"

definition ended_job :: controller_job where
  "ended_job = \<lparr>cj_job_id = ''job-1'', cj_stage = ''Error'', cj_attempt = 1\<rparr>"

definition sample_release :: "(status_error failure + unit) \<times> (unit \<times> launch_call list)" where
  "sample_release = release_abandoned_provider_capacity
     (traced_watchdog (lost_watchdog\<lparr>ss_read_capacity := (\<lambda>p. io_return (Some abandoned_capacity))\<rparr>))
     (sample_lock\<lparr>cl_runs := [sample_run\<lparr>ra_provider := Some ''p''\<rparr>]\<rparr>) [ended_job] ((), [])"

theorem watchdog_frees_abandoned_capacity_witness:
  "Capacity_freed abandoned_capacity (Inr ()) \<in> set (snd (snd sample_release)) \<and>
   pc_campaign_id abandoned_capacity = ''c''"
proof -
  obtain r w' calls where run: "sample_release = (r, (w', calls))" by (metis prod.exhaust)
  have freed: "Capacity_freed abandoned_capacity (Inr ()) \<in> set (snd (snd sample_release))" by code_simp
  then have "Capacity_freed abandoned_capacity (Inr ()) \<in> set calls" unfolding run by simp
  from watchdog_frees_abandoned_capacity [OF run [unfolded sample_release_def] this] freed
  show ?thesis by (simp add: sample_lock_def)
qed

end
