(* ===== verification/Controller_Admission.thy ===== *)
theory Controller_Admission
  imports Controller_Store Complex_Main
begin

text \<open>
  The remaining-time rule of \<open>src/src/harbor_hf/controller_admission.py\<close>: whether the next
  wave, with the controller's reserve, still fits the time of the physical Job.

  Readings of the monotonic clock are rational numbers, so the difference of two readings is
  exact here, where the code rounds it to a double. The projection of observed trial durations
  (\<open>assess_observed_capacity\<close>) is arithmetic on doubles and is an argument of the controller.
\<close>

datatype admission_decision = AD_admit | AD_wait | AD_finalize | AD_pause_capacity | AD_pause_policy

record remaining_time_input =
  ri_physical_started_monotonic :: rat
  ri_physical_timeout_seconds :: int
  ri_monotonic_now :: rat
  ri_controller_reserve_seconds :: int
  ri_planned_next_wave_seconds :: "int option"
  ri_work_remaining :: bool
  ri_active_cleanup_required :: bool
  ri_capacity_assumptions_valid :: bool
  ri_policy_allows_work :: bool

definition remaining_time_input_ok :: "remaining_time_input \<Rightarrow> bool" where
  "remaining_time_input_ok v \<longleftrightarrow>
     0 \<le> ri_physical_started_monotonic v \<and> 1 \<le> ri_physical_timeout_seconds v \<and> 0 \<le> ri_monotonic_now v \<and>
     1 \<le> ri_controller_reserve_seconds v \<and> opt_ge 1 (ri_planned_next_wave_seconds v) \<and>
     \<not> ri_monotonic_now v < ri_physical_started_monotonic v \<and>
     (ri_work_remaining v \<longleftrightarrow> ri_planned_next_wave_seconds v \<noteq> None)"

record remaining_time_admission =
  rx_decision :: admission_decision
  rx_elapsed_seconds :: int
  rx_available_seconds :: int
  rx_required_seconds :: int
  rx_reason :: string

definition elapsed_seconds :: "rat \<Rightarrow> rat \<Rightarrow> int" where
  "elapsed_seconds now started = max 0 \<lfloor>now - started\<rfloor>"

definition admission_of :: "admission_decision \<Rightarrow> int \<Rightarrow> int \<Rightarrow> int \<Rightarrow> string \<Rightarrow> remaining_time_admission" where
  "admission_of d elapsed available required reason =
     \<lparr>rx_decision = d, rx_elapsed_seconds = elapsed, rx_available_seconds = available,
      rx_required_seconds = required, rx_reason = reason\<rparr>"

definition decide_remaining_time :: "remaining_time_input \<Rightarrow> remaining_time_admission" where
  "decide_remaining_time v =
     (let elapsed = elapsed_seconds (ri_monotonic_now v) (ri_physical_started_monotonic v);
          available = max 0 (ri_physical_timeout_seconds v - elapsed);
          next_wave = (case ri_planned_next_wave_seconds v of Some n \<Rightarrow> n | None \<Rightarrow> 0);
          reserve = ri_controller_reserve_seconds v;
          required = reserve + next_wave
      in if \<not> ri_policy_allows_work v then admission_of AD_pause_policy elapsed available required ''policy block''
         else if \<not> ri_capacity_assumptions_valid v then
           admission_of AD_pause_capacity elapsed available required
             ''observed throughput invalidated the locked duration bound''
         else if ri_active_cleanup_required v then
           admission_of AD_wait elapsed available reserve ''active cleanup must finish before new work''
         else if \<not> ri_work_remaining v then
           admission_of AD_finalize elapsed available reserve ''no billable work remains''
         else if available \<ge> required then
           admission_of AD_admit elapsed available required ''next wave fits the physical deadline''
         else admission_of AD_pause_capacity elapsed available required
           ''next wave does not fit the physical deadline with reserve'')"

text \<open>The decision is to admit exactly when the wave and the reserve fit what is left.\<close>

lemma admit_iff:
  assumes "remaining_time_input_ok v"
  shows "rx_decision (decide_remaining_time v) = AD_admit \<longleftrightarrow>
    ri_policy_allows_work v \<and> ri_capacity_assumptions_valid v \<and> \<not> ri_active_cleanup_required v \<and>
    (\<exists>n. ri_planned_next_wave_seconds v = Some n \<and>
      \<lfloor>ri_monotonic_now v - ri_physical_started_monotonic v\<rfloor> + ri_controller_reserve_seconds v + n
        \<le> ri_physical_timeout_seconds v)"
proof (cases "ri_planned_next_wave_seconds v")
  case None
  with assms show ?thesis by (simp add: decide_remaining_time_def admission_of_def remaining_time_input_ok_def Let_def)
next
  case (Some n)
  have nonneg: "0 \<le> \<lfloor>ri_monotonic_now v - ri_physical_started_monotonic v\<rfloor>"
    using assms by (simp add: remaining_time_input_ok_def)
  have fits: "q + n \<le> max 0 (t - e) \<longleftrightarrow> e + q + n \<le> t" if "1 \<le> q" "1 \<le> n" for t e q :: int
    using that by auto
  from assms Some nonneg show ?thesis
    by (simp add: decide_remaining_time_def admission_of_def remaining_time_input_ok_def elapsed_seconds_def opt_ge_def
        Let_def) (auto simp: fits)
qed

end
