(* ===== verification/Campaign_Controller.thy ===== *)
theory Campaign_Controller
  imports Controller_Launch Controller_Admission Reconciler
begin

text \<open>
  The campaign controller, \<open>src/src/harbor_hf/campaign_controller.py\<close>: one physical Job that
  claims the campaign, plans and applies one action at a time until the campaign is terminal or
  paused, publishes its status, and ends its attempt.

  The ports are the controller records (\<open>'w state_store\<close>), the campaign store, the reconciler
  (\<open>apply_campaign\<close>, \<open>refresh_observation\<close>), the preparation of the sources, the clocks, the stop
  signal and the heartbeat thread: its claim and whether it was lost, as the controller reads
  them (\<open>heartbeat_step\<close> is one turn of the thread). \<open>ke_assess\<close> is \<open>assess_observed_capacity\<close>
  applied to the published durations, and \<open>ke_text\<close> the text of an exception.
\<close>

section \<open>Errors\<close>

text \<open>\<open>Port_value_error\<close> is a \<open>ValueError\<close> of a port or a record that a validator refuses.\<close>

datatype controller_error =
    Controller_without_lock
  | Controller_attempts_exhausted
  | Controller_not_reserved
  | Controller_input_changed
  | Controller_start_in_future
  | Controller_without_remote
  | Controller_without_policy
  | Controller_iterations_exhausted
  | Controller_without_provider
  | Action_not_billable
  | Action_duration campaign_error
  | Controller_state "status_error failure"
  | Controller_store "store_error failure"
  | Controller_plan reconcile_error
  | Port_value_error
  | Port_other_error

text \<open>The class of an exception, as far as the handlers of \<open>run\<close> tell them apart.\<close>

fun plan_value_error :: "reconcile_error \<Rightarrow> bool" where
  "plan_value_error (Recovery_failure (Control_failure e)) = False"
| "plan_value_error Missing_projection = False"
| "plan_value_error _ = True"

fun is_value_error :: "controller_error \<Rightarrow> bool" where
  "is_value_error (Controller_store (Raised Record_invalid)) = True"
| "is_value_error (Controller_plan e) = plan_value_error e"
| "is_value_error Port_value_error = True"
| "is_value_error _ = False"

definition failure_state :: "controller_error \<Rightarrow> controller_state" where
  "failure_state e = (if is_value_error e then KS_failed_deterministic else KS_failed_infrastructure)"

section \<open>Ports and settings\<close>

record 'w controller_env = "'w state_store" +
  ke_load_campaign :: "string \<Rightarrow> ('w, store_error failure, campaign_lock \<times> event list) io"
  ke_refresh_observation :: "string \<Rightarrow> ('w, controller_error, unit) io"
  ke_apply_campaign :: "string \<Rightarrow> reconcile_context \<Rightarrow> string option \<Rightarrow> ('w, controller_error, string list) io"
  ke_prepare :: "source_pin \<Rightarrow> ('w, controller_error, unit) io"
  ke_assess :: "campaign_lock \<Rightarrow> int \<Rightarrow> int \<Rightarrow> int \<Rightarrow> int \<Rightarrow> int \<Rightarrow> controller_spec \<Rightarrow>
    ('w, controller_error, capacity_evidence option) io"
  ke_clock :: "'w \<Rightarrow> int \<times> 'w"
  ke_monotonic :: "'w \<Rightarrow> rat \<times> 'w"
  ke_sleep :: "int \<Rightarrow> 'w \<Rightarrow> unit \<times> 'w"
  ke_stop_requested :: "'w \<Rightarrow> bool \<times> 'w"
  ke_start_heartbeat :: "controller_claim \<Rightarrow> int \<Rightarrow> int \<Rightarrow> 'w \<Rightarrow> unit \<times> 'w"
  ke_stop_heartbeat :: "'w \<Rightarrow> unit \<times> 'w"
  ke_heartbeat_lost :: "'w \<Rightarrow> bool \<times> 'w"
  ke_heartbeat_claim :: "'w \<Rightarrow> controller_claim \<times> 'w"
  ke_text :: "controller_error \<Rightarrow> string"
  ke_hash :: hash

record controller_setup =
  kx_lock :: campaign_lock
  kx_spec :: experiment_spec
  kx_input_digest :: string
  kx_job_id :: string
  kx_attempt :: int
  kx_prior_job_terminal :: bool
  kx_physical_started_at :: "int option"
  kx_max_iterations :: "int option"

record iteration_result =
  ir_state :: controller_state
  ir_finished :: bool
  ir_message :: "string option"

record controller_result =
  cx_campaign_id :: string
  cx_job_id :: string
  cx_attempt :: int
  cx_state :: controller_state
  cx_iterations :: int
  cx_message :: "string option"

definition controller_remote :: "controller_setup \<Rightarrow> controller_error + remote_spec" where
  "controller_remote k = of_option Controller_without_remote (es_remote (kx_spec k))"

section \<open>Pure parts\<close>

definition trial_closed :: "trial_projection \<Rightarrow> bool" where
  "trial_closed t \<longleftrightarrow> tr_status t \<in> {NS_complete, NS_invalid, NS_failed_infrastructure, NS_cancelled}"

definition controller_projection_counts :: "recovery_projection \<Rightarrow> controller_counts" where
  "controller_projection_counts p =
     \<lparr>kn_logical_trials = int (length (rv_trials p)),
      kn_terminal_trials = int (length (filter trial_closed (dict_values (rv_trials p)))),
      kn_active_trials = int (length (filter (\<lambda>t. tr_status t = NS_active) (dict_values (rv_trials p)))),
      kn_physical_executions = int (length (rv_executions p))\<rparr>"

fun terminal_controller_state :: "campaign_status \<Rightarrow> controller_state option" where
  "terminal_controller_state CS_completed = Some KS_completed"
| "terminal_controller_state CS_cancelled = Some KS_completed"
| "terminal_controller_state CS_partial = Some KS_failed_deterministic"
| "terminal_controller_state CS_failed = Some KS_failed_deterministic"
| "terminal_controller_state _ = None"

definition action_state :: "reconcile_action option \<Rightarrow> controller_state" where
  "action_state action =
     (case action of
        None \<Rightarrow> KS_finalizing
      | Some a \<Rightarrow> if ca_kind a \<in> {AK_publish_results, AK_publish_summary} then KS_finalizing else KS_running)"

definition billable_action :: "reconcile_action \<Rightarrow> bool" where
  "billable_action a \<longleftrightarrow> ca_kind a \<in> {AK_submit_wave, AK_retry_shard}"

definition planned_action_seconds :: "campaign_lock \<Rightarrow> reconcile_action \<Rightarrow> controller_error + int" where
  "planned_action_seconds lock a =
     (if \<not> billable_action a then Inl Action_not_billable
      else lift_error Action_duration (locked_provider_action_seconds lock
        (if ca_kind a = AK_submit_wave then Submit_wave else Retry_shard)
        (ca_deployment_digest a) (ca_shard_ids a) (int (length (ca_trial_ids a)))))"

fun block_reason_name :: "block_reason \<Rightarrow> string" where
  "block_reason_name BR_global_budget = ''global-budget''"
| "block_reason_name BR_deployment_budget = ''deployment-budget''"
| "block_reason_name BR_provider_budget = ''provider-budget''"
| "block_reason_name BR_campaign_budget = ''campaign-budget''"
| "block_reason_name BR_spend_cap = ''spend-cap''"
| "block_reason_name BR_spend_estimate_missing = ''spend-estimate-missing''"
| "block_reason_name BR_backoff = ''backoff''"

fun join_comma :: "string list \<Rightarrow> string" where
  "join_comma [] = []"
| "join_comma [s] = s"
| "join_comma (s # ss) = s @ '', '' @ join_comma ss"

definition result_after_apply :: "string list \<Rightarrow> blocked_action list \<Rightarrow> controller_state \<Rightarrow> iteration_result" where
  "result_after_apply applied blocked state =
     (if applied \<noteq> [] then \<lparr>ir_state = state, ir_finished = False, ir_message = None\<rparr>
      else let policy_reasons = remdups (filter (\<lambda>n. n \<noteq> ''backoff'') (map (\<lambda>b. block_reason_name (ba_reason b)) blocked)) in
        if policy_reasons \<noteq> []
        then \<lparr>ir_state = KS_paused_policy, ir_finished = True, ir_message = Some (join_comma (sort policy_reasons))\<rparr>
        else \<lparr>ir_state = KS_waiting_retry, ir_finished = False, ir_message = None\<rparr>)"

section \<open>Status and capacity\<close>

definition second :: int where
  "second = 1000000"

definition status_for ::
  "controller_claim \<Rightarrow> controller_state \<Rightarrow> recovery_projection \<Rightarrow> int \<Rightarrow> int \<Rightarrow> int \<Rightarrow> int \<Rightarrow>
   reconcile_action option \<Rightarrow> string option \<Rightarrow> capacity_evidence option \<Rightarrow> controller_status" where
  "status_for claim state p started_at timeout now elapsed action block_reason capacity =
     \<lparr>ks_campaign_id = kc_campaign_id claim, ks_plan_digest = kc_plan_digest claim, ks_job_id = kc_job_id claim,
      ks_attempt = kc_attempt claim, ks_state = state, ks_heartbeat_at = max now (kc_heartbeat_at claim),
      ks_lease_expires_at = max (kc_expires_at claim) (now + second),
      ks_physical_deadline = started_at + timeout * second,
      ks_remaining_seconds = max 0 (timeout - elapsed),
      ks_projection = controller_projection_counts p,
      ks_current_action = map_option ac_action_id action, ks_current_wave = Option.bind action ca_wave_id,
      ks_spend_reserved_microusd = rv_spend_microusd p, ks_block_reason = block_reason,
      ks_event_revision = None, ks_evidence_revision = None, ks_capacity = capacity\<rparr>"

definition controller_write_status ::
  "('w, 'm) controller_env_scheme \<Rightarrow> controller_setup \<Rightarrow> controller_claim \<Rightarrow> controller_state \<Rightarrow>
   recovery_projection \<Rightarrow> int \<Rightarrow> rat \<Rightarrow> reconcile_action option \<Rightarrow> string option \<Rightarrow> capacity_evidence option \<Rightarrow>
   ('w, controller_error, unit) io" where
  "controller_write_status env k claim state p started_at started_monotonic action block_reason capacity =
     io_bind (io_read (ke_clock env)) (\<lambda>now.
     io_bind (io_read (ke_monotonic env)) (\<lambda>monotonic.
     io_bind (io_result (controller_remote k)) (\<lambda>remote.
       let status = status_for claim state p started_at (rj_timeout_seconds remote) now
             (elapsed_seconds monotonic started_monotonic) action block_reason capacity in
       io_bind (io_require (controller_status_ok status) Port_value_error) (\<lambda>_.
         io_lift Controller_state (ss_write_status env status)))))"

text \<open>\<open>max\<close> and \<open>min\<close> over the initial waves, of which there is at least one.\<close>

definition waves_max :: "campaign_lock \<Rightarrow> int" where
  "waves_max lock = foldr (\<lambda>w n. max (liw_trial_count w) n) (tl (cl_initial_waves lock)) (liw_trial_count (hd (cl_initial_waves lock)))"

definition waves_min :: "campaign_lock \<Rightarrow> int" where
  "waves_min lock = foldr (\<lambda>w n. min (liw_effective_concurrency w) n) (tl (cl_initial_waves lock))
     (liw_effective_concurrency (hd (cl_initial_waves lock)))"

definition capacity_evidence_for ::
  "('w, 'm) controller_env_scheme \<Rightarrow> controller_setup \<Rightarrow> campaign_lock \<Rightarrow> recovery_projection \<Rightarrow> rat \<Rightarrow>
   ('w, controller_error, capacity_evidence option) io" where
  "capacity_evidence_for env k lock p started_monotonic =
     (case cl_controller_policy lock of
        None \<Rightarrow> io_return None
      | Some policy \<Rightarrow>
          if cl_initial_waves lock = [] then io_return None
          else
            io_bind (io_read (ke_monotonic env)) (\<lambda>monotonic.
            io_bind (io_result (controller_remote k)) (\<lambda>remote.
              let elapsed = elapsed_seconds monotonic started_monotonic;
                  timeout = rj_timeout_seconds remote;
                  remaining = int (length (filter (\<lambda>t. \<not> trial_closed t) (dict_values (rv_trials p))));
                  remaining_waves = (if remaining = 0 then 0 else (remaining + waves_max lock - 1) div waves_max lock)
              in ke_assess env lock elapsed (waves_min lock) remaining remaining_waves (max 0 (timeout - elapsed)) policy)))"

section \<open>Admission\<close>

datatype action_admission = Admit | Wait | Finalize | Pause_capacity | Pause_policy

fun admission_outcome :: "admission_decision \<Rightarrow> action_admission" where
  "admission_outcome AD_admit = Admit"
| "admission_outcome AD_wait = Wait"
| "admission_outcome AD_finalize = Finalize"
| "admission_outcome AD_pause_capacity = Pause_capacity"
| "admission_outcome AD_pause_policy = Pause_policy"

definition admit_action ::
  "('w, 'm) controller_env_scheme \<Rightarrow> controller_setup \<Rightarrow> campaign_lock \<Rightarrow> reconcile_action option \<Rightarrow> rat \<Rightarrow>
   capacity_evidence option \<Rightarrow> ('w, controller_error, action_admission) io" where
  "admit_action env k lock action started_monotonic capacity =
     (case action of
        None \<Rightarrow> io_return Finalize
      | Some a \<Rightarrow>
          if \<not> billable_action a then io_return Admit
          else
            io_bind (io_result (planned_action_seconds lock a)) (\<lambda>planned.
            io_bind (io_result (controller_remote k)) (\<lambda>remote.
            io_bind (io_result (of_option Controller_without_policy (cl_controller_policy lock))) (\<lambda>policy.
            io_bind (io_read (ke_monotonic env)) (\<lambda>now.
              let v = \<lparr>ri_physical_started_monotonic = started_monotonic,
                    ri_physical_timeout_seconds = rj_timeout_seconds remote, ri_monotonic_now = now,
                    ri_controller_reserve_seconds = cc_controller_reserve_seconds policy,
                    ri_planned_next_wave_seconds = Some planned, ri_work_remaining = True,
                    ri_active_cleanup_required = False,
                    ri_capacity_assumptions_valid = (case capacity of None \<Rightarrow> True | Some e \<Rightarrow> ce_assumptions_valid e),
                    ri_policy_allows_work = True\<rparr> in
              io_bind (io_require (remaining_time_input_ok v) Port_value_error) (\<lambda>_.
                io_return (admission_outcome (rx_decision (decide_remaining_time v)))))))))"

section \<open>Applying an action\<close>

definition provider_capacity_claim_for ::
  "('w, 'm) controller_env_scheme \<Rightarrow> controller_claim \<Rightarrow> reconcile_action option \<Rightarrow>
   ('w, controller_error, capacity_claim option) io" where
  "provider_capacity_claim_for env owner action =
     (case action of
        None \<Rightarrow> io_return None
      | Some a \<Rightarrow>
          if \<not> billable_action a then io_return None
          else if ca_provider a = [] then io_raise Controller_without_provider
          else io_bind (io_read (ke_clock env)) (\<lambda>now.
            let claim = \<lparr>pc_provider = ca_provider a, pc_campaign_id = kc_campaign_id owner,
                  pc_plan_digest = kc_plan_digest owner, pc_job_id = kc_job_id owner, pc_attempt = kc_attempt owner,
                  pc_action_id = ac_action_id a, pc_acquired_at = now\<rparr> in
            io_bind (io_require (capacity_claim_ok claim) Port_value_error) (\<lambda>_. io_return (Some claim))))"

text \<open>\<open>io_finally\<close> is Python's \<open>finally\<close>: the cleanup runs on every path, and its own failure wins.\<close>

definition io_finally :: "('w, 'e, 'a) io \<Rightarrow> ('w, 'e, unit) io \<Rightarrow> ('w, 'e, 'a) io" where
  "io_finally m cleanup = io_bind (io_attempt m) (\<lambda>r. io_bind cleanup (\<lambda>_. io_result r))"

definition controller_context :: reconcile_context where
  "controller_context = \<lparr>rc_limits = default_limits\<lparr>al_action_limit := 1\<rparr>, rc_usage = default_usage, rc_deployments = []\<rparr>"

definition acquire_claimed ::
  "('w, 'm) controller_env_scheme \<Rightarrow> capacity_claim option \<Rightarrow> ('w, controller_error, string option) io" where
  "acquire_claimed env provider_claim =
     (case provider_claim of
        None \<Rightarrow> io_return None
      | Some claim \<Rightarrow>
          io_bind (io_attempt (ss_acquire_capacity env claim)) (\<lambda>r.
            case r of
              Inr _ \<Rightarrow> io_return None
            | Inl e \<Rightarrow>
                if e = Raised Capacity_occupied then io_return (Some (ke_text env (Controller_state e)))
                else io_raise (Controller_state e)))"

definition release_claimed ::
  "('w, 'm) controller_env_scheme \<Rightarrow> capacity_claim option \<Rightarrow> ('w, controller_error, unit) io" where
  "release_claimed env provider_claim =
     (case provider_claim of
        None \<Rightarrow> io_return ()
      | Some claim \<Rightarrow> io_lift Controller_state (ss_release_capacity env claim))"

definition apply_admitted_action ::
  "('w, 'm) controller_env_scheme \<Rightarrow> controller_setup \<Rightarrow> controller_claim \<Rightarrow> campaign_lock \<Rightarrow>
   reconcile_action option \<Rightarrow> reconcile_context \<Rightarrow> blocked_action list \<Rightarrow> recovery_projection \<Rightarrow> int \<Rightarrow> rat \<Rightarrow>
   capacity_evidence option \<Rightarrow> ('w, controller_error, iteration_result) io" where
  "apply_admitted_action env k owner lock action context blocked p started_at started_monotonic capacity =
     io_bind (provider_capacity_claim_for env owner action) (\<lambda>provider_claim.
     io_bind (acquire_claimed env provider_claim) (\<lambda>refused.
       case refused of
         Some text \<Rightarrow>
           io_bind (controller_write_status env k owner KS_waiting_retry p started_at started_monotonic action
             (Some text) capacity) (\<lambda>_.
           io_return \<lparr>ir_state = KS_waiting_retry, ir_finished = False, ir_message = Some text\<rparr>)
       | None \<Rightarrow>
           let state = action_state action in
           io_bind (io_finally
             (io_bind (controller_write_status env k owner state p started_at started_monotonic action None capacity) (\<lambda>_.
                ke_apply_campaign env (cl_campaign_id lock) context (map_option ac_action_id action)))
             (release_claimed env provider_claim)) (\<lambda>applied.
           io_return (result_after_apply applied blocked state))))"

section \<open>Iterations\<close>

definition finish_with :: "controller_state \<Rightarrow> string option \<Rightarrow> iteration_result" where
  "finish_with state message = \<lparr>ir_state = state, ir_finished = True, ir_message = message\<rparr>"

fun paused_state :: "action_admission \<Rightarrow> controller_state option" where
  "paused_state Pause_capacity = Some KS_paused_capacity"
| "paused_state Pause_policy = Some KS_paused_policy"
| "paused_state _ = None"

definition run_iteration ::
  "('w, 'm) controller_env_scheme \<Rightarrow> controller_setup \<Rightarrow> int \<Rightarrow> rat \<Rightarrow> ('w, controller_error, iteration_result) io" where
  "run_iteration env k started_at started_monotonic =
     io_bind (io_read (ke_heartbeat_lost env)) (\<lambda>lost.
       if lost then io_return (finish_with KS_failed_infrastructure (Some ''controller ownership heartbeat failed''))
       else
     io_bind (ke_refresh_observation env (cl_campaign_id (kx_lock k))) (\<lambda>_.
     io_bind (io_lift Controller_store (ke_load_campaign env (cl_campaign_id (kx_lock k)))) (\<lambda>(lock, events).
     io_bind (io_read (ke_clock env)) (\<lambda>now.
     io_bind (io_result (lift_error Controller_plan
         (plan_reconciliation (ke_hash env) lock events controller_context now))) (\<lambda>(p, plan).
       case terminal_controller_state (cp_status (rv_campaign p)) of
         Some state \<Rightarrow> io_return (finish_with state None)
       | None \<Rightarrow>
     io_bind (io_read (ke_stop_requested env)) (\<lambda>stop.
       if stop then io_return (finish_with KS_failed_infrastructure (Some ''controller received a termination signal''))
       else
         let action = (case pl_actions plan of [] \<Rightarrow> None | a # _ \<Rightarrow> Some a) in
     io_bind (capacity_evidence_for env k lock p started_monotonic) (\<lambda>capacity.
     io_bind (admit_action env k lock action started_monotonic capacity) (\<lambda>admission.
       case paused_state admission of
         Some state \<Rightarrow>
           let message = Some ''controller admission stopped new work'' in
           io_bind (io_read (ke_heartbeat_claim env)) (\<lambda>claim.
           io_bind (controller_write_status env k claim state p started_at started_monotonic None message capacity) (\<lambda>_.
             io_return (finish_with state message)))
       | None \<Rightarrow>
           io_bind (io_read (ke_heartbeat_claim env)) (\<lambda>claim.
             apply_admitted_action env k claim lock action controller_context (pl_blocked plan) p
               started_at started_monotonic capacity)))))))))"

text \<open>
  The loop of \<open>_drive\<close>. Without a limit of iterations it ends only when an iteration finishes or
  raises, so the model has fuel; \<open>None\<close> is a loop that has not ended within the fuel.
\<close>

fun drive ::
  "nat \<Rightarrow> ('w, 'm) controller_env_scheme \<Rightarrow> controller_setup \<Rightarrow> int \<Rightarrow> rat \<Rightarrow> int \<Rightarrow> int \<Rightarrow>
   ('w, controller_error, (controller_state \<times> string option \<times> int) option) io" where
  "drive 0 env k started_at started_monotonic heartbeat_seconds iterations = io_return None"
| "drive (Suc fuel) env k started_at started_monotonic heartbeat_seconds iterations =
     io_bind (case kx_max_iterations k of
        Some m \<Rightarrow> if iterations \<ge> m then io_raise Controller_iterations_exhausted else io_return ()
      | None \<Rightarrow> io_return ()) (\<lambda>_.
     io_bind (run_iteration env k started_at started_monotonic) (\<lambda>result.
       if ir_finished result then io_return (Some (ir_state result, ir_message result, iterations + 1))
       else io_bind (if ir_state result = KS_waiting_retry then io_read (ke_sleep env (min 5 heartbeat_seconds))
           else io_return ()) (\<lambda>_.
         drive fuel env k started_at started_monotonic heartbeat_seconds (iterations + 1))))"

section \<open>One attempt\<close>

definition physical_start :: "int option \<Rightarrow> int \<Rightarrow> controller_error + int" where
  "physical_start physical controller_started_at =
     (let started_at = (case physical of Some t \<Rightarrow> t | None \<Rightarrow> controller_started_at) in
      if started_at > controller_started_at then Inl Controller_start_in_future else Inr started_at)"

definition validate_attempt_reservation ::
  "('w, 'm) controller_env_scheme \<Rightarrow> controller_setup \<Rightarrow> ('w, controller_error, unit) io" where
  "validate_attempt_reservation env k =
     io_bind (io_lift Controller_state (ss_read_attempt env (cl_campaign_id (kx_lock k)) (kx_attempt k))) (\<lambda>found.
     io_bind (io_result (controller_remote k)) (\<lambda>remote.
     io_bind (io_result (of_option Controller_not_reserved found)) (\<lambda>v.
       io_require (\<not> (at_plan_digest v \<noteq> cl_plan_digest (kx_lock k) \<or> at_input_digest v \<noteq> kx_input_digest k \<or>
         at_worker_revision v \<noteq> sp_revision (rw_worker remote))) Controller_input_changed)))"

definition ended_receipt_for ::
  "controller_setup \<Rightarrow> campaign_lock \<Rightarrow> controller_state \<Rightarrow> string option \<Rightarrow> int \<Rightarrow> ended_receipt" where
  "ended_receipt_for k lock state message moment =
     \<lparr>er_campaign_id = cl_campaign_id lock, er_plan_digest = cl_plan_digest lock, er_job_id = kx_job_id k,
      er_attempt = kx_attempt k, er_state = state, er_ended_at = moment, er_message = message\<rparr>"

definition finish_attempt ::
  "('w, 'm) controller_env_scheme \<Rightarrow> controller_setup \<Rightarrow> controller_claim \<Rightarrow> controller_state \<Rightarrow> string option \<Rightarrow>
   int \<Rightarrow> rat \<Rightarrow> ('w, controller_error, unit) io" where
  "finish_attempt env k claim state message started_at started_monotonic =
     io_finally
       (io_bind (io_lift Controller_store (ke_load_campaign env (kc_campaign_id claim))) (\<lambda>(lock, events).
        io_bind (io_result (lift_error (\<lambda>e. Controller_plan (Recovery_failure e))
            (project_recovery (ke_hash env) lock events))) (\<lambda>p.
        io_bind (capacity_evidence_for env k lock p started_monotonic) (\<lambda>capacity.
        io_bind (controller_write_status env k claim state p started_at started_monotonic None message capacity) (\<lambda>_.
        io_bind (io_read (ke_clock env)) (\<lambda>moment.
          let receipt = ended_receipt_for k lock state message moment in
          io_bind (io_require (ended_receipt_ok receipt) Port_value_error) (\<lambda>_.
            io_lift Controller_state (ss_write_ended env receipt))))))))
       (io_lift Controller_state (ss_release env claim))"

definition started_receipt_for :: "controller_setup \<Rightarrow> remote_spec \<Rightarrow> int \<Rightarrow> started_receipt" where
  "started_receipt_for k remote moment =
     \<lparr>sr_campaign_id = cl_campaign_id (kx_lock k), sr_plan_digest = cl_plan_digest (kx_lock k),
      sr_input_digest = kx_input_digest k, sr_worker_revision = sp_revision (rw_worker remote),
      sr_job_id = kx_job_id k, sr_attempt = kx_attempt k, sr_started_at = moment\<rparr>"

text \<open>The claim with which the attempt starts.\<close>

definition first_claim :: "controller_setup \<Rightarrow> controller_spec \<Rightarrow> int \<Rightarrow> controller_claim" where
  "first_claim k policy moment =
     \<lparr>kc_campaign_id = cl_campaign_id (kx_lock k), kc_job_id = kx_job_id k, kc_plan_digest = cl_plan_digest (kx_lock k),
      kc_attempt = kx_attempt k, kc_acquired_at = moment, kc_heartbeat_at = moment,
      kc_expires_at = moment + cc_stale_after_seconds policy * second\<rparr>"

definition bootstrap_seconds :: "int \<Rightarrow> int \<Rightarrow> int" where
  "bootstrap_seconds started_at controller_started_at = - ((started_at - controller_started_at) div second)"

text \<open>
  The body of the \<open>try\<close> in \<open>run\<close>, in two parts: up to the start of the heartbeat, and the
  loop after it. The handlers need to know whether the heartbeat was started.
\<close>

definition start_attempt ::
  "('w, 'm) controller_env_scheme \<Rightarrow> controller_setup \<Rightarrow> controller_spec \<Rightarrow> remote_spec \<Rightarrow> controller_claim \<Rightarrow>
   int \<Rightarrow> rat \<Rightarrow> ('w, controller_error, unit) io" where
  "start_attempt env k policy remote claim started_at started_monotonic =
     io_bind (io_mapM (\<lambda>provider. io_lift Controller_state
         (ss_recover_capacity env provider claim (kx_prior_job_terminal k))) (lock_providers (kx_lock k))) (\<lambda>_.
     let receipt = started_receipt_for k remote started_at in
     io_bind (io_require (started_receipt_ok receipt) Port_value_error) (\<lambda>_.
     io_bind (io_lift Controller_state (ss_write_started env receipt)) (\<lambda>_.
     io_bind (io_lift Controller_store (ke_load_campaign env (cl_campaign_id (kx_lock k)))) (\<lambda>(lock, events).
     io_bind (io_result (lift_error (\<lambda>e. Controller_plan (Recovery_failure e))
         (project_recovery (ke_hash env) lock events))) (\<lambda>p.
     io_bind (controller_write_status env k claim KS_starting p started_at started_monotonic None None None) (\<lambda>_.
       io_read (ke_start_heartbeat env claim (cc_heartbeat_seconds policy) (cc_stale_after_seconds policy))))))))"

definition drive_attempt ::
  "nat \<Rightarrow> ('w, 'm) controller_env_scheme \<Rightarrow> controller_setup \<Rightarrow> controller_spec \<Rightarrow> remote_spec \<Rightarrow> int \<Rightarrow> rat \<Rightarrow>
   ('w, controller_error, (controller_state \<times> string option \<times> int) option) io" where
  "drive_attempt fuel env k policy remote started_at started_monotonic =
     io_bind (ke_prepare env (rh_source remote)) (\<lambda>_.
       drive fuel env k started_at started_monotonic (cc_heartbeat_seconds policy) 0)"

text \<open>The outcome that the handlers of \<open>run\<close> make of an exception.\<close>

definition handled ::
  "('w, 'm) controller_env_scheme \<Rightarrow> controller_error + (controller_state \<times> string option \<times> int) option \<Rightarrow>
   (controller_state \<times> string option \<times> int) option" where
  "handled env r = (case r of Inl e \<Rightarrow> Some (failure_state e, Some (ke_text env e), 0) | Inr x \<Rightarrow> x)"

definition run_claimed ::
  "nat \<Rightarrow> ('w, 'm) controller_env_scheme \<Rightarrow> controller_setup \<Rightarrow> controller_spec \<Rightarrow> remote_spec \<Rightarrow> controller_claim \<Rightarrow>
   int \<Rightarrow> rat \<Rightarrow> ('w, controller_error, controller_result option) io" where
  "run_claimed fuel env k policy remote claim started_at started_monotonic =
     io_bind (io_attempt (start_attempt env k policy remote claim started_at started_monotonic)) (\<lambda>begun.
     io_bind (case begun of
         Inl e \<Rightarrow> io_return (handled env (Inl e), claim)
       | Inr _ \<Rightarrow>
           io_bind (io_attempt (drive_attempt fuel env k policy remote started_at started_monotonic)) (\<lambda>r.
             if r = Inr None then io_return (None, claim)
             else
               io_bind (io_read (ke_stop_heartbeat env)) (\<lambda>_.
               io_bind (io_read (ke_heartbeat_claim env)) (\<lambda>held. io_return (handled env r, held)))))
       (\<lambda>(outcome, held).
         case outcome of
           None \<Rightarrow> io_return None
         | Some (state, message, iterations) \<Rightarrow>
             io_bind (finish_attempt env k held state message started_at started_monotonic) (\<lambda>_.
             io_return (Some \<lparr>cx_campaign_id = cl_campaign_id (kx_lock k), cx_job_id = kx_job_id k, cx_attempt = kx_attempt k,
               cx_state = state, cx_iterations = iterations, cx_message = message\<rparr>))))"

definition run_controller ::
  "nat \<Rightarrow> ('w, 'm) controller_env_scheme \<Rightarrow> controller_setup \<Rightarrow> ('w, controller_error, controller_result option) io" where
  "run_controller fuel env k =
     (case (cl_controller_policy (kx_lock k), es_remote (kx_spec k)) of
        (Some policy, Some remote) \<Rightarrow>
          if kx_attempt k > cc_max_attempts policy then io_raise Controller_attempts_exhausted
          else
            io_bind (validate_attempt_reservation env k) (\<lambda>_.
            io_bind (io_read (ke_clock env)) (\<lambda>controller_started_at.
            io_bind (io_result (physical_start (kx_physical_started_at k) controller_started_at)) (\<lambda>started_at.
            io_bind (io_read (ke_monotonic env)) (\<lambda>monotonic.
            let started_monotonic = monotonic - of_int (bootstrap_seconds started_at controller_started_at);
                claim = first_claim k policy started_at in
            io_bind (io_require (controller_claim_ok claim) Port_value_error) (\<lambda>_.
            io_bind (io_lift Controller_state (ss_acquire env claim (kx_prior_job_terminal k))) (\<lambda>_.
              run_claimed fuel env k policy remote claim started_at started_monotonic))))))
      | _ \<Rightarrow> io_raise Controller_without_lock)"

section \<open>The heartbeat\<close>

text \<open>One turn of the heartbeat thread, with the claim it holds; \<open>Inl\<close> is the lost event.\<close>

definition renewed_claim :: "controller_claim \<Rightarrow> int \<Rightarrow> int \<Rightarrow> controller_claim" where
  "renewed_claim previous stale_after_seconds now =
     previous\<lparr>kc_heartbeat_at := now, kc_expires_at := now + stale_after_seconds * second\<rparr>"

definition heartbeat_step ::
  "('w, 'm) controller_env_scheme \<Rightarrow> int \<Rightarrow> controller_claim \<Rightarrow> ('w, status_error failure, controller_claim) io" where
  "heartbeat_step env stale_after_seconds previous =
     io_bind (io_read (ke_clock env)) (\<lambda>now.
       let renewed = renewed_claim previous stale_after_seconds now in
       io_bind (ss_heartbeat env previous renewed) (\<lambda>_. io_return renewed))"

section \<open>Waves in the controller process\<close>

text \<open>
  \<open>InProcessWaveExecutor\<close>: waves run synchronously in the process of the controller. \<open>is_file\<close> is
  the output directory, \<open>run_wave\<close> is \<open>run_provider_wave_execution\<close>; its answer \<open>Worker_failed\<close> is the
  exception whose evidence the wave runner has published.
\<close>

record wave_job =
  wj_job_id :: string
  wj_wave_id :: string
  wj_endpoint_label :: string
  wj_target_label_key :: string
  wj_stage :: string

definition wave_job_terminal :: "wave_job \<Rightarrow> bool" where
  "wave_job_terminal j \<longleftrightarrow> wj_stage j \<in> {''CANCELED'', ''COMPLETED'', ''DELETED'', ''ERROR''}"

datatype wave_outcome = Wave_completed | Worker_failed

datatype executor_error = Foreign_wave | Active_wave | Wave_other_error

record wave_executor =
  we_campaign :: campaign_lock
  we_job_id :: string
  we_jobs :: "(string, wave_job) dict"

definition wave_root :: "campaign_lock \<Rightarrow> string \<Rightarrow> string" where
  "wave_root campaign wave_id = cl_artifact_prefix campaign @ ''/waves/'' @ wave_id"

definition executor_find_wave ::
  "(string \<Rightarrow> bool) \<Rightarrow> wave_executor \<Rightarrow> string \<Rightarrow> string \<Rightarrow> string \<Rightarrow> wave_job option" where
  "executor_find_wave is_file x wave_id endpoint_label target_label_key =
     (case map_of (we_jobs x) wave_id of
        Some job \<Rightarrow> Some job
      | None \<Rightarrow>
          let root = wave_root (we_campaign x) wave_id;
              stage = (if is_file (root @ ''/_SUCCESS'') then Some ''COMPLETED''
                else if is_file (root @ ''/_FAILED'') \<or> is_file (root @ ''/_CANCELLED'') then Some ''ERROR'' else None)
          in map_option (\<lambda>s. \<lparr>wj_job_id = we_job_id x, wj_wave_id = wave_id, wj_endpoint_label = endpoint_label,
               wj_target_label_key = target_label_key, wj_stage = s\<rparr>) stage)"

definition executor_submit ::
  "(wave_lock \<Rightarrow> ('w, executor_error, wave_outcome) io) \<Rightarrow> wave_executor \<Rightarrow> wave_lock \<Rightarrow> campaign_lock \<Rightarrow>
   ('w, executor_error, wave_job \<times> wave_executor) io" where
  "executor_submit run_wave x lock campaign =
     (case wl_target lock of
        Endpoint_wave_target _ \<Rightarrow> io_raise Foreign_wave
      | Provider_wave_target provider \<Rightarrow>
          if campaign \<noteq> we_campaign x then io_raise Foreign_wave
          else io_bind (run_wave lock) (\<lambda>outcome.
            let job = \<lparr>wj_job_id = we_job_id x, wj_wave_id = wl_wave_id lock,
                  wj_endpoint_label = pt_service provider, wj_target_label_key = ''harbor-hf-provider'',
                  wj_stage = (if outcome = Wave_completed then ''COMPLETED'' else ''ERROR'')\<rparr> in
            io_return (job, x\<lparr>we_jobs := AList.update (wl_wave_id lock) job (we_jobs x)\<rparr>)))"

definition executor_cancel :: "wave_job \<Rightarrow> executor_error + unit" where
  "executor_cancel job = require (wave_job_terminal job) Active_wave"

end
