(* ===== verification/Campaign_Controller_Properties.thy ===== *)
theory Campaign_Controller_Properties
  imports Campaign_Controller Sample_Campaign Sample_Manifest
begin

text \<open>
  The properties of the campaign controller: admission against the time of the Job, the
  validity of what it publishes, the end of a limited run, and, for arbitrary answers of its
  ports, that it applies billable work only under the provider's capacity and releases what
  it acquired.
\<close>

section \<open>Calls\<close>

datatype controller_call =
    Claim_acquired controller_claim "status_error failure + unit"
  | Claim_released controller_claim "status_error failure + unit"
  | Capacity_acquired capacity_claim "status_error failure + unit"
  | Capacity_released capacity_claim "status_error failure + unit"
  | Action_applied string "string option" "controller_error + string list"
  | Other_call

fun is_apply :: "controller_call \<Rightarrow> bool" where
  "is_apply (Action_applied _ _ _) = True"
| "is_apply _ = False"

fun is_claim_release :: "controller_call \<Rightarrow> bool" where
  "is_claim_release (Claim_released _ _) = True"
| "is_claim_release _ = False"

fun is_claim_acquire :: "controller_call \<Rightarrow> bool" where
  "is_claim_acquire (Claim_acquired _ _) = True"
| "is_claim_acquire _ = False"

text \<open>All calls of the controller's ports are recorded, the clocks and the flags apart.\<close>

definition traced_controller :: "'w controller_env \<Rightarrow> ('w \<times> controller_call list) controller_env" where
  "traced_controller env =
     \<lparr>ss_acquire = (\<lambda>c b. noted (ss_acquire env c b) (Claim_acquired c)),
      ss_heartbeat = (\<lambda>p r. noted (ss_heartbeat env p r) (\<lambda>_. Other_call)),
      ss_release = (\<lambda>c. noted (ss_release env c) (Claim_released c)),
      ss_read_claim = (\<lambda>c. noted (ss_read_claim env c) (\<lambda>_. Other_call)),
      ss_read_status = (\<lambda>c. noted (ss_read_status env c) (\<lambda>_. Other_call)),
      ss_write_status = (\<lambda>s. noted (ss_write_status env s) (\<lambda>_. Other_call)),
      ss_acquire_launch = (\<lambda>c. noted (ss_acquire_launch env c) (\<lambda>_. Other_call)),
      ss_release_launch = (\<lambda>c. noted (ss_release_launch env c) (\<lambda>_. Other_call)),
      ss_read_launch_claim = (\<lambda>c n. noted (ss_read_launch_claim env c n) (\<lambda>_. Other_call)),
      ss_write_launch = (\<lambda>r. noted (ss_write_launch env r) (\<lambda>_. Other_call)),
      ss_read_launch = (\<lambda>c n. noted (ss_read_launch env c n) (\<lambda>_. Other_call)),
      ss_acquire_capacity = (\<lambda>c. noted (ss_acquire_capacity env c) (Capacity_acquired c)),
      ss_release_capacity = (\<lambda>c. noted (ss_release_capacity env c) (Capacity_released c)),
      ss_recover_capacity = (\<lambda>p c b. noted (ss_recover_capacity env p c b) (\<lambda>_. Other_call)),
      ss_read_capacity = (\<lambda>p. noted (ss_read_capacity env p) (\<lambda>_. Other_call)),
      ss_write_started = (\<lambda>r. noted (ss_write_started env r) (\<lambda>_. Other_call)),
      ss_write_ended = (\<lambda>r. noted (ss_write_ended env r) (\<lambda>_. Other_call)),
      ss_reserve_attempt = (\<lambda>r. noted (ss_reserve_attempt env r) (\<lambda>_. Other_call)),
      ss_read_attempt = (\<lambda>c n. noted (ss_read_attempt env c n) (\<lambda>_. Other_call)),
      ss_write_recovery = (\<lambda>d. noted (ss_write_recovery env d) (\<lambda>_. Other_call)),
      ss_read_recovery = (\<lambda>c n. noted (ss_read_recovery env c n) (\<lambda>_. Other_call)),
      ke_load_campaign = (\<lambda>c. noted (ke_load_campaign env c) (\<lambda>_. Other_call)),
      ke_refresh_observation = (\<lambda>c. noted (ke_refresh_observation env c) (\<lambda>_. Other_call)),
      ke_apply_campaign = (\<lambda>c ctx a. noted (ke_apply_campaign env c ctx a) (Action_applied c a)),
      ke_prepare = (\<lambda>s. noted (ke_prepare env s) (\<lambda>_. Other_call)),
      ke_assess = (\<lambda>l e n r v a p. noted (ke_assess env l e n r v a p) (\<lambda>_. Other_call)),
      ke_clock = unnoted_read (ke_clock env), ke_monotonic = unnoted_read (ke_monotonic env),
      ke_sleep = (\<lambda>n. unnoted_read (ke_sleep env n)),
      ke_stop_requested = unnoted_read (ke_stop_requested env),
      ke_start_heartbeat = (\<lambda>c n m. unnoted_read (ke_start_heartbeat env c n m)),
      ke_stop_heartbeat = unnoted_read (ke_stop_heartbeat env),
      ke_heartbeat_lost = unnoted_read (ke_heartbeat_lost env),
      ke_heartbeat_claim = unnoted_read (ke_heartbeat_claim env),
      ke_text = ke_text env, ke_hash = ke_hash env\<rparr>"

text \<open>A program all of whose calls satisfy a predicate.\<close>

definition all_calls :: "('c \<Rightarrow> bool) \<Rightarrow> ('w \<times> 'c list, 'e, 'a) io \<Rightarrow> bool" where
  "all_calls P m \<longleftrightarrow> wp_adds m (\<lambda>r cs. list_all P cs)"

lemma all_calls_bind: "all_calls P m \<Longrightarrow> (\<And>x. all_calls P (f x)) \<Longrightarrow> all_calls P (io_bind m f)"
  unfolding all_calls_def
  by (rule wp_adds_bind [where R = "\<lambda>r. list_all P" and S = "\<lambda>_ r. list_all P"]) auto

lemma all_calls_basic:
  "all_calls P (io_return x)" "all_calls P (io_raise e)" "all_calls P (io_result s)" "all_calls P (io_require b e)"
  "all_calls P (io_read (unnoted_read u))"
  by (auto simp: all_calls_def io_require_def intro!: wp_adds_return wp_adds_raise wp_adds_result wp_adds_read)

lemma all_calls_lift: "all_calls P m \<Longrightarrow> all_calls P (io_lift g m)"
  unfolding all_calls_def by (rule wp_adds_lift)

lemma all_calls_attempt: "all_calls P m \<Longrightarrow> all_calls P (io_attempt m)"
  unfolding all_calls_def by (rule wp_adds_attempt)

lemma all_calls_noted: "(\<And>r. P (c r)) \<Longrightarrow> all_calls P (noted m c)"
  by (simp add: all_calls_def wp_adds_noted)

lemma all_calls_mapM: "(\<And>x. all_calls P (f x)) \<Longrightarrow> all_calls P (io_mapM f xs)"
  unfolding all_calls_def by (rule wp_adds_mapM) auto

lemma all_calls_finally: "all_calls P m \<Longrightarrow> all_calls P c \<Longrightarrow> all_calls P (io_finally m c)"
  unfolding io_finally_def by (intro all_calls_bind all_calls_attempt all_calls_basic)

lemmas all_calls_intros = all_calls_bind all_calls_basic all_calls_lift all_calls_attempt all_calls_mapM all_calls_finally

text \<open>The ports, and the parts of an iteration that write or read.\<close>

lemma all_calls_ports:
  "P Other_call \<Longrightarrow> all_calls P (ss_write_status (traced_controller env) s)"
  "P Other_call \<Longrightarrow> all_calls P (ke_load_campaign (traced_controller env) c)"
  "P Other_call \<Longrightarrow> all_calls P (ke_assess (traced_controller env) l e n i v a p)"
  "P Other_call \<Longrightarrow> all_calls P (ke_refresh_observation (traced_controller env) c)"
  "P Other_call \<Longrightarrow> all_calls P (ke_prepare (traced_controller env) src)"
  "P Other_call \<Longrightarrow> all_calls P (ss_recover_capacity (traced_controller env) q k b)"
  "P Other_call \<Longrightarrow> all_calls P (ss_write_started (traced_controller env) st)"
  "P Other_call \<Longrightarrow> all_calls P (ss_write_ended (traced_controller env) en)"
  "P Other_call \<Longrightarrow> all_calls P (ss_read_attempt (traced_controller env) c n)"
  "all_calls P (io_read (ke_clock (traced_controller env)))"
  "all_calls P (io_read (ke_monotonic (traced_controller env)))"
  "all_calls P (io_read (ke_sleep (traced_controller env) n))"
  "all_calls P (io_read (ke_stop_requested (traced_controller env)))"
  "all_calls P (io_read (ke_start_heartbeat (traced_controller env) k n i))"
  "all_calls P (io_read (ke_stop_heartbeat (traced_controller env)))"
  "all_calls P (io_read (ke_heartbeat_lost (traced_controller env)))"
  "all_calls P (io_read (ke_heartbeat_claim (traced_controller env)))"
  by (simp_all add: traced_controller_def all_calls_noted all_calls_basic)

lemma all_calls_status:
  "P Other_call \<Longrightarrow> all_calls P (controller_write_status (traced_controller env) k c state p at0 m action reason capacity)"
  unfolding controller_write_status_def Let_def by (intro all_calls_intros all_calls_ports)



section \<open>Billable actions\<close>

definition claims_action :: "controller_claim \<Rightarrow> reconcile_action \<Rightarrow> capacity_claim \<Rightarrow> bool" where
  "claims_action owner a c \<longleftrightarrow>
     pc_provider c = ca_provider a \<and> pc_action_id c = ac_action_id a \<and> pc_campaign_id c = kc_campaign_id owner \<and>
     pc_job_id c = kc_job_id owner \<and> pc_attempt c = kc_attempt owner"

lemma capacity_claim_adds:
  assumes "billable_action a"
  shows "wp_adds (provider_capacity_claim_for (traced_controller env) owner (Some a))
     (\<lambda>r cs. cs = [] \<and> (\<forall>x. r = Inr x \<longrightarrow> (\<exists>c. x = Some c \<and> claims_action owner a c)))"
  using assms
  by (auto simp: provider_capacity_claim_for_def traced_controller_def claims_action_def Let_def io_require_def
      intro!: wp_adds_raise wp_adds_read_bind wp_adds_result_bind wp_adds_return)

lemma acquire_adds:
  "wp_adds (acquire_claimed (traced_controller env) (Some c))
     (\<lambda>r cs. (r = Inr None \<and> cs = [Capacity_acquired c (Inr ())]) \<or> (\<exists>e. r \<noteq> Inr None \<and> cs = [Capacity_acquired c (Inl e)]))"
proof -
  have "wp_adds (io_attempt (ss_acquire_capacity (traced_controller env) c)) (\<lambda>r cs. \<exists>x. r = Inr x \<and> cs = [Capacity_acquired c x])"
    by (auto simp: traced_controller_def intro!: wp_adds_attempt wp_adds_noted)
  moreover have "wp_adds (case x of Inr _ \<Rightarrow> io_return None
      | Inl e \<Rightarrow> if e = Raised Capacity_occupied then io_return (Some (ke_text (traced_controller env) (Controller_state e)))
          else io_raise (Controller_state e)) (\<lambda>r cs. cs = [] \<and> (r = Inr None \<and> x = Inr () \<or> (\<exists>e. r \<noteq> Inr None \<and> x = Inl e)))" for x :: "status_error failure + unit"
    by (cases x) (auto intro!: wp_adds_return wp_adds_raise)
  ultimately show ?thesis
    unfolding acquire_claimed_def option.case by (rule wp_adds_bind) auto
qed

lemma finally_adds:
  assumes m: "wp_adds m R" and c: "wp_adds c (\<lambda>r cs. \<exists>y. cs = [x y])"
  shows "wp_adds (io_finally m c) (\<lambda>r cs. \<exists>q ds y. R q ds \<and> cs = ds @ [x y])"
proof -
  have after: "wp_adds (io_bind c (\<lambda>_. io_result q)) (\<lambda>r cs. \<exists>y. cs = [x y])" for q
    by (rule wp_adds_bind [OF c wp_adds_result, where S = "\<lambda>_ r cs. cs = []"]) auto
  have "wp_adds (io_attempt m) (\<lambda>r cs. \<exists>q. r = Inr q \<and> R q cs)"
    by (rule wp_adds_attempt, rule wp_adds_mono [OF m]) auto
  then show ?thesis
    unfolding io_finally_def by (rule wp_adds_bind [OF _ after]) auto
qed

lemma others: "all_calls ((=) Other_call) m \<Longrightarrow> wp_adds m (\<lambda>r cs. list_all ((=) Other_call) cs)"
  by (simp add: all_calls_def)

definition applied_under :: "campaign_lock \<Rightarrow> reconcile_action \<Rightarrow> controller_call list \<Rightarrow> bool" where
  "applied_under lock a mid \<longleftrightarrow>
     (\<exists>before. list_all ((=) Other_call) before \<and>
        (mid = before \<or> (\<exists>x. mid = before @ [Action_applied (cl_campaign_id lock) (Some (ac_action_id a)) x])))"

lemma applied_adds:
  assumes c: "claims_action owner a c"
  shows "wp_adds (io_finally
      (io_bind (controller_write_status (traced_controller env) k owner state p at0 m (Some a) None capacity) (\<lambda>_.
         ke_apply_campaign (traced_controller env) (cl_campaign_id lock) ctx (map_option ac_action_id (Some a))))
      (release_claimed (traced_controller env) (Some c)))
    (\<lambda>r cs. \<exists>mid b. cs = mid @ [Capacity_released c b] \<and> applied_under lock a mid)"
proof -
  have apply_call: "wp_adds (ke_apply_campaign (traced_controller env) (cl_campaign_id lock) ctx (map_option ac_action_id (Some a)))
      (\<lambda>r cs. \<exists>x. cs = [Action_applied (cl_campaign_id lock) (Some (ac_action_id a)) x])"
    by (auto simp: traced_controller_def intro!: wp_adds_noted)
  have body: "wp_adds (io_bind (controller_write_status (traced_controller env) k owner state p at0 m (Some a) None capacity) (\<lambda>_.
      ke_apply_campaign (traced_controller env) (cl_campaign_id lock) ctx (map_option ac_action_id (Some a)))) (\<lambda>r. applied_under lock a)"
    by (rule wp_adds_bind [OF others [OF all_calls_status] apply_call]) (auto simp: applied_under_def)
  have release: "wp_adds (release_claimed (traced_controller env) (Some c)) (\<lambda>r cs. \<exists>y. cs = [Capacity_released c y])"
    by (auto simp: release_claimed_def traced_controller_def intro!: wp_adds_lift wp_adds_noted)
  show ?thesis
    by (rule wp_adds_mono [OF finally_adds [OF body release]]) auto
qed

lemma apply_adds:
  assumes "billable_action a"
  shows "wp_adds (apply_admitted_action (traced_controller env) k owner lock (Some a) ctx blocked p at0 m capacity)
    (\<lambda>r cs. cs = [] \<or> (\<exists>c. claims_action owner a c \<and>
      ((\<exists>e rest. cs = Capacity_acquired c (Inl e) # rest \<and> list_all ((=) Other_call) rest) \<or>
       (\<exists>mid b. cs = Capacity_acquired c (Inr ()) # mid @ [Capacity_released c b] \<and> applied_under lock a mid))))"
  (is "wp_adds _ ?T")
proof -
  let ?E = "traced_controller env"
  let ?ran = "\<lambda>c r cs. \<exists>mid b. cs = mid @ [Capacity_released c b] \<and> applied_under lock a mid"
  let ?next = "\<lambda>c refused. case refused of
      Some why \<Rightarrow> io_bind (controller_write_status ?E k owner KS_waiting_retry p at0 m (Some a) (Some why) capacity) (\<lambda>_.
        io_return \<lparr>ir_state = KS_waiting_retry, ir_finished = False, ir_message = Some why\<rparr>)
    | None \<Rightarrow> io_bind (io_finally
        (io_bind (controller_write_status ?E k owner (action_state (Some a)) p at0 m (Some a) None capacity) (\<lambda>_.
           ke_apply_campaign ?E (cl_campaign_id lock) ctx (map_option ac_action_id (Some a))))
        (release_claimed ?E c)) (\<lambda>applied. io_return (result_after_apply applied blocked (action_state (Some a))))"
  have refused: "wp_adds (io_bind (controller_write_status ?E k owner KS_waiting_retry p at0 m (Some a) (Some why) capacity) (\<lambda>_.
      io_return v)) (\<lambda>r cs. list_all ((=) Other_call) cs)" for why and v :: iteration_result
    by (intro others all_calls_intros all_calls_status) simp
  have ran: "wp_adds (?next (Some c) None) (?ran c)" if "claims_action owner a c" for c
    unfolding option.case by (rule wp_adds_bind [OF applied_adds [OF that] wp_adds_return, where S = "\<lambda>_ r cs. cs = []"]) auto
  have after: "wp_adds (?next (Some c) refused) (\<lambda>r cs. if refused = None then ?ran c r cs else list_all ((=) Other_call) cs)"
    if "claims_action owner a c" for c refused
    using ran [OF that] refused by (cases refused) simp_all
  have claimed: "wp_adds (io_bind (acquire_claimed ?E (Some c)) (?next (Some c))) ?T" if "claims_action owner a c" for c
    by (rule wp_adds_bind [OF acquire_adds after [OF that]]) (use that in auto)
  have "wp_adds (io_bind (acquire_claimed ?E x) (?next x)) (\<lambda>r ds. ?T r (cs @ ds))"
    if "cs = [] \<and> (\<forall>y. (Inr x :: controller_error + capacity_claim option) = Inr y \<longrightarrow> (\<exists>c. y = Some c \<and> claims_action owner a c))" for x cs
  proof -
    from that obtain c where "cs = []" "x = Some c" "claims_action owner a c" by auto
    with claimed [of c] show ?thesis by (simp only: append_Nil)
  qed
  then show ?thesis
    unfolding apply_admitted_action_def Let_def
    by (rule wp_adds_bind_if [OF capacity_claim_adds [OF assms]]) simp_all
qed

section \<open>The claim of an attempt\<close>

definition not_claim :: "controller_call \<Rightarrow> bool" where
  "not_claim c \<longleftrightarrow> \<not> is_claim_release c \<and> \<not> is_claim_acquire c"

lemma not_claim_simps [simp]:
  "not_claim Other_call" "not_claim (Capacity_acquired c x)" "not_claim (Capacity_released c x)" "not_claim (Action_applied i a y)"
  "\<not> not_claim (Claim_acquired k x)" "\<not> not_claim (Claim_released k x)"
  by (simp_all add: not_claim_def)




















section \<open>The end of a limited run\<close>

definition ends :: "('w, 'e, 'a option) io \<Rightarrow> bool" where
  "ends m \<longleftrightarrow> (\<forall>w. wp m (\<lambda>r s. r \<noteq> Inr None) w)"

lemma ends_bind_if:
  assumes "\<And>w. wp m (\<lambda>r s. \<forall>x. r = Inr x \<longrightarrow> ends (f x)) w"
  shows "ends (io_bind m f)"
  unfolding ends_def wp_bind
proof
  show "wp m (\<lambda>r w'. case r of Inl e \<Rightarrow> Inl e \<noteq> Inr None | Inr x \<Rightarrow> wp (f x) (\<lambda>r s. r \<noteq> Inr None) w') w" for w
    using assms [of w] by (rule wp_mono) (auto simp: ends_def split: sum.split)
qed

lemma ends_bind: "(\<And>x. ends (f x)) \<Longrightarrow> ends (io_bind m f)"
  by (rule ends_bind_if) (simp add: wp_def split: prod.split)

lemma ends_basic: "ends (io_return (Some x))" "ends (io_raise e)"
  by (simp_all add: ends_def wp_simps)

lemma drive_ends:
  assumes "kx_max_iterations k = Some m"
  shows "nat (m - n) < fuel \<Longrightarrow> ends (drive fuel env k at0 m0 hb n)"
proof (induction fuel arbitrary: n)
  case (Suc fuel)
  show ?case
  proof (cases "n \<ge> m")
    case True
    with assms show ?thesis by (simp add: ends_def wp_simps)
  next
    case False
    with Suc.prems have "nat (m - (n + 1)) < fuel" by simp
    from Suc.IH [OF this] show ?thesis
      by (auto intro!: ends_bind ends_basic)
  qed
qed simp

lemma claimed_ends:
  assumes "kx_max_iterations k = Some m" and "nat m < fuel"
  shows "ends (run_claimed fuel env k policy remote claim at0 m0)"
proof -
  let ?E = env
  have "ends (drive_attempt fuel env k policy remote at0 m0)"
    unfolding drive_attempt_def using assms by (intro ends_bind drive_ends) auto
  then have driven: "wp (io_attempt (drive_attempt fuel env k policy remote at0 m0)) (\<lambda>r s. \<forall>x. r = Inr x \<longrightarrow> x \<noteq> Inr None) w" for w
    by (simp add: ends_def wp_attempt)
  have outcome: "wp (case begun of
         Inl e \<Rightarrow> io_return (handled ?E (Inl e), claim)
       | Inr _ \<Rightarrow> io_bind (io_attempt (drive_attempt fuel ?E k policy remote at0 m0)) (\<lambda>r.
             if r = Inr None then io_return (None, claim)
             else io_bind (io_read (ke_stop_heartbeat ?E)) (\<lambda>_.
               io_bind (io_read (ke_heartbeat_claim ?E)) (\<lambda>held. io_return (handled ?E r, held)))))
      (\<lambda>r s. \<forall>x. r = Inr x \<longrightarrow> fst x \<noteq> None) w" for begun :: "controller_error + unit" and w
  proof (cases begun)
    case (Inr u)
    show ?thesis
      unfolding Inr sum.case wp_bind
      by (rule wp_mono [OF driven]) (auto simp: wp_def io_bind_def io_read_def io_return_def handled_def split: sum.splits prod.splits)
  qed (simp add: wp_return handled_def)
  show ?thesis
    unfolding run_claimed_def
    by (rule ends_bind, rule ends_bind_if, rule wp_mono [OF outcome]) (auto intro!: ends_bind ends_basic split: option.splits)
qed

lemma run_ends:
  "kx_max_iterations k = Some m \<Longrightarrow> nat m < fuel \<Longrightarrow> ends (run_controller fuel env k)"
  by (auto simp: run_controller_def Let_def intro!: ends_bind ends_basic claimed_ends split: option.split)

section \<open>Published statuses\<close>

lemma counts_bounded:
  "length (filter trial_closed ts) + length (filter (\<lambda>t. tr_status t = NS_active) ts) \<le> length ts"
  by (induction ts) (auto simp: trial_closed_def)

lemma projection_counts_ok: "controller_counts_ok (controller_projection_counts p)"
  using counts_bounded [of "dict_values (rv_trials p)"]
  by (simp add: controller_counts_ok_def controller_projection_counts_def)

section \<open>Properties\<close>

definition idle_controller :: "unit controller_env" where
  "idle_controller =
     \<lparr>ss_acquire = (\<lambda>c b. io_return ()), ss_heartbeat = (\<lambda>p r. io_return ()), ss_release = (\<lambda>c. io_return ()),
      ss_read_claim = (\<lambda>c. io_return None), ss_read_status = (\<lambda>c. io_return None),
      ss_write_status = (\<lambda>s. io_return ()), ss_acquire_launch = (\<lambda>c. io_return ()),
      ss_release_launch = (\<lambda>c. io_return ()), ss_read_launch_claim = (\<lambda>c n. io_return None),
      ss_write_launch = (\<lambda>r. io_return ()), ss_read_launch = (\<lambda>c n. io_return None),
      ss_acquire_capacity = (\<lambda>c. io_return ()), ss_release_capacity = (\<lambda>c. io_return ()),
      ss_recover_capacity = (\<lambda>p c b. io_return ()), ss_read_capacity = (\<lambda>p. io_return None),
      ss_write_started = (\<lambda>r. io_return ()), ss_write_ended = (\<lambda>r. io_return ()),
      ss_reserve_attempt = (\<lambda>r. io_return ()),
      ss_read_attempt = (\<lambda>c n. io_return (Some
        \<lparr>at_campaign_id = ''c'', at_plan_digest = ''pd'', at_input_digest = ''input'',
         at_input_uri = ''hf://buckets/org/in'', at_output_uri = ''hf://buckets/org/out'',
         at_worker_revision = replicate 40 CHR ''a'', at_attempt = 1, at_reserved_at = 0\<rparr>)),
      ss_write_recovery = (\<lambda>d. io_return ()), ss_read_recovery = (\<lambda>c n. io_return None),
      ke_load_campaign = (\<lambda>c. io_return (sample_lock, [sample_submitted])),
      ke_refresh_observation = (\<lambda>c. io_return ()), ke_apply_campaign = (\<lambda>c ctx a. io_return []),
      ke_prepare = (\<lambda>s. io_raise Port_other_error), ke_assess = (\<lambda>l e n r v a p. io_return None),
      ke_clock = (\<lambda>w. (1000000, w)), ke_monotonic = (\<lambda>w. (5, w)), ke_sleep = (\<lambda>n w. ((), w)),
      ke_stop_requested = (\<lambda>w. (False, w)), ke_start_heartbeat = (\<lambda>c n m w. ((), w)),
      ke_stop_heartbeat = (\<lambda>w. ((), w)), ke_heartbeat_lost = (\<lambda>w. (False, w)),
      ke_heartbeat_claim = (\<lambda>w. (first_claim
        \<lparr>kx_lock = sample_lock, kx_spec = sample_manifest, kx_input_digest = ''input'', kx_job_id = ''job-1'', kx_attempt = 1,
         kx_prior_job_terminal = False, kx_physical_started_at = None, kx_max_iterations = Some 3\<rparr> sample_controller 1000000, w)),
      ke_text = (\<lambda>e. ''failed''), ke_hash = sample_hash\<rparr>"

definition sample_setup :: controller_setup where
  "sample_setup =
     \<lparr>kx_lock = sample_lock, kx_spec = sample_manifest, kx_input_digest = ''input'', kx_job_id = ''job-1'', kx_attempt = 1,
      kx_prior_job_terminal = False, kx_physical_started_at = None, kx_max_iterations = Some 3\<rparr>"





text \<open>
  C20. A controller with a limit of iterations comes to an end: with more fuel than the limit, the
  run returns or raises, whatever its ports answer.
\<close>

theorem limited_controller_ends:
  assumes "kx_max_iterations k = Some m" and "nat m < fuel"
  shows "fst (run_controller fuel env k w) \<noteq> Inr None"
proof -
  have "wp (run_controller fuel env k) (\<lambda>r s. r \<noteq> Inr None) w" using run_ends [OF assms, of env] by (simp add: ends_def)
  then show ?thesis by (simp add: wp_def split: prod.splits)
qed

theorem limited_controller_ends_witness:
  "kx_max_iterations sample_setup = Some 3 \<and> fst (run_controller 4 idle_controller sample_setup ()) \<noteq> Inr None"
proof -
  have k: "kx_max_iterations sample_setup = Some 3" by (simp add: sample_setup_def)
  from limited_controller_ends [OF k, of 4] k show ?thesis by simp
qed

text \<open>
  C18. Billable work runs only under the capacity of its provider. When the controller applies an
  action that submits or retries a wave, it first acquires a capacity claim for that provider
  and action in the name of its Job; if that fails it applies nothing; if it succeeds, the
  action is applied at most once, and the same claim is released at the end, also when
  publishing the status or applying the action raises.
\<close>

theorem billable_work_holds_capacity:
  assumes "apply_admitted_action (traced_controller env) k owner lock (Some a) ctx blocked p at0 m capacity (w, []) = (r, (w', calls))"
    and "billable_action a"
  shows "calls = [] \<or>
    (\<exists>c. pc_provider c = ca_provider a \<and> pc_action_id c = ac_action_id a \<and> pc_campaign_id c = kc_campaign_id owner \<and>
       pc_job_id c = kc_job_id owner \<and> pc_attempt c = kc_attempt owner \<and>
       ((\<exists>e rest. calls = Capacity_acquired c (Inl e) # rest \<and> \<not> list_ex is_apply rest) \<or>
        (\<exists>others mid answer. calls = Capacity_acquired c (Inr ()) # others @ mid @ [Capacity_released c answer] \<and>
           \<not> list_ex is_apply others \<and>
           (mid = [] \<or> (\<exists>x. mid = [Action_applied (cl_campaign_id lock) (Some (ac_action_id a)) x])))))"
proof -
  have quiet: "\<not> list_ex is_apply rest" if "list_all ((=) Other_call) rest" for rest
    using that by (induction rest) auto
  from wp_addsD [OF apply_adds [OF assms(2)] assms(1)] consider "calls = []"
    | c e rest where "claims_action owner a c" "calls = Capacity_acquired c (Inl e) # rest" "list_all ((=) Other_call) rest"
    | c mid b where "claims_action owner a c" "calls = Capacity_acquired c (Inr ()) # mid @ [Capacity_released c b]" "applied_under lock a mid"
    by blast
  then show ?thesis
  proof cases
    case 2
    with quiet show ?thesis unfolding claims_action_def by blast
  next
    case 3
    from 3(3) obtain before after where "mid = before @ after" "\<not> list_ex is_apply before"
      "after = [] \<or> (\<exists>x. after = [Action_applied (cl_campaign_id lock) (Some (ac_action_id a)) x])"
      unfolding applied_under_def using quiet by (metis append_Nil2)
    with 3(1,2) show ?thesis unfolding claims_action_def by (metis append_assoc)
  qed simp
qed

definition sample_billable :: reconcile_action where
  "sample_billable =
     \<lparr>ca_kind = AK_submit_wave, ca_deployment_digest = ''dep'', ca_provider = ''p'', ca_wave_id = Some ''wave-1'',
      ca_shard_ids = [''s1''], ca_trial_ids = [''t1''], ca_target_ids = [], ca_estimated_cost_microusd = None,
      ca_spend_cap_microusd = None, ac_action_id = ''act'', ac_action_key = ''key'', ac_campaign_id = ''c''\<rparr>"

definition empty_projection :: recovery_projection where
  "empty_projection =
     \<lparr>rv_campaign = \<lparr>cp_campaign_id = ''c'', cp_plan_digest = ''pd'', cp_status = CS_active, cp_event_count = 0,
        cp_last_observed_at = 0, cp_actions = []\<rparr>, rv_runs = [], rv_shards = [], rv_trials = [], rv_executions = [],
      rv_waves = [], rv_spend_microusd = 0,
      rv_counts = \<lparr>pc_planned = 0, pc_active = 0, pc_retrying = 0, pc_complete = 0, pc_invalid = 0, pc_failed = 0,
        pc_cancelled = 0, pc_physical_retries = 0\<rparr>, rv_cancel_requested_at = None, rv_terminal_decision = None\<rparr>"

definition controller_owner :: controller_claim where
  "controller_owner = first_claim sample_setup sample_controller 1000000"

definition sample_apply :: "(controller_error + iteration_result) \<times> (unit \<times> controller_call list)" where
  "sample_apply = apply_admitted_action (traced_controller idle_controller) sample_setup controller_owner sample_lock (Some sample_billable)
     controller_context [] empty_projection 1000000 5 None ((), [])"

theorem billable_work_holds_capacity_witness:
  "length (filter is_apply (snd (snd sample_apply))) = 1 \<and>
   (\<exists>c before answer. pc_action_id c = ''act'' \<and> snd (snd sample_apply) = before @ [Capacity_released c answer])"
proof -
  obtain r w' calls where run: "sample_apply = (r, (w', calls))" by (metis prod.exhaust)
  have one: "length (filter is_apply (snd (snd sample_apply))) = 1" by code_simp
  then have "list_ex is_apply calls" unfolding run by (auto simp: list_ex_iff filter_eq_Cons_iff length_Suc_conv)
  with billable_work_holds_capacity [OF run [unfolded sample_apply_def]]
  obtain c before answer where "pc_action_id c = ''act''" "calls = before @ [Capacity_released c answer]"
    by (auto simp: billable_action_def sample_billable_def)
  then show ?thesis using one unfolding run by auto
qed

text \<open>
  C19. New work is admitted only when it fits the physical Job. If the controller admits an action
  that submits or retries a wave, then the whole seconds since the Job started, the reserve of
  the controller and the locked duration of that action together do not exceed the time limit
  of the Job, and the observed capacity has not invalidated the plan.
\<close>

theorem admitted_work_fits_the_job:
  assumes "admit_action env k lock (Some a) started_monotonic capacity w = (Inr Admit, w')" and "billable_action a"
  shows "\<exists>planned remote policy now.
    planned_action_seconds lock a = Inr planned \<and> es_remote (kx_spec k) = Some remote \<and>
    cl_controller_policy lock = Some policy \<and> fst (ke_monotonic env w) = now \<and>
    \<lfloor>now - started_monotonic\<rfloor> + cc_controller_reserve_seconds policy + planned \<le> rj_timeout_seconds remote \<and>
    (capacity = None \<or> (\<exists>e. capacity = Some e \<and> ce_assumptions_valid e))"
proof -
  obtain now w1 where now: "ke_monotonic env w = (now, w1)" by (rule prod.exhaust)
  from assms now obtain planned remote policy v where
    p: "planned_action_seconds lock a = Inr planned" "es_remote (kx_spec k) = Some remote" "cl_controller_policy lock = Some policy"
    and v: "v = \<lparr>ri_physical_started_monotonic = started_monotonic,
        ri_physical_timeout_seconds = rj_timeout_seconds remote, ri_monotonic_now = now,
        ri_controller_reserve_seconds = cc_controller_reserve_seconds policy,
        ri_planned_next_wave_seconds = Some planned, ri_work_remaining = True, ri_active_cleanup_required = False,
        ri_capacity_assumptions_valid = (case capacity of None \<Rightarrow> True | Some e \<Rightarrow> ce_assumptions_valid e),
        ri_policy_allows_work = True\<rparr>"
    and ok: "remaining_time_input_ok v" and admitted: "admission_outcome (rx_decision (decide_remaining_time v)) = Admit"
    by (auto simp: admit_action_def controller_remote_def io_bind_def io_result_def io_read_def io_require_def io_return_def
        require_def of_option_def Let_def split: sum.splits option.splits if_splits)
  from admitted have "rx_decision (decide_remaining_time v) = AD_admit" by (cases "rx_decision (decide_remaining_time v)") auto
  with admit_iff [OF ok] v p now show ?thesis by (auto split: option.splits)
qed

theorem admitted_work_fits_the_job_witness:
  "\<exists>planned. planned_action_seconds sample_lock sample_billable = Inr planned \<and> 0 + 900 + planned \<le> 10800"
proof -
  have "fst (admit_action idle_controller sample_setup sample_lock (Some sample_billable) 5 None ()) = Inr Admit" by code_simp
  then obtain w' where "admit_action idle_controller sample_setup sample_lock (Some sample_billable) 5 None () = (Inr Admit, w')"
    by (metis prod.collapse)
  from admitted_work_fits_the_job [OF this] show ?thesis
    by (auto simp: billable_action_def sample_billable_def sample_setup_def sample_manifest_def sample_remote_def sample_lock_def
        sample_controller_def idle_controller_def Let_def)
qed

text \<open>
  C22. Every status the controller publishes passes the validators of its class: for a valid claim
  (first or renewed), any projection with a spend that is not negative, and an action with
  identifiers, the heartbeat precedes the lease, the remaining time is not negative and the
  trial counts are consistent. The record is refused only for an empty reason.
\<close>

theorem published_status_is_valid:
  assumes "controller_claim_ok claim" and "0 \<le> rv_spend_microusd p"
    and "action = None \<or> (\<exists>a. action = Some a \<and> ac_action_id a \<noteq> [] \<and> ca_wave_id a \<noteq> Some [])"
  shows "controller_status_ok (status_for claim state p started_at timeout now elapsed action reason capacity) \<longleftrightarrow> reason \<noteq> Some []"
  using assms projection_counts_ok [of p]
  by (auto simp: controller_status_ok_def status_for_def controller_claim_ok_def opt_nonempty_def second_def max_def)

theorem published_status_is_valid_witness:
  "controller_claim_ok controller_owner \<and>
   controller_status_ok (status_for controller_owner KS_running empty_projection 0 3600 5 1 (Some sample_billable) None None)"
proof -
  have owner: "controller_claim_ok controller_owner" by code_simp
  have "controller_status_ok (status_for controller_owner KS_running empty_projection 0 3600 5 1 (Some sample_billable) None None) \<longleftrightarrow>
      None \<noteq> Some ([] :: string)"
    by (rule published_status_is_valid [OF owner]) (simp_all add: empty_projection_def sample_billable_def)
  with owner show ?thesis by simp
qed

section \<open>Successive records\<close>

text \<open>The claim after the heartbeats at the times of a list.\<close>

definition renewals :: "controller_claim \<Rightarrow> int \<Rightarrow> int list \<Rightarrow> controller_claim" where
  "renewals c stale ts = foldl (\<lambda>k t. renewed_claim k stale t) c ts"

lemma renewals_identity:
  "kc_campaign_id (renewals c stale ts) = kc_campaign_id c" "kc_job_id (renewals c stale ts) = kc_job_id c"
  "kc_plan_digest (renewals c stale ts) = kc_plan_digest c" "kc_attempt (renewals c stale ts) = kc_attempt c"
  "kc_acquired_at (renewals c stale ts) = kc_acquired_at c"
  by (induction ts rule: rev_induct) (simp_all add: renewals_def renewed_claim_def)

lemma renewals_heartbeat: "kc_heartbeat_at (renewals c stale ts) = last (kc_heartbeat_at c # ts)"
  by (induction ts rule: rev_induct) (simp_all add: renewals_def renewed_claim_def)

lemma renewals_valid:
  assumes "controller_claim_ok c" "0 < stale" "sorted_wrt (<) (kc_heartbeat_at c # ts)"
  shows "controller_claim_ok (renewals c stale ts)"
  using assms
proof (induction ts rule: rev_induct)
  case (snoc t ts)
  have "kc_acquired_at c \<le> t" using snoc.prems by (auto simp: controller_claim_ok_def sorted_wrt_append)
  with snoc renewals_identity [of c stale ts] show ?case
    by (auto simp: controller_claim_ok_def renewals_def renewed_claim_def second_def sorted_wrt_append)
qed (simp add: renewals_def)

lemma last_le_last:
  "sorted_wrt (<) (x # ts @ us) \<Longrightarrow> last (x # ts) \<le> last (x # ts @ us)" for x :: int
proof (cases us rule: rev_cases)
  case (snoc vs v)
  then show "sorted_wrt (<) (x # ts @ us) \<Longrightarrow> ?thesis"
    by (cases ts rule: rev_cases) (auto simp: sorted_wrt_append)
qed simp

text \<open>
  C21. The records of one controller are accepted by the store in the order it writes them. While
  the clock advances, each heartbeat keeps the identity of the claim and moves it forward, as
  the store requires, and the renewed claim is valid. A status published later, with the
  claim of that time, never counts as moving backwards behind one published earlier.
\<close>

theorem controller_records_move_forward:
  assumes "controller_claim_ok c" and "0 < stale" and "sorted_wrt (<) (kc_heartbeat_at c # ts @ t # us)"
    and "now1 \<le> now2"
  shows "heartbeat_identity_ok (renewals c stale ts) (renewals c stale (ts @ [t])) \<and>
    controller_claim_ok (renewals c stale (ts @ [t])) \<and>
    status_decision m (status_for (renewals c stale (ts @ t # us)) st2 p2 started timeout now2 e2 a2 b2 q2) path
      (Some (status_for (renewals c stale ts) st1 p1 started timeout now1 e1 a1 b1 q1)) \<noteq> Inl Status_moved_backwards"
proof (intro conjI)
  have "last (kc_heartbeat_at c # ts) < t"
    using assms(3) by (cases ts rule: rev_cases) (auto simp: sorted_wrt_append)
  then show "heartbeat_identity_ok (renewals c stale ts) (renewals c stale (ts @ [t]))"
    by (simp add: heartbeat_identity_ok_def renewals_identity renewals_heartbeat)
  show "controller_claim_ok (renewals c stale (ts @ [t]))"
    using assms by (intro renewals_valid) (auto simp: sorted_wrt_append)
  have "last (kc_heartbeat_at c # ts) \<le> last (kc_heartbeat_at c # ts @ t # us)"
    using assms(3) by (rule last_le_last)
  with assms(4) have "max now1 (last (kc_heartbeat_at c # ts)) \<le> max now2 (last (kc_heartbeat_at c # ts @ t # us))"
    by (rule max.mono)
  then show "status_decision m (status_for (renewals c stale (ts @ t # us)) st2 p2 started timeout now2 e2 a2 b2 q2) path
      (Some (status_for (renewals c stale ts) st1 p1 started timeout now1 e1 a1 b1 q1)) \<noteq> Inl Status_moved_backwards"
    by (auto simp: status_decision_def Let_def status_moves_backwards_def status_for_def renewals_identity renewals_heartbeat
        simp del: last.simps)
qed

theorem controller_records_move_forward_witness:
  "heartbeat_identity_ok (renewals controller_owner 300 []) (renewals controller_owner 300 [2000000])"
proof -
  have owner: "controller_claim_ok controller_owner" by code_simp
  have "sorted_wrt (<) (kc_heartbeat_at controller_owner # [] @ 2000000 # [])" by code_simp
  from controller_records_move_forward [OF owner _ this, of 300 0 0] show ?thesis by simp
qed

end
