(* ===== verification/Spec2Isabelle.thy ===== *)
theory Spec2Isabelle
  imports Claim_Properties Campaign_Store_Properties Controller_Store_Properties Endpoint_Properties Wave_Lock_Properties
    Controller_Watchdog_Properties Campaign_Controller_Properties
begin

text \<open>
  \<^bold>\<open>harbor-hf, the campaign control plane.\<close>

  harbor-hf runs agent benchmarks as campaigns on remote jobs. A campaign is locked once:
  its runs, shards and logical trials get content-addressed identities. Everything that
  happens afterwards is an append-only log of immutable events in a coordination repository
  on the Hub. Controllers project the log, plan the next actions against budgets, reserve
  them in the log and carry them out; workers append executions and outcomes. Several
  processes do this at the same time, with optimistic commits as the only synchronisation.

  \<^bold>\<open>Parts and theories.\<close>

  \<^item> \<open>Prelude\<close>, \<open>Text_Patterns\<close>, \<open>Canonical_Json\<close>: exceptions as values, loops, dictionaries,
    slices; string patterns; the canonical JSON serialiser and content digests.
  \<^item> \<open>Campaign_Lock\<close> (\<open>campaigns.py\<close>): the lock, its validators, partial wave costs
    (\<open>estimated_partial_wave_cost\<close>) and provider wave durations.
  \<^item> \<open>Control_Events\<close>, \<open>Control_Projection\<close>, \<open>Control_Properties\<close> (\<open>control.py\<close>): events with
    their validator, \<open>ordered_events\<close>, and \<open>project_campaign\<close>, the status machine and the
    action reservations.
  \<^item> \<open>Recovery\<close>, \<open>Recovery_Trace\<close>, \<open>Recovery_Trials\<close>, \<open>Recovery_Rollup\<close>,
    \<open>Recovery_Properties\<close> (\<open>recovery.py\<close>): \<open>project_recovery\<close>, from the log to waves,
    executions, trials, shards, runs, spend and the terminal decision; retry delays; partial
    sealing; durable cancellation and resolution requests.
  \<^item> \<open>Reconciler\<close>, \<open>Reconciler_Admission\<close>, \<open>Reconciler_Candidates\<close>, \<open>Reconciler_Properties\<close>
    (\<open>reconciler.py\<close>): \<open>plan_reconciliation\<close>, the candidates for cleanup, retries, new waves
    and publication, and their admission against wave and spend budgets.
  \<^item> \<open>Hub_Repository\<close>, \<open>Sample_Hub\<close>: the Hub client as the stores use it, and the optimistic
    commit loop that every store operation repeats.
  \<^item> \<open>Claim_Store\<close>, \<open>Claim_Properties\<close> (\<open>coordination.py\<close>): \<open>HubClaimStore\<close>.
  \<^item> \<open>Campaign_Store\<close>, \<open>Campaign_Store_Atomic\<close>, \<open>Campaign_Store_Properties\<close>
    (\<open>control.py\<close>): \<open>HubCampaignStore\<close>, creation of campaigns, immutable events, the
    cancellation guard, action reservations and snapshots.
  \<^item> \<open>Controller_Store\<close>, \<open>Controller_Store_Properties\<close> (\<open>controller_status.py\<close>): the records
    of the campaign controller and \<open>HubControllerStateStore\<close>.
  \<^item> \<open>Experiment_Spec\<close>, \<open>Experiment_Validation\<close> (\<open>models.py\<close>, \<open>planner.py\<close>,
    \<open>benchmark_source.py\<close>, \<open>provider_agents.py\<close>): the manifest, its validators and digest,
    matrix cells, source locks, deployment digests, endpoint identities.
  \<^item> \<open>Campaign_Planning\<close>, \<open>Campaign_Planning_Facts\<close>, \<open>Campaign_Planning_Properties\<close>,
    \<open>Wave_Planning_Properties\<close> (\<open>campaigns.py\<close>): \<open>build_campaign_plan\<close> and
    \<open>build_campaign_lock\<close>, that they fit their own validators and cover the matrix, and how
    the locked waves relate to the planned ones and to the waves of the reconciler.
  \<^item> \<open>Run_Lock\<close> (\<open>runs.py\<close>), \<open>Wave_Lock\<close>, \<open>Wave_Actions\<close>, \<open>Wave_Lock_Properties\<close>
    (\<open>campaigns.py\<close>): \<open>build_run_lock\<close> and \<open>build_wave_lock\<close>, from an action of the
    reconciler to the configuration a worker runs.
  \<^item> \<open>Polling\<close>, \<open>Endpoint_Config\<close>, \<open>Endpoint_Provisioner\<close>, \<open>Endpoint_Calls\<close>,
    \<open>Endpoint_Properties\<close> (\<open>endpoints.py\<close>) and \<open>Hf_Endpoint_Adapter\<close>
    (\<open>hf_endpoints.py\<close>): desired endpoints, their exact comparison, and provisioning,
    pausing and deleting over a provider port; the calls an operation makes are recorded by
    \<open>traced\<close>.
  \<^item> \<open>Io_Logic\<close>: weakest preconditions of programs on a world, and the recording of calls, with
    rules that compose what the parts of a program call (\<open>wp_adds\<close>, the locale \<open>quiet_prefix\<close>).
  \<^item> \<open>Job_Commands\<close>, \<open>Controller_Launch\<close>, \<open>Controller_Launch_Properties\<close>
    (\<open>submission.py\<close>): the commands and secrets of remote Jobs, and the launch of a reserved
    controller attempt, over the protocol of the controller records (\<open>'w state_store\<close>), which
    \<open>hub_state_store\<close> implements.
  \<^item> \<open>Controller_Watchdog\<close>, \<open>Controller_Watchdog_Properties\<close> (\<open>campaign_watchdog.py\<close>): when
    and how a lost controller is replaced.
  \<^item> \<open>Controller_Admission\<close>, \<open>Campaign_Controller\<close>, \<open>Campaign_Controller_Properties\<close>
    (\<open>controller_admission.py\<close>, \<open>campaign_controller.py\<close>): one attempt of the controller: its
    claim, iterations, admission of work, provider capacity, published status and end.
  \<^item> \<open>Sample_Campaign\<close>, \<open>Sample_Manifest\<close>: a concrete campaign and manifest on which the
    witnesses evaluate the model.

  \<^bold>\<open>How the model corresponds to the code.\<close> A class is a record or a datatype with the fields
  and cases of the source, a function or method is one definition with the same name, an
  exception is a constructor of the component's error type and a raise is \<open>Inl\<close> of it. A
  pydantic constraint is a predicate \<open>..._ok\<close>. A \<open>dict\<close> is an association list in insertion
  order. Integers are unbounded, as in Python; timestamps are microseconds. Code that is not
  part of the repository is an argument: the hash function \<open>h\<close>, \<open>fromisoformat\<close>, the
  codecs of pydantic models (\<open>models\<close>, \<open>'m model\<close>) and the Hub client (\<open>'w hub\<close>).

  \<^bold>\<open>The Hub client.\<close> \<open>hub_contract hub others history\<close> is the hypothesis of the store
  theorems: each call sees some state of the history of commits, between two calls other
  processes may commit any change allowed by \<open>others\<close>, a commit on a parent that is not the
  head is refused, an answer may be lost after the commit was applied. The locale
  \<open>atomic_operation\<close> shows once that an operation built on the commit loop refines one atomic
  step (\<open>atomic_run\<close>); every store operation interprets it. The in-memory repository of
  \<open>Sample_Hub\<close> satisfies the contract and carries the witnesses.

  \<^bold>\<open>Endpoint provider and clock.\<close> The provider of endpoints is a record of calls on a world
  (\<open>'w endpoint_port\<close>) with a clock; \<open>port_contract\<close> says that the clock never runs
  backwards and that a sleep lasts at least as long as asked. The Hugging Face adapter is an
  instance for every API client. Times are rational numbers: the rounding of floating point
  is not modelled.

  \<^bold>\<open>Bounds.\<close> Commit loops try eight times and event batches hold fifty events, as in the
  source (\<open>max_commit_attempts\<close>, \<open>max_event_batch_operations\<close>). The loop of the controller has
  fuel, and \<open>None\<close> is a run that did not end within it; with a limit of iterations any fuel
  above the limit is enough (\<open>limited_controller_ends\<close>). Polling loops are partial functions in the option type, where \<open>None\<close> is a loop that never ends;
  that they return is proved (\<open>provisioning_terminates\<close>). Every other loop is structural
  recursion over its input.

  \<^bold>\<open>Calls.\<close> The theorems about launches, the watchdog and the controller hold for arbitrary
  answers of their ports: \<open>traced_launcher\<close>, \<open>traced_watchdog\<close> and \<open>traced_controller\<close> wrap the
  ports of any world and record each call with its answer.

  \<^bold>\<open>Numbers and strings.\<close> JSON numbers are integers, decimals are exact (the code's context
  of 28 digits holds every amount in use), and strings are code points below 256.

  \<^bold>\<open>Not modelled.\<close> Processes, HTTP proxies, files and subprocesses (workers, judge recorder,
  provider proxy, benchmark bundles), the execution of single actions against remote services,
  the publication of result datasets, the command line, and the TypeScript applications.
  Operations that use floating point (\<open>assess_observed_capacity\<close>) are arguments. Threads are
  not modelled: the heartbeat is given by one turn of its loop.
\<close>

end
